(* ===== verification/Prelude.thy ===== *)
theory Prelude imports Main "HOL-Library.AList" begin

text \<open>
  Shared vocabulary of the development: JavaScript objects used as dictionaries, JavaScript
  truthiness of strings and numbers, the spread operator, and the generic lemmas and
  collections that the component theories use.

  A dictionary object \<open>{[key: string]: T}\<close> is an association list in insertion order, which
  is the order \<open>Object.keys\<close> and \<open>Object.values\<close> report for the identifiers the plugin
  uses (26-character ids, never array indices). Writing an existing key keeps its position,
  writing a new one appends it, \<open>delete\<close> removes it. Reading an absent key gives
  \<open>undefined\<close>, here \<open>None\<close>.
\<close>

named_theorems obj_simps \<open>lookup, keys and well-formedness of dictionary objects\<close>
named_theorems slice_defs \<open>definitions of the reducers of the store's slices\<close>
named_theorems wf_intros \<open>every operation keeps dictionaries well formed\<close>

section \<open>Errors\<close>

text \<open>
  What the code throws: reading a property of \<open>undefined\<close>, or an \<open>Error\<close> of its own with its
  message.
\<close>

datatype error = TypeError string | Error string

section \<open>JSON values\<close>

text \<open>Values whose shape the code inspects or builds at run time; numbers are integers.\<close>

datatype json =
    JNull
  | JBool bool
  | JNum int
  | JStr string
  | JArr "json list"
  | JObj "(string \<times> json) list"

section \<open>Dictionary objects\<close>

type_synonym ('k, 'v) obj = "('k \<times> 'v) list"

definition obj_get :: "('k, 'v) obj \<Rightarrow> 'k \<Rightarrow> 'v option" where
  "obj_get m k = map_of m k"

definition obj_set :: "'k \<Rightarrow> 'v \<Rightarrow> ('k, 'v) obj \<Rightarrow> ('k, 'v) obj" where
  "obj_set k v m = AList.update k v m"

definition obj_del :: "'k \<Rightarrow> ('k, 'v) obj \<Rightarrow> ('k, 'v) obj" where
  "obj_del k m = AList.delete k m"

text \<open>\<open>{...a, ...b}\<close>: the entries of \<open>b\<close> are written over those of \<open>a\<close>, in order.\<close>

definition obj_spread :: "('k, 'v) obj \<Rightarrow> ('k, 'v) obj \<Rightarrow> ('k, 'v) obj" where
  "obj_spread a b = fold (\<lambda>(k, v). obj_set k v) b a"

definition obj_keys :: "('k, 'v) obj \<Rightarrow> 'k list" where
  "obj_keys m = map fst m"

definition obj_values :: "('k, 'v) obj \<Rightarrow> 'v list" where
  "obj_values m = map snd m"

text \<open>An object has each key once.\<close>

definition wf_obj :: "('k, 'v) obj \<Rightarrow> bool" where
  "wf_obj m \<longleftrightarrow> distinct (map fst m)"

text \<open>\<open>state[key] || {}\<close>: an absent dictionary reads as the empty one.\<close>

definition obj_or_empty :: "('k, 'v) obj option \<Rightarrow> ('k, 'v) obj" where
  "obj_or_empty x = (case x of None \<Rightarrow> [] | Some m \<Rightarrow> m)"

lemma obj_get_Nil [simp, obj_simps]: "obj_get [] k = None"
  by (simp add: obj_get_def)

lemma obj_get_set [simp, obj_simps]:
  "obj_get (obj_set k v m) k' = (if k' = k then Some v else obj_get m k')"
  by (simp add: obj_get_def obj_set_def update_conv)

lemma obj_get_del [simp, obj_simps]:
  "obj_get (obj_del k m) k' = (if k' = k then None else obj_get m k')"
  by (simp add: obj_get_def obj_del_def delete_conv)

lemma obj_get_Cons [obj_simps]:
  "obj_get ((k, v) # m) k' = (if k' = k then Some v else obj_get m k')"
  by (simp add: obj_get_def)

lemma obj_get_in_values: "obj_get m k = Some v \<Longrightarrow> v \<in> set (obj_values m)"
  by (force simp: obj_get_def obj_values_def dest: map_of_SomeD)

lemma obj_get_in_entries: "obj_get m k = Some v \<Longrightarrow> (k, v) \<in> set m"
  by (simp add: obj_get_def map_of_SomeD)

lemma obj_get_iff_entry: "wf_obj m \<Longrightarrow> obj_get m k = Some v \<longleftrightarrow> (k, v) \<in> set m"
  by (simp add: obj_get_def wf_obj_def)

lemma obj_get_None_iff: "obj_get m k = None \<longleftrightarrow> k \<notin> set (obj_keys m)"
  by (simp add: obj_get_def obj_keys_def map_of_eq_None_iff)

lemma obj_keys_set [obj_simps]:
  "obj_keys (obj_set k v m) = (if k \<in> set (obj_keys m) then obj_keys m else obj_keys m @ [k])"
  by (simp add: obj_keys_def obj_set_def update_keys)

lemma obj_keys_simps [simp]: "obj_keys [] = []" "obj_keys ((k, v) # m) = k # obj_keys m"
  by (simp_all add: obj_keys_def)

lemma set_keys_set: "set (obj_keys (obj_set k v m)) = insert k (set (obj_keys m))"
  by (auto simp: obj_keys_set)

lemma obj_keys_del [obj_simps]: "obj_keys (obj_del k m) = removeAll k (obj_keys m)"
  by (simp add: obj_keys_def obj_del_def delete_keys)

lemma length_obj_keys [simp, obj_simps]: "length (obj_keys m) = length m"
  by (simp add: obj_keys_def)

lemma length_obj_values [simp, obj_simps]: "length (obj_values m) = length m"
  by (simp add: obj_values_def)

lemma wf_obj_Nil [simp, wf_intros]: "wf_obj []"
  by (simp add: wf_obj_def)

lemma wf_obj_single [simp, wf_intros]: "wf_obj [(k, v)]"
  by (simp add: wf_obj_def)

lemma wf_obj_set [simp, wf_intros]: "wf_obj m \<Longrightarrow> wf_obj (obj_set k v m)"
  by (simp add: wf_obj_def obj_set_def distinct_update)

lemma wf_obj_del [simp, wf_intros]: "wf_obj m \<Longrightarrow> wf_obj (obj_del k m)"
  by (simp add: wf_obj_def obj_del_def distinct_delete)

lemma obj_spread_Nil [simp]: "obj_spread a [] = a"
  by (simp add: obj_spread_def)

lemma obj_spread_Cons [simp]: "obj_spread a ((k, v) # b) = obj_spread (obj_set k v a) b"
  by (simp add: obj_spread_def)

lemma wf_obj_spread [simp, wf_intros]: "wf_obj a \<Longrightarrow> wf_obj (obj_spread a b)"
  by (induction b arbitrary: a) auto

lemma obj_get_spread:
  "wf_obj b \<Longrightarrow>
   obj_get (obj_spread a b) k = (case obj_get b k of None \<Rightarrow> obj_get a k | Some v \<Rightarrow> Some v)"
proof (induction b arbitrary: a)
  case Nil
  then show ?case by simp
next
  case (Cons p b)
  obtain k0 v0 where p: "p = (k0, v0)" by (cases p)
  from Cons.prems p have wf: "wf_obj b" and new: "obj_get b k0 = None"
    by (auto simp: wf_obj_def obj_get_def map_of_eq_None_iff)
  show ?case
    using Cons.IH [OF wf, of "obj_set k0 v0 a"] new
    by (auto simp: p obj_get_Cons split: option.splits)
qed

lemma wf_obj_or_empty [wf_intros]: "(\<And>m. x = Some m \<Longrightarrow> wf_obj m) \<Longrightarrow> wf_obj (obj_or_empty x)"
  by (cases x) (auto simp: obj_or_empty_def)

lemma obj_or_empty_simps [simp]: "obj_or_empty None = []" "obj_or_empty (Some m) = m"
  by (simp_all add: obj_or_empty_def)

lemma values_set:
  "set (obj_values (obj_set k v m)) \<subseteq> insert v (set (obj_values m))"
  by (induction m) (auto simp: obj_set_def obj_values_def)

lemma values_del: "set (obj_values (obj_del k m)) \<subseteq> set (obj_values m)"
  by (induction m) (auto simp: obj_del_def obj_values_def AList.delete_eq)

lemma length_obj_set [obj_simps]:
  "length (obj_set k v m) = (if obj_get m k = None then Suc (length m) else length m)"
  by (induction m) (auto simp: obj_set_def obj_get_def)

lemma obj_del_absent: "obj_get m k = None \<Longrightarrow> obj_del k m = m"
  by (induction m) (auto simp: obj_del_def obj_get_def split: if_splits)

lemma length_obj_del:
  "wf_obj m \<Longrightarrow> obj_get m k \<noteq> None \<Longrightarrow> Suc (length (obj_del k m)) = length m"
proof (induction m)
  case Nil
  then show ?case by simp
next
  case (Cons p m)
  obtain k0 v0 where p: "p = (k0, v0)" by (cases p)
  from Cons.prems p have wf: "wf_obj m" and new: "obj_get m k0 = None"
    by (auto simp: wf_obj_def obj_get_def map_of_eq_None_iff)
  show ?case
  proof (cases "k0 = k")
    case True
    then have "obj_del k (p # m) = obj_del k m" by (simp add: obj_del_def p)
    with True new show ?thesis by (simp add: obj_del_absent)
  next
    case False
    then have "obj_del k (p # m) = p # obj_del k m" by (simp add: obj_del_def p)
    with False Cons.IH [OF wf] Cons.prems show ?thesis by (simp add: p obj_get_Cons)
  qed
qed

section \<open>Folds\<close>

text \<open>What every step keeps, the fold keeps.\<close>

lemma fold_keeps: "(\<And>x s. g (f x s) = g s) \<Longrightarrow> g (fold f xs s) = g s"
  by (induction xs arbitrary: s) simp_all

lemma fold_inv: "P s \<Longrightarrow> (\<And>x s. P s \<Longrightarrow> P (f x s)) \<Longrightarrow> P (fold f xs s)"
  by (induction xs arbitrary: s) simp_all

text \<open>What one step establishes and every step keeps holds after the fold.\<close>

lemma fold_establish:
  "x \<in> set xs \<Longrightarrow> (\<And>s. P (f x s)) \<Longrightarrow> (\<And>y s. P s \<Longrightarrow> P (f y s)) \<Longrightarrow> P (fold f xs s)"
  by (induction xs arbitrary: s) (auto intro: fold_inv)

end
