(* ===== verification/CallTypes.thy ===== *)
theory CallTypes imports Prelude begin

text \<open>
  The data of the web application: the types of \<open>webapp/src/types/types.ts\<close>, the slice types
  of \<open>webapp/src/reducers.ts\<close> and the Redux actions of \<open>webapp/src/action_types.ts\<close>.

  A field that TypeScript marks optional, or that the code can leave out by spreading an absent
  object, is an \<open>option\<close>, \<open>None\<close> for \<open>undefined\<close> (and for \<open>null\<close>: the code only tests
  such fields for truthiness). Timestamps and durations are \<open>int\<close>: the code adds, subtracts
  and compares them far below the range where JavaScript numbers lose integer precision.
\<close>

section \<open>Reactions, sessions and captions\<close>

record reaction =
  rc_user_id :: string
  rc_session_id :: string
  rc_emoji :: string
  rc_timestamp :: int
  rc_displayName :: string

text \<open>
  One participant's connection. Every field is optional, because spreading an absent session
  (\<open>{...state[ch][sid], unmuted: false}\<close>) makes an object that has only the written field.
\<close>

record user_session =
  us_session_id :: "string option"
  us_user_id :: "string option"
  us_unmuted :: "bool option"
  us_voice :: "bool option"
  us_video :: "bool option"
  us_raised_hand :: "int option"
  us_reaction :: "reaction option"

definition empty_session :: user_session where
  "empty_session = \<lparr>us_session_id = None, us_user_id = None, us_unmuted = None, us_voice = None,
     us_video = None, us_raised_hand = None, us_reaction = None\<rparr>"

text \<open>\<open>{...x}\<close> for a session that may be absent.\<close>

definition spread_session :: "user_session option \<Rightarrow> user_session" where
  "spread_session x = (case x of None \<Rightarrow> empty_session | Some s \<Rightarrow> s)"

record live_caption =
  lc_channel_id :: string
  lc_session_id :: string
  lc_user_id :: string
  lc_text :: string
  lc_display_name :: string
  lc_caption_id :: string

section \<open>Calls, hosts, jobs and notices\<close>

record call_info =
  ci_ID :: string
  ci_startAt :: int
  ci_channelID :: string
  ci_threadID :: string
  ci_ownerID :: string
  ci_hostID :: "string option"

record host_entry =
  he_hostID :: string
  he_hostChangeAt :: "int option"

text \<open>Recording or live captions job; \<open>CallJobReduxState\<close> with the job's type.\<close>

record job_state =
  jb_type :: "string option"
  jb_init_at :: "int option"
  jb_start_at :: "int option"
  jb_end_at :: "int option"
  jb_err :: "string option"
  jb_error_at :: "int option"
  jb_prompt_dismissed_at :: "int option"

definition empty_job :: job_state where
  "empty_job = \<lparr>jb_type = None, jb_init_at = None, jb_start_at = None, jb_end_at = None,
     jb_err = None, jb_error_at = None, jb_prompt_dismissed_at = None\<rparr>"

definition over :: "'a option \<Rightarrow> 'a option \<Rightarrow> 'a option" where
  "over x y = (case y of None \<Rightarrow> x | Some v \<Rightarrow> Some v)"

lemma over_simps [simp]: "over x None = x" "over x (Some v) = Some v" "over None y = y"
  by (auto simp: over_def split: option.splits)

text \<open>
  \<open>{...a, ...b}\<close> on job states that may be absent or \<open>null\<close>: a field of \<open>b\<close> wins where it
  is present.
\<close>

definition spread_job :: "job_state option \<Rightarrow> job_state option \<Rightarrow> job_state" where
  "spread_job a b =
     (let x = (case a of None \<Rightarrow> empty_job | Some j \<Rightarrow> j);
          y = (case b of None \<Rightarrow> empty_job | Some j \<Rightarrow> j)
      in \<lparr>jb_type = over (jb_type x) (jb_type y),
          jb_init_at = over (jb_init_at x) (jb_init_at y),
          jb_start_at = over (jb_start_at x) (jb_start_at y),
          jb_end_at = over (jb_end_at x) (jb_end_at y),
          jb_err = over (jb_err x) (jb_err y),
          jb_error_at = over (jb_error_at x) (jb_error_at y),
          jb_prompt_dismissed_at = over (jb_prompt_dismissed_at x) (jb_prompt_dismissed_at y)\<rparr>)"

lemma spread_job_None [simp]: "spread_job (Some j) None = j"
  by (simp add: spread_job_def empty_job_def)

datatype channel_type = DM | GM

record incoming_call =
  ic_callID :: string
  ic_channelID :: string
  ic_callerID :: string
  ic_startAt :: int
  ic_type :: channel_type

datatype notice_type = LowerHand | HostChanged | HostRemoved

record host_notice =
  hn_type :: notice_type
  hn_callID :: string
  hn_noticeID :: string
  hn_displayName :: string
  hn_userID :: "string option"

record channel_state =
  ch_id :: string
  ch_enabled :: "bool option"

section \<open>Configuration\<close>

record calls_config =
  ICEServers :: "string list"
  ICEServersConfigs :: "string list"
  DefaultEnabled :: bool
  MaxCallParticipants :: int
  NeedsTURNCredentials :: bool
  AllowScreenSharing :: bool
  EnableRecordings :: bool
  MaxRecordingDuration :: int
  sku_short_name :: string
  EnableSimulcast :: bool
  EnableRinging :: bool
  EnableTranscriptions :: bool
  EnableLiveCaptions :: bool
  HostControlsAllowed :: bool
  EnableAV1 :: bool
  TranscribeAPI :: string
  GroupCallsAllowed :: bool
  EnableDCSignaling :: bool
  EnableVideo :: bool

text \<open>
  The default of the transcription API is the \<open>WhisperCPP\<close> member of an enum of the
  calls-common package; its string is a parameter.
\<close>

definition CallsConfigDefault :: "string \<Rightarrow> calls_config" where
  "CallsConfigDefault whisperCPP = \<lparr>
     ICEServers = [],
     ICEServersConfigs = [],
     DefaultEnabled = False,
     MaxCallParticipants = 0,
     NeedsTURNCredentials = False,
     AllowScreenSharing = True,
     EnableRecordings = False,
     MaxRecordingDuration = 60,
     sku_short_name = '''',
     EnableSimulcast = False,
     EnableRinging = True,
     EnableTranscriptions = False,
     EnableLiveCaptions = False,
     HostControlsAllowed = False,
     EnableAV1 = False,
     TranscribeAPI = whisperCPP,
     GroupCallsAllowed = False,
     EnableDCSignaling = False,
     EnableVideo = False\<rparr>"

record user_preferences =
  joinSoundParticipantsThreshold :: int

definition CallsUserPreferencesDefault :: user_preferences where
  "CallsUserPreferencesDefault = \<lparr>joinSoundParticipantsThreshold = 8\<rparr>"

record switch_modal =
  sm_show :: bool
  sm_targetID :: "string option"

record client_state =
  cl_channelID :: string
  cl_sessionID :: string

section \<open>Constants\<close>

definition MAX_NUM_REACTIONS_IN_REACTION_STREAM :: nat where
  "MAX_NUM_REACTIONS_IN_REACTION_STREAM = 50"

definition REACTION_TIMEOUT_IN_REACTION_STREAM :: int where
  "REACTION_TIMEOUT_IN_REACTION_STREAM = 10000"

definition JOINED_USER_NOTIFICATION_TIMEOUT :: int where
  "JOINED_USER_NOTIFICATION_TIMEOUT = 5000"

definition RING_LENGTH :: int where
  "RING_LENGTH = 30000"

definition LIVE_CAPTION_TIMEOUT :: int where
  "LIVE_CAPTION_TIMEOUT = 5000"

definition HOST_CONTROL_NOTICE_TIMEOUT :: int where
  "HOST_CONTROL_NOTICE_TIMEOUT = 5000"

section \<open>Actions\<close>

text \<open>
  One constructor per action type, with the fields of its \<open>data\<close> that a reducer reads.
  \<open>OTHER_ACTION\<close> is an action of the host application, or one with an empty type, which every
  slice ignores.
\<close>

datatype (plugins only: code size) action =
    UNINIT
  | RECEIVED_CHANNEL_STATE channel_state
  | DESKTOP_WIDGET_CONNECTED string string \<comment> \<open>channel, session\<close>
  | USER_JOINED string string string \<comment> \<open>channel, user, session\<close>
  | USER_LEFT string string string
  | CALL_END string string \<comment> \<open>channel, call\<close>
  | USERS_STATES string "(string, user_session) obj"
  | USER_MUTED string string string
  | USER_UNMUTED string string string
  | USER_VOICE_ON string string string
  | USER_VOICE_OFF string string string
  | USER_RAISE_HAND string string string "int option"
  | USER_LOWER_HAND string string string "int option"
  | USER_REACTED string string string "reaction option"
  | USER_REACTED_TIMEOUT string string string "reaction option"
  | USER_VIDEO_ON string string string
  | USER_VIDEO_OFF string string string
  | LIVE_CAPTION live_caption
  | LIVE_CAPTION_TIMEOUT_EVENT string string string \<comment> \<open>channel, session, caption\<close>
  | LOCAL_SESSION_CLOSE string
  | CALL_RECORDING_STATE string "job_state option"
  | CALL_REC_PROMPT_DISMISSED string int
  | CALL_LIVE_CAPTIONS_STATE string "job_state option"
  | CALL_STATE call_info
  | CALL_HOST string string int \<comment> \<open>channel, host, hostChangeAt\<close>
  | USER_SCREEN_ON string string \<comment> \<open>channel, session\<close>
  | USER_SCREEN_OFF string string
  | SHOW_EXPANDED_VIEW
  | HIDE_EXPANDED_VIEW
  | SHOW_SWITCH_CALL_MODAL "string option"
  | HIDE_SWITCH_CALL_MODAL
  | SHOW_SCREEN_SOURCE_MODAL
  | HIDE_SCREEN_SOURCE_MODAL
  | RECEIVED_CALLS_CONFIG calls_config
  | RECORDINGS_ENABLED bool
  | TRANSCRIPTIONS_ENABLED bool
  | LIVE_CAPTIONS_ENABLED bool
  | TRANSCRIBE_API string
  | RECEIVED_CALLS_CONFIG_ENV_OVERRIDES "(string, string) obj"
  | RECEIVED_CALLS_VERSION_INFO "(string, string) obj"
  | RTCD_ENABLED bool
  | RECEIVED_CALLS_USER_PREFERENCES user_preferences
  | USER_JOINED_TIMEOUT string string \<comment> \<open>channel, user\<close>
  | ADD_INCOMING_CALL incoming_call
  | REMOVE_INCOMING_CALL string
  | RINGING_FOR_CALL string
  | DID_RING_FOR_CALL string
  | DID_NOTIFY_FOR_CALL string
  | DISMISS_CALL string
  | CLIENT_CONNECTING bool
  | HOST_CONTROL_NOTICE host_notice
  | HOST_CONTROL_NOTICE_TIMEOUT_EVENT string string \<comment> \<open>call, notice\<close>
  | OTHER_ACTION

text \<open>
  The channel an action is about: the key of the per-channel dictionaries that the slices write.
  Recording and captions jobs are keyed by the channel too (their \<open>callID\<close> is a channel id).
\<close>

fun action_channel :: "action \<Rightarrow> string option" where
  "action_channel (USER_JOINED ch uid sid) = Some ch"
| "action_channel (USER_LEFT ch uid sid) = Some ch"
| "action_channel (CALL_END ch callID) = Some ch"
| "action_channel (USERS_STATES ch states) = Some ch"
| "action_channel (USER_MUTED ch uid sid) = Some ch"
| "action_channel (USER_UNMUTED ch uid sid) = Some ch"
| "action_channel (USER_VOICE_ON ch uid sid) = Some ch"
| "action_channel (USER_VOICE_OFF ch uid sid) = Some ch"
| "action_channel (USER_RAISE_HAND ch uid sid hand) = Some ch"
| "action_channel (USER_LOWER_HAND ch uid sid hand) = Some ch"
| "action_channel (USER_REACTED ch uid sid r) = Some ch"
| "action_channel (USER_REACTED_TIMEOUT ch uid sid r) = Some ch"
| "action_channel (USER_VIDEO_ON ch uid sid) = Some ch"
| "action_channel (USER_VIDEO_OFF ch uid sid) = Some ch"
| "action_channel (LIVE_CAPTION c) = Some (lc_channel_id c)"
| "action_channel (LIVE_CAPTION_TIMEOUT_EVENT ch sid capID) = Some ch"
| "action_channel (LOCAL_SESSION_CLOSE ch) = Some ch"
| "action_channel (CALL_RECORDING_STATE ch j) = Some ch"
| "action_channel (CALL_REC_PROMPT_DISMISSED ch t) = Some ch"
| "action_channel (CALL_LIVE_CAPTIONS_STATE ch j) = Some ch"
| "action_channel (CALL_STATE c) = Some (ci_channelID c)"
| "action_channel (CALL_HOST ch host t) = Some ch"
| "action_channel (USER_SCREEN_ON ch sid) = Some ch"
| "action_channel (USER_SCREEN_OFF ch sid) = Some ch"
| "action_channel (USER_JOINED_TIMEOUT ch uid) = Some ch"
| "action_channel _ = None"

text \<open>\<open>UNINIT\<close> resets the entries of every channel.\<close>

definition touches :: "action \<Rightarrow> string \<Rightarrow> bool" where
  "touches a ch \<longleftrightarrow> a = UNINIT \<or> action_channel a = Some ch"

end
