(* ===== verification/Slices.thy ===== *)
theory Slices imports Prelude begin

text \<open>
  The contracts that the slices of the Redux store share, as locales.

  \<^item> \<open>inv_slice\<close>: a reducer with an invariant that every admissible action keeps; a run of
    admissible actions (and a batch of them) keeps it.
  \<^item> \<open>channel_slice\<close>: a reducer whose state has one entry per channel, where an action changes
    the entries of the channels it touches only, and changes each from that entry alone. Then
    the entry of a channel after a run depends on the actions for that channel only.
  \<^item> \<open>timed_items\<close>: items that are added and later expired by a timer set when they were added.

  Each is interpreted in the theory of the slices that provide it.
\<close>

section \<open>Runs\<close>

text \<open>A projection that commutes with the steps commutes with the runs.\<close>

lemma run_proj:
  "(\<And>s a. f (step s a) = step' (f s) a) \<Longrightarrow> f (foldl step s as) = foldl step' (f s) as"
  by (induction as arbitrary: s) simp_all

section \<open>Invariants of a reducer\<close>

locale inv_slice =
  fixes step :: "'s \<Rightarrow> 'a \<Rightarrow> 's"
    and inv :: "'s \<Rightarrow> bool"
    and ok :: "'a \<Rightarrow> bool"
  assumes step_inv: "inv s \<Longrightarrow> ok a \<Longrightarrow> inv (step s a)"
begin

lemma run_inv: "inv s \<Longrightarrow> list_all ok as \<Longrightarrow> inv (foldl step s as)"
  by (induction as arbitrary: s) (auto intro: step_inv)

end

section \<open>Invariants of a step relation\<close>

text \<open>
  A step relation with a predicate that its steps keep; then every state reached from one that
  satisfies it does.
\<close>

locale stable_steps =
  fixes step :: "'s \<Rightarrow> 's \<Rightarrow> bool"
    and inv :: "'s \<Rightarrow> bool"
  assumes step_stable: "step s s' \<Longrightarrow> inv s \<Longrightarrow> inv s'"
begin

lemma steps_stable: "step\<^sup>*\<^sup>* s s' \<Longrightarrow> inv s \<Longrightarrow> inv s'"
  by (induction rule: rtranclp_induct) (auto intro: step_stable)

end

section \<open>Slices keyed by channel\<close>

locale channel_slice =
  fixes step :: "'s \<Rightarrow> 'a \<Rightarrow> 's"
    and entry :: "'s \<Rightarrow> 'c \<Rightarrow> 'e"
    and touches :: "'a \<Rightarrow> 'c \<Rightarrow> bool"
  assumes frame: "\<not> touches a c \<Longrightarrow> entry (step s a) c = entry s c"
    and local_step: "entry s c = entry t c \<Longrightarrow> entry (step s a) c = entry (step t a) c"
begin

lemma run_frame:
  "list_all (\<lambda>a. \<not> touches a c) as \<Longrightarrow> entry (foldl step s as) c = entry s c"
proof (induction as arbitrary: s)
  case Nil
  then show ?case by simp
next
  case (Cons a as)
  from Cons.prems have a: "\<not> touches a c" and rest: "list_all (\<lambda>a. \<not> touches a c) as"
    by simp_all
  show ?case using Cons.IH [OF rest, of "step s a"] frame [OF a] by simp
qed

lemma run_local:
  "entry s c = entry t c \<Longrightarrow> entry (foldl step s as) c = entry (foldl step t as) c"
proof (induction as arbitrary: s t)
  case Nil
  then show ?case by simp
next
  case (Cons a as)
  have "entry (step s a) c = entry (step t a) c"
    by (rule local_step [OF Cons.prems])
  then have "entry (foldl step (step s a) as) c = entry (foldl step (step t a) as) c"
    by (rule Cons.IH)
  then show ?case by simp
qed

text \<open>The entry of a channel is what the actions for that channel, in their order, make of it.\<close>

lemma run_filter:
  "entry (foldl step s as) c = entry (foldl step s (filter (\<lambda>a. touches a c) as)) c"
proof (induction as arbitrary: s)
  case Nil
  show ?case by simp
next
  case (Cons a as)
  show ?case
  proof (cases "touches a c")
    case True
    then show ?thesis by (simp add: Cons.IH)
  next
    case False
    then have "entry (foldl step (step s a) as) c = entry (foldl step s as) c"
      by (intro run_local frame)
    with False show ?thesis by (simp add: Cons.IH)
  qed
qed

text \<open>Two interleavings that agree on the actions for a channel agree on its entry.\<close>

lemma run_interleaving:
  assumes "filter (\<lambda>a. touches a c) as = filter (\<lambda>a. touches a c) bs"
  shows "entry (foldl step s as) c = entry (foldl step s bs) c"
  using run_filter [of s as c] run_filter [of s bs c] assms by simp

lemma swap_steps:
  assumes "\<not> (touches a c \<and> touches b c)"
  shows "entry (step (step s a) b) c = entry (step (step s b) a) c"
proof -
  have "entry (foldl step s [a, b]) c = entry (foldl step s [b, a]) c"
    by (rule run_interleaving) (use assms in auto)
  then show ?thesis by simp
qed

end

section \<open>Items with an expiry\<close>

text \<open>
  \<open>expire s i\<close> is what the timer set for item \<open>i\<close> does. It removes the items that \<open>i\<close>
  covers (at least \<open>i\<close> itself) and no other one. An item appears only by being added.
\<close>

locale timed_items =
  fixes add :: "'s \<Rightarrow> 'i \<Rightarrow> 's"
    and expire :: "'s \<Rightarrow> 'i \<Rightarrow> 's"
    and live :: "'s \<Rightarrow> 'i \<Rightarrow> bool"
    and covers :: "'i \<Rightarrow> 'i \<Rightarrow> bool"
  assumes add_live: "live (add s i) i"
    and add_only: "live (add s i) j \<Longrightarrow> j = i \<or> live s j"
    and expire_iff: "live (expire s i) j \<longleftrightarrow> live s j \<and> \<not> covers i j"
    and covers_refl: "covers i i"
begin

lemma expired: "\<not> live (expire s i) i"
  by (simp add: expire_iff covers_refl)

lemma expire_keeps: "live s j \<Longrightarrow> \<not> covers i j \<Longrightarrow> live (expire s i) j"
  by (simp add: expire_iff)

text \<open>
  A run of additions and expiries, \<open>Inl\<close> for an addition and \<open>Inr\<close> for an expiry: an item
  that is not live and is not added again never comes back.
\<close>

lemma stays_dead:
  "\<not> live s i \<Longrightarrow> Inl i \<notin> set es \<Longrightarrow>
   \<not> live (foldl (\<lambda>s e. case e of Inl j \<Rightarrow> add s j | Inr j \<Rightarrow> expire s j) s es) i"
proof (induction es arbitrary: s)
  case Nil
  then show ?case by simp
next
  case (Cons e es)
  from Cons.prems have "\<not> live (case e of Inl j \<Rightarrow> add s j | Inr j \<Rightarrow> expire s j) i"
    by (cases e) (auto dest: add_only simp: expire_iff)
  with Cons show ?case by simp
qed

lemma added_then_expired:
  assumes "Inl i \<notin> set es"
  shows "\<not> live (foldl (\<lambda>s e. case e of Inl j \<Rightarrow> add s j | Inr j \<Rightarrow> expire s j)
                   (expire s i) es) i"
  using expired assms by (rule stays_dead)

end

end
