(* ===== verification/SessionsSlice.thy ===== *)
theory SessionsSlice imports CallTypes Slices begin

text \<open>
  The \<open>sessions\<close> slice of \<open>webapp/src/reducers.ts\<close>: for each channel, the sessions in its
  call. One definition per branch of the reducer's \<open>switch\<close>, then the reducer itself, its
  well-formedness, its independence of channels, and the consistency of the entries.
\<close>

type_synonym sessions_state = "(string, (string, user_session) obj) obj"

section \<open>The branches\<close>

text \<open>The object that a new session starts from.\<close>

definition fresh_session :: "string \<Rightarrow> string \<Rightarrow> user_session" where
  "fresh_session userID sessionID = \<lparr>
     us_session_id = Some sessionID,
     us_user_id = Some userID,
     us_unmuted = Some False,
     us_voice = Some False,
     us_video = Some False,
     us_raised_hand = Some 0,
     us_reaction = None\<rparr>"

definition user_joined :: "string \<Rightarrow> string \<Rightarrow> string \<Rightarrow> sessions_state \<Rightarrow> sessions_state" where
  "user_joined ch uid sid st =
     obj_set ch (obj_set sid (fresh_session uid sid) (obj_or_empty (obj_get st ch))) st"

definition user_left :: "string \<Rightarrow> string \<Rightarrow> sessions_state \<Rightarrow> sessions_state" where
  "user_left ch sid st =
     (case obj_get st ch of
        Some ss \<Rightarrow> obj_set ch (obj_del sid ss) st
      | None \<Rightarrow> st)"

text \<open>
  The shape that the branches for muting, speaking, hands, reactions and video share: with no
  entry for the channel the branch makes one with the session alone; otherwise it spreads the
  session, which may be absent, and writes one field.
\<close>

definition put_session ::
  "string \<Rightarrow> string \<Rightarrow> user_session \<Rightarrow> (user_session \<Rightarrow> user_session) \<Rightarrow> sessions_state \<Rightarrow> sessions_state" where
  "put_session ch sid initial write st =
     (case obj_get st ch of
        None \<Rightarrow> obj_set ch [(sid, initial)] st
      | Some ss \<Rightarrow> obj_set ch (obj_set sid (write (spread_session (obj_get ss sid))) ss) st)"

definition user_muted :: "string \<Rightarrow> string \<Rightarrow> string \<Rightarrow> sessions_state \<Rightarrow> sessions_state" where
  "user_muted ch uid sid =
     put_session ch sid (fresh_session uid sid) (\<lambda>s. s\<lparr>us_unmuted := Some False\<rparr>)"

definition user_unmuted :: "string \<Rightarrow> string \<Rightarrow> string \<Rightarrow> sessions_state \<Rightarrow> sessions_state" where
  "user_unmuted ch uid sid =
     put_session ch sid ((fresh_session uid sid)\<lparr>us_unmuted := Some True\<rparr>)
       (\<lambda>s. s\<lparr>us_unmuted := Some True\<rparr>)"

definition user_voice_on :: "string \<Rightarrow> string \<Rightarrow> string \<Rightarrow> sessions_state \<Rightarrow> sessions_state" where
  "user_voice_on ch uid sid =
     put_session ch sid ((fresh_session uid sid)\<lparr>us_voice := Some True\<rparr>)
       (\<lambda>s. s\<lparr>us_voice := Some True\<rparr>)"

definition user_voice_off :: "string \<Rightarrow> string \<Rightarrow> string \<Rightarrow> sessions_state \<Rightarrow> sessions_state" where
  "user_voice_off ch uid sid =
     put_session ch sid (fresh_session uid sid) (\<lambda>s. s\<lparr>us_voice := Some False\<rparr>)"

definition user_raise_hand ::
  "string \<Rightarrow> string \<Rightarrow> string \<Rightarrow> int option \<Rightarrow> sessions_state \<Rightarrow> sessions_state" where
  "user_raise_hand ch uid sid hand =
     put_session ch sid ((fresh_session uid sid)\<lparr>us_raised_hand := hand\<rparr>)
       (\<lambda>s. s\<lparr>us_raised_hand := hand\<rparr>)"

definition user_lower_hand ::
  "string \<Rightarrow> string \<Rightarrow> string \<Rightarrow> int option \<Rightarrow> sessions_state \<Rightarrow> sessions_state" where
  "user_lower_hand ch uid sid hand =
     put_session ch sid ((fresh_session uid sid)\<lparr>us_raised_hand := hand\<rparr>)
       (\<lambda>s. s\<lparr>us_raised_hand := hand\<rparr>)"

definition user_reacted ::
  "string \<Rightarrow> string \<Rightarrow> string \<Rightarrow> reaction option \<Rightarrow> sessions_state \<Rightarrow> sessions_state" where
  "user_reacted ch uid sid r =
     put_session ch sid ((fresh_session uid sid)\<lparr>us_reaction := r\<rparr>)
       (\<lambda>s. s\<lparr>us_reaction := r\<rparr>)"

definition user_reacted_timeout ::
  "string \<Rightarrow> string \<Rightarrow> reaction option \<Rightarrow> sessions_state \<Rightarrow> sessions_state" where
  "user_reacted_timeout ch sid r st =
     (case Option.bind (obj_get st ch) (\<lambda>ss. obj_get ss sid) of
        None \<Rightarrow> st
      | Some s \<Rightarrow>
          (case us_reaction s of
             None \<Rightarrow> st
           | Some stored \<Rightarrow>
               (case r of
                  None \<Rightarrow> st
                | Some expired \<Rightarrow>
                    if rc_timestamp stored > rc_timestamp expired then st
                    else obj_set ch (obj_set sid (s\<lparr>us_reaction := None\<rparr>)
                           (obj_or_empty (obj_get st ch))) st)))"

definition user_video_on :: "string \<Rightarrow> string \<Rightarrow> string \<Rightarrow> sessions_state \<Rightarrow> sessions_state" where
  "user_video_on ch uid sid =
     put_session ch sid ((fresh_session uid sid)\<lparr>us_video := Some True\<rparr>)
       (\<lambda>s. s\<lparr>us_video := Some True\<rparr>)"

text \<open>The source starts the session of this branch unmuted, unlike every other branch.\<close>

definition user_video_off :: "string \<Rightarrow> string \<Rightarrow> string \<Rightarrow> sessions_state \<Rightarrow> sessions_state" where
  "user_video_off ch uid sid =
     put_session ch sid ((fresh_session uid sid)\<lparr>us_unmuted := Some True\<rparr>)
       (\<lambda>s. s\<lparr>us_video := Some False\<rparr>)"

section \<open>The reducer\<close>

fun sessions :: "sessions_state \<Rightarrow> action \<Rightarrow> sessions_state" where
  "sessions st UNINIT = []"
| "sessions st (CALL_END ch callID) = obj_del ch st"
| "sessions st (USER_JOINED ch uid sid) = user_joined ch uid sid st"
| "sessions st (USER_LEFT ch uid sid) = user_left ch sid st"
| "sessions st (USERS_STATES ch states) = obj_set ch states st"
| "sessions st (USER_MUTED ch uid sid) = user_muted ch uid sid st"
| "sessions st (USER_UNMUTED ch uid sid) = user_unmuted ch uid sid st"
| "sessions st (USER_VOICE_ON ch uid sid) = user_voice_on ch uid sid st"
| "sessions st (USER_VOICE_OFF ch uid sid) = user_voice_off ch uid sid st"
| "sessions st (USER_RAISE_HAND ch uid sid hand) = user_raise_hand ch uid sid hand st"
| "sessions st (USER_LOWER_HAND ch uid sid hand) = user_lower_hand ch uid sid hand st"
| "sessions st (USER_REACTED ch uid sid r) = user_reacted ch uid sid r st"
| "sessions st (USER_REACTED_TIMEOUT ch uid sid r) = user_reacted_timeout ch sid r st"
| "sessions st (USER_VIDEO_ON ch uid sid) = user_video_on ch uid sid st"
| "sessions st (USER_VIDEO_OFF ch uid sid) = user_video_off ch uid sid st"
| "sessions st _ = st"

lemmas session_branches =
  user_joined_def user_left_def user_muted_def user_unmuted_def user_voice_on_def
  user_voice_off_def user_raise_hand_def user_lower_hand_def user_reacted_def
  user_reacted_timeout_def user_video_on_def user_video_off_def put_session_def

section \<open>Well-formedness\<close>

text \<open>The slice and each channel's entry are dictionaries with distinct keys.\<close>

definition wf_sessions :: "sessions_state \<Rightarrow> bool" where
  "wf_sessions st \<longleftrightarrow> wf_obj st \<and> (\<forall>ch ss. obj_get st ch = Some ss \<longrightarrow> wf_obj ss)"

lemma wf_sessionsD:
  "wf_sessions st \<Longrightarrow> wf_obj st"
  "wf_sessions st \<Longrightarrow> obj_get st ch = Some ss \<Longrightarrow> wf_obj ss"
  by (simp_all add: wf_sessions_def)

lemma wf_sessions_Nil [simp]: "wf_sessions []"
  by (simp add: wf_sessions_def)

lemma wf_sessions_set [wf_intros]:
  "wf_sessions st \<Longrightarrow> wf_obj ss \<Longrightarrow> wf_sessions (obj_set ch ss st)"
  by (auto simp: wf_sessions_def)

lemma wf_sessions_del [wf_intros]: "wf_sessions st \<Longrightarrow> wf_sessions (obj_del ch st)"
  by (auto simp: wf_sessions_def split: if_splits)

lemma wf_sessions_entry [wf_intros]:
  "wf_sessions st \<Longrightarrow> wf_obj (obj_or_empty (obj_get st ch))"
  by (auto intro: wf_obj_or_empty wf_sessionsD)

lemma wf_put_session [wf_intros]:
  "wf_sessions st \<Longrightarrow> wf_sessions (put_session ch sid initial write st)"
  by (auto simp: put_session_def split: option.splits intro!: wf_intros dest: wf_sessionsD)

definition ok_states :: "action \<Rightarrow> bool" where
  "ok_states a = (case a of USERS_STATES ch states \<Rightarrow> wf_obj states | _ \<Rightarrow> True)"

lemma wf_sessions_step:
  assumes "wf_sessions st" and "ok_states a"
  shows "wf_sessions (sessions st a)"
proof (cases a)
  case (USERS_STATES ch states)
  with assms show ?thesis by (auto simp: ok_states_def intro!: wf_intros)
qed (use assms in \<open>auto simp: session_branches(1,2,10) user_muted_def user_unmuted_def
       user_voice_on_def user_voice_off_def user_raise_hand_def user_lower_hand_def
       user_reacted_def user_video_on_def user_video_off_def
       split: option.splits intro!: wf_intros dest: wf_sessionsD\<close>)

interpretation sessions_inv: inv_slice sessions wf_sessions ok_states
  by unfold_locales (rule wf_sessions_step)

section \<open>Channels are independent\<close>

lemma get_put_session:
  "obj_get (put_session ch sid initial write st) c =
     (if c = ch
      then Some (case obj_get st ch of
                   None \<Rightarrow> [(sid, initial)]
                 | Some ss \<Rightarrow> obj_set sid (write (spread_session (obj_get ss sid))) ss)
      else obj_get st c)"
  by (simp add: put_session_def split: option.splits)

interpretation sessions_chan: channel_slice sessions obj_get touches
proof
  fix a c and s :: sessions_state
  assume "\<not> touches a c"
  then show "obj_get (sessions s a) c = obj_get s c"
    by (cases a) (auto simp: touches_def session_branches split: option.splits)
next
  fix a c and s t :: sessions_state
  assume "obj_get s c = obj_get t c"
  then show "obj_get (sessions s a) c = obj_get (sessions t a) c"
    by (cases "obj_get t c"; cases a) (auto simp: session_branches split: option.splits)
qed

section \<open>Events that write one field of a session\<close>

fun field_event :: "action \<Rightarrow> (string \<times> string) option" where
  "field_event (USER_MUTED ch uid sid) = Some (ch, sid)"
| "field_event (USER_UNMUTED ch uid sid) = Some (ch, sid)"
| "field_event (USER_VOICE_ON ch uid sid) = Some (ch, sid)"
| "field_event (USER_VOICE_OFF ch uid sid) = Some (ch, sid)"
| "field_event (USER_RAISE_HAND ch uid sid hand) = Some (ch, sid)"
| "field_event (USER_LOWER_HAND ch uid sid hand) = Some (ch, sid)"
| "field_event (USER_REACTED ch uid sid r) = Some (ch, sid)"
| "field_event (USER_VIDEO_ON ch uid sid) = Some (ch, sid)"
| "field_event (USER_VIDEO_OFF ch uid sid) = Some (ch, sid)"
| "field_event _ = None"

fun_cases field_event_cases: "field_event a = Some p"

definition session_at :: "sessions_state \<Rightarrow> string \<Rightarrow> string \<Rightarrow> user_session option" where
  "session_at st ch sid = Option.bind (obj_get st ch) (\<lambda>ss. obj_get ss sid)"

text \<open>
  Every stored session is filed under its own id and has an owner. The widgets rely on it: they
  look up profiles by \<open>user_id\<close> and compare \<open>session_id\<close> with the session's key.
\<close>

definition session_ok :: "string \<Rightarrow> user_session \<Rightarrow> bool" where
  "session_ok sid s \<longleftrightarrow> us_session_id s = Some sid \<and> us_user_id s \<noteq> None"

definition consistent :: "sessions_state \<Rightarrow> bool" where
  "consistent st \<longleftrightarrow> (\<forall>ch sid s. session_at st ch sid = Some s \<longrightarrow> session_ok sid s)"

text \<open>
  The actions that the server sends in order: a field event comes for a session that is in the
  call, or for a channel that has no entry yet; a snapshot of the states is itself consistent.
\<close>

definition in_order :: "sessions_state \<Rightarrow> action \<Rightarrow> bool" where
  "in_order st a =
     (case field_event a of
        Some (ch, sid) \<Rightarrow> obj_get st ch = None \<or> session_at st ch sid \<noteq> None
      | None \<Rightarrow>
          (case a of
             USERS_STATES ch states \<Rightarrow> list_all (\<lambda>(sid, s). session_ok sid s) states
           | _ \<Rightarrow> True))"

fun runs_in_order :: "sessions_state \<Rightarrow> action list \<Rightarrow> bool" where
  "runs_in_order st [] = True"
| "runs_in_order st (a # as) = (in_order st a \<and> runs_in_order (sessions st a) as)"

lemma session_at_set [simp]:
  "session_at (obj_set ch ss st) c sid = (if c = ch then obj_get ss sid else session_at st c sid)"
  by (simp add: session_at_def)

lemma session_at_del [simp]:
  "session_at (obj_del ch st) c sid = (if c = ch then None else session_at st c sid)"
  by (simp add: session_at_def)

lemma session_at_entry:
  "obj_get st ch = Some ss \<Longrightarrow> session_at st ch sid = obj_get ss sid"
  "obj_get st ch = None \<Longrightarrow> session_at st ch sid = None"
  by (simp_all add: session_at_def)

lemma session_at_SomeE:
  assumes "session_at st ch sid = Some s"
  obtains ss where "obj_get st ch = Some ss" and "obj_get ss sid = Some s"
  using assms by (auto simp: session_at_def bind_eq_Some_conv)

lemma session_at_Nil [simp]: "session_at [] ch sid = None"
  by (simp add: session_at_def)

lemma get_or_empty [simp]: "obj_get (obj_or_empty (obj_get st ch)) sid = session_at st ch sid"
  by (simp add: session_at_def split: option.splits) (cases "obj_get st ch"; simp)

lemma session_at_put:
  "session_at (put_session ch sid initial write st) c x =
     (if c = ch \<and> x = sid
      then Some (if obj_get st ch = None then initial
                 else write (spread_session (session_at st ch sid)))
      else session_at st c x)"
  by (cases "obj_get st ch") (auto simp: put_session_def session_at_entry obj_get_Cons)

text \<open>What a field event writes on a session that the channel has.\<close>

fun event_write :: "action \<Rightarrow> user_session \<Rightarrow> user_session" where
  "event_write (USER_MUTED ch uid sid) = (\<lambda>s. s\<lparr>us_unmuted := Some False\<rparr>)"
| "event_write (USER_UNMUTED ch uid sid) = (\<lambda>s. s\<lparr>us_unmuted := Some True\<rparr>)"
| "event_write (USER_VOICE_ON ch uid sid) = (\<lambda>s. s\<lparr>us_voice := Some True\<rparr>)"
| "event_write (USER_VOICE_OFF ch uid sid) = (\<lambda>s. s\<lparr>us_voice := Some False\<rparr>)"
| "event_write (USER_RAISE_HAND ch uid sid hand) = (\<lambda>s. s\<lparr>us_raised_hand := hand\<rparr>)"
| "event_write (USER_LOWER_HAND ch uid sid hand) = (\<lambda>s. s\<lparr>us_raised_hand := hand\<rparr>)"
| "event_write (USER_REACTED ch uid sid r) = (\<lambda>s. s\<lparr>us_reaction := r\<rparr>)"
| "event_write (USER_VIDEO_ON ch uid sid) = (\<lambda>s. s\<lparr>us_video := Some True\<rparr>)"
| "event_write (USER_VIDEO_OFF ch uid sid) = (\<lambda>s. s\<lparr>us_video := Some False\<rparr>)"
| "event_write _ = (\<lambda>s. s)"

lemmas put_branches =
  user_muted_def user_unmuted_def user_voice_on_def user_voice_off_def user_raise_hand_def
  user_lower_hand_def user_reacted_def user_video_on_def user_video_off_def

lemma field_event_put:
  assumes "field_event a = Some (ch, sid)"
  shows "\<exists>initial. sessions st a = put_session ch sid initial (event_write a) st \<and> session_ok sid initial"
  using assms
  by (elim field_event_cases; simp add: put_branches; intro exI conjI; (rule refl)?)
    (simp_all add: session_ok_def fresh_session_def, simp_all)

lemma event_write_identity [simp]:
  "us_session_id (event_write a s) = us_session_id s"
  "us_user_id (event_write a s) = us_user_id s"
  by (cases a; simp)+

lemma consistentD: "consistent st \<Longrightarrow> session_at st ch sid = Some s \<Longrightarrow> session_ok sid s"
  by (simp add: consistent_def)

lemma consistent_field_event:
  assumes "consistent st" and "field_event a = Some (ch, sid)"
    and known: "obj_get st ch = None \<or> session_at st ch sid \<noteq> None"
  shows "consistent (sessions st a)"
proof -
  obtain initial where put: "sessions st a = put_session ch sid initial (event_write a) st"
    and init: "session_ok sid initial"
    using field_event_put [OF assms(2)] by blast
  show ?thesis
    unfolding consistent_def put session_at_put
    using assms(1) init known
    by (auto simp: session_ok_def spread_session_def dest: consistentD split: option.splits)
qed

lemma session_at_joined:
  "session_at (user_joined ch uid sid st) c x =
     (if c = ch \<and> x = sid then Some (fresh_session uid sid) else session_at st c x)"
  by (auto simp: user_joined_def session_at_def)

lemma session_at_left:
  "session_at (user_left ch sid st) c x =
     (if c = ch \<and> x = sid then None else session_at st c x)"
  by (auto simp: user_left_def session_at_entry split: option.splits)

lemma session_at_reacted_timeout:
  "session_at (user_reacted_timeout ch sid r st) c x =
     (case session_at st c x of
        None \<Rightarrow> None
      | Some s \<Rightarrow>
          Some (case (us_reaction s, r) of
                  (Some stored, Some expired) \<Rightarrow>
                    if c = ch \<and> x = sid \<and> rc_timestamp stored \<le> rc_timestamp expired
                    then s\<lparr>us_reaction := None\<rparr> else s
                | _ \<Rightarrow> s))"
  unfolding user_reacted_timeout_def session_at_def [symmetric]
  by (auto split: option.splits simp: session_at_def)

lemma list_all_entries:
  "list_all (\<lambda>(sid, s). P sid s) m \<Longrightarrow> obj_get m k = Some v \<Longrightarrow> P k v"
  by (auto simp: list_all_iff dest!: obj_get_in_entries)

lemma consistent_step:
  assumes "consistent st" and "in_order st a"
  shows "consistent (sessions st a)"
proof (cases "field_event a")
  case (Some p)
  obtain ch sid where p: "p = (ch, sid)" by (cases p)
  show ?thesis
    by (rule consistent_field_event [OF assms(1)])
      (use assms(2) Some p in \<open>auto simp: in_order_def\<close>)
next
  case None
  with assms show ?thesis
    by (cases a)
      (auto simp: consistent_def session_at_joined session_at_left session_at_reacted_timeout
        in_order_def session_ok_def fresh_session_def
        dest: list_all_entries split: option.splits if_splits)
qed

section \<open>Abstract roster\<close>

text \<open>
  What the slice promises: for each channel with an entry, the set of sessions present. The
  roster has its own transition function, which knows nothing of the sessions' fields.
\<close>

type_synonym roster = "string \<Rightarrow> string set option"

definition roster_of :: "sessions_state \<Rightarrow> roster" where
  "roster_of st ch = map_option (\<lambda>ss. set (obj_keys ss)) (obj_get st ch)"

definition roster_add :: "string \<Rightarrow> string \<Rightarrow> roster \<Rightarrow> roster" where
  "roster_add ch sid r = r(ch \<mapsto> insert sid (case r ch of None \<Rightarrow> {} | Some S \<Rightarrow> S))"

definition roster_step :: "roster \<Rightarrow> action \<Rightarrow> roster" where
  "roster_step r a =
     (case field_event a of
        Some (ch, sid) \<Rightarrow> roster_add ch sid r
      | None \<Rightarrow>
          (case a of
             UNINIT \<Rightarrow> Map.empty
           | CALL_END ch callID \<Rightarrow> r(ch := None)
           | USER_JOINED ch uid sid \<Rightarrow> roster_add ch sid r
           | USER_LEFT ch uid sid \<Rightarrow> r(ch := map_option (\<lambda>S. S - {sid}) (r ch))
           | USERS_STATES ch states \<Rightarrow> r(ch \<mapsto> set (obj_keys states))
           | _ \<Rightarrow> r))"

lemma roster_of_set:
  "roster_of (obj_set ch ss st) = (roster_of st)(ch \<mapsto> set (obj_keys ss))"
  by (auto simp: roster_of_def)

lemma roster_of_put:
  "roster_of (put_session ch sid initial write st) = roster_add ch sid (roster_of st)"
  by (cases "obj_get st ch")
    (auto simp: put_session_def roster_of_set roster_add_def set_keys_set roster_of_def)

lemma roster_of_joined:
  "roster_of (user_joined ch uid sid st) = roster_add ch sid (roster_of st)"
  by (cases "obj_get st ch")
    (auto simp: user_joined_def roster_of_set roster_add_def set_keys_set roster_of_def)

lemma roster_of_left:
  "roster_of (user_left ch sid st) =
     (roster_of st)(ch := map_option (\<lambda>S. S - {sid}) (roster_of st ch))"
  by (cases "obj_get st ch")
    (auto simp: user_left_def roster_of_def obj_keys_del fun_eq_iff)

lemma roster_of_reacted_timeout:
  "roster_of (user_reacted_timeout ch sid r st) = roster_of st"
proof (cases "session_at st ch sid")
  case None
  then show ?thesis by (simp add: user_reacted_timeout_def session_at_def)
next
  case (Some s)
  then obtain ss where e: "obj_get st ch = Some ss" "obj_get ss sid = Some s"
    by (rule session_at_SomeE)
  then have "sid \<in> set (obj_keys ss)"
    using obj_get_None_iff [of ss sid] by auto
  with e show ?thesis
    by (auto simp: user_reacted_timeout_def roster_of_def obj_keys_set fun_eq_iff
        split: option.splits)
qed

lemma roster_of_step: "roster_of (sessions st a) = roster_step (roster_of st) a"
proof (cases "field_event a")
  case (Some p)
  obtain ch sid where p: "p = (ch, sid)" by (cases p)
  obtain initial where "sessions st a = put_session ch sid initial (event_write a) st"
    using field_event_put Some p by blast
  then show ?thesis by (simp add: roster_step_def Some p roster_of_put)
next
  case None
  then show ?thesis
    by (cases a)
      (auto simp: roster_step_def roster_of_set roster_of_joined roster_of_left
        roster_of_reacted_timeout, auto simp: roster_of_def fun_eq_iff)
qed

section \<open>Properties\<close>

text \<open>
  C6. The sessions slice implements the roster: after any run of actions, the channels that have
  an entry and the sessions in each are those the roster's own transitions give.\<close>
theorem sessions_refine_roster:
  "roster_of (foldl sessions st as) = foldl roster_step (roster_of st) as"
  by (induction as arbitrary: st) (simp_all add: roster_of_step)

text \<open>
  C28. As long as field events come for sessions that are in the call (the server's order), every
  session is filed under its own id and has an owner, after any run.\<close>
theorem sessions_consistent:
  assumes "consistent st" and "runs_in_order st as"
  shows "consistent (foldl sessions st as)"
  using assms by (induction as arbitrary: st) (auto intro: consistent_step)

lemma sessions_consistent_witness:
  "consistent (foldl sessions []
     [USER_JOINED ''c'' ''u'' ''s'', USER_UNMUTED ''c'' ''u'' ''s'', USER_JOINED ''c'' ''v'' ''t'',
      USER_LEFT ''c'' ''u'' ''s'', USER_VOICE_ON ''c'' ''v'' ''t''])"
  by (rule sessions_consistent)
    (simp_all add: consistent_def in_order_def session_at_joined session_at_left user_unmuted_def
      session_at_put)

text \<open>
  A field event for a session that is in the channel writes that session, and of it only
  the event's field: its id and owner stay, every other session of every channel stays.\<close>
theorem field_event_isolated:
  assumes "field_event a = Some (ch, sid)" and "session_at st ch sid = Some s"
  shows "session_at (sessions st a) c x =
           (if c = ch \<and> x = sid then Some (event_write a s) else session_at st c x) \<and>
         us_session_id (event_write a s) = us_session_id s \<and>
         us_user_id (event_write a s) = us_user_id s"
proof -
  from assms(2) have known: "obj_get st ch \<noteq> None" by (auto elim: session_at_SomeE)
  obtain initial where "sessions st a = put_session ch sid initial (event_write a) st"
    using field_event_put [OF assms(1)] by blast
  with assms(2) known show ?thesis
    by (auto simp: session_at_put spread_session_def)
qed

lemma field_event_isolated_witness:
  "session_at (sessions (sessions [] (USER_JOINED ''c'' ''u'' ''s'')) (USER_UNMUTED ''c'' ''u'' ''s''))
     ''c'' ''s'' = Some ((fresh_session ''u'' ''s'')\<lparr>us_unmuted := Some True\<rparr>)"
  using field_event_isolated [of "USER_UNMUTED ''c'' ''u'' ''s''" "''c''" "''s''"
      "sessions [] (USER_JOINED ''c'' ''u'' ''s'')" "fresh_session ''u'' ''s''" "''c''" "''s''"]
  by (simp add: session_at_joined)

text \<open>
  A field event that arrives after its session left brings the session back, without an id
  and without an owner, as long as the channel has an entry.\<close>
theorem late_event_ghost:
  assumes "obj_get st ch = Some ss" and "field_event a = Some (ch, sid)"
  shows "\<exists>g. session_at (sessions (sessions st (USER_LEFT ch uid sid)) a) ch sid = Some g \<and>
             us_session_id g = None \<and> us_user_id g = None"
proof -
  let ?st = "sessions st (USER_LEFT ch uid sid)"
  have gone: "session_at ?st ch sid = None" "obj_get ?st ch \<noteq> None"
    using assms(1) by (simp_all add: session_at_left) (simp add: user_left_def)
  obtain initial where "sessions ?st a = put_session ch sid initial (event_write a) ?st"
    using field_event_put [OF assms(2)] by blast
  with gone show ?thesis
    by (auto simp: session_at_put spread_session_def empty_session_def)
qed

lemma late_event_ghost_witness:
  "\<exists>g. session_at (sessions (sessions (sessions [] (USER_JOINED ''c'' ''u'' ''s''))
          (USER_LEFT ''c'' ''u'' ''s'')) (USER_MUTED ''c'' ''u'' ''s'')) ''c'' ''s'' = Some g \<and>
        us_session_id g = None \<and> us_user_id g = None"
  by (rule late_event_ghost) (simp_all add: user_joined_def)

text \<open>
  The timer of a reaction clears it from its session unless a newer one replaced it, and
  changes no other session.\<close>
theorem reaction_timer:
  assumes "session_at st ch sid = Some s" and "us_reaction s = Some stored"
  shows "session_at (sessions st (USER_REACTED_TIMEOUT ch uid sid (Some r))) c x =
           (if c = ch \<and> x = sid \<and> rc_timestamp stored \<le> rc_timestamp r
            then Some (s\<lparr>us_reaction := None\<rparr>) else session_at st c x)"
  using assms by (auto simp: session_at_reacted_timeout split: option.splits)

lemma reaction_timer_witness:
  "session_at (sessions [(''c'', [(''s'', (fresh_session ''u'' ''s'')\<lparr>us_reaction :=
        Some \<lparr>rc_user_id = ''u'', rc_session_id = ''s'', rc_emoji = ''x'', rc_timestamp = 5,
              rc_displayName = ''U''\<rparr>\<rparr>)])]
      (USER_REACTED_TIMEOUT ''c'' ''u'' ''s'' (Some \<lparr>rc_user_id = ''u'', rc_session_id = ''s'',
         rc_emoji = ''y'', rc_timestamp = 5, rc_displayName = ''U''\<rparr>))) ''c'' ''s''
   = Some (fresh_session ''u'' ''s'')"
  by (subst reaction_timer [where s = "(fresh_session ''u'' ''s'')\<lparr>us_reaction :=
        Some \<lparr>rc_user_id = ''u'', rc_session_id = ''s'', rc_emoji = ''x'', rc_timestamp = 5,
              rc_displayName = ''U''\<rparr>\<rparr>"])
    (auto simp: session_at_def obj_get_Cons fresh_session_def)

end
