(* ===== verification/StreamSlices.thy ===== *)
theory StreamSlices imports CallTypes Slices begin

text \<open>
  The \<open>reactions\<close> and \<open>liveCaptions\<close> slices of \<open>webapp/src/reducers.ts\<close>: per channel, the
  stream of the latest emoji reactions and the caption each session shows. Both hold items that
  a timer removes, so both provide the \<open>timed_items\<close> contract.
\<close>

section \<open>Reactions\<close>

type_synonym reactions_state = "(string, reaction list) obj"

definition queueReactions :: "reaction list \<Rightarrow> reaction \<Rightarrow> reaction list" where
  "queueReactions st r =
     (let result = st @ [r]
      in if length result > MAX_NUM_REACTIONS_IN_REACTION_STREAM then tl result else result)"

definition removeReaction :: "reaction list \<Rightarrow> reaction \<Rightarrow> reaction list" where
  "removeReaction rs reaction =
     filter (\<lambda>r. rc_user_id r \<noteq> rc_user_id reaction \<or> rc_timestamp r > rc_timestamp reaction) rs"

fun reactions :: "reactions_state \<Rightarrow> action \<Rightarrow> reactions_state" where
  "reactions st (USER_REACTED ch uid sid r) =
     (case r of
        None \<Rightarrow> st
      | Some x \<Rightarrow>
          (case obj_get st ch of
             None \<Rightarrow> obj_set ch [x] st
           | Some rs \<Rightarrow> obj_set ch (queueReactions rs x) st))"
| "reactions st (USER_REACTED_TIMEOUT ch uid sid r) =
     (case (obj_get st ch, r) of
        (Some rs, Some x) \<Rightarrow> obj_set ch (removeReaction rs (x\<lparr>rc_user_id := uid\<rparr>)) st
      | _ \<Rightarrow> st)"
| "reactions st (USER_LEFT ch uid sid) =
     (case obj_get st ch of
        None \<Rightarrow> st
      | Some rs \<Rightarrow> obj_set ch (filter (\<lambda>r. rc_user_id r \<noteq> uid) rs) st)"
| "reactions st _ = st"

section \<open>Live captions\<close>

type_synonym captions_state = "(string, (string, live_caption) obj) obj"

definition addCaption ::
  "(string, live_caption) obj option \<Rightarrow> live_caption \<Rightarrow> (string, live_caption) obj" where
  "addCaption channelState c = obj_set (lc_session_id c) c (obj_or_empty channelState)"

definition captionTimeout ::
  "(string, live_caption) obj option \<Rightarrow> string \<Rightarrow> string \<Rightarrow> (string, live_caption) obj" where
  "captionTimeout channelState sid captionID =
     (let st = obj_or_empty channelState
      in case obj_get st sid of
           Some c \<Rightarrow> if lc_caption_id c = captionID then obj_del sid st else st
         | None \<Rightarrow> st)"

fun liveCaptions :: "captions_state \<Rightarrow> action \<Rightarrow> captions_state" where
  "liveCaptions st (LIVE_CAPTION c) =
     obj_set (lc_channel_id c) (addCaption (obj_get st (lc_channel_id c)) c) st"
| "liveCaptions st (LIVE_CAPTION_TIMEOUT_EVENT ch sid captionID) =
     obj_set ch (captionTimeout (obj_get st ch) sid captionID) st"
| "liveCaptions st _ = st"

section \<open>Channels are independent\<close>

interpretation reactions_chan: channel_slice reactions obj_get touches
proof
  fix a c and s :: reactions_state
  assume "\<not> touches a c"
  then show "obj_get (reactions s a) c = obj_get s c"
    by (cases a) (auto simp: touches_def split: option.splits)
next
  fix a c and s t :: reactions_state
  assume "obj_get s c = obj_get t c"
  then show "obj_get (reactions s a) c = obj_get (reactions t a) c"
    by (cases "obj_get t c"; cases a) (auto split: option.splits)
qed

interpretation captions_chan: channel_slice liveCaptions obj_get touches
proof
  fix a c and s :: captions_state
  assume "\<not> touches a c"
  then show "obj_get (liveCaptions s a) c = obj_get s c"
    by (cases a) (auto simp: touches_def)
next
  fix a c and s t :: captions_state
  assume "obj_get s c = obj_get t c"
  then show "obj_get (liveCaptions s a) c = obj_get (liveCaptions t a) c"
    by (cases a) auto
qed

section \<open>Timers\<close>

definition reaction_covers :: "reaction \<Rightarrow> reaction \<Rightarrow> bool" where
  "reaction_covers r x \<longleftrightarrow> rc_user_id x = rc_user_id r \<and> rc_timestamp x \<le> rc_timestamp r"

lemma set_queueReactions:
  "set (queueReactions rs r) \<subseteq> insert r (set rs)" "r \<in> set (queueReactions rs r)"
  by (cases rs; auto simp: queueReactions_def Let_def
      MAX_NUM_REACTIONS_IN_REACTION_STREAM_def)+

interpretation stream_timers:
  timed_items queueReactions removeReaction "\<lambda>rs r. r \<in> set rs" reaction_covers
proof
  fix s :: "reaction list" and i j
  show "i \<in> set (queueReactions s i)" by (rule set_queueReactions)
  show "j \<in> set (queueReactions s i) \<Longrightarrow> j = i \<or> j \<in> set s"
    using set_queueReactions(1) [of s i] by auto
  show "j \<in> set (removeReaction s i) \<longleftrightarrow> j \<in> set s \<and> \<not> reaction_covers i j"
    by (auto simp: removeReaction_def reaction_covers_def)
qed (simp add: reaction_covers_def)

definition caption_covers :: "live_caption \<Rightarrow> live_caption \<Rightarrow> bool" where
  "caption_covers c x \<longleftrightarrow> lc_session_id x = lc_session_id c \<and> lc_caption_id x = lc_caption_id c"

definition shown :: "(string, live_caption) obj \<Rightarrow> live_caption \<Rightarrow> bool" where
  "shown st c \<longleftrightarrow> obj_get st (lc_session_id c) = Some c"

interpretation caption_timers:
  timed_items "\<lambda>st c. addCaption (Some st) c"
    "\<lambda>st c. captionTimeout (Some st) (lc_session_id c) (lc_caption_id c)" shown caption_covers
  by unfold_locales
    (auto simp: shown_def addCaption_def captionTimeout_def caption_covers_def Let_def
      split: option.splits if_splits)

section \<open>The stream's bound\<close>

lemma length_queueReactions:
  "length rs \<le> MAX_NUM_REACTIONS_IN_REACTION_STREAM \<Longrightarrow>
   length (queueReactions rs r) \<le> MAX_NUM_REACTIONS_IN_REACTION_STREAM"
  by (simp add: queueReactions_def Let_def)

definition bounded_streams :: "reactions_state \<Rightarrow> bool" where
  "bounded_streams st \<longleftrightarrow>
     (\<forall>ch rs. obj_get st ch = Some rs \<longrightarrow> length rs \<le> MAX_NUM_REACTIONS_IN_REACTION_STREAM)"

lemma bounded_streams_set:
  "bounded_streams st \<Longrightarrow> length rs \<le> MAX_NUM_REACTIONS_IN_REACTION_STREAM \<Longrightarrow>
   bounded_streams (obj_set ch rs st)"
  by (simp add: bounded_streams_def)

lemma bounded_streamsD:
  "bounded_streams st \<Longrightarrow> obj_get st ch = Some rs \<Longrightarrow>
   length rs \<le> MAX_NUM_REACTIONS_IN_REACTION_STREAM"
  by (simp add: bounded_streams_def)

lemma length_filter_bound: "length rs \<le> (n::nat) \<Longrightarrow> length (filter P rs) \<le> n"
  using length_filter_le [of P rs] by linarith

lemma bounded_streams_step: "bounded_streams st \<Longrightarrow> bounded_streams (reactions st a)"
  by (cases a)
    (auto simp: removeReaction_def MAX_NUM_REACTIONS_IN_REACTION_STREAM_def
      intro!: bounded_streams_set length_queueReactions length_filter_bound
      dest: bounded_streamsD split: option.splits)

interpretation reactions_bound: inv_slice reactions bounded_streams "\<lambda>_. True"
  by unfold_locales (rule bounded_streams_step)

text \<open>The queue keeps the latest reactions, oldest first.\<close>

definition latest :: "nat \<Rightarrow> 'a list \<Rightarrow> 'a list" where
  "latest n xs = drop (length xs - n) xs"

lemma latest_snoc:
  "0 < n \<Longrightarrow> latest n (latest n xs @ [x]) = latest n (xs @ [x])"
  by (cases "length xs < n") (auto simp: latest_def Suc_diff_le)

lemma queueReactions_latest:
  "length rs \<le> MAX_NUM_REACTIONS_IN_REACTION_STREAM \<Longrightarrow>
   queueReactions rs r = latest MAX_NUM_REACTIONS_IN_REACTION_STREAM (rs @ [r])"
  by (cases rs; cases "length rs = MAX_NUM_REACTIONS_IN_REACTION_STREAM")
    (auto simp: queueReactions_def latest_def MAX_NUM_REACTIONS_IN_REACTION_STREAM_def)

lemma latest_short: "length xs \<le> n \<Longrightarrow> latest n xs = xs"
  by (simp add: latest_def)

lemma length_latest: "length (latest n xs) \<le> n"
  by (simp add: latest_def)

lemma queue_run:
  "length rs \<le> MAX_NUM_REACTIONS_IN_REACTION_STREAM \<Longrightarrow>
   foldl queueReactions rs xs = latest MAX_NUM_REACTIONS_IN_REACTION_STREAM (rs @ xs)"
proof (induction xs rule: rev_induct)
  case Nil
  then show ?case by (simp add: latest_short)
next
  case (snoc x xs)
  then show ?case
    by (simp add: queueReactions_latest length_latest latest_snoc
        MAX_NUM_REACTIONS_IN_REACTION_STREAM_def flip: append_assoc)
qed

text \<open>The reducer on a channel that only receives reactions.\<close>

lemma reactions_run:
  "length rs \<le> MAX_NUM_REACTIONS_IN_REACTION_STREAM \<Longrightarrow> obj_get st ch = Some rs \<Longrightarrow>
   obj_get (foldl reactions st (map (\<lambda>(uid, sid, r). USER_REACTED ch uid sid (Some r)) es)) ch =
     Some (foldl queueReactions rs (map (snd \<circ> snd) es))"
proof (induction es arbitrary: st rs)
  case Nil
  then show ?case by simp
next
  case (Cons e es)
  then show ?case by (cases e) (simp add: length_queueReactions)
qed

lemma queueReactions_Nil: "queueReactions [] r = [r]"
  by (simp add: queueReactions_def MAX_NUM_REACTIONS_IN_REACTION_STREAM_def)

lemma reactions_from_empty:
  assumes "obj_get st ch = None" and "es \<noteq> []"
  shows "obj_get (foldl reactions st (map (\<lambda>(uid, sid, r). USER_REACTED ch uid sid (Some r)) es)) ch =
           Some (foldl queueReactions [] (map (snd \<circ> snd) es))"
proof -
  obtain e es' where es: "es = e # es'" using assms(2) by (cases es) auto
  obtain uid sid r where e: "e = (uid, sid, r)" by (cases e)
  show ?thesis
    using assms(1) reactions_run [of "[r]" "obj_set ch [r] st" ch es']
    by (simp add: es e queueReactions_Nil MAX_NUM_REACTIONS_IN_REACTION_STREAM_def)
qed

section \<open>Captions on screen\<close>

definition caption_at :: "captions_state \<Rightarrow> string \<Rightarrow> string \<Rightarrow> live_caption option" where
  "caption_at st ch sid = Option.bind (obj_get st ch) (\<lambda>cs. obj_get cs sid)"

lemma caption_at_set [simp]:
  "caption_at (obj_set ch cs st) c sid = (if c = ch then obj_get cs sid else caption_at st c sid)"
  by (simp add: caption_at_def)

lemma caption_or_empty [simp]:
  "obj_get (obj_or_empty (obj_get st ch)) sid = caption_at st ch sid" for st :: captions_state
  by (cases "obj_get st ch") (simp_all add: caption_at_def)

lemma caption_at_step:
  "caption_at (liveCaptions st a) ch sid =
     (case a of
        LIVE_CAPTION c \<Rightarrow>
          if lc_channel_id c = ch \<and> lc_session_id c = sid then Some c else caption_at st ch sid
      | LIVE_CAPTION_TIMEOUT_EVENT c x i \<Rightarrow>
          (case caption_at st ch sid of
             None \<Rightarrow> None
           | Some k \<Rightarrow> if c = ch \<and> x = sid \<and> lc_caption_id k = i then None else Some k)
      | _ \<Rightarrow> caption_at st ch sid)"
  by (cases a) (auto simp: addCaption_def captionTimeout_def Let_def split: option.splits)

definition replaces_caption :: "string \<Rightarrow> string \<Rightarrow> string \<Rightarrow> action \<Rightarrow> bool" where
  "replaces_caption ch sid i a =
     (case a of
        LIVE_CAPTION c \<Rightarrow> lc_channel_id c = ch \<and> lc_session_id c = sid
      | LIVE_CAPTION_TIMEOUT_EVENT c x j \<Rightarrow> c = ch \<and> x = sid \<and> j = i
      | _ \<Rightarrow> False)"

lemma caption_kept:
  "caption_at st ch sid = Some c \<Longrightarrow> \<not> replaces_caption ch sid (lc_caption_id c) a \<Longrightarrow>
   caption_at (liveCaptions st a) ch sid = Some c"
  unfolding caption_at_step replaces_caption_def by (cases a) auto

section \<open>Properties\<close>

text \<open>
  The reaction stream of a channel holds the latest 50 reactions, oldest first, whatever
  events of other channels are interleaved with them.\<close>
theorem reaction_stream_latest:
  assumes "obj_get st ch = None" and "es \<noteq> []"
    and "filter (\<lambda>a. touches a ch) as = map (\<lambda>(uid, sid, r). USER_REACTED ch uid sid (Some r)) es"
  shows "obj_get (foldl reactions st as) ch =
           Some (latest MAX_NUM_REACTIONS_IN_REACTION_STREAM (map (snd \<circ> snd) es))"
  using reactions_chan.run_filter [of st as ch] reactions_from_empty [OF assms(1,2)]
    queue_run [of "[]" "map (snd \<circ> snd) es"] assms(3)
  by simp

lemma reaction_stream_latest_witness:
  "let r = (\<lambda>t. \<lparr>rc_user_id = ''u'', rc_session_id = ''s'', rc_emoji = ''x'', rc_timestamp = t,
                 rc_displayName = ''U''\<rparr>)
   in obj_get (foldl reactions [] [USER_REACTED ''c'' ''u'' ''s'' (Some (r 1)),
        USER_REACTED ''d'' ''v'' ''t'' (Some (r 2)), USER_REACTED ''c'' ''u'' ''s'' (Some (r 3))]) ''c''
      = Some [r 1, r 3]"
  unfolding Let_def
  by (subst reaction_stream_latest [where es =
      "map (\<lambda>t. (''u'', ''s'', \<lparr>rc_user_id = ''u'', rc_session_id = ''s'', rc_emoji = ''x'',
         rc_timestamp = t, rc_displayName = ''U''\<rparr>)) [1, 3]"])
    (simp_all add: touches_def latest_def MAX_NUM_REACTIONS_IN_REACTION_STREAM_def)

text \<open>
  No run of actions makes the reaction stream of a channel longer than 50.\<close>
theorem reaction_stream_bounded:
  "obj_get (foldl reactions [] as) ch = Some rs \<Longrightarrow>
   length rs \<le> MAX_NUM_REACTIONS_IN_REACTION_STREAM"
  using reactions_bound.run_inv [of "[]" as] bounded_streamsD
  by (force simp: bounded_streams_def list_all_iff)

lemma reaction_stream_bounded_witness:
  "length [\<lparr>rc_user_id = ''u'', rc_session_id = ''s'', rc_emoji = ''x'', rc_timestamp = 1,
            rc_displayName = ''U''\<rparr>] \<le> MAX_NUM_REACTIONS_IN_REACTION_STREAM"
  by (rule reaction_stream_bounded
      [of "[USER_REACTED ''c'' ''u'' ''s'' (Some \<lparr>rc_user_id = ''u'', rc_session_id = ''s'',
            rc_emoji = ''x'', rc_timestamp = 1, rc_displayName = ''U''\<rparr>)]" "''c''"])
    simp

text \<open>
  A caption stays on screen through any run that does not replace it, timers of the
  session's earlier captions included, and its own timer then removes it.\<close>
theorem caption_until_own_timer:
  assumes "caption_at st ch sid = Some c"
    and "list_all (\<lambda>a. \<not> replaces_caption ch sid (lc_caption_id c) a) as"
  shows "caption_at (foldl liveCaptions st as) ch sid = Some c \<and>
         caption_at (liveCaptions (foldl liveCaptions st as)
           (LIVE_CAPTION_TIMEOUT_EVENT ch sid (lc_caption_id c))) ch sid = None"
proof -
  have "caption_at (foldl liveCaptions st as) ch sid = Some c"
    using assms by (induction as arbitrary: st) (auto intro: caption_kept)
  then show ?thesis by (simp add: caption_at_step del: liveCaptions.simps)
qed

lemma caption_until_own_timer_witness:
  "let c = (\<lambda>i. \<lparr>lc_channel_id = ''c'', lc_session_id = ''s'', lc_user_id = ''u'', lc_text = ''hi'',
                 lc_display_name = ''U'', lc_caption_id = i\<rparr>)
   in caption_at (foldl liveCaptions (foldl liveCaptions [] [LIVE_CAPTION (c ''1''), LIVE_CAPTION (c ''2'')])
        [LIVE_CAPTION_TIMEOUT_EVENT ''c'' ''s'' ''1'']) ''c'' ''s'' = Some (c ''2'')"
  unfolding Let_def
  by (rule caption_until_own_timer [THEN conjunct1])
    (simp_all add: replaces_caption_def addCaption_def)

text \<open>
  Once its timer has fired, a reaction does not come back to the stream, whatever other
  reactions arrive and other timers fire.\<close>
theorem reaction_gone_after_timer:
  assumes "Inl r \<notin> set es"
  shows "r \<notin> set (foldl (\<lambda>rs e. case e of Inl x \<Rightarrow> queueReactions rs x | Inr x \<Rightarrow> removeReaction rs x)
                   (removeReaction rs r) es)"
  using assms by (rule stream_timers.added_then_expired)

lemma reaction_gone_after_timer_witness:
  "let r = (\<lambda>t. \<lparr>rc_user_id = ''u'', rc_session_id = ''s'', rc_emoji = ''x'', rc_timestamp = t,
                 rc_displayName = ''U''\<rparr>)
   in r 1 \<notin> set (foldl (\<lambda>rs e. case e of Inl x \<Rightarrow> queueReactions rs x | Inr x \<Rightarrow> removeReaction rs x)
                   (removeReaction [r 1, r 2] (r 1)) [Inl (r 3), Inr (r 2)])"
  unfolding Let_def by (rule reaction_gone_after_timer) simp

end
