(* ===== verification/CallSlices.thy ===== *)
theory CallSlices imports CallTypes Slices begin

text \<open>
  The slices of \<open>webapp/src/reducers.ts\<close> that describe the calls of each channel: the
  channel's setting, the call this client is connected to, recording and captions jobs, the
  call itself, its host, who shares the screen and who joined a moment ago.
\<close>

section \<open>The reducers\<close>

type_synonym channels_state = "(string, channel_state) obj"

fun channels :: "channels_state \<Rightarrow> action \<Rightarrow> channels_state" where
  "channels st (RECEIVED_CHANNEL_STATE c) = obj_set (ch_id c) c st"
| "channels st _ = st"

text \<open>
  \<open>null\<close> until the global widget of the desktop app reports that it connected; cleared when
  this client's session leaves or the call of its channel ends.
\<close>

fun clientStateReducer :: "client_state option \<Rightarrow> action \<Rightarrow> client_state option" where
  "clientStateReducer st UNINIT = None"
| "clientStateReducer st (DESKTOP_WIDGET_CONNECTED ch sid) =
     Some \<lparr>cl_channelID = ch, cl_sessionID = sid\<rparr>"
| "clientStateReducer st (USER_LEFT ch uid sid) =
     (if Some sid = map_option cl_sessionID st then None else st)"
| "clientStateReducer st (CALL_END ch callID) =
     (if Some ch = map_option cl_channelID st then None else st)"
| "clientStateReducer st _ = st"

type_synonym jobs_state = "(string, job_state) obj"

fun recordings :: "jobs_state \<Rightarrow> action \<Rightarrow> jobs_state" where
  "recordings st UNINIT = []"
| "recordings st (LOCAL_SESSION_CLOSE ch) = obj_del ch st"
| "recordings st (CALL_RECORDING_STATE callID jobState) =
     obj_set callID (spread_job (obj_get st callID) jobState) st"
| "recordings st (CALL_REC_PROMPT_DISMISSED callID dismissedAt) =
     obj_set callID
       ((spread_job (obj_get st callID) None)\<lparr>jb_prompt_dismissed_at := Some dismissedAt\<rparr>) st"
| "recordings st _ = st"

fun callLiveCaptionsState :: "jobs_state \<Rightarrow> action \<Rightarrow> jobs_state" where
  "callLiveCaptionsState st (CALL_LIVE_CAPTIONS_STATE callID jobState) =
     obj_set callID (spread_job (obj_get st callID) jobState) st"
| "callLiveCaptionsState st _ = st"

type_synonym calls_state = "(string, call_info) obj"

fun calls :: "calls_state \<Rightarrow> action \<Rightarrow> calls_state" where
  "calls st UNINIT = []"
| "calls st (CALL_STATE c) = obj_set (ci_channelID c) c st"
| "calls st (CALL_END ch callID) = obj_del ch st"
| "calls st _ = st"

type_synonym hosts_state = "(string, host_entry) obj"

fun hosts :: "hosts_state \<Rightarrow> action \<Rightarrow> hosts_state" where
  "hosts st UNINIT = []"
| "hosts st (CALL_HOST ch host changeAt) =
     obj_set ch \<lparr>he_hostID = host, he_hostChangeAt = Some changeAt\<rparr> st"
| "hosts st _ = st"

type_synonym screens_state = "(string, string) obj"

text \<open>
  The branches of \<open>CALL_END\<close> and \<open>USER_SCREEN_OFF\<close>, which \<open>USER_LEFT\<close> falls through to:
  the stored session is cleared when it is the action's session. The data of \<open>CALL_END\<close> has
  no session, so there the comparison is with \<open>undefined\<close>.
\<close>

definition clear_screen :: "string \<Rightarrow> string option \<Rightarrow> screens_state \<Rightarrow> screens_state" where
  "clear_screen ch sid st = (if sid \<noteq> obj_get st ch then st else obj_set ch [] st)"

fun screenSharingIDs :: "screens_state \<Rightarrow> action \<Rightarrow> screens_state" where
  "screenSharingIDs st UNINIT = []"
| "screenSharingIDs st (USER_SCREEN_ON ch sid) = obj_set ch sid st"
| "screenSharingIDs st (USER_LEFT ch uid sid) =
     (if Some sid \<noteq> obj_get st ch then st else clear_screen ch (Some sid) st)"
| "screenSharingIDs st (CALL_END ch callID) = clear_screen ch None st"
| "screenSharingIDs st (USER_SCREEN_OFF ch sid) = clear_screen ch (Some sid) st"
| "screenSharingIDs st _ = st"

text \<open>
  A channel's list may be stored as \<open>undefined\<close>: leaving, or the timer of, a channel without a
  list writes the result of \<open>undefined?.filter(..)\<close>.
\<close>

type_synonym recents_state = "(string, string list option) obj"

definition recent_list :: "recents_state \<Rightarrow> string \<Rightarrow> string list option" where
  "recent_list st ch = (case obj_get st ch of None \<Rightarrow> None | Some l \<Rightarrow> l)"

definition drop_recent :: "string \<Rightarrow> string \<Rightarrow> recents_state \<Rightarrow> recents_state" where
  "drop_recent ch uid st =
     obj_set ch (map_option (filter (\<lambda>val. val \<noteq> uid)) (recent_list st ch)) st"

fun recentlyJoinedUsers :: "recents_state \<Rightarrow> action \<Rightarrow> recents_state" where
  "recentlyJoinedUsers st UNINIT = []"
| "recentlyJoinedUsers st (USER_JOINED ch uid sid) =
     (case recent_list st ch of
        None \<Rightarrow> obj_set ch (Some [uid]) st
      | Some l \<Rightarrow> obj_set ch (Some (l @ [uid])) st)"
| "recentlyJoinedUsers st (USER_LEFT ch uid sid) = drop_recent ch uid st"
| "recentlyJoinedUsers st (CALL_END ch callID) = obj_set ch (Some []) st"
| "recentlyJoinedUsers st (USER_JOINED_TIMEOUT ch uid) = drop_recent ch uid st"
| "recentlyJoinedUsers st _ = st"

section \<open>Channels are independent\<close>

interpretation recordings_chan: channel_slice recordings obj_get touches
proof
  fix a c and s :: jobs_state
  assume "\<not> touches a c"
  then show "obj_get (recordings s a) c = obj_get s c"
    by (cases a) (auto simp: touches_def)
next
  fix a c and s t :: jobs_state
  assume "obj_get s c = obj_get t c"
  then show "obj_get (recordings s a) c = obj_get (recordings t a) c"
    by (cases a) auto
qed

interpretation captions_job_chan: channel_slice callLiveCaptionsState obj_get touches
proof
  fix a c and s :: jobs_state
  assume "\<not> touches a c"
  then show "obj_get (callLiveCaptionsState s a) c = obj_get s c"
    by (cases a) (auto simp: touches_def)
next
  fix a c and s t :: jobs_state
  assume "obj_get s c = obj_get t c"
  then show "obj_get (callLiveCaptionsState s a) c = obj_get (callLiveCaptionsState t a) c"
    by (cases a) auto
qed

interpretation calls_chan: channel_slice calls obj_get touches
proof
  fix a c and s :: calls_state
  assume "\<not> touches a c"
  then show "obj_get (calls s a) c = obj_get s c"
    by (cases a) (auto simp: touches_def)
next
  fix a c and s t :: calls_state
  assume "obj_get s c = obj_get t c"
  then show "obj_get (calls s a) c = obj_get (calls t a) c"
    by (cases a) auto
qed

interpretation hosts_chan: channel_slice hosts obj_get touches
proof
  fix a c and s :: hosts_state
  assume "\<not> touches a c"
  then show "obj_get (hosts s a) c = obj_get s c"
    by (cases a) (auto simp: touches_def)
next
  fix a c and s t :: hosts_state
  assume "obj_get s c = obj_get t c"
  then show "obj_get (hosts s a) c = obj_get (hosts t a) c"
    by (cases a) auto
qed

interpretation screens_chan: channel_slice screenSharingIDs obj_get touches
proof
  fix a c and s :: screens_state
  assume "\<not> touches a c"
  then show "obj_get (screenSharingIDs s a) c = obj_get s c"
    by (cases a) (auto simp: touches_def clear_screen_def)
next
  fix a c and s t :: screens_state
  assume "obj_get s c = obj_get t c"
  then show "obj_get (screenSharingIDs s a) c = obj_get (screenSharingIDs t a) c"
    by (cases a) (auto simp: clear_screen_def)
qed

lemma recent_list_set [simp]:
  "recent_list (obj_set ch l st) c = (if c = ch then l else recent_list st c)"
  by (simp add: recent_list_def)

interpretation recents_chan: channel_slice recentlyJoinedUsers recent_list touches
proof
  fix a c and s :: recents_state
  assume "\<not> touches a c"
  then show "recent_list (recentlyJoinedUsers s a) c = recent_list s c"
    by (cases a) (auto simp: touches_def drop_recent_def split: option.splits)
next
  fix a c and s t :: recents_state
  assume "recent_list s c = recent_list t c"
  then show "recent_list (recentlyJoinedUsers s a) c = recent_list (recentlyJoinedUsers t a) c"
    by (cases "recent_list t c"; cases a)
      (auto simp: drop_recent_def recent_list_def [of "[]"] split: option.splits)
qed

section \<open>Screen sharing\<close>

text \<open>An absent or empty entry means that nobody shares.\<close>

definition sharer :: "screens_state \<Rightarrow> string \<Rightarrow> string option" where
  "sharer st ch = (case obj_get st ch of None \<Rightarrow> None | Some sid \<Rightarrow> if sid = [] then None else Some sid)"

definition sharer_step :: "string \<Rightarrow> string option \<Rightarrow> action \<Rightarrow> string option" where
  "sharer_step ch who a =
     (case a of
        UNINIT \<Rightarrow> None
      | USER_SCREEN_ON c sid \<Rightarrow> if c = ch then (if sid = [] then None else Some sid) else who
      | USER_LEFT c uid sid \<Rightarrow> if c = ch \<and> who = Some sid then None else who
      | USER_SCREEN_OFF c sid \<Rightarrow> if c = ch \<and> who = Some sid then None else who
      | _ \<Rightarrow> who)"

lemma sharer_step_sharer: "sharer (screenSharingIDs st a) ch = sharer_step ch (sharer st ch) a"
  by (cases a) (auto simp: sharer_def sharer_step_def clear_screen_def split: option.splits)

section \<open>Recently joined users\<close>

definition recents :: "recents_state \<Rightarrow> string \<Rightarrow> string set" where
  "recents st ch = (case recent_list st ch of None \<Rightarrow> {} | Some l \<Rightarrow> set l)"

lemma recents_set [simp]:
  "recents (obj_set ch l st) c =
     (if c = ch then (case l of None \<Rightarrow> {} | Some xs \<Rightarrow> set xs) else recents st c)"
  by (simp add: recents_def)

lemma recents_step:
  "recents (recentlyJoinedUsers st a) ch =
     (case a of
        UNINIT \<Rightarrow> {}
      | USER_JOINED c uid sid \<Rightarrow> if c = ch then insert uid (recents st ch) else recents st ch
      | USER_LEFT c uid sid \<Rightarrow> if c = ch then recents st ch - {uid} else recents st ch
      | CALL_END c callID \<Rightarrow> if c = ch then {} else recents st ch
      | USER_JOINED_TIMEOUT c uid \<Rightarrow> if c = ch then recents st ch - {uid} else recents st ch
      | _ \<Rightarrow> recents st ch)"
  by (cases a)
    (auto simp: recents_def drop_recent_def recent_list_def [of "[]"] split: option.splits)

text \<open>The actions that take a user off a channel's list.\<close>

definition forgets :: "string \<Rightarrow> string \<Rightarrow> action \<Rightarrow> bool" where
  "forgets ch uid a =
     (case a of
        UNINIT \<Rightarrow> True
      | USER_LEFT c u sid \<Rightarrow> c = ch \<and> u = uid
      | CALL_END c callID \<Rightarrow> c = ch
      | USER_JOINED_TIMEOUT c u \<Rightarrow> c = ch \<and> u = uid
      | _ \<Rightarrow> False)"

definition joins :: "string \<Rightarrow> string \<Rightarrow> action \<Rightarrow> bool" where
  "joins ch uid a = (case a of USER_JOINED c u sid \<Rightarrow> c = ch \<and> u = uid | _ \<Rightarrow> False)"

lemma recents_member_step:
  "uid \<in> recents (recentlyJoinedUsers st a) ch \<longleftrightarrow>
     joins ch uid a \<or> (uid \<in> recents st ch \<and> \<not> forgets ch uid a)"
  unfolding recents_step joins_def forgets_def by (cases a) auto

section \<open>Properties\<close>

text \<open>
  The screen sharing slice keeps at most one sharer per channel: the session of the last
  \<open>USER_SCREEN_ON\<close>, until that session stops sharing or leaves. Stop and leave events of
  other sessions do not take the screen from it.\<close>
theorem screen_refines_sharer:
  "sharer (foldl screenSharingIDs st as) ch = foldl (sharer_step ch) (sharer st ch) as"
  by (induction as arbitrary: st) (simp_all add: sharer_step_sharer)

text \<open>
  The end of a call does not clear the channel's screen sharing session, although the
  reducer has a branch for it: the action carries no session to compare with.\<close>
theorem screen_survives_call_end:
  assumes "sharer st ch = Some sid"
  shows "sharer (screenSharingIDs st (CALL_END ch callID)) ch = Some sid"
  using assms by (simp add: sharer_step_sharer sharer_step_def del: screenSharingIDs.simps)

lemma screen_survives_call_end_witness:
  "sharer (screenSharingIDs (screenSharingIDs [] (USER_SCREEN_ON ''c'' ''s'')) (CALL_END ''c'' ''k'')) ''c''
     = Some ''s''"
  by (rule screen_survives_call_end) (simp add: sharer_def)

text \<open>
  A user is on a channel's list of recently joined users exactly when they joined and,
  since then, neither left nor was timed out, and the call did not end.\<close>
theorem recently_joined_iff:
  "uid \<in> recents (foldl recentlyJoinedUsers [] as) ch \<longleftrightarrow>
     (\<exists>pre a post. as = pre @ a # post \<and> joins ch uid a \<and>
        list_all (\<lambda>b. \<not> forgets ch uid b) post)"
proof (induction as rule: rev_induct)
  case Nil
  show ?case by (simp add: recents_def recent_list_def)
next
  case (snoc x xs)
  show ?case (is "?l = ?r")
  proof
    assume ?l
    then consider "joins ch uid x"
      | "uid \<in> recents (foldl recentlyJoinedUsers [] xs) ch" "\<not> forgets ch uid x"
      by (auto simp: recents_member_step)
    then show ?r
    proof cases
      case 1
      then have "xs @ [x] = xs @ x # [] \<and> joins ch uid x \<and>
        list_all (\<lambda>b. \<not> forgets ch uid b) []" by simp
      then show ?thesis by blast
    next
      case 2
      then obtain pre a post where "xs = pre @ a # post" "joins ch uid a"
        "list_all (\<lambda>b. \<not> forgets ch uid b) post"
        using snoc.IH by blast
      with 2 have "xs @ [x] = pre @ a # (post @ [x]) \<and> joins ch uid a \<and>
        list_all (\<lambda>b. \<not> forgets ch uid b) (post @ [x])" by simp
      then show ?thesis by blast
    qed
  next
    assume ?r
    then obtain pre a post where e: "xs @ [x] = pre @ a # post" "joins ch uid a"
      "list_all (\<lambda>b. \<not> forgets ch uid b) post"
      by blast
    show ?l
    proof (cases post rule: rev_cases)
      case Nil
      with e show ?thesis by (simp add: recents_member_step)
    next
      case (snoc post' y)
      with e have "xs = pre @ a # post'" "\<not> forgets ch uid x"
        "list_all (\<lambda>b. \<not> forgets ch uid b) post'" by auto
      with e(2) snoc.IH show ?thesis by (auto simp: recents_member_step)
    qed
  qed
qed

text \<open>
  A \<open>null\<close> job state received for a channel that has a recording leaves every field of the
  recording as it was: receiving it does not clear the previous recording.\<close>
theorem null_job_keeps_recording:
  assumes "obj_get st ch = Some j"
  shows "obj_get (recordings st (CALL_RECORDING_STATE ch None)) ch = Some j"
  using assms by simp

lemma null_job_keeps_recording_witness:
  "obj_get (recordings [(''c'', empty_job\<lparr>jb_end_at := Some 7\<rparr>)] (CALL_RECORDING_STATE ''c'' None)) ''c''
     = Some (empty_job\<lparr>jb_end_at := Some 7\<rparr>)"
  by (rule null_job_keeps_recording) (simp add: obj_get_Cons)

end
