(* ===== verification/UiSlices.thy ===== *)
theory UiSlices imports CallTypes Slices begin

text \<open>
  The slices of \<open>webapp/src/reducers.ts\<close> for the interface and the notifications: widget and
  modal flags, the plugin's configuration, incoming calls with their ringing and dismissal
  marks, and the notices that a host's actions show.
\<close>

section \<open>Flags and modals\<close>

fun expandedView :: "bool \<Rightarrow> action \<Rightarrow> bool" where
  "expandedView st UNINIT = False"
| "expandedView st SHOW_EXPANDED_VIEW = True"
| "expandedView st HIDE_EXPANDED_VIEW = False"
| "expandedView st _ = st"

definition no_switch_modal :: switch_modal where
  "no_switch_modal = \<lparr>sm_show = False, sm_targetID = Some ''''\<rparr>"

fun switchCallModal :: "switch_modal \<Rightarrow> action \<Rightarrow> switch_modal" where
  "switchCallModal st UNINIT = no_switch_modal"
| "switchCallModal st (SHOW_SWITCH_CALL_MODAL targetID) =
     \<lparr>sm_show = True, sm_targetID = targetID\<rparr>"
| "switchCallModal st HIDE_SWITCH_CALL_MODAL = no_switch_modal"
| "switchCallModal st _ = st"

fun screenSourceModal :: "bool \<Rightarrow> action \<Rightarrow> bool" where
  "screenSourceModal st UNINIT = False"
| "screenSourceModal st SHOW_SCREEN_SOURCE_MODAL = True"
| "screenSourceModal st HIDE_SCREEN_SOURCE_MODAL = False"
| "screenSourceModal st _ = st"

fun clientConnecting :: "bool \<Rightarrow> action \<Rightarrow> bool" where
  "clientConnecting st UNINIT = False"
| "clientConnecting st (CLIENT_CONNECTING b) = b"
| "clientConnecting st _ = st"

section \<open>Configuration\<close>

fun callsConfig :: "calls_config \<Rightarrow> action \<Rightarrow> calls_config" where
  "callsConfig st (RECEIVED_CALLS_CONFIG c) = c"
| "callsConfig st (RECORDINGS_ENABLED b) = st\<lparr>EnableRecordings := b\<rparr>"
| "callsConfig st (TRANSCRIPTIONS_ENABLED b) = st\<lparr>EnableTranscriptions := b\<rparr>"
| "callsConfig st (LIVE_CAPTIONS_ENABLED b) = st\<lparr>EnableLiveCaptions := b\<rparr>"
| "callsConfig st (TRANSCRIBE_API api) = st\<lparr>TranscribeAPI := api\<rparr>"
| "callsConfig st _ = st"

fun callsConfigEnvOverrides :: "(string, string) obj \<Rightarrow> action \<Rightarrow> (string, string) obj" where
  "callsConfigEnvOverrides st (RECEIVED_CALLS_CONFIG_ENV_OVERRIDES d) = d"
| "callsConfigEnvOverrides st _ = st"

fun callsVersionInfo :: "(string, string) obj \<Rightarrow> action \<Rightarrow> (string, string) obj" where
  "callsVersionInfo st (RECEIVED_CALLS_VERSION_INFO d) = d"
| "callsVersionInfo st _ = st"

fun rtcdEnabled :: "bool \<Rightarrow> action \<Rightarrow> bool" where
  "rtcdEnabled st (RTCD_ENABLED b) = b"
| "rtcdEnabled st _ = st"

fun callsUserPreferences :: "user_preferences \<Rightarrow> action \<Rightarrow> user_preferences" where
  "callsUserPreferences st (RECEIVED_CALLS_USER_PREFERENCES p) = p"
| "callsUserPreferences st _ = st"

section \<open>Incoming calls and ringing\<close>

fun incomingCalls :: "incoming_call list \<Rightarrow> action \<Rightarrow> incoming_call list" where
  "incomingCalls st (ADD_INCOMING_CALL c) = st @ [c]"
| "incomingCalls st (REMOVE_INCOMING_CALL callID) = filter (\<lambda>ic. ic_callID ic \<noteq> callID) st"
| "incomingCalls st _ = st"

type_synonym call_marks = "(string, bool) obj"

fun ringingForCalls :: "call_marks \<Rightarrow> action \<Rightarrow> call_marks" where
  "ringingForCalls st (RINGING_FOR_CALL callID) = obj_set callID True st"
| "ringingForCalls st (DID_RING_FOR_CALL callID) = obj_del callID st"
| "ringingForCalls st _ = st"

fun didRingForCalls :: "call_marks \<Rightarrow> action \<Rightarrow> call_marks" where
  "didRingForCalls st (DID_RING_FOR_CALL callID) = obj_set callID True st"
| "didRingForCalls st (RINGING_FOR_CALL callID) = obj_set callID True st"
| "didRingForCalls st _ = st"

fun didNotifyForCalls :: "call_marks \<Rightarrow> action \<Rightarrow> call_marks" where
  "didNotifyForCalls st (DID_NOTIFY_FOR_CALL callID) = obj_set callID True st"
| "didNotifyForCalls st _ = st"

fun dismissedCalls :: "call_marks \<Rightarrow> action \<Rightarrow> call_marks" where
  "dismissedCalls st (DISMISS_CALL callID) = obj_set callID True st"
| "dismissedCalls st _ = st"

section \<open>Host notices\<close>

type_synonym notices_state = "(string, host_notice list) obj"

definition addHostControlNotice :: "host_notice list option \<Rightarrow> host_notice \<Rightarrow> host_notice list" where
  "addHostControlNotice notices notice =
     (case notices of None \<Rightarrow> [] | Some ns \<Rightarrow> ns) @ [notice]"

definition removeHostControlNotice :: "host_notice list \<Rightarrow> string \<Rightarrow> host_notice list" where
  "removeHostControlNotice notices noticeID = filter (\<lambda>n. hn_noticeID n \<noteq> noticeID) notices"

text \<open>
  The notices of a call without a list are \<open>undefined\<close>, and calling \<open>filter\<close> on that throws.
\<close>

fun hostControlNotices :: "notices_state \<Rightarrow> action \<Rightarrow> error + notices_state" where
  "hostControlNotices st (HOST_CONTROL_NOTICE n) =
     Inr (obj_set (hn_callID n) (addHostControlNotice (obj_get st (hn_callID n)) n) st)"
| "hostControlNotices st (HOST_CONTROL_NOTICE_TIMEOUT_EVENT callID noticeID) =
     (case obj_get st callID of
        None \<Rightarrow> Inl (TypeError ''filter'')
      | Some ns \<Rightarrow> Inr (obj_set callID (removeHostControlNotice ns noticeID) st))"
| "hostControlNotices st _ = Inr st"

definition notice_covers :: "host_notice \<Rightarrow> host_notice \<Rightarrow> bool" where
  "notice_covers n x \<longleftrightarrow> hn_noticeID x = hn_noticeID n"

interpretation notice_timers:
  timed_items "\<lambda>ns n. addHostControlNotice (Some ns) n"
    "\<lambda>ns n. removeHostControlNotice ns (hn_noticeID n)" "\<lambda>ns n. n \<in> set ns" notice_covers
  by unfold_locales
    (auto simp: addHostControlNotice_def removeHostControlNotice_def notice_covers_def)

section \<open>Marks only grow\<close>

text \<open>\<open>!!marks[callID]\<close>\<close>

definition marked :: "call_marks \<Rightarrow> string \<Rightarrow> bool" where
  "marked st callID \<longleftrightarrow> obj_get st callID = Some True"

lemma marked_set [simp]: "marked (obj_set k b st) c = (if c = k then b else marked st c)"
  by (simp add: marked_def)

lemma marked_del [simp]: "marked (obj_del k st) c = (c \<noteq> k \<and> marked st c)"
  by (simp add: marked_def)

lemma marked_Nil [simp]: "\<not> marked [] c"
  by (simp add: marked_def)

lemma didRing_step: "marked st c \<Longrightarrow> marked (didRingForCalls st a) c"
  by (cases a) auto

lemma didNotify_step: "marked st c \<Longrightarrow> marked (didNotifyForCalls st a) c"
  by (cases a) auto

lemma dismissed_step: "marked st c \<Longrightarrow> marked (dismissedCalls st a) c"
  by (cases a) auto

interpretation didRing_marked: inv_slice didRingForCalls "\<lambda>st. marked st c" "\<lambda>_. True"
  by unfold_locales (rule didRing_step)

interpretation dismissed_marked: inv_slice dismissedCalls "\<lambda>st. marked st c" "\<lambda>_. True"
  by unfold_locales (rule dismissed_step)

interpretation didNotify_marked: inv_slice didNotifyForCalls "\<lambda>st. marked st c" "\<lambda>_. True"
  by unfold_locales (rule didNotify_step)

text \<open>A call that rings has the mark that it rang.\<close>

lemma ringing_did_ring_step:
  "(marked r c \<longrightarrow> marked d c) \<Longrightarrow>
   marked (ringingForCalls r a) c \<longrightarrow> marked (didRingForCalls d a) c"
  by (cases a) auto

text \<open>The calls on the list of incoming calls.\<close>

lemma incoming_step:
  "ic_callID ` set (incomingCalls st a) =
     (case a of
        ADD_INCOMING_CALL c \<Rightarrow> insert (ic_callID c) (ic_callID ` set st)
      | REMOVE_INCOMING_CALL callID \<Rightarrow> ic_callID ` set st - {callID}
      | _ \<Rightarrow> ic_callID ` set st)"
  by (cases a) auto

section \<open>Notices under dispatch\<close>

text \<open>A dispatch whose reducer throws leaves the store as it was.\<close>

definition notices_dispatch :: "notices_state \<Rightarrow> action \<Rightarrow> notices_state" where
  "notices_dispatch st a = (case hostControlNotices st a of Inl e \<Rightarrow> st | Inr st' \<Rightarrow> st')"

definition has_notices :: "notices_state \<Rightarrow> string \<Rightarrow> bool" where
  "has_notices st callID \<longleftrightarrow> obj_get st callID \<noteq> None"

definition notice_for :: "string \<Rightarrow> action \<Rightarrow> bool" where
  "notice_for callID a = (case a of HOST_CONTROL_NOTICE n \<Rightarrow> hn_callID n = callID | _ \<Rightarrow> False)"

lemma has_notices_step:
  "has_notices (notices_dispatch st a) callID \<longleftrightarrow> has_notices st callID \<or> notice_for callID a"
  by (cases a) (auto simp: has_notices_def notices_dispatch_def notice_for_def split: option.splits)

lemma has_notices_run:
  "has_notices (foldl notices_dispatch st as) callID \<longleftrightarrow>
     has_notices st callID \<or> list_ex (notice_for callID) as"
  by (induction as arbitrary: st) (auto simp: has_notices_step)

section \<open>Properties\<close>

text \<open>
  After any run of actions, a call that is ringing has its mark that it rang, so that
  \<open>didRingForCalls\<close>, which ringing again is guarded by, covers every ringing call.\<close>
theorem ringing_implies_did_ring:
  assumes "marked (foldl ringingForCalls [] as) c"
  shows "marked (foldl didRingForCalls [] as) c"
proof -
  have "marked (foldl ringingForCalls r as) c \<longrightarrow> marked (foldl didRingForCalls d as) c"
    if "marked r c \<longrightarrow> marked d c" for r d
    using that
  proof (induction as arbitrary: r d)
    case Nil
    then show ?case by simp
  next
    case (Cons a as)
    show ?case using Cons.IH [OF ringing_did_ring_step [OF Cons.prems, of a]] by simp
  qed
  from this [of "[]" "[]"] assms show ?thesis by simp
qed

lemma ringing_implies_did_ring_witness:
  "marked (foldl didRingForCalls [] [RINGING_FOR_CALL ''k'', DID_RING_FOR_CALL ''j'']) ''k''"
  by (rule ringing_implies_did_ring) simp

text \<open>
  Marks are never taken back: once a call rang, notified or was dismissed, it stays so
  through any run of actions, \<open>UNINIT\<close> included.\<close>
theorem call_marks_stay:
  assumes "marked rang c" and "marked notified c" and "marked dismissed c"
  shows "marked (foldl didRingForCalls rang as) c \<and> marked (foldl didNotifyForCalls notified as) c \<and>
         marked (foldl dismissedCalls dismissed as) c"
  using assms
  by (auto intro: didRing_marked.run_inv didNotify_marked.run_inv dismissed_marked.run_inv
      simp: list_all_iff)

lemma call_marks_stay_witness:
  "marked (foldl didRingForCalls [(''k'', True)] [UNINIT, DID_RING_FOR_CALL ''j'']) ''k''"
  by (rule call_marks_stay [THEN conjunct1, of _ _ "[(''k'', True)]" "[(''k'', True)]"])
    (simp_all add: marked_def obj_get_Cons)

text \<open>
  The timer of a notice makes the reducer throw exactly when no notice of that call was
  ever received; removing a call's last notice leaves an empty list, on which later timers are
  harmless.\<close>
theorem notice_timer_throws_iff:
  "(\<exists>e. hostControlNotices (foldl notices_dispatch [] as)
          (HOST_CONTROL_NOTICE_TIMEOUT_EVENT callID noticeID) = Inl e) \<longleftrightarrow>
   \<not> list_ex (notice_for callID) as"
  using has_notices_run [of "[]" as callID]
  by (auto simp: has_notices_def split: option.splits)

text \<open>
  A notice whose timer fired does not come back, whatever other notices are shown and
  removed.\<close>
theorem notice_gone_after_timer:
  fixes n :: host_notice and es :: "(host_notice + host_notice) list"
  assumes "Inl n \<notin> set es"
  shows "n \<notin> set (foldl (\<lambda>ns e. case e of Inl x \<Rightarrow> addHostControlNotice (Some ns) x
                                 | Inr x \<Rightarrow> removeHostControlNotice ns (hn_noticeID x))
                   (removeHostControlNotice ns (hn_noticeID n)) es)"
  using assms by (rule notice_timers.added_then_expired)

lemma notice_gone_after_timer_witness:
  "let n = (\<lambda>i. \<lparr>hn_type = HostChanged, hn_callID = ''k'', hn_noticeID = i, hn_displayName = ''U'',
                 hn_userID = None\<rparr>)
   in n ''1'' \<notin> set (foldl (\<lambda>ns e. case e of Inl x \<Rightarrow> addHostControlNotice (Some ns) x
                                 | Inr x \<Rightarrow> removeHostControlNotice ns (hn_noticeID x))
                   (removeHostControlNotice [n ''1''] (hn_noticeID (n ''1''))) [Inl (n ''2''), Inr (n ''3'')])"
  unfolding Let_def by (rule notice_gone_after_timer) simp

end
