(* ===== verification/RootReducer.thy ===== *)
theory RootReducer imports SessionsSlice StreamSlices CallSlices UiSlices begin

text \<open>
  The plugin's part of the Redux store: one field per slice of the \<open>combineReducers\<close> call at the
  end of \<open>webapp/src/reducers.ts\<close>, its initial state, and the combined reducer. The combined
  reducer gives each slice the action; it throws when a slice throws. A dispatch that throws
  leaves the store as it was.
\<close>

section \<open>The store\<close>

record root_state =
  rs_channels :: channels_state
  rs_clientState :: "client_state option"
  rs_reactions :: reactions_state
  rs_sessions :: sessions_state
  rs_calls :: calls_state
  rs_hosts :: hosts_state
  rs_screenSharingIDs :: screens_state
  rs_expandedView :: bool
  rs_switchCallModal :: switch_modal
  rs_screenSourceModal :: bool
  rs_callsConfig :: calls_config
  rs_callsConfigEnvOverrides :: "(string, string) obj"
  rs_callsVersionInfo :: "(string, string) obj"
  rs_rtcdEnabled :: bool
  rs_callsUserPreferences :: user_preferences
  rs_recordings :: jobs_state
  rs_callLiveCaptionsState :: jobs_state
  rs_recentlyJoinedUsers :: recents_state
  rs_incomingCalls :: "incoming_call list"
  rs_ringingForCalls :: call_marks
  rs_didRingForCalls :: call_marks
  rs_didNotifyForCalls :: call_marks
  rs_dismissedCalls :: call_marks
  rs_liveCaptions :: captions_state
  rs_clientConnecting :: bool
  rs_hostControlNotices :: notices_state

text \<open>The default of each slice's \<open>state\<close> parameter.\<close>

definition init_root :: "string \<Rightarrow> root_state" where
  "init_root whisperCPP = \<lparr>
     rs_channels = [], rs_clientState = None, rs_reactions = [], rs_sessions = [], rs_calls = [],
     rs_hosts = [], rs_screenSharingIDs = [], rs_expandedView = False,
     rs_switchCallModal = no_switch_modal, rs_screenSourceModal = False,
     rs_callsConfig = CallsConfigDefault whisperCPP, rs_callsConfigEnvOverrides = [],
     rs_callsVersionInfo = [], rs_rtcdEnabled = False,
     rs_callsUserPreferences = CallsUserPreferencesDefault, rs_recordings = [],
     rs_callLiveCaptionsState = [], rs_recentlyJoinedUsers = [], rs_incomingCalls = [],
     rs_ringingForCalls = [], rs_didRingForCalls = [], rs_didNotifyForCalls = [],
     rs_dismissedCalls = [], rs_liveCaptions = [], rs_clientConnecting = False,
     rs_hostControlNotices = []\<rparr>"

definition rootReducer :: "root_state \<Rightarrow> action \<Rightarrow> error + root_state" where
  "rootReducer st a =
     (case hostControlNotices (rs_hostControlNotices st) a of
        Inl e \<Rightarrow> Inl e
      | Inr notices \<Rightarrow> Inr \<lparr>
          rs_channels = channels (rs_channels st) a,
          rs_clientState = clientStateReducer (rs_clientState st) a,
          rs_reactions = reactions (rs_reactions st) a,
          rs_sessions = sessions (rs_sessions st) a,
          rs_calls = calls (rs_calls st) a,
          rs_hosts = hosts (rs_hosts st) a,
          rs_screenSharingIDs = screenSharingIDs (rs_screenSharingIDs st) a,
          rs_expandedView = expandedView (rs_expandedView st) a,
          rs_switchCallModal = switchCallModal (rs_switchCallModal st) a,
          rs_screenSourceModal = screenSourceModal (rs_screenSourceModal st) a,
          rs_callsConfig = callsConfig (rs_callsConfig st) a,
          rs_callsConfigEnvOverrides = callsConfigEnvOverrides (rs_callsConfigEnvOverrides st) a,
          rs_callsVersionInfo = callsVersionInfo (rs_callsVersionInfo st) a,
          rs_rtcdEnabled = rtcdEnabled (rs_rtcdEnabled st) a,
          rs_callsUserPreferences = callsUserPreferences (rs_callsUserPreferences st) a,
          rs_recordings = recordings (rs_recordings st) a,
          rs_callLiveCaptionsState = callLiveCaptionsState (rs_callLiveCaptionsState st) a,
          rs_recentlyJoinedUsers = recentlyJoinedUsers (rs_recentlyJoinedUsers st) a,
          rs_incomingCalls = incomingCalls (rs_incomingCalls st) a,
          rs_ringingForCalls = ringingForCalls (rs_ringingForCalls st) a,
          rs_didRingForCalls = didRingForCalls (rs_didRingForCalls st) a,
          rs_didNotifyForCalls = didNotifyForCalls (rs_didNotifyForCalls st) a,
          rs_dismissedCalls = dismissedCalls (rs_dismissedCalls st) a,
          rs_liveCaptions = liveCaptions (rs_liveCaptions st) a,
          rs_clientConnecting = clientConnecting (rs_clientConnecting st) a,
          rs_hostControlNotices = notices\<rparr>)"

definition store_dispatch :: "root_state \<Rightarrow> action \<Rightarrow> root_state" where
  "store_dispatch st a = (case rootReducer st a of Inl e \<Rightarrow> st | Inr st' \<Rightarrow> st')"

section \<open>Slices of the store\<close>

text \<open>Only the timer of a notice can throw, and no other slice reacts to that action.\<close>

lemma notice_error_action:
  "hostControlNotices st a = Inl e \<Longrightarrow> \<exists>callID noticeID. a = HOST_CONTROL_NOTICE_TIMEOUT_EVENT callID noticeID"
  by (cases a) (auto split: option.splits)

lemma dispatch_slices [simp]:
  "rs_channels (store_dispatch st a) = channels (rs_channels st) a"
  "rs_clientState (store_dispatch st a) = clientStateReducer (rs_clientState st) a"
  "rs_reactions (store_dispatch st a) = reactions (rs_reactions st) a"
  "rs_sessions (store_dispatch st a) = sessions (rs_sessions st) a"
  "rs_calls (store_dispatch st a) = calls (rs_calls st) a"
  "rs_hosts (store_dispatch st a) = hosts (rs_hosts st) a"
  "rs_screenSharingIDs (store_dispatch st a) = screenSharingIDs (rs_screenSharingIDs st) a"
  "rs_expandedView (store_dispatch st a) = expandedView (rs_expandedView st) a"
  "rs_switchCallModal (store_dispatch st a) = switchCallModal (rs_switchCallModal st) a"
  "rs_screenSourceModal (store_dispatch st a) = screenSourceModal (rs_screenSourceModal st) a"
  "rs_callsConfig (store_dispatch st a) = callsConfig (rs_callsConfig st) a"
  "rs_callsConfigEnvOverrides (store_dispatch st a) =
     callsConfigEnvOverrides (rs_callsConfigEnvOverrides st) a"
  "rs_callsVersionInfo (store_dispatch st a) = callsVersionInfo (rs_callsVersionInfo st) a"
  "rs_rtcdEnabled (store_dispatch st a) = rtcdEnabled (rs_rtcdEnabled st) a"
  "rs_callsUserPreferences (store_dispatch st a) =
     callsUserPreferences (rs_callsUserPreferences st) a"
  "rs_recordings (store_dispatch st a) = recordings (rs_recordings st) a"
  "rs_callLiveCaptionsState (store_dispatch st a) =
     callLiveCaptionsState (rs_callLiveCaptionsState st) a"
  "rs_recentlyJoinedUsers (store_dispatch st a) =
     recentlyJoinedUsers (rs_recentlyJoinedUsers st) a"
  "rs_incomingCalls (store_dispatch st a) = incomingCalls (rs_incomingCalls st) a"
  "rs_ringingForCalls (store_dispatch st a) = ringingForCalls (rs_ringingForCalls st) a"
  "rs_didRingForCalls (store_dispatch st a) = didRingForCalls (rs_didRingForCalls st) a"
  "rs_didNotifyForCalls (store_dispatch st a) = didNotifyForCalls (rs_didNotifyForCalls st) a"
  "rs_dismissedCalls (store_dispatch st a) = dismissedCalls (rs_dismissedCalls st) a"
  "rs_liveCaptions (store_dispatch st a) = liveCaptions (rs_liveCaptions st) a"
  "rs_clientConnecting (store_dispatch st a) = clientConnecting (rs_clientConnecting st) a"
  "rs_hostControlNotices (store_dispatch st a) =
     notices_dispatch (rs_hostControlNotices st) a"
  by (auto simp: store_dispatch_def rootReducer_def notices_dispatch_def
      split: sum.splits dest: notice_error_action)

lemmas run_slices =
  run_proj [where f = rs_sessions and step = store_dispatch, OF dispatch_slices(4)]
  run_proj [where f = rs_reactions and step = store_dispatch, OF dispatch_slices(3)]
  run_proj [where f = rs_calls and step = store_dispatch, OF dispatch_slices(5)]
  run_proj [where f = rs_hosts and step = store_dispatch, OF dispatch_slices(6)]
  run_proj [where f = rs_screenSharingIDs and step = store_dispatch, OF dispatch_slices(7)]
  run_proj [where f = rs_recordings and step = store_dispatch, OF dispatch_slices(16)]
  run_proj [where f = rs_callLiveCaptionsState and step = store_dispatch, OF dispatch_slices(17)]
  run_proj [where f = rs_recentlyJoinedUsers and step = store_dispatch, OF dispatch_slices(18)]
  run_proj [where f = rs_liveCaptions and step = store_dispatch, OF dispatch_slices(24)]

section \<open>What the store knows of a channel\<close>

record channel_view =
  cv_sessions :: "(string, user_session) obj option"
  cv_reactions :: "reaction list option"
  cv_call :: "call_info option"
  cv_host :: "host_entry option"
  cv_screen :: "string option"
  cv_recording :: "job_state option"
  cv_captionsJob :: "job_state option"
  cv_recents :: "string list option"
  cv_captions :: "(string, live_caption) obj option"

definition view_channel :: "root_state \<Rightarrow> string \<Rightarrow> channel_view" where
  "view_channel st ch = \<lparr>
     cv_sessions = obj_get (rs_sessions st) ch,
     cv_reactions = obj_get (rs_reactions st) ch,
     cv_call = obj_get (rs_calls st) ch,
     cv_host = obj_get (rs_hosts st) ch,
     cv_screen = obj_get (rs_screenSharingIDs st) ch,
     cv_recording = obj_get (rs_recordings st) ch,
     cv_captionsJob = obj_get (rs_callLiveCaptionsState st) ch,
     cv_recents = recent_list (rs_recentlyJoinedUsers st) ch,
     cv_captions = obj_get (rs_liveCaptions st) ch\<rparr>"

interpretation store_chan: channel_slice store_dispatch view_channel touches
proof
  fix a ch st
  assume "\<not> touches a ch"
  then show "view_channel (store_dispatch st a) ch = view_channel st ch"
    by (simp add: view_channel_def sessions_chan.frame reactions_chan.frame calls_chan.frame
        hosts_chan.frame screens_chan.frame recordings_chan.frame captions_job_chan.frame
        recents_chan.frame captions_chan.frame)
next
  fix a ch s t
  assume "view_channel s ch = view_channel t ch"
  then show "view_channel (store_dispatch s a) ch = view_channel (store_dispatch t a) ch"
    by (auto simp: view_channel_def intro!: sessions_chan.local_step reactions_chan.local_step
        calls_chan.local_step hosts_chan.local_step screens_chan.local_step
        recordings_chan.local_step captions_job_chan.local_step recents_chan.local_step
        captions_chan.local_step)
qed

section \<open>Properties\<close>

text \<open>
  C12. Channels are independent in the whole store: two interleavings of the server's events
  that agree on the events of a channel leave the same sessions, reactions, call, host, screen
  sharing, jobs, recently joined users and captions for that channel.\<close>
theorem store_interleaving:
  assumes "filter (\<lambda>a. touches a ch) as = filter (\<lambda>a. touches a ch) bs"
  shows "view_channel (foldl store_dispatch st as) ch = view_channel (foldl store_dispatch st bs) ch"
  using assms by (rule store_chan.run_interleaving)

lemma store_interleaving_witness:
  "view_channel (foldl store_dispatch (init_root ''w'')
      [USER_JOINED ''c'' ''u'' ''s'', USER_SCREEN_ON ''d'' ''t'', CALL_HOST ''c'' ''u'' 3]) ''c'' =
   view_channel (foldl store_dispatch (init_root ''w'')
      [USER_SCREEN_ON ''d'' ''t'', USER_JOINED ''c'' ''u'' ''s'', CALL_HOST ''c'' ''u'' 3]) ''c''"
  by (rule store_interleaving) (simp add: touches_def)

text \<open>
  \<open>UNINIT\<close> forgets every call: sessions, calls, hosts, screen sharing, recordings,
  recently joined users and this client's call are empty, the widgets closed. It keeps the
  configuration, the channels' settings, the incoming calls with their marks, the captions and
  their job, the reactions and the notices.\<close>
theorem uninit_resets:
  "store_dispatch st UNINIT =
     st\<lparr>rs_clientState := None, rs_sessions := [], rs_calls := [], rs_hosts := [],
       rs_screenSharingIDs := [], rs_expandedView := False, rs_switchCallModal := no_switch_modal,
       rs_screenSourceModal := False, rs_recordings := [], rs_recentlyJoinedUsers := [],
       rs_clientConnecting := False\<rparr>"
  by (cases st) (simp add: store_dispatch_def rootReducer_def)

lemma notices_run:
  "rs_hostControlNotices (foldl store_dispatch st as) =
     foldl notices_dispatch (rs_hostControlNotices st) as"
  by (induction as arbitrary: st) simp_all

lemma reducer_throws:
  "rootReducer st a = Inl e \<longleftrightarrow> hostControlNotices (rs_hostControlNotices st) a = Inl e"
  by (auto simp: rootReducer_def split: sum.splits)

text \<open>
  C30. The store is total but for one case: after any actions, the root reducer throws exactly at the timer of
  a notice for a call that no notice was ever received of, always the same error, and dispatching
  that action leaves the store as it was.\<close>
theorem store_throws_iff:
  "(rootReducer (foldl store_dispatch (init_root w) as) a = Inl e) =
     (e = TypeError ''filter'' \<and>
      (\<exists>callID noticeID. a = HOST_CONTROL_NOTICE_TIMEOUT_EVENT callID noticeID \<and>
         \<not> list_ex (notice_for callID) as \<and>
         store_dispatch (foldl store_dispatch (init_root w) as) a =
           foldl store_dispatch (init_root w) as))"
proof -
  let ?st = "foldl store_dispatch (init_root w) as"
  have r: "rs_hostControlNotices ?st = foldl notices_dispatch [] as"
    by (simp add: notices_run init_root_def)
  have n: "obj_get (rs_hostControlNotices ?st) callID = None \<longleftrightarrow> \<not> list_ex (notice_for callID) as" for callID
    using has_notices_run [of "[]" as callID] by (simp add: r has_notices_def del: not_None_eq) blast
  have "hostControlNotices (rs_hostControlNotices ?st) a = Inl e \<longleftrightarrow> e = TypeError ''filter'' \<and>
    (\<exists>callID noticeID. a = HOST_CONTROL_NOTICE_TIMEOUT_EVENT callID noticeID \<and>
       obj_get (rs_hostControlNotices ?st) callID = None)"
    by (cases a) (auto split: option.splits)
  moreover have "store_dispatch ?st a = ?st" if "rootReducer ?st a = Inl e'" for e'
    using that by (simp add: store_dispatch_def)
  ultimately show ?thesis unfolding reducer_throws using n by (auto simp: reducer_throws)
qed

text \<open>
  The end of a call removes the channel's call and sessions, empties its recently joined
  users and, when this client was connected to it, forgets that; the channel's host, reactions,
  captions, jobs and, when somebody was sharing, the screen sharing session stay.\<close>
theorem call_end_effect:
  "view_channel (store_dispatch st (CALL_END ch callID)) c =
     (let v = view_channel st c
      in if c = ch
         then v\<lparr>cv_sessions := None, cv_call := None, cv_recents := Some [],
                cv_screen := (if cv_screen v = None then Some [] else cv_screen v)\<rparr>
         else v) \<and>
   rs_clientState (store_dispatch st (CALL_END ch callID)) =
     (case rs_clientState st of
        Some cs \<Rightarrow> if cl_channelID cs = ch then None else Some cs
      | None \<Rightarrow> None)"
  by (auto simp: view_channel_def Let_def clear_screen_def split: option.splits)

end
