(* ===== verification/WebSocketClient.thy ===== *)
theory WebSocketClient imports Prelude Slices begin

text \<open>
  The websocket client of \<open>webapp/src/websocket.ts\<close>, one definition per method and per socket
  callback, on a record of the object's fields. The browser's socket is the part of it that the
  code observes: its ready state, the \<open>isReconnect\<close> its callbacks captured, and whether
  \<open>onclose\<close> is still attached. What goes out on the wire, the events emitted, the reconnect
  timers pending and the number of sockets created are recorded, so that properties can speak of
  them.

  The \<open>open\<close> event is delivered in the middle of a callback to the listener that the calls
  client registers; that listener is the parameter \<open>lst\<close>. Every other event is emitted last,
  and its listener runs on the state that the method leaves.

  Received messages are what \<open>JSON.parse\<close> gave. \<open>serverSeqNo\<close> is a JavaScript number that
  becomes \<open>NaN\<close> when a message without \<open>seq\<close> arrives; \<open>NaN\<close> is \<open>None\<close>. A \<open>hello\<close> without a
  connection id is read as one with the empty id.
\<close>

section \<open>Data\<close>

definition wsMinReconnectRetryTimeMs :: int where "wsMinReconnectRetryTimeMs = 1000"
definition wsReconnectionTimeout :: int where "wsReconnectionTimeout = 30000"
definition wsReconnectTimeIncrement :: int where "wsReconnectTimeIncrement = 500"
definition wsPingIntervalMs :: int where "wsPingIntervalMs = 5000"

datatype WebSocketErrorType = Native | Join | ReconnectTimeout

datatype ready_state = CONNECTING | OPEN | CLOSING | CLOSED

record socket =
  sk_state :: ready_state
  sk_isReconnect :: bool
  sk_connection_id :: string
  sk_sequence_number :: "int option"
  sk_onclose :: bool

text \<open>Messages handed to the socket.\<close>

datatype wire =
    WAuth string int
  | WPing int
  | WAction string int "json option" bool \<comment> \<open>action, seq, data, binary\<close>

record msg_data =
  md_connection_id :: string
  md_connID :: "string option"
  md_data :: string

record ws_msg =
  wm_seq_reply :: "int option"
  wm_seq :: "int option"
  wm_event :: string
  wm_data :: "msg_data option"

text \<open>The data of a message event: empty, not JSON, a falsy JSON value, or an object.\<close>

datatype raw_msg = RawEmpty | RawInvalid | RawFalsy | RawObject ws_msg

datatype ws_event =
    EOpen string string bool
  | EClose int
  | EError WebSocketErrorType string
  | EEvent ws_msg
  | EJoin
  | EMessage msg_data

record ws_client =
  ws_socket :: "socket option"
  ws_authToken :: string
  ws_seqNo :: int
  ws_serverSeqNo :: "int option"
  ws_connID :: string
  ws_originalConnID :: string
  ws_eventPrefix :: string
  ws_lastDisconnect :: int
  ws_reconnectRetryTime :: int
  ws_closed :: bool
  ws_pingInterval :: bool
  ws_waitingForPong :: bool
  ws_expectedPongSeqNo :: int
  ws_leaveOnOpen :: nat \<comment> \<open>listeners that \<open>sendLeaveAndClose\<close> registered with \<open>once\<close>\<close>
  ws_listening :: bool \<comment> \<open>the calls client's listeners are registered\<close>
  ws_timers :: "int list" \<comment> \<open>due times of the pending reconnect timers\<close>
  ws_sockets :: nat \<comment> \<open>sockets created\<close>
  ws_sent :: "wire list"
  ws_emitted :: "ws_event list"

section \<open>Methods\<close>

definition ws_emit :: "ws_event \<Rightarrow> ws_client \<Rightarrow> ws_client" where
  "ws_emit e w = (if ws_listening w then w\<lparr>ws_emitted := ws_emitted w @ [e]\<rparr> else w)"

definition ws_put :: "wire \<Rightarrow> ws_client \<Rightarrow> ws_client" where
  "ws_put m w = w\<lparr>ws_sent := ws_sent w @ [m]\<rparr>"

definition is_open :: "ws_client \<Rightarrow> bool" where
  "is_open w \<longleftrightarrow> (\<exists>s. ws_socket w = Some s \<and> sk_state s = OPEN)"

lemma is_open_code [code, simp]:
  "is_open w = (case ws_socket w of None \<Rightarrow> False | Some s \<Rightarrow> sk_state s = OPEN)"
  by (simp add: is_open_def split: option.splits)

text \<open>\<open>init\<close>: the constructor and the reconnect timer call it.\<close>

definition ws_init :: "bool \<Rightarrow> ws_client \<Rightarrow> ws_client" where
  "ws_init isReconnect w =
     (if ws_closed w then w
      else w\<lparr>ws_socket := Some \<lparr>sk_state = CONNECTING, sk_isReconnect = isReconnect,
               sk_connection_id = ws_connID w, sk_sequence_number = ws_serverSeqNo w,
               sk_onclose = True\<rparr>,
             ws_sockets := Suc (ws_sockets w)\<rparr>)"

definition new_ws :: "string \<Rightarrow> string \<Rightarrow> ws_client" where
  "new_ws pluginId authToken = ws_init False \<lparr>
     ws_socket = None, ws_authToken = authToken, ws_seqNo = 1, ws_serverSeqNo = Some 0,
     ws_connID = [], ws_originalConnID = [], ws_eventPrefix = ''custom_'' @ pluginId,
     ws_lastDisconnect = 0, ws_reconnectRetryTime = wsMinReconnectRetryTimeMs, ws_closed = False,
     ws_pingInterval = False, ws_waitingForPong = False, ws_expectedPongSeqNo = 0,
     ws_leaveOnOpen = 0, ws_listening = True, ws_timers = [], ws_sockets = 0, ws_sent = [],
     ws_emitted = []\<rparr>"

definition ws_send :: "string \<Rightarrow> json option \<Rightarrow> bool \<Rightarrow> ws_client \<Rightarrow> ws_client" where
  "ws_send action data binary w =
     (let m = WAction (ws_eventPrefix w @ ''_'' @ action) (ws_seqNo w) data binary;
          w1 = w\<lparr>ws_seqNo := ws_seqNo w + 1\<rparr>
      in if is_open w then ws_put m w1 else w1)"

definition ws_stopPingInterval :: "ws_client \<Rightarrow> ws_client" where
  "ws_stopPingInterval w =
     (if ws_pingInterval w
      then w\<lparr>ws_pingInterval := False, ws_waitingForPong := False, ws_expectedPongSeqNo := 0\<rparr>
      else w)"

definition ws_startPingInterval :: "ws_client \<Rightarrow> ws_client" where
  "ws_startPingInterval w =
     (if ws_closed w then w else (ws_stopPingInterval w)\<lparr>ws_pingInterval := True\<rparr>)"

definition ws_ping :: "ws_client \<Rightarrow> ws_client" where
  "ws_ping w =
     (if is_open w
      then ws_put (WPing (ws_seqNo w))
             (w\<lparr>ws_waitingForPong := True, ws_expectedPongSeqNo := ws_seqNo w,
                ws_seqNo := ws_seqNo w + 1\<rparr>)
      else w)"

text \<open>The socket that \<open>close\<close> lets go of is closing and can only report that it closed.\<close>

definition ws_close :: "ws_client \<Rightarrow> ws_client" where
  "ws_close w =
     (ws_stopPingInterval (w\<lparr>ws_closed := True\<rparr>))
       \<lparr>ws_socket := None, ws_seqNo := 1, ws_serverSeqNo := Some 0, ws_expectedPongSeqNo := 0,
        ws_connID := [], ws_originalConnID := [], ws_listening := False, ws_leaveOnOpen := 0\<rparr>"

definition ws_reconnect :: "int \<Rightarrow> ws_client \<Rightarrow> ws_client" where
  "ws_reconnect now w =
     (let w1 = (if ws_lastDisconnect w = 0 then w\<lparr>ws_lastDisconnect := now\<rparr> else w)
      in if now - ws_lastDisconnect w1 \<ge> wsReconnectionTimeout
         then ws_emit (EError ReconnectTimeout ''max disconnected time reached'')
                (w1\<lparr>ws_closed := True\<rparr>)
         else w1\<lparr>ws_timers := ws_timers w1 @ [now + ws_reconnectRetryTime w1],
                 ws_reconnectRetryTime := ws_reconnectRetryTime w1 + wsReconnectTimeIncrement\<rparr>)"

definition ws_closeHandler :: "int \<Rightarrow> int \<Rightarrow> ws_client \<Rightarrow> ws_client" where
  "ws_closeHandler now code w =
     (let w1 = ws_emit (EClose code) (ws_stopPingInterval w)
      in if \<not> ws_closed w1 then ws_reconnect now w1 else w1)"

definition leave_and_close :: "ws_client \<Rightarrow> ws_client" where
  "leave_and_close w = ws_close (ws_send ''leave'' None False w)"

definition ws_sendLeaveAndClose :: "ws_client \<Rightarrow> ws_client" where
  "ws_sendLeaveAndClose w =
     (case ws_socket w of
        None \<Rightarrow> ws_close w
      | Some s \<Rightarrow>
          if sk_state s = CLOSING \<or> sk_state s = CLOSED then ws_close w
          else if sk_state s = OPEN then leave_and_close w
          else w\<lparr>ws_closed := True, ws_leaveOnOpen := Suc (ws_leaveOnOpen w)\<rparr>)"

section \<open>Callbacks\<close>

text \<open>
  \<open>emit('open', ..)\<close>: the calls client's listener, then the ones that \<open>sendLeaveAndClose\<close>
  registered.
\<close>

definition ws_emit_open :: "(bool \<Rightarrow> ws_client \<Rightarrow> ws_client) \<Rightarrow> bool \<Rightarrow> ws_client \<Rightarrow> ws_client" where
  "ws_emit_open lst isReconnect w =
     (let w1 = (if ws_listening w
                then lst isReconnect
                       (ws_emit (EOpen (ws_originalConnID w) (ws_connID w) isReconnect) w)
                else w)
      in (leave_and_close ^^ ws_leaveOnOpen w) (w1\<lparr>ws_leaveOnOpen := 0\<rparr>))"

definition ws_onopen :: "(bool \<Rightarrow> ws_client \<Rightarrow> ws_client) \<Rightarrow> bool \<Rightarrow> ws_client \<Rightarrow> ws_client" where
  "ws_onopen lst isReconnect w =
     (let w1 = (if ws_authToken w \<noteq> []
                then ws_put (WAuth (ws_authToken w) (ws_seqNo w)) (w\<lparr>ws_seqNo := ws_seqNo w + 1\<rparr>)
                else w);
          w2 = (if isReconnect
                then ws_emit_open lst True
                       (w1\<lparr>ws_lastDisconnect := 0,
                           ws_reconnectRetryTime := wsMinReconnectRetryTimeMs\<rparr>)
                else w1)
      in ws_ping (ws_startPingInterval w2))"

definition ws_onerror :: "ws_client \<Rightarrow> ws_client" where
  "ws_onerror w = ws_emit (EError Native ''websocket error'') w"

text \<open>The branch of \<open>onmessage\<close> for \<open>hello\<close>.\<close>

definition ws_hello ::
  "(bool \<Rightarrow> ws_client \<Rightarrow> ws_client) \<Rightarrow> bool \<Rightarrow> ws_msg \<Rightarrow> msg_data \<Rightarrow> ws_client \<Rightarrow> ws_client" where
  "ws_hello lst isReconnect msg d w =
     (let w1 = (if md_connection_id d \<noteq> ws_connID w
                then ws_emit (EEvent msg)
                       (w\<lparr>ws_connID := md_connection_id d, ws_serverSeqNo := Some 0, ws_seqNo := 1,
                          ws_originalConnID :=
                            (if ws_originalConnID w = [] then md_connection_id d
                             else ws_originalConnID w)\<rparr>)
                else w)
      in if \<not> isReconnect then ws_emit_open lst False w1 else w1)"

text \<open>The events of the plugin, after \<open>hello\<close>.\<close>

definition ws_plugin_event :: "ws_msg \<Rightarrow> msg_data \<Rightarrow> ws_client \<Rightarrow> ws_client" where
  "ws_plugin_event msg d w =
     (let w1 = ws_emit (EEvent msg) w
      in if md_connID d \<noteq> Some (ws_connID w1) \<and> md_connID d \<noteq> Some (ws_originalConnID w1) then w1
         else
           let w2 = (if wm_event msg = ws_eventPrefix w1 @ ''_join'' then ws_emit EJoin w1 else w1);
               w3 = (if wm_event msg = ws_eventPrefix w2 @ ''_error''
                     then ws_emit (EError Join (md_data d)) w2 else w2)
           in if wm_event msg = ws_eventPrefix w3 @ ''_signal'' then ws_emit (EMessage d) w3 else w3)"

definition ws_onmessage ::
  "(bool \<Rightarrow> ws_client \<Rightarrow> ws_client) \<Rightarrow> bool \<Rightarrow> raw_msg \<Rightarrow> ws_client \<Rightarrow> ws_client" where
  "ws_onmessage lst isReconnect raw w =
     (case raw of
        RawObject msg \<Rightarrow>
          if ws_waitingForPong w \<and> wm_seq_reply msg = Some (ws_expectedPongSeqNo w)
          then w\<lparr>ws_waitingForPong := False, ws_expectedPongSeqNo := 0\<rparr>
          else
            let w1 = w\<lparr>ws_serverSeqNo := map_option (\<lambda>n. n + 1) (wm_seq msg)\<rparr>
            in (case wm_data msg of
                  None \<Rightarrow> w1
                | Some d \<Rightarrow>
                    if wm_event msg = [] then w1
                    else if wm_event msg = ''hello'' then ws_hello lst isReconnect msg d w1
                    else if ws_connID w1 = [] then w1
                    else ws_plugin_event msg d w1)
      | _ \<Rightarrow> w)"

text \<open>The ping interval's callback.\<close>

definition ws_tick :: "int \<Rightarrow> ws_client \<Rightarrow> ws_client" where
  "ws_tick now w =
     (case ws_socket w of
        Some s \<Rightarrow>
          if ws_waitingForPong w
          then ws_closeHandler now 4000
                 (w\<lparr>ws_socket := Some (s\<lparr>sk_onclose := False, sk_state :=
                     (if sk_state s = CLOSED then CLOSED else CLOSING)\<rparr>)\<rparr>)
          else ws_ping w
      | None \<Rightarrow> ws_ping w)"

text \<open>The reconnect timer's callback.\<close>

definition ws_timer :: "ws_client \<Rightarrow> ws_client" where
  "ws_timer w = (if \<not> ws_closed w then ws_init True w else w)"

section \<open>The client in its environment\<close>

text \<open>
  The listener of \<open>open\<close> sends one message, chosen from the client's state and whether it
  reconnected.
\<close>

definition sender ::
  "(bool \<Rightarrow> ws_client \<Rightarrow> string \<times> json option) \<Rightarrow> bool \<Rightarrow> ws_client \<Rightarrow> ws_client" where
  "sender f isReconnect w = (case f isReconnect w of (action, data) \<Rightarrow> ws_send action data False w)"

text \<open>
  What can happen to a client at a time: the browser opens or closes the current socket, delivers
  a message to an open one or reports an error, the ping interval ticks, a due timer fires, the
  owner sends or leaves, time passes.
\<close>

inductive ws_step ::
  "(bool \<Rightarrow> ws_client \<Rightarrow> string \<times> json option) \<Rightarrow> int \<times> ws_client \<Rightarrow> int \<times> ws_client \<Rightarrow> bool"
  for f where
  opened: "ws_socket w = Some s \<Longrightarrow> sk_state s = CONNECTING \<Longrightarrow>
    ws_step f (now, w) (now, ws_onopen (sender f) (sk_isReconnect s)
                               (w\<lparr>ws_socket := Some (s\<lparr>sk_state := OPEN\<rparr>)\<rparr>))"
| message: "ws_socket w = Some s \<Longrightarrow> sk_state s = OPEN \<Longrightarrow>
    ws_step f (now, w) (now, ws_onmessage (sender f) (sk_isReconnect s) raw w)"
| errored: "ws_socket w = Some s \<Longrightarrow> ws_step f (now, w) (now, ws_onerror w)"
| closed: "ws_socket w = Some s \<Longrightarrow> sk_state s \<noteq> CLOSED \<Longrightarrow> sk_onclose s \<Longrightarrow>
    ws_step f (now, w) (now, ws_closeHandler now code
                               (w\<lparr>ws_socket := Some (s\<lparr>sk_state := CLOSED\<rparr>)\<rparr>))"
| tick: "ws_pingInterval w \<Longrightarrow> ws_step f (now, w) (now, ws_tick now w)"
| timer: "t \<in> set (ws_timers w) \<Longrightarrow> t \<le> now \<Longrightarrow>
    ws_step f (now, w) (now, ws_timer (w\<lparr>ws_timers := remove1 t (ws_timers w)\<rparr>))"
| send: "ws_step f (now, w) (now, ws_send action data binary w)"
| leave: "ws_step f (now, w) (now, ws_sendLeaveAndClose w)"
| wait: "now \<le> now' \<Longrightarrow> ws_step f (now, w) (now', w)"

inductive_cases ws_stepE: "ws_step f (now, w) (now', w')"

definition ws_steps where
  "ws_steps f = (ws_step f)\<^sup>*\<^sup>*"

section \<open>What the methods keep\<close>

text \<open>Sending and emitting change nothing but the counters and the records.\<close>

lemma ws_emit_fields [simp]:
  "ws_socket (ws_emit e w) = ws_socket w" "ws_closed (ws_emit e w) = ws_closed w"
  "ws_sockets (ws_emit e w) = ws_sockets w" "ws_timers (ws_emit e w) = ws_timers w"
  "ws_pingInterval (ws_emit e w) = ws_pingInterval w" "ws_sent (ws_emit e w) = ws_sent w"
  "ws_originalConnID (ws_emit e w) = ws_originalConnID w" "ws_connID (ws_emit e w) = ws_connID w"
  "ws_listening (ws_emit e w) = ws_listening w" "ws_leaveOnOpen (ws_emit e w) = ws_leaveOnOpen w"
  "ws_eventPrefix (ws_emit e w) = ws_eventPrefix w" "ws_seqNo (ws_emit e w) = ws_seqNo w"
  "ws_lastDisconnect (ws_emit e w) = ws_lastDisconnect w"
  "ws_reconnectRetryTime (ws_emit e w) = ws_reconnectRetryTime w"
  "ws_waitingForPong (ws_emit e w) = ws_waitingForPong w"
  "ws_expectedPongSeqNo (ws_emit e w) = ws_expectedPongSeqNo w"
  "ws_serverSeqNo (ws_emit e w) = ws_serverSeqNo w"
  by (simp_all add: ws_emit_def)

lemma ws_send_fields [simp]:
  "ws_socket (ws_send a d b w) = ws_socket w" "ws_closed (ws_send a d b w) = ws_closed w"
  "ws_sockets (ws_send a d b w) = ws_sockets w" "ws_timers (ws_send a d b w) = ws_timers w"
  "ws_pingInterval (ws_send a d b w) = ws_pingInterval w"
  "ws_originalConnID (ws_send a d b w) = ws_originalConnID w"
  "ws_listening (ws_send a d b w) = ws_listening w"
  "ws_leaveOnOpen (ws_send a d b w) = ws_leaveOnOpen w"
  "ws_eventPrefix (ws_send a d b w) = ws_eventPrefix w"
  "ws_lastDisconnect (ws_send a d b w) = ws_lastDisconnect w"
  "ws_reconnectRetryTime (ws_send a d b w) = ws_reconnectRetryTime w"
  by (simp_all add: ws_send_def ws_put_def Let_def)

lemma sender_fields [simp]:
  "ws_socket (sender f r w) = ws_socket w" "ws_closed (sender f r w) = ws_closed w"
  "ws_sockets (sender f r w) = ws_sockets w" "ws_timers (sender f r w) = ws_timers w"
  "ws_pingInterval (sender f r w) = ws_pingInterval w"
  "ws_originalConnID (sender f r w) = ws_originalConnID w"
  "ws_leaveOnOpen (sender f r w) = ws_leaveOnOpen w"
  "ws_reconnectRetryTime (sender f r w) = ws_reconnectRetryTime w"
  "ws_lastDisconnect (sender f r w) = ws_lastDisconnect w"
  by (simp_all add: sender_def split: prod.split)

lemma ws_stop_fields [simp]:
  "ws_socket (ws_stopPingInterval w) = ws_socket w" "ws_closed (ws_stopPingInterval w) = ws_closed w"
  "ws_sockets (ws_stopPingInterval w) = ws_sockets w" "ws_timers (ws_stopPingInterval w) = ws_timers w"
  "\<not> ws_pingInterval (ws_stopPingInterval w)" "ws_sent (ws_stopPingInterval w) = ws_sent w"
  "ws_originalConnID (ws_stopPingInterval w) = ws_originalConnID w"
  "ws_lastDisconnect (ws_stopPingInterval w) = ws_lastDisconnect w"
  "ws_reconnectRetryTime (ws_stopPingInterval w) = ws_reconnectRetryTime w"
  "ws_listening (ws_stopPingInterval w) = ws_listening w"
  "ws_emitted (ws_stopPingInterval w) = ws_emitted w"
  by (simp_all add: ws_stopPingInterval_def)

lemma ws_ping_fields [simp]:
  "ws_socket (ws_ping w) = ws_socket w" "ws_closed (ws_ping w) = ws_closed w"
  "ws_sockets (ws_ping w) = ws_sockets w" "ws_timers (ws_ping w) = ws_timers w"
  "ws_pingInterval (ws_ping w) = ws_pingInterval w"
  "ws_originalConnID (ws_ping w) = ws_originalConnID w"
  "ws_lastDisconnect (ws_ping w) = ws_lastDisconnect w"
  "ws_reconnectRetryTime (ws_ping w) = ws_reconnectRetryTime w"
  by (simp_all add: ws_ping_def ws_put_def)

lemma ws_start_fields [simp]:
  "ws_socket (ws_startPingInterval w) = ws_socket w"
  "ws_closed (ws_startPingInterval w) = ws_closed w"
  "ws_sockets (ws_startPingInterval w) = ws_sockets w"
  "ws_timers (ws_startPingInterval w) = ws_timers w"
  "ws_pingInterval (ws_startPingInterval w) = (if ws_closed w then ws_pingInterval w else True)"
  "ws_originalConnID (ws_startPingInterval w) = ws_originalConnID w"
  "ws_lastDisconnect (ws_startPingInterval w) = ws_lastDisconnect w"
  "ws_reconnectRetryTime (ws_startPingInterval w) = ws_reconnectRetryTime w"
  by (simp_all add: ws_startPingInterval_def)

lemma ws_close_fields [simp]:
  "ws_socket (ws_close w) = None" "ws_closed (ws_close w)" "ws_sockets (ws_close w) = ws_sockets w"
  "ws_timers (ws_close w) = ws_timers w" "\<not> ws_pingInterval (ws_close w)"
  "ws_sent (ws_close w) = ws_sent w" "ws_emitted (ws_close w) = ws_emitted w"
  "ws_originalConnID (ws_close w) = []" "ws_connID (ws_close w) = []"
  "\<not> ws_listening (ws_close w)" "ws_leaveOnOpen (ws_close w) = 0"
  by (simp_all add: ws_close_def)

text \<open>
  Whether the socket can still carry messages, or will once it opens.
\<close>

definition live :: "ws_client \<Rightarrow> bool" where
  "live w = (case ws_socket w of
     None \<Rightarrow> False | Some s \<Rightarrow> sk_state s = CONNECTING \<or> sk_state s = OPEN)"

section \<open>Invariants\<close>

text \<open>
  A client that is not closed has a socket; the ping interval runs only over an open socket of a
  client that is not closed; a reconnect timer is pending only while no socket is live, and at
  most one is; a socket that the client is closing has its \<open>onclose\<close> detached.
\<close>

definition ws_inv :: "ws_client \<Rightarrow> bool" where
  "ws_inv w \<longleftrightarrow>
     (\<not> ws_closed w \<longrightarrow> ws_socket w \<noteq> None) \<and>
     (ws_pingInterval w \<longrightarrow> is_open w \<and> \<not> ws_closed w) \<and>
     (ws_timers w \<noteq> [] \<longrightarrow> \<not> live w) \<and>
     length (ws_timers w) \<le> 1 \<and>
     (\<forall>s. ws_socket w = Some s \<longrightarrow> sk_state s = CLOSING \<longrightarrow> \<not> sk_onclose s)"

lemma leave_pow:
  "(leave_and_close ^^ n) w =
     (if n = 0 then w else (leave_and_close ^^ (n - 1)) (leave_and_close w))"
  by (cases n) (simp_all add: funpow_swap1)

lemma leave_pow_fields:
  "ws_timers ((leave_and_close ^^ n) w) = ws_timers w"
  "ws_sockets ((leave_and_close ^^ n) w) = ws_sockets w"
  "ws_closed ((leave_and_close ^^ n) w) = (0 < n \<or> ws_closed w)"
  "ws_socket ((leave_and_close ^^ n) w) = (if 0 < n then None else ws_socket w)"
  "ws_pingInterval ((leave_and_close ^^ n) w) = (n = 0 \<and> ws_pingInterval w)"
  "ws_originalConnID ((leave_and_close ^^ n) w) = (if 0 < n then [] else ws_originalConnID w)"
  by (induction n) (simp_all add: leave_and_close_def)

lemma emit_open_fields [simp]:
  "ws_timers (ws_emit_open (sender f) r w) = ws_timers w"
  "ws_sockets (ws_emit_open (sender f) r w) = ws_sockets w"
  "ws_closed (ws_emit_open (sender f) r w) = (0 < ws_leaveOnOpen w \<or> ws_closed w)"
  "ws_socket (ws_emit_open (sender f) r w) = (if 0 < ws_leaveOnOpen w then None else ws_socket w)"
  "ws_pingInterval (ws_emit_open (sender f) r w) = (ws_leaveOnOpen w = 0 \<and> ws_pingInterval w)"
  "ws_originalConnID (ws_emit_open (sender f) r w) =
     (if 0 < ws_leaveOnOpen w then [] else ws_originalConnID w)"
  by (simp_all add: ws_emit_open_def Let_def leave_pow_fields)

lemma ws_reconnect_fields [simp]:
  "ws_socket (ws_reconnect now w) = ws_socket w"
  "ws_sockets (ws_reconnect now w) = ws_sockets w"
  "ws_pingInterval (ws_reconnect now w) = ws_pingInterval w"
  "ws_originalConnID (ws_reconnect now w) = ws_originalConnID w"
  "ws_sent (ws_reconnect now w) = ws_sent w"
  by (simp_all add: ws_reconnect_def Let_def)


lemma plugin_event_fields [simp]:
  "ws_socket (ws_plugin_event m d w) = ws_socket w"
  "ws_timers (ws_plugin_event m d w) = ws_timers w"
  "ws_sockets (ws_plugin_event m d w) = ws_sockets w"
  "ws_closed (ws_plugin_event m d w) = ws_closed w"
  "ws_pingInterval (ws_plugin_event m d w) = ws_pingInterval w"
  "ws_originalConnID (ws_plugin_event m d w) = ws_originalConnID w"
  by (simp_all add: ws_plugin_event_def Let_def)

text \<open>A message leaves the fields of the invariant alone, or runs the deferred leave.\<close>

definition same_link :: "ws_client \<Rightarrow> ws_client \<Rightarrow> bool" where
  "same_link w w' \<longleftrightarrow>
     ws_timers w' = ws_timers w \<and> ws_sockets w' = ws_sockets w \<and>
     (ws_closed w \<longrightarrow> ws_closed w') \<and>
     (ws_socket w' = ws_socket w \<and> ws_closed w' = ws_closed w \<and>
      ws_pingInterval w' = ws_pingInterval w
      \<or> ws_socket w' = None \<and> ws_closed w' \<and> \<not> ws_pingInterval w')"

lemma same_link_inv: "ws_inv w \<Longrightarrow> same_link w w' \<Longrightarrow> ws_inv w'"
  by (auto simp: ws_inv_def same_link_def live_def split: option.splits)

lemma emit_open_link: "same_link w (ws_emit_open (sender f) r w)"
  by (simp add: same_link_def)

lemma hello_link: "same_link w (ws_hello (sender f) r m d w)"
  by (simp add: ws_hello_def same_link_def)

lemma onmessage_link: "same_link w (ws_onmessage (sender f) r raw w)"
  using hello_link [of w]
  by (auto simp: ws_onmessage_def same_link_def ws_hello_def Let_def
      split: raw_msg.splits option.splits)

lemma closeHandler_inv:
  assumes "ws_timers w = []" and "\<not> live w" and "\<not> ws_closed w \<longrightarrow> ws_socket w \<noteq> None"
    and "\<forall>s. ws_socket w = Some s \<longrightarrow> sk_state s = CLOSING \<longrightarrow> \<not> sk_onclose s"
  shows "ws_inv (ws_closeHandler now code w)"
  using assms
  by (auto simp: ws_closeHandler_def ws_inv_def ws_reconnect_def Let_def live_def
      split: option.splits)

lemma sendLeave_inv: "ws_inv w \<Longrightarrow> ws_inv (ws_sendLeaveAndClose w)"
  by (auto simp: ws_sendLeaveAndClose_def ws_inv_def live_def leave_and_close_def
      split: option.splits)

lemma ws_init_inv: "\<not> live w \<Longrightarrow> ws_timers w = [] \<Longrightarrow> ws_inv w \<Longrightarrow> ws_inv (ws_init r w)"
  by (auto simp: ws_init_def ws_inv_def live_def split: option.splits)

lemma ws_inv_opened:
  assumes "ws_inv w" and "ws_socket w = Some s" and "sk_state s = CONNECTING"
  shows "ws_inv (ws_onopen (sender f) r (w\<lparr>ws_socket := Some (s\<lparr>sk_state := OPEN\<rparr>)\<rparr>))"
  using assms
  by (auto simp: ws_onopen_def Let_def ws_inv_def live_def ws_put_def split: if_splits)

lemma ws_inv_tick:
  assumes "ws_inv w" and "ws_pingInterval w"
  shows "ws_inv (ws_tick now w)"
proof -
  obtain s where s: "ws_socket w = Some s" "sk_state s = OPEN"
    using assms by (auto simp: ws_inv_def split: option.splits)
  show ?thesis
  proof (cases "ws_waitingForPong w")
    case True
    have "ws_timers w = []"
      using assms s by (auto simp: ws_inv_def live_def)
    with True s show ?thesis
      by (auto simp: ws_tick_def live_def intro!: closeHandler_inv)
  next
    case False
    with assms s show ?thesis by (auto simp: ws_tick_def ws_inv_def live_def)
  qed
qed

lemma ws_inv_timer:
  assumes "ws_inv w" and "t \<in> set (ws_timers w)"
  shows "ws_inv (ws_timer (w\<lparr>ws_timers := remove1 t (ws_timers w)\<rparr>))"
proof -
  from assms have t: "ws_timers w = [t]" and nl: "\<not> live w"
    by (cases "ws_timers w"; auto simp: ws_inv_def)+
  let ?w = "w\<lparr>ws_timers := remove1 t (ws_timers w)\<rparr>"
  have "ws_inv ?w" using assms(1) t by (auto simp: ws_inv_def)
  moreover have "\<not> live ?w" "ws_timers ?w = []" using nl t by (simp_all add: live_def)
  ultimately show ?thesis by (auto simp: ws_timer_def intro: ws_init_inv)
qed

lemma ws_step_inv:
  assumes "ws_step f p p'" and "ws_inv (snd p)"
  shows "ws_inv (snd p')"
  using assms
proof (induction rule: ws_step.induct)
  case (opened w s now)
  then show ?case by (simp add: ws_inv_opened)
next
  case (message w s now raw)
  then show ?case by (auto intro: same_link_inv onmessage_link)
next
  case (errored w s now)
  then show ?case by (auto simp: ws_onerror_def ws_inv_def live_def)
next
  case (closed w s now code)
  then have "live w" by (cases "sk_state s") (auto simp: ws_inv_def live_def)
  with closed have t: "ws_timers w = []" by (auto simp: ws_inv_def)
  show ?case unfolding snd_conv by (rule closeHandler_inv) (simp_all add: t live_def)
next
  case (tick w now)
  then show ?case by (simp add: ws_inv_tick)
next
  case (timer t w now)
  then show ?case by (simp add: ws_inv_timer)
next
  case (send now w action data binary)
  then show ?case by (auto simp: ws_inv_def live_def)
next
  case (leave now w)
  then show ?case by (simp add: sendLeave_inv)
qed simp

lemma new_ws_inv: "ws_inv (new_ws pluginId tok)"
  by (simp add: new_ws_def ws_init_def ws_inv_def live_def)

interpretation ws_link: stable_steps "ws_step f" "\<lambda>p. ws_inv (snd p)" for f
  by unfold_locales (rule ws_step_inv)

section \<open>After closing\<close>

lemma ws_step_closed:
  assumes "ws_step f p p'" and "ws_closed (snd p)"
  shows "ws_closed (snd p') \<and> ws_sockets (snd p') = ws_sockets (snd p)"
  using assms
proof (induction rule: ws_step.induct)
  case (message w s now raw)
  then show ?case using onmessage_link [of w f "sk_isReconnect s" raw] by (simp add: same_link_def)
next
  case (leave now w)
  then show ?case by (simp add: ws_sendLeaveAndClose_def leave_and_close_def split: option.splits)
qed (simp_all add: ws_onopen_def ws_put_def ws_onerror_def ws_closeHandler_def ws_tick_def
    ws_timer_def Let_def split: option.splits)

text \<open>A client that let its socket go sends nothing any more.\<close>

lemma ws_step_gone:
  assumes "ws_step f p p'" and "ws_closed (snd p)" and "ws_socket (snd p) = None"
  shows "ws_closed (snd p') \<and> ws_socket (snd p') = None \<and> ws_sent (snd p') = ws_sent (snd p)"
  using assms
  by (induction rule: ws_step.induct)
    (simp_all add: ws_tick_def ws_timer_def ws_ping_def ws_send_def Let_def
      ws_sendLeaveAndClose_def)

interpretation ws_shut: stable_steps "ws_step f"
    "\<lambda>p. ws_closed (snd p) \<and> ws_sockets (snd p) = n" for f n
  by unfold_locales (use ws_step_closed in blast)

interpretation ws_gone: stable_steps "ws_step f"
    "\<lambda>p. ws_closed (snd p) \<and> ws_socket (snd p) = None \<and> ws_sent (snd p) = ms" for f ms
  by unfold_locales (use ws_step_gone in blast)

section \<open>The original connection\<close>

lemma ws_step_original:
  assumes "ws_step f p p'" and "ws_originalConnID (snd p) \<noteq> []"
  shows "ws_closed (snd p') \<or> ws_originalConnID (snd p') = ws_originalConnID (snd p)"
  using assms
proof (induction rule: ws_step.induct)
  case (message w s now raw)
  then show ?case
    by (auto simp: ws_onmessage_def ws_hello_def Let_def split: raw_msg.splits option.splits)
next
  case (opened w s now)
  then show ?case by (auto simp: ws_onopen_def ws_put_def Let_def)
next
  case (closed w s now code)
  then show ?case by (auto simp: ws_closeHandler_def Let_def)
next
  case (tick w now)
  then show ?case by (auto simp: ws_tick_def ws_closeHandler_def Let_def split: option.splits)
next
  case (leave now w)
  then show ?case
    by (auto simp: ws_sendLeaveAndClose_def leave_and_close_def split: option.splits)
qed (simp_all add: ws_onerror_def ws_timer_def ws_init_def Let_def)

interpretation ws_original: stable_steps "ws_step f"
    "\<lambda>p. x \<noteq> [] \<and> (ws_closed (snd p) \<or> ws_originalConnID (snd p) = x)" for f x
  by unfold_locales (use ws_step_closed ws_step_original in blast)

section \<open>Outages\<close>

text \<open>The time that \<open>n\<close> retries wait in total.\<close>

definition waited :: "nat \<Rightarrow> int" where
  "waited n = 1000 * int n + 250 * int n * (int n - 1)"

lemma waited_Suc: "waited (Suc n) = waited n + (1000 + 500 * int n)"
  by (simp add: waited_def algebra_simps)

lemma waited_bound: "waited n < 30000 \<Longrightarrow> n \<le> 9"
proof (rule ccontr)
  assume less: "waited n < 30000" and "\<not> n \<le> 9"
  then have n: "10 \<le> int n" by simp
  then have "int n * (int n - 1) \<ge> 10 * 9" by (intro mult_mono) auto
  with less n show False by (simp add: waited_def)
qed

text \<open>Steps during which no connection opens.\<close>

definition offline_step where
  "offline_step f p p' \<longleftrightarrow> ws_step f p p' \<and> \<not> is_open (snd p')"

definition offline_inv :: "nat \<Rightarrow> int \<Rightarrow> int \<times> ws_client \<Rightarrow> bool" where
  "offline_inv c L p \<longleftrightarrow>
     ws_inv (snd p) \<and> \<not> is_open (snd p) \<and> ws_sockets (snd p) \<le> c + 10 \<and>
     (ws_closed (snd p) \<or>
      (\<exists>k. ws_lastDisconnect (snd p) = L \<and>
           ws_reconnectRetryTime (snd p) = 1000 + 500 * int k \<and> k \<le> 10 \<and>
           (if ws_timers (snd p) = [] then fst p \<ge> L + waited k \<and> ws_sockets (snd p) = c + k
            else (\<forall>t \<in> set (ws_timers (snd p)). t \<ge> L + waited k) \<and>
                 Suc (ws_sockets (snd p)) = c + k)))"

lemma offline_closed:
  assumes "offline_inv c L (now, w)" and "0 < L" and "ws_socket w = Some s"
    and "sk_state s \<noteq> CLOSED" and "sk_onclose s"
  shows "offline_inv c L (now, ws_closeHandler now code (w\<lparr>ws_socket := Some (s\<lparr>sk_state := CLOSED\<rparr>)\<rparr>))"
proof -
  let ?w = "w\<lparr>ws_socket := Some (s\<lparr>sk_state := CLOSED\<rparr>)\<rparr>"
  from assms have inv: "ws_inv w" and bound: "ws_sockets w \<le> c + 10" and nopen: "sk_state s \<noteq> OPEN"
    by (auto simp: offline_inv_def)
  from assms nopen inv have "sk_state s = CONNECTING"
    by (cases "sk_state s") (auto simp: ws_inv_def)
  with inv assms(3) have t: "ws_timers w = []" by (auto simp: ws_inv_def live_def)
  have "ws_step f (now, w) (now, ws_closeHandler now code ?w)" for f
    using assms(3-5) by (rule ws_step.closed)
  from ws_step_inv [OF this] inv have inv': "ws_inv (ws_closeHandler now code ?w)" by simp
  show ?thesis
  proof (cases "ws_closed w")
    case True
    with inv' bound show ?thesis by (simp add: offline_inv_def ws_closeHandler_def)
  next
    case False
    with assms(1) t obtain k where k: "ws_lastDisconnect w = L"
      "ws_reconnectRetryTime w = 1000 + 500 * int k" "k \<le> 10"
      "now \<ge> L + waited k" "ws_sockets w = c + k"
      by (auto simp: offline_inv_def)
    show ?thesis
    proof (cases "now - L \<ge> wsReconnectionTimeout")
      case True
      with inv' bound False k assms(2) show ?thesis
        by (simp add: offline_inv_def ws_closeHandler_def ws_reconnect_def)
    next
      case less: False
      with k(4) have "waited k < 30000" by (simp add: wsReconnectionTimeout_def)
      then have "Suc k \<le> 10" using waited_bound by force
      with less inv' bound False k assms(2) t show ?thesis
        by (auto simp: offline_inv_def ws_closeHandler_def ws_reconnect_def waited_Suc
            wsReconnectTimeIncrement_def intro!: exI [of _ "Suc k"])
    qed
  qed
qed

lemma offline_timer:
  assumes "offline_inv c L (now, w)" and "t \<in> set (ws_timers w)" and "t \<le> now"
  shows "offline_inv c L (now, ws_timer (w\<lparr>ws_timers := remove1 t (ws_timers w)\<rparr>))"
proof -
  from assms have inv: "ws_inv w" by (simp add: offline_inv_def)
  with assms(2) have t: "ws_timers w = [t]"
    by (cases "ws_timers w") (auto simp: ws_inv_def)
  have inv': "ws_inv (ws_timer (w\<lparr>ws_timers := remove1 t (ws_timers w)\<rparr>))"
    using inv assms(2) by (rule ws_inv_timer)
  show ?thesis
  proof (cases "ws_closed w")
    case True
    with inv' assms(1) show ?thesis by (auto simp: offline_inv_def ws_timer_def)
  next
    case False
    with assms t obtain k where k: "ws_lastDisconnect w = L"
      "ws_reconnectRetryTime w = 1000 + 500 * int k" "k \<le> 10"
      "t \<ge> L + waited k" "Suc (ws_sockets w) = c + k"
      by (auto simp: offline_inv_def)
    with False inv' t assms(3) show ?thesis
      by (auto simp: offline_inv_def ws_timer_def ws_init_def intro!: exI [of _ k])
  qed
qed

lemma offline_inv_step:
  assumes "offline_step f p p'" and "offline_inv c L p" and "0 < L"
  shows "offline_inv c L p'"
proof -
  from assms(1) have st: "ws_step f p p'" and no: "\<not> is_open (snd p')"
    by (simp_all add: offline_step_def)
  have inv': "ws_inv (snd p')"
    using ws_step_inv [OF st] assms(2) by (simp add: offline_inv_def)
  show ?thesis
  proof (cases "ws_closed (snd p)")
    case True
    with ws_step_closed [OF st] inv' no assms(2) show ?thesis by (auto simp: offline_inv_def)
  next
    case notclosed: False
    from st no inv' assms(2,3) notclosed show ?thesis
    proof (induction rule: ws_step.induct)
      case (opened w s now)
      from opened.prems(1) opened.hyps opened.prems(2) opened.prems(3)
      have "ws_closed (ws_onopen (sender f) (sk_isReconnect s) (w\<lparr>ws_socket := Some (s\<lparr>sk_state := OPEN\<rparr>)\<rparr>))
          \<and> ws_sockets (ws_onopen (sender f) (sk_isReconnect s) (w\<lparr>ws_socket := Some (s\<lparr>sk_state := OPEN\<rparr>)\<rparr>))
            = ws_sockets w"
        by (auto simp: ws_onopen_def ws_put_def Let_def split: if_splits option.splits)
      with opened.prems show ?case by (auto simp: offline_inv_def)
    next
      case (message w s now raw)
      then show ?case by (simp add: offline_inv_def)
    next
      case (errored w s now)
      then show ?case by (auto simp: offline_inv_def ws_onerror_def)
    next
      case (closed w s now code)
      then show ?case by (auto intro: offline_closed)
    next
      case (tick w now)
      then show ?case by (auto simp: offline_inv_def ws_inv_def)
    next
      case (timer t w now)
      then show ?case by (auto intro: offline_timer)
    next
      case (send now w action data binary)
      then show ?case by (auto simp: offline_inv_def)
    next
      case (leave now w)
      then show ?case
        by (auto simp: offline_inv_def ws_sendLeaveAndClose_def leave_and_close_def split: option.splits)
    next
      case (wait now now' w)
      then show ?case by (auto simp: offline_inv_def)
    qed
  qed
qed

interpretation ws_offline: stable_steps "offline_step f" "\<lambda>p. 0 < L \<and> offline_inv c L p" for f c L
  by unfold_locales (use offline_inv_step in blast)

section \<open>Leaving in the middle of a reconnection\<close>

lemma leave_mid_reconnect_aux:
  fixes f
  assumes "ws_socket w = Some s" and "sk_state s = CONNECTING" and "ws_leaveOnOpen w = 0"
  defines "w1 \<equiv> ws_sendLeaveAndClose w"
  defines "w2 \<equiv> ws_onopen (sender f) True (w1\<lparr>ws_socket := Some (s\<lparr>sk_state := OPEN\<rparr>)\<rparr>)"
  shows "ws_closed w1 \<and> ws_sent w1 = ws_sent w \<and> ws_closed w2 \<and> ws_socket w2 = None \<and>
    (\<exists>ms n. ws_sent w2 = ws_sent w @ ms @ [WAction (ws_eventPrefix w @ ''_leave'') n None False] \<and>
            length ms \<le> 2)"
proof -
  have w1: "w1 = w\<lparr>ws_closed := True, ws_leaveOnOpen := 1\<rparr>"
    using assms(1-3) by (simp add: w1_def ws_sendLeaveAndClose_def)
  let ?w = "w1\<lparr>ws_socket := Some (s\<lparr>sk_state := OPEN\<rparr>)\<rparr>"
  let ?a = "if ws_authToken w \<noteq> []
            then ws_put (WAuth (ws_authToken w) (ws_seqNo w)) (?w\<lparr>ws_seqNo := ws_seqNo w + 1\<rparr>)
            else ?w"
  let ?b = "?a\<lparr>ws_lastDisconnect := 0, ws_reconnectRetryTime := wsMinReconnectRetryTimeMs\<rparr>"
  have a: "\<exists>ms. ws_sent ?b = ws_sent w @ ms \<and> length ms \<le> 1" "ws_leaveOnOpen ?b = 1"
    "is_open ?b" "ws_eventPrefix ?b = ws_eventPrefix w"
    by (simp_all add: w1 ws_put_def)
  let ?c = "if ws_listening ?b
            then sender f True (ws_emit (EOpen (ws_originalConnID ?b) (ws_connID ?b) True) ?b) else ?b"
  have c: "\<exists>ms. ws_sent ?c = ws_sent ?b @ ms \<and> length ms \<le> 1" "is_open ?c"
    "ws_eventPrefix ?c = ws_eventPrefix w"
    using a(3,4) by (auto simp: sender_def ws_send_def ws_put_def Let_def split: prod.splits)
  have w2: "w2 = leave_and_close (?c\<lparr>ws_leaveOnOpen := 0\<rparr>)"
    using a(2) unfolding w2_def ws_onopen_def
    by (simp add: w1 ws_emit_open_def ws_startPingInterval_def ws_ping_def leave_and_close_def
        Let_def ws_put_def)
  have "\<exists>ms. ws_sent ?c = ws_sent w @ ms \<and> length ms \<le> 2"
  proof -
    obtain m1 m2 where "ws_sent ?b = ws_sent w @ m1" "length m1 \<le> 1"
      "ws_sent ?c = ws_sent ?b @ m2" "length m2 \<le> 1" using a(1) c(1) by blast
    then show ?thesis by (intro exI [of _ "m1 @ m2"]) simp
  qed
  with c(2,3) have "\<exists>ms n. ws_sent w2 = ws_sent w @ ms @
      [WAction (ws_eventPrefix w @ ''_leave'') n None False] \<and> length ms \<le> 2"
    unfolding w2 by (auto simp: leave_and_close_def ws_send_def ws_put_def Let_def)
  then show ?thesis by (simp add: w1) (simp add: w2 leave_and_close_def)
qed

section \<open>Two first steps\<close>

definition quiet_sender :: "bool \<Rightarrow> ws_client \<Rightarrow> string \<times> json option" where
  "quiet_sender isReconnect w = ([], None)"

lemma first_close:
  "(ws_step quiet_sender)\<^sup>*\<^sup>* (7, new_ws ''p'' [])
     (7, ws_closeHandler 7 1006 ((new_ws ''p'' [])\<lparr>ws_socket :=
        Some \<lparr>sk_state = CLOSED, sk_isReconnect = False, sk_connection_id = [],
              sk_sequence_number = Some 0, sk_onclose = True\<rparr>\<rparr>))"
  by (rule r_into_rtranclp)
    (use ws_step.closed [of "new_ws ''p'' []" "\<lparr>sk_state = CONNECTING, sk_isReconnect = False,
        sk_connection_id = [], sk_sequence_number = Some 0, sk_onclose = True\<rparr>" quiet_sender 7 1006]
     in \<open>simp add: new_ws_def ws_init_def\<close>)

lemma late_timer:
  "(ws_step quiet_sender)\<^sup>*\<^sup>* (9, w\<lparr>ws_timers := [8]\<rparr>)
     (9, ws_timer (w\<lparr>ws_timers := [8], ws_timers := remove1 8 (ws_timers (w\<lparr>ws_timers := [8]\<rparr>))\<rparr>))"
  by (rule r_into_rtranclp)
    (rule ws_step.timer [of 8 "w\<lparr>ws_timers := [8]\<rparr>" 9 quiet_sender]; simp)

section \<open>Properties\<close>

text \<open>
  C1. The client never has two connections: whatever happens to it, at most one reconnect timer
  is pending, none while a socket is connecting or open, and the ping interval runs only over an
  open socket of a client that was not closed.\<close>
theorem single_connection:
  assumes "(ws_step f)\<^sup>*\<^sup>* (t0, new_ws pluginId token) (t, w)"
  shows "length (ws_timers w) \<le> 1 \<and> (ws_timers w \<noteq> [] \<longrightarrow> \<not> live w) \<and>
         (ws_pingInterval w \<longrightarrow> is_open w \<and> \<not> ws_closed w)"
proof -
  have "ws_inv (snd (t, w))"
    by (rule ws_link.steps_stable [OF assms]) (simp only: snd_conv new_ws_inv)
  then show ?thesis unfolding ws_inv_def snd_conv by blast
qed

lemma single_connection_witness:
  "let s = \<lparr>sk_state = CLOSED, sk_isReconnect = False, sk_connection_id = [],
            sk_sequence_number = Some 0, sk_onclose = True\<rparr>;
       w = ws_closeHandler 7 1006 ((new_ws ''p'' [])\<lparr>ws_socket := Some s\<rparr>)
   in length (ws_timers w) \<le> 1 \<and> (ws_timers w \<noteq> [] \<longrightarrow> \<not> live w) \<and>
         (ws_pingInterval w \<longrightarrow> is_open w \<and> \<not> ws_closed w)"
  unfolding Let_def by (rule single_connection [OF first_close])

text \<open>
  Closing is final: no run of events after it creates another socket or reopens the client.\<close>
theorem closed_is_final:
  assumes "(ws_step f)\<^sup>*\<^sup>* (t, w) (t', w')" and "ws_closed w"
  shows "ws_closed w' \<and> ws_sockets w' = ws_sockets w"
  using ws_shut.steps_stable [OF assms(1), of "ws_sockets w"] assms(2) by simp

lemma closed_is_final_witness:
  "let w = (ws_close (new_ws ''p'' []))\<lparr>ws_timers := [8]\<rparr>
   in ws_closed (ws_timer (w\<lparr>ws_timers := remove1 8 (ws_timers w)\<rparr>)) \<and>
      ws_sockets (ws_timer (w\<lparr>ws_timers := remove1 8 (ws_timers w)\<rparr>)) = ws_sockets w"
  unfolding Let_def by (rule closed_is_final [OF late_timer]) simp

text \<open>
  C8. Leaving over an open connection sends exactly one more message, the leave, and nothing
  after it, whatever happens next.\<close>
theorem leave_is_last:
  assumes "is_open w" and "(ws_step f)\<^sup>*\<^sup>* (t, ws_sendLeaveAndClose w) (t', w')"
  shows "ws_sent w' =
    ws_sent w @ [WAction (ws_eventPrefix w @ ''_leave'') (ws_seqNo w) None False]"
proof -
  from assms(1) have "ws_sendLeaveAndClose w = leave_and_close w"
    by (auto simp: ws_sendLeaveAndClose_def split: option.splits)
  moreover from assms(1) have "ws_sent (leave_and_close w) =
      ws_sent w @ [WAction (ws_eventPrefix w @ ''_leave'') (ws_seqNo w) None False]"
    by (simp add: leave_and_close_def ws_send_def ws_put_def Let_def)
  ultimately show ?thesis
    using ws_gone.steps_stable [OF assms(2)] by (simp add: leave_and_close_def)
qed

lemma leave_is_last_witness:
  "ws_sent (ws_sendLeaveAndClose ((new_ws ''p'' [])\<lparr>ws_socket :=
      Some \<lparr>sk_state = OPEN, sk_isReconnect = False, sk_connection_id = [],
            sk_sequence_number = Some 0, sk_onclose = True\<rparr>\<rparr>))
   = [WAction ''custom_p_leave'' 1 None False]"
  by (subst leave_is_last [OF _ rtranclp.rtrancl_refl]) (simp_all add: new_ws_def ws_init_def)

text \<open>
  Leaving in the middle of a reconnection closes the client at once but keeps the socket;
  when the socket opens, the leave goes out as its last message and the socket is closed.\<close>
theorem leave_mid_reconnect:
  assumes "ws_socket w = Some s" and "sk_state s = CONNECTING" and "ws_leaveOnOpen w = 0"
  shows "let w1 = ws_sendLeaveAndClose w;
             w2 = ws_onopen (sender f) True (w1\<lparr>ws_socket := Some (s\<lparr>sk_state := OPEN\<rparr>)\<rparr>)
         in ws_closed w1 \<and> ws_sent w1 = ws_sent w \<and> ws_closed w2 \<and> ws_socket w2 = None \<and>
            (\<exists>ms n. ws_sent w2 = ws_sent w @ ms @ [WAction (ws_eventPrefix w @ ''_leave'') n None False]
                    \<and> length ms \<le> 2)"
  unfolding Let_def by (rule leave_mid_reconnect_aux [OF assms])

lemma leave_mid_reconnect_witness:
  "ws_closed (ws_sendLeaveAndClose (new_ws ''p'' []))"
  using leave_mid_reconnect [of "new_ws ''p'' []" "\<lparr>sk_state = CONNECTING, sk_isReconnect = False,
      sk_connection_id = [], sk_sequence_number = Some 0, sk_onclose = True\<rparr>"]
  by (simp add: new_ws_def ws_init_def Let_def)

text \<open>
  C26. An outage is bounded: from the moment a connection is lost, a client whose sockets never
  open creates at most ten more, whatever it sends and however the events interleave.\<close>
theorem outage_bounded:
  assumes "ws_socket w = Some s" and "sk_state s = CLOSED" and "\<not> ws_closed w" and "ws_timers w = []"
    and "ws_lastDisconnect w = 0" and "ws_reconnectRetryTime w = wsMinReconnectRetryTimeMs"
    and "0 < now" and "(offline_step f)\<^sup>*\<^sup>* (now, ws_closeHandler now code w) (t, w')"
  shows "ws_sockets w' \<le> ws_sockets w + 10"
proof -
  have "offline_inv (ws_sockets w) now (now, ws_closeHandler now code w)"
    using assms(1-7) closeHandler_inv [of w now code]
    by (auto simp: offline_inv_def ws_closeHandler_def ws_reconnect_def Let_def live_def
        wsReconnectionTimeout_def wsMinReconnectRetryTimeMs_def wsReconnectTimeIncrement_def
        waited_def intro!: exI [of _ 1])
  with ws_offline.steps_stable [OF assms(8), of now "ws_sockets w"] assms(7)
  show ?thesis by (simp add: offline_inv_def)
qed

lemma outage_bounded_witness:
  "ws_sockets (ws_closeHandler 7 1006 ((new_ws ''p'' [])\<lparr>ws_socket :=
      Some \<lparr>sk_state = CLOSED, sk_isReconnect = False, sk_connection_id = [],
            sk_sequence_number = Some 0, sk_onclose = True\<rparr>\<rparr>)) \<le> 1 + 10"
  using outage_bounded [OF _ _ _ _ _ _ _ rtranclp.rtrancl_refl,
      of "(new_ws ''p'' [])\<lparr>ws_socket :=
      Some \<lparr>sk_state = CLOSED, sk_isReconnect = False, sk_connection_id = [],
            sk_sequence_number = Some 0, sk_onclose = True\<rparr>\<rparr>" _ 7 1006]
  by (simp add: new_ws_def ws_init_def)

section \<open>An outage that does not end\<close>

text \<open>
  The pending reconnect timer fires, its socket does not open, and closes at time \<open>t\<close>.
\<close>

definition retry_fails :: "ws_client \<Rightarrow> int \<Rightarrow> ws_client" where
  "retry_fails w t =
     (let w1 = ws_timer (w\<lparr>ws_timers := []\<rparr>)
      in ws_closeHandler t 1006
           (w1\<lparr>ws_socket := map_option (\<lambda>s. s\<lparr>sk_state := CLOSED\<rparr>) (ws_socket w1)\<rparr>))"

text \<open>Each failure comes no earlier than the retry's timer: \<open>k\<close> retries came before.\<close>

fun spaced :: "int \<Rightarrow> nat \<Rightarrow> int list \<Rightarrow> bool" where
  "spaced t k [] = True"
| "spaced t k (u # us) = (t + (1000 + 500 * int k) \<le> u \<and> spaced u (Suc k) us)"

definition gave_up :: "ws_client \<Rightarrow> bool" where
  "gave_up w \<longleftrightarrow> ws_closed w \<and>
     EError ReconnectTimeout ''max disconnected time reached'' \<in> set (ws_emitted w)"

text \<open>The state after a failure at time \<open>t\<close> that scheduled the retry number \<open>k\<close>.\<close>

definition retrying :: "int \<Rightarrow> int \<Rightarrow> nat \<Rightarrow> ws_client \<Rightarrow> bool" where
  "retrying L t k w \<longleftrightarrow>
     \<not> ws_closed w \<and> ws_listening w \<and> ws_lastDisconnect w = L \<and> k \<le> 9 \<and> t \<ge> L + waited k \<and>
     ws_reconnectRetryTime w = 1000 + 500 * int (Suc k)"

lemma gave_up_retry: "gave_up w \<Longrightarrow> gave_up (retry_fails w t)"
  by (auto simp: gave_up_def retry_fails_def ws_timer_def ws_closeHandler_def ws_emit_def Let_def
      ws_stopPingInterval_def)

lemma gave_up_run: "gave_up w \<Longrightarrow> gave_up (foldl retry_fails w ts)"
  by (induction ts arbitrary: w) (simp_all add: gave_up_retry)

lemma retry_step:
  assumes "retrying L t k w" and "0 < L" and "t + (1000 + 500 * int k) \<le> u"
  shows "gave_up (retry_fails w u) \<or> retrying L u (Suc k) (retry_fails w u)"
proof -
  from assms have u: "u \<ge> L + waited (Suc k)" by (simp add: retrying_def waited_Suc)
  show ?thesis
  proof (cases "u - L \<ge> wsReconnectionTimeout")
    case True
    with assms have "gave_up (retry_fails w u)"
      by (simp add: retrying_def gave_up_def retry_fails_def ws_timer_def ws_closeHandler_def
          ws_init_def ws_reconnect_def Let_def) (simp add: ws_emit_def)
    then show ?thesis ..
  next
    case False
    with u have "waited (Suc k) < 30000" by (simp add: wsReconnectionTimeout_def)
    then have "Suc k \<le> 9" by (rule waited_bound)
    with False u assms have "retrying L u (Suc k) (retry_fails w u)"
      by (simp add: retrying_def retry_fails_def ws_timer_def ws_closeHandler_def ws_init_def
          ws_reconnect_def Let_def wsReconnectTimeIncrement_def algebra_simps)
    then show ?thesis ..
  qed
qed

lemma retry_run:
  "retrying L t k w \<Longrightarrow> 0 < L \<Longrightarrow> spaced t k ts \<Longrightarrow> 10 \<le> k + length ts \<Longrightarrow>
   gave_up (foldl retry_fails w ts)"
proof (induction ts arbitrary: t k w)
  case Nil
  then show ?case by (simp add: retrying_def)
next
  case (Cons u us)
  from Cons.prems have due: "t + (1000 + 500 * int k) \<le> u" by simp
  have "gave_up (retry_fails w u) \<or> retrying L u (Suc k) (retry_fails w u)"
    using Cons.prems(1,2) due by (rule retry_step)
  then show ?case
  proof
    assume "gave_up (retry_fails w u)"
    then show ?thesis by (simp add: gave_up_run)
  next
    assume "retrying L u (Suc k) (retry_fails w u)"
    from Cons.IH [OF this] Cons.prems show ?thesis by simp
  qed
qed

lemma first_failure:
  assumes "\<not> ws_closed w" and "ws_listening w" and "ws_lastDisconnect w = 0"
    and "ws_reconnectRetryTime w = wsMinReconnectRetryTimeMs" and "0 < t"
  shows "retrying t t 0 (ws_closeHandler t code w)"
  using assms
  by (simp add: retrying_def ws_closeHandler_def ws_reconnect_def Let_def wsReconnectionTimeout_def
      wsMinReconnectRetryTimeMs_def wsReconnectTimeIncrement_def waited_def)

text \<open>
  C11. An outage ends: when a lost connection is followed by ten retries that fail, each no
  earlier than its timer, the client has closed itself and reported the reconnect timeout.\<close>
theorem outage_gives_up:
  assumes "\<not> ws_closed w" and "ws_listening w" and "ws_lastDisconnect w = 0"
    and "ws_reconnectRetryTime w = wsMinReconnectRetryTimeMs" and "0 < t"
    and "spaced t 0 ts" and "10 \<le> length ts"
  shows "gave_up (foldl retry_fails (ws_closeHandler t code w) ts)"
  using retry_run [OF first_failure [OF assms(1-5)] assms(5,6)] assms(7) by simp

lemma outage_gives_up_witness:
  "gave_up (foldl retry_fails (ws_closeHandler 1 1006 (new_ws ''p'' []))
     [1001, 2501, 4501, 7001, 10001, 13501, 17501, 22001, 27001, 32501])"
  by (rule outage_gives_up)
    (simp_all add: new_ws_def ws_init_def)

text \<open>
  The id of the first connection, which names the session on the server, stays the same
  through every reconnection until the client closes.\<close>
theorem original_connection_stable:
  assumes "(ws_step f)\<^sup>*\<^sup>* (t, w) (t', w')" and "ws_originalConnID w \<noteq> []"
  shows "ws_closed w' \<or> ws_originalConnID w' = ws_originalConnID w"
  using ws_original.steps_stable [OF assms(1), of "ws_originalConnID w"] assms(2) by auto

lemma original_connection_stable_witness:
  "let w = (new_ws ''p'' [])\<lparr>ws_originalConnID := ''a'', ws_timers := [8]\<rparr>;
       w' = ws_timer (w\<lparr>ws_timers := remove1 8 (ws_timers w)\<rparr>)
   in ws_closed w' \<or> ws_originalConnID w' = ws_originalConnID w"
  unfolding Let_def by (rule original_connection_stable [OF late_timer]) simp

text \<open>
  A connection that stays silent is given up at the first tick of the ping interval: opening
  it sends a ping, and without a reply the tick detaches the socket and schedules a reconnection.\<close>
theorem silent_connection_dropped:
  assumes "ws_socket w = Some s" and "\<not> ws_closed w" and "ws_leaveOnOpen w = 0"
    and "ws_lastDisconnect w = 0 \<or> r"
  shows "let w1 = ws_onopen (sender f) r (w\<lparr>ws_socket := Some (s\<lparr>sk_state := OPEN\<rparr>)\<rparr>);
             w2 = ws_tick now w1
         in (\<exists>n. last (ws_sent w1) = WPing n) \<and> \<not> is_open w2 \<and>
            ws_timers w2 = ws_timers w @ [now + ws_reconnectRetryTime w1]"
proof -
  let ?w1 = "ws_onopen (sender f) r (w\<lparr>ws_socket := Some (s\<lparr>sk_state := OPEN\<rparr>)\<rparr>)"
  have w1: "ws_socket ?w1 = Some (s\<lparr>sk_state := OPEN\<rparr>)" "\<not> ws_closed ?w1"
    "ws_timers ?w1 = ws_timers w" "ws_lastDisconnect ?w1 = 0"
    "ws_waitingForPong ?w1" "\<exists>n. last (ws_sent ?w1) = WPing n"
    using assms
    by (auto simp: ws_onopen_def Let_def ws_ping_def ws_put_def ws_emit_open_def)
  then show ?thesis
    by (simp add: Let_def ws_tick_def ws_closeHandler_def ws_reconnect_def
        wsReconnectionTimeout_def ws_stopPingInterval_def)
qed

lemma silent_connection_dropped_witness:
  "let w1 = ws_onopen (sender quiet_sender) False ((new_ws ''p'' [])\<lparr>ws_socket :=
         Some (\<lparr>sk_state = CONNECTING, sk_isReconnect = False, sk_connection_id = [],
                sk_sequence_number = Some 0, sk_onclose = True\<rparr>\<lparr>sk_state := OPEN\<rparr>)\<rparr>);
       w2 = ws_tick 5000 w1
   in (\<exists>n. last (ws_sent w1) = WPing n) \<and> \<not> is_open w2 \<and>
      ws_timers w2 = ws_timers (new_ws ''p'' []) @ [5000 + ws_reconnectRetryTime w1]"
  by (rule silent_connection_dropped) (simp_all add: new_ws_def ws_init_def)

text \<open>
  The reply to the authentication challenge carries no sequence number; received before the
  pong it makes \<open>serverSeqNo\<close> \<open>NaN\<close>, and a reconnection at that point asks the server to resume
  from \<open>NaN\<close>.\<close>
theorem auth_reply_loses_seq:
  assumes "token \<noteq> []" and "wm_seq_reply m = Some 1" and "wm_seq m = None" and "wm_data m = None"
  shows "let w = ws_onmessage (sender f) False (RawObject m)
                   (ws_onopen (sender f) False ((new_ws p token)\<lparr>ws_socket := Some s\<rparr>))
         in ws_serverSeqNo w = None \<and>
            map_option sk_sequence_number (ws_socket (ws_init True (w\<lparr>ws_closed := False\<rparr>))) = Some None"
  using assms
  by (simp add: Let_def ws_onmessage_def ws_onopen_def new_ws_def ws_init_def ws_put_def ws_ping_def
      ws_startPingInterval_def ws_stopPingInterval_def split: option.splits)

lemma auth_reply_loses_seq_witness:
  "ws_serverSeqNo (ws_onmessage (sender quiet_sender) False
     (RawObject \<lparr>wm_seq_reply = Some 1, wm_seq = None, wm_event = [], wm_data = None\<rparr>)
     (ws_onopen (sender quiet_sender) False ((new_ws ''p'' ''t'')\<lparr>ws_socket :=
        Some \<lparr>sk_state = OPEN, sk_isReconnect = False, sk_connection_id = [],
              sk_sequence_number = Some 0, sk_onclose = True\<rparr>\<rparr>))) = None"
  by (rule auth_reply_loses_seq [unfolded Let_def, THEN conjunct1]) simp_all

end
