(* ===== verification/CallsClient.thy ===== *)
theory CallsClient imports WebSocketClient begin

text \<open>
  The calls client of \<open>webapp/src/client.ts\<close>: the object that holds the websocket client, the
  media peer, the local tracks and the devices of the call this user is in.

  Media tracks are shared objects that streams, fields and event handlers point to, so they live
  in a store, \<open>cc_tracks\<close>, and everything else holds their ids. The media peer (a class of the
  calls-common package) is what the code tells it: the list \<open>cc_peerOps\<close>. Browser calls that can
  fail or ask the user are parameters of the definition that makes them. An \<open>async\<close> method that
  goes on after an \<open>await\<close> is split there; what is left to do is in \<open>cc_pending\<close>. Events are
  recorded in \<open>cc_emitted\<close>. A field of a message that holds \<open>JSON.stringify\<close> of a value keeps
  the value.
\<close>

section \<open>Devices\<close>

record device =
  dv_deviceId :: string
  dv_label :: string

text \<open>The stored choice of a device; the legacy form stored the id only.\<close>

record stored_device =
  sd_deviceId :: string
  sd_label :: "string option"

text \<open>The value under the device's storage key: none, a JSON object, or a bare device id.\<close>

datatype stored_data = NoData | JsonDevice stored_device | BareId string

definition parse_stored :: "stored_data \<Rightarrow> stored_device" where
  "parse_stored d = (case d of
       NoData \<Rightarrow> \<lparr>sd_deviceId = [], sd_label = None\<rparr>
     | JsonDevice s \<Rightarrow> s
     | BareId i \<Rightarrow> \<lparr>sd_deviceId = i, sd_label = None\<rparr>)"

definition getSelectedAudioDevice :: "stored_data \<Rightarrow> device list \<Rightarrow> device option" where
  "getSelectedAudioDevice d devs =
     (let sel = parse_stored d
      in if sd_deviceId sel = [] then None
         else
           let ds = filter (\<lambda>v. dv_deviceId v = sd_deviceId sel \<or> Some (dv_label v) = sd_label sel) devs
           in if length ds > 1 then find (\<lambda>v. dv_deviceId v = sd_deviceId sel) ds
              else if length ds = 1 then Some (hd ds)
              else None)"

text \<open>
  What \<open>handleAudioDeviceFallback\<close> switches to: the first device when the current one is gone,
  or the stored one when it came back.
\<close>

definition fallback_device :: "stored_data \<Rightarrow> device list \<Rightarrow> device option \<Rightarrow> device option" where
  "fallback_device d devs current =
     (let missing = \<not> list_ex (\<lambda>v. map_option dv_deviceId current = Some (dv_deviceId v)) devs
      in if missing \<and> devs \<noteq> [] then Some (hd devs)
         else (case getSelectedAudioDevice d devs of
                 Some s \<Rightarrow> if Some (dv_label s) \<noteq> map_option dv_label current then Some s else None
               | None \<Rightarrow> None))"

section \<open>The object\<close>

datatype track_kind = AudioTrack | VideoTrack

record track =
  tk_kind :: track_kind
  tk_enabled :: bool
  tk_live :: bool

record stream =
  st_id :: string
  st_tracks :: "string list"

datatype peer_op =
    PReplaceTrack string "string option"
  | PAddTrack string string \<comment> \<open>track, stream\<close>
  | PAddTrackAV1 string string
  | PAddStream string
  | PRemoveTrack string
  | PSignal string
  | PDestroy

datatype client_error =
    WsError WebSocketErrorType
  | RtcPeerErr
  | RtcPeerTimeoutErr
  | RtcPeerCloseErr
  | InsecureContextErr
  | UserRemovedFromChannelErr
  | UserLeftChannelErr
  | HostRemovedErr
  | MediaErr string

datatype client_event =
    CClose "client_error option"
  | CConnect
  | CError client_error
  | CMute
  | CUnmute
  | CRaiseHand
  | CLowerHand
  | CVideoOn
  | CVideoOff
  | CLocalScreenStream string
  | CLocalVideoStream string
  | CRemoteVoiceStream string
  | CRemoteVideoStream string
  | CRemoteScreenStream string
  | CInitAudio
  | CInitVideo
  | CDeviceChange
  | CDeviceFallback bool device \<comment> \<open>an input device?\<close>

datatype pending = ScreenOff "string list" \<comment> \<open>tracks still to remove from the peer\<close>

record client_config =
  cf_wsURL :: string
  cf_iceServers :: "string list"
  cf_authToken :: string
  cf_simulcast :: bool
  cf_enableAV1 :: bool
  cf_dcSignaling :: bool
  cf_dcLocking :: bool
  cf_enableVideo :: bool

record calls_client =
  cc_channelID :: string
  cc_config :: client_config
  cc_ws :: "ws_client option"
  cc_leavingWs :: "ws_client option" \<comment> \<open>the websocket client that \<open>disconnect\<close> let go of\<close>
  cc_peer :: bool
  cc_peerOps :: "peer_op list"
  cc_tracks :: "(string, track) obj"
  cc_streams :: "stream list"
  cc_stream :: "stream option"
  cc_audioTrack :: "string option"
  cc_voiceTrackAdded :: bool
  cc_localVideoStream :: "stream option"
  cc_videoTrackAdded :: bool
  cc_videoSenderTrackID :: string
  cc_localScreenTrack :: "string option"
  cc_onScreenEnded :: "(string, string option) obj" \<comment> \<open>screen track to its audio track\<close>
  cc_onCanvasEnded :: "(string, string) obj" \<comment> \<open>blurred track to the camera's\<close>
  cc_remoteScreenTrack :: "string option"
  cc_remoteVoiceTracks :: "string list"
  cc_remoteVideoTracks :: "string list"
  cc_audioInputs :: "device list"
  cc_audioOutputs :: "device list"
  cc_videoDevices :: "device list"
  cc_storedInput :: stored_data \<comment> \<open>local storage\<close>
  cc_storedOutput :: stored_data
  cc_storedVideo :: stored_data
  cc_currentAudioInputDevice :: "device option"
  cc_currentAudioOutputDevice :: "device option"
  cc_currentVideoInputDevice :: "device option"
  cc_closed :: bool
  cc_connected :: bool
  cc_initTime :: int
  cc_av1Codec :: bool
  cc_segmenter :: bool
  cc_listening :: bool \<comment> \<open>\<open>destroy\<close> did not remove the listeners\<close>
  cc_pending :: "pending list"
  cc_emitted :: "client_event list"

definition new_client :: "client_config \<Rightarrow> int \<Rightarrow> calls_client" where
  "new_client config now = \<lparr>
     cc_channelID = [], cc_config = config, cc_ws = None, cc_leavingWs = None, cc_peer = False,
     cc_peerOps = [], cc_tracks = [], cc_streams = [], cc_stream = None, cc_audioTrack = None,
     cc_voiceTrackAdded = False, cc_localVideoStream = None, cc_videoTrackAdded = False,
     cc_videoSenderTrackID = [], cc_localScreenTrack = None, cc_onScreenEnded = [], cc_onCanvasEnded = [],
     cc_remoteScreenTrack = None, cc_remoteVoiceTracks = [], cc_remoteVideoTracks = [],
     cc_audioInputs = [], cc_audioOutputs = [], cc_videoDevices = [],
     cc_storedInput = NoData, cc_storedOutput = NoData, cc_storedVideo = NoData,
     cc_currentAudioInputDevice = None, cc_currentAudioOutputDevice = None,
     cc_currentVideoInputDevice = None, cc_closed = False,
     cc_connected = False, cc_initTime = now, cc_av1Codec = False, cc_segmenter = False,
     cc_listening = True, cc_pending = [], cc_emitted = []\<rparr>"

section \<open>Events, peer and tracks\<close>

definition cc_emit :: "client_event \<Rightarrow> calls_client \<Rightarrow> calls_client" where
  "cc_emit e c = c\<lparr>cc_emitted := cc_emitted c @ [e]\<rparr>"

definition peer_do :: "peer_op \<Rightarrow> calls_client \<Rightarrow> calls_client" where
  "peer_do p c = c\<lparr>cc_peerOps := cc_peerOps c @ [p]\<rparr>"

definition cc_send :: "string \<Rightarrow> json option \<Rightarrow> bool \<Rightarrow> calls_client \<Rightarrow> calls_client" where
  "cc_send action data binary c =
     c\<lparr>cc_ws := map_option (ws_send action data binary) (cc_ws c)\<rparr>"

definition upd_track :: "string \<Rightarrow> (track \<Rightarrow> track) \<Rightarrow> calls_client \<Rightarrow> calls_client" where
  "upd_track i f c =
     (case obj_get (cc_tracks c) i of
        None \<Rightarrow> c
      | Some t \<Rightarrow> c\<lparr>cc_tracks := obj_set i (f t) (cc_tracks c)\<rparr>)"

definition track_stop :: "string \<Rightarrow> calls_client \<Rightarrow> calls_client" where
  "track_stop i = upd_track i (\<lambda>t. t\<lparr>tk_live := False\<rparr>)"

definition track_enable :: "bool \<Rightarrow> string \<Rightarrow> calls_client \<Rightarrow> calls_client" where
  "track_enable b i = upd_track i (\<lambda>t. t\<lparr>tk_enabled := b\<rparr>)"

definition track_live :: "calls_client \<Rightarrow> string \<Rightarrow> bool" where
  "track_live c i = (case obj_get (cc_tracks c) i of None \<Rightarrow> False | Some t \<Rightarrow> tk_live t)"

definition kind_tracks :: "calls_client \<Rightarrow> track_kind \<Rightarrow> stream \<Rightarrow> string list" where
  "kind_tracks c k s =
     filter (\<lambda>i. map_option tk_kind (obj_get (cc_tracks c) i) = Some k) (st_tracks s)"

definition opt_list :: "'a option \<Rightarrow> 'a list" where
  "opt_list x = (case x of None \<Rightarrow> [] | Some a \<Rightarrow> [a])"

text \<open>
  The \<open>onended\<close> handler of a shared screen's track, up to its first \<open>await\<close>; what follows is
  left pending.
\<close>

definition screen_ended :: "string \<Rightarrow> string option \<Rightarrow> calls_client \<Rightarrow> calls_client" where
  "screen_ended screenTrack screenAudioTrack c =
     (let c1 = (case screenAudioTrack of None \<Rightarrow> c | Some a \<Rightarrow> track_stop a c);
          c2 = c1\<lparr>cc_localScreenTrack := None\<rparr>
      in if cc_ws c2 = None \<or> \<not> cc_peer c2 then c2
         else (peer_do (PRemoveTrack screenTrack) c2)
                \<lparr>cc_pending := cc_pending c2 @ [ScreenOff (opt_list screenAudioTrack)]\<rparr>)"

text \<open>
  \<open>track.dispatchEvent(new Event('ended'))\<close>: the handler of a shared screen's track, or that of a
  blurred track, which stops the camera's track behind it.
\<close>

definition dispatch_ended :: "string \<Rightarrow> calls_client \<Rightarrow> calls_client" where
  "dispatch_ended i c =
     (case obj_get (cc_onScreenEnded c) i of
        Some a \<Rightarrow> screen_ended i a c
      | None \<Rightarrow> (case obj_get (cc_onCanvasEnded c) i of
                    Some camera \<Rightarrow> track_stop camera c
                  | None \<Rightarrow> c))"

text \<open>
  The rest of the handler: the audio track is removed from the peer while there is one (an error
  there is caught), then the message is sent. With the websocket client gone, reading \<open>send\<close> of
  \<open>null\<close> throws.
\<close>

definition resume_screen_off :: "string list \<Rightarrow> calls_client \<Rightarrow> error + calls_client" where
  "resume_screen_off ids c =
     (let c1 = (if cc_peer c then fold (\<lambda>i. peer_do (PRemoveTrack i)) ids c else c)
      in case cc_ws c1 of
           None \<Rightarrow> Inl (TypeError ''send'')
         | Some w \<Rightarrow> Inr (cc_send ''screen_off'' None False c1))"

section \<open>Ending the call\<close>

definition stop_track_and_end :: "string \<Rightarrow> calls_client \<Rightarrow> calls_client" where
  "stop_track_and_end i c = dispatch_ended i (track_stop i c)"

definition cleanup :: "calls_client \<Rightarrow> calls_client" where
  "cleanup c = fold (\<lambda>s. fold stop_track_and_end (st_tracks s)) (cc_streams c) c"

definition disconnect :: "client_error option \<Rightarrow> calls_client \<Rightarrow> calls_client" where
  "disconnect err c =
     (if cc_closed c then c
      else
        let c1 = c\<lparr>cc_closed := True\<rparr>;
            c2 = (if cc_peer c1 then (peer_do PDestroy c1)\<lparr>cc_peer := False\<rparr> else c1);
            c3 = cleanup c2;
            c4 = (case cc_ws c3 of
                    None \<Rightarrow> c3
                  | Some w \<Rightarrow> c3\<lparr>cc_leavingWs := Some (ws_sendLeaveAndClose w), cc_ws := None\<rparr>)
        in cc_emit (CClose err) c4)"

section \<open>Audio\<close>

definition mute :: "calls_client \<Rightarrow> calls_client" where
  "mute c =
     (case cc_audioTrack c of
        Some a \<Rightarrow>
          if \<not> cc_peer c \<or> cc_stream c = None then c
          else cc_send ''mute'' None False
                 (cc_emit CMute (track_enable False a (peer_do (PReplaceTrack a None) c)))
      | None \<Rightarrow> c)"

text \<open>
  \<open>unmute\<close> when there is a track, or after \<open>initAudio\<close> gave one; a missing track after a
  failed initialisation only reports the error.
\<close>

definition unmute_ready :: "calls_client \<Rightarrow> calls_client" where
  "unmute_ready c =
     (let c1 = (case cc_audioTrack c of
                  None \<Rightarrow> c
                | Some a \<Rightarrow>
                    track_enable True a
                      (if cc_voiceTrackAdded c then peer_do (PReplaceTrack a (Some a)) c
                       else (case cc_stream c of
                               Some s \<Rightarrow> (peer_do (PAddTrack a (st_id s)) c)\<lparr>cc_voiceTrackAdded := True\<rparr>
                             | None \<Rightarrow> c)))
      in cc_send ''unmute'' None False (cc_emit CUnmute c1))"

definition or_keep :: "'a option \<Rightarrow> 'a option \<Rightarrow> 'a option" where
  "or_keep x current = (case x of None \<Rightarrow> current | Some d \<Rightarrow> Some d)"

text \<open>
  The rest of \<open>initAudio\<close> without a device id, after the devices were updated (the theory of
  devices has that step) and the browser granted a stream with its audio track: the stored devices
  become the current ones, the track starts disabled.
\<close>

definition audio_granted :: "stream \<Rightarrow> string \<Rightarrow> calls_client \<Rightarrow> calls_client" where
  "audio_granted s a c = cc_emit CInitAudio
     (c\<lparr>cc_tracks := obj_set a \<lparr>tk_kind = AudioTrack, tk_enabled = False, tk_live = True\<rparr> (cc_tracks c),
        cc_currentAudioInputDevice := or_keep (getSelectedAudioDevice (cc_storedInput c) (cc_audioInputs c))
                                        (cc_currentAudioInputDevice c),
        cc_currentAudioOutputDevice := or_keep (getSelectedAudioDevice (cc_storedOutput c) (cc_audioOutputs c))
                                         (cc_currentAudioOutputDevice c),
        cc_stream := Some s, cc_audioTrack := Some a, cc_streams := cc_streams c @ [s]\<rparr>)"

definition audio_error :: "calls_client \<Rightarrow> client_error" where
  "audio_error c = MediaErr (if cc_audioInputs c \<noteq> [] then ''missing audio input permissions''
                             else ''no audio input available'')"

definition unmute :: "(stream \<times> string) option \<Rightarrow> calls_client \<Rightarrow> calls_client" where
  "unmute mic c =
     (if \<not> cc_peer c then c
      else if cc_audioTrack c = None
      then (case mic of
              None \<Rightarrow> cc_emit (CError (audio_error c)) c
            | Some (s, a) \<Rightarrow> unmute_ready (audio_granted s a c))
      else unmute_ready c)"

section \<open>Screen sharing\<close>

text \<open>
  \<open>setScreenStream\<close> with a stream's screen track and its audio track, which the browser made; the
  new stream that holds both has the id given.
\<close>

definition setScreenStream ::
  "string \<Rightarrow> string \<Rightarrow> string option \<Rightarrow> calls_client \<Rightarrow> calls_client" where
  "setScreenStream streamID screenTrack screenAudioTrack c =
     (if cc_ws c = None \<or> \<not> cc_peer c \<or> cc_localScreenTrack c \<noteq> None then c
      else
        let s = \<lparr>st_id = streamID, st_tracks = screenTrack # opt_list screenAudioTrack\<rparr>;
            c1 = c\<lparr>cc_localScreenTrack := Some screenTrack, cc_streams := cc_streams c @ [s],
                   cc_onScreenEnded := obj_set screenTrack screenAudioTrack (cc_onScreenEnded c)\<rparr>;
            c2 = cc_send ''screen_on''
                   (Some (JObj [(''data'', JObj [(''screenStreamID'', JStr streamID)])])) False
                   (cc_emit (CLocalScreenStream streamID) c1);
            c3 = peer_do (PAddStream streamID) c2
        in if cf_enableAV1 (cc_config c3) \<and> cc_av1Codec c3
           then peer_do (PAddTrackAV1 screenTrack streamID) c3 else c3)"

definition unshareScreen :: "calls_client \<Rightarrow> calls_client" where
  "unshareScreen c =
     (case (cc_ws c, cc_localScreenTrack c) of
        (Some w, Some t) \<Rightarrow> (stop_track_and_end t c)\<lparr>cc_localScreenTrack := None\<rparr>
      | _ \<Rightarrow> c)"

section \<open>Video\<close>

text \<open>A stream is an object that fields share: a change of its tracks shows through all of them.\<close>

definition upd_stream :: "string \<Rightarrow> (string list \<Rightarrow> string list) \<Rightarrow> calls_client \<Rightarrow> calls_client" where
  "upd_stream i f c =
     (let g = (\<lambda>s. if st_id s = i then s\<lparr>st_tracks := f (st_tracks s)\<rparr> else s)
      in c\<lparr>cc_streams := map g (cc_streams c), cc_stream := map_option g (cc_stream c),
           cc_localVideoStream := map_option g (cc_localVideoStream c)\<rparr>)"

definition new_track :: "track_kind \<Rightarrow> string \<Rightarrow> calls_client \<Rightarrow> calls_client" where
  "new_track k i c =
     c\<lparr>cc_tracks := obj_set i \<lparr>tk_kind = k, tk_enabled = True, tk_live = True\<rparr> (cc_tracks c)\<rparr>"

text \<open>The blur settings of the local storage, with the stream and track a canvas would give.\<close>

record blur =
  bl_background :: bool
  bl_intensity :: int
  bl_stream :: string
  bl_track :: string

definition no_blur :: blur where
  "no_blur = \<lparr>bl_background = False, bl_intensity = 0, bl_stream = [], bl_track = []\<rparr>"

definition blurs :: "blur \<Rightarrow> bool" where
  "blurs b \<longleftrightarrow> bl_background b \<and> bl_intensity b > 0"

text \<open>
  The canvas track takes the place of the camera's track \<open>v\<close> in the stream. With a segmenter at
  work already nothing is done, and the camera's track is what the caller goes on with.
\<close>

definition initBgBackgroundTrack ::
  "blur \<Rightarrow> stream \<Rightarrow> string \<Rightarrow> calls_client \<Rightarrow> string \<times> calls_client" where
  "initBgBackgroundTrack b s v c =
     (if cc_segmenter c then (v, c)
      else
        let out = \<lparr>st_id = bl_stream b, st_tracks = [bl_track b]\<rparr>;
            c1 = new_track VideoTrack (bl_track b) (c\<lparr>cc_streams := cc_streams c @ [out]\<rparr>);
            c2 = upd_stream (st_id s) (\<lambda>ts. removeAll v ts @ [bl_track b]) c1
        in (bl_track b, c2\<lparr>cc_onCanvasEnded := obj_set (bl_track b) v (cc_onCanvasEnded c2),
                           cc_segmenter := True\<rparr>))"

text \<open>
  The camera that \<open>initVideo\<close> asks for: the one it is given, the current one, or the stored one,
  which is forgotten when it is not there. A stored value that is no JSON counts as none.
\<close>

definition choose_video :: "string option \<Rightarrow> calls_client \<Rightarrow> string option \<times> calls_client" where
  "choose_video deviceId c =
     (let sel = (case cc_storedVideo c of JsonDevice s \<Rightarrow> s | _ \<Rightarrow> \<lparr>sd_deviceId = [], sd_label = None\<rparr>);
          ds = filter (\<lambda>v. dv_deviceId v = sd_deviceId sel \<or> Some (dv_label v) = sd_label sel)
                 (cc_videoDevices c);
          ds1 = (if length ds > 1 then filter (\<lambda>v. dv_deviceId v = sd_deviceId sel) ds else ds)
      in if deviceId \<noteq> None \<and> deviceId \<noteq> Some [] then (deviceId, c)
         else (case cc_currentVideoInputDevice c of
                 Some d \<Rightarrow> (Some (dv_deviceId d), c)
               | None \<Rightarrow>
                   if sd_deviceId sel = [] then (None, c)
                   else if length ds1 = 1
                   then (Some (dv_deviceId (hd ds1)), c\<lparr>cc_currentVideoInputDevice := Some (hd ds1)\<rparr>)
                   else (None, c\<lparr>cc_storedVideo := NoData\<rparr>)))"

text \<open>The rest of \<open>initVideo\<close> for \<open>startVideo\<close>, when the browser granted a stream and its track.\<close>

definition video_granted :: "stream \<Rightarrow> string \<Rightarrow> calls_client \<Rightarrow> calls_client" where
  "video_granted s v c = cc_emit CInitVideo
     (c\<lparr>cc_tracks := obj_set v \<lparr>tk_kind = VideoTrack, tk_enabled = False, tk_live = True\<rparr> (cc_tracks c),
       cc_localVideoStream := Some s, cc_streams := cc_streams c @ [s]\<rparr>)"

text \<open>\<open>startVideo\<close> once there is a local stream \<open>s\<close> with its first video track \<open>v\<close>.\<close>

definition start_video_ready :: "blur \<Rightarrow> stream \<Rightarrow> string \<Rightarrow> calls_client \<Rightarrow> calls_client" where
  "start_video_ready b s v c =
     (case (if blurs b then initBgBackgroundTrack b s v (track_enable True v c)
            else (v, track_enable True v c)) of
        (t, c1) \<Rightarrow>
          let c2 = (if cc_videoTrackAdded c1
                    then peer_do (PReplaceTrack (cc_videoSenderTrackID c1) (Some t)) c1
                    else
                      let c' = peer_do (PAddTrack t (st_id s)) c1;
                          c'' = (if cf_enableAV1 (cc_config c') \<and> cc_av1Codec c'
                                 then peer_do (PAddTrackAV1 t (st_id s)) c' else c')
                      in c''\<lparr>cc_videoTrackAdded := True\<rparr>);
              c3 = cc_emit (CLocalVideoStream (st_id s)) (c2\<lparr>cc_videoSenderTrackID := t\<rparr>)
          in cc_emit CVideoOn
               (cc_send ''video_on''
                  (Some (JObj [(''data'', JObj [(''videoStreamID'', JStr (st_id s))])])) False c3))"

definition video_error :: "calls_client \<Rightarrow> client_error" where
  "video_error c = MediaErr (if cc_videoDevices c \<noteq> [] then ''missing video input permissions''
                             else ''no video input available'')"

text \<open>
  \<open>camera\<close> is the browser's answer to a request for the camera with an id or for any; the devices
  are updated before, see the theory of devices.
\<close>

definition startVideo ::
  "(string option \<Rightarrow> (stream \<times> string) option) \<Rightarrow> blur \<Rightarrow> calls_client \<Rightarrow> calls_client" where
  "startVideo camera b c =
     (if cc_ws c = None \<or> \<not> cc_peer c \<or> \<not> cf_enableVideo (cc_config c) then c
      else
        (case cc_localVideoStream c of
           Some s \<Rightarrow>
             (case kind_tracks c VideoTrack s of [] \<Rightarrow> c | v # vs \<Rightarrow> start_video_ready b s v c)
         | None \<Rightarrow>
             (case choose_video None c of
                (want, c1) \<Rightarrow>
                  (case camera want of
                     None \<Rightarrow> cc_emit (CError (video_error c1)) c1
                   | Some (s, v) \<Rightarrow> start_video_ready b s v (video_granted s v c1)))))"

definition stopVideo :: "calls_client \<Rightarrow> calls_client" where
  "stopVideo c =
     (case cc_localVideoStream c of
        Some s \<Rightarrow>
          if cc_ws c = None \<or> \<not> cc_peer c then c
          else
            let c1 = (peer_do (PReplaceTrack (cc_videoSenderTrackID c) None) c)\<lparr>cc_segmenter := False\<rparr>;
                c2 = fold stop_track_and_end (kind_tracks c1 VideoTrack s) c1
            in cc_send ''video_off'' None False (cc_emit CVideoOff (c2\<lparr>cc_localVideoStream := None\<rparr>))
      | None \<Rightarrow> c)"

section \<open>Hands and reactions\<close>

definition raiseHand :: "calls_client \<Rightarrow> calls_client" where
  "raiseHand c = cc_send ''raise_hand'' None False (cc_emit CRaiseHand c)"

definition unraiseHand :: "calls_client \<Rightarrow> calls_client" where
  "unraiseHand c = cc_send ''unraise_hand'' None False (cc_emit CLowerHand c)"

definition sendUserReaction :: "json \<Rightarrow> calls_client \<Rightarrow> calls_client" where
  "sendUserReaction data c = cc_send ''react'' (Some (JObj [(''data'', data)])) False c"

section \<open>Joining\<close>

record join_data =
  jd_channelID :: string
  jd_title :: "string option"
  jd_threadID :: "string option"
  jd_av1Support :: bool
  jd_dcSignaling :: bool

definition opt_field :: "string \<Rightarrow> string option \<Rightarrow> (string \<times> json) list" where
  "opt_field k v = (case v of None \<Rightarrow> [] | Some s \<Rightarrow> [(k, JStr s)])"

definition flag_field :: "string \<Rightarrow> bool \<Rightarrow> (string \<times> json) list" where
  "flag_field k b = (if b then [(k, JBool True)] else [])"

definition join_json :: "join_data \<Rightarrow> json" where
  "join_json jd = JObj ((''channelID'', JStr (jd_channelID jd)) # opt_field ''title'' (jd_title jd) @
     opt_field ''threadID'' (jd_threadID jd) @ flag_field ''av1Support'' (jd_av1Support jd) @
     flag_field ''dcSignaling'' (jd_dcSignaling jd))"

text \<open>The listener of the websocket's \<open>open\<close>.\<close>

definition client_open :: "join_data \<Rightarrow> bool \<Rightarrow> ws_client \<Rightarrow> string \<times> json option" where
  "client_open jd isReconnect w =
     (if isReconnect
      then (''reconnect'', Some (JObj [(''channelID'', JStr (jd_channelID jd)),
              (''originalConnID'', JStr (ws_originalConnID w)), (''prevConnID'', JStr (ws_connID w))]))
      else (''join'', Some (join_json jd)))"

text \<open>
  \<open>init\<close> up to its first \<open>await\<close> on devices: the join data gets the features that the
  configuration enables (\<open>av1\<close>: the browser has the codec), and an insecure page is refused.
\<close>

definition init_start ::
  "bool \<Rightarrow> bool \<Rightarrow> join_data \<Rightarrow> calls_client \<Rightarrow> client_error + (join_data \<times> calls_client)" where
  "init_start secure av1 jd c =
     (let c1 = c\<lparr>cc_channelID := jd_channelID jd\<rparr>;
          want = cf_enableAV1 (cc_config c1) \<and> \<not> cf_simulcast (cc_config c1);
          c2 = (if want then c1\<lparr>cc_av1Codec := av1\<rparr> else c1);
          jd1 = (if want \<and> av1 then jd\<lparr>jd_av1Support := True\<rparr> else jd);
          jd2 = (if cf_dcSignaling (cc_config c2) then jd1\<lparr>jd_dcSignaling := True\<rparr> else jd1)
      in if \<not> secure then Inl InsecureContextErr else Inr (jd2, c2))"

text \<open>
  \<open>init\<close> after the media initialisers: either they gave the microphone's stream, and a client
  that was closed meanwhile cleans up and stops, or one of them failed, which is reported before
  going on to connect.
\<close>

definition init_connect ::
  "string \<Rightarrow> client_error + (stream \<times> string) \<Rightarrow> calls_client \<Rightarrow> calls_client" where
  "init_connect pluginId media c =
     (let connect = (\<lambda>c. c\<lparr>cc_ws := Some (new_ws pluginId (cf_authToken (cc_config c)))\<rparr>)
      in case media of
           Inr (s, a) \<Rightarrow>
             (let c1 = audio_granted s a c in if cc_closed c1 then cleanup c1 else connect c1)
         | Inl err \<Rightarrow> connect (cc_emit (CError err) c))"

section \<open>Events of the websocket and of the peer\<close>

definition on_ws_error :: "WebSocketErrorType \<Rightarrow> calls_client \<Rightarrow> calls_client" where
  "on_ws_error ty c = (case ty of
       Native \<Rightarrow> c
     | ReconnectTimeout \<Rightarrow> disconnect (Some (WsError ty)) c
     | Join \<Rightarrow> disconnect (Some (WsError ty)) c)"

definition on_ws_join :: "calls_client \<Rightarrow> calls_client" where
  "on_ws_join c = (if cc_closed c then c else c\<lparr>cc_peer := True\<rparr>)"

text \<open>A signal whose \<open>type\<close>, read from the JSON payload, the peer understands.\<close>

definition on_ws_message :: "(string \<Rightarrow> string option) \<Rightarrow> string \<Rightarrow> calls_client \<Rightarrow> calls_client" where
  "on_ws_message type_of payload c =
     (case type_of payload of
        None \<Rightarrow> c
      | Some ty \<Rightarrow>
          if ty \<in> {''answer'', ''offer'', ''candidate''} \<and> cc_peer c
          then peer_do (PSignal payload) c else c)"

definition on_ws_event :: "(string \<Rightarrow> string option) \<Rightarrow> ws_event \<Rightarrow> calls_client \<Rightarrow> calls_client" where
  "on_ws_event type_of e c = (case e of
       EError ty msg \<Rightarrow> on_ws_error ty c
     | EJoin \<Rightarrow> on_ws_join c
     | EMessage d \<Rightarrow> on_ws_message type_of (md_data d) c
     | _ \<Rightarrow> c)"

text \<open>A step of the websocket client followed by the events that it emitted.\<close>

definition client_ws ::
  "(string \<Rightarrow> string option) \<Rightarrow> (ws_client \<Rightarrow> ws_client) \<Rightarrow> calls_client \<Rightarrow> calls_client" where
  "client_ws type_of f c =
     (case cc_ws c of
        None \<Rightarrow> c
      | Some w \<Rightarrow> fold (on_ws_event type_of) (drop (length (ws_emitted w)) (ws_emitted (f w)))
                    (c\<lparr>cc_ws := Some (f w)\<rparr>))"

definition on_peer_error :: "bool \<Rightarrow> calls_client \<Rightarrow> calls_client" where
  "on_peer_error isTimeout c =
     (if cc_closed c then c else disconnect (Some (if isTimeout then RtcPeerTimeoutErr else RtcPeerErr)) c)"

definition on_peer_connect :: "calls_client \<Rightarrow> calls_client" where
  "on_peer_connect c = (cc_emit CConnect c)\<lparr>cc_connected := True\<rparr>"

definition on_peer_close :: "calls_client \<Rightarrow> calls_client" where
  "on_peer_close c = (if cc_closed c then c else disconnect (Some RtcPeerCloseErr) c)"

text \<open>
  A remote stream with its track info: audio is a voice or a screen's sound, video a camera or a
  screen.
\<close>

definition on_peer_stream :: "stream \<Rightarrow> string option \<Rightarrow> calls_client \<Rightarrow> calls_client" where
  "on_peer_stream s ty c =
     (let c1 = c\<lparr>cc_streams := cc_streams c @ [s]\<rparr>;
          audio = kind_tracks c1 AudioTrack s;
          video = kind_tracks c1 VideoTrack s;
          voice = (ty = Some ''screen-audio'' \<or> ty = Some ''voice'' \<or> ty = None \<or> ty = Some []);
          c2 = (if audio \<noteq> [] \<and> voice
                then (cc_emit (CRemoteVoiceStream (st_id s)) c1)
                       \<lparr>cc_remoteVoiceTracks := cc_remoteVoiceTracks c1 @ audio\<rparr>
                else c1)
      in if video \<noteq> [] \<and> ty = Some ''video''
         then (cc_emit (CRemoteVideoStream (st_id s)) c2)
                \<lparr>cc_remoteVideoTracks := cc_remoteVideoTracks c2 @ [hd video]\<rparr>
         else if video \<noteq> [] \<and> ty = Some ''screen''
         then (cc_emit (CRemoteScreenStream (st_id s)) c2)\<lparr>cc_remoteScreenTrack := Some (hd video)\<rparr>
         else c2)"

section \<open>Reading the client\<close>

definition getLocalScreenStream :: "calls_client \<Rightarrow> string option" where
  "getLocalScreenStream c = cc_localScreenTrack c"

definition getRemoteScreenStream :: "calls_client \<Rightarrow> string option" where
  "getRemoteScreenStream c =
     (case cc_remoteScreenTrack c of
        None \<Rightarrow> None | Some t \<Rightarrow> if track_live c t then Some t else None)"

definition getRemoteVideoStream :: "calls_client \<Rightarrow> string option" where
  "getRemoteVideoStream c =
     (if cc_remoteVideoTracks c = [] \<or> \<not> track_live c (last (cc_remoteVideoTracks c)) then None
      else Some (last (cc_remoteVideoTracks c)))"

definition getRemoteVoiceTracks :: "calls_client \<Rightarrow> string list" where
  "getRemoteVoiceTracks c = filter (track_live c) (cc_remoteVoiceTracks c)"

definition getSessionID :: "calls_client \<Rightarrow> string option" where
  "getSessionID c = map_option ws_originalConnID (cc_ws c)"

section \<open>What operations keep\<close>

lemma upd_track_fields [simp]:
  "cc_closed (upd_track i f c) = cc_closed c" "cc_emitted (upd_track i f c) = cc_emitted c"
  "cc_ws (upd_track i f c) = cc_ws c" "cc_peer (upd_track i f c) = cc_peer c"
  "cc_peerOps (upd_track i f c) = cc_peerOps c" "cc_leavingWs (upd_track i f c) = cc_leavingWs c"
  "cc_streams (upd_track i f c) = cc_streams c"
  "cc_onScreenEnded (upd_track i f c) = cc_onScreenEnded c"
  "cc_onCanvasEnded (upd_track i f c) = cc_onCanvasEnded c"
  "cc_localScreenTrack (upd_track i f c) = cc_localScreenTrack c"
  "cc_pending (upd_track i f c) = cc_pending c" "cc_config (upd_track i f c) = cc_config c"
  "cc_audioTrack (upd_track i f c) = cc_audioTrack c" "cc_stream (upd_track i f c) = cc_stream c"
  by (simp_all add: upd_track_def split: option.splits)

lemma track_stop_fields [simp]:
  "cc_closed (track_stop i c) = cc_closed c" "cc_emitted (track_stop i c) = cc_emitted c"
  "cc_ws (track_stop i c) = cc_ws c" "cc_peer (track_stop i c) = cc_peer c"
  "cc_peerOps (track_stop i c) = cc_peerOps c" "cc_leavingWs (track_stop i c) = cc_leavingWs c"
  "cc_streams (track_stop i c) = cc_streams c"
  "cc_onScreenEnded (track_stop i c) = cc_onScreenEnded c"
  "cc_onCanvasEnded (track_stop i c) = cc_onCanvasEnded c"
  "cc_localScreenTrack (track_stop i c) = cc_localScreenTrack c"
  "cc_pending (track_stop i c) = cc_pending c"
  by (simp_all add: track_stop_def)

lemma track_enable_fields [simp]:
  "cc_closed (track_enable b i c) = cc_closed c" "cc_emitted (track_enable b i c) = cc_emitted c"
  "cc_ws (track_enable b i c) = cc_ws c" "cc_peer (track_enable b i c) = cc_peer c"
  "cc_peerOps (track_enable b i c) = cc_peerOps c"
  "cc_leavingWs (track_enable b i c) = cc_leavingWs c"
  by (simp_all add: track_enable_def)

lemma cc_send_fields [simp]:
  "cc_closed (cc_send a d b c) = cc_closed c" "cc_emitted (cc_send a d b c) = cc_emitted c"
  "cc_ws (cc_send a d b c) = map_option (ws_send a d b) (cc_ws c)"
  "cc_peer (cc_send a d b c) = cc_peer c" "cc_peerOps (cc_send a d b c) = cc_peerOps c"
  "cc_leavingWs (cc_send a d b c) = cc_leavingWs c" "cc_config (cc_send a d b c) = cc_config c"
  "cc_tracks (cc_send a d b c) = cc_tracks c" "cc_pending (cc_send a d b c) = cc_pending c"
  by (simp_all add: cc_send_def)

lemma peer_do_fields [simp]:
  "cc_closed (peer_do p c) = cc_closed c" "cc_emitted (peer_do p c) = cc_emitted c"
  "cc_ws (peer_do p c) = cc_ws c" "cc_peer (peer_do p c) = cc_peer c"
  "cc_leavingWs (peer_do p c) = cc_leavingWs c" "cc_tracks (peer_do p c) = cc_tracks c"
  "cc_streams (peer_do p c) = cc_streams c" "cc_config (peer_do p c) = cc_config c"
  "cc_pending (peer_do p c) = cc_pending c"
  by (simp_all add: peer_do_def)

lemma cc_emit_fields [simp]:
  "cc_closed (cc_emit e c) = cc_closed c" "cc_emitted (cc_emit e c) = cc_emitted c @ [e]"
  "cc_ws (cc_emit e c) = cc_ws c" "cc_peer (cc_emit e c) = cc_peer c"
  "cc_peerOps (cc_emit e c) = cc_peerOps c" "cc_leavingWs (cc_emit e c) = cc_leavingWs c"
  "cc_tracks (cc_emit e c) = cc_tracks c" "cc_streams (cc_emit e c) = cc_streams c"
  "cc_config (cc_emit e c) = cc_config c"
  by (simp_all add: cc_emit_def)

lemma stop_end_fields [simp]:
  "cc_closed (stop_track_and_end i c) = cc_closed c"
  "cc_emitted (stop_track_and_end i c) = cc_emitted c"
  "cc_ws (stop_track_and_end i c) = cc_ws c" "cc_peer (stop_track_and_end i c) = cc_peer c"
  "cc_leavingWs (stop_track_and_end i c) = cc_leavingWs c"
  "cc_streams (stop_track_and_end i c) = cc_streams c"
  "cc_onScreenEnded (stop_track_and_end i c) = cc_onScreenEnded c"
  "cc_onCanvasEnded (stop_track_and_end i c) = cc_onCanvasEnded c"
  by (simp_all add: stop_track_and_end_def dispatch_ended_def screen_ended_def peer_do_def Let_def
      split: option.splits)

lemmas fold_stop_keeps = fold_keeps [where f = stop_track_and_end]

lemma fold_stop_fields [simp]:
  "cc_closed (fold stop_track_and_end is c) = cc_closed c"
  "cc_emitted (fold stop_track_and_end is c) = cc_emitted c"
  "cc_ws (fold stop_track_and_end is c) = cc_ws c"
  "cc_peer (fold stop_track_and_end is c) = cc_peer c"
  "cc_leavingWs (fold stop_track_and_end is c) = cc_leavingWs c"
  "cc_streams (fold stop_track_and_end is c) = cc_streams c"
  by (rule fold_stop_keeps, simp)+

lemma cleanup_fields [simp]:
  "cc_closed (cleanup c) = cc_closed c" "cc_emitted (cleanup c) = cc_emitted c"
  "cc_ws (cleanup c) = cc_ws c" "cc_peer (cleanup c) = cc_peer c"
  "cc_leavingWs (cleanup c) = cc_leavingWs c"
  unfolding cleanup_def by (rule fold_keeps, simp)+

section \<open>Stopped tracks\<close>

lemma track_live_stop [simp]: "\<not> track_live (track_stop i c) i"
  by (auto simp: track_live_def track_stop_def upd_track_def split: option.splits)

lemma track_live_stop_other: "track_live (track_stop j c) i \<Longrightarrow> track_live c i"
  by (auto simp: track_live_def track_stop_def upd_track_def split: option.splits if_splits)

lemma track_live_cong: "cc_tracks c = cc_tracks d \<Longrightarrow> track_live c i = track_live d i"
  by (simp add: track_live_def)

lemma screen_ended_live: "track_live (screen_ended t a c) i \<Longrightarrow> track_live c i"
  by (auto simp: screen_ended_def Let_def track_live_def peer_do_def track_stop_def upd_track_def
      split: option.splits if_splits)

lemma dispatch_ended_live: "track_live (dispatch_ended j c) i \<Longrightarrow> track_live c i"
  by (auto simp: dispatch_ended_def split: option.splits dest: screen_ended_live track_live_stop_other)

lemma stop_end_live: "track_live (stop_track_and_end j c) i \<Longrightarrow> track_live c i"
  by (auto simp: stop_track_and_end_def dest!: dispatch_ended_live track_live_stop_other)

lemma stop_end_dead: "\<not> track_live (stop_track_and_end i c) i"
  by (auto simp: stop_track_and_end_def dest!: dispatch_ended_live)

lemma fold_stop_live: "track_live (fold stop_track_and_end is c) i \<Longrightarrow> track_live c i"
  using fold_inv [of "\<lambda>c. \<not> track_live c i" c stop_track_and_end "is"] stop_end_live by blast

lemma fold_stop_dead:
  assumes "i \<in> set is"
  shows "\<not> track_live (fold stop_track_and_end is c) i"
  by (rule fold_establish [OF assms]) (use stop_end_dead stop_end_live in blast)+

text \<open>A track that stands for a camera's: the camera stops with it.\<close>

definition behind :: "calls_client \<Rightarrow> string \<Rightarrow> string \<Rightarrow> bool" where
  "behind c i camera \<longleftrightarrow> obj_get (cc_onScreenEnded c) i = None \<and>
     obj_get (cc_onCanvasEnded c) i = Some camera"

lemma behind_stop [simp]: "behind (stop_track_and_end j c) i camera = behind c i camera"
  by (simp add: behind_def)

lemma fold_stop_behind:
  "\<lbrakk>i \<in> set is; behind c i camera\<rbrakk> \<Longrightarrow> \<not> track_live (fold stop_track_and_end is c) camera"
proof (induction "is" arbitrary: c)
  case (Cons j js)
  show ?case
  proof (cases "i = j")
    case True
    with Cons.prems(2) have "\<not> track_live (stop_track_and_end j c) camera"
      by (simp add: behind_def stop_track_and_end_def dispatch_ended_def)
    then show ?thesis using fold_stop_live by auto
  qed (use Cons in simp)
qed simp

lemma cleanup_dead:
  assumes "s \<in> set (cc_streams c)" and "i \<in> set (st_tracks s)"
  shows "\<not> track_live (cleanup c) i"
  unfolding cleanup_def
  by (rule fold_establish [OF assms(1)])
    (use fold_stop_dead [OF assms(2)] in \<open>auto dest: fold_stop_live\<close>)

section \<open>The end of a client\<close>

text \<open>A client that ended: closed, without websocket client and peer.\<close>

definition ended :: "calls_client \<Rightarrow> bool" where
  "ended c \<longleftrightarrow> cc_closed c \<and> cc_ws c = None \<and> \<not> cc_peer c"

definition closes :: "calls_client \<Rightarrow> nat" where
  "closes c = length (filter (\<lambda>e. \<exists>err. e = CClose err) (cc_emitted c))"

lemma disconnect_ended: "\<not> cc_closed c \<Longrightarrow> ended (disconnect err c)"
  by (auto simp: disconnect_def ended_def Let_def split: option.splits)

lemma disconnect_closes: "\<not> cc_closed c \<Longrightarrow> closes (disconnect err c) = Suc (closes c)"
  by (auto simp: disconnect_def closes_def Let_def split: option.splits)

lemma disconnect_leaves:
  "\<not> cc_closed c \<Longrightarrow>
   cc_leavingWs (disconnect err c) =
     (case cc_ws c of None \<Rightarrow> cc_leavingWs c | Some w \<Rightarrow> Some (ws_sendLeaveAndClose w))"
  by (auto simp: disconnect_def Let_def split: option.splits)

lemma disconnect_dead:
  assumes "\<not> cc_closed c" and "s \<in> set (cc_streams c)" and "i \<in> set (st_tracks s)"
  shows "\<not> track_live (disconnect err c) i"
proof -
  define d where "d = (if cc_peer c then (peer_do PDestroy (c\<lparr>cc_closed := True\<rparr>))\<lparr>cc_peer := False\<rparr>
                       else c\<lparr>cc_closed := True\<rparr>)"
  have "cc_streams d = cc_streams c" by (simp add: d_def peer_do_def)
  then have "\<not> track_live (cleanup d) i" using assms(2,3) by (intro cleanup_dead) simp_all
  moreover have "cc_tracks (disconnect err c) = cc_tracks (cleanup d)"
    using assms(1)
    by (cases "cc_ws (cleanup d)"; cases "cc_peer c")
      (simp_all add: disconnect_def Let_def d_def)
  ultimately show ?thesis using track_live_cong by blast
qed

section \<open>Properties\<close>

definition plain_config :: client_config where
  "plain_config = \<lparr>cf_wsURL = [], cf_iceServers = [], cf_authToken = [], cf_simulcast = False, cf_enableAV1 = False,
     cf_dcSignaling = False, cf_dcLocking = False, cf_enableVideo = True\<rparr>"

lemma ws_send_open:
  assumes "is_open w"
  shows "ws_sent (ws_send a d b w) =
           ws_sent w @ [WAction (ws_eventPrefix w @ ''_'' @ a) (ws_seqNo w) d b]"
    and "ws_seqNo (ws_send a d b w) = ws_seqNo w + 1"
    and "is_open (ws_send a d b w)"
  using assms by (simp_all add: ws_send_def ws_put_def Let_def)

lemma shared_fields:
  fixes sid t a
  assumes "cc_ws c = Some w" and "cc_peer c" and "cc_localScreenTrack c = None"
  defines "c1 \<equiv> setScreenStream sid t a c"
  shows "cc_ws c1 = Some (ws_send ''screen_on''
           (Some (JObj [(''data'', JObj [(''screenStreamID'', JStr sid)])])) False w)"
    and "cc_peer c1" and "cc_localScreenTrack c1 = Some t"
    and "obj_get (cc_onScreenEnded c1) t = Some a"
  using assms(1-3)
  by (simp_all add: c1_def setScreenStream_def Let_def)
    (simp_all add: peer_do_def cc_send_def cc_emit_def)

lemma unshared_fields:
  assumes "cc_ws c1 = Some w1" and "cc_peer c1" and "cc_localScreenTrack c1 = Some t"
    and "obj_get (cc_onScreenEnded c1) t = Some a"
  shows "cc_ws (unshareScreen c1) = Some w1" and "cc_peer (unshareScreen c1)"
    and "cc_localScreenTrack (unshareScreen c1) = None"
    and "\<not> track_live (unshareScreen c1) t"
    and "cc_pending (unshareScreen c1) = cc_pending c1 @ [ScreenOff (opt_list a)]"
proof -
  have u: "unshareScreen c1 = (stop_track_and_end t c1)\<lparr>cc_localScreenTrack := None\<rparr>"
    using assms by (simp add: unshareScreen_def)
  show "cc_ws (unshareScreen c1) = Some w1" "cc_peer (unshareScreen c1)"
    "cc_localScreenTrack (unshareScreen c1) = None"
    using assms by (simp_all add: u)
  show "\<not> track_live (unshareScreen c1) t"
  proof -
    have "cc_tracks (unshareScreen c1) = cc_tracks (stop_track_and_end t c1)" by (simp add: u)
    from track_live_cong [OF this, of t] show ?thesis by (simp add: stop_end_dead)
  qed
  show "cc_pending (unshareScreen c1) = cc_pending c1 @ [ScreenOff (opt_list a)]"
    using assms
    by (simp add: u stop_track_and_end_def dispatch_ended_def screen_ended_def Let_def
        split: option.splits)
qed

lemma resume_fields:
  assumes "cc_ws c = Some w"
  shows "\<exists>d. resume_screen_off is c = Inr d \<and> cc_ws d = Some (ws_send ''screen_off'' None False w)"
proof -
  have "cc_ws (fold (\<lambda>i. peer_do (PRemoveTrack i)) is c) = Some w"
    by (subst fold_keeps [where g = cc_ws]) (simp_all add: assms)
  then show ?thesis using assms by (simp add: resume_screen_off_def Let_def)
qed

text \<open>
  Sharing a screen and stopping puts exactly two messages on an open connection, the screen
  on and the screen off, ends the screen's track, and leaves the client ready to share again; while
  a screen is shared, sharing another does nothing.\<close>
theorem share_then_unshare:
  assumes "cc_ws c = Some w" and "is_open w" and "cc_peer c" and "cc_localScreenTrack c = None"
  shows "let c1 = setScreenStream sid t a c; c2 = unshareScreen c1
         in setScreenStream sid' t' a' c1 = c1 \<and> cc_localScreenTrack c2 = None \<and>
            \<not> track_live c2 t \<and> cc_pending c2 = cc_pending c1 @ [ScreenOff (opt_list a)] \<and>
            (\<exists>d v. resume_screen_off (opt_list a) c2 = Inr d \<and> cc_ws d = Some v \<and>
               ws_sent v = ws_sent w @
                 [WAction (ws_eventPrefix w @ ''_screen_on'') (ws_seqNo w)
                    (Some (JObj [(''data'', JObj [(''screenStreamID'', JStr sid)])])) False,
                  WAction (ws_eventPrefix w @ ''_screen_off'') (ws_seqNo w + 1) None False])"
proof -
  let ?c1 = "setScreenStream sid t a c"
  note s = shared_fields [OF assms(1,3,4), of sid t a]
  note u = unshared_fields [OF s]
  obtain d where d: "resume_screen_off (opt_list a) (unshareScreen ?c1) = Inr d"
    "cc_ws d = Some (ws_send ''screen_off'' None False (ws_send ''screen_on''
       (Some (JObj [(''data'', JObj [(''screenStreamID'', JStr sid)])])) False w))"
    using resume_fields [OF u(1)] by blast
  have "setScreenStream sid' t' a' ?c1 = ?c1"
    using s(3) by (subst setScreenStream_def) simp
  with u d show ?thesis
    by (simp add: Let_def ws_send_open [OF ws_send_open(3) [OF assms(2)]]
        ws_send_open [OF assms(2)] del: is_open_code)
qed

definition opened_ws :: ws_client where
  "opened_ws = (new_ws ''p'' [])\<lparr>ws_socket := Some \<lparr>sk_state = OPEN, sk_isReconnect = False,
     sk_connection_id = [], sk_sequence_number = Some 0, sk_onclose = True\<rparr>\<rparr>"

lemma share_then_unshare_witness:
  "cc_localScreenTrack (unshareScreen (setScreenStream ''m'' ''t'' (Some ''a'')
     ((new_client plain_config 5)\<lparr>cc_ws := Some opened_ws, cc_peer := True\<rparr>))) = None"
  by (rule share_then_unshare [unfolded Let_def, THEN conjunct2, THEN conjunct1, of _ opened_ws])
    (simp_all add: new_client_def opened_ws_def)

text \<open>
  Turning the camera off stops every video track of the local stream and, when the picture is
  blurred, the camera's track behind it, so the device is released; it detaches the sender's track without removing the sender, and drops the stream.\<close>
theorem stop_video_releases_camera:
  assumes "cc_ws c = Some w" and "cc_peer c" and "cc_localVideoStream c = Some s"
    and "i \<in> set (kind_tracks c VideoTrack s)"
  shows "\<not> track_live (stopVideo c) i \<and>
    (\<forall>camera. behind c i camera \<longrightarrow> \<not> track_live (stopVideo c) camera) \<and>
    cc_localVideoStream (stopVideo c) = None \<and>
    PReplaceTrack (cc_videoSenderTrackID c) None \<in> set (cc_peerOps (stopVideo c)) \<and>
    cc_ws (stopVideo c) = Some (ws_send ''video_off'' None False w)"
proof -
  let ?c1 = "(peer_do (PReplaceTrack (cc_videoSenderTrackID c) None) c)\<lparr>cc_segmenter := False\<rparr>"
  let ?c2 = "fold stop_track_and_end (kind_tracks c VideoTrack s) ?c1"
  have k: "kind_tracks ?c1 VideoTrack s = kind_tracks c VideoTrack s"
    by (simp add: kind_tracks_def)
  have v: "stopVideo c = cc_send ''video_off'' None False
             (cc_emit CVideoOff (?c2\<lparr>cc_localVideoStream := None\<rparr>))"
    using assms(1-3) k by (simp add: stopVideo_def Let_def)
  have "\<not> track_live ?c2 i" using assms(4) by (rule fold_stop_dead)
  moreover have "\<forall>camera. behind c i camera \<longrightarrow> \<not> track_live ?c2 camera"
    using fold_stop_behind [OF assms(4), of ?c1] by (simp add: behind_def peer_do_def)
  moreover have "cc_tracks (stopVideo c) = cc_tracks ?c2" by (simp add: v)
  moreover have "PReplaceTrack (cc_videoSenderTrackID c) None \<in> set (cc_peerOps ?c2)"
    by (rule fold_inv)
      (auto simp: peer_do_def stop_track_and_end_def dispatch_ended_def screen_ended_def Let_def
        split: option.splits)
  ultimately show ?thesis
    using assms(1) track_live_cong [of "stopVideo c" ?c2]
    by (simp add: v) (simp add: cc_send_def cc_emit_def)
qed

lemma stop_video_releases_camera_witness:
  "\<not> track_live (stopVideo (video_granted \<lparr>st_id = ''m'', st_tracks = [''v'']\<rparr> ''v''
      ((new_client plain_config 5)\<lparr>cc_ws := Some opened_ws, cc_peer := True\<rparr>))) ''v''"
  by (rule stop_video_releases_camera [THEN conjunct1, of _ opened_ws
        "\<lparr>st_id = ''m'', st_tracks = [''v'']\<rparr>"])
    (simp_all add: video_granted_def new_client_def kind_tracks_def cc_emit_def obj_get_Cons)

text \<open>
  When the microphone cannot be initialised, \<open>init\<close> connects to the call even though the
  client was disconnected while it waited; with a microphone it stops there.\<close>
theorem failed_media_connects_closed_client:
  assumes "ended c"
  shows "cc_ws (init_connect p (Inl err) c) \<noteq> None \<and> cc_closed (init_connect p (Inl err) c) \<and>
         cc_ws (init_connect p (Inr (s, a)) c) = None"
  using assms by (simp add: init_connect_def ended_def audio_granted_def)

lemma failed_media_connects_closed_client_witness:
  "cc_ws (init_connect ''p'' (Inl (MediaErr ''e'')) (disconnect None (new_client plain_config 5))) \<noteq> None"
  by (rule failed_media_connects_closed_client [THEN conjunct1])
    (simp add: disconnect_ended new_client_def)

text \<open>
  The selected device is always one of those present and matches the stored choice by id or
  by label; when a present device has the stored id, the selected one has it.\<close>
theorem selected_device_matches:
  assumes "getSelectedAudioDevice d devs = r"
  shows "(\<forall>v. r = Some v \<longrightarrow> v \<in> set devs \<and>
            (dv_deviceId v = sd_deviceId (parse_stored d) \<or> Some (dv_label v) = sd_label (parse_stored d))) \<and>
         (sd_deviceId (parse_stored d) \<noteq> [] \<and>
            list_ex (\<lambda>v. dv_deviceId v = sd_deviceId (parse_stored d)) devs \<longrightarrow>
          map_option dv_deviceId r = Some (sd_deviceId (parse_stored d)))"
proof -
  let ?sel = "parse_stored d"
  let ?P = "\<lambda>v. dv_deviceId v = sd_deviceId ?sel \<or> Some (dv_label v) = sd_label ?sel"
  let ?ds = "filter ?P devs"
  have "v \<in> set devs \<and> ?P v" if "r = Some v" for v
  proof (cases "length ?ds > 1")
    case True
    with that assms have "find (\<lambda>v. dv_deviceId v = sd_deviceId ?sel) ?ds = Some v"
      by (auto simp: getSelectedAudioDevice_def Let_def split: if_splits)
    then obtain k where "k < length ?ds" "v = ?ds ! k" by (auto simp: find_Some_iff)
    then have "v \<in> set ?ds" by (metis nth_mem)
    then show ?thesis by simp
  next
    case False
    with that assms have "?ds \<noteq> []" "v = hd ?ds"
      by (auto simp: getSelectedAudioDevice_def Let_def split: if_splits)
    then have "v \<in> set ?ds" by (cases ?ds) auto
    then show ?thesis by simp
  qed
  moreover have "map_option dv_deviceId r = Some (sd_deviceId ?sel)"
    if "sd_deviceId ?sel \<noteq> []" "list_ex (\<lambda>v. dv_deviceId v = sd_deviceId ?sel) devs"
  proof -
    from that(2) obtain u where u: "u \<in> set ?ds" "dv_deviceId u = sd_deviceId ?sel"
      by (auto simp: list_ex_iff)
    show ?thesis
    proof (cases "length ?ds > 1")
      case True
      have "find (\<lambda>v. dv_deviceId v = sd_deviceId ?sel) ?ds \<noteq> None"
        using u by (simp only: find_None_iff not_not) blast
      then obtain v where v: "find (\<lambda>v. dv_deviceId v = sd_deviceId ?sel) ?ds = Some v" by blast
      then have "dv_deviceId v = sd_deviceId ?sel" by (auto simp only: find_Some_iff)
      moreover have "r = Some v"
        using True that(1) assms v by (simp add: getSelectedAudioDevice_def Let_def)
      ultimately show ?thesis by simp
    next
      case False
      with u(1) have "?ds = [u]" by (cases ?ds) auto
      with that(1) u(2) assms show ?thesis by (auto simp: getSelectedAudioDevice_def Let_def)
    qed
  qed
  ultimately show ?thesis by blast
qed

lemma selected_device_matches_witness:
  "map_option dv_deviceId (getSelectedAudioDevice (JsonDevice \<lparr>sd_deviceId = ''1'', sd_label = Some ''m''\<rparr>)
     [\<lparr>dv_deviceId = ''2'', dv_label = ''m''\<rparr>, \<lparr>dv_deviceId = ''1'', dv_label = ''n''\<rparr>]) = Some ''1''"
proof -
  let ?d = "JsonDevice \<lparr>sd_deviceId = ''1'', sd_label = Some ''m''\<rparr>"
  have p: "sd_deviceId (parse_stored ?d) = ''1''" by (simp add: parse_stored_def)
  show ?thesis
    by (rule selected_device_matches [OF refl, of ?d, unfolded p, THEN conjunct2, THEN mp]) simp
qed

end
