(* ===== verification/HostApp.thy ===== *)
theory HostApp imports RootReducer CallsClient begin

text \<open>
  What the plugin sees of its surroundings: the host application's entities and selectors
  (mattermost-redux, not part of this repository), the calls client held by the window, and the
  state that the plugin's selectors take, which joins these with the plugin's own store.

  Each \<open>mm_\<close> field is the answer of the mattermost-redux selector it is named after.
\<close>

section \<open>Entities of the host application\<close>

record channel =
  chn_id :: string
  chn_name :: string
  chn_type :: string
  chn_team_id :: string
  chn_display_name :: string
  chn_delete_at :: int

record team =
  tm_id :: string
  tm_name :: string

record user_profile =
  up_id :: string
  up_username :: string
  up_first_name :: string
  up_last_name :: string

record license =
  li_Cloud :: string
  li_SkuShortName :: string

record subscription =
  sb_is_free_trial :: string
  sb_trial_end_at :: int

record membership =
  me_scheme_admin :: "bool option"

record mm_state =
  mm_currentUserID :: string
  mm_currentChannelID :: string
  mm_currentTeamID :: string
  mm_currentRelativeTeamUrl :: string
  mm_channels :: "(string, channel) obj"
  mm_teams :: "(string, team) obj"
  mm_redirectChannelName :: "string \<Rightarrow> string"
  mm_profiles :: "(string, user_profile) obj"
  mm_userStatuses :: "(string, string) obj"
  mm_userIdsInChannels :: "(string, string list) obj"
  mm_license :: "license option"
  mm_subscription :: "subscription option"
  mm_isCurrentUserSystemAdmin :: bool
  mm_myChannelRoles :: "(string, string list) obj"
  mm_myTeamRoles :: "(string, string list) obj"
  mm_myChannelMemberships :: "(string, membership) obj"
  mm_displayUsername :: "user_profile option \<Rightarrow> string"
  mm_groupDisplayName :: "string list \<Rightarrow> string"
  mm_userIdFromChannelName :: "string \<Rightarrow> string \<Rightarrow> string"

section \<open>The window\<close>

text \<open>
  The argument of the plugin's selectors, with the calls client that \<open>getCallsClient\<close> finds: some
  selectors read it beside the store.
\<close>

record global_state =
  gs_plugin :: root_state
  gs_mm :: mm_state
  gs_client :: "calls_client option"

section \<open>JavaScript's \<open>||\<close>\<close>

definition str_or :: "string \<Rightarrow> string \<Rightarrow> string" where
  "str_or a b = (if a = [] then b else a)"

definition int_or :: "int option \<Rightarrow> int \<Rightarrow> int" where
  "int_or a b = (case a of None \<Rightarrow> b | Some n \<Rightarrow> if n = 0 then b else n)"

definition str_of :: "string option \<Rightarrow> string" where
  "str_of x = (case x of None \<Rightarrow> [] | Some s \<Rightarrow> s)"

text \<open>Truthiness of a number or string that may be absent.\<close>

definition truthy_int :: "int option \<Rightarrow> bool" where
  "truthy_int x \<longleftrightarrow> x \<noteq> None \<and> x \<noteq> Some 0"

definition truthy_bool :: "bool option \<Rightarrow> bool" where
  "truthy_bool x \<longleftrightarrow> x = Some True"

lemma str_or_simps [simp]: "str_or [] b = b" "a \<noteq> [] \<Longrightarrow> str_or a b = a"
  by (simp_all add: str_or_def)

lemma str_of_simps [simp]: "str_of None = []" "str_of (Some s) = s"
  by (simp_all add: str_of_def)

lemma int_or_simps [simp]:
  "int_or None b = b" "int_or (Some 0) b = b" "n \<noteq> 0 \<Longrightarrow> int_or (Some n) b = n"
  by (simp_all add: int_or_def)

end
