(* ===== verification/JsSort.thy ===== *)
theory JsSort imports Prelude "HOL-Library.Product_Lexorder" "HOL-Library.Multiset" begin

text \<open>
  \<open>Array.prototype.sort\<close> with a comparator: a stable sort in which a negative result puts the
  first argument first. The contract \<open>keyed_comparator\<close> says that a comparator compares a key
  on a linear order; under it the sort is the library's \<open>sort_key\<close>, so it is a sorted
  permutation that keeps the order of elements with equal keys.
\<close>

fun js_insert :: "('a \<Rightarrow> 'a \<Rightarrow> int) \<Rightarrow> 'a \<Rightarrow> 'a list \<Rightarrow> 'a list" where
  "js_insert cmp x [] = [x]"
| "js_insert cmp x (y # ys) =
     (if cmp x y \<le> 0 then x # y # ys else y # js_insert cmp x ys)"

definition js_sort :: "('a \<Rightarrow> 'a \<Rightarrow> int) \<Rightarrow> 'a list \<Rightarrow> 'a list" where
  "js_sort cmp xs = foldr (js_insert cmp) xs []"

lemma mset_js_insert: "mset (js_insert cmp x xs) = add_mset x (mset xs)"
  by (induction xs) auto

lemma set_js_insert: "set (js_insert cmp x xs) = insert x (set xs)"
  by (induction xs) auto

lemma mset_js_sort: "mset (js_sort cmp xs) = mset xs"
  by (induction xs) (simp_all add: js_sort_def mset_js_insert)

text \<open>
  The comparator need only agree with the key on elements that are told \<open>apart\<close>: a comparator
  that looks for one particular element answers inconsistently when it meets it twice.
\<close>

locale keyed_comparator =
  fixes cmp :: "'a \<Rightarrow> 'a \<Rightarrow> int"
    and key :: "'a \<Rightarrow> 'k::linorder"
    and apart :: "'a \<Rightarrow> 'a \<Rightarrow> bool"
  assumes cmp_le: "apart x y \<Longrightarrow> cmp x y \<le> 0 \<longleftrightarrow> key x \<le> key y"
begin

lemma insert_key:
  "list_all (apart x) ys \<Longrightarrow> js_insert cmp x ys = insort_key key x ys"
  by (induction ys) (auto simp: cmp_le)

lemma sort_key_eq:
  "sorted_wrt apart xs \<Longrightarrow> js_sort cmp xs = sort_key key xs"
proof (induction xs)
  case Nil
  then show ?case by (simp add: js_sort_def)
next
  case (Cons x xs)
  then have "js_sort cmp xs = sort_key key xs" by simp
  with Cons.prems show ?case
    by (simp add: js_sort_def insert_key list_all_iff)
qed

lemma sorted_stable:
  assumes "sorted_wrt apart xs"
  shows "sorted (map key (js_sort cmp xs))"
    and "filter (\<lambda>y. key y = k) (js_sort cmp xs) = filter (\<lambda>y. key y = k) xs"
  using assms by (simp_all add: sort_key_eq sort_key_stable)

end

end
