(* ===== verification/Selectors.thy ===== *)
theory Selectors imports HostApp JsSort begin

text \<open>
  The selectors of \<open>webapp/src/selectors.ts\<close>, with the functions of \<open>webapp/src/utils.ts\<close> that
  they use. \<open>createSelector\<close> only caches: a memoised selector is its result function applied to
  its inputs. Selectors whose name is that of a reducer have the suffix \<open>_sel\<close>.
\<close>

section \<open>The client and the current call\<close>

definition getCallsClientChannelID :: "global_state \<Rightarrow> string" where
  "getCallsClientChannelID gs = str_of (map_option cc_channelID (gs_client gs))"

definition getCallsClientSessionID :: "global_state \<Rightarrow> string" where
  "getCallsClientSessionID gs = str_of (Option.bind (gs_client gs) getSessionID)"

definition getCallsClientInitTime :: "global_state \<Rightarrow> int" where
  "getCallsClientInitTime gs = (case gs_client gs of None \<Rightarrow> 0 | Some c \<Rightarrow> cc_initTime c)"

definition clientState :: "global_state \<Rightarrow> client_state option" where
  "clientState gs = rs_clientState (gs_plugin gs)"

definition channelIDForCurrentCall :: "global_state \<Rightarrow> string" where
  "channelIDForCurrentCall gs =
     str_or (getCallsClientChannelID gs) (str_of (map_option cl_channelID (clientState gs)))"

definition channelForCurrentCall :: "global_state \<Rightarrow> channel option" where
  "channelForCurrentCall gs = obj_get (mm_channels (gs_mm gs)) (channelIDForCurrentCall gs)"

definition calls_sel :: "global_state \<Rightarrow> calls_state" where
  "calls_sel gs = rs_calls (gs_plugin gs)"

definition idForCurrentCall :: "global_state \<Rightarrow> string option" where
  "idForCurrentCall gs = map_option ci_ID (obj_get (calls_sel gs) (channelIDForCurrentCall gs))"

definition threadIDForCurrentCall :: "global_state \<Rightarrow> string option" where
  "threadIDForCurrentCall gs =
     map_option ci_threadID (obj_get (calls_sel gs) (channelIDForCurrentCall gs))"

definition teamForCurrentCall :: "global_state \<Rightarrow> team option" where
  "teamForCurrentCall gs =
     obj_get (mm_teams (gs_mm gs))
       (str_or (str_of (map_option chn_team_id (channelForCurrentCall gs))) (mm_currentTeamID (gs_mm gs)))"

section \<open>Sessions and profiles\<close>

definition sessionsInCalls :: "global_state \<Rightarrow> sessions_state" where
  "sessionsInCalls gs = rs_sessions (gs_plugin gs)"

definition userProfiles :: "global_state \<Rightarrow> (string, user_profile) obj" where
  "userProfiles gs = mm_profiles (gs_mm gs)"

definition add_profile ::
  "(string, user_profile) obj \<Rightarrow> user_session \<Rightarrow> (string, user_profile) obj \<Rightarrow> (string, user_profile) obj" where
  "add_profile profiles session acc =
     (case us_user_id session of
        None \<Rightarrow> acc
      | Some uid \<Rightarrow> (case obj_get profiles uid of None \<Rightarrow> acc | Some p \<Rightarrow> obj_set uid p acc))"

definition getProfilesMapFromSessions ::
  "(string, user_session) obj option \<Rightarrow> (string, user_profile) obj \<Rightarrow> (string, user_profile) obj" where
  "getProfilesMapFromSessions ss profiles =
     fold (add_profile profiles) (obj_values (obj_or_empty ss)) []"

definition profilesInCallInChannel :: "global_state \<Rightarrow> string \<Rightarrow> user_profile list" where
  "profilesInCallInChannel gs ch =
     obj_values (getProfilesMapFromSessions (obj_get (sessionsInCalls gs) ch) (userProfiles gs))"

definition profilesInCurrentCallMap :: "global_state \<Rightarrow> (string, user_profile) obj" where
  "profilesInCurrentCallMap gs =
     getProfilesMapFromSessions (obj_get (sessionsInCalls gs) (channelIDForCurrentCall gs))
       (userProfiles gs)"

definition profilesInCurrentCall :: "global_state \<Rightarrow> user_profile list" where
  "profilesInCurrentCall gs = obj_values (profilesInCurrentCallMap gs)"

definition profilesInCallInCurrentChannel :: "global_state \<Rightarrow> user_profile list" where
  "profilesInCallInCurrentChannel gs = profilesInCallInChannel gs (mm_currentChannelID (gs_mm gs))"

definition numProfilesInCallInChannel :: "global_state \<Rightarrow> string \<Rightarrow> nat" where
  "numProfilesInCallInChannel gs ch = length (profilesInCallInChannel gs ch)"

definition numSessionsInCallInChannel :: "global_state \<Rightarrow> string \<Rightarrow> nat" where
  "numSessionsInCallInChannel gs ch =
     length (obj_keys (obj_or_empty (obj_get (sessionsInCalls gs) ch)))"

definition channelHasCall :: "global_state \<Rightarrow> string \<Rightarrow> bool" where
  "channelHasCall gs ch \<longleftrightarrow> obj_get (calls_sel gs) ch \<noteq> None"

definition currentChannelHasCall :: "global_state \<Rightarrow> bool" where
  "currentChannelHasCall gs = channelHasCall gs (mm_currentChannelID (gs_mm gs))"

definition sessionsInCurrentCall :: "global_state \<Rightarrow> user_session list" where
  "sessionsInCurrentCall gs =
     obj_values (obj_or_empty (obj_get (sessionsInCalls gs) (channelIDForCurrentCall gs)))"

definition sessionsForOtherUsersInCall :: "global_state \<Rightarrow> user_session list" where
  "sessionsForOtherUsersInCall gs =
     filter (\<lambda>s. us_user_id s \<noteq> Some (mm_currentUserID (gs_mm gs))) (sessionsInCurrentCall gs)"

definition sessionsInCurrentCallMap :: "global_state \<Rightarrow> (string, user_session) obj option" where
  "sessionsInCurrentCallMap gs = obj_get (sessionsInCalls gs) (channelIDForCurrentCall gs)"

definition sessionForCurrentCall :: "global_state \<Rightarrow> user_session option" where
  "sessionForCurrentCall gs =
     session_at (sessionsInCalls gs) (channelIDForCurrentCall gs) (getCallsClientSessionID gs)"

section \<open>Streams, times, hosts\<close>

definition reactionsInCurrentCall :: "global_state \<Rightarrow> reaction list" where
  "reactionsInCurrentCall gs =
     (case obj_get (rs_reactions (gs_plugin gs)) (channelIDForCurrentCall gs) of
        None \<Rightarrow> [] | Some rs \<Rightarrow> rs)"

definition liveCaptionsInCurrentCall :: "global_state \<Rightarrow> (string, live_caption) obj" where
  "liveCaptionsInCurrentCall gs =
     obj_or_empty (obj_get (rs_liveCaptions (gs_plugin gs)) (channelIDForCurrentCall gs))"

definition callStartAtForCallInChannel :: "global_state \<Rightarrow> string \<Rightarrow> int" where
  "callStartAtForCallInChannel gs ch = int_or (map_option ci_startAt (obj_get (calls_sel gs) ch)) 0"

definition callStartAtForCurrentCall :: "global_state \<Rightarrow> int" where
  "callStartAtForCurrentCall gs =
     int_or (map_option ci_startAt (obj_get (calls_sel gs) (channelIDForCurrentCall gs)))
       (getCallsClientInitTime gs)"

definition callInCurrentChannel :: "global_state \<Rightarrow> call_info option" where
  "callInCurrentChannel gs = obj_get (calls_sel gs) (mm_currentChannelID (gs_mm gs))"

definition idForCallInChannel :: "global_state \<Rightarrow> string \<Rightarrow> string option" where
  "idForCallInChannel gs ch = map_option ci_ID (obj_get (calls_sel gs) ch)"

definition callOwnerIDForCallInChannel :: "global_state \<Rightarrow> string \<Rightarrow> string option" where
  "callOwnerIDForCallInChannel gs ch = map_option ci_ownerID (obj_get (calls_sel gs) ch)"

definition hostIDForCallInChannel :: "global_state \<Rightarrow> string \<Rightarrow> string option" where
  "hostIDForCallInChannel gs ch = map_option he_hostID (obj_get (rs_hosts (gs_plugin gs)) ch)"

definition hostIDForCurrentCall :: "global_state \<Rightarrow> string" where
  "hostIDForCurrentCall gs = str_of (hostIDForCallInChannel gs (channelIDForCurrentCall gs))"

definition hostChangeAtForCurrentCall :: "global_state \<Rightarrow> int" where
  "hostChangeAtForCurrentCall gs =
     int_or (Option.bind (obj_get (rs_hosts (gs_plugin gs)) (channelIDForCurrentCall gs))
               he_hostChangeAt) 0"

definition callDismissedNotification :: "global_state \<Rightarrow> string \<Rightarrow> bool" where
  "callDismissedNotification gs channelID = marked (rs_dismissedCalls (gs_plugin gs)) channelID"

definition screenSharingSessionForCurrentCall :: "global_state \<Rightarrow> user_session option" where
  "screenSharingSessionForCurrentCall gs =
     Option.bind (obj_get (rs_screenSharingIDs (gs_plugin gs)) (channelIDForCurrentCall gs))
       (session_at (sessionsInCalls gs) (channelIDForCurrentCall gs))"

definition threadIDForCallInChannel :: "global_state \<Rightarrow> string \<Rightarrow> string" where
  "threadIDForCallInChannel gs ch = str_of (map_option ci_threadID (obj_get (calls_sel gs) ch))"

section \<open>Jobs and notices\<close>

definition recordingForCurrentCall :: "global_state \<Rightarrow> job_state" where
  "recordingForCurrentCall gs =
     spread_job (obj_get (rs_recordings (gs_plugin gs)) (channelIDForCurrentCall gs)) None"

definition hostControlNoticesForCurrentCall :: "global_state \<Rightarrow> host_notice list" where
  "hostControlNoticesForCurrentCall gs =
     (case idForCurrentCall gs of
        None \<Rightarrow> []
      | Some i \<Rightarrow>
          if i = [] then []
          else (case obj_get (rs_hostControlNotices (gs_plugin gs)) i of None \<Rightarrow> [] | Some ns \<Rightarrow> ns))"

definition liveCaptionsStateForCurrentCall :: "global_state \<Rightarrow> job_state" where
  "liveCaptionsStateForCurrentCall gs =
     spread_job (obj_get (rs_callLiveCaptionsState (gs_plugin gs)) (channelIDForCurrentCall gs)) None"

text \<open>\<open>>\<close> on numbers that may be absent: with \<open>undefined\<close> it is false.\<close>

definition num_gt :: "int option \<Rightarrow> int option \<Rightarrow> bool" where
  "num_gt a b = (case (a, b) of (Some x, Some y) \<Rightarrow> x > y | _ \<Rightarrow> False)"

definition areLiveCaptionsAvailableInCurrentCall :: "global_state \<Rightarrow> bool" where
  "areLiveCaptionsAvailableInCurrentCall gs =
     (let j = liveCaptionsStateForCurrentCall gs
      in if \<not> truthy_int (jb_start_at j) then False else num_gt (jb_start_at j) (jb_end_at j))"

definition recentlyJoinedUsersInCurrentCall :: "global_state \<Rightarrow> string list" where
  "recentlyJoinedUsersInCurrentCall gs =
     (case recent_list (rs_recentlyJoinedUsers (gs_plugin gs)) (channelIDForCurrentCall gs) of
        None \<Rightarrow> [] | Some l \<Rightarrow> l)"

definition isRecordingInCurrentCall :: "global_state \<Rightarrow> bool" where
  "isRecordingInCurrentCall gs =
     (case obj_get (rs_recordings (gs_plugin gs)) (channelIDForCurrentCall gs) of
        None \<Rightarrow> False | Some j \<Rightarrow> num_gt (jb_init_at j) (jb_end_at j))"

section \<open>Incoming calls\<close>

definition incomingCalls_sel :: "global_state \<Rightarrow> incoming_call list" where
  "incomingCalls_sel gs = rs_incomingCalls (gs_plugin gs)"

definition sortedIncomingCalls :: "global_state \<Rightarrow> incoming_call list" where
  "sortedIncomingCalls gs = js_sort (\<lambda>a b. ic_startAt b - ic_startAt a) (incomingCalls_sel gs)"

definition dismissedCallForCurrentChannel :: "global_state \<Rightarrow> bool" where
  "dismissedCallForCurrentChannel gs =
     marked (rs_dismissedCalls (gs_plugin gs)) (str_of (map_option ci_ID (callInCurrentChannel gs)))"

definition ringingForCall :: "global_state \<Rightarrow> string \<Rightarrow> bool" where
  "ringingForCall gs callID = marked (rs_ringingForCalls (gs_plugin gs)) callID"

definition currentlyRinging :: "global_state \<Rightarrow> bool" where
  "currentlyRinging gs = list_ex (\<lambda>v. v) (obj_values (rs_ringingForCalls (gs_plugin gs)))"

definition didRingForCall :: "global_state \<Rightarrow> string \<Rightarrow> bool" where
  "didRingForCall gs callID = marked (rs_didRingForCalls (gs_plugin gs)) callID"

definition didNotifyForCall :: "global_state \<Rightarrow> string \<Rightarrow> bool" where
  "didNotifyForCall gs callID = marked (rs_didNotifyForCalls (gs_plugin gs)) callID"

section \<open>Configuration\<close>

definition callsConfig_sel :: "global_state \<Rightarrow> calls_config" where
  "callsConfig_sel gs = rs_callsConfig (gs_plugin gs)"

definition iceServers :: "global_state \<Rightarrow> string list" where
  "iceServers gs = ICEServersConfigs (callsConfig_sel gs)"

definition defaultEnabled :: "global_state \<Rightarrow> bool" where
  "defaultEnabled gs = DefaultEnabled (callsConfig_sel gs)"

definition maxParticipants :: "global_state \<Rightarrow> int" where
  "maxParticipants gs = MaxCallParticipants (callsConfig_sel gs)"

definition needsTURNCredentials :: "global_state \<Rightarrow> bool" where
  "needsTURNCredentials gs = NeedsTURNCredentials (callsConfig_sel gs)"

definition isLimitRestricted :: "global_state \<Rightarrow> bool" where
  "isLimitRestricted gs =
     (maxParticipants gs > 0 \<and> int (length (profilesInCallInCurrentChannel gs)) \<ge> maxParticipants gs)"

definition allowScreenSharing :: "global_state \<Rightarrow> bool" where
  "allowScreenSharing gs = AllowScreenSharing (callsConfig_sel gs)"

definition recordingsEnabled :: "global_state \<Rightarrow> bool" where
  "recordingsEnabled gs = EnableRecordings (callsConfig_sel gs)"

definition transcriptionsEnabled :: "global_state \<Rightarrow> bool" where
  "transcriptionsEnabled gs = EnableTranscriptions (callsConfig_sel gs)"

definition liveCaptionsEnabled :: "global_state \<Rightarrow> bool" where
  "liveCaptionsEnabled gs = EnableLiveCaptions (callsConfig_sel gs)"

definition recordingMaxDuration :: "global_state \<Rightarrow> int" where
  "recordingMaxDuration gs = MaxRecordingDuration (callsConfig_sel gs)"

definition ringingEnabled :: "global_state \<Rightarrow> bool" where
  "ringingEnabled gs = EnableRinging (callsConfig_sel gs)"

definition transcribeAPI :: "global_state \<Rightarrow> string" where
  "transcribeAPI gs = TranscribeAPI (callsConfig_sel gs)"

section \<open>Calls enabled or disabled\<close>

definition channelState :: "global_state \<Rightarrow> string \<Rightarrow> channel_state option" where
  "channelState gs ch = obj_get (rs_channels (gs_plugin gs)) ch"

definition channelEnabled :: "global_state \<Rightarrow> string \<Rightarrow> bool option" where
  "channelEnabled gs ch = Option.bind (channelState gs ch) ch_enabled"

definition callsExplicitlyEnabled :: "global_state \<Rightarrow> string \<Rightarrow> bool" where
  "callsExplicitlyEnabled gs ch = truthy_bool (channelEnabled gs ch)"

definition callsExplicitlyDisabled :: "global_state \<Rightarrow> string \<Rightarrow> bool" where
  "callsExplicitlyDisabled gs ch = (channelEnabled gs ch \<noteq> None \<and> \<not> truthy_bool (channelEnabled gs ch))"

definition callsEnabledInCurrentChannel :: "global_state \<Rightarrow> bool" where
  "callsEnabledInCurrentChannel gs =
     (let ch = mm_currentChannelID (gs_mm gs)
      in if callsExplicitlyDisabled gs ch then False
         else callsExplicitlyEnabled gs ch \<or> defaultEnabled gs \<or> mm_isCurrentUserSystemAdmin (gs_mm gs))"

definition callsShowButton :: "global_state \<Rightarrow> string option \<Rightarrow> bool" where
  "callsShowButton gs ch = (\<not> callsExplicitlyDisabled gs (str_of ch))"

definition isDirectChannel :: "channel \<Rightarrow> bool" where
  "isDirectChannel c \<longleftrightarrow> chn_type c = ''D''"

definition isGroupChannel :: "channel \<Rightarrow> bool" where
  "isGroupChannel c \<longleftrightarrow> chn_type c = ''G''"

text \<open>A channel whose team has no roles for the user makes the last test throw.\<close>

definition hasPermissionsToEnableCalls :: "global_state \<Rightarrow> string \<Rightarrow> error + bool" where
  "hasPermissionsToEnableCalls gs channelId =
     (let mm = gs_mm gs
      in if mm_isCurrentUserSystemAdmin mm then Inr True
         else if \<not> defaultEnabled gs then Inr False
         else (case obj_get (mm_channels mm) channelId of
                 None \<Rightarrow> Inr False
               | Some c \<Rightarrow>
                   if isDirectChannel c \<or> isGroupChannel c then Inr True
                   else if Option.bind (obj_get (mm_myChannelMemberships mm) channelId) me_scheme_admin
                             = Some True then Inr True
                   else if (case obj_get (mm_myChannelRoles mm) (chn_id c) of
                              None \<Rightarrow> False | Some rs \<Rightarrow> ''channel_admin'' \<in> set rs) then Inr True
                   else (case obj_get (mm_myTeamRoles mm) (chn_team_id c) of
                           None \<Rightarrow> Inl (TypeError ''has'')
                         | Some rs \<Rightarrow> Inr (''team_admin'' \<in> set rs))))"

section \<open>Licenses\<close>

datatype LicenseSkus = Starter | Professional | Enterprise | EnterpriseAdvanced

fun sku_name :: "LicenseSkus \<Rightarrow> string" where
  "sku_name Starter = ''starter''"
| "sku_name Professional = ''professional''"
| "sku_name Enterprise = ''enterprise''"
| "sku_name EnterpriseAdvanced = ''advanced''"

definition cloudSku :: "global_state \<Rightarrow> string" where
  "cloudSku gs = sku_short_name (callsConfig_sel gs)"

definition isCloud :: "global_state \<Rightarrow> bool" where
  "isCloud gs = (map_option li_Cloud (mm_license (gs_mm gs)) = Some ''true'')"

definition isCloudSku :: "LicenseSkus \<Rightarrow> global_state \<Rightarrow> bool" where
  "isCloudSku sku gs = (isCloud gs \<and> cloudSku gs = sku_name sku)"

definition isCloudTrial :: "global_state \<Rightarrow> bool" where
  "isCloudTrial gs = (map_option sb_is_free_trial (mm_subscription (gs_mm gs)) = Some ''true'')"

definition isCloudPaidOrTrial :: "global_state \<Rightarrow> bool" where
  "isCloudPaidOrTrial gs =
     (isCloudSku Professional gs \<or> isCloudSku Enterprise gs \<or> isCloudSku EnterpriseAdvanced gs \<or>
      isCloudTrial gs)"

definition isCloudTrialCompleted :: "global_state \<Rightarrow> bool" where
  "isCloudTrialCompleted gs =
     (case mm_subscription (gs_mm gs) of
        None \<Rightarrow> False | Some s \<Rightarrow> sb_is_free_trial s = ''false'' \<and> sb_trial_end_at s > 0)"

definition isCloudTrialNeverStarted :: "global_state \<Rightarrow> bool" where
  "isCloudTrialNeverStarted gs = (map_option sb_trial_end_at (mm_subscription (gs_mm gs)) = Some 0)"

definition shouldPlayJoinUserSound :: "global_state \<Rightarrow> bool" where
  "shouldPlayJoinUserSound gs =
     (int (length (profilesInCurrentCall gs))
        < joinSoundParticipantsThreshold (rs_callsUserPreferences (gs_plugin gs)))"

definition isOnPremNotEnterprise :: "global_state \<Rightarrow> error + bool" where
  "isOnPremNotEnterprise gs =
     (case mm_license (gs_mm gs) of
        None \<Rightarrow> Inl (TypeError ''SkuShortName'')
      | Some l \<Rightarrow>
          (let enterprise = (li_SkuShortName l = sku_name Enterprise \<or>
                             li_SkuShortName l = sku_name EnterpriseAdvanced)
           in Inr (\<not> isCloud gs \<and> \<not> enterprise)))"

definition isAtLeastProfessional :: "global_state \<Rightarrow> bool" where
  "isAtLeastProfessional gs =
     (let sku = sku_short_name (callsConfig_sel gs)
      in sku = sku_name EnterpriseAdvanced \<or> sku = sku_name Enterprise \<or>
         sku = sku_name Professional \<or> isCloudPaidOrTrial gs)"

definition areHostControlsAllowed :: "global_state \<Rightarrow> bool" where
  "areHostControlsAllowed gs = HostControlsAllowed (callsConfig_sel gs)"

definition areGroupCallsAllowed :: "global_state \<Rightarrow> bool" where
  "areGroupCallsAllowed gs = GroupCallsAllowed (callsConfig_sel gs)"

section \<open>Channel addresses\<close>

definition getTeamRelativeURL :: "team option \<Rightarrow> string" where
  "getTeamRelativeURL t = (case t of None \<Rightarrow> [] | Some x \<Rightarrow> ''/'' @ tm_name x)"

text \<open>\<open>getChannelURL\<close> for a channel and a team id, either of which may be missing.\<close>

definition getChannelURL :: "mm_state \<Rightarrow> channel option \<Rightarrow> string option \<Rightarrow> string" where
  "getChannelURL mm chan teamId =
     (let tid = str_of teamId;
          url = (case chan of
                   Some c \<Rightarrow>
                     if chn_type c = ''D'' \<or> chn_type c = ''G''
                     then mm_currentRelativeTeamUrl mm @ ''/channels/'' @ chn_name c
                     else if tid \<noteq> []
                     then getTeamRelativeURL (obj_get (mm_teams mm) tid) @ ''/channels/'' @ chn_name c
                     else mm_currentRelativeTeamUrl mm @ ''/channels/'' @
                            mm_redirectChannelName mm (mm_currentTeamID mm)
                 | None \<Rightarrow>
                     if tid \<noteq> []
                     then getTeamRelativeURL (obj_get (mm_teams mm) tid) @ ''/channels/'' @
                            mm_redirectChannelName mm tid
                     else mm_currentRelativeTeamUrl mm @ ''/channels/'' @
                            mm_redirectChannelName mm (mm_currentTeamID mm))
      in if take 2 url = ''//'' then drop 1 url else url)"

definition getChannelUrlAndDisplayName :: "global_state \<Rightarrow> channel option \<Rightarrow> string \<times> string option" where
  "getChannelUrlAndDisplayName gs chan =
     (let mm = gs_mm gs
      in case chan of
           None \<Rightarrow> ([], Some [])
         | Some c \<Rightarrow>
             (getChannelURL mm (Some c) (Some (chn_team_id c)),
              if isDirectChannel c
              then Some (mm_displayUsername mm (obj_get (mm_profiles mm)
                           (mm_userIdFromChannelName mm (mm_currentUserID mm) (chn_name c))))
              else if isGroupChannel c
              then map_option (mm_groupDisplayName mm) (obj_get (mm_userIdsInChannels mm) (chn_id c))
              else Some (chn_display_name c)))"

definition getStatusForCurrentUser :: "global_state \<Rightarrow> string option" where
  "getStatusForCurrentUser gs = obj_get (mm_userStatuses (gs_mm gs)) (mm_currentUserID (gs_mm gs))"

section \<open>Counting participants\<close>

text \<open>The users of a channel's sessions whose profile is known.\<close>

definition known_users :: "global_state \<Rightarrow> string \<Rightarrow> string set" where
  "known_users gs ch =
     {u. obj_get (userProfiles gs) u \<noteq> None \<and>
         (\<exists>s \<in> set (obj_values (obj_or_empty (obj_get (sessionsInCalls gs) ch))). us_user_id s = Some u)}"

lemma add_profile_keys:
  "set (obj_keys (add_profile P s acc)) =
     set (obj_keys acc) \<union> {u. us_user_id s = Some u \<and> obj_get P u \<noteq> None}"
  by (auto simp: add_profile_def set_keys_set split: option.splits)

lemma fold_profile_keys:
  "set (obj_keys (fold (add_profile P) ss acc)) =
     set (obj_keys acc) \<union> {u. obj_get P u \<noteq> None \<and> (\<exists>s \<in> set ss. us_user_id s = Some u)}"
  by (induction ss arbitrary: acc) (auto simp: add_profile_keys)

lemma fold_profile_wf: "wf_obj acc \<Longrightarrow> wf_obj (fold (add_profile P) ss acc)"
  by (rule fold_inv) (auto simp: add_profile_def split: option.splits)

lemma length_wf_obj: "wf_obj m \<Longrightarrow> length m = card (set (obj_keys m))"
  by (metis distinct_card length_obj_keys obj_keys_def wf_obj_def)

lemma fold_profile_length:
  "length (fold (add_profile P) ss acc) \<le> length acc + length ss"
proof (induction ss arbitrary: acc)
  case Nil
  then show ?case by simp
next
  case (Cons s ss)
  have "length (add_profile P s acc) \<le> Suc (length acc)"
    by (auto simp: add_profile_def length_obj_set split: option.splits)
  with Cons [of "add_profile P s acc"] show ?case by simp
qed

interpretation by_start: keyed_comparator "\<lambda>a b. ic_startAt b - ic_startAt a"
    "\<lambda>c. - ic_startAt c" "\<lambda>_ _. True"
  by unfold_locales simp

section \<open>Properties\<close>

text \<open>
  The number of profiles shown for a channel is the number of distinct users with a known
  profile among its sessions; it never exceeds the number of sessions.\<close>
theorem num_profiles_counts_users:
  "numProfilesInCallInChannel gs ch = card (known_users gs ch) \<and>
   numProfilesInCallInChannel gs ch \<le> numSessionsInCallInChannel gs ch"
proof -
  let ?vs = "obj_values (obj_or_empty (obj_get (sessionsInCalls gs) ch))"
  let ?m = "fold (add_profile (userProfiles gs)) ?vs []"
  have n: "numProfilesInCallInChannel gs ch = length ?m"
    by (simp add: numProfilesInCallInChannel_def profilesInCallInChannel_def
        getProfilesMapFromSessions_def)
  have "length ?m = card (set (obj_keys ?m))"
    by (rule length_wf_obj) (simp add: fold_profile_wf)
  also have "set (obj_keys ?m) = known_users gs ch"
    by (simp add: fold_profile_keys known_users_def)
  finally have "length ?m = card (known_users gs ch)" .
  moreover have "length ?m \<le> numSessionsInCallInChannel gs ch"
    using fold_profile_length [of "userProfiles gs" ?vs "[]"]
    by (simp add: numSessionsInCallInChannel_def)
  ultimately show ?thesis using n by simp
qed

text \<open>
  Calls are enabled in the current channel unless its setting is off, when its setting is on,
  or when they are on by default, or for a system admin; an admin does not override a channel that
  is off.\<close>
theorem calls_enabled_table:
  "callsEnabledInCurrentChannel gs =
     (case channelEnabled gs (mm_currentChannelID (gs_mm gs)) of
        Some b \<Rightarrow> b
      | None \<Rightarrow> defaultEnabled gs \<or> mm_isCurrentUserSystemAdmin (gs_mm gs))"
  by (auto simp: callsEnabledInCurrentChannel_def callsExplicitlyDisabled_def
      callsExplicitlyEnabled_def truthy_bool_def Let_def split: option.splits)

text \<open>
  Incoming calls are shown latest first; calls with the same start keep the order in which
  they arrived, and none is lost or repeated.\<close>
theorem sorted_incoming_calls:
  "sorted (map (\<lambda>c. - ic_startAt c) (sortedIncomingCalls gs)) \<and>
   mset (sortedIncomingCalls gs) = mset (incomingCalls_sel gs) \<and>
   filter (\<lambda>c. - ic_startAt c = k) (sortedIncomingCalls gs) =
     filter (\<lambda>c. - ic_startAt c = k) (incomingCalls_sel gs)"
proof -
  have a: "sorted_wrt (\<lambda>_ _. True) xs" for xs :: "incoming_call list"
    by (induction xs) simp_all
  show ?thesis
    unfolding sortedIncomingCalls_def
    using by_start.sorted_stable [OF a] mset_js_sort by blast
qed

end
