(* ===== verification/Utils.thy ===== *)
theory Utils imports Selectors begin

text \<open>
  The helpers of \<open>webapp/src/utils.ts\<close>: windows and pop-outs, names and the order of
  participants, channel kinds, profiles and sessions, direct message names, lists, retries, and
  the reading of call posts. What the page offers (user agent, path, storage, the opener) is a
  record; functions of other packages are parameters.
\<close>

section \<open>Strings\<close>

text \<open>\<open>indexOf\<close>, \<open>None\<close> for \<open>-1\<close>, and \<open>toLowerCase\<close> on ASCII.\<close>

fun indexOf :: "string \<Rightarrow> string \<Rightarrow> nat option" where
  "indexOf p [] = (if p = [] then Some 0 else None)"
| "indexOf p (c # s) =
     (if take (length p) (c # s) = p then Some 0 else map_option Suc (indexOf p s))"

definition str_includes :: "string \<Rightarrow> string \<Rightarrow> bool" where
  "str_includes s p \<longleftrightarrow> indexOf p s \<noteq> None"

definition startsWith :: "string \<Rightarrow> string \<Rightarrow> bool" where
  "startsWith s p \<longleftrightarrow> take (length p) s = p"

definition char_shift :: "nat \<Rightarrow> nat \<Rightarrow> (nat \<Rightarrow> nat) \<Rightarrow> char \<Rightarrow> char" where
  "char_shift lo hi f c =
     (let n = of_char c :: nat in if lo \<le> n \<and> n \<le> hi then char_of (f n) else c)"

definition toLowerCase :: "string \<Rightarrow> string" where
  "toLowerCase s = map (char_shift 65 90 (\<lambda>n. n + 32)) s"

definition capitalize :: "string \<Rightarrow> string" where
  "capitalize s = map (char_shift 97 122 (\<lambda>n. n - 32)) (take 1 s) @ drop 1 s"

section \<open>Windows\<close>

record window_obj =
  wo_callsClient :: "calls_client option"
  wo_desktop :: "string option" \<comment> \<open>the desktop app's version\<close>

text \<open>
  \<open>window.opener\<close>: none, one whose properties throw when read (another origin), or a window.
\<close>

datatype opener = NoOpener | OpenerThrows | Opener window_obj

record page =
  pg_window :: window_obj
  pg_opener :: opener
  pg_pathname :: string
  pg_userAgent :: string
  pg_platform :: "string option"
  pg_localStorage :: "(string, string) obj"

definition getCallsWindow :: "page \<Rightarrow> window_obj" where
  "getCallsWindow p = (case pg_opener p of
       Opener o' \<Rightarrow> if wo_callsClient o' \<noteq> None then o' else pg_window p
     | _ \<Rightarrow> pg_window p)"

definition getCallsClient :: "page \<Rightarrow> calls_client option" where
  "getCallsClient p = wo_callsClient (getCallsWindow p)"

definition isCallsPopOut :: "page \<Rightarrow> bool" where
  "isCallsPopOut p = (case pg_opener p of
       Opener o' \<Rightarrow> wo_callsClient o' \<noteq> None
     | _ \<Rightarrow> False)"

definition shouldRenderCallsIncoming :: "string \<Rightarrow> page \<Rightarrow> bool" where
  "shouldRenderCallsIncoming pluginId p =
     (let win = getCallsWindow p;
          nonChannels = startsWith (pg_pathname p) ''/boards'' \<or>
                        startsWith (pg_pathname p) ''/playbooks'' \<or>
                        str_includes (pg_pathname p) (pluginId @ ''/expanded/'')
      in \<not> (wo_desktop win \<noteq> None \<and> nonChannels))"

definition getExpandedChannelID :: "string \<Rightarrow> page \<Rightarrow> string" where
  "getExpandedChannelID pluginId p =
     (let pattern = pluginId @ ''/expanded/''
      in case indexOf pattern (pg_pathname p) of
           None \<Rightarrow> []
         | Some i \<Rightarrow> drop (i + length pattern) (pg_pathname p))"

text \<open>\<open>desktopGTE\<close> with the version parser of the semver package as a parameter.\<close>

definition desktopGTE :: "(string \<Rightarrow> int \<times> int) \<Rightarrow> page \<Rightarrow> int \<Rightarrow> int \<Rightarrow> bool" where
  "desktopGTE parseSemVer p major minor =
     (case wo_desktop (getCallsWindow p) of
        None \<Rightarrow> False
      | Some v \<Rightarrow>
          (case parseSemVer v of (vmaj, vmin) \<Rightarrow>
             if vmaj < major then False else vmaj > major \<or> vmin \<ge> minor))"

definition shouldRenderDesktopWidget :: "(string \<Rightarrow> int \<times> int) \<Rightarrow> page \<Rightarrow> bool" where
  "shouldRenderDesktopWidget parseSemVer p = desktopGTE parseSemVer p 5 3"

definition isDesktopApp :: "page \<Rightarrow> bool" where
  "isDesktopApp p = (str_includes (pg_userAgent p) ''Mattermost'' \<and> str_includes (pg_userAgent p) ''Electron'')"

definition shareAudioWithScreen :: "string \<Rightarrow> page \<Rightarrow> bool" where
  "shareAudioWithScreen key p = (obj_get (pg_localStorage p) key \<noteq> Some ''off'')"

definition getPlatformInfo :: "page \<Rightarrow> string" where
  "getPlatformInfo p =
     (let ua = toLowerCase (pg_userAgent p);
          fromPlatform = (case pg_platform p of
              None \<Rightarrow> ''Unknown''
            | Some pf \<Rightarrow>
                if str_includes (toLowerCase pf) ''win'' then ''Windows''
                else if str_includes (toLowerCase pf) ''mac'' then ''MacOS''
                else if str_includes (toLowerCase pf) ''linux'' then ''Linux''
                else ''Unknown'')
      in if fromPlatform = ''Unknown''
         then (if str_includes ua ''windows'' then ''Windows''
               else if str_includes ua ''mac os x'' then ''MacOS''
               else if str_includes ua ''linux'' then ''Linux''
               else ''Unknown'')
         else fromPlatform)"

section \<open>Names and the order of participants\<close>

definition getUserDisplayName :: "user_profile option \<Rightarrow> bool \<Rightarrow> string" where
  "getUserDisplayName user shortForm =
     (case user of
        None \<Rightarrow> []
      | Some u \<Rightarrow>
          if up_first_name u \<noteq> [] \<and> up_last_name u \<noteq> []
          then (if shortForm then up_first_name u @ '' '' @ take 1 (up_last_name u) @ ''.''
                else up_first_name u @ '' '' @ up_last_name u)
          else up_username u)"

text \<open>The comparator by name; \<open>localeCompare\<close> is the platform's.\<close>

definition alphaSortSessions ::
  "(string \<Rightarrow> string \<Rightarrow> int) \<Rightarrow> (string, user_profile) obj \<Rightarrow> user_session \<Rightarrow> user_session \<Rightarrow> int" where
  "alphaSortSessions localeCompare profiles elA elB =
     (let name = (\<lambda>s. getUserDisplayName (Option.bind (us_user_id s) (obj_get profiles)) False)
      in localeCompare (name elA) (name elB))"

definition raised :: "user_session \<Rightarrow> bool" where
  "raised s = truthy_int (us_raised_hand s)"

definition hand_at :: "user_session \<Rightarrow> int" where
  "hand_at s = int_or (us_raised_hand s) 0"

definition speaking :: "user_session \<Rightarrow> bool" where
  "speaking s = truthy_bool (us_unmuted s)"

definition stateSortSessions :: "string \<Rightarrow> bool \<Rightarrow> user_session \<Rightarrow> user_session \<Rightarrow> int" where
  "stateSortSessions presenterID considerReaction stateA stateB =
     (if us_session_id stateA = Some presenterID then -1
      else if us_session_id stateB = Some presenterID then 1
      else if raised stateA \<and> \<not> raised stateB then -1
      else if raised stateB \<and> \<not> raised stateA then 1
      else if raised stateA \<and> raised stateB then hand_at stateA - hand_at stateB
      else if speaking stateA \<and> \<not> speaking stateB then -1
      else if speaking stateB \<and> \<not> speaking stateA then 1
      else if considerReaction
      then (case (us_reaction stateA, us_reaction stateB) of
              (Some a, None) \<Rightarrow> -1
            | (None, Some b) \<Rightarrow> 1
            | (Some a, Some b) \<Rightarrow> rc_timestamp a - rc_timestamp b
            | (None, None) \<Rightarrow> 0)
      else 0)"

section \<open>Channels\<close>

definition isDMChannel :: "channel option \<Rightarrow> bool" where
  "isDMChannel c = (map_option chn_type c = Some ''D'')"

definition isGMChannel :: "channel option \<Rightarrow> bool" where
  "isGMChannel c = (map_option chn_type c = Some ''G'')"

definition isDmGmChannel :: "channel option \<Rightarrow> bool" where
  "isDmGmChannel c = (isDMChannel c \<or> isGMChannel c)"

definition isPublicChannel :: "channel option \<Rightarrow> bool" where
  "isPublicChannel c = (map_option chn_type c = Some ''O'')"

definition isPrivateChannel :: "channel option \<Rightarrow> bool" where
  "isPrivateChannel c = (map_option chn_type c = Some ''P'')"

section \<open>Profiles and sessions\<close>

text \<open>The ids whose profiles are missing, and the profiles that are there, in order.\<close>

definition getProfilesByIds ::
  "(string list \<Rightarrow> user_profile list) \<Rightarrow> mm_state \<Rightarrow> string list \<Rightarrow> user_profile list" where
  "getProfilesByIds fetch mm ids =
     (let present = List.map_filter (obj_get (mm_profiles mm)) ids;
          missing = filter (\<lambda>i. obj_get (mm_profiles mm) i = None) ids
      in if missing \<noteq> [] then present @ fetch missing else present)"

text \<open>A session as the server describes it in a call's state.\<close>

record session_state =
  ss_session_id :: string
  ss_user_id :: string
  ss_unmuted :: bool
  ss_raised_hand :: int
  ss_video :: "bool option"

definition stored_session :: "session_state \<Rightarrow> user_session" where
  "stored_session s = \<lparr>us_session_id = Some (ss_session_id s), us_user_id = Some (ss_user_id s),
     us_unmuted = Some (ss_unmuted s), us_voice = None, us_video = ss_video s,
     us_raised_hand = Some (ss_raised_hand s), us_reaction = None\<rparr>"

definition getUserIDsForSessions :: "session_state list \<Rightarrow> string list" where
  "getUserIDsForSessions ss = obj_keys (fold (\<lambda>s. obj_set (ss_user_id s) True) ss [])"

definition getSessionsMapFromSessions :: "session_state list \<Rightarrow> (string, user_session) obj" where
  "getSessionsMapFromSessions ss = fold (\<lambda>s. obj_set (ss_session_id s) (stored_session s)) ss []"

section \<open>Direct message channels\<close>

text \<open>\<open>name.split('__')\<close>\<close>

fun split_uu :: "string \<Rightarrow> string list" where
  "split_uu [] = [[]]"
| "split_uu [c] = [[c]]"
| "split_uu (c # d # s) =
     (if c = CHR ''_'' \<and> d = CHR ''_'' then [] # split_uu s
      else (case split_uu (d # s) of [] \<Rightarrow> [[c]] | w # ws \<Rightarrow> (c # w) # ws))"

definition getUserIdFromDM :: "string \<Rightarrow> string \<Rightarrow> string option" where
  "getUserIdFromDM dmName currentUserId =
     (case split_uu dmName of
        first # rest \<Rightarrow>
          if first = currentUserId then (case rest of [] \<Rightarrow> None | second # _ \<Rightarrow> Some second)
          else Some first
      | [] \<Rightarrow> None)"

section \<open>Lists and locales\<close>

definition split_list_at :: "'a list \<Rightarrow> nat \<Rightarrow> bool \<Rightarrow> 'a list \<times> 'a list option" where
  "split_list_at list i pad =
     (if length list \<le> i + (if pad then 1 else 0) then (list, None)
      else (take i list, Some (drop i list)))"

definition translation_locale :: "string \<Rightarrow> string" where
  "translation_locale locale =
     (if locale = ''zh-CN'' then ''zh_Hans''
      else if locale = ''zh-TW'' then ''zh_Hant''
      else if locale = ''pt-BR'' then ''pt_BR''
      else locale)"

definition aFewSecondsThreshold :: int where "aFewSecondsThreshold = 1000 * 44"

text \<open>The age text of a call: a fixed text for young calls, else the date library's.\<close>

datatype started_text = FewSecondsAgo | RelativeTo int

definition callStartedTimestampFn :: "int \<Rightarrow> int option \<Rightarrow> started_text" where
  "callStartedTimestampFn now startAt =
     (let startAtMillis = int_or startAt now
      in if now - startAtMillis < aFewSecondsThreshold then FewSecondsAgo
         else if now - startAtMillis < 60 * 1000 then RelativeTo (now - 60 * 1000)
         else RelativeTo startAtMillis)"

section \<open>Retries\<close>

text \<open>
  The outcome of each attempt and the random part of each wait are parameters; the waits made
  are returned beside the result.
\<close>

fun retry_from ::
  "(nat \<Rightarrow> 'e + 'a) \<Rightarrow> (nat \<Rightarrow> int) \<Rightarrow> int \<Rightarrow> nat \<Rightarrow> nat \<Rightarrow> int list \<Rightarrow> (error + 'a) \<times> int list" where
  "retry_from fn jitter retryIntervalMs 0 i waits =
     (Inl (Error ''maximum retry attempts reached''), waits)"
| "retry_from fn jitter retryIntervalMs (Suc n) i waits =
     (case fn i of
        Inr v \<Rightarrow> (Inr v, waits)
      | Inl err \<Rightarrow>
          retry_from fn jitter retryIntervalMs n (Suc i) (waits @ [retryIntervalMs * int i + jitter i]))"

definition runWithRetry ::
  "(nat \<Rightarrow> 'e + 'a) \<Rightarrow> (nat \<Rightarrow> int) \<Rightarrow> int \<Rightarrow> nat \<Rightarrow> (error + 'a) \<times> int list" where
  "runWithRetry fn jitter retryIntervalMs maxAttempts =
     retry_from fn jitter retryIntervalMs maxAttempts 1 []"

section \<open>Call posts\<close>

definition json_field :: "string \<Rightarrow> json option \<Rightarrow> json option" where
  "json_field k j = (case j of Some (JObj m) \<Rightarrow> obj_get m k | _ \<Rightarrow> None)"

definition str_field :: "string \<Rightarrow> json option \<Rightarrow> string option" where
  "str_field k j = (case json_field k j of Some (JStr s) \<Rightarrow> Some s | _ \<Rightarrow> None)"

definition num_field :: "string \<Rightarrow> json option \<Rightarrow> int option" where
  "num_field k j = (case json_field k j of Some (JNum n) \<Rightarrow> Some n | _ \<Rightarrow> None)"

record job_metadata =
  jm_file_id :: string
  jm_post_id :: string
  jm_rec_id :: "string option"
  jm_tr_id :: "string option"

record call_post_props =
  cp_title :: string
  cp_start_at :: int
  cp_end_at :: int
  cp_recordings :: "(string, job_metadata) obj"
  cp_transcriptions :: "(string, job_metadata) obj"
  cp_participants :: "json list"

record call_recording_props =
  cr_call_post_id :: string
  cr_recording_id :: string
  cr_captions :: "json list"

definition job_metadata_of :: "json \<Rightarrow> job_metadata" where
  "job_metadata_of v = \<lparr>
     jm_file_id = str_of (str_field ''file_id'' (Some v)),
     jm_post_id = str_of (str_field ''post_id'' (Some v)),
     jm_rec_id = str_field ''rec_id'' (Some v),
     jm_tr_id = str_field ''tr_id'' (Some v)\<rparr>"

definition getJobMetadataMap :: "(string \<times> json) list \<Rightarrow> (string, job_metadata) obj" where
  "getJobMetadataMap m = fold (\<lambda>(k, v). obj_set k (job_metadata_of v)) m []"

definition job_map_field :: "string \<Rightarrow> json option \<Rightarrow> (string, job_metadata) obj" where
  "job_map_field k props =
     (case json_field k props of Some (JObj m) \<Rightarrow> getJobMetadataMap m | _ \<Rightarrow> [])"

definition arr_field :: "string \<Rightarrow> json option \<Rightarrow> json list" where
  "arr_field k props = (case json_field k props of Some (JArr l) \<Rightarrow> l | _ \<Rightarrow> [])"

definition getCallPropsFromPost :: "json option \<Rightarrow> call_post_props" where
  "getCallPropsFromPost props = \<lparr>
     cp_title = str_of (str_field ''title'' props),
     cp_start_at = int_or (num_field ''start_at'' props) 0,
     cp_end_at = int_or (num_field ''end_at'' props) 0,
     cp_recordings = job_map_field ''recordings'' props,
     cp_transcriptions = job_map_field ''transcriptions'' props,
     cp_participants = arr_field ''participants'' props\<rparr>"

definition getCallRecordingPropsFromPost :: "json option \<Rightarrow> call_recording_props" where
  "getCallRecordingPropsFromPost props = \<lparr>
     cr_call_post_id = str_of (str_field ''call_post_id'' props),
     cr_recording_id = str_of (str_field ''recording_id'' props),
     cr_captions = arr_field ''captions'' props\<rparr>"

section \<open>The order of participants\<close>

text \<open>
  The key that \<open>stateSortSessions\<close> compares lexicographically: the presenter first, then raised
  hands by time, then who is unmuted, then, when asked, reactions by time.
\<close>

definition state_key :: "string \<Rightarrow> bool \<Rightarrow> user_session \<Rightarrow> int \<times> int \<times> int \<times> int \<times> int \<times> int" where
  "state_key presenterID considerReaction s =
     (let up = raised s; quiet = up \<or> \<not> considerReaction
      in (if us_session_id s = Some presenterID then 0 else 1,
          if up then 0 else 1,
          if up then hand_at s else 0,
          if up \<or> speaking s then 0 else 1,
          if quiet \<or> us_reaction s \<noteq> None then 0 else 1,
          if quiet then 0 else (case us_reaction s of None \<Rightarrow> 0 | Some r \<Rightarrow> rc_timestamp r)))"

definition other_session :: "user_session \<Rightarrow> user_session \<Rightarrow> bool" where
  "other_session a b \<longleftrightarrow> us_session_id a \<noteq> us_session_id b"

interpretation by_state:
  keyed_comparator "stateSortSessions p r" "state_key p r" other_session for p r
proof
  fix x y :: user_session
  assume "other_session x y"
  then show "stateSortSessions p r x y \<le> 0 \<longleftrightarrow> state_key p r x \<le> state_key p r y"
    by (cases "us_reaction x"; cases "us_reaction y")
      (auto simp: stateSortSessions_def state_key_def other_session_def Let_def less_eq_prod_def
        less_prod_def)
qed

section \<open>Retries\<close>

lemma retry_all_fail:
  "(\<And>k. k < n \<Longrightarrow> \<exists>e. fn (i + k) = Inl e) \<Longrightarrow>
   retry_from fn j r n i ws =
     (Inl (Error ''maximum retry attempts reached''),
      ws @ map (\<lambda>k. r * int (i + k) + j (i + k)) [0..<n])"
proof (induction n arbitrary: i ws)
  case 0
  then show ?case by simp
next
  case (Suc n)
  obtain e where e: "fn i = Inl e" using Suc.prems [of 0] by auto
  have "\<exists>e. fn (Suc i + k) = Inl e" if "k < n" for k using Suc.prems [of "Suc k"] that by simp
  from Suc.IH [OF this, of "ws @ [r * int i + j i]"] show ?case
    by (simp add: e map_upt_Suc del: upt_Suc)
qed

lemma retry_first_success:
  "m < n \<Longrightarrow> (\<And>k. k < m \<Longrightarrow> \<exists>e. fn (i + k) = Inl e) \<Longrightarrow> fn (i + m) = Inr v \<Longrightarrow>
   retry_from fn j r n i ws = (Inr v, ws @ map (\<lambda>k. r * int (i + k) + j (i + k)) [0..<m])"
proof (induction n arbitrary: i ws m)
  case 0
  then show ?case by simp
next
  case (Suc n)
  show ?case
  proof (cases m)
    case 0
    with Suc.prems show ?thesis by simp
  next
    case (Suc m')
    obtain e where e: "fn i = Inl e" using Suc.prems(2) [of 0] Suc by auto
    have f: "\<exists>e. fn (Suc i + k) = Inl e" if "k < m'" for k
      using Suc.prems(2) [of "Suc k"] that Suc by simp
    have v: "fn (Suc i + m') = Inr v" using Suc.prems(3) Suc by simp
    have "m' < n" using Suc.prems(1) Suc by simp
    from Suc.IH [OF this f v, of "ws @ [r * int i + j i]"] show ?thesis
      by (simp add: e Suc map_upt_Suc del: upt_Suc)
  qed
qed

section \<open>Direct message names\<close>

lemma split_uu_plain: "CHR ''_'' \<notin> set s \<Longrightarrow> split_uu s = [s]"
  by (induction s rule: split_uu.induct) auto

lemma split_uu_join:
  "CHR ''_'' \<notin> set a \<Longrightarrow> split_uu (a @ ''__'' @ b) = a # split_uu b"
proof (induction a)
  case Nil
  then show ?case by simp
next
  case (Cons c a)
  then have c: "c \<noteq> CHR ''_''" and ih: "split_uu (a @ ''__'' @ b) = a # split_uu b" by auto
  obtain d s where "a @ ''__'' @ b = d # s" by (cases a) auto
  with c ih show ?case by (cases a) auto
qed

section \<open>Encoding call posts\<close>

text \<open>The JSON that the server stores for a call post.\<close>

definition metadata_json :: "job_metadata \<Rightarrow> json" where
  "metadata_json m = JObj ([(''file_id'', JStr (jm_file_id m)), (''post_id'', JStr (jm_post_id m))]
     @ (case jm_rec_id m of None \<Rightarrow> [] | Some r \<Rightarrow> [(''rec_id'', JStr r)])
     @ (case jm_tr_id m of None \<Rightarrow> [] | Some r \<Rightarrow> [(''tr_id'', JStr r)]))"

definition props_json :: "call_post_props \<Rightarrow> json" where
  "props_json p = JObj [
     (''title'', JStr (cp_title p)),
     (''start_at'', JNum (cp_start_at p)),
     (''end_at'', JNum (cp_end_at p)),
     (''recordings'', JObj (map (\<lambda>(k, m). (k, metadata_json m)) (cp_recordings p))),
     (''transcriptions'', JObj (map (\<lambda>(k, m). (k, metadata_json m)) (cp_transcriptions p))),
     (''participants'', JArr (cp_participants p))]"

lemma metadata_roundtrip: "job_metadata_of (metadata_json m) = m"
  by (cases m)
    (auto simp: job_metadata_of_def metadata_json_def str_field_def json_field_def obj_get_Cons
      split: option.splits)

lemma obj_set_new: "obj_get m k = None \<Longrightarrow> obj_set k v m = m @ [(k, v)]"
  by (induction m) (auto simp: obj_set_def obj_get_def split: if_splits)

lemma fold_obj_set_wf:
  "wf_obj (acc @ m) \<Longrightarrow> fold (\<lambda>(k, v). obj_set k (f v)) (map (\<lambda>(k, v). (k, g v)) m) acc = acc @ map (\<lambda>(k, v). (k, f (g v))) m"
proof (induction m arbitrary: acc)
  case Nil
  then show ?case by simp
next
  case (Cons p m)
  obtain k v where p: "p = (k, v)" by (cases p)
  have "obj_get acc k = None"
    using Cons.prems p by (auto simp: wf_obj_def obj_get_def map_of_eq_None_iff)
  moreover have "wf_obj ((acc @ [(k, f (g v))]) @ m)"
    using Cons.prems p by (auto simp: wf_obj_def)
  ultimately show ?case
    using Cons.IH [of "acc @ [(k, f (g v))]"] by (simp add: p obj_set_new)
qed

lemma metadata_map_roundtrip:
  "wf_obj m \<Longrightarrow> getJobMetadataMap (map (\<lambda>(k, v). (k, metadata_json v)) m) = m"
  using fold_obj_set_wf [of "[]" m job_metadata_of metadata_json]
  by (simp add: getJobMetadataMap_def metadata_roundtrip case_prod_unfold)

section \<open>Properties\<close>

text \<open>
  Sorting a call's participants with \<open>stateSortSessions\<close> is the stable sort by presenter,
  raised hand, microphone and reaction; in particular the presenter, when in the list, comes first.\<close>
theorem participants_order:
  assumes "sorted_wrt other_session ss"
  shows "js_sort (stateSortSessions p r) ss = sort_key (state_key p r) ss \<and>
    ((\<exists>s \<in> set ss. us_session_id s = Some p) \<longrightarrow>
     us_session_id (hd (js_sort (stateSortSessions p r) ss)) = Some p)"
proof -
  let ?xs = "sort_key (state_key p r) ss"
  have sort: "js_sort (stateSortSessions p r) ss = ?xs"
    using assms by (rule by_state.sort_key_eq)
  moreover have "us_session_id (hd ?xs) = Some p"
    if s: "s \<in> set ss" "us_session_id s = Some p" for s
  proof -
    from s(1) have in_xs: "s \<in> set ?xs" by simp
    then obtain y ys where xs: "?xs = y # ys" by (cases ?xs) auto
    have "sorted (map (state_key p r) ?xs)" by simp
    with xs in_xs have "state_key p r y \<le> state_key p r s" by auto
    then have "fst (state_key p r y) \<le> fst (state_key p r s)"
      by (auto simp: less_eq_prod_def)
    with s(2) have "us_session_id y = Some p"
      by (auto simp: state_key_def Let_def split: if_splits)
    with xs show ?thesis by simp
  qed
  ultimately show ?thesis by auto
qed

lemma participants_order_witness:
  "let s = (\<lambda>i h. \<lparr>us_session_id = Some i, us_user_id = Some i, us_unmuted = Some False,
       us_voice = None, us_video = None, us_raised_hand = Some h, us_reaction = None\<rparr>)
   in us_session_id (hd (js_sort (stateSortSessions ''b'' True) [s ''a'' 7, s ''b'' 0])) = Some ''b''"
  unfolding Let_def
  by (rule participants_order [THEN conjunct2, THEN mp]) (simp_all add: other_session_def)

text \<open>
  A retried request returns the first success among at most \<open>maxAttempts\<close> attempts, or the
  error after exactly that many; it waits once per failure, each wait longer than the one before.\<close>
theorem run_with_retry:
  assumes "\<And>k. 0 \<le> jitter k \<and> jitter k < r"
  shows "(\<forall>m < maxAttempts. (\<forall>k < m. \<exists>e. fn (Suc k) = Inl e) \<and> fn (Suc m) = Inr v \<longrightarrow>
            fst (runWithRetry fn jitter r maxAttempts) = Inr v \<and>
            length (snd (runWithRetry fn jitter r maxAttempts)) = m) \<and>
         ((\<forall>k < maxAttempts. \<exists>e. fn (Suc k) = Inl e) \<longrightarrow>
            fst (runWithRetry fn jitter r maxAttempts) = Inl (Error ''maximum retry attempts reached'') \<and>
            length (snd (runWithRetry fn jitter r maxAttempts)) = maxAttempts) \<and>
         sorted_wrt (<) (snd (runWithRetry fn jitter r maxAttempts))"
proof -
  let ?w = "\<lambda>k. r * int (1 + k) + jitter (1 + k)"
  have w: "?w i < ?w k" if "i < k" for i k
  proof -
    have "r * int (Suc (1 + i)) \<le> r * int (1 + k)"
      using that assms [of 0] by (intro mult_left_mono) auto
    then have "r * int (1 + i) + r \<le> r * int (1 + k)" by (simp add: algebra_simps)
    with assms [of "1 + i"] assms [of "1 + k"] show ?thesis by linarith
  qed
  have sorted: "sorted_wrt (<) (map ?w [0..<n])" for n
    using w by (simp add: sorted_wrt_iff_nth_less)
  have ok: "runWithRetry fn jitter r maxAttempts = (Inr v, map ?w [0..<m])"
    if "m < maxAttempts" "\<forall>k < m. \<exists>e. fn (Suc k) = Inl e" "fn (Suc m) = Inr v" for m v
    using retry_first_success [of m maxAttempts fn 1 v jitter r "[]"] that
    by (simp add: runWithRetry_def)
  have bad: "runWithRetry fn jitter r maxAttempts =
      (Inl (Error ''maximum retry attempts reached''), map ?w [0..<maxAttempts])"
    if "\<forall>k < maxAttempts. \<exists>e. fn (Suc k) = Inl e"
    using retry_all_fail [of maxAttempts fn 1 jitter r "[]"] that by (simp add: runWithRetry_def)
  have "sorted_wrt (<) (snd (runWithRetry fn jitter r maxAttempts))"
  proof (cases "\<forall>k < maxAttempts. \<exists>e. fn (Suc k) = Inl e")
    case True
    then show ?thesis using bad sorted by simp
  next
    case False
    then have ex: "\<exists>k. k < maxAttempts \<and> (\<exists>v. fn (Suc k) = Inr v)"
      by (metis sum.exhaust)
    define m where "m = (LEAST k. k < maxAttempts \<and> (\<exists>v. fn (Suc k) = Inr v))"
    have m: "m < maxAttempts" "\<exists>v. fn (Suc m) = Inr v"
      using LeastI_ex [OF ex] by (simp_all add: m_def)
    have "\<forall>k < m. \<exists>e. fn (Suc k) = Inl e"
      using not_less_Least [of _ "\<lambda>k. k < maxAttempts \<and> (\<exists>v. fn (Suc k) = Inr v)"] m(1)
      unfolding m_def [symmetric] by (metis less_trans sum.exhaust)
    with m ok sorted show ?thesis by force
  qed
  with ok bad show ?thesis by simp
qed

lemma run_with_retry_witness:
  "fst (runWithRetry (\<lambda>i. if i < 3 then Inl () else Inr i) (\<lambda>_. 0) 100 10) = Inr 3"
proof -
  have h: "\<And>k::nat. 0 \<le> (\<lambda>_. 0 :: int) k \<and> (\<lambda>_. 0 :: int) k < 100" by simp
  show ?thesis
    using run_with_retry [OF h, of 10 "\<lambda>i. if i < 3 then Inl () else Inr i" 3,
        THEN conjunct1, THEN spec, of 2]
    by simp
qed

text \<open>
  The name of a direct message channel gives back the other user, whichever side the current
  user is on.\<close>
theorem dm_name_roundtrip:
  assumes "CHR ''_'' \<notin> set a" and "CHR ''_'' \<notin> set b"
  shows "getUserIdFromDM (a @ ''__'' @ b) a = Some b \<and> getUserIdFromDM (a @ ''__'' @ b) b = Some a"
  using assms by (auto simp: getUserIdFromDM_def split_uu_join split_uu_plain simp del: append.simps)

lemma dm_name_roundtrip_witness:
  "getUserIdFromDM (''u1'' @ ''__'' @ ''u2'') ''u1'' = Some ''u2''"
  by (rule dm_name_roundtrip [THEN conjunct1]) simp_all

text \<open>
  Reading the properties of a call post gives back what was stored, recordings and
  transcriptions with their optional ids included.\<close>
theorem call_props_roundtrip:
  assumes "wf_obj (cp_recordings p)" and "wf_obj (cp_transcriptions p)"
  shows "getCallPropsFromPost (Some (props_json p)) = p"
  using assms
  by (cases p)
    (simp add: getCallPropsFromPost_def props_json_def str_field_def num_field_def json_field_def
      job_map_field_def arr_field_def obj_get_Cons metadata_map_roundtrip int_or_def)

lemma call_props_roundtrip_witness:
  "let p = \<lparr>cp_title = ''t'', cp_start_at = 5, cp_end_at = 0,
       cp_recordings = [(''j'', \<lparr>jm_file_id = ''f'', jm_post_id = ''p'', jm_rec_id = None,
                                jm_tr_id = Some ''x''\<rparr>)],
       cp_transcriptions = [], cp_participants = [JStr ''u'']\<rparr>
   in getCallPropsFromPost (Some (props_json p)) = p"
  unfolding Let_def by (rule call_props_roundtrip) simp_all

end
