(* ===== verification/Store.thy ===== *)
theory Store imports Utils begin

text \<open>
  The environment that thunks and event handlers run in: the plugin's store, the host
  application's entities, the calls client of the window with the listeners that
  \<open>webapp/src/index.tsx\<close> registers on it, the clock, the timers set with \<open>setTimeout\<close>, the
  continuations of asynchronous functions that wait at an \<open>await\<close>, and the effects on the
  outside in order.

  \<open>ev_batch\<close> is the reducer of a batch of actions (redux-batched-actions) and \<open>ev_id\<close> the ids
  that \<open>generateId\<close> draws; what the code relies on of them are the hypotheses \<open>batch_ok\<close> and
  \<open>ids_ok\<close>.
\<close>

section \<open>Data\<close>

text \<open>What \<open>connectCall\<close> tells the desktop app.\<close>

record join_payload =
  jp_callID :: string
  jp_title :: string
  jp_channelURL :: string
  jp_rootID :: string
  jp_startingCall :: bool

text \<open>What one window of a call does to the other: the popout, or the window that opened it.\<close>

datatype window_call =
    WOpen string \<comment> \<open>the address\<close>
  | WClose
  | WFocus
  | WDismissRecording string int
  | WMissingScreen bool

datatype effect =
    EPlaySound string
  | ERing string
  | EStopRing
  | EFetch string string "(string \<times> string) list" \<comment> \<open>method, path under the plugin, body\<close>
  | ELoadChannel string
  | ELoadProfiles "string list"
  | EModal string "string option"
  | EFollowThread string string string \<comment> \<open>user, team, thread\<close>
  | EGenericError string string \<comment> \<open>title, message\<close>
  | EDesktopJoin join_payload
  | EDesktopJoinEvent join_payload
  | EDesktopEvent string string
  | EDesktopLeave
  | EOpenerDisconnect
  | ENavigate string
  | EPostConnect string \<comment> \<open>\<open>connectCall\<close> posted to the window\<close>
  | EDesktopNotify string string bool string string \<comment> \<open>title, body, silent, sound, address\<close>
  | EDesktopCall string "string list" \<comment> \<open>a function of \<open>window.desktopAPI\<close>\<close>
  | ESelectPost string
  | EOpenSettings
  | EWindow window_call
  | ESendMessage string string \<comment> \<open>over the host application's websocket\<close>

datatype task = TDispatch action | TStopRinging string

datatype continuation =
    KChannel string string string int \<comment> \<open>channel, call, caller, start: waits for the channel\<close>
  | KCaller incoming_call \<comment> \<open>waits for the caller's profile\<close>
  | KProfiles "string list"

text \<open>
  \<open>CurrentCallDataDefault\<close> of \<open>types.ts\<close> is one object, and \<open>window.currentCallData\<close> refers
  to it while this window is in a call: \<open>ev_callData\<close> says whether the window has the
  reference, \<open>ev_callDataDefault\<close> is what the object holds.
\<close>

record current_call_data =
  ccd_recordingPromptDismissedAt :: int
  ccd_missingScreenPermissions :: bool

record env =
  ev_plugin :: root_state
  ev_mm :: mm_state
  ev_client :: "calls_client option"
  ev_now :: int
  ev_timers :: "(int \<times> task) list"
  ev_waiting :: "continuation list"
  ev_effects :: "effect list"
  ev_batch :: "root_state \<Rightarrow> action list \<Rightarrow> root_state"
  ev_id :: "nat \<Rightarrow> string"
  ev_drawn :: nat
  ev_callData :: bool
  ev_callDataDefault :: current_call_data

definition batch_ok :: "env \<Rightarrow> bool" where
  "batch_ok e \<longleftrightarrow> (\<forall>st as. ev_batch e st as = foldl store_dispatch st as)"

definition ids_ok :: "env \<Rightarrow> bool" where
  "ids_ok e \<longleftrightarrow> inj (ev_id e)"

definition getState :: "env \<Rightarrow> global_state" where
  "getState e = \<lparr>gs_plugin = ev_plugin e, gs_mm = ev_mm e, gs_client = ev_client e\<rparr>"

definition dispatch :: "action \<Rightarrow> env \<Rightarrow> env" where
  "dispatch a e = e\<lparr>ev_plugin := store_dispatch (ev_plugin e) a\<rparr>"

definition dispatch_batch :: "action list \<Rightarrow> env \<Rightarrow> env" where
  "dispatch_batch as e = e\<lparr>ev_plugin := ev_batch e (ev_plugin e) as\<rparr>"

definition effect :: "effect \<Rightarrow> env \<Rightarrow> env" where
  "effect x e = e\<lparr>ev_effects := ev_effects e @ [x]\<rparr>"

definition setTimeout :: "task \<Rightarrow> int \<Rightarrow> env \<Rightarrow> env" where
  "setTimeout t delay e = e\<lparr>ev_timers := ev_timers e @ [(ev_now e + delay, t)]\<rparr>"

definition await :: "continuation \<Rightarrow> env \<Rightarrow> env" where
  "await k e = e\<lparr>ev_waiting := ev_waiting e @ [k]\<rparr>"

text \<open>\<open>generateId()\<close>: the next id.\<close>

definition next_id :: "env \<Rightarrow> string" where
  "next_id e = ev_id e (ev_drawn e)"

definition draw_id :: "env \<Rightarrow> env" where
  "draw_id e = e\<lparr>ev_drawn := Suc (ev_drawn e)\<rparr>"

lemma dispatch_fields [simp]:
  "ev_mm (dispatch a e) = ev_mm e" "ev_client (dispatch a e) = ev_client e"
  "ev_now (dispatch a e) = ev_now e" "ev_timers (dispatch a e) = ev_timers e"
  "ev_waiting (dispatch a e) = ev_waiting e" "ev_effects (dispatch a e) = ev_effects e"
  "ev_batch (dispatch a e) = ev_batch e" "ev_id (dispatch a e) = ev_id e"
  "ev_drawn (dispatch a e) = ev_drawn e"
  "ev_plugin (dispatch a e) = store_dispatch (ev_plugin e) a"
  by (simp_all add: dispatch_def)

lemma effect_fields [simp]:
  "ev_plugin (effect x e) = ev_plugin e" "ev_mm (effect x e) = ev_mm e"
  "ev_client (effect x e) = ev_client e" "ev_now (effect x e) = ev_now e"
  "ev_timers (effect x e) = ev_timers e" "ev_waiting (effect x e) = ev_waiting e"
  "ev_effects (effect x e) = ev_effects e @ [x]" "ev_batch (effect x e) = ev_batch e"
  "ev_id (effect x e) = ev_id e" "ev_drawn (effect x e) = ev_drawn e"
  by (simp_all add: effect_def)

lemma setTimeout_fields [simp]:
  "ev_plugin (setTimeout t d e) = ev_plugin e" "ev_mm (setTimeout t d e) = ev_mm e"
  "ev_client (setTimeout t d e) = ev_client e" "ev_now (setTimeout t d e) = ev_now e"
  "ev_timers (setTimeout t d e) = ev_timers e @ [(ev_now e + d, t)]"
  "ev_waiting (setTimeout t d e) = ev_waiting e" "ev_effects (setTimeout t d e) = ev_effects e"
  by (simp_all add: setTimeout_def)

lemma await_fields [simp]:
  "ev_plugin (await k e) = ev_plugin e" "ev_mm (await k e) = ev_mm e"
  "ev_client (await k e) = ev_client e" "ev_waiting (await k e) = ev_waiting e @ [k]"
  "ev_effects (await k e) = ev_effects e" "ev_timers (await k e) = ev_timers e"
  by (simp_all add: await_def)

lemma draw_id_fields [simp]:
  "ev_plugin (draw_id e) = ev_plugin e" "ev_mm (draw_id e) = ev_mm e"
  "ev_client (draw_id e) = ev_client e" "ev_now (draw_id e) = ev_now e"
  "ev_timers (draw_id e) = ev_timers e" "ev_effects (draw_id e) = ev_effects e"
  by (simp_all add: draw_id_def)

lemma getState_fields [simp]:
  "gs_plugin (getState e) = ev_plugin e" "gs_mm (getState e) = ev_mm e"
  "gs_client (getState e) = ev_client e"
  by (simp_all add: getState_def)

section \<open>The client's events\<close>

text \<open>A field of the action that is \<open>undefined\<close> becomes the key \<open>''undefined''\<close>.\<close>

definition js_key :: "string option \<Rightarrow> string" where
  "js_key x = (case x of None \<Rightarrow> ''undefined'' | Some s \<Rightarrow> s)"

definition self_event :: "(string \<Rightarrow> string \<Rightarrow> string \<Rightarrow> action) \<Rightarrow> env \<Rightarrow> env" where
  "self_event mk e = dispatch
     (mk (js_key (map_option cc_channelID (ev_client e))) (mm_currentUserID (ev_mm e))
        (js_key (Option.bind (ev_client e) getSessionID))) e"

text \<open>The listener of \<open>close\<close>.\<close>

definition on_client_close :: "client_error option \<Rightarrow> env \<Rightarrow> env" where
  "on_client_close err e0 =
     (let e = dispatch (CLIENT_CONNECTING False) e0
      in case ev_client e of
           None \<Rightarrow> e
         | Some c \<Rightarrow>
             (let e1 = (if err \<noteq> None then effect (EModal ''call_error_modal'' (Some (cc_channelID c))) e else e);
                  e2 = dispatch (LOCAL_SESSION_CLOSE (cc_channelID c)) e1
              in effect (EPlaySound ''leave_self'')
                   (e2\<lparr>ev_client := None, ev_callData := False\<rparr>)))"

fun on_client_event :: "client_event \<Rightarrow> env \<Rightarrow> env" where
  "on_client_event CConnect e = dispatch (CLIENT_CONNECTING False) e"
| "on_client_event (CClose err) e = on_client_close err e"
| "on_client_event CMute e = self_event USER_MUTED e"
| "on_client_event CUnmute e = self_event USER_UNMUTED e"
| "on_client_event CRaiseHand e =
     self_event (\<lambda>ch uid sid. USER_RAISE_HAND ch uid sid (Some (ev_now e))) e"
| "on_client_event CLowerHand e = self_event (\<lambda>ch uid sid. USER_LOWER_HAND ch uid sid None) e"
| "on_client_event CVideoOn e = self_event USER_VIDEO_ON e"
| "on_client_event CVideoOff e = self_event USER_VIDEO_OFF e"
| "on_client_event _ e = e"

text \<open>A method of the client, followed by the listeners of the events it emitted.\<close>

definition client_call :: "(calls_client \<Rightarrow> calls_client) \<Rightarrow> env \<Rightarrow> env" where
  "client_call f e =
     (case ev_client e of
        None \<Rightarrow> e
      | Some c \<Rightarrow>
          fold on_client_event (drop (length (cc_emitted c)) (cc_emitted (f c)))
            (e\<lparr>ev_client := Some (f c)\<rparr>))"

definition disconnect_client :: "client_error option \<Rightarrow> env \<Rightarrow> env" where
  "disconnect_client err = client_call (disconnect err)"

lemma disconnect_emits:
  "drop (length (cc_emitted c)) (cc_emitted (disconnect err c)) =
     (if cc_closed c then [] else [CClose err])"
  by (auto simp: disconnect_def Let_def split: option.splits)

text \<open>Disconnecting an open client closes the local session and takes the client away.\<close>

lemma disconnect_client_eq:
  "disconnect_client err e =
     (case ev_client e of
        None \<Rightarrow> e
      | Some c \<Rightarrow>
          if cc_closed c then e\<lparr>ev_client := Some c\<rparr>
          else on_client_close err (e\<lparr>ev_client := Some (disconnect err c)\<rparr>))"
proof (cases "ev_client e")
  case None
  then show ?thesis by (simp add: disconnect_client_def client_call_def)
next
  case (Some c)
  have "disconnect err c = c" if "cc_closed c" using that by (simp add: disconnect_def)
  with Some show ?thesis by (simp add: disconnect_client_def client_call_def disconnect_emits)
qed

lemma disconnect_channel [simp]: "cc_channelID (disconnect err c) = cc_channelID c"
proof -
  have s: "cc_channelID (stop_track_and_end i d) = cc_channelID d" for i d
    by (simp add: stop_track_and_end_def dispatch_ended_def screen_ended_def Let_def track_stop_def
        upd_track_def peer_do_def split: option.splits)
  have "cc_channelID (cleanup d) = cc_channelID d" for d
    unfolding cleanup_def by (rule fold_keeps, rule fold_keeps, rule s)
  then show ?thesis
    by (auto simp: disconnect_def Let_def cc_emit_def peer_do_def split: option.splits)
qed

lemma disconnect_client_none:
  assumes "\<forall>c. ev_client e = Some c \<longrightarrow> \<not> cc_closed c"
  shows "ev_client (disconnect_client err e) = None"
  using assms
  by (auto simp: disconnect_client_eq on_client_close_def Let_def split: option.splits)

lemma on_client_close_slices [simp]:
  "rs_sessions (ev_plugin (on_client_close err e)) = rs_sessions (ev_plugin e)"
  "rs_calls (ev_plugin (on_client_close err e)) = rs_calls (ev_plugin e)"
  "rs_incomingCalls (ev_plugin (on_client_close err e)) = rs_incomingCalls (ev_plugin e)"
  "rs_ringingForCalls (ev_plugin (on_client_close err e)) = rs_ringingForCalls (ev_plugin e)"
  "ev_mm (on_client_close err e) = ev_mm e"
  by (simp_all add: on_client_close_def Let_def split: option.splits)

lemma disconnect_client_slices [simp]:
  "rs_sessions (ev_plugin (disconnect_client err e)) = rs_sessions (ev_plugin e)"
  "rs_calls (ev_plugin (disconnect_client err e)) = rs_calls (ev_plugin e)"
  "rs_incomingCalls (ev_plugin (disconnect_client err e)) = rs_incomingCalls (ev_plugin e)"
  "rs_ringingForCalls (ev_plugin (disconnect_client err e)) = rs_ringingForCalls (ev_plugin e)"
  "ev_mm (disconnect_client err e) = ev_mm e"
  by (simp_all add: disconnect_client_eq split: option.splits)

end
