(* ===== verification/Actions.thy ===== *)
theory Actions imports Store begin

text \<open>
  The thunks of \<open>webapp/src/actions.ts\<close> as functions on the environment. A request to the
  plugin's server is an effect with its method, path and body; what happens when it fails is a
  definition of its own. An asynchronous thunk is split at its \<open>await\<close>s.
\<close>

section \<open>Plain actions\<close>

definition showExpandedView :: "env \<Rightarrow> env" where
  "showExpandedView = dispatch SHOW_EXPANDED_VIEW"

definition hideExpandedView :: "env \<Rightarrow> env" where
  "hideExpandedView = dispatch HIDE_EXPANDED_VIEW"

definition showSwitchCallModal :: "string option \<Rightarrow> env \<Rightarrow> env" where
  "showSwitchCallModal targetID = dispatch (SHOW_SWITCH_CALL_MODAL targetID)"

definition hideSwitchCallModal :: "env \<Rightarrow> env" where
  "hideSwitchCallModal = dispatch HIDE_SWITCH_CALL_MODAL"

definition showScreenSourceModal :: "env \<Rightarrow> env" where
  "showScreenSourceModal = dispatch SHOW_SCREEN_SOURCE_MODAL"

definition hideScreenSourceModal :: "env \<Rightarrow> env" where
  "hideScreenSourceModal = dispatch HIDE_SCREEN_SOURCE_MODAL"

definition setRecordingsEnabled :: "bool \<Rightarrow> env \<Rightarrow> env" where
  "setRecordingsEnabled b = dispatch (RECORDINGS_ENABLED b)"

definition setRTCDEnabled :: "bool \<Rightarrow> env \<Rightarrow> env" where
  "setRTCDEnabled b = dispatch (RTCD_ENABLED b)"

definition setTranscriptionsEnabled :: "bool \<Rightarrow> env \<Rightarrow> env" where
  "setTranscriptionsEnabled b = dispatch (TRANSCRIPTIONS_ENABLED b)"

definition setLiveCaptionsEnabled :: "bool \<Rightarrow> env \<Rightarrow> env" where
  "setLiveCaptionsEnabled b = dispatch (LIVE_CAPTIONS_ENABLED b)"

definition setTranscribeAPI :: "string \<Rightarrow> env \<Rightarrow> env" where
  "setTranscribeAPI val = dispatch (TRANSCRIBE_API val)"

definition setClientConnecting :: "bool \<Rightarrow> env \<Rightarrow> env" where
  "setClientConnecting value = dispatch (CLIENT_CONNECTING value)"

definition localSessionClose :: "string \<Rightarrow> env \<Rightarrow> env" where
  "localSessionClose channelID = dispatch (LOCAL_SESSION_CLOSE channelID)"

definition displayCallErrorModal :: "string option \<Rightarrow> env \<Rightarrow> env" where
  "displayCallErrorModal channelID = effect (EModal ''call_error_modal'' channelID)"

definition displayFreeTrial :: "env \<Rightarrow> env" where
  "displayFreeTrial e =
     (if mm_isCurrentUserSystemAdmin (ev_mm e) then effect (EModal ''free_trial_admin'' None) e
      else effect (EModal ''free_trial_user'' None) e)"

definition displayCallsTestModeUser :: "env \<Rightarrow> env" where
  "displayCallsTestModeUser = effect (EModal ''test_mode_user'' None)"

definition displayGenericErrorModal :: "string \<Rightarrow> string \<Rightarrow> env \<Rightarrow> env" where
  "displayGenericErrorModal title message = effect (EGenericError title message)"

section \<open>Requests to the server\<close>

definition endCall :: "string \<Rightarrow> env \<Rightarrow> env" where
  "endCall channelID = effect (EFetch ''post'' (''/calls/'' @ channelID @ ''/host/end'') [])"

text \<open>The answer to whether a channel has an active call; a failed request counts as no.\<close>

definition getCallActive :: "error + bool \<Rightarrow> bool" where
  "getCallActive res = (case res of Inl e \<Rightarrow> False | Inr active \<Rightarrow> active)"

definition host_request :: "string \<Rightarrow> string \<Rightarrow> (string \<times> string) list \<Rightarrow> env \<Rightarrow> env" where
  "host_request callID verb body =
     effect (EFetch ''post'' (''/calls/'' @ callID @ ''/host/'' @ verb) body)"

definition hostMake :: "string \<Rightarrow> string \<Rightarrow> env \<Rightarrow> env" where
  "hostMake callID newHostID = host_request callID ''make'' [(''new_host_id'', newHostID)]"

definition hostMute :: "string \<Rightarrow> string \<Rightarrow> env \<Rightarrow> env" where
  "hostMute callID sessionID = host_request callID ''mute'' [(''session_id'', sessionID)]"

definition hostScreenOff :: "string \<Rightarrow> string \<Rightarrow> env \<Rightarrow> env" where
  "hostScreenOff callID sessionID = host_request callID ''screen-off'' [(''session_id'', sessionID)]"

definition hostLowerHand :: "string \<Rightarrow> string \<Rightarrow> env \<Rightarrow> env" where
  "hostLowerHand callID sessionID = host_request callID ''lower-hand'' [(''session_id'', sessionID)]"

definition hostRemove :: "string option \<Rightarrow> string option \<Rightarrow> env \<Rightarrow> env" where
  "hostRemove callID sessionID e =
     (if str_of callID = [] \<or> str_of sessionID = [] then e
      else host_request (str_of callID) ''remove'' [(''session_id'', str_of sessionID)] e)"

definition hostMuteOthers :: "string option \<Rightarrow> env \<Rightarrow> env" where
  "hostMuteOthers callID e =
     (if str_of callID = [] then e else host_request (str_of callID) ''mute-others'' [] e)"

definition startCallRecording :: "string \<Rightarrow> env \<Rightarrow> env" where
  "startCallRecording callID = effect (EFetch ''post'' (''/calls/'' @ callID @ ''/recording/start'') [])"

text \<open>When that request fails, the recording is shown as failed now.\<close>

definition startCallRecordingFailed :: "string \<Rightarrow> string \<Rightarrow> env \<Rightarrow> env" where
  "startCallRecordingFailed callID message e =
     dispatch (CALL_RECORDING_STATE callID (Some (empty_job\<lparr>jb_init_at := Some 0, jb_start_at := Some 0,
       jb_end_at := Some 0, jb_err := Some message, jb_error_at := Some (ev_now e)\<rparr>))) e"

definition stopCallRecording :: "string \<Rightarrow> env \<Rightarrow> env" where
  "stopCallRecording callID = effect (EFetch ''post'' (''/calls/'' @ callID @ ''/recording/stop'') [])"

definition recordingPromptDismissedAt :: "string \<Rightarrow> int \<Rightarrow> env \<Rightarrow> env" where
  "recordingPromptDismissedAt callID dismissedAt e =
     (let e1 = dispatch (CALL_REC_PROMPT_DISMISSED callID dismissedAt) e
      in if ev_callData e1
         then e1\<lparr>ev_callDataDefault :=
                (ev_callDataDefault e1)\<lparr>ccd_recordingPromptDismissedAt := dismissedAt\<rparr>\<rparr>
         else e1)"

section \<open>Ringing and notifications\<close>

definition stopRingingForCall :: "string \<Rightarrow> env \<Rightarrow> env" where
  "stopRingingForCall callID e =
     (let e1 = (if ringingForCall (getState e) callID then effect EStopRing e else e)
      in dispatch (DID_RING_FOR_CALL callID) e1)"

definition removeIncomingCallNotification :: "string \<Rightarrow> env \<Rightarrow> env" where
  "removeIncomingCallNotification callID e =
     dispatch (REMOVE_INCOMING_CALL callID) (stopRingingForCall callID e)"

definition ringForCall :: "string \<Rightarrow> string \<Rightarrow> env \<Rightarrow> env" where
  "ringForCall callID sound e =
     setTimeout (TStopRinging callID) RING_LENGTH
       (dispatch (RINGING_FOR_CALL callID) (effect (ERing sound) e))"

definition dismissIncomingCallNotification :: "string \<Rightarrow> string \<Rightarrow> env \<Rightarrow> env" where
  "dismissIncomingCallNotification channelID callID e =
     dispatch (DISMISS_CALL callID)
       (removeIncomingCallNotification callID
         (effect (EFetch ''post'' (''/calls/'' @ channelID @ ''/dismiss-notification'') []) e))"

section \<open>Incoming calls\<close>

text \<open>
  \<open>incomingCallOnChannel\<close> once the channel is known: the guards, then the notification, which
  waits for the caller's profile when that is missing.
\<close>

definition add_incoming :: "incoming_call \<Rightarrow> env \<Rightarrow> env" where
  "add_incoming ic = dispatch (ADD_INCOMING_CALL ic)"

definition incoming_with_channel ::
  "channel option \<Rightarrow> string \<Rightarrow> string \<Rightarrow> string \<Rightarrow> int \<Rightarrow> env \<Rightarrow> env" where
  "incoming_with_channel chan channelID callID callerID startAt e =
     (let gs = getState e;
          ic = \<lparr>ic_callID = callID, ic_channelID = channelID, ic_callerID = callerID,
                ic_startAt = startAt, ic_type = (if isDMChannel chan then DM else GM)\<rparr>
      in if \<not> (isDMChannel chan \<or> isGMChannel chan) then e
         else if callDismissedNotification gs channelID then e
         else if list_ex (\<lambda>c. ic_callID c = callID) (incomingCalls_sel gs) then e
         else if mm_currentUserID (gs_mm gs) = callerID \<or> idForCurrentCall gs = Some callID then e
         else if obj_get (mm_profiles (gs_mm gs)) callerID = None
         then await (KCaller ic) (effect (ELoadProfiles [callerID]) e)
         else add_incoming ic e)"

definition incomingCallOnChannel :: "string \<Rightarrow> string \<Rightarrow> string \<Rightarrow> int \<Rightarrow> env \<Rightarrow> env" where
  "incomingCallOnChannel channelID callID callerID startAt e =
     (case obj_get (mm_channels (ev_mm e)) channelID of
        Some c \<Rightarrow> incoming_with_channel (Some c) channelID callID callerID startAt e
      | None \<Rightarrow> await (KChannel channelID callID callerID startAt) (effect (ELoadChannel channelID) e))"

text \<open>Loading the profiles that the store does not have.\<close>

definition loadProfilesByIdsIfMissing :: "string list \<Rightarrow> env \<Rightarrow> env" where
  "loadProfilesByIdsIfMissing ids e =
     (let missing = filter (\<lambda>i. obj_get (mm_profiles (ev_mm e)) i = None) ids
      in if missing \<noteq> [] then await (KProfiles missing) (effect (ELoadProfiles missing) e) else e)"

text \<open>
  What the host application answers: the channel that was asked for, or the profiles, which its
  own reducer stores.
\<close>

definition add_profiles :: "user_profile list \<Rightarrow> env \<Rightarrow> env" where
  "add_profiles ps e =
     e\<lparr>ev_mm := (ev_mm e)\<lparr>mm_profiles := fold (\<lambda>p. obj_set (up_id p) p) ps (mm_profiles (ev_mm e))\<rparr>\<rparr>"

definition resume :: "continuation \<Rightarrow> channel option \<Rightarrow> user_profile list \<Rightarrow> env \<Rightarrow> env" where
  "resume k chan profiles e0 =
     (let e = e0\<lparr>ev_waiting := remove1 k (ev_waiting e0)\<rparr>
      in case k of
           KChannel ch callID callerID startAt \<Rightarrow> incoming_with_channel chan ch callID callerID startAt e
         | KCaller ic \<Rightarrow> add_incoming ic (add_profiles profiles e)
         | KProfiles ids \<Rightarrow> add_profiles profiles e)"

section \<open>The end of a session and of a call\<close>

definition callEnd :: "string \<Rightarrow> env \<Rightarrow> env" where
  "callEnd channelID e =
     (let e1 = (if channelIDForCurrentCall (getState e) = channelID then disconnect_client None e else e);
          callID = str_of (idForCallInChannel (getState e1) channelID)
      in removeIncomingCallNotification callID (dispatch (CALL_END channelID callID) e1))"

definition userLeft :: "string \<Rightarrow> string \<Rightarrow> string \<Rightarrow> env \<Rightarrow> env" where
  "userLeft channelID userID sessionID e =
     (let e1 = dispatch (USER_LEFT channelID userID sessionID) e
      in if numSessionsInCallInChannel (getState e1) channelID = 0 then callEnd channelID e1 else e1)"

section \<open>The state of a call\<close>

record call_data =
  cd_id :: string
  cd_start_at :: int
  cd_owner_id :: string
  cd_thread_id :: string
  cd_host_id :: string
  cd_recording :: "job_state option"
  cd_live_captions :: "job_state option"
  cd_screen_sharing_session_id :: string
  cd_dismissed_notification :: "(string, bool) obj option"
  cd_sessions :: "session_state list"

definition dismissed_by :: "call_data \<Rightarrow> string \<Rightarrow> bool" where
  "dismissed_by call userID =
     (case cd_dismissed_notification call of None \<Rightarrow> False | Some d \<Rightarrow> obj_get d userID = Some True)"

definition call_info_of :: "string \<Rightarrow> call_data \<Rightarrow> call_info" where
  "call_info_of channelID call = \<lparr>ci_ID = cd_id call, ci_startAt = cd_start_at call,
     ci_channelID = channelID, ci_threadID = cd_thread_id call, ci_ownerID = cd_owner_id call,
     ci_hostID = None\<rparr>"

definition call_state_actions :: "string \<Rightarrow> call_data \<Rightarrow> env \<Rightarrow> action list" where
  "call_state_actions channelID call e =
     [CALL_STATE (call_info_of channelID call),
      CALL_RECORDING_STATE channelID (cd_recording call),
      CALL_LIVE_CAPTIONS_STATE channelID (cd_live_captions call),
      USER_SCREEN_ON channelID (cd_screen_sharing_session_id call),
      CALL_HOST channelID (cd_host_id call)
        (int_or (Some (hostChangeAtForCurrentCall (getState e))) (cd_start_at call))] @
     (if dismissed_by call (mm_currentUserID (ev_mm e)) then [DISMISS_CALL (cd_id call)] else []) @
     [USERS_STATES channelID (getSessionsMapFromSessions (cd_sessions call))]"

definition loadCallState :: "string \<Rightarrow> call_data \<Rightarrow> env \<Rightarrow> env" where
  "loadCallState channelID call e =
     (let as = call_state_actions channelID call e;
          e1 = (if cd_sessions call \<noteq> []
                then loadProfilesByIdsIfMissing (getUserIDsForSessions (cd_sessions call)) e else e)
      in dispatch_batch as e1)"

section \<open>Timers\<close>

definition run_task :: "task \<Rightarrow> env \<Rightarrow> env" where
  "run_task t = (case t of TDispatch a \<Rightarrow> dispatch a | TStopRinging callID \<Rightarrow> stopRingingForCall callID)"

definition fire_timer :: "int \<times> task \<Rightarrow> env \<Rightarrow> env" where
  "fire_timer t e = run_task (snd t) (e\<lparr>ev_timers := remove1 t (ev_timers e)\<rparr>)"

section \<open>What the thunks keep\<close>

lemma dispatch_batch_fields [simp]:
  "ev_mm (dispatch_batch as e) = ev_mm e" "ev_client (dispatch_batch as e) = ev_client e"
  "ev_plugin (dispatch_batch as e) = ev_batch e (ev_plugin e) as"
  "ev_effects (dispatch_batch as e) = ev_effects e"
  by (simp_all add: dispatch_batch_def)

lemma batch_okD: "batch_ok e \<Longrightarrow> ev_batch e st as = foldl store_dispatch st as"
  by (simp add: batch_ok_def)

lemma stopRinging_fields [simp]:
  "ev_plugin (stopRingingForCall k e) = store_dispatch (ev_plugin e) (DID_RING_FOR_CALL k)"
  "ev_mm (stopRingingForCall k e) = ev_mm e" "ev_client (stopRingingForCall k e) = ev_client e"
  "ev_timers (stopRingingForCall k e) = ev_timers e"
  by (simp_all add: stopRingingForCall_def Let_def)

lemma removeIncoming_fields [simp]:
  "ev_plugin (removeIncomingCallNotification k e) =
     store_dispatch (store_dispatch (ev_plugin e) (DID_RING_FOR_CALL k)) (REMOVE_INCOMING_CALL k)"
  "ev_mm (removeIncomingCallNotification k e) = ev_mm e"
  "ev_client (removeIncomingCallNotification k e) = ev_client e"
  by (simp_all add: removeIncomingCallNotification_def)

lemma loadProfiles_fields [simp]:
  "ev_plugin (loadProfilesByIdsIfMissing ids e) = ev_plugin e"
  "ev_mm (loadProfilesByIdsIfMissing ids e) = ev_mm e"
  "ev_client (loadProfilesByIdsIfMissing ids e) = ev_client e"
  "ev_batch (loadProfilesByIdsIfMissing ids e) = ev_batch e"
  by (simp_all add: loadProfilesByIdsIfMissing_def Let_def await_def effect_def)

section \<open>Sessions maps\<close>

lemma sessions_map_keys:
  "set (obj_keys (fold (\<lambda>s. obj_set (ss_session_id s) (stored_session s)) ss acc)) =
     set (obj_keys acc) \<union> ss_session_id ` set ss"
  by (induction ss arbitrary: acc) (auto simp: set_keys_set)

lemma getSessionsMap_keys:
  "set (obj_keys (getSessionsMapFromSessions ss)) = ss_session_id ` set ss"
  by (simp add: getSessionsMapFromSessions_def sessions_map_keys)

section \<open>The remaining sessions\<close>

definition remaining :: "env \<Rightarrow> string \<Rightarrow> string \<Rightarrow> string set" where
  "remaining e ch sid =
     (case roster_of (rs_sessions (ev_plugin e)) ch of None \<Rightarrow> {} | Some S \<Rightarrow> S - {sid})"

lemma num_sessions_zero:
  "numSessionsInCallInChannel gs ch = 0 \<longleftrightarrow>
     (case roster_of (rs_sessions (gs_plugin gs)) ch of None \<Rightarrow> True | Some S \<Rightarrow> S = {})"
  by (cases "obj_get (rs_sessions (gs_plugin gs)) ch")
    (auto simp: numSessionsInCallInChannel_def sessionsInCalls_def roster_of_def obj_keys_def)

lemma left_zero:
  "numSessionsInCallInChannel (getState (dispatch (USER_LEFT ch uid sid) e)) ch = 0 \<longleftrightarrow>
     remaining e ch sid = {}"
  by (cases "roster_of (rs_sessions (ev_plugin e)) ch")
    (auto simp: num_sessions_zero roster_of_left remaining_def)

lemma callEnd_slices:
  "rs_calls (ev_plugin (callEnd ch e)) = obj_del ch (rs_calls (ev_plugin e))"
  "rs_sessions (ev_plugin (callEnd ch e)) = obj_del ch (rs_sessions (ev_plugin e))"
  "rs_incomingCalls (ev_plugin (callEnd ch e)) =
     filter (\<lambda>ic. ic_callID ic \<noteq> str_of (map_option ci_ID (obj_get (rs_calls (ev_plugin e)) ch)))
       (rs_incomingCalls (ev_plugin e))"
  by (simp_all add: callEnd_def Let_def idForCallInChannel_def calls_sel_def)

section \<open>An environment to run the thunks in\<close>

definition sample_mm :: mm_state where
  "sample_mm = \<lparr>
     mm_currentUserID = ''me'', mm_currentChannelID = ''dm'', mm_currentTeamID = ''t'',
     mm_currentRelativeTeamUrl = ''/t'',
     mm_channels = [(''dm'', \<lparr>chn_id = ''dm'', chn_name = ''me__you'', chn_type = ''D'',
       chn_team_id = [], chn_display_name = [], chn_delete_at = 0\<rparr>)],
     mm_teams = [], mm_redirectChannelName = (\<lambda>_. ''town-square''), mm_profiles = [],
     mm_userStatuses = [], mm_userIdsInChannels = [], mm_license = None, mm_subscription = None,
     mm_isCurrentUserSystemAdmin = False, mm_myChannelRoles = [], mm_myTeamRoles = [],
     mm_myChannelMemberships = [], mm_displayUsername = (\<lambda>_. []), mm_groupDisplayName = (\<lambda>_. []),
     mm_userIdFromChannelName = (\<lambda>_ _. [])\<rparr>"

definition sample_env :: env where
  "sample_env = \<lparr>ev_plugin = init_root ''w'', ev_mm = sample_mm, ev_client = None, ev_now = 100,
     ev_timers = [], ev_waiting = [], ev_effects = [], ev_batch = foldl store_dispatch,
     ev_id = (\<lambda>n. replicate n CHR ''i''), ev_drawn = 0, ev_callData = False,
     ev_callDataDefault = \<lparr>ccd_recordingPromptDismissedAt = 0, ccd_missingScreenPermissions = False\<rparr>\<rparr>"

lemma sample_ids: "ids_ok sample_env"
  by (auto simp: ids_ok_def sample_env_def inj_def)

lemma sample_batch: "batch_ok sample_env"
  by (simp add: batch_ok_def sample_env_def)

definition you :: user_profile where
  "you = \<lparr>up_id = ''you'', up_username = ''you'', up_first_name = [], up_last_name = []\<rparr>"

section \<open>Properties\<close>

lemma left_entry:
  "obj_get (user_left ch sid st) c =
     (if c = ch then map_option (obj_del sid) (obj_get st ch) else obj_get st c)"
  by (auto simp: user_left_def split: option.splits)

lemma remaining_entry: "remaining e ch sid \<noteq> {} \<Longrightarrow> obj_get (rs_sessions (ev_plugin e)) ch \<noteq> None"
  by (auto simp: remaining_def roster_of_def)

lemma session_at_deleted:
  "session_at (obj_del ch st) c s = (if c = ch then None else session_at st c s)"
  by (simp add: session_at_def)

text \<open>
  C17. A session that leaves is gone and every other session, of this channel or another, stays as
  it was, unless it was the last one of its channel: then the call ends, and the store has no call and no
  sessions of the channel any more, not even an empty entry, and no notification of that incoming call.
  Otherwise the channel keeps its entry and its call, and the notifications stay.\<close>
theorem user_left_effect:
  "let e' = userLeft ch uid sid e; calls = rs_calls (ev_plugin e);
       st = rs_sessions (ev_plugin e); st' = rs_sessions (ev_plugin e');
       ended = (remaining e ch sid = {})
   in (\<forall>c s. session_at st' c s = (if c = ch \<and> (s = sid \<or> ended) then None else session_at st c s)) \<and>
      (obj_get st' ch = None) = ended \<and>
      rs_calls (ev_plugin e') = (if ended then obj_del ch calls else calls) \<and>
      rs_incomingCalls (ev_plugin e') =
        (if ended
         then filter (\<lambda>ic. ic_callID ic \<noteq> str_of (map_option ci_ID (obj_get calls ch)))
                (rs_incomingCalls (ev_plugin e))
         else rs_incomingCalls (ev_plugin e))"
proof -
  let ?e1 = "dispatch (USER_LEFT ch uid sid) e"
  have u: "userLeft ch uid sid e = (if remaining e ch sid = {} then callEnd ch ?e1 else ?e1)"
    by (simp only: userLeft_def Let_def left_zero)
  show ?thesis
    using remaining_entry [of e ch sid]
    by (auto simp: u Let_def callEnd_slices session_at_left session_at_deleted left_entry)
qed

text \<open>
  The end of the call that this client is in disconnects the client: its websocket is told
  to leave and the window has no client any more.\<close>
theorem call_end_disconnects:
  assumes "ev_client e = Some c" and "\<not> cc_closed c" and "cc_channelID c = ch" and "ch \<noteq> []"
  shows "ev_client (callEnd ch e) = None \<and>
         EPlaySound ''leave_self'' \<in> set (ev_effects (callEnd ch e)) \<and>
         \<not> rs_clientConnecting (ev_plugin (callEnd ch e))"
proof -
  have cur: "channelIDForCurrentCall (getState e) = ch"
    using assms by (simp add: channelIDForCurrentCall_def getCallsClientChannelID_def)
  have d: "disconnect_client None e = on_client_close None (e\<lparr>ev_client := Some (disconnect None c)\<rparr>)"
    using assms by (simp add: disconnect_client_eq)
  show ?thesis
    by (simp add: callEnd_def cur d Let_def on_client_close_def removeIncomingCallNotification_def
        stopRingingForCall_def)
qed

lemma call_end_disconnects_witness:
  "ev_client (callEnd ''dm'' (sample_env\<lparr>ev_client :=
      Some ((new_client plain_config 5)\<lparr>cc_channelID := ''dm''\<rparr>)\<rparr>)) = None"
  by (rule call_end_disconnects [THEN conjunct1]) (simp_all add: new_client_def, simp_all)

text \<open>
  C20. Loading a call's state replaces what the store knows of the channel: exactly the sessions
  of the state, its call, its screen sharing session; and changes no other channel.\<close>
theorem load_call_state:
  assumes "batch_ok e"
  shows "let v = view_channel (ev_plugin (loadCallState ch call e)) ch
         in roster_of (rs_sessions (ev_plugin (loadCallState ch call e))) ch =
              Some (ss_session_id ` set (cd_sessions call)) \<and>
            cv_call v = Some (call_info_of ch call) \<and>
            cv_screen v = Some (cd_screen_sharing_session_id call) \<and>
            (c \<noteq> ch \<longrightarrow> view_channel (ev_plugin (loadCallState ch call e)) c =
                          view_channel (ev_plugin e) c)"
proof -
  let ?as = "call_state_actions ch call e"
  have p: "ev_plugin (loadCallState ch call e) = foldl store_dispatch (ev_plugin e) ?as"
    using assms by (auto simp: loadCallState_def Let_def batch_ok_def)
  have other: "view_channel (foldl store_dispatch (ev_plugin e) ?as) c = view_channel (ev_plugin e) c"
    if "c \<noteq> ch"
    by (rule store_chan.run_frame)
      (use that in \<open>auto simp: call_state_actions_def touches_def call_info_of_def\<close>)
  show ?thesis
    unfolding Let_def p
    using other
    by (auto simp: call_state_actions_def view_channel_def roster_of_set getSessionsMap_keys
        call_info_of_def)
qed

lemma load_call_state_witness:
  "roster_of (rs_sessions (ev_plugin (loadCallState ''dm'' \<lparr>cd_id = ''k'', cd_start_at = 3,
      cd_owner_id = ''you'', cd_thread_id = ''p'', cd_host_id = ''you'', cd_recording = None,
      cd_live_captions = None, cd_screen_sharing_session_id = [], cd_dismissed_notification = None,
      cd_sessions = []\<rparr> sample_env))) ''dm'' = Some {}"
  using load_call_state [OF sample_batch, of "''dm''" "\<lparr>cd_id = ''k'', cd_start_at = 3,
      cd_owner_id = ''you'', cd_thread_id = ''p'', cd_host_id = ''you'', cd_recording = None,
      cd_live_captions = None, cd_screen_sharing_session_id = [], cd_dismissed_notification = None,
      cd_sessions = []\<rparr>"]
  by (simp add: Let_def)

text \<open>
  A call's notification is shown once: when the channel and the caller are known, telling of
  an incoming call leaves the notifications of distinct calls distinct.\<close>
theorem incoming_calls_distinct:
  assumes "distinct (map ic_callID (rs_incomingCalls (ev_plugin e)))"
  shows "distinct (map ic_callID (rs_incomingCalls (ev_plugin
           (incomingCallOnChannel ch callID callerID startAt e))))"
  using assms
  by (auto simp: incomingCallOnChannel_def incoming_with_channel_def Let_def add_incoming_def
      incomingCalls_sel_def list_ex_iff split: option.splits)

lemma incoming_calls_distinct_witness:
  "distinct (map ic_callID (rs_incomingCalls (ev_plugin
     (incomingCallOnChannel ''dm'' ''k'' ''you'' 3 (incomingCallOnChannel ''dm'' ''k'' ''you'' 3
       (add_profiles [you] sample_env))))))"
  by (intro incoming_calls_distinct) (simp add: add_profiles_def sample_env_def init_root_def)

text \<open>
  The check for duplicates is made before the caller's profile is loaded: two reports of the
  same call while the profile is missing, the second before the first was answered, put the call
  on the list twice.\<close>
theorem incoming_call_race:
  assumes "obj_get (mm_channels (ev_mm e)) ch = Some chan" and "chn_type chan = ''D''"
    and "\<not> marked (rs_dismissedCalls (ev_plugin e)) ch"
    and "rs_incomingCalls (ev_plugin e) = []"
    and "mm_currentUserID (ev_mm e) \<noteq> callerID" and "idForCurrentCall (getState e) \<noteq> Some callID"
    and "obj_get (mm_profiles (ev_mm e)) callerID = None"
  shows "let e2 = incomingCallOnChannel ch callID callerID startAt
                    (incomingCallOnChannel ch callID callerID startAt e);
             ic = \<lparr>ic_callID = callID, ic_channelID = ch, ic_callerID = callerID,
                   ic_startAt = startAt, ic_type = DM\<rparr>
         in rs_incomingCalls (ev_plugin (resume (KCaller ic) None ps (resume (KCaller ic) None ps e2)))
              = [ic, ic]"
proof -
  have id: "idForCurrentCall (getState (await k (effect x e))) = idForCurrentCall (getState e)" for k x
    by (simp add: idForCurrentCall_def calls_sel_def channelIDForCurrentCall_def
        getCallsClientChannelID_def clientState_def)
  show ?thesis
    using assms id
    by (simp add: incomingCallOnChannel_def incoming_with_channel_def Let_def isDMChannel_def
        isGMChannel_def callDismissedNotification_def incomingCalls_sel_def resume_def
        add_incoming_def add_profiles_def)
qed

lemma incoming_call_race_witness:
  "let e2 = incomingCallOnChannel ''dm'' ''k'' ''you'' 3 (incomingCallOnChannel ''dm'' ''k'' ''you'' 3 sample_env);
       ic = \<lparr>ic_callID = ''k'', ic_channelID = ''dm'', ic_callerID = ''you'', ic_startAt = 3, ic_type = DM\<rparr>
   in rs_incomingCalls (ev_plugin (resume (KCaller ic) None [you] (resume (KCaller ic) None [you] e2)))
        = [ic, ic]"
  by (rule incoming_call_race)
    (simp_all add: sample_env_def sample_mm_def init_root_def obj_get_Cons idForCurrentCall_def
      calls_sel_def, simp_all)

text \<open>
  A dismissed call can be announced again: the check for dismissal looks up the channel in
  the marks, which are keyed by call, so a later report of the dismissed call shows it anew.\<close>
theorem dismissal_is_forgotten:
  assumes "obj_get (mm_channels (ev_mm e)) ch = Some chan" and "chn_type chan = ''D''"
    and "\<not> marked (rs_dismissedCalls (ev_plugin e)) ch" and "callID \<noteq> ch"
    and "mm_currentUserID (ev_mm e) \<noteq> callerID" and "idForCurrentCall (getState e) \<noteq> Some callID"
    and "obj_get (mm_profiles (ev_mm e)) callerID \<noteq> None"
  shows "let e1 = dismissIncomingCallNotification ch callID e;
             e2 = incomingCallOnChannel ch callID callerID startAt e1
         in marked (rs_dismissedCalls (ev_plugin e1)) callID \<and>
            callID \<notin> ic_callID ` set (rs_incomingCalls (ev_plugin e1)) \<and>
            callID \<in> ic_callID ` set (rs_incomingCalls (ev_plugin e2))"
proof -
  let ?e1 = "dismissIncomingCallNotification ch callID e"
  have f: "ev_mm ?e1 = ev_mm e" "ev_client ?e1 = ev_client e"
    "rs_calls (ev_plugin ?e1) = rs_calls (ev_plugin e)"
    "rs_clientState (ev_plugin ?e1) = rs_clientState (ev_plugin e)"
    "rs_dismissedCalls (ev_plugin ?e1) = obj_set callID True (rs_dismissedCalls (ev_plugin e))"
    "rs_incomingCalls (ev_plugin ?e1) =
       filter (\<lambda>ic. ic_callID ic \<noteq> callID) (rs_incomingCalls (ev_plugin e))"
    by (simp_all add: dismissIncomingCallNotification_def)
  have id: "idForCurrentCall (getState ?e1) = idForCurrentCall (getState e)"
    by (simp add: idForCurrentCall_def calls_sel_def channelIDForCurrentCall_def
        getCallsClientChannelID_def clientState_def f)
  show ?thesis
    using assms
    by (auto simp: Let_def incomingCallOnChannel_def incoming_with_channel_def isDMChannel_def
        callDismissedNotification_def incomingCalls_sel_def add_incoming_def f id list_ex_iff)
qed

lemma dismissal_is_forgotten_witness:
  "let e1 = dismissIncomingCallNotification ''dm'' ''k'' (add_profiles [you] sample_env);
       e2 = incomingCallOnChannel ''dm'' ''k'' ''you'' 3 e1
   in marked (rs_dismissedCalls (ev_plugin e1)) ''k'' \<and>
      ''k'' \<notin> ic_callID ` set (rs_incomingCalls (ev_plugin e1)) \<and>
      ''k'' \<in> ic_callID ` set (rs_incomingCalls (ev_plugin e2))"
  by (rule dismissal_is_forgotten)
    (simp_all add: sample_env_def sample_mm_def init_root_def obj_get_Cons idForCurrentCall_def
      calls_sel_def add_profiles_def you_def, simp_all)

end
