(* ===== verification/Handlers.thy ===== *)
theory Handlers imports Actions begin

text \<open>
  The websocket event handlers of \<open>webapp/src/websocket_handlers.ts\<close>, as functions on the
  environment. The channel of an event is in its data or, when that field is empty, in its
  broadcast; \<open>event_channel\<close> picks it.
\<close>

record event_meta =
  em_data_channel :: string \<comment> \<open>\<open>ev.data.channelID\<close>, empty when absent\<close>
  em_broadcast_channel :: string
  em_broadcast_user :: string

definition event_channel :: "event_meta \<Rightarrow> string" where
  "event_channel m = str_or (em_data_channel m) (em_broadcast_channel m)"

section \<open>The call\<close>

definition handleCallEnd :: "event_meta \<Rightarrow> env \<Rightarrow> env" where
  "handleCallEnd m = callEnd (event_channel m)"

text \<open>A payload that is not JSON is only logged.\<close>

definition handleCallState :: "string \<Rightarrow> call_data option \<Rightarrow> env \<Rightarrow> env" where
  "handleCallState channel_id parsed e =
     (case parsed of None \<Rightarrow> e | Some call \<Rightarrow> loadCallState channel_id call e)"

definition followThread :: "string \<Rightarrow> string option \<Rightarrow> env \<Rightarrow> env" where
  "followThread channelID teamID e =
     (if str_of teamID = [] then e
      else
        let threadID = threadIDForCallInChannel (getState e) channelID
        in if threadID = [] then e
           else effect (EFollowThread (mm_currentUserID (ev_mm e)) (str_of teamID) threadID) e)"

record call_start =
  cst_id :: string
  cst_start_at :: int
  cst_owner_id :: string
  cst_host_id :: string
  cst_thread_id :: string

definition handleCallStart :: "event_meta \<Rightarrow> call_start \<Rightarrow> env \<Rightarrow> env" where
  "handleCallStart m d e =
     (let ch = event_channel m;
          e1 = dispatch (CALL_RECORDING_STATE ch None) e;
          e2 = dispatch (CALL_LIVE_CAPTIONS_STATE ch None) e1;
          e3 = dispatch (CALL_STATE \<lparr>ci_ID = cst_id d, ci_startAt = cst_start_at d, ci_channelID = ch,
                 ci_threadID = cst_thread_id d, ci_ownerID = cst_owner_id d,
                 ci_hostID = Some (cst_host_id d)\<rparr>) e2;
          e4 = dispatch (CALL_HOST ch (cst_host_id d) (cst_start_at d)) e3
      in if map_option cc_channelID (ev_client e4) = Some ch
         then (case obj_get (mm_channels (ev_mm e4)) ch of
                 None \<Rightarrow> e4 | Some c \<Rightarrow> followThread (chn_id c) (Some (chn_team_id c)) e4)
         else if ringingEnabled (getState e4)
         then incomingCallOnChannel ch (cst_id d) (cst_owner_id d) (cst_start_at d) e4
         else e4)"

section \<open>Sessions\<close>

definition handleUserLeft :: "event_meta \<Rightarrow> string \<Rightarrow> string \<Rightarrow> env \<Rightarrow> env" where
  "handleUserLeft m userID sessionID = userLeft (event_channel m) userID sessionID"

definition handleUserJoined :: "event_meta \<Rightarrow> string \<Rightarrow> string \<Rightarrow> env \<Rightarrow> env" where
  "handleUserJoined m userID sessionID e =
     (let ch = event_channel m;
          me = mm_currentUserID (ev_mm e);
          e1 = (if map_option cc_channelID (ev_client e) = Some ch
                then (if sessionID = getCallsClientSessionID (getState e)
                      then effect (EPlaySound ''join_self'') e
                      else if userID \<noteq> me \<and> shouldPlayJoinUserSound (getState e)
                      then effect (EPlaySound ''join_user'') e
                      else e)
                else e);
          e2 = (if userID = me \<and> ringingEnabled (getState e1)
                then effect EStopRing
                       (removeIncomingCallNotification
                         (str_of (idForCallInChannel (getState e1) ch)) e1)
                else e1);
          e3 = loadProfilesByIdsIfMissing [userID] e2;
          e4 = dispatch (USER_JOINED ch userID sessionID) e3
      in setTimeout (TDispatch (USER_JOINED_TIMEOUT ch userID)) JOINED_USER_NOTIFICATION_TIMEOUT e4)"

definition handleUserMuted :: "event_meta \<Rightarrow> string \<Rightarrow> string \<Rightarrow> env \<Rightarrow> env" where
  "handleUserMuted m uid sid = dispatch (USER_MUTED (event_channel m) uid sid)"

definition handleUserUnmuted :: "event_meta \<Rightarrow> string \<Rightarrow> string \<Rightarrow> env \<Rightarrow> env" where
  "handleUserUnmuted m uid sid = dispatch (USER_UNMUTED (event_channel m) uid sid)"

definition handleUserVoiceOn :: "event_meta \<Rightarrow> string \<Rightarrow> string \<Rightarrow> env \<Rightarrow> env" where
  "handleUserVoiceOn m uid sid = dispatch (USER_VOICE_ON (event_channel m) uid sid)"

definition handleUserVoiceOff :: "event_meta \<Rightarrow> string \<Rightarrow> string \<Rightarrow> env \<Rightarrow> env" where
  "handleUserVoiceOff m uid sid = dispatch (USER_VOICE_OFF (event_channel m) uid sid)"

definition handleUserScreenOn :: "event_meta \<Rightarrow> string \<Rightarrow> env \<Rightarrow> env" where
  "handleUserScreenOn m sid = dispatch (USER_SCREEN_ON (event_channel m) sid)"

definition handleUserScreenOff :: "event_meta \<Rightarrow> string \<Rightarrow> env \<Rightarrow> env" where
  "handleUserScreenOff m sid = dispatch (USER_SCREEN_OFF (event_channel m) sid)"

definition handleUserRaisedHand :: "event_meta \<Rightarrow> string \<Rightarrow> string \<Rightarrow> int \<Rightarrow> env \<Rightarrow> env" where
  "handleUserRaisedHand m uid sid hand = dispatch (USER_RAISE_HAND (event_channel m) uid sid (Some hand))"

definition handleUserUnraisedHand :: "event_meta \<Rightarrow> string \<Rightarrow> string \<Rightarrow> int \<Rightarrow> env \<Rightarrow> env" where
  "handleUserUnraisedHand m uid sid hand =
     dispatch (USER_LOWER_HAND (event_channel m) uid sid (Some hand))"

definition handleUserVideoOn :: "event_meta \<Rightarrow> string \<Rightarrow> string \<Rightarrow> env \<Rightarrow> env" where
  "handleUserVideoOn m uid sid = dispatch (USER_VIDEO_ON (event_channel m) uid sid)"

definition handleUserVideoOff :: "event_meta \<Rightarrow> string \<Rightarrow> string \<Rightarrow> env \<Rightarrow> env" where
  "handleUserVideoOff m uid sid = dispatch (USER_VIDEO_OFF (event_channel m) uid sid)"

section \<open>Reactions and captions\<close>

definition current_display_name :: "env \<Rightarrow> string \<Rightarrow> string" where
  "current_display_name e uid =
     getUserDisplayName (obj_get (profilesInCurrentCallMap (getState e)) uid) False"

record reaction_data =
  rd_user_id :: string
  rd_session_id :: string
  rd_emoji :: string
  rd_timestamp :: int

definition handleUserReaction :: "event_meta \<Rightarrow> reaction_data \<Rightarrow> env \<Rightarrow> env" where
  "handleUserReaction m d e =
     (let ch = event_channel m;
          r = \<lparr>rc_user_id = rd_user_id d, rc_session_id = rd_session_id d, rc_emoji = rd_emoji d,
               rc_timestamp = rd_timestamp d, rc_displayName = current_display_name e (rd_user_id d)\<rparr>
      in if channelIDForCurrentCall (getState e) \<noteq> ch then e
         else setTimeout
                (TDispatch (USER_REACTED_TIMEOUT ch (rd_user_id d) (rd_session_id d) (Some r)))
                REACTION_TIMEOUT_IN_REACTION_STREAM
                (dispatch (USER_REACTED ch (rd_user_id d) (rd_session_id d) (Some r)) e))"

record caption_data =
  cpd_channel_id :: string
  cpd_session_id :: string
  cpd_user_id :: string
  cpd_text :: string

definition handleCaption :: "caption_data \<Rightarrow> env \<Rightarrow> env" where
  "handleCaption d e =
     (let ch = cpd_channel_id d;
          c = \<lparr>lc_channel_id = ch, lc_session_id = cpd_session_id d, lc_user_id = cpd_user_id d,
               lc_text = cpd_text d, lc_display_name = current_display_name e (cpd_user_id d),
               lc_caption_id = next_id e\<rparr>
      in if channelIDForCurrentCall (getState e) \<noteq> ch then e
         else setTimeout
                (TDispatch (LIVE_CAPTION_TIMEOUT_EVENT ch (lc_session_id c) (lc_caption_id c)))
                LIVE_CAPTION_TIMEOUT (dispatch (LIVE_CAPTION c) (draw_id e)))"

section \<open>Hosts\<close>

text \<open>\<open>profilesInCurrentCallMap(..)[id] || getUser(.., id)\<close>\<close>

definition profile_or_user :: "env \<Rightarrow> string \<Rightarrow> user_profile option" where
  "profile_or_user e uid =
     (case obj_get (profilesInCurrentCallMap (getState e)) uid of
        Some p \<Rightarrow> Some p | None \<Rightarrow> obj_get (mm_profiles (ev_mm e)) uid)"

text \<open>A notice that shows now and whose timer is set now.\<close>

definition show_notice :: "host_notice \<Rightarrow> env \<Rightarrow> env" where
  "show_notice n e = setTimeout
     (TDispatch (HOST_CONTROL_NOTICE_TIMEOUT_EVENT (hn_callID n) (hn_noticeID n)))
     HOST_CONTROL_NOTICE_TIMEOUT (dispatch (HOST_CONTROL_NOTICE n) (draw_id e))"

definition handleCallHostChanged :: "event_meta \<Rightarrow> string \<Rightarrow> string \<Rightarrow> env \<Rightarrow> env" where
  "handleCallHostChanged m hostID call_id e =
     (let e1 = dispatch (CALL_HOST (event_channel m) hostID (ev_now e)) e
      in case profile_or_user e1 hostID of
           None \<Rightarrow> e1
         | Some p \<Rightarrow> show_notice \<lparr>hn_type = HostChanged, hn_callID = call_id, hn_noticeID = next_id e1,
                       hn_displayName = getUserDisplayName (Some p) False, hn_userID = Some hostID\<rparr> e1)"

definition handleCallJobState :: "string \<Rightarrow> job_state \<Rightarrow> env \<Rightarrow> env" where
  "handleCallJobState callID j0 e =
     (let j = (if str_of (jb_err j0) \<noteq> [] then j0\<lparr>jb_error_at := Some (ev_now e)\<rparr> else j0)
      in if jb_type j = Some ''recording'' then dispatch (CALL_RECORDING_STATE callID (Some j)) e
         else if jb_type j = Some ''captioning'' then dispatch (CALL_LIVE_CAPTIONS_STATE callID (Some j)) e
         else dispatch OTHER_ACTION e)"

definition handleUserDismissedNotification :: "string \<Rightarrow> string \<Rightarrow> env \<Rightarrow> env" where
  "handleUserDismissedNotification userID callID e =
     (if userID \<noteq> mm_currentUserID (ev_mm e) then e
      else dispatch (DISMISS_CALL callID) (removeIncomingCallNotification callID e))"

definition handleUserRemovedFromChannel ::
  "string \<Rightarrow> string \<Rightarrow> string \<Rightarrow> event_meta \<Rightarrow> env \<Rightarrow> env" where
  "handleUserRemovedFromChannel channel_id user_id remover_id m e =
     (let ch = str_or channel_id (em_broadcast_channel m);
          me = mm_currentUserID (ev_mm e);
          removed = str_or user_id (em_broadcast_user m)
      in if removed = me \<and> ch = channelIDForCurrentCall (getState e)
         then disconnect_client
                (Some (if remover_id = me then UserLeftChannelErr else UserRemovedFromChannelErr)) e
         else e)"

text \<open>
  The guard of the host's commands: they are for this client when it is in the channel and its
  session is the one named.
\<close>

definition in_channel :: "string \<Rightarrow> env \<Rightarrow> bool" where
  "in_channel channelID e = (map_option cc_channelID (ev_client e) = Some channelID)"

definition is_my_session :: "string \<Rightarrow> env \<Rightarrow> bool" where
  "is_my_session sessionID e = (Option.bind (ev_client e) getSessionID = Some sessionID)"

definition for_me :: "string \<Rightarrow> string \<Rightarrow> env \<Rightarrow> bool" where
  "for_me channelID sessionID e = (in_channel channelID e \<and> is_my_session sessionID e)"

definition handleHostMute :: "string \<Rightarrow> string \<Rightarrow> env \<Rightarrow> env" where
  "handleHostMute channelID sessionID e =
     (if for_me channelID sessionID e then client_call mute e else e)"

definition handleHostScreenOff :: "string \<Rightarrow> string \<Rightarrow> env \<Rightarrow> env" where
  "handleHostScreenOff channelID sessionID e =
     (if for_me channelID sessionID e then client_call unshareScreen e else e)"

text \<open>
  The notice of a lowered hand is shown from the event loop, before the timer that removes it.
\<close>

definition handleHostLowerHand :: "string \<Rightarrow> string \<Rightarrow> string \<Rightarrow> string \<Rightarrow> env \<Rightarrow> env" where
  "handleHostLowerHand channelID sessionID call_id host_id e =
     (if \<not> for_me channelID sessionID e then e
      else
        let e1 = client_call unraiseHand e;
            n = \<lparr>hn_type = LowerHand, hn_callID = call_id, hn_noticeID = next_id e1,
                 hn_displayName = current_display_name e1 host_id, hn_userID = None\<rparr>
        in setTimeout (TDispatch (HOST_CONTROL_NOTICE_TIMEOUT_EVENT call_id (hn_noticeID n)))
             HOST_CONTROL_NOTICE_TIMEOUT
             (setTimeout (TDispatch (HOST_CONTROL_NOTICE n)) 0 (draw_id e1)))"

definition handleHostRemoved :: "string \<Rightarrow> string \<Rightarrow> string \<Rightarrow> string \<Rightarrow> env \<Rightarrow> env" where
  "handleHostRemoved channelID sessionID call_id user_id e =
     (if \<not> in_channel channelID e then e
      else if is_my_session sessionID e then disconnect_client (Some HostRemovedErr) e
      else (case profile_or_user e user_id of
              None \<Rightarrow> e
            | Some p \<Rightarrow> show_notice \<lparr>hn_type = HostRemoved, hn_callID = call_id, hn_noticeID = next_id e,
                          hn_displayName = getUserDisplayName (Some p) False, hn_userID = None\<rparr> e))"

section \<open>What the handlers keep\<close>

lemma incoming_with_channel_recordings [simp]:
  "rs_recordings (ev_plugin (incoming_with_channel c ch k u t e)) = rs_recordings (ev_plugin e)"
  by (simp add: incoming_with_channel_def Let_def add_incoming_def)

lemma incomingCall_recordings [simp]:
  "rs_recordings (ev_plugin (incomingCallOnChannel ch k u t e)) = rs_recordings (ev_plugin e)"
  by (simp add: incomingCallOnChannel_def split: option.splits)

lemma followThread_plugin [simp]: "ev_plugin (followThread ch t e) = ev_plugin e"
  by (simp add: followThread_def Let_def)

text \<open>What \<open>handleUserJoined\<close> does before it adds the session: sounds, notifications, profiles.\<close>

lemma joined_sessions:
  "rs_sessions (ev_plugin (handleUserJoined m u s e)) =
     user_joined (event_channel m) u s (rs_sessions (ev_plugin e))"
  by (simp add: handleUserJoined_def Let_def removeIncomingCallNotification_def)

lemma joined_recents:
  "rs_recentlyJoinedUsers (ev_plugin (handleUserJoined m u s e)) =
     recentlyJoinedUsers (rs_recentlyJoinedUsers (ev_plugin e)) (USER_JOINED (event_channel m) u s)"
  by (simp add: handleUserJoined_def Let_def removeIncomingCallNotification_def
      del: recentlyJoinedUsers.simps) (simp split: option.splits)

lemma joined_timer:
  "ev_now e = now \<Longrightarrow>
   (now + JOINED_USER_NOTIFICATION_TIMEOUT, TDispatch (USER_JOINED_TIMEOUT (event_channel m) u))
     \<in> set (ev_timers (handleUserJoined m u s e))"
  by (auto simp: handleUserJoined_def Let_def removeIncomingCallNotification_def
      stopRingingForCall_def loadProfilesByIdsIfMissing_def await_def effect_def)

section \<open>Notices and their timers\<close>

lemma run_notices:
  "rs_hostControlNotices (foldl store_dispatch st as) = foldl notices_dispatch (rs_hostControlNotices st) as"
  by (rule run_proj) simp

text \<open>The timer of a notice that was received removes it, after any actions, without throwing.\<close>

lemma notice_timer_safe:
  assumes "has_notices (rs_hostControlNotices st) (hn_callID n)"
  shows "\<exists>st' ns. rootReducer (foldl store_dispatch st as)
             (HOST_CONTROL_NOTICE_TIMEOUT_EVENT (hn_callID n) (hn_noticeID n)) = Inr st' \<and>
           obj_get (rs_hostControlNotices st') (hn_callID n) = Some ns \<and> n \<notin> set ns"
proof -
  let ?st = "foldl store_dispatch st as"
  have "has_notices (rs_hostControlNotices ?st) (hn_callID n)"
    using assms has_notices_run unfolding run_notices by blast
  then obtain ns where ns: "obj_get (rs_hostControlNotices ?st) (hn_callID n) = Some ns"
    by (auto simp: has_notices_def)
  have "n \<notin> set (removeHostControlNotice ns (hn_noticeID n))"
    by (simp add: removeHostControlNotice_def)
  then show ?thesis by (simp add: rootReducer_def ns)
qed

lemma show_notice_notices:
  "obj_get (rs_hostControlNotices (ev_plugin (show_notice n e))) (hn_callID n) =
     Some (addHostControlNotice (obj_get (rs_hostControlNotices (ev_plugin e)) (hn_callID n)) n)"
  by (simp add: show_notice_def notices_dispatch_def)

lemma show_notice_timer:
  "(ev_now e + HOST_CONTROL_NOTICE_TIMEOUT,
    TDispatch (HOST_CONTROL_NOTICE_TIMEOUT_EVENT (hn_callID n) (hn_noticeID n)))
     \<in> set (ev_timers (show_notice n e))"
  by (simp add: show_notice_def)

lemma show_notice_safe:
  "\<exists>st' ns. rootReducer (foldl store_dispatch (ev_plugin (show_notice n e)) as)
             (HOST_CONTROL_NOTICE_TIMEOUT_EVENT (hn_callID n) (hn_noticeID n)) = Inr st' \<and>
           obj_get (rs_hostControlNotices st') (hn_callID n) = Some ns \<and> n \<notin> set ns"
  by (rule notice_timer_safe) (simp add: has_notices_def show_notice_notices)

lemma show_notice_hosts [simp]: "rs_hosts (ev_plugin (show_notice n e)) = rs_hosts (ev_plugin e)"
  by (simp add: show_notice_def)

section \<open>Properties\<close>

text \<open>
  A new call in a channel does not clear the recording of the channel's previous call,
  although the handler means to: the recording is still there after \<open>call_start\<close>.\<close>
theorem call_start_keeps_old_recording:
  assumes "obj_get (rs_recordings (ev_plugin e)) (event_channel m) = Some j"
  shows "obj_get (rs_recordings (ev_plugin (handleCallStart m d e))) (event_channel m) = Some j"
  using assms by (simp add: handleCallStart_def Let_def split: option.splits)

lemma call_start_keeps_old_recording_witness:
  "obj_get (rs_recordings (ev_plugin (handleCallStart
       \<lparr>em_data_channel = ''dm'', em_broadcast_channel = [], em_broadcast_user = []\<rparr>
       \<lparr>cst_id = ''k'', cst_start_at = 3, cst_owner_id = ''you'', cst_host_id = ''you'', cst_thread_id = ''p''\<rparr>
       (dispatch (CALL_RECORDING_STATE ''dm'' (Some (empty_job\<lparr>jb_end_at := Some 2\<rparr>))) sample_env)))) ''dm''
   = Some (spread_job None (Some (empty_job\<lparr>jb_end_at := Some 2\<rparr>)))"
  using call_start_keeps_old_recording [where m = "\<lparr>em_data_channel = ''dm'', em_broadcast_channel = [],
        em_broadcast_user = []\<rparr>" and d = "\<lparr>cst_id = ''k'', cst_start_at = 3, cst_owner_id = ''you'',
        cst_host_id = ''you'', cst_thread_id = ''p''\<rparr>"
      and e = "dispatch (CALL_RECORDING_STATE ''dm'' (Some (empty_job\<lparr>jb_end_at := Some 2\<rparr>))) sample_env"]
  by (simp add: event_channel_def sample_env_def init_root_def)

text \<open>
  C40. When the host changes to a user whose profile is known, the store has the new host and
  shows a notice, and a timer is set that, whatever actions come in between, removes the notice
  without throwing.\<close>
theorem host_change_notice:
  assumes "obj_get (mm_profiles (ev_mm e)) hostID = Some p"
  shows "let e' = handleCallHostChanged m hostID call_id e
    in map_option he_hostID (obj_get (rs_hosts (ev_plugin e')) (event_channel m)) = Some hostID \<and>
       (\<exists>n ns. obj_get (rs_hostControlNotices (ev_plugin e')) call_id = Some ns \<and> n \<in> set ns \<and>
          hn_type n = HostChanged \<and> hn_userID n = Some hostID \<and>
          (ev_now e + HOST_CONTROL_NOTICE_TIMEOUT,
           TDispatch (HOST_CONTROL_NOTICE_TIMEOUT_EVENT call_id (hn_noticeID n))) \<in> set (ev_timers e') \<and>
          (\<forall>as. \<exists>st' ns'. rootReducer (foldl store_dispatch (ev_plugin e') as)
                   (HOST_CONTROL_NOTICE_TIMEOUT_EVENT call_id (hn_noticeID n)) = Inr st' \<and>
                 obj_get (rs_hostControlNotices st') call_id = Some ns' \<and> n \<notin> set ns'))"
proof -
  let ?e1 = "dispatch (CALL_HOST (event_channel m) hostID (ev_now e)) e"
  obtain q where q: "profile_or_user ?e1 hostID = Some q"
    using assms by (cases "obj_get (profilesInCurrentCallMap (getState ?e1)) hostID")
      (auto simp: profile_or_user_def)
  define n where "n = \<lparr>hn_type = HostChanged, hn_callID = call_id, hn_noticeID = next_id ?e1,
    hn_displayName = getUserDisplayName (Some q) False, hn_userID = Some hostID\<rparr>"
  have e': "handleCallHostChanged m hostID call_id e = show_notice n ?e1"
    by (simp add: handleCallHostChanged_def Let_def q n_def)
  have n: "hn_callID n = call_id" "hn_type n = HostChanged" "hn_userID n = Some hostID"
    by (simp_all add: n_def)
  have "n \<in> set (addHostControlNotice x n)" for x by (simp add: addHostControlNotice_def)
  then show ?thesis
    using show_notice_notices [of n ?e1] show_notice_timer [of ?e1 n] show_notice_safe [of n ?e1] n
    by (auto simp: Let_def e' intro!: exI [of _ n])
qed

lemma host_change_notice_witness:
  "map_option he_hostID (obj_get (rs_hosts (ev_plugin (handleCallHostChanged
      \<lparr>em_data_channel = ''dm'', em_broadcast_channel = [], em_broadcast_user = []\<rparr> ''you'' ''k''
      (add_profiles [you] sample_env)))) (event_channel
      \<lparr>em_data_channel = ''dm'', em_broadcast_channel = [], em_broadcast_user = []\<rparr>)) = Some ''you''"
  by (rule host_change_notice [unfolded Let_def, THEN conjunct1])
    (simp add: add_profiles_def sample_env_def sample_mm_def you_def)

text \<open>
  A user who joins appears with a fresh session and on the list of recently joined users;
  the timer set then takes them off the list, and only that changes in the sessions of a channel.\<close>
theorem user_joined_effect:
  "let e' = handleUserJoined m u s e; ch = event_channel m
   in session_at (rs_sessions (ev_plugin e')) ch s = Some (fresh_session u s) \<and>
      u \<in> recents (rs_recentlyJoinedUsers (ev_plugin e')) ch \<and>
      (ev_now e + JOINED_USER_NOTIFICATION_TIMEOUT, TDispatch (USER_JOINED_TIMEOUT ch u))
        \<in> set (ev_timers e') \<and>
      u \<notin> recents (rs_recentlyJoinedUsers (ev_plugin (run_task (TDispatch (USER_JOINED_TIMEOUT ch u)) e'))) ch \<and>
      rs_sessions (ev_plugin (run_task (TDispatch (USER_JOINED_TIMEOUT ch u)) e')) =
        rs_sessions (ev_plugin e')"
  unfolding Let_def
  by (simp add: joined_sessions session_at_joined joined_recents joined_timer run_task_def
      recents_step del: recentlyJoinedUsers.simps)

text \<open>
  A host's command to mute reaches only the client whose session it names: that client's
  track is disabled, its session shown as muted and the server told; any other client ignores it.\<close>
theorem host_mute_effect:
  assumes "ev_client e = Some c" and "cc_ws c = Some w" and "cc_peer c"
    and "cc_audioTrack c = Some a" and "cc_stream c \<noteq> None"
    and "session_at (rs_sessions (ev_plugin e)) (cc_channelID c) (ws_originalConnID w) = Some s"
  shows "(channelID \<noteq> cc_channelID c \<or> sessionID \<noteq> ws_originalConnID w \<longrightarrow>
            handleHostMute channelID sessionID e = e) \<and>
    (let e' = handleHostMute (cc_channelID c) (ws_originalConnID w) e
     in session_at (rs_sessions (ev_plugin e')) (cc_channelID c) (ws_originalConnID w) =
          Some (s\<lparr>us_unmuted := Some False\<rparr>) \<and>
        Option.bind (ev_client e') cc_ws = Some (ws_send ''mute'' None False w))"
proof
  show "channelID \<noteq> cc_channelID c \<or> sessionID \<noteq> ws_originalConnID w \<longrightarrow>
            handleHostMute channelID sessionID e = e"
    using assms(1,2)
    by (auto simp: handleHostMute_def for_me_def in_channel_def is_my_session_def getSessionID_def)
next
  have me: "for_me (cc_channelID c) (ws_originalConnID w) e"
    using assms(1,2) by (auto simp: for_me_def in_channel_def is_my_session_def getSessionID_def)
  have m: "mute c = cc_send ''mute'' None False
             (cc_emit CMute (track_enable False a (peer_do (PReplaceTrack a None) c)))"
    using assms by (auto simp: mute_def)
  have ch: "cc_channelID (mute c) = cc_channelID c"
    by (simp add: m cc_send_def cc_emit_def track_enable_def upd_track_def peer_do_def
        split: option.splits)
  have ws: "cc_ws (mute c) = Some (ws_send ''mute'' None False w)" using assms(2) by (simp add: m)
  have sid: "getSessionID (mute c) = Some (ws_originalConnID w)"
    by (simp add: getSessionID_def ws)
  have em: "drop (length (cc_emitted c)) (cc_emitted (mute c)) = [CMute]" by (simp add: m)
  have h: "handleHostMute (cc_channelID c) (ws_originalConnID w) e =
      dispatch (USER_MUTED (cc_channelID c) (mm_currentUserID (ev_mm e)) (ws_originalConnID w))
        (e\<lparr>ev_client := Some (mute c)\<rparr>)"
    using me assms(1)
    by (simp add: handleHostMute_def client_call_def em self_event_def js_key_def ch sid)
  have "obj_get (rs_sessions (ev_plugin e)) (cc_channelID c) \<noteq> None"
    using assms(6) by (auto elim: session_at_SomeE)
  then show "let e' = handleHostMute (cc_channelID c) (ws_originalConnID w) e
     in session_at (rs_sessions (ev_plugin e')) (cc_channelID c) (ws_originalConnID w) =
          Some (s\<lparr>us_unmuted := Some False\<rparr>) \<and>
        Option.bind (ev_client e') cc_ws = Some (ws_send ''mute'' None False w)"
    using assms(6) by (auto simp: Let_def h ws user_muted_def session_at_put spread_session_def)
qed

lemma host_mute_effect_witness:
  "let w = opened_ws\<lparr>ws_originalConnID := ''s''\<rparr>;
       c = (new_client plain_config 5)\<lparr>cc_channelID := ''dm'', cc_ws := Some w, cc_peer := True,
              cc_audioTrack := Some ''a'', cc_stream := Some \<lparr>st_id = ''m'', st_tracks = [''a'']\<rparr>\<rparr>;
       e = (dispatch (USER_JOINED ''dm'' ''me'' ''s'') sample_env)\<lparr>ev_client := Some c\<rparr>
   in ''dm'' \<noteq> cc_channelID c \<or> ''t'' \<noteq> ws_originalConnID w \<longrightarrow> handleHostMute ''dm'' ''t'' e = e"
  unfolding Let_def
  by (rule host_mute_effect [where s = "fresh_session ''me'' ''s''", THEN conjunct1])
    (simp_all add: session_at_joined)

end
