(* ===== verification/Connect.thy ===== *)
theory Connect imports Handlers begin

text \<open>
  How a call is joined: \<open>joinCall\<close>, \<open>connectToCall\<close> and \<open>connectCall\<close> of
  \<open>webapp/src/index.tsx\<close> and the answer of the desktop app (\<open>webapp/src/desktop.ts\<close>).

  \<open>connectCall\<close> may wait, for the desktop app or for TURN credentials; it returns the environment
  that it leaves and what it waits for, and the answer continues it. Exceptions of the browser
  while the widget is mounted are not modelled.
\<close>

section \<open>The window\<close>

text \<open>
  What the code asks of the window: the page, the parser of the desktop app's version, which
  functions the desktop app offers (\<open>window.desktopAPI\<close>), and the test of the server's version
  for the locking of data channels, which is of another package.
\<close>

record host_window =
  hw_page :: page
  hw_parseSemVer :: "string \<Rightarrow> int \<times> int"
  hw_hasDCSignalingLockSupport :: "(string, string) obj \<Rightarrow> bool"
  hw_websocketURL :: "string option" \<comment> \<open>of the server's configuration\<close>
  hw_protocol :: string
  hw_host :: string
  hw_basename :: string
  hw_urlVersion :: string
  hw_joinCall :: bool
  hw_leaveCall :: bool
  hw_onOpenScreenShareModal :: bool
  hw_onJoinCallRequest :: bool
  hw_onCallsError :: bool
  hw_openLinkFromCalls :: bool

definition rendersDesktopWidget :: "host_window \<Rightarrow> bool" where
  "rendersDesktopWidget h = shouldRenderDesktopWidget (hw_parseSemVer h) (hw_page h)"

text \<open>
  The address of the websocket: of the configuration or else of the page, with the version prefix
  of the REST client.
\<close>

definition getWSConnectionURL :: "host_window \<Rightarrow> string" where
  "getWSConnectionURL h =
     (let uri = (if hw_protocol h = ''https:'' then ''wss:'' else ''ws:'');
          configured = str_of (hw_websocketURL h);
          baseURL = (if configured \<noteq> [] then configured else uri @ ''//'' @ hw_host h @ hw_basename h)
      in baseURL @ hw_urlVersion h @ ''/websocket'')"

section \<open>The desktop app\<close>

definition handleDesktopJoinedCall ::
  "host_window \<Rightarrow> string \<Rightarrow> string \<Rightarrow> string option \<Rightarrow> env \<Rightarrow> env" where
  "handleDesktopJoinedCall h callID sessionID ty e =
     (if \<not> desktopGTE (hw_parseSemVer h) (hw_page h) 5 5 \<and> ty = Some ''calls-join-request''
      then showSwitchCallModal (Some callID) e
      else dispatch (DESKTOP_WIDGET_CONNECTED callID sessionID) e)"

section \<open>Connecting\<close>

record connect_args =
  ca_channelID :: string
  ca_title :: "string option"
  ca_rootId :: "string option"

datatype connect_wait = Finished | WaitDesktop | WaitTurn client_config connect_args

definition payload_of :: "connect_args \<Rightarrow> env \<Rightarrow> join_payload" where
  "payload_of a e =
     (let ch = ca_channelID a; mm = ev_mm e
      in \<lparr>jp_callID = ch, jp_title = str_of (ca_title a),
          jp_channelURL = getChannelURL mm (obj_get (mm_channels mm) ch) (Some (mm_currentTeamID mm)),
          jp_rootID = str_of (ca_rootId a), jp_startingCall = (\<not> channelHasCall (getState e) ch)\<rparr>)"

definition client_config_of :: "host_window \<Rightarrow> connect_args \<Rightarrow> env \<Rightarrow> client_config" where
  "client_config_of h a e =
     (let gs = getState e; cfg = callsConfig_sel gs
      in \<lparr>cf_wsURL = getWSConnectionURL h, cf_iceServers = iceServers gs, cf_authToken = [],
          cf_simulcast = EnableSimulcast cfg, cf_enableAV1 = EnableAV1 cfg,
          cf_dcSignaling = EnableDCSignaling cfg,
          cf_dcLocking = hw_hasDCSignalingLockSupport h (rs_callsVersionInfo (gs_plugin gs)),
          cf_enableVideo =
            (EnableVideo cfg \<and> isDMChannel (obj_get (mm_channels (gs_mm gs)) (ca_channelID a)))\<rparr>)"

text \<open>
  The client is created, the call data refers to its default object, the listeners are those of
  \<open>on_client_event\<close>, and \<open>init\<close> is called, which sets the channel before it first waits.
\<close>

definition start_client :: "client_config \<Rightarrow> connect_args \<Rightarrow> env \<Rightarrow> env" where
  "start_client cf a e = setClientConnecting True
     (e\<lparr>ev_client := Some ((new_client cf (ev_now e))\<lparr>cc_channelID := ca_channelID a\<rparr>),
        ev_callData := True\<rparr>)"

definition connectCall :: "host_window \<Rightarrow> connect_args \<Rightarrow> env \<Rightarrow> env \<times> connect_wait" where
  "connectCall h a e =
     (if hw_joinCall h
      then (effect (EDesktopJoin (payload_of a e)) (setClientConnecting True e), WaitDesktop)
      else if rendersDesktopWidget h
      then (effect (EDesktopJoinEvent (payload_of a e)) (setClientConnecting True e), Finished)
      else if ev_client e \<noteq> None then (e, Finished)
      else if needsTURNCredentials (getState e)
      then (effect (EFetch ''get'' ''/turn-credentials'' []) e, WaitTurn (client_config_of h a e) a)
      else (start_client (client_config_of h a e) a e, Finished))"

text \<open>The credentials, or a failure, which is only logged.\<close>

definition turn_answered :: "error + string list \<Rightarrow> client_config \<Rightarrow> connect_args \<Rightarrow> env \<Rightarrow> env" where
  "turn_answered res cf a e =
     (let creds = (case res of Inl err \<Rightarrow> [] | Inr servers \<Rightarrow> servers)
      in start_client (cf\<lparr>cf_iceServers := cf_iceServers cf @ creds\<rparr>) a e)"

text \<open>The desktop app's answer; a rejected promise rejects \<open>connectCall\<close>, which nobody awaits.\<close>

definition desktop_answered ::
  "host_window \<Rightarrow> error + (string \<times> string \<times> string option) \<Rightarrow> env \<Rightarrow> env" where
  "desktop_answered h res e = (case res of
       Inl err \<Rightarrow> e
     | Inr (callID, sessionID, ty) \<Rightarrow>
         setClientConnecting False (handleDesktopJoinedCall h callID sessionID ty e))"

text \<open>The \<open>catch\<close> of the client's \<open>init\<close>.\<close>

definition init_failed :: "string \<Rightarrow> env \<Rightarrow> env" where
  "init_failed channelID e =
     (displayCallErrorModal (Some channelID) (setClientConnecting False e))\<lparr>ev_client := None\<rparr>"

definition connectToCall ::
  "host_window \<Rightarrow> connect_args \<Rightarrow> string option \<Rightarrow> env \<Rightarrow> env \<times> connect_wait" where
  "connectToCall h a teamId e =
     (let ch = ca_channelID a;
          current = (case ev_client e of
                       Some c \<Rightarrow> cc_channelID c | None \<Rightarrow> channelIDForCurrentCall (getState e))
      in if rs_clientConnecting (ev_plugin e) then (e, Finished)
         else if current = []
         then (case connectCall h a (setClientConnecting True e) of (e1, w) \<Rightarrow>
                 (if channelHasCall (getState e1) ch then followThread ch teamId e1 else e1, w))
         else if current \<noteq> ch then (showSwitchCallModal (Some ch) e, Finished)
         else (e, Finished))"

section \<open>Joining\<close>

definition DisabledCallsErr :: error where
  "DisabledCallsErr = Error ''Cannot start or join call: calls are disabled in this channel.''"

definition joinCall ::
  "host_window \<Rightarrow> connect_args \<Rightarrow> string option \<Rightarrow> env \<Rightarrow> error + (env \<times> connect_wait)" where
  "joinCall h a teamId e =
     (let gs = getState e; ch = ca_channelID a;
          explicitlyEnabled = callsExplicitlyEnabled gs ch;
          explicitlyDisabled = callsExplicitlyDisabled gs ch
      in if channelHasCall gs ch \<or> explicitlyEnabled \<or> (\<not> explicitlyDisabled \<and> defaultEnabled gs)
         then (if isLimitRestricted gs
               then (if isCloudSku Starter gs then Inr (displayFreeTrial e, Finished) else Inr (e, Finished))
               else Inr (connectToCall h a teamId e))
         else if explicitlyDisabled then Inl DisabledCallsErr
         else if mm_isCurrentUserSystemAdmin (ev_mm e) then Inr (connectToCall h a teamId e)
         else Inr (displayCallsTestModeUser e, Finished))"

section \<open>The data of the current call\<close>

definition set_call_data :: "(current_call_data \<Rightarrow> current_call_data) \<Rightarrow> env \<Rightarrow> env" where
  "set_call_data f e = (if ev_callData e then e\<lparr>ev_callDataDefault := f (ev_callDataDefault e)\<rparr> else e)"

text \<open>What the call widget does to it when access to the screen is denied or granted.\<close>

definition setMissingScreenPermissions :: "bool \<Rightarrow> env \<Rightarrow> env" where
  "setMissingScreenPermissions missing =
     set_call_data (\<lambda>d. d\<lparr>ccd_missingScreenPermissions := missing\<rparr>)"

definition currentCallData :: "env \<Rightarrow> current_call_data option" where
  "currentCallData e = (if ev_callData e then Some (ev_callDataDefault e) else None)"

section \<open>What connecting keeps\<close>

lemma setClientConnecting_fields [simp]:
  "rs_clientConnecting (ev_plugin (setClientConnecting b e)) = b"
  "ev_client (setClientConnecting b e) = ev_client e" "ev_mm (setClientConnecting b e) = ev_mm e"
  "ev_callData (setClientConnecting b e) = ev_callData e"
  "ev_callDataDefault (setClientConnecting b e) = ev_callDataDefault e"
  "ev_effects (setClientConnecting b e) = ev_effects e"
  by (simp_all add: setClientConnecting_def dispatch_def)

lemma followThread_fields [simp]:
  "ev_client (followThread ch t e) = ev_client e" "ev_mm (followThread ch t e) = ev_mm e"
  "ev_callData (followThread ch t e) = ev_callData e"
  by (simp_all add: followThread_def Let_def effect_def)

lemma start_client_fields [simp]:
  "rs_clientConnecting (ev_plugin (start_client cf a e))"
  "ev_client (start_client cf a e) =
     Some ((new_client cf (ev_now e))\<lparr>cc_channelID := ca_channelID a\<rparr>)"
  "ev_callData (start_client cf a e)"
  by (simp_all add: start_client_def)

text \<open>While a connection is being made, asking for another changes nothing.\<close>

lemma connecting_blocks:
  "rs_clientConnecting (ev_plugin e) \<Longrightarrow> connectToCall h a t e = (e, Finished)"
  by (simp add: connectToCall_def)

lemma connectCall_keeps_connecting:
  "rs_clientConnecting (ev_plugin e) \<Longrightarrow> rs_clientConnecting (ev_plugin (fst (connectCall h a e)))"
  by (simp add: connectCall_def)

lemma connectToCall_connects:
  assumes "\<not> rs_clientConnecting (ev_plugin e)" "ev_client e = None"
    and "channelIDForCurrentCall (getState e) = []"
  shows "rs_clientConnecting (ev_plugin (fst (connectToCall h a t e)))"
proof -
  obtain e1 w where c: "connectCall h a (setClientConnecting True e) = (e1, w)" by fastforce
  have "rs_clientConnecting (ev_plugin e1)"
    using connectCall_keeps_connecting [of "setClientConnecting True e" h a] c by simp
  with c assms show ?thesis by (simp add: connectToCall_def Let_def)
qed


section \<open>A window to connect from\<close>

definition sample_page :: page where
  "sample_page = \<lparr>pg_window = \<lparr>wo_callsClient = None, wo_desktop = None\<rparr>, pg_opener = NoOpener,
     pg_pathname = ''/t/channels/dm'', pg_userAgent = [], pg_platform = None, pg_localStorage = []\<rparr>"

definition sample_window :: "bool \<Rightarrow> host_window" where
  "sample_window desktop = \<lparr>hw_page = sample_page, hw_parseSemVer = (\<lambda>v. (0, 0)),
     hw_hasDCSignalingLockSupport = (\<lambda>v. False), hw_websocketURL = None, hw_protocol = ''https:'',
     hw_host = ''h'', hw_basename = [], hw_urlVersion = ''/api/v4'', hw_joinCall = desktop,
     hw_leaveCall = desktop, hw_onOpenScreenShareModal = desktop, hw_onJoinCallRequest = desktop,
     hw_onCallsError = desktop, hw_openLinkFromCalls = desktop\<rparr>"

definition dm_args :: connect_args where
  "dm_args = \<lparr>ca_channelID = ''dm'', ca_title = None, ca_rootId = None\<rparr>"

lemma sample_idle:
  "\<not> rs_clientConnecting (ev_plugin sample_env)" "ev_client sample_env = None"
  "channelIDForCurrentCall (getState sample_env) = []"
  by (simp_all add: sample_env_def init_root_def channelIDForCurrentCall_def getCallsClientChannelID_def
      clientState_def)

section \<open>Properties\<close>

text \<open>
  In the channel that is shown, when it has no call and is not full, joining connects exactly
  when \<open>callsEnabledInCurrentChannel\<close> holds; otherwise nothing is dispatched, and the user of a
  channel whose setting is off gets an error, any other one the notice of the test mode.\<close>
theorem joining_needs_enabled_calls:
  assumes "\<not> channelHasCall (getState e) (ca_channelID a)" "\<not> isLimitRestricted (getState e)"
    and "ca_channelID a = mm_currentChannelID (ev_mm e)"
  shows "joinCall h a t e =
    (if callsEnabledInCurrentChannel (getState e) then Inr (connectToCall h a t e)
     else if callsExplicitlyDisabled (getState e) (ca_channelID a) then Inl DisabledCallsErr
     else Inr (displayCallsTestModeUser e, Finished))"
  using assms
  by (auto simp: joinCall_def callsEnabledInCurrentChannel_def Let_def callsExplicitlyEnabled_def
      callsExplicitlyDisabled_def)

theorem joining_needs_enabled_calls_witness:
  "joinCall (sample_window False) dm_args None sample_env =
     Inr (displayCallsTestModeUser sample_env, Finished)"
proof -
  have "\<not> channelHasCall (getState sample_env) (ca_channelID dm_args)"
    "\<not> isLimitRestricted (getState sample_env)"
    "ca_channelID dm_args = mm_currentChannelID (ev_mm sample_env)"
    "\<not> callsEnabledInCurrentChannel (getState sample_env)"
    "\<not> callsExplicitlyDisabled (getState sample_env) (ca_channelID dm_args)"
    by (simp_all add: sample_env_def init_root_def channelHasCall_def calls_sel_def dm_args_def
        isLimitRestricted_def maxParticipants_def callsConfig_sel_def CallsConfigDefault_def sample_mm_def
        callsEnabledInCurrentChannel_def callsExplicitlyDisabled_def callsExplicitlyEnabled_def
        channelEnabled_def channelState_def defaultEnabled_def truthy_bool_def)
  then show ?thesis by (simp add: joining_needs_enabled_calls)
qed

text \<open>
  When the desktop app rejects the request to join, nothing ends the attempt: the user stays
  connecting and every later request to join is ignored, while an answer ends it.
\<close>
theorem desktop_rejection_sticks:
  assumes "hw_joinCall h" "\<not> rs_clientConnecting (ev_plugin e)" "ev_client e = None"
    and "channelIDForCurrentCall (getState e) = []"
    and "connectToCall h a t e = (e1, w)"
  shows "w = WaitDesktop \<and>
    rs_clientConnecting (ev_plugin (desktop_answered h (Inl err) e1)) \<and>
    connectToCall h' a' t' (desktop_answered h (Inl err) e1) = (desktop_answered h (Inl err) e1, Finished) \<and>
    \<not> rs_clientConnecting (ev_plugin (desktop_answered h (Inr answer) e1))"
proof -
  have "w = WaitDesktop" using assms by (auto simp: connectToCall_def connectCall_def Let_def)
  moreover have "rs_clientConnecting (ev_plugin e1)"
    using connectToCall_connects [OF assms(2-4), of h a t] assms(5) by simp
  ultimately show ?thesis by (simp add: desktop_answered_def connecting_blocks split: prod.splits)
qed

theorem desktop_rejection_sticks_witness:
  "rs_clientConnecting (ev_plugin (desktop_answered (sample_window True) (Inl (Error []))
     (fst (connectToCall (sample_window True) dm_args None sample_env))))"
proof -
  obtain e1 w where "connectToCall (sample_window True) dm_args None sample_env = (e1, w)" by fastforce
  moreover have "hw_joinCall (sample_window True)" by (simp add: sample_window_def)
  ultimately show ?thesis using desktop_rejection_sticks [OF _ sample_idle] by auto
qed


text \<open>
  \<open>connectCall\<close>, which messages to the window call directly, checks for a client before it
  waits for TURN credentials and not after: of two attempts that wait, the second replaces the
  first's client, which is neither disconnected nor closed.\<close>
theorem turn_wait_race:
  assumes "\<not> hw_joinCall h" "\<not> rendersDesktopWidget h" "ev_client e = None"
    and "needsTURNCredentials (getState e)"
    and "connectCall h a e = (e1, w1)" "connectCall h b e1 = (e2, w2)"
  shows "\<exists>cf cf'. w1 = WaitTurn cf a \<and> w2 = WaitTurn cf' b \<and>
    (let e3 = turn_answered r cf a e2; e4 = turn_answered r' cf' b e3
     in \<exists>c c'. ev_client e3 = Some c \<and> cc_channelID c = ca_channelID a \<and> \<not> cc_closed c \<and>
          ev_client e4 = Some c' \<and> cc_channelID c' = ca_channelID b \<and>
          ev_plugin e4 = store_dispatch (ev_plugin e3) (CLIENT_CONNECTING True))"
proof -
  have e1: "e1 = effect (EFetch ''get'' ''/turn-credentials'' []) e"
    and w1: "w1 = WaitTurn (client_config_of h a e) a"
    using assms by (auto simp: connectCall_def)
  have g: "needsTURNCredentials (getState e1)" "ev_client e1 = None"
    using assms e1 by (simp_all add: getState_def)
  have w2: "w2 = WaitTurn (client_config_of h b e1) b"
    using assms(1,2,6) g by (auto simp: connectCall_def)
  show ?thesis
    unfolding w1 w2
    by (simp add: turn_answered_def start_client_def setClientConnecting_def dispatch_def new_client_def
        Let_def)
qed

definition turn_env :: env where
  "turn_env = dispatch (RECEIVED_CALLS_CONFIG ((CallsConfigDefault ''w'')\<lparr>NeedsTURNCredentials := True\<rparr>))
     sample_env"

theorem turn_wait_race_witness:
  "\<exists>cf cf'. snd (connectCall (sample_window False) dm_args turn_env) = WaitTurn cf dm_args \<and>
    snd (connectCall (sample_window False) dm_args
      (fst (connectCall (sample_window False) dm_args turn_env))) = WaitTurn cf' dm_args"
proof -
  obtain e1 w1 where c1: "connectCall (sample_window False) dm_args turn_env = (e1, w1)" by fastforce
  obtain e2 w2 where c2: "connectCall (sample_window False) dm_args e1 = (e2, w2)" by fastforce
  have "\<not> hw_joinCall (sample_window False)" "\<not> rendersDesktopWidget (sample_window False)"
    by (simp_all add: sample_window_def rendersDesktopWidget_def shouldRenderDesktopWidget_def
        desktopGTE_def getCallsWindow_def sample_page_def)
  moreover have "ev_client turn_env = None" by (simp add: turn_env_def sample_env_def)
  moreover have "needsTURNCredentials (getState turn_env)"
    by (simp add: turn_env_def needsTURNCredentials_def callsConfig_sel_def)
  ultimately have "\<exists>cf cf'. w1 = WaitTurn cf dm_args \<and> w2 = WaitTurn cf' dm_args"
    using turn_wait_race [OF _ _ _ _ c1 c2] by blast
  with c1 c2 show ?thesis by simp
qed

text \<open>
  The call data of a new call is the default object, which the calls before it wrote to: what
  was dismissed or missing in the last call is there from the start of the next.\<close>
theorem call_data_leaks:
  assumes "ev_callData e"
    and "e1 = setMissingScreenPermissions missing (recordingPromptDismissedAt callID t e)"
    and "e2 = start_client cf a (on_client_close err e1)"
  shows "currentCallData e2 =
    Some \<lparr>ccd_recordingPromptDismissedAt = t, ccd_missingScreenPermissions = missing\<rparr>"
proof -
  have "ev_callDataDefault e1 = \<lparr>ccd_recordingPromptDismissedAt = t, ccd_missingScreenPermissions = missing\<rparr>"
    using assms(1,2)
    by (simp add: setMissingScreenPermissions_def set_call_data_def recordingPromptDismissedAt_def
        dispatch_def Let_def)
  moreover have "ev_callDataDefault (on_client_close err e1) = ev_callDataDefault e1"
    by (simp add: on_client_close_def Let_def dispatch_def effect_def split: option.splits)
  ultimately show ?thesis
    using assms(3) by (simp add: currentCallData_def start_client_def)
qed

theorem call_data_leaks_witness:
  "currentCallData (start_client plain_config dm_args (on_client_close None
     (setMissingScreenPermissions True (recordingPromptDismissedAt ''dm'' 7
       (start_client plain_config dm_args sample_env))))) =
   Some \<lparr>ccd_recordingPromptDismissedAt = 7, ccd_missingScreenPermissions = True\<rparr>"
  by (rule call_data_leaks [OF start_client_fields(3) refl refl])

end
