(* ===== verification/SlashCommands.thy ===== *)
theory SlashCommands imports Connect begin

text \<open>
  The \<open>/call\<close> commands of \<open>webapp/src/slash_commands.tsx\<close>. The function that joins a call is a
  parameter, as in the source; what the server, the client's statistics and the logs answer is
  the record \<open>answers\<close>.
\<close>

section \<open>Words\<close>

text \<open>\<open>message.trim().split(/\s+/)\<close> for a message that is not blank; a blank one has no words.\<close>

definition is_space :: "char \<Rightarrow> bool" where
  "is_space c = ((of_char c :: nat) \<in> {9, 10, 11, 12, 13, 32, 160})"

fun words_from :: "string \<Rightarrow> string \<Rightarrow> string list" where
  "words_from w [] = (if w = [] then [] else [rev w])"
| "words_from w (c # s) =
     (if is_space c then (if w = [] then words_from [] s else rev w # words_from [] s)
      else words_from (c # w) s)"

definition words :: "string \<Rightarrow> string list" where
  "words s = words_from [] s"

fun join_words :: "string list \<Rightarrow> string" where
  "join_words [] = []"
| "join_words [w] = w"
| "join_words (w # v # ws) = w @ '' '' @ join_words (v # ws)"

section \<open>The handler\<close>

record command_args =
  cm_channel_id :: string
  cm_team_id :: string
  cm_root_id :: string

record answers =
  an_channel :: "channel option"
  an_end :: "error option"
  an_stats :: "error + string"
  an_storedStats :: "string option"
  an_btoa :: "string \<Rightarrow> string"
  an_logs :: string
  an_upload :: "error option"
  an_stop :: "error option"

text \<open>
  What the handler returns: nothing is posted, a message is posted, an error is shown, or it
  throws.
\<close>

datatype slash_result = SkHandled | SkMessage string | SkError string | SkThrows error

type_synonym join_fn = "connect_args \<Rightarrow> string option \<Rightarrow> env \<Rightarrow> error + (env \<times> connect_wait)"

definition handled :: "env \<Rightarrow> env \<times> connect_wait \<times> slash_result" where
  "handled e = (e, Finished, SkHandled)"

definition slash_join ::
  "answers \<Rightarrow> join_fn \<Rightarrow> string list \<Rightarrow> command_args \<Rightarrow> env \<Rightarrow> env \<times> connect_wait \<times> slash_result" where
  "slash_join ans join flds args e0 =
     (let found = obj_get (mm_channels (ev_mm e0)) (cm_channel_id args);
          e = (if found = None then effect (ELoadChannel (cm_channel_id args)) e0 else e0);
          channel = (if found = None then an_channel ans else found);
          connectedID = channelIDForCurrentCall (getState e0)
      in if \<not> isDMChannel channel \<and> \<not> areGroupCallsAllowed (getState e)
         then handled (displayGenericErrorModal ''Unable to join call''
                ''Calls are only available in DM channels.'' e)
         else if flds ! 1 = ''start'' \<and> channelHasCall (getState e) (cm_channel_id args)
         then handled (displayGenericErrorModal ''Unable to start call''
                ''A call is already ongoing in the channel.'' e)
         else if connectedID = []
         then (let team = (if cm_team_id args \<noteq> [] then Some (cm_team_id args)
                           else map_option chn_team_id channel);
                   a = \<lparr>ca_channelID = cm_channel_id args, ca_title = Some (join_words (drop 2 flds)),
                        ca_rootId = Some (cm_root_id args)\<rparr>
               in case join a team e of
                    Inr (e1, w) \<Rightarrow> (e1, w, SkHandled)
                  | Inl err \<Rightarrow> handled (displayGenericErrorModal ''Unable to start or join call''
                      (if err = DisabledCallsErr then ''Calls are disabled in this channel.''
                       else ''An internal error occurred and prevented you from joining the call. Please try again.'') e))
         else handled (displayGenericErrorModal ''Unable to join call''
                ''You're already connected to a call in the current channel.'' e))"

definition slash_leave :: "host_window \<Rightarrow> command_args \<Rightarrow> env \<Rightarrow> env \<times> connect_wait \<times> slash_result" where
  "slash_leave h args e =
     (let connectedID = channelIDForCurrentCall (getState e);
          refuse = handled (displayGenericErrorModal ''Unable to leave the call''
            ''You're not connected to a call in the current channel.'' e)
      in if connectedID \<noteq> [] \<and> cm_channel_id args = connectedID
         then (if isCallsPopOut (hw_page h) then handled (effect EOpenerDisconnect e)
               else if ev_client e \<noteq> None then handled (disconnect_client None e)
               else if hw_leaveCall h then handled (effect EDesktopLeave e)
               else if rendersDesktopWidget h
               then handled (effect (EDesktopEvent ''calls-leave-call'' (cm_channel_id args)) e)
               else refuse)
         else refuse)"

definition slash_end :: "answers \<Rightarrow> command_args \<Rightarrow> env \<Rightarrow> env \<times> connect_wait \<times> slash_result" where
  "slash_end ans args e =
     (let ch = cm_channel_id args; title = ''Unable to end the call''
      in if \<not> channelHasCall (getState e) ch
         then handled (displayGenericErrorModal title ''There's no ongoing call in the channel.'' e)
         else if \<not> mm_isCurrentUserSystemAdmin (ev_mm e) \<and>
                 Some (mm_currentUserID (ev_mm e)) \<noteq> hostIDForCallInChannel (getState e) ch
         then handled (displayGenericErrorModal title
                ''You don't have permission to end the call. Please ask the call owner to end call.'' e)
         else if an_end ans \<noteq> None
         then handled (displayGenericErrorModal title
                ''Something went wrong while trying to end the call. Please try again.'' (endCall ch e))
         else handled (endCall ch e))"

definition slash_stats :: "answers \<Rightarrow> env \<Rightarrow> env \<times> connect_wait \<times> slash_result" where
  "slash_stats ans e =
     (if ev_client e \<noteq> None
      then (case an_stats ans of
              Inr json \<Rightarrow> (e, Finished, SkMessage (''/call stats '' @ an_btoa ans json))
            | Inl err \<Rightarrow> (e, Finished, SkError ''stats''))
      else (e, Finished, SkMessage (''/call stats '' @ an_btoa ans (str_or (str_of (an_storedStats ans)) ''{}''))))"

definition slash_logs :: "answers \<Rightarrow> command_args \<Rightarrow> env \<Rightarrow> env \<times> connect_wait \<times> slash_result" where
  "slash_logs ans args e =
     (if words (an_logs ans) = [] then (e, Finished, SkError ''No call logs available'')
      else
        let teamID = str_or (cm_team_id args) (mm_currentTeamID (ev_mm e));
            e1 = effect (EFetch ''POST'' ''/logs/upload''
                   [(''logs'', an_logs ans), (''channel_id'', cm_channel_id args), (''team_id'', teamID)]) e
        in (e1, Finished, if an_upload ans = None then SkHandled else SkError ''Failed to upload logs''))"

definition slash_recording ::
  "answers \<Rightarrow> string list \<Rightarrow> string \<Rightarrow> command_args \<Rightarrow> env \<Rightarrow> env \<times> connect_wait \<times> slash_result" where
  "slash_recording ans flds message args e =
     (let pass = (\<lambda>e. (e, Finished, SkMessage message)) in
      if length flds < 3 \<or> (flds ! 2 \<noteq> ''start'' \<and> flds ! 2 \<noteq> ''stop'') then pass e
      else
        let start = (flds ! 2 = ''start'');
            title = (if start then ''Unable to start recording'' else ''Unable to stop recording'');
            gs = getState e; connectedID = channelIDForCurrentCall gs;
            isHost = (hostIDForCurrentCall gs = mm_currentUserID (ev_mm e))
        in if cm_channel_id args \<noteq> connectedID
           then handled (displayGenericErrorModal title
                  ''You're not connected to a call in the current channel.'' e)
           else if start
           then (if \<not> isHost
                 then handled (displayGenericErrorModal title
                        ''You don't have permission to start a recording. Please ask the call host to start a recording.'' e)
                 else if isRecordingInCurrentCall gs
                 then handled (displayGenericErrorModal title ''A recording is already in progress.'' e)
                 else pass (startCallRecording connectedID e))
           else if \<not> isHost
           then handled (displayGenericErrorModal title
                  ''You don't have permission to stop the recording. Please ask the call host to stop the recording.'' e)
           else if \<not> isRecordingInCurrentCall gs
           then handled (displayGenericErrorModal title ''No recording is in progress.'' e)
           else (case an_stop ans of
                   None \<Rightarrow> pass (stopCallRecording connectedID e)
                 | Some err \<Rightarrow> (stopCallRecording connectedID e, Finished, SkThrows err)))"

definition slashCommandsHandler ::
  "host_window \<Rightarrow> answers \<Rightarrow> join_fn \<Rightarrow> string \<Rightarrow> command_args \<Rightarrow> env \<Rightarrow> env \<times> connect_wait \<times> slash_result" where
  "slashCommandsHandler h ans join message args e =
     (let flds = words message; pass = (e, Finished, SkMessage message) in
      if length flds < 2 then pass
      else if flds ! 0 \<noteq> ''/call'' then pass
      else
        let sub = flds ! 1
        in if sub = ''join'' \<or> sub = ''start'' then slash_join ans join flds args e
           else if sub = ''leave'' then slash_leave h args e
           else if sub = ''end'' then slash_end ans args e
           else if sub = ''stats'' then slash_stats ans e
           else if sub = ''logs'' then slash_logs ans args e
           else if sub = ''recording'' then slash_recording ans flds message args e
           else pass)"


section \<open>Properties\<close>

lemma handled_simps [simp]:
  "fst (handled e) = e" "snd (snd (handled e)) = SkHandled"
  by (simp_all add: handled_def)

text \<open>The modals and requests of the commands leave the store and add one effect.\<close>

lemma slash_effects [simp]:
  "ev_effects (displayGenericErrorModal t m e) = ev_effects e @ [EGenericError t m]"
  "ev_effects (endCall ch e) = ev_effects e @ [EFetch ''post'' (''/calls/'' @ ch @ ''/host/end'') []]"
  "ev_effects (startCallRecording ch e) = ev_effects e @ [EFetch ''post'' (''/calls/'' @ ch @ ''/recording/start'') []]"
  "ev_effects (stopCallRecording ch e) = ev_effects e @ [EFetch ''post'' (''/calls/'' @ ch @ ''/recording/stop'') []]"
  by (simp_all add: displayGenericErrorModal_def endCall_def startCallRecording_def stopCallRecording_def)

lemma start_stop_differ [simp]: "''/recording/start'' \<noteq> ''/recording/stop''"
  by simp

text \<open>
  \<open>/call recording\<close> asks the server to start or stop a recording only for the host of the
  call that the user is in, in that call's channel, and only when a recording is not, or is, in
  progress; it asks for that channel and nothing else.\<close>
theorem slash_recording_guarded:
  assumes "slash_recording ans flds message args e = (e1, w, r)"
    and "ev_effects e1 = ev_effects e @ xs" "EFetch verb path body \<in> set xs"
  shows "hostIDForCurrentCall (getState e) = mm_currentUserID (ev_mm e) \<and>
    cm_channel_id args = channelIDForCurrentCall (getState e) \<and> flds ! 2 \<in> {''start'', ''stop''} \<and>
    (isRecordingInCurrentCall (getState e) \<longleftrightarrow> flds ! 2 = ''stop'') \<and>
    path = ''/calls/'' @ cm_channel_id args @ ''/recording/'' @ flds ! 2"
  using assms
  by (auto simp: slash_recording_def Let_def handled_def split: if_splits option.splits)

definition hosting_env :: env where
  "hosting_env = dispatch (CALL_HOST ''dm'' ''me'' 1) (dispatch (DESKTOP_WIDGET_CONNECTED ''dm'' ''s'')
     (dispatch (CALL_STATE \<lparr>ci_ID = ''c'', ci_startAt = 1, ci_channelID = ''dm'', ci_threadID = [],
       ci_ownerID = ''me'', ci_hostID = None\<rparr>) sample_env))"

definition sample_answers :: answers where
  "sample_answers = \<lparr>an_channel = None, an_end = None, an_stats = Inr [], an_storedStats = None,
     an_btoa = (\<lambda>s. s), an_logs = [], an_upload = None, an_stop = None\<rparr>"

definition dm_command :: command_args where
  "dm_command = \<lparr>cm_channel_id = ''dm'', cm_team_id = [], cm_root_id = []\<rparr>"

lemmas hosting_simps =
  hosting_env_def sample_env_def init_root_def sample_mm_def sample_answers_def dm_command_def
  channelIDForCurrentCall_def getCallsClientChannelID_def clientState_def hostIDForCurrentCall_def
  isRecordingInCurrentCall_def recordingForCurrentCall_def channelHasCall_def calls_sel_def
  hostIDForCallInChannel_def truthy_int_def empty_job_def num_gt_def

theorem slash_recording_guarded_witness:
  "hostIDForCurrentCall (getState hosting_env) = ''me'' \<and> \<not> isRecordingInCurrentCall (getState hosting_env)"
proof -
  let ?fs = "[''/call'', ''recording'', ''start'']"
  obtain e1 w r where c: "slash_recording sample_answers ?fs [] dm_command hosting_env = (e1, w, r)"
    by (metis prod_cases3)
  have "ev_effects e1 = ev_effects hosting_env @ [EFetch ''post'' ''/calls/dm/recording/start'' []]"
    using c by (auto simp: slash_recording_def Let_def hosting_simps obj_simps)
  from slash_recording_guarded [OF c this] show ?thesis by (simp add: hosting_simps)
qed

text \<open>
  \<open>/call end\<close> asks the server to end a call only when the channel has one, for a system admin
  or the call's host.
\<close>
theorem slash_end_guarded:
  assumes "slash_end ans args e = (e1, w, r)"
    and "ev_effects e1 = ev_effects e @ xs" "EFetch verb path body \<in> set xs"
  shows "channelHasCall (getState e) (cm_channel_id args) \<and>
    (mm_isCurrentUserSystemAdmin (ev_mm e) \<or>
     hostIDForCallInChannel (getState e) (cm_channel_id args) = Some (mm_currentUserID (ev_mm e))) \<and>
    path = ''/calls/'' @ cm_channel_id args @ ''/host/end''"
  using assms by (auto simp: slash_end_def Let_def handled_def split: if_splits)


theorem slash_end_guarded_witness:
  "channelHasCall (getState hosting_env) ''dm''"
proof -
  obtain e1 w r where c: "slash_end sample_answers dm_command hosting_env = (e1, w, r)"
    by (metis prod_cases3)
  have "ev_effects e1 = ev_effects hosting_env @ [EFetch ''post'' ''/calls/dm/host/end'' []]"
    using c by (auto simp: slash_end_def Let_def hosting_simps obj_simps handled_def)
  from slash_end_guarded [OF c this] show ?thesis by (simp add: dm_command_def)
qed

lemma words_from_word:
  "list_all (\<lambda>c. \<not> is_space c) v \<Longrightarrow> words_from w (v @ s) = words_from (rev v @ w) s"
  by (induction v arbitrary: w) simp_all

lemma is_space_blank [simp]: "is_space (CHR '' '')"
  by (simp add: is_space_def)

text \<open>
  Words joined by single blanks are read back as they were: the fields of a command are the
  words it was made of.
\<close>
theorem words_roundtrip:
  assumes "list_all (\<lambda>w. w \<noteq> [] \<and> list_all (\<lambda>c. \<not> is_space c) w) ws"
  shows "words (join_words ws) = ws"
  using assms
proof (induction ws rule: join_words.induct)
  case (2 w)
  then show ?case using words_from_word [of w "[]" "[]"] by (simp add: words_def)
next
  case (3 w v ws)
  then show ?case by (simp add: words_def words_from_word)
qed (simp add: words_def)

theorem words_roundtrip_witness:
  "words (join_words [''/call'', ''start'', ''x'']) = [''/call'', ''start'', ''x'']"
  by (rule words_roundtrip) (simp add: is_space_def)

end
