(* ===== verification/Plugin.thy ===== *)
theory Plugin imports SlashCommands begin

text \<open>
  The plugin object of \<open>webapp/src/index.tsx\<close>: messages to the window and calls from the desktop
  app, the table of websocket events, the loading of the channels when the plugin is activated,
  and the reaction to a reconnected websocket and to the plugin's removal.
\<close>

section \<open>Messages to the window\<close>

datatype window_message =
    MConnectCall string
  | MSourcesModalRequest
  | MJoinedCall string string "string option" \<comment> \<open>call, session, type\<close>
  | MJoinRequest string
  | MCallsError string string string \<comment> \<open>error, message, call\<close>
  | MRunSlashCommand string command_args
  | MLinkClick string
  | MOther

definition windowEventHandler ::
  "host_window \<Rightarrow> answers \<Rightarrow> bool \<Rightarrow> window_message \<Rightarrow> env \<Rightarrow> env \<times> connect_wait" where
  "windowEventHandler h ans sameOrigin m e =
     (let skip = (e, Finished) in
      if \<not> sameOrigin then skip
      else (case m of
          MConnectCall ch \<Rightarrow>
            (case connectCall h \<lparr>ca_channelID = ch, ca_title = None, ca_rootId = None\<rparr> e of (e1, w) \<Rightarrow>
               (followThread ch (Some (mm_currentTeamID (ev_mm e1))) e1, w))
        | MSourcesModalRequest \<Rightarrow>
            if hw_onOpenScreenShareModal h then skip else (showScreenSourceModal e, Finished)
        | MJoinedCall callID sessionID ty \<Rightarrow>
            if hw_joinCall h then skip
            else (handleDesktopJoinedCall h callID sessionID ty (setClientConnecting False e), Finished)
        | MJoinRequest callID \<Rightarrow>
            if hw_onJoinCallRequest h then skip else (showSwitchCallModal (Some callID) e, Finished)
        | MCallsError err errMsg callID \<Rightarrow>
            if err = ''client-error'' \<and> \<not> hw_onCallsError h
            then (displayCallErrorModal (Some callID) (setClientConnecting False e), Finished) else skip
        | MRunSlashCommand message args \<Rightarrow>
            (case slashCommandsHandler h ans (joinCall h) message args e of (e1, w, r) \<Rightarrow> (e1, w))
        | MLinkClick link \<Rightarrow>
            if hw_openLinkFromCalls h then skip else (effect (ENavigate link) e, Finished)
        | MOther \<Rightarrow> skip))"

text \<open>The functions registered with \<open>window.desktopAPI\<close>.\<close>

definition onOpenScreenShareModal :: "env \<Rightarrow> env" where
  "onOpenScreenShareModal = showScreenSourceModal"

definition onJoinCallRequest :: "string \<Rightarrow> env \<Rightarrow> env" where
  "onJoinCallRequest channelID = showSwitchCallModal (Some channelID)"

definition onCallsError :: "string \<Rightarrow> string option \<Rightarrow> env \<Rightarrow> env" where
  "onCallsError err callID e =
     (let e1 = setClientConnecting False e
      in if err = ''client-error'' then displayCallErrorModal callID e1 else e1)"

section \<open>Websocket events\<close>

datatype server_event =
    ChannelEnableVoice string
  | ChannelDisableVoice string
  | UserJoined event_meta string string \<comment> \<open>user, session\<close>
  | UserLeft event_meta string string
  | UserMuted event_meta string string
  | UserUnmuted event_meta string string
  | UserVoiceOn event_meta string string
  | UserVoiceOff event_meta string string
  | CallStart event_meta call_start
  | CallEnd event_meta
  | UserScreenOn event_meta string
  | UserScreenOff event_meta string
  | UserRaiseHand event_meta string string int
  | UserUnraiseHand event_meta string string int
  | UserReacted event_meta reaction_data
  | CallHostChanged event_meta string string \<comment> \<open>host, call\<close>
  | CallJobState string job_state
  | UserDismissedNotification string string
  | CallState string "call_data option"
  | UserRemoved string string string event_meta
  | Caption caption_data
  | HostMute string string
  | HostScreenOff string string
  | HostLowerHand string string string string
  | HostRemovedUser string string string string
  | UserVideoOn event_meta string string
  | UserVideoOff event_meta string string

fun handle_event :: "server_event \<Rightarrow> env \<Rightarrow> env" where
  "handle_event (ChannelEnableVoice ch) e = dispatch (RECEIVED_CHANNEL_STATE \<lparr>ch_id = ch, ch_enabled = Some True\<rparr>) e"
| "handle_event (ChannelDisableVoice ch) e = dispatch (RECEIVED_CHANNEL_STATE \<lparr>ch_id = ch, ch_enabled = Some False\<rparr>) e"
| "handle_event (UserJoined m u s) e = handleUserJoined m u s e"
| "handle_event (UserLeft m u s) e = handleUserLeft m u s e"
| "handle_event (UserMuted m u s) e = handleUserMuted m u s e"
| "handle_event (UserUnmuted m u s) e = handleUserUnmuted m u s e"
| "handle_event (UserVoiceOn m u s) e = handleUserVoiceOn m u s e"
| "handle_event (UserVoiceOff m u s) e = handleUserVoiceOff m u s e"
| "handle_event (CallStart m d) e = handleCallStart m d e"
| "handle_event (CallEnd m) e = handleCallEnd m e"
| "handle_event (UserScreenOn m s) e = handleUserScreenOn m s e"
| "handle_event (UserScreenOff m s) e = handleUserScreenOff m s e"
| "handle_event (UserRaiseHand m u s t) e = handleUserRaisedHand m u s t e"
| "handle_event (UserUnraiseHand m u s t) e = handleUserUnraisedHand m u s t e"
| "handle_event (UserReacted m d) e = handleUserReaction m d e"
| "handle_event (CallHostChanged m host call) e = handleCallHostChanged m host call e"
| "handle_event (CallJobState callID j) e = handleCallJobState callID j e"
| "handle_event (UserDismissedNotification u callID) e = handleUserDismissedNotification u callID e"
| "handle_event (CallState ch d) e = handleCallState ch d e"
| "handle_event (UserRemoved ch u remover m) e = handleUserRemovedFromChannel ch u remover m e"
| "handle_event (Caption d) e = handleCaption d e"
| "handle_event (HostMute ch s) e = handleHostMute ch s e"
| "handle_event (HostScreenOff ch s) e = handleHostScreenOff ch s e"
| "handle_event (HostLowerHand ch s call host) e = handleHostLowerHand ch s call host e"
| "handle_event (HostRemovedUser ch s call u) e = handleHostRemoved ch s call u e"
| "handle_event (UserVideoOn m u s) e = handleUserVideoOn m u s e"
| "handle_event (UserVideoOff m u s) e = handleUserVideoOff m u s e"

section \<open>The channel's menu\<close>

text \<open>The menu entry that enables or disables calls: the request, and its answer when it succeeds.\<close>

definition toggle_request :: "string \<Rightarrow> env \<Rightarrow> env" where
  "toggle_request ch e =
     effect (EFetch ''post'' (''/'' @ ch)
       [(''enabled'', if callsExplicitlyDisabled (getState e) ch then ''true'' else ''false'')]) e"

definition toggle_answered :: "string \<Rightarrow> error + bool \<Rightarrow> env \<Rightarrow> env" where
  "toggle_answered ch res e = (case res of
       Inl err \<Rightarrow> e
     | Inr enabled \<Rightarrow> dispatch (RECEIVED_CHANNEL_STATE \<lparr>ch_id = ch, ch_enabled = Some enabled\<rparr>) e)"

section \<open>Loading the channels\<close>

record channel_entry =
  ce_channel_id :: string
  ce_enabled :: "bool option"
  ce_call :: "call_data option"

text \<open>One round of the loop: the actions are collected, some thunks are dispatched at once.\<close>

definition fetch_entry :: "string \<Rightarrow> channel_entry \<Rightarrow> env \<times> action list \<Rightarrow> env \<times> action list" where
  "fetch_entry skip d = (\<lambda>(e, as).
     let ch = ce_channel_id d;
         as1 = as @ [RECEIVED_CHANNEL_STATE \<lparr>ch_id = ch, ch_enabled = ce_enabled d\<rparr>]
     in if skip = ch then (e, as)
        else (case ce_call d of
            None \<Rightarrow> (e, as1)
          | Some call \<Rightarrow>
              if cd_sessions call = [] then (e, as1)
              else
                let e1 = loadProfilesByIdsIfMissing (getUserIDsForSessions (cd_sessions call)) e;
                    as2 = as1 @ [CALL_STATE (call_info_of ch call),
                                 USERS_STATES ch (getSessionsMapFromSessions (cd_sessions call))]
                in if callStartAtForCallInChannel (getState e1) ch \<noteq> 0 then (e1, as1)
                   else if \<not> ringingEnabled (getState e1) then (e1, as2)
                   else if dismissed_by call (mm_currentUserID (ev_mm e1))
                   then (e1, as2 @ [DISMISS_CALL (cd_id call)])
                   else (incomingCallOnChannel ch (cd_id call) (cd_owner_id call) (cd_start_at call) e1, as2)))"

definition fetchChannels :: "string \<Rightarrow> error + channel_entry list \<Rightarrow> env \<Rightarrow> env \<times> action list" where
  "fetchChannels skip res e = (case res of
       Inl err \<Rightarrow> (e, [])
     | Inr data \<Rightarrow> fold (fetch_entry skip) data (e, []))"

section \<open>Activation\<close>

definition dispatch_some :: "('a \<Rightarrow> action) \<Rightarrow> 'a option \<Rightarrow> env \<Rightarrow> env" where
  "dispatch_some mk x e = (case x of None \<Rightarrow> e | Some v \<Rightarrow> dispatch (mk v) e)"

text \<open>The requests of \<open>onActivate\<close> that succeeded; the environment's overrides are for admins only.\<close>

definition activate_requests ::
  "calls_config option \<Rightarrow> (string, string) obj option \<Rightarrow> (string, string) obj option \<Rightarrow> env \<Rightarrow> env" where
  "activate_requests config version overrides e =
     (if mm_currentUserID (ev_mm e) = [] then e
      else
        let e1 = dispatch_some RECEIVED_CALLS_CONFIG config e;
            e2 = dispatch_some RECEIVED_CALLS_VERSION_INFO version e1
        in if mm_isCurrentUserSystemAdmin (ev_mm e)
           then dispatch_some RECEIVED_CALLS_CONFIG_ENV_OVERRIDES overrides e2 else e2)"

text \<open>
  The rest of \<open>onActivate\<close>, with the answer of the server for the channels; \<open>hasWs\<close>: the host
  application's websocket client was given.
\<close>

definition activate_load ::
  "host_window \<Rightarrow> bool \<Rightarrow> error + channel_entry list \<Rightarrow> env \<Rightarrow> env" where
  "activate_load h hasWs res e =
     (let current = channelIDForCurrentCall (getState e)
      in if mm_currentUserID (ev_mm e) = [] then e
         else if isCallsPopOut (hw_page h)
         then effect (ELoadChannel current)
                (loadProfilesByIdsIfMissing
                  (obj_keys (fold (\<lambda>s. obj_set (js_key (us_user_id s)) True)
                               (sessionsInCurrentCall (getState e)) [])) e)
         else (case fetchChannels current res e of (e1, as) \<Rightarrow>
                 let e2 = dispatch_batch as e1
                 in if current \<noteq> [] \<and> hasWs
                    then effect (ESendMessage ''custom_com.mattermost.calls_call_state'' current) e2
                    else e2))"

text \<open>The reconnected websocket, before it activates again; and the plugin's removal.\<close>

definition ws_reconnected :: "env \<Rightarrow> env" where
  "ws_reconnected e =
     (if ev_client e = None \<and> channelIDForCurrentCall (getState e) = [] then dispatch UNINIT e else e)"

definition unload :: "env \<Rightarrow> env" where
  "unload e = dispatch UNINIT (disconnect_client None e)"


section \<open>Events change the channel they name\<close>

abbreviation view :: "env \<Rightarrow> string \<Rightarrow> channel_view" where
  "view e ch \<equiv> view_channel (ev_plugin e) ch"

fun event_target :: "server_event \<Rightarrow> string option" where
  "event_target (UserJoined m u s) = Some (event_channel m)"
| "event_target (UserLeft m u s) = Some (event_channel m)"
| "event_target (UserMuted m u s) = Some (event_channel m)"
| "event_target (UserUnmuted m u s) = Some (event_channel m)"
| "event_target (UserVoiceOn m u s) = Some (event_channel m)"
| "event_target (UserVoiceOff m u s) = Some (event_channel m)"
| "event_target (CallStart m d) = Some (event_channel m)"
| "event_target (CallEnd m) = Some (event_channel m)"
| "event_target (UserScreenOn m s) = Some (event_channel m)"
| "event_target (UserScreenOff m s) = Some (event_channel m)"
| "event_target (UserRaiseHand m u s t) = Some (event_channel m)"
| "event_target (UserUnraiseHand m u s t) = Some (event_channel m)"
| "event_target (UserReacted m d) = Some (event_channel m)"
| "event_target (CallHostChanged m host call) = Some (event_channel m)"
| "event_target (CallJobState callID j) = Some callID"
| "event_target (CallState ch d) = Some ch"
| "event_target (UserRemoved ch u remover m) = Some (str_or ch (em_broadcast_channel m))"
| "event_target (Caption d) = Some (cpd_channel_id d)"
| "event_target (HostMute ch s) = Some ch"
| "event_target (HostScreenOff ch s) = Some ch"
| "event_target (HostLowerHand ch s call host) = Some ch"
| "event_target (HostRemovedUser ch s call u) = Some ch"
| "event_target (UserVideoOn m u s) = Some (event_channel m)"
| "event_target (UserVideoOff m u s) = Some (event_channel m)"
| "event_target _ = None"

definition client_in_channel :: "env \<Rightarrow> bool" where
  "client_in_channel e \<longleftrightarrow> (\<forall>c. ev_client e = Some c \<longrightarrow> cc_channelID c \<noteq> [])"

lemma view_dispatch:
  "\<not> touches a ch \<Longrightarrow> view (dispatch a e) ch = view e ch"
  by (simp add: store_chan.frame)

lemmas view_steps = view_dispatch touches_def

lemma view_thunks [simp]:
  "view (removeIncomingCallNotification k e) ch = view e ch"
  "view (loadProfilesByIdsIfMissing ids e) ch = view e ch"
  "view (incomingCallOnChannel c k u t e) ch = view e ch"
  "view (followThread c t' e) ch = view e ch"
  "view (show_notice n e) ch = view e ch"
  by (simp_all add: store_chan.frame touches_def incomingCallOnChannel_def incoming_with_channel_def
      add_incoming_def show_notice_def Let_def split: option.splits)

lemma view_close:
  assumes "map_option cc_channelID (ev_client e) \<noteq> Some ch"
  shows "view (on_client_close err e) ch = view e ch"
  using assms by (auto simp: on_client_close_def Let_def store_chan.frame touches_def split: option.splits)

lemma view_disconnect:
  assumes "map_option cc_channelID (ev_client e) \<noteq> Some ch"
  shows "view (disconnect_client err e) ch = view e ch"
proof (cases "ev_client e")
  case None
  then show ?thesis by (simp add: disconnect_client_eq)
next
  case (Some c)
  with assms view_close [of "e\<lparr>ev_client := Some (disconnect err c)\<rparr>" ch err] show ?thesis
    by (simp add: disconnect_client_eq)
qed

lemma current_is_client:
  assumes "client_in_channel e" "channelIDForCurrentCall (getState e) = ch'" "ch \<noteq> ch'"
  shows "map_option cc_channelID (ev_client e) \<noteq> Some ch"
  using assms
  by (cases "ev_client e")
    (auto simp: client_in_channel_def channelIDForCurrentCall_def getCallsClientChannelID_def)

lemma view_callEnd:
  assumes "client_in_channel e" "ch \<noteq> ch'"
  shows "view (callEnd ch' e) ch = view e ch"
  using assms current_is_client [of e ch' ch] view_disconnect [of e ch None]
  by (auto simp: callEnd_def Let_def store_chan.frame touches_def)

lemma client_in_channel_dispatch [simp]: "client_in_channel (dispatch a e) = client_in_channel e"
  by (simp add: client_in_channel_def)


lemma track_fields [simp]:
  "cc_emitted (cc_send x d b c) = cc_emitted c" "cc_channelID (cc_send x d b c) = cc_channelID c"
  "cc_emitted (cc_emit v c) = cc_emitted c @ [v]" "cc_channelID (cc_emit v c) = cc_channelID c"
  "cc_emitted (track_enable b' i c) = cc_emitted c" "cc_channelID (track_enable b' i c) = cc_channelID c"
  "cc_emitted (peer_do p c) = cc_emitted c" "cc_channelID (peer_do p c) = cc_channelID c"
  "cc_emitted (stop_track_and_end i c) = cc_emitted c"
  "cc_channelID (stop_track_and_end i c) = cc_channelID c"
  by (simp_all add: cc_send_def cc_emit_def track_enable_def upd_track_def peer_do_def
      stop_track_and_end_def dispatch_ended_def screen_ended_def Let_def track_stop_def split: option.splits)

lemma host_command_emits:
  "drop (length (cc_emitted c)) (cc_emitted (mute c)) \<in> {[], [CMute]}"
  "drop (length (cc_emitted c)) (cc_emitted (unshareScreen c)) = []"
  "drop (length (cc_emitted c)) (cc_emitted (unraiseHand c)) = [CLowerHand]"
  "cc_channelID (mute c) = cc_channelID c" "cc_channelID (unshareScreen c) = cc_channelID c"
  "cc_channelID (unraiseHand c) = cc_channelID c"
  by (auto simp: mute_def unshareScreen_def unraiseHand_def split: option.splits)

text \<open>A client method that emits at most one event about this user leaves other channels alone.\<close>

lemma view_client_call:
  assumes "map_option cc_channelID (ev_client e) = Some ch'" "ch \<noteq> ch'"
    and "\<And>c. cc_channelID (f c) = cc_channelID c"
    and "\<And>c. drop (length (cc_emitted c)) (cc_emitted (f c)) \<in> {[], [CMute], [CLowerHand]}"
  shows "view (client_call f e) ch = view e ch"
proof -
  obtain c where c: "ev_client e = Some c" "cc_channelID c = ch'" using assms(1) by auto
  with assms(2,3) assms(4) [of c] show ?thesis
    by (auto simp: client_call_def self_event_def js_key_def store_chan.frame touches_def)
qed

lemma view_handlers:
  assumes "client_in_channel e" "ch \<noteq> ch'"
  shows "view (handleHostMute ch' s e) ch = view e ch"
    and "view (handleHostScreenOff ch' s e) ch = view e ch"
    and "view (handleHostLowerHand ch' s call host e) ch = view e ch"
    and "view (handleHostRemoved ch' s call u e) ch = view e ch"
proof -
  have m: "\<And>c. drop (length (cc_emitted c)) (cc_emitted (mute c)) \<in> {[], [CMute], [CLowerHand]}"
    using host_command_emits(1) by blast
  show "view (handleHostMute ch' s e) ch = view e ch"
    using view_client_call [OF _ assms(2) host_command_emits(4) m]
    by (simp add: handleHostMute_def for_me_def in_channel_def)
  show "view (handleHostScreenOff ch' s e) ch = view e ch"
    using view_client_call [OF _ assms(2) host_command_emits(5)] host_command_emits(2)
    by (simp add: handleHostScreenOff_def for_me_def in_channel_def)
  show "view (handleHostLowerHand ch' s call host e) ch = view e ch"
    using view_client_call [OF _ assms(2) host_command_emits(6)] host_command_emits(3)
    by (simp add: handleHostLowerHand_def for_me_def in_channel_def Let_def)
  show "view (handleHostRemoved ch' s call u e) ch = view e ch"
    using view_disconnect [of e ch] assms(2)
    by (auto simp: handleHostRemoved_def in_channel_def Let_def split: option.splits)
qed

lemma view_batch:
  assumes "batch_ok e" "list_all (\<lambda>a. \<not> touches a ch) as"
  shows "view (dispatch_batch as e) ch = view e ch"
  using assms by (simp add: batch_okD store_chan.run_frame)

lemma view_load:
  assumes "batch_ok e" "ch \<noteq> ch'"
  shows "view (loadCallState ch' call e) ch = view e ch"
proof -
  have "list_all (\<lambda>a. \<not> touches a ch) (call_state_actions ch' call e)"
    using assms(2) by (simp add: call_state_actions_def touches_def call_info_of_def)
  moreover have "batch_ok (loadProfilesByIdsIfMissing ids e)" for ids
    using assms(1) by (simp add: batch_ok_def)
  ultimately show ?thesis
    using assms(1) by (simp add: loadCallState_def Let_def view_batch del: dispatch_batch_fields)
qed


section \<open>Loading the channels keeps the current call\<close>

lemma fetch_entry_env:
  assumes "fetch_entry skip d (e, as) = (e', as')" "batch_ok e"
    and "list_all (\<lambda>a. \<not> touches a skip) as"
  shows "view e' ch = view e ch \<and> batch_ok e' \<and> list_all (\<lambda>a. \<not> touches a skip) as'"
proof -
  have b: "batch_ok (loadProfilesByIdsIfMissing ids e)" for ids
    using assms(2) by (simp add: batch_ok_def)
  have b': "batch_ok (incomingCallOnChannel c k u t e0)" if "batch_ok e0" for c k u t and e0 :: env
    using that
    by (simp add: batch_ok_def incomingCallOnChannel_def incoming_with_channel_def add_incoming_def Let_def
        await_def effect_def split: option.splits)
  show ?thesis
    using assms
    by (auto simp: fetch_entry_def Let_def touches_def call_info_of_def b b'
        split: if_splits option.splits)
qed

lemma fetch_fold:
  assumes "fold (fetch_entry skip) ds (e, as) = (e', as')" "batch_ok e"
    and "list_all (\<lambda>a. \<not> touches a skip) as"
  shows "view e' ch = view e ch \<and> batch_ok e' \<and> list_all (\<lambda>a. \<not> touches a skip) as'"
  using assms
proof (induction ds arbitrary: e as)
  case (Cons d ds)
  obtain e1 as1 where s: "fetch_entry skip d (e, as) = (e1, as1)" by fastforce
  have "fold (fetch_entry skip) ds (e1, as1) = (e', as')" using Cons.prems(1) s by simp
  then show ?case using fetch_entry_env [OF s Cons.prems(2,3)] Cons.IH [of e1 as1] by simp
qed simp

lemma fetchChannels_keeps:
  assumes "fetchChannels skip res e = (e', as)" "batch_ok e"
  shows "view e' ch = view e ch \<and> batch_ok e' \<and> list_all (\<lambda>a. \<not> touches a skip) as"
  using assms fetch_fold [of skip _ e "[]" e' as ch] by (auto simp: fetchChannels_def split: sum.splits)

lemma event_keeps_other_channels:
  assumes "batch_ok e" "client_in_channel e" "event_target ev \<noteq> Some ch"
  shows "view (handle_event ev e) ch = view e ch"
proof (cases ev)
  case (CallEnd m)
  with assms show ?thesis by (simp add: handleCallEnd_def view_callEnd)
next
  case (UserLeft m u s)
  with assms show ?thesis
    by (simp add: handleUserLeft_def userLeft_def Let_def view_callEnd store_chan.frame touches_def
        del: dispatch_fields(10)) (simp add: store_chan.frame touches_def)
next
  case (CallState ch' d)
  with assms show ?thesis by (auto simp: handleCallState_def view_load split: option.splits)
next
  case (UserRemoved c u remover m)
  with assms show ?thesis
    using current_is_client [of e _ ch] view_disconnect [of e ch]
    by (auto simp: handleUserRemovedFromChannel_def Let_def)
next
  case (CallJobState c j)
  with assms show ?thesis
    by (simp add: handleCallJobState_def Let_def store_chan.frame touches_def)
next
  case (UserJoined m u s)
  with assms show ?thesis
    by (simp add: handleUserJoined_def Let_def store_chan.frame touches_def)
next
  case (CallStart m d)
  with assms show ?thesis
    by (simp add: handleCallStart_def Let_def store_chan.frame touches_def split: option.splits)
qed (use assms in \<open>simp_all add: view_handlers store_chan.frame touches_def handleUserMuted_def
      handleUserUnmuted_def handleUserVoiceOn_def handleUserVoiceOff_def handleUserScreenOn_def
      handleUserScreenOff_def handleUserRaisedHand_def handleUserUnraisedHand_def handleUserVideoOn_def
      handleUserVideoOff_def handleUserReaction_def handleCaption_def handleCallHostChanged_def
      handleUserDismissedNotification_def Let_def split: option.splits\<close>)

section \<open>Properties\<close>

text \<open>
  C2. Whatever event of the server's arrives, for this client or any other, the sessions, call,
  host, screen, jobs, captions, reactions and recently joined users of a channel that it does not
  name stay as they were, through the disconnection that it may cause too.\<close>
theorem event_changes_its_channel:
  assumes "batch_ok e" "client_in_channel e" "event_target ev \<noteq> Some ch"
  shows "view_channel (ev_plugin (handle_event ev e)) ch = view_channel (ev_plugin e) ch"
  using assms by (rule event_keeps_other_channels)

theorem event_changes_its_channel_witness:
  "view_channel (ev_plugin (handle_event (CallEnd \<lparr>em_data_channel = ''dm'', em_broadcast_channel = [],
     em_broadcast_user = []\<rparr>) sample_env)) ''other'' = view_channel (ev_plugin sample_env) ''other''"
  by (rule event_changes_its_channel [OF sample_batch])
    (simp_all add: client_in_channel_def sample_env_def event_channel_def)

text \<open>
  Loading the channels over HTTP never changes what the store knows of the call that the user
  is in: its state comes from the websocket only.\<close>
theorem load_keeps_current_call:
  assumes "batch_ok e" "channelIDForCurrentCall (getState e) = ch"
  shows "view_channel (ev_plugin (activate_load h hasWs res e)) ch = view_channel (ev_plugin e) ch"
proof -
  obtain e1 as where f: "fetchChannels ch res e = (e1, as)" by fastforce
  have "view (dispatch_batch as e1) ch = view e ch"
    using fetchChannels_keeps [OF f assms(1), of ch] view_batch [of e1 ch as] by simp
  with f assms(2) show ?thesis
    by (simp add: activate_load_def Let_def del: dispatch_batch_fields)
qed

theorem load_keeps_current_call_witness:
  "view_channel (ev_plugin (activate_load (sample_window False) True
     (Inr [\<lparr>ce_channel_id = ''dm'', ce_enabled = None, ce_call = None\<rparr>]) hosting_env)) ''dm'' =
   view_channel (ev_plugin hosting_env) ''dm''"
  by (rule load_keeps_current_call) (simp_all add: batch_ok_def hosting_simps)

end
