(* ===== verification/IncomingCalls.thy ===== *)
theory IncomingCalls imports Connect begin

text \<open>
  The hooks of the incoming call notifications (\<open>components/incoming_calls/hooks.ts\<close>) and the
  hook on the host application's desktop notifications (\<open>desktop_notifications.ts\<close>).

  A hook reads the store when its component renders and acts in an effect afterwards, when the
  store may have changed: what it read is a record, which the effect gets beside the environment
  that it runs in. The preferences that the host application stores of the user and of the
  channel's member are records of the fields read; texts and addresses that the host
  application makes are arguments.
\<close>

section \<open>Preferences\<close>

record member_notify =
  mn_muted :: bool
  mn_desktop :: "string option"
  mn_desktop_sound :: "string option"
  mn_desktop_notification_sound :: "string option"

record user_notify =
  un_desktop :: string
  un_desktop_sound :: string
  un_desktop_notification_sound :: "string option"
  un_calls_desktop_sound :: "string option"
  un_calls_notification_sound :: "string option"

definition getNotificationSound :: "member_notify option \<Rightarrow> user_notify option \<Rightarrow> string" where
  "getNotificationSound member user =
     (let ms = str_of (Option.bind member mn_desktop_notification_sound);
          us = str_of (Option.bind user un_desktop_notification_sound)
      in if ms \<noteq> [] then ms else if us \<noteq> [] then us else ''Bing'')"

definition getDesktopSound :: "member_notify option \<Rightarrow> user_notify option \<Rightarrow> bool" where
  "getDesktopSound member user =
     (if Option.bind member mn_desktop_sound = Some ''off'' then False
      else (case user of None \<Rightarrow> True | Some u \<Rightarrow> un_desktop_sound u = ''true''))"

definition getRingingFromUser :: "user_notify option \<Rightarrow> bool" where
  "getRingingFromUser user = (case user of
       None \<Rightarrow> True
     | Some u \<Rightarrow> str_or (str_of (un_calls_desktop_sound u)) ''true'' = ''true'' \<and> un_desktop u \<noteq> ''none'')"

definition getDesktopNotificationFromUser :: "user_notify option \<Rightarrow> bool" where
  "getDesktopNotificationFromUser user = (case user of None \<Rightarrow> True | Some u \<Rightarrow> un_desktop u \<noteq> ''none'')"

definition getDesktopNotificationFromChannel :: "member_notify option \<Rightarrow> bool" where
  "getDesktopNotificationFromChannel member =
     (let d = str_of (Option.bind member mn_desktop) in d = [] \<or> d \<noteq> ''none'')"

record notification_settings =
  ns_ring :: bool
  ns_sound :: bool
  ns_notify :: bool

definition useNotificationSettings ::
  "string option \<Rightarrow> member_notify option \<Rightarrow> user_notify option \<Rightarrow> notification_settings" where
  "useNotificationSettings status member user =
     (let muted = (case member of None \<Rightarrow> True | Some m \<Rightarrow> mn_muted m) \<or>
                  status = Some ''dnd'' \<or> status = Some ''ooo''
      in \<lparr>ns_ring = (\<not> muted \<and> getRingingFromUser user),
          ns_sound = (\<not> muted \<and> getDesktopSound member user),
          ns_notify = (\<not> muted \<and> getDesktopNotificationFromChannel member \<and>
                       getDesktopNotificationFromUser user)\<rparr>)"

section \<open>Ringing\<close>

record ring_view =
  rv_didRing :: bool
  rv_shouldRing :: bool
  rv_currRinging :: bool
  rv_currRingingForThisCall :: bool
  rv_connected :: bool

definition ring_render ::
  "member_notify option \<Rightarrow> user_notify option \<Rightarrow> string \<Rightarrow> env \<Rightarrow> ring_view" where
  "ring_render member user callID e =
     (let gs = getState e
      in \<lparr>rv_didRing = didRingForCall gs callID,
          rv_shouldRing = ns_ring (useNotificationSettings (getStatusForCurrentUser gs) member user),
          rv_currRinging = currentlyRinging gs, rv_currRingingForThisCall = ringingForCall gs callID,
          rv_connected = (channelIDForCurrentCall gs \<noteq> [])\<rparr>)"

text \<open>The effect; without preferences the sound to ring with cannot be read.\<close>

definition ring_effect ::
  "host_window \<Rightarrow> bool \<Rightarrow> user_notify option \<Rightarrow> string \<Rightarrow> ring_view \<Rightarrow> env \<Rightarrow> error + env" where
  "ring_effect h onWidget user callID v e =
     (if rv_connected v \<or> (rv_currRinging v \<and> \<not> rv_currRingingForThisCall v)
      then Inr (dispatch (DID_RING_FOR_CALL callID) e)
      else if \<not> rv_shouldRing v \<or> rv_didRing v \<or> (onWidget \<and> rendersDesktopWidget h) then Inr e
      else (case user of
              None \<Rightarrow> Inl (TypeError ''calls_notification_sound'')
            | Some u \<Rightarrow> Inr (ringForCall callID (str_or (str_of (un_calls_notification_sound u)) ''Calm'') e)))"

section \<open>Desktop notifications\<close>

text \<open>\<open>canSend\<close>: the host application has the function; \<open>since81\<close>: its server is not older.\<close>

definition notification_effect ::
  "notification_settings \<Rightarrow> bool \<Rightarrow> bool \<Rightarrow> bool \<Rightarrow> bool \<Rightarrow> incoming_call \<Rightarrow> channel option \<Rightarrow> string \<Rightarrow>
   string \<Rightarrow> string \<Rightarrow> string \<Rightarrow> env \<Rightarrow> env" where
  "notification_effect ns didNotify hidden canSend since81 call channel title body sound url e =
     (let wanted = ns_notify ns \<and> \<not> didNotify \<and> hidden \<and> canSend;
          dropped = wanted \<and> ((ic_type call = DM \<and> \<not> since81) \<or> channel = None);
          e1 = (if wanted \<and> \<not> dropped
                then effect (EDesktopNotify title body (\<not> ns_sound ns) sound url) e else e)
      in if dropped then e else dispatch (DID_NOTIFY_FOR_CALL (ic_callID call)) e1)"

record post =
  po_type :: string
  po_channel_id :: string
  po_root_id :: string

text \<open>
  Whether the host application notifies of a post; \<open>mentions\<close> are the users whom it mentions.
\<close>

definition desktopNotificationHandler ::
  "post \<Rightarrow> string list \<Rightarrow> channel option \<Rightarrow> bool \<Rightarrow> env \<Rightarrow> bool" where
  "desktopNotificationHandler p mentions channel notify e =
     (let gs = getState e
      in if notify
         then (if po_type p = ''custom_calls'' \<and> isDmGmChannel channel \<and> ringingEnabled gs then False
               else if channelIDForCurrentCall gs = po_channel_id p \<and>
                       threadIDForCurrentCall gs = Some (po_root_id p) \<and>
                       mm_currentUserID (gs_mm gs) \<notin> set mentions
               then False else notify)
         else notify)"

section \<open>Answering\<close>

definition onDismiss :: "string \<Rightarrow> string \<Rightarrow> env \<Rightarrow> env" where
  "onDismiss = dismissIncomingCallNotification"

definition global_widget :: "host_window \<Rightarrow> env \<Rightarrow> bool" where
  "global_widget h e = (isDesktopApp (hw_page h) \<and> (isCallsPopOut (hw_page h) \<or> ev_client e \<noteq> None))"

text \<open>\<open>sendRequest\<close>: the desktop app has \<open>sendJoinCallRequest\<close>.\<close>

definition onJoin :: "host_window \<Rightarrow> bool \<Rightarrow> string \<Rightarrow> string \<Rightarrow> env \<Rightarrow> env" where
  "onJoin h sendRequest channelID callID e0 =
     (let e = effect EStopRing e0; connectedID = channelIDForCurrentCall (getState e0); mm = ev_mm e0;
          current = obj_get (mm_channels mm) connectedID
      in if connectedID = []
         then effect (EPostConnect channelID) (dismissIncomingCallNotification channelID callID e)
         else if \<not> global_widget h e0 then showSwitchCallModal (Some channelID) e
         else if sendRequest then effect (EDesktopEvent ''sendJoinCallRequest'' channelID) e
         else if desktopGTE (hw_parseSemVer h) (hw_page h) 5 5
         then effect (EDesktopEvent ''calls-join-request'' channelID) e
         else effect (EDesktopEvent ''calls-joined-call'' channelID)
                (effect (EDesktopEvent ''calls-widget-channel-link-click''
                   (getChannelURL mm current (map_option chn_team_id current))) e))"

definition useOnACallWithoutGlobalWidget :: "host_window \<Rightarrow> env \<Rightarrow> bool" where
  "useOnACallWithoutGlobalWidget h e =
     (channelIDForCurrentCall (getState e) \<noteq> [] \<and> \<not> rendersDesktopWidget h)"

text \<open>
  The caller and, in a group, the other members, with the number of those who are not named
  (\<open>None\<close> when all are). A caller who is not known cannot be told from the members.
\<close>

definition useGetCallerNameAndOthers ::
  "incoming_call \<Rightarrow> nat \<Rightarrow> user_profile list \<Rightarrow> env \<Rightarrow> error + (string \<times> string list \<times> nat option)" where
  "useGetCallerNameAndOthers call splitAt gmMembers e =
     (let mm = ev_mm e; caller = obj_get (mm_profiles mm) (ic_callerID call);
          callerName = mm_displayUsername mm caller
      in if ic_type call \<noteq> GM then Inr (callerName, [], None)
         else (case caller of
            None \<Rightarrow> if gmMembers \<noteq> [] then Inl (TypeError ''id'') else Inr (callerName, [], None)
          | Some c \<Rightarrow>
              (let others = filter (\<lambda>u. up_id u \<noteq> up_id c \<and> up_id u \<noteq> mm_currentUserID mm) gmMembers
               in case split_list_at others splitAt False of (displayed, overflowed) \<Rightarrow>
                    Inr (callerName, map (\<lambda>u. mm_displayUsername mm (Some u)) displayed,
                         map_option length overflowed))))"

definition channel_link :: "host_window \<Rightarrow> string \<Rightarrow> env \<Rightarrow> string" where
  "channel_link h channelID e =
     (let mm = ev_mm e; channel = obj_get (mm_channels mm) channelID;
          url = getChannelURL mm channel (map_option chn_team_id channel)
      in if global_widget h e \<and> startsWith url ''/channels''
         then ''/'' @ str_of (map_option tm_name (teamForCurrentCall (getState e))) @ url else url)"

definition useOnChannelLinkClick :: "host_window \<Rightarrow> string \<Rightarrow> env \<Rightarrow> env" where
  "useOnChannelLinkClick h channelID e =
     (let url = channel_link h channelID e; e1 = effect EStopRing e
      in if \<not> global_widget h e then effect (ENavigate url) e1
         else if hw_openLinkFromCalls h then effect (EDesktopEvent ''openLinkFromCalls'' url) e1
         else effect (EDesktopEvent ''calls-link-click'' url) e1)"


section \<open>Properties\<close>

lemma ring_effects [simp]:
  "ev_effects (ringForCall k s e) = ev_effects e @ [ERing s]"
  "ev_plugin (ringForCall k s e) = store_dispatch (ev_plugin e) (RINGING_FOR_CALL k)"
  "ev_mm (ringForCall k s e) = ev_mm e" "ev_client (ringForCall k s e) = ev_client e"
  by (simp_all add: ringForCall_def)

lemma did_ring_run: "marked (rs_didRingForCalls st) k \<Longrightarrow> marked (rs_didRingForCalls (foldl store_dispatch st as)) k"
  by (induction as arbitrary: st) (simp_all add: didRing_step)

text \<open>
  An incoming call rings only for a user who is in no call, is neither in do not disturb nor
  out of office, is a member of the channel and has not muted it, and only when the call never
  rang before and no other call is ringing.\<close>
theorem ringing_guarded:
  assumes "ring_effect h onWidget user k (ring_render member user k e) e = Inr e'"
    and "ev_effects e' \<noteq> ev_effects e"
    and "marked (rs_ringingForCalls (ev_plugin e)) k \<longrightarrow> marked (rs_didRingForCalls (ev_plugin e)) k"
  shows "channelIDForCurrentCall (getState e) = [] \<and>
    getStatusForCurrentUser (getState e) \<notin> {Some ''dnd'', Some ''ooo''} \<and>
    (\<exists>m. member = Some m \<and> \<not> mn_muted m) \<and> \<not> didRingForCall (getState e) k \<and>
    \<not> currentlyRinging (getState e)"
  using assms
  by (auto simp: ring_effect_def ring_render_def Let_def useNotificationSettings_def didRingForCall_def
      ringingForCall_def marked_def split: if_splits option.splits)

definition keen_user :: user_notify where
  "keen_user = \<lparr>un_desktop = ''all'', un_desktop_sound = ''true'', un_desktop_notification_sound = None,
     un_calls_desktop_sound = None, un_calls_notification_sound = None\<rparr>"

definition keen_member :: member_notify where
  "keen_member = \<lparr>mn_muted = False, mn_desktop = None, mn_desktop_sound = None,
     mn_desktop_notification_sound = None\<rparr>"

lemmas keen_simps = keen_user_def keen_member_def ring_effect_def ring_render_def Let_def
  useNotificationSettings_def getRingingFromUser_def didRingForCall_def ringingForCall_def
  currentlyRinging_def getStatusForCurrentUser_def sample_env_def init_root_def sample_mm_def
  channelIDForCurrentCall_def getCallsClientChannelID_def clientState_def obj_values_def

lemma sample_rings:
  "ring_effect h False (Some keen_user) k (ring_render (Some keen_member) (Some keen_user) k sample_env) e =
     Inr (ringForCall k ''Calm'' e)"
  by (simp add: keen_simps truthy_bool_def)

theorem ringing_guarded_witness:
  "\<not> currentlyRinging (getState sample_env)"
proof -
  have "marked (rs_ringingForCalls (ev_plugin sample_env)) ''k'' \<longrightarrow>
      marked (rs_didRingForCalls (ev_plugin sample_env)) ''k''"
    by (simp add: sample_env_def init_root_def)
  from ringing_guarded [OF sample_rings [where h = "sample_window False"] _ this] show ?thesis by simp
qed

text \<open>
  C39. A call rings at most once: whatever happens in between, its notification shown again rings
  no more.\<close>
theorem rings_once:
  assumes "ring_effect h onWidget user k v e = Inr e'" "ev_effects e' \<noteq> ev_effects e"
    and "ev_plugin e2 = foldl store_dispatch (ev_plugin e') as"
  shows "\<exists>e3. ring_effect h' onWidget' user' k (ring_render member user' k e2) e2 = Inr e3 \<and>
    ev_effects e3 = ev_effects e2"
proof -
  have "marked (rs_didRingForCalls (ev_plugin e')) k"
    using assms(1,2) by (auto simp: ring_effect_def split: if_splits option.splits)
  then have "didRingForCall (getState e2) k"
    using did_ring_run assms(3) by (simp add: didRingForCall_def marked_def)
  then show ?thesis by (simp add: ring_effect_def ring_render_def Let_def)
qed

theorem rings_once_witness:
  "\<exists>e3. ring_effect (sample_window False) False (Some keen_user) ''k''
      (ring_render (Some keen_member) (Some keen_user) ''k'' (ringForCall ''k'' ''Calm'' sample_env))
      (ringForCall ''k'' ''Calm'' sample_env) = Inr e3 \<and>
    ev_effects e3 = ev_effects (ringForCall ''k'' ''Calm'' sample_env)"
  by (rule rings_once [OF sample_rings, where as = "[]"]) simp_all

text \<open>
  Two notifications that render together both read that nothing rings, so both ring: the
  guard against ringing for two calls at a time looks at the store of the render.
\<close>
theorem two_ring_together:
  assumes "v = ring_render member user k e" "v' = ring_render member user k' e"
    and "ring_effect h False user k v e = Inr e1" "ev_effects e1 \<noteq> ev_effects e"
    and "\<not> didRingForCall (getState e) k'" "\<not> currentlyRinging (getState e)"
  shows "\<exists>e2. ring_effect h False user k' v' e1 = Inr e2 \<and> ev_effects e2 \<noteq> ev_effects e1 \<and>
    ringingForCall (getState e2) k \<and> ringingForCall (getState e2) k'"
  using assms
  by (auto simp: ring_effect_def ring_render_def Let_def ringingForCall_def marked_def
      split: if_splits option.splits)

theorem two_ring_together_witness:
  "\<exists>e2. ring_effect (sample_window False) False (Some keen_user) ''l''
      (ring_render (Some keen_member) (Some keen_user) ''l'' sample_env)
      (ringForCall ''k'' ''Calm'' sample_env) = Inr e2 \<and>
    ev_effects e2 \<noteq> ev_effects (ringForCall ''k'' ''Calm'' sample_env) \<and>
    ringingForCall (getState e2) ''k'' \<and> ringingForCall (getState e2) ''l''"
  by (rule two_ring_together [OF refl refl sample_rings])
    (simp_all add: didRingForCall_def currentlyRinging_def sample_env_def init_root_def obj_values_def)

end
