(* ===== verification/RecordingPrompt.thy ===== *)
theory RecordingPrompt imports Handlers begin

text \<open>
  The prompt about a call's recording (\<open>components/expanded_view/recording_info_prompt.tsx\<close>) and
  the time that a dismissal of it is given (\<open>utils/clock_skew.ts\<close>).

  A comparison with \<open>undefined\<close> is false, which \<open>num_gt\<close> writes out. Texts of the prompt are the
  cases of \<open>prompt_text\<close>. The minutes left are rounded on exact fractions, where the code
  rounds a floating point division.
\<close>

section \<open>Dismissing\<close>

definition serverDismissedAt :: "job_state option \<Rightarrow> int \<Rightarrow> int" where
  "serverDismissedAt recording hostChangeAt =
     (let f = (\<lambda>sel. int_or (Option.bind recording sel) 0)
      in max (max (f jb_start_at) (f jb_end_at)) (max (f jb_error_at) hostChangeAt) + 1)"

section \<open>The prompt\<close>

definition minutesLeftThreshold :: int where
  "minutesLeftThreshold = 10"

record prompt_props =
  pp_isHost :: bool
  pp_recording :: "job_state option"
  pp_recordingMaxDuration :: int
  pp_hostChangeAt :: int
  pp_transcriptionsEnabled :: bool

datatype prompt_text =
    TRecording bool bool \<comment> \<open>to the host, with transcription\<close>
  | TStopped bool \<comment> \<open>with transcription\<close>
  | TError string

datatype button = BNone | BDismiss | BUnderstood | BLeaveCall

datatype prompt =
    NoPrompt
  | WillEndSoon int int \<comment> \<open>the longest duration and the minutes left\<close>
  | Banner prompt_text button button

definition getMinutesLeftBeforeEnd :: "prompt_props \<Rightarrow> int \<Rightarrow> int" where
  "getMinutesLeftBeforeEnd p now =
     (let start = Option.bind (pp_recording p) jb_start_at
      in if \<not> truthy_int start then 0
         else (pp_recordingMaxDuration p * 60000 - (now - int_or start 0) + 30000) div 60000)"

text \<open>The effect that notes, once, that the recording will end soon.\<close>

definition updateRecordingWillEndSoon :: "prompt_props \<Rightarrow> int \<Rightarrow> int \<Rightarrow> int" where
  "updateRecordingWillEndSoon p now current =
     (case pp_recording p of
        None \<Rightarrow> current
      | Some r \<Rightarrow>
          if \<not> pp_isHost p \<or> jb_start_at r = Some 0 \<or> jb_end_at r \<noteq> Some 0 \<or> current \<noteq> 0 then current
          else if getMinutesLeftBeforeEnd p now \<le> minutesLeftThreshold
          then int_or (jb_start_at r) 0 + 1 else current)"

text \<open>\<open>opener\<close>: when the prompt was dismissed according to the window that opened this one.\<close>

definition disclaimerDismissedAt :: "prompt_props \<Rightarrow> int option \<Rightarrow> int" where
  "disclaimerDismissedAt p opener =
     (let own = int_or (Option.bind (pp_recording p) jb_prompt_dismissed_at) 0
      in case opener of None \<Rightarrow> own | Some t \<Rightarrow> if t > own then t else own)"

definition hasRecEnded :: "prompt_props \<Rightarrow> bool" where
  "hasRecEnded p =
     (int_or (Option.bind (pp_recording p) jb_end_at) 0 > int_or (Option.bind (pp_recording p) jb_start_at) 0)"

definition RecordingInfoPrompt :: "prompt_props \<Rightarrow> int option \<Rightarrow> int \<Rightarrow> int \<Rightarrow> prompt" where
  "RecordingInfoPrompt p opener recordingWillEndSoon now =
     (let rec = pp_recording p; start = Option.bind rec jb_start_at; end' = Option.bind rec jb_end_at;
          err = str_of (Option.bind rec jb_err);
          dismissed = disclaimerDismissedAt p opener; ended = hasRecEnded p; isHost = pp_isHost p;
          hca = pp_hostChangeAt p;
          shouldShowError = (truthy_int (Option.bind rec jb_error_at) \<and>
                             num_gt (Option.bind rec jb_error_at) (Some dismissed))
      in if isHost \<and> \<not> ended \<and> recordingWillEndSoon > dismissed
         then WillEndSoon (pp_recordingMaxDuration p) (getMinutesLeftBeforeEnd p now)
         else if \<not> truthy_int start \<and> err = [] then NoPrompt
         else if ended \<and> \<not> isHost then NoPrompt
         else if \<not> ended \<and> num_gt (Some dismissed) start \<and> dismissed > hca \<and> \<not> shouldShowError then NoPrompt
         else if ended \<and> num_gt (Some dismissed) end' \<and> \<not> shouldShowError then NoPrompt
         else if num_gt (Some dismissed) start \<and> hca > dismissed \<and> \<not> isHost \<and> \<not> shouldShowError then NoPrompt
         else if isHost \<and> ended \<and> num_gt (Some hca) end' \<and> \<not> shouldShowError then NoPrompt
         else Banner
                (if err \<noteq> [] then TError (capitalize err)
                 else if ended then TStopped (pp_transcriptionsEnabled p)
                 else TRecording isHost (pp_transcriptionsEnabled p))
                (if isHost then BDismiss else if ended then BNone else BUnderstood)
                (if isHost then BNone else BLeaveCall))"

section \<open>Properties\<close>

lemma serverDismissedAt_gt:
  "serverDismissedAt recording hca > hca"
  "Option.bind recording jb_start_at = Some s \<Longrightarrow> serverDismissedAt recording hca > s"
  "Option.bind recording jb_end_at = Some s \<Longrightarrow> serverDismissedAt recording hca > s"
  "Option.bind recording jb_error_at = Some s \<Longrightarrow> serverDismissedAt recording hca > s"
  by (auto simp: serverDismissedAt_def Let_def int_or_def split: option.splits)


lemma disclaimer_dismissed:
  assumes "pp_recording p = Some r" "jb_prompt_dismissed_at r = Some d"
  shows "disclaimerDismissedAt p opener \<ge> d"
  using assms by (auto simp: disclaimerDismissedAt_def Let_def int_or_def split: option.splits)

definition dismiss :: "prompt_props \<Rightarrow> prompt_props" where
  "dismiss p = p\<lparr>pp_recording := map_option
     (\<lambda>r. r\<lparr>jb_prompt_dismissed_at := Some (serverDismissedAt (pp_recording p) (pp_hostChangeAt p))\<rparr>)
     (pp_recording p)\<rparr>"

text \<open>
  Dismissing the prompt hides it: with the dismissal's time every branch that shows a banner
  is closed, whether the recording runs or has ended, for the host and for the others, after an
  error too, and whatever the window that opened this one recorded.\<close>
theorem dismissing_hides_prompt:
  assumes "pp_recording p = Some r" "jb_start_at r = Some s" "w \<in> {0, s + 1}" "0 \<le> s"
  shows "RecordingInfoPrompt (dismiss p) opener w now = NoPrompt"
proof -
  let ?d = "serverDismissedAt (Some r) (pp_hostChangeAt p)"
  let ?r = "r\<lparr>jb_prompt_dismissed_at := Some ?d\<rparr>"
  have r: "pp_recording (dismiss p) = Some ?r" using assms(1) by (simp add: dismiss_def)
  let ?t = "disclaimerDismissedAt (dismiss p) opener"
  have t: "?t \<ge> ?d" by (rule disclaimer_dismissed [OF r]) simp
  have d: "?d > pp_hostChangeAt p" "?d > s"
    using assms(2) by (simp_all add: serverDismissedAt_gt)
  have e: "jb_end_at r = Some x \<Longrightarrow> ?d > x" "jb_error_at r = Some x \<Longrightarrow> ?d > x" for x
    by (simp_all add: serverDismissedAt_gt)
  have same: "pp_hostChangeAt (dismiss p) = pp_hostChangeAt p" by (simp add: dismiss_def)
  have w: "\<not> w > ?t" using assms(3,4) d t by auto
  have err: "\<not> num_gt (jb_error_at r) (Some ?t)"
    using e(2) t by (auto simp: num_gt_def split: option.splits)
  show ?thesis
  proof (cases "hasRecEnded (dismiss p)")
    case True
    then obtain x where "jb_end_at r = Some x"
      using r assms(2,4) by (cases "jb_end_at r") (auto simp: hasRecEnded_def int_or_def split: if_splits)
    with e(1) t have "num_gt (Some ?t) (jb_end_at r)" by (fastforce simp: num_gt_def)
    with True w err r show ?thesis by (simp add: RecordingInfoPrompt_def Let_def)
  next
    case False
    have "num_gt (Some ?t) (jb_start_at r)" using d t assms(2) by (simp add: num_gt_def)
    with False w err r d t same show ?thesis by (simp add: RecordingInfoPrompt_def Let_def)
  qed
qed

definition recording_now :: job_state where
  "recording_now = empty_job\<lparr>jb_start_at := Some 1000, jb_end_at := Some 0\<rparr>"

definition host_props :: prompt_props where
  "host_props = \<lparr>pp_isHost = True, pp_recording = Some recording_now, pp_recordingMaxDuration = 60,
     pp_hostChangeAt = 0, pp_transcriptionsEnabled = False\<rparr>"

theorem dismissing_hides_prompt_witness:
  "RecordingInfoPrompt (dismiss host_props) None 1001 5000 = NoPrompt"
  by (rule dismissing_hides_prompt [where r = recording_now and s = 1000])
    (simp_all add: host_props_def recording_now_def empty_job_def)

text \<open>
  The host is warned that the recording will end soon only if no prompt of this recording was
  dismissed: a dismissal, of the notice that the recording started for instance, gets a later
  time than the warning, which is dated one millisecond after the start.\<close>
theorem warning_lost_after_dismissal:
  assumes "pp_isHost p" "pp_recording p = Some r" "jb_start_at r = Some s" "0 < s" "jb_end_at r = Some 0"
    and "getMinutesLeftBeforeEnd p now \<le> minutesLeftThreshold"
    and "w = updateRecordingWillEndSoon p now 0"
  shows "(jb_prompt_dismissed_at r = None \<longrightarrow>
      RecordingInfoPrompt p None w now =
        WillEndSoon (pp_recordingMaxDuration p) (getMinutesLeftBeforeEnd p now)) \<and>
    (jb_start_at r0 = Some s \<and> jb_prompt_dismissed_at r = Some (serverDismissedAt (Some r0) hca) \<longrightarrow>
      RecordingInfoPrompt p opener w now' \<noteq> WillEndSoon m n)"
proof -
  have w: "w = s + 1" using assms by (simp add: updateRecordingWillEndSoon_def)
  have run: "\<not> hasRecEnded p" using assms by (simp add: hasRecEnded_def)
  have "disclaimerDismissedAt p None = 0" if "jb_prompt_dismissed_at r = None"
    using that assms(2) by (simp add: disclaimerDismissedAt_def)
  then have "jb_prompt_dismissed_at r = None \<longrightarrow>
      RecordingInfoPrompt p None w now =
        WillEndSoon (pp_recordingMaxDuration p) (getMinutesLeftBeforeEnd p now)"
    using assms(1,4) w run by (simp add: RecordingInfoPrompt_def Let_def)
  moreover have "\<not> w > disclaimerDismissedAt p opener"
    if "jb_start_at r0 = Some s" "jb_prompt_dismissed_at r = Some (serverDismissedAt (Some r0) hca)"
    using disclaimer_dismissed [OF assms(2) that(2), of opener] serverDismissedAt_gt(2) [of "Some r0" s hca]
      that(1) w by simp
  then have "jb_start_at r0 = Some s \<and> jb_prompt_dismissed_at r = Some (serverDismissedAt (Some r0) hca) \<longrightarrow>
      RecordingInfoPrompt p opener w now' \<noteq> WillEndSoon m n"
    by (auto simp: RecordingInfoPrompt_def Let_def)
  ultimately show ?thesis by blast
qed

theorem warning_lost_after_dismissal_witness:
  "RecordingInfoPrompt host_props None (updateRecordingWillEndSoon host_props 3600000 0) 3600000 =
     WillEndSoon 60 (getMinutesLeftBeforeEnd host_props 3600000)"
proof -
  have "pp_isHost host_props" "pp_recording host_props = Some recording_now"
    "jb_start_at recording_now = Some 1000" "jb_end_at recording_now = Some 0"
    "jb_prompt_dismissed_at recording_now = None" "pp_recordingMaxDuration host_props = 60"
    "getMinutesLeftBeforeEnd host_props 3600000 \<le> minutesLeftThreshold"
    by (simp_all add: host_props_def recording_now_def empty_job_def getMinutesLeftBeforeEnd_def
        minutesLeftThreshold_def truthy_int_def)
  with warning_lost_after_dismissal [of host_props recording_now 1000 3600000 _, OF _ _ _ _ _ _ refl]
  show ?thesis by auto
qed


lemma recording_dispatches:
  "rs_recordings (ev_plugin (handleCallHostChanged m hostID k e)) = rs_recordings (ev_plugin e)"
  "rs_recordings (ev_plugin (recordingPromptDismissedAt ch t e)) =
     recordings (rs_recordings (ev_plugin e)) (CALL_REC_PROMPT_DISMISSED ch t)"
  by (simp_all add: handleCallHostChanged_def show_notice_def Let_def recordingPromptDismissedAt_def
      split: option.splits)

text \<open>
  The time of a host change is the client's own clock, so a dismissal after it can be later
  than anything the server has sent: with a clock that is ahead, a recording that starts after the
  dismissal is not announced to a participant.
\<close>
theorem skewed_clock_hides_recording:
  assumes "ch = event_channel m" "e1 = handleCallHostChanged m hostID callID e"
    and "obj_get (rs_recordings (ev_plugin e)) ch = Some old"
    and "e2 = recordingPromptDismissedAt ch (serverDismissedAt (Some old) (ev_now e)) e1"
    and "jb_type new = Some ''recording''" "str_of (jb_err new) = []" "jb_prompt_dismissed_at new = None"
    and "jb_start_at new = Some s" "s \<le> ev_now e" "0 < s" "jb_end_at new = Some 0" "jb_error_at new = None"
    and "e3 = handleCallJobState ch new e2"
    and "pp_recording p = obj_get (rs_recordings (ev_plugin e3)) ch"
    and "pp_hostChangeAt p = ev_now e" "\<not> pp_isHost p"
  shows "obj_get (rs_hosts (ev_plugin e1)) ch = Some \<lparr>he_hostID = hostID, he_hostChangeAt = Some (ev_now e)\<rparr>
    \<and> RecordingInfoPrompt p opener 0 now = NoPrompt"
proof
  show "obj_get (rs_hosts (ev_plugin e1)) ch = Some \<lparr>he_hostID = hostID, he_hostChangeAt = Some (ev_now e)\<rparr>"
    using assms(1,2) by (simp add: handleCallHostChanged_def show_notice_def Let_def split: option.splits)
  let ?d = "serverDismissedAt (Some old) (ev_now e)"
  have d: "?d > ev_now e" "\<And>x. jb_error_at old = Some x \<Longrightarrow> ?d > x"
    by (simp_all add: serverDismissedAt_gt)
  let ?r = "spread_job (Some (old\<lparr>jb_prompt_dismissed_at := Some ?d\<rparr>)) (Some new)"
  have rec: "pp_recording p = Some ?r"
    using assms by (simp add: handleCallJobState_def Let_def recording_dispatches)
  have r: "jb_start_at ?r = Some s" "jb_end_at ?r = Some 0" "jb_prompt_dismissed_at ?r = Some ?d"
    "jb_error_at ?r = jb_error_at old"
    using assms(7,8,11,12) by (simp_all add: spread_job_def)
  let ?t = "disclaimerDismissedAt p opener"
  have t: "?t \<ge> ?d" by (rule disclaimer_dismissed [OF rec r(3)])
  have "\<not> hasRecEnded p" using rec r assms(10) by (simp add: hasRecEnded_def int_or_def)
  moreover have "num_gt (Some ?t) (jb_start_at ?r)" using r(1) t d assms(9) by (simp add: num_gt_def)
  moreover have "\<not> num_gt (jb_error_at ?r) (Some ?t)"
    unfolding r(4) using d(2) t by (cases "jb_error_at old") (auto simp: num_gt_def)
  ultimately show "RecordingInfoPrompt p opener 0 now = NoPrompt"
    using rec t d assms(15,16) by (simp add: RecordingInfoPrompt_def Let_def)
qed

definition old_recording :: job_state where
  "old_recording = empty_job\<lparr>jb_start_at := Some 10, jb_end_at := Some 20\<rparr>"

definition new_recording :: job_state where
  "new_recording = empty_job\<lparr>jb_type := Some ''recording'', jb_start_at := Some 50, jb_end_at := Some 0\<rparr>"

definition recorded_env :: env where
  "recorded_env = dispatch (CALL_RECORDING_STATE ''dm'' (Some old_recording)) sample_env"

definition dm_event :: event_meta where
  "dm_event = \<lparr>em_data_channel = ''dm'', em_broadcast_channel = [], em_broadcast_user = []\<rparr>"

definition skewed_env :: env where
  "skewed_env = handleCallJobState ''dm'' new_recording
     (recordingPromptDismissedAt ''dm'' (serverDismissedAt (Some old_recording) (ev_now recorded_env))
       (handleCallHostChanged dm_event ''you'' ''c'' recorded_env))"

definition participant_props :: prompt_props where
  "participant_props = \<lparr>pp_isHost = False, pp_recording = obj_get (rs_recordings (ev_plugin skewed_env)) ''dm'',
     pp_recordingMaxDuration = 60, pp_hostChangeAt = ev_now recorded_env, pp_transcriptionsEnabled = False\<rparr>"

theorem skewed_clock_hides_recording_witness:
  "RecordingInfoPrompt participant_props None 0 60 = NoPrompt"
proof -
  have "obj_get (rs_recordings (ev_plugin recorded_env)) ''dm'' = Some old_recording"
    by (simp add: recorded_env_def sample_env_def init_root_def spread_job_def old_recording_def empty_job_def)
  moreover have now: "ev_now recorded_env = 100" by (simp add: recorded_env_def sample_env_def)
  moreover have "''dm'' = event_channel dm_event" by (simp add: event_channel_def dm_event_def)
  ultimately show ?thesis
    by (intro skewed_clock_hides_recording [where new = new_recording and s = 50 and opener = None and now = 60
          and ch = "''dm''" and m = dm_event and e = recorded_env and old = old_recording and hostID = "''you''"
          and callID = "''c''" and p = participant_props, OF _ refl _ refl _ _ _ _ _ _ _ _ refl, THEN conjunct2])
      (simp_all add: participant_props_def new_recording_def empty_job_def skewed_env_def now)
qed

end
