(* ===== verification/JoinLinks.thy ===== *)
theory JoinLinks imports Connect begin

text \<open>
  Links that join a call: the watcher of the page's address
  (\<open>components/join_call_watcher.tsx\<close>) and the handler of clicks on links to the channel that is
  shown (\<open>components/same_channel_link_click_handler.ts\<close>).

  Both read \<open>/TEAM/channels/CHANNEL\<close> from a path, with the regular expression
  \<open>^\/([^/]+)\/channels\/([^/]+)\<close>, which \<open>link_target\<close> is. The browser's parse of a link is the
  record \<open>link\<close>; the channels by name of the current team are an argument.
\<close>

section \<open>The path\<close>

definition segment :: "string \<Rightarrow> (string \<times> string) option" where
  "segment s =
     (let w = takeWhile (\<lambda>c. c \<noteq> CHR ''/'') s
      in if w = [] then None else Some (w, drop (length w) s))"

definition link_target :: "string \<Rightarrow> (string \<times> string) option" where
  "link_target path =
     (if \<not> startsWith path ''/'' then None
      else (case segment (drop 1 path) of
          None \<Rightarrow> None
        | Some (team, rest) \<Rightarrow>
            if \<not> startsWith rest ''/channels/'' then None
            else map_option (\<lambda>(target, r). (team, target)) (segment (drop 10 rest))))"

section \<open>The watcher\<close>

definition channelFromUrl ::
  "(string \<Rightarrow> channel option) \<Rightarrow> string \<Rightarrow> mm_state \<Rightarrow> channel option" where
  "channelFromUrl byName pathname mm =
     (case link_target pathname of
        None \<Rightarrow> None
      | Some (teamName, idOrName) \<Rightarrow>
          let current = map_option tm_name (obj_get (mm_teams mm) (mm_currentTeamID mm))
          in if str_of current = [] \<or> current \<noteq> Some teamName then None
             else (case obj_get (mm_channels mm) idOrName of
                     Some c \<Rightarrow> Some c | None \<Rightarrow> byName idOrName))"

text \<open>The channel that the effect joins, given the parameter of the address.\<close>

definition JoinCallWatcher ::
  "(string \<Rightarrow> channel option) \<Rightarrow> string \<Rightarrow> string option \<Rightarrow> mm_state \<Rightarrow> string option" where
  "JoinCallWatcher byName pathname join_call mm =
     (if join_call \<noteq> Some ''true'' then None
      else map_option chn_id (channelFromUrl byName pathname mm))"

section \<open>The click handler\<close>

record link =
  lk_target :: string
  lk_href :: string
  lk_origin :: "string option" \<comment> \<open>\<open>None\<close>: the address does not parse\<close>
  lk_join_call :: "string option"
  lk_pathname :: string

record click =
  ck_button :: nat
  ck_modified :: bool
  ck_link :: "link option"

text \<open>The channel that is joined; the click is swallowed then and only then.\<close>

definition same_channel_click :: "string \<Rightarrow> string \<Rightarrow> mm_state \<Rightarrow> click \<Rightarrow> string option" where
  "same_channel_click origin basename mm ck =
     (case ck_link ck of
        None \<Rightarrow> None
      | Some l \<Rightarrow>
          let path = (if basename \<noteq> [] \<and> startsWith (lk_pathname l) basename
                      then drop (length basename) (lk_pathname l) else lk_pathname l);
              team = map_option tm_name (obj_get (mm_teams mm) (mm_currentTeamID mm));
              channelId = mm_currentChannelID mm;
              channelName = map_option chn_name (obj_get (mm_channels mm) channelId)
          in if ck_button ck \<noteq> 0 \<or> ck_modified ck then None
             else if lk_target l \<noteq> [] \<and> lk_target l \<noteq> ''_self'' then None
             else if lk_href l = [] \<or> lk_origin l \<noteq> Some origin then None
             else if lk_join_call l \<noteq> Some ''true'' then None
             else (case link_target path of
                     None \<Rightarrow> None
                   | Some (teamName, target) \<Rightarrow>
                       if str_of team = [] \<or> team \<noteq> Some teamName then None
                       else if target \<noteq> channelId \<and> Some target \<noteq> channelName then None
                       else Some channelId))"

section \<open>Properties\<close>

lemma segment_append:
  assumes "w \<noteq> []" "CHR ''/'' \<notin> set w" "r = [] \<or> hd r = CHR ''/''"
  shows "segment (w @ r) = Some (w, r)"
proof -
  have "takeWhile (\<lambda>c. c \<noteq> CHR ''/'') (w @ r) = w"
    using assms(2,3) by (cases r) (auto simp: takeWhile_append)
  with assms(1) show ?thesis by (simp add: segment_def Let_def)
qed

lemma link_target_made:
  assumes "team \<noteq> []" "CHR ''/'' \<notin> set team" "target \<noteq> []" "CHR ''/'' \<notin> set target"
    and "r = [] \<or> hd r = CHR ''/''"
  shows "link_target (''/'' @ team @ ''/channels/'' @ target @ r) = Some (team, target)"
  using segment_append [of team "''/channels/'' @ target @ r"] segment_append [of target r] assms
  by (simp add: link_target_def startsWith_def)

text \<open>
  The address that \<open>getChannelURL\<close> makes for a channel of the current team, with
  \<open>?join_call=true\<close>, is understood by both: followed in the browser it joins the channel, and
  clicked in that channel it joins it too.\<close>
theorem join_link_understood:
  assumes "obj_get (mm_teams mm) (mm_currentTeamID mm) = Some t" "tm_name t \<noteq> []" "CHR ''/'' \<notin> set (tm_name t)"
    and "mm_currentTeamID mm \<noteq> []" "chn_type c \<noteq> ''D''" "chn_type c \<noteq> ''G''"
    and "chn_name c \<noteq> []" "CHR ''/'' \<notin> set (chn_name c)"
    and "obj_get (mm_channels mm) (chn_name c) = None" "byName (chn_name c) = Some c"
    and "url = getChannelURL mm (Some c) (Some (mm_currentTeamID mm))"
  shows "JoinCallWatcher byName url (Some ''true'') mm = Some (chn_id c) \<and>
    (obj_get (mm_channels mm) (mm_currentChannelID mm) = Some c \<longrightarrow>
     same_channel_click origin [] mm \<lparr>ck_button = 0, ck_modified = False, ck_link = Some
       \<lparr>lk_target = [], lk_href = url, lk_origin = Some origin, lk_join_call = Some ''true'',
        lk_pathname = url\<rparr>\<rparr> = Some (mm_currentChannelID mm))"
proof -
  have u: "url = ''/'' @ tm_name t @ ''/channels/'' @ chn_name c"
    using assms(1-8,11) by (cases "tm_name t") (auto simp: getChannelURL_def getTeamRelativeURL_def Let_def)
  then have l: "link_target url = Some (tm_name t, chn_name c)"
    using link_target_made [of "tm_name t" "chn_name c" "[]"] assms(2,3,7,8) by simp
  have "url \<noteq> []" using u by simp
  with l assms show ?thesis
    by (simp add: JoinCallWatcher_def channelFromUrl_def same_channel_click_def Let_def)
qed

definition town_square :: channel where
  "town_square = \<lparr>chn_id = ''c1'', chn_name = ''town-square'', chn_type = ''O'', chn_team_id = ''t'',
     chn_display_name = [], chn_delete_at = 0\<rparr>"

definition town_mm :: mm_state where
  "town_mm = sample_mm\<lparr>mm_teams := [(''t'', \<lparr>tm_id = ''t'', tm_name = ''one''\<rparr>)],
     mm_channels := [(''c1'', town_square)], mm_currentChannelID := ''c1''\<rparr>"

theorem join_link_understood_witness:
  "JoinCallWatcher (\<lambda>n. if n = ''town-square'' then Some town_square else None)
     (getChannelURL town_mm (Some town_square) (Some ''t'')) (Some ''true'') town_mm = Some ''c1''"
proof -
  have m: "mm_currentTeamID town_mm = ''t''" "chn_id town_square = ''c1''"
    by (simp_all add: town_mm_def town_square_def sample_mm_def)
  show ?thesis
    using join_link_understood [of town_mm "\<lparr>tm_id = ''t'', tm_name = ''one''\<rparr>" town_square
        "\<lambda>n. if n = ''town-square'' then Some town_square else None", OF _ _ _ _ _ _ _ _ _ _ refl]
    unfolding m by (simp add: town_mm_def town_square_def sample_mm_def obj_get_def)
qed

end
