(* ===== verification/Support.thy ===== *)
theory Support imports SlashCommands begin

text \<open>
  Two small modules of the web application: the buffer of client logs (\<open>log.ts\<close>) and the
  keyboard shortcuts (\<open>shortcuts.ts\<close>).
\<close>

section \<open>Logs\<close>

definition MAX_ACCUMULATED_LOG_SIZE :: nat where
  "MAX_ACCUMULATED_LOG_SIZE = 1024 * 1024"

definition maxArgLength :: nat where
  "maxArgLength = 256"

text \<open>An argument to log: an error with its message, an object with its JSON, or another value.\<close>

datatype log_arg = LogError string | LogObject string | LogValue string

definition formatArg :: "log_arg \<Rightarrow> string" where
  "formatArg a = (case a of
       LogError message \<Rightarrow> message
     | LogObject json \<Rightarrow>
         if length json > maxArgLength then take (maxArgLength - 3) json @ ''...'' else json
     | LogValue s \<Rightarrow> s)"

record log_state =
  lg_clientLogs :: string
  lg_stored :: "string option" \<comment> \<open>under the logs' key of the persistent storage\<close>

definition newline :: string where
  "newline = [CHR 0x0A]"

definition appendClientLog :: "string \<Rightarrow> string \<Rightarrow> log_arg list \<Rightarrow> log_state \<Rightarrow> log_state" where
  "appendClientLog level time args l =
     l\<lparr>lg_clientLogs := lg_clientLogs l @ level @ '' ['' @ time @ ''] '' @
        join_words (map formatArg args) @ newline\<rparr>"

definition truncation_note :: string where
  "truncation_note = ''[... older logs truncated ...]'' @ newline @ newline"

definition flushLogsToAccumulated :: "string option \<Rightarrow> log_state \<Rightarrow> log_state" where
  "flushLogsToAccumulated stats l =
     (let logs = (case stats of
                    None \<Rightarrow> lg_clientLogs l
                  | Some json \<Rightarrow> lg_clientLogs l @ ''--- Call Stats ---'' @ newline @ json @ newline @
                                 ''---'' @ newline @ newline)
      in if list_all is_space logs then l\<lparr>lg_clientLogs := logs\<rparr>
         else
           let acc = str_of (lg_stored l) @ logs;
               keepSize = MAX_ACCUMULATED_LOG_SIZE - 50;
               acc' = (if length acc > MAX_ACCUMULATED_LOG_SIZE
                       then truncation_note @ drop (length acc - keepSize) acc else acc)
           in \<lparr>lg_clientLogs = [], lg_stored = Some acc'\<rparr>)"

definition getClientLogs :: "log_state \<Rightarrow> string" where
  "getClientLogs l = str_of (lg_stored l)"

section \<open>Shortcuts\<close>

definition meta_or_ctrl :: "bool \<Rightarrow> string \<Rightarrow> string" where
  "meta_or_ctrl mac s = (if mac then ''meta'' else ''ctrl'') @ s"

definition globalMappings :: "bool \<Rightarrow> (string, string) obj" where
  "globalMappings mac = [(meta_or_ctrl mac ''+alt+s'', ''join-call'')]"

definition widgetMappings :: "bool \<Rightarrow> (string, string) obj" where
  "widgetMappings mac =
     [(meta_or_ctrl mac ''+shift+space'', ''mute-unmute''),
      (meta_or_ctrl mac ''+shift+y'', ''raise-lower-hand''),
      (meta_or_ctrl mac ''+shift+x'', ''make-reaction''),
      (meta_or_ctrl mac ''+shift+e'', ''share-unshare-screen''),
      (''alt+p'', ''participants-list-toggle''),
      (meta_or_ctrl mac ''+shift+p'', ''participants-list-toggle''),
      (meta_or_ctrl mac ''+shift+l'', ''leave-call'')]"

definition popoutMappings :: "bool \<Rightarrow> (string, string) obj" where
  "popoutMappings mac = widgetMappings mac @
     [(''space'', ''push-to-talk''), (meta_or_ctrl mac ''+alt+r'', ''recording-toggle'')]"

datatype key_scope = Global | Widget | Popout

fun keyMappings :: "bool \<Rightarrow> key_scope \<Rightarrow> (string, string) obj" where
  "keyMappings mac Global = globalMappings mac"
| "keyMappings mac Widget = widgetMappings mac"
| "keyMappings mac Popout = popoutMappings mac"

text \<open>For every action of a scope, the sequences that trigger it.\<close>

definition add_reverse :: "string \<times> string \<Rightarrow> (string, string list) obj \<Rightarrow> (string, string list) obj" where
  "add_reverse = (\<lambda>(sequence, action) rev_map.
     obj_set action ((case obj_get rev_map action of None \<Rightarrow> [] | Some seqs \<Rightarrow> seqs) @ [sequence]) rev_map)"

definition reverseKeyMappings :: "bool \<Rightarrow> key_scope \<Rightarrow> (string, string list) obj" where
  "reverseKeyMappings mac scope = fold add_reverse (keyMappings mac scope) []"

record key_event =
  ke_key :: string
  ke_code :: string
  ke_meta :: bool
  ke_ctrl :: bool
  ke_shift :: bool
  ke_alt :: bool

definition remove_first :: "string \<Rightarrow> string \<Rightarrow> string" where
  "remove_first p s = (case indexOf p s of None \<Rightarrow> s | Some i \<Rightarrow> take i s @ drop (i + length p) s)"

definition modifiers :: "key_event \<Rightarrow> string" where
  "modifiers ev = (if ke_meta ev then ''meta+'' else []) @ (if ke_ctrl ev then ''ctrl+'' else []) @
     (if ke_shift ev then ''shift+'' else []) @ (if ke_alt ev then ''alt+'' else [])"

text \<open>The action, if any; when there is one the browser's own handling is prevented.\<close>

definition keyToAction :: "bool \<Rightarrow> key_scope \<Rightarrow> key_event \<Rightarrow> string option" where
  "keyToAction mac scope ev =
     (if ke_key ev = [] \<or> ke_code ev = [] then None
      else
        let mapKey = modifiers ev @ toLowerCase (ke_key ev);
            mapCode = modifiers ev @ toLowerCase (remove_first ''Key'' (ke_code ev))
        in case obj_get (keyMappings mac scope) mapKey of
             Some a \<Rightarrow> Some a
           | None \<Rightarrow> obj_get (keyMappings mac scope) mapCode)"

section \<open>Properties\<close>

text \<open>
  The stored logs never exceed their bound, and the latest of what was logged is kept: the
  text ends with the last \<open>MAX_ACCUMULATED_LOG_SIZE - 50\<close> characters of the old logs followed by the
  new ones.
\<close>
theorem logs_bounded:
  assumes "\<not> list_all is_space (lg_clientLogs l)"
    and "l' = flushLogsToAccumulated None l" "everything = getClientLogs l @ lg_clientLogs l"
  shows "length (getClientLogs l') \<le> MAX_ACCUMULATED_LOG_SIZE \<and> lg_clientLogs l' = [] \<and>
    (\<exists>p. getClientLogs l' = p @ drop (length everything - (MAX_ACCUMULATED_LOG_SIZE - 50)) everything)"
proof (cases "length everything > MAX_ACCUMULATED_LOG_SIZE")
  case True
  then have "getClientLogs l' =
      truncation_note @ drop (length everything - (MAX_ACCUMULATED_LOG_SIZE - 50)) everything"
    using assms by (simp add: flushLogsToAccumulated_def getClientLogs_def Let_def)
  moreover have "length truncation_note = 32" by (simp add: truncation_note_def newline_def)
  moreover have "lg_clientLogs l' = []"
    using assms by (simp add: flushLogsToAccumulated_def Let_def)
  ultimately show ?thesis using True by (simp add: MAX_ACCUMULATED_LOG_SIZE_def)
next
  case False
  then have "getClientLogs l' = everything" "lg_clientLogs l' = []"
    using assms by (simp_all add: flushLogsToAccumulated_def getClientLogs_def Let_def)
  with False show ?thesis by (metis append_take_drop_id not_less)
qed

theorem logs_bounded_witness:
  "length (getClientLogs (flushLogsToAccumulated None \<lparr>lg_clientLogs = ''a'', lg_stored = None\<rparr>))
     \<le> MAX_ACCUMULATED_LOG_SIZE"
  by (rule logs_bounded [OF _ refl refl, THEN conjunct1]) (simp add: is_space_def)

lemma add_reverse_get:
  "obj_get (add_reverse (s, a) m) b =
     (if b = a then Some ((case obj_get m a of None \<Rightarrow> [] | Some seqs \<Rightarrow> seqs) @ [s]) else obj_get m b)"
  by (simp add: add_reverse_def)

lemma reverse_fold:
  "(\<exists>seqs. obj_get (fold add_reverse ms m) a = Some seqs \<and> s \<in> set seqs) \<longleftrightarrow>
   (s, a) \<in> set ms \<or> (\<exists>seqs. obj_get m a = Some seqs \<and> s \<in> set seqs)"
proof (induction ms arbitrary: m)
  case (Cons x ms)
  obtain t b where x: "x = (t, b)" by fastforce
  show ?case by (simp add: Cons.IH x add_reverse_get) (auto split: option.splits)
qed simp

lemma wf_keyMappings: "distinct (map fst (keyMappings mac scope))"
  by (cases scope; cases mac)
    (simp_all add: globalMappings_def widgetMappings_def popoutMappings_def meta_or_ctrl_def)

definition listed :: "bool \<Rightarrow> key_scope \<Rightarrow> string \<Rightarrow> string \<Rightarrow> bool" where
  "listed mac scope s a \<longleftrightarrow> (\<exists>seqs. obj_get (reverseKeyMappings mac scope) a = Some seqs \<and> s \<in> set seqs)"

lemma listed_iff: "listed mac scope s a \<longleftrightarrow> obj_get (keyMappings mac scope) s = Some a"
proof -
  have "listed mac scope s a \<longleftrightarrow> (s, a) \<in> set (keyMappings mac scope)"
    using reverse_fold [of "keyMappings mac scope" "[]" a s]
    by (simp add: listed_def reverseKeyMappings_def)
  with wf_keyMappings [of mac scope] show ?thesis by (simp add: obj_get_def map_of_eq_Some_iff)
qed

text \<open>
  The sequences shown for an action are those that trigger it: a key event makes an action
  exactly when its key, or else its code, with the modifiers is one of them.
\<close>
theorem shortcuts_shown_work:
  assumes "ke_key ev \<noteq> []" "ke_code ev \<noteq> []"
    and "mapKey = modifiers ev @ toLowerCase (ke_key ev)"
    and "mapCode = modifiers ev @ toLowerCase (remove_first ''Key'' (ke_code ev))"
  shows "keyToAction mac scope ev = Some a \<longleftrightarrow>
    listed mac scope mapKey a \<or> (\<nexists>b. listed mac scope mapKey b) \<and> listed mac scope mapCode a"
  using assms by (auto simp: keyToAction_def Let_def listed_iff split: option.splits)

definition mute_keys :: key_event where
  "mute_keys = \<lparr>ke_key = '' '', ke_code = ''Space'', ke_meta = False, ke_ctrl = True, ke_shift = True,
     ke_alt = False\<rparr>"

theorem shortcuts_shown_work_witness:
  "keyToAction False Widget mute_keys = Some ''mute-unmute''"
proof -
  have "''ctrl+shift+ '' = modifiers mute_keys @ toLowerCase (ke_key mute_keys)"
    "''ctrl+shift+space'' = modifiers mute_keys @ toLowerCase (remove_first ''Key'' (ke_code mute_keys))"
    "ke_key mute_keys \<noteq> []" "ke_code mute_keys \<noteq> []"
    by code_simp+
  then have "keyToAction False Widget mute_keys = Some ''mute-unmute'' \<longleftrightarrow>
      listed False Widget ''ctrl+shift+ '' ''mute-unmute'' \<or>
      (\<nexists>b. listed False Widget ''ctrl+shift+ '' b) \<and> listed False Widget ''ctrl+shift+space'' ''mute-unmute''"
    by (intro shortcuts_shown_work)
  then show ?thesis by (simp add: listed_iff widgetMappings_def meta_or_ctrl_def obj_get_def)
qed

end
