(* ===== verification/Devices.thy ===== *)
theory Devices imports CallsClient begin

text \<open>
  The devices of the calls client (\<open>webapp/src/client.ts\<close>): following the devices that come and go,
  switching the microphone, the camera and the speaker, background blur, statistics, and
  \<open>destroy\<close>.

  The answers of the browser are parameters. A method is split at an \<open>await\<close> where other things
  can happen meanwhile: the first part says what it waits for, the second takes the answer. The
  chain \<open>updateDevices\<close>, \<open>handleAudioDeviceFallback\<close>, \<open>setAudioInputDevice\<close>, \<open>initAudio\<close>,
  \<open>updateDevices\<close> is recursive: each round of it takes one element of a list of answers, and a list
  that is too short leaves the promise pending, which is \<open>None\<close>.
\<close>

section \<open>Switching the microphone\<close>

definition stored_of :: "device \<Rightarrow> stored_data" where
  "stored_of d = JsonDevice \<lparr>sd_deviceId = dv_deviceId d, sd_label = Some (dv_label d)\<rparr>"

datatype mic_wait =
    NoWait
  | WaitInit
  | WaitSwitch bool string \<comment> \<open>was it enabled, and the old track\<close>

text \<open>\<open>setAudioInputDevice\<close> up to its first \<open>await\<close>.\<close>

definition setAudioInputDevice :: "device \<Rightarrow> bool \<Rightarrow> calls_client \<Rightarrow> calls_client \<times> mic_wait" where
  "setAudioInputDevice d store c =
     (if \<not> cc_peer c then (c, NoWait)
      else
        let c1 = (if store then c\<lparr>cc_storedInput := stored_of d\<rparr> else c);
            c2 = cc_emit CDeviceChange (c1\<lparr>cc_currentAudioInputDevice := Some d\<rparr>)
        in case (cc_audioTrack c2, cc_stream c2) of
             (Some a, Some s) \<Rightarrow>
               (c2, WaitSwitch (map_option tk_enabled (obj_get (cc_tracks c2) a) = Some True) a)
           | _ \<Rightarrow> (c2, WaitInit))"

text \<open>
  What it does with the new stream \<open>s\<close> and its track \<open>a\<close>. The old track is stopped before the peer
  is told, and without a peer that throws.
\<close>

definition mic_switched ::
  "bool \<Rightarrow> string \<Rightarrow> stream \<Rightarrow> string \<Rightarrow> calls_client \<Rightarrow> calls_client \<times> error option" where
  "mic_switched isEnabled old s a c =
     (let c1 = new_track AudioTrack a (c\<lparr>cc_streams := cc_streams c @ [s]\<rparr>);
          c2 = track_stop old c1
      in case cc_stream c2 of
           None \<Rightarrow> (c2, Some (TypeError ''removeTrack''))
         | Some cur \<Rightarrow>
             let c3 = track_enable isEnabled a (upd_stream (st_id cur) (\<lambda>ts. removeAll old ts @ [a]) c2)
             in if \<not> isEnabled then (c3\<lparr>cc_voiceTrackAdded := False, cc_audioTrack := Some a\<rparr>, None)
                else if \<not> cc_peer c3 then (c3, Some (TypeError ''replaceTrack''))
                else ((peer_do (PReplaceTrack old (Some a)) c3)\<lparr>cc_audioTrack := Some a\<rparr>, None))"

definition setAudioOutputDevice :: "device \<Rightarrow> bool \<Rightarrow> calls_client \<Rightarrow> calls_client" where
  "setAudioOutputDevice d store c =
     (if \<not> cc_peer c then c
      else cc_emit CDeviceChange
             ((if store then c\<lparr>cc_storedOutput := stored_of d\<rparr> else c)
                \<lparr>cc_currentAudioOutputDevice := Some d\<rparr>))"

text \<open>
  \<open>initAudio\<close> with a device's id: the granted stream becomes the client's, the devices are updated,
  and then the client takes the first audio track of the stream that it holds (the browser grants no
  audio stream without one).
\<close>

definition init_granted :: "stream \<Rightarrow> string \<Rightarrow> calls_client \<Rightarrow> calls_client" where
  "init_granted s a c = new_track AudioTrack a (c\<lparr>cc_stream := Some s\<rparr>)"

definition init_finished :: "calls_client \<Rightarrow> calls_client" where
  "init_finished c =
     (case cc_stream c of
        None \<Rightarrow> c
      | Some s \<Rightarrow>
          (case kind_tracks c AudioTrack s of
             [] \<Rightarrow> c
           | a # as \<Rightarrow> cc_emit CInitAudio (track_enable False a
               (c\<lparr>cc_audioTrack := Some a, cc_streams := cc_streams c @ [s]\<rparr>))))"

section \<open>Devices that come and go\<close>

record enumerated =
  en_inputs :: "device list"
  en_outputs :: "device list"
  en_videos :: "device list"

text \<open>The browser's answers in a round: the devices, and a stream with its track if one is asked for.\<close>

record round =
  rd_devices :: "enumerated option"
  rd_mic :: "(stream \<times> string) option"

definition set_devices :: "enumerated \<Rightarrow> calls_client \<Rightarrow> calls_client" where
  "set_devices en c =
     (let c1 = c\<lparr>cc_audioInputs := en_inputs en, cc_audioOutputs := en_outputs en\<rparr>
      in if cf_enableVideo (cc_config c1) then c1\<lparr>cc_videoDevices := en_videos en\<rparr> else c1)"

definition input_fallback :: "calls_client \<Rightarrow> device option" where
  "input_fallback c =
     (if cc_currentAudioInputDevice c = None then None
      else fallback_device (cc_storedInput c) (cc_audioInputs c) (cc_currentAudioInputDevice c))"

definition output_fallback :: "calls_client \<Rightarrow> device option" where
  "output_fallback c =
     (if cc_currentAudioOutputDevice c = None then None
      else fallback_device (cc_storedOutput c) (cc_audioOutputs c) (cc_currentAudioOutputDevice c))"

text \<open>The rest of \<open>updateDevices\<close> once the microphone is dealt with.\<close>

definition update_outputs :: "calls_client \<Rightarrow> calls_client" where
  "update_outputs c =
     cc_emit CDeviceChange
       (case output_fallback c of
          None \<Rightarrow> c
        | Some d \<Rightarrow> cc_emit (CDeviceFallback False d) (setAudioOutputDevice d False c))"

text \<open>
  \<open>updateDevices\<close> returns the client and the answers that are left. Errors on the way are caught
  and logged, and end it there.
\<close>

fun updateDevices :: "round list \<Rightarrow> calls_client \<Rightarrow> (calls_client \<times> round list) option" where
  "updateDevices [] c = None"
| "updateDevices (r # rs) c =
     (case rd_devices r of
        None \<Rightarrow> Some (c, rs)
      | Some en \<Rightarrow>
          let c1 = set_devices en c in
          (case input_fallback c1 of
             None \<Rightarrow> Some (update_outputs c1, rs)
           | Some d \<Rightarrow>
               (let announce = (\<lambda>c. update_outputs (cc_emit (CDeviceFallback True d) c)) in
                case setAudioInputDevice d False c1 of
                  (c2, NoWait) \<Rightarrow> Some (announce c2, rs)
                | (c2, WaitSwitch isEnabled old) \<Rightarrow>
                    (case rd_mic r of
                       None \<Rightarrow> Some (c2, rs)
                     | Some (s, a) \<Rightarrow>
                         (case mic_switched isEnabled old s a c2 of
                            (c3, None) \<Rightarrow> Some (announce c3, rs)
                          | (c3, Some err) \<Rightarrow> Some (c3, rs)))
                | (c2, WaitInit) \<Rightarrow>
                    (case rd_mic r of
                       None \<Rightarrow> Some (c2, rs)
                     | Some (s, a) \<Rightarrow>
                         (case updateDevices rs (init_granted s a c2) of
                            None \<Rightarrow> None
                          | Some (c3, rs') \<Rightarrow> Some (announce (init_finished c3), rs'))))))"

section \<open>The camera\<close>

datatype camera_wait =
    NoCamera
  | CameraThrows error
  | CameraInit
  | CameraSwitch string bool bool \<comment> \<open>the old track, was it enabled, was there a segmenter\<close>

definition setVideoInputDevice :: "device \<Rightarrow> calls_client \<Rightarrow> calls_client \<times> camera_wait" where
  "setVideoInputDevice d c =
     (if \<not> cc_peer c then (c, NoCamera)
      else
        let c1 = cc_emit CDeviceChange
                   (c\<lparr>cc_storedVideo := stored_of d, cc_currentVideoInputDevice := Some d\<rparr>)
        in case cc_localVideoStream c1 of
             None \<Rightarrow> (c1, CameraInit)
           | Some s \<Rightarrow>
               (case kind_tracks c1 VideoTrack s of
                  [] \<Rightarrow> (c1, CameraThrows (TypeError ''enabled''))
                | v # vs \<Rightarrow>
                    (c1, CameraSwitch v (map_option tk_enabled (obj_get (cc_tracks c1) v) = Some True)
                           (cc_segmenter c1))))"

text \<open>\<open>initVideo(false, id)\<close> only makes sure of the permission: the track is stopped at once.\<close>

definition video_probed :: "string \<Rightarrow> calls_client \<Rightarrow> calls_client" where
  "video_probed v c = cc_emit CInitVideo (stop_track_and_end v (new_track VideoTrack v c))"

definition current_stream :: "calls_client \<Rightarrow> stream \<Rightarrow> stream" where
  "current_stream c s =
     (case find (\<lambda>t. st_id t = st_id s) (cc_streams c) of Some t \<Rightarrow> t | None \<Rightarrow> s)"

text \<open>The rest of \<open>setVideoInputDevice\<close> with the new stream \<open>s\<close> and its track \<open>v\<close>.\<close>

definition camera_switched ::
  "blur \<Rightarrow> string \<Rightarrow> bool \<Rightarrow> bool \<Rightarrow> stream \<Rightarrow> string \<Rightarrow> calls_client \<Rightarrow>
   calls_client \<times> error option" where
  "camera_switched b old isEnabled oldSegmenter s v c =
     (let c1 = new_track VideoTrack v (c\<lparr>cc_streams := cc_streams c @ [s]\<rparr>) in
      case (if blurs b then initBgBackgroundTrack b s v c1 else (v, c1)) of
        (t, c2) \<Rightarrow>
          let c3 = stop_track_and_end old c2;
              c4 = (if oldSegmenter \<and> \<not> bl_background b then c3\<lparr>cc_segmenter := False\<rparr> else c3)
          in case cc_localVideoStream c4 of
               None \<Rightarrow> (c4, Some (TypeError ''removeTrack''))
             | Some cur \<Rightarrow>
                 let c5 = upd_stream (st_id cur) (\<lambda>ts. removeAll old ts @ [t]) c4;
                     c6 = track_enable isEnabled t
                            (c5\<lparr>cc_localVideoStream := Some (current_stream c5 s)\<rparr>)
                 in if \<not> isEnabled then (c6\<lparr>cc_videoTrackAdded := False\<rparr>, None)
                    else if \<not> cc_peer c6 then (c6, Some (TypeError ''replaceTrack''))
                    else (cc_emit (CLocalVideoStream (st_id s))
                            ((peer_do (PReplaceTrack old (Some t)) c6)\<lparr>cc_videoSenderTrackID := t\<rparr>), None))"

text \<open>
  \<open>setBlurSettings\<close>: the device to switch to, when the picture has to be made anew. Without a known
  device the one of the track's settings is used, with no label.
\<close>

definition setBlurSettings :: "bool \<Rightarrow> string option \<Rightarrow> calls_client \<Rightarrow> device option" where
  "setBlurSettings blurEnabled settingsId c =
     (if cc_segmenter c \<and> blurEnabled then None
      else if blurEnabled = cc_segmenter c \<or> cc_localVideoStream c = None then None
      else (case cc_currentVideoInputDevice c of
              Some d \<Rightarrow> Some d
            | None \<Rightarrow> (case settingsId of
                          None \<Rightarrow> None
                        | Some i \<Rightarrow> if i = [] then None else Some \<lparr>dv_deviceId = i, dv_label = []\<rparr>)))"

section \<open>The rest of the client\<close>

text \<open>\<open>shareScreen\<close>: the stream id and tracks are the answer of \<open>getScreenStream\<close>.\<close>

definition shareScreen ::
  "(string \<times> string \<times> string option) option \<Rightarrow> calls_client \<Rightarrow> calls_client \<times> bool" where
  "shareScreen answer c =
     (if cc_ws c = None \<or> \<not> cc_peer c then (c, False)
      else (case answer of
              None \<Rightarrow> (c, False)
            | Some (sid, t, a) \<Rightarrow> (setScreenStream sid t a c, True)))"

definition destroy :: "calls_client \<Rightarrow> calls_client" where
  "destroy c = c\<lparr>cc_listening := False, cc_segmenter := False\<rparr>"

record track_metadata =
  tmd_streamID :: string
  tmd_id :: string
  tmd_kind :: track_kind
  tmd_enabled :: bool
  tmd_live :: bool

definition metadata_of :: "calls_client \<Rightarrow> stream \<Rightarrow> string \<Rightarrow> track_metadata list" where
  "metadata_of c s i =
     (case obj_get (cc_tracks c) i of
        None \<Rightarrow> []
      | Some t \<Rightarrow> [\<lparr>tmd_streamID = st_id s, tmd_id = i, tmd_kind = tk_kind t, tmd_enabled = tk_enabled t,
                  tmd_live = tk_live t\<rparr>])"

definition getStats :: "calls_client \<Rightarrow> error + (int \<times> string \<times> track_metadata list)" where
  "getStats c =
     (if \<not> cc_peer c then Inl (Error ''not connected'')
      else Inr (cc_initTime c, cc_channelID c,
                concat (map (\<lambda>s. concat (map (metadata_of c s) (st_tracks s))) (cc_streams c))))"

text \<open>A candidate pair of the peer's statistics, with the state that it is listed under.\<close>

record ice_pair =
  ip_id :: string
  ip_listed :: string
  ip_state :: string
  ip_local :: "(string \<times> string) option" \<comment> \<open>type, protocol\<close>
  ip_remote :: "(string \<times> string) option"

definition pair_json :: "ice_pair \<Rightarrow> (string \<times> string) \<Rightarrow> (string \<times> string) \<Rightarrow> json" where
  "pair_json p l r =
     (let side = (\<lambda>(t, pr). JObj [(''type'', JStr t), (''protocol'', JStr pr)])
      in JObj [(''metric_name'', JStr ''client_ice_candidate_pair''),
               (''data'', JObj [(''state'', JStr (ip_state p)), (''local'', side l), (''remote'', side r)])])"

definition gather_pair ::
  "ice_pair \<Rightarrow> (string, string) obj \<times> calls_client \<Rightarrow> (string, string) obj \<times> calls_client" where
  "gather_pair p = (\<lambda>(seen, c).
     let seen' = obj_set (ip_id p) (ip_state p) seen
     in if obj_get seen (ip_id p) = Some ''succeeded'' \<or> ip_listed p \<noteq> ''succeeded'' then (seen', c)
        else (case (ip_local p, ip_remote p) of
                (Some l, Some r) \<Rightarrow> (seen', cc_send ''metric'' (Some (pair_json p l r)) False c)
              | _ \<Rightarrow> (seen', c)))"

text \<open>One round of \<open>collectICEStats\<close>, and whether it schedules another.\<close>

definition gatherStats ::
  "int \<Rightarrow> int \<Rightarrow> ice_pair list \<Rightarrow> (string, string) obj \<times> calls_client \<Rightarrow>
   ((string, string) obj \<times> calls_client) \<times> bool" where
  "gatherStats start now pairs st =
     (if cc_ws (snd st) = None \<or> \<not> cc_peer (snd st) then (st, False)
      else (fold gather_pair pairs st, now < start + 30000))"

section \<open>What the steps keep\<close>

lemma set_devices_fields [simp]:
  "cc_audioInputs (set_devices en c) = en_inputs en"
  "cc_audioOutputs (set_devices en c) = en_outputs en"
  "cc_currentAudioInputDevice (set_devices en c) = cc_currentAudioInputDevice c"
  "cc_storedInput (set_devices en c) = cc_storedInput c"
  "cc_peer (set_devices en c) = cc_peer c"
  by (simp_all add: set_devices_def Let_def)

lemma new_track_fields [simp]:
  "cc_audioInputs (new_track k a c) = cc_audioInputs c"
  "cc_currentAudioInputDevice (new_track k a c) = cc_currentAudioInputDevice c"
  "cc_storedInput (new_track k a c) = cc_storedInput c" "cc_peer (new_track k a c) = cc_peer c"
  "cc_peerOps (new_track k a c) = cc_peerOps c" "cc_stream (new_track k a c) = cc_stream c"
  "cc_streams (new_track k a c) = cc_streams c" "cc_closed (new_track k a c) = cc_closed c"
  "cc_segmenter (new_track k a c) = cc_segmenter c"
  "cc_localVideoStream (new_track k a c) = cc_localVideoStream c"
  by (simp_all add: new_track_def)

lemma init_granted_fields [simp]:
  "cc_currentAudioInputDevice (init_granted s a c) = cc_currentAudioInputDevice c"
  "cc_storedInput (init_granted s a c) = cc_storedInput c" "cc_peer (init_granted s a c) = cc_peer c"
  by (simp_all add: init_granted_def)

lemma input_switch_fields:
  assumes "setAudioInputDevice d False c = (c2, w)"
  shows "cc_peer c2 = cc_peer c" and "cc_storedInput c2 = cc_storedInput c"
    and "cc_audioInputs c2 = cc_audioInputs c"
    and "cc_currentAudioInputDevice c2 =
           (if cc_peer c then Some d else cc_currentAudioInputDevice c)"
    and "w = NoWait \<longleftrightarrow> \<not> cc_peer c"
  using assms
  by (auto simp: setAudioInputDevice_def cc_emit_def Let_def split: if_splits option.splits)

text \<open>The device that is fallen back to is there; without one, the current device stays.\<close>

lemma fallback_present:
  assumes "fallback_device st devs cur = Some d"
  shows "d \<in> set devs"
  using assms selected_device_matches [OF refl, of st devs]
  by (auto simp: fallback_device_def Let_def split: if_splits option.splits)

definition present :: "calls_client \<Rightarrow> device list \<Rightarrow> bool" where
  "present c devs \<longleftrightarrow> list_ex (\<lambda>v. map_option dv_deviceId (cc_currentAudioInputDevice c) =
     Some (dv_deviceId v)) devs"

lemma present_of: "\<lbrakk>cc_currentAudioInputDevice c = Some d; d \<in> set devs\<rbrakk> \<Longrightarrow> present c devs"
  by (auto simp: present_def list_ex_iff)

lemma no_fallback_present:
  assumes "input_fallback c = None" and "cc_currentAudioInputDevice c \<noteq> None"
  shows "present c (cc_audioInputs c) \<or> cc_audioInputs c = []"
  using assms by (auto simp: input_fallback_def fallback_device_def present_def Let_def split: if_splits)

text \<open>A present device is left for the selected one only, and that one is not left.\<close>

lemma fallback_selected:
  assumes "fallback_device st devs cur = Some d"
    and "list_ex (\<lambda>v. map_option dv_deviceId cur = Some (dv_deviceId v)) devs"
  shows "getSelectedAudioDevice st devs = Some d" and "fallback_device st devs (Some d) = None"
proof -
  show s: "getSelectedAudioDevice st devs = Some d"
    using assms by (auto simp: fallback_device_def Let_def split: if_splits option.splits)
  have "d \<in> set devs" by (rule fallback_present [OF assms(1)])
  then have "list_ex (\<lambda>v. dv_deviceId d = dv_deviceId v) devs" by (auto simp: list_ex_iff)
  then show "fallback_device st devs (Some d) = None"
    using s by (simp add: fallback_device_def Let_def)
qed

section \<open>Following the devices ends\<close>

text \<open>Every round that answers with devices answers with the same ones.\<close>

definition same_devices :: "enumerated \<Rightarrow> round list \<Rightarrow> bool" where
  "same_devices en rs \<longleftrightarrow> (\<forall>r\<in>set rs. rd_devices r = None \<or> rd_devices r = Some en)"

lemma same_devices_Cons [simp]:
  "same_devices en (r # rs) \<longleftrightarrow>
     (rd_devices r = None \<or> rd_devices r = Some en) \<and> same_devices en rs"
  by (simp add: same_devices_def)

lemma settles_now:
  assumes "same_devices en (r # rs)" and "input_fallback (set_devices en c) = None"
  shows "updateDevices (r # rs) c \<noteq> None"
  using assms by (auto simp: Let_def)

text \<open>If going on with the device that is fallen back to settles, so does this round.\<close>

lemma settles_next:
  assumes "same_devices en (r # rs)"
    and "\<And>d c'. \<lbrakk>input_fallback (set_devices en c) = Some d; cc_currentAudioInputDevice c' = Some d;
            cc_storedInput c' = cc_storedInput c\<rbrakk> \<Longrightarrow> updateDevices rs c' \<noteq> None"
  shows "updateDevices (r # rs) c \<noteq> None"
proof (cases "rd_devices r = None")
  case False
  with assms(1) have en: "rd_devices r = Some en" by simp
  show ?thesis
  proof (cases "input_fallback (set_devices en c)")
    case None
    with en show ?thesis by (simp add: Let_def)
  next
    case (Some d)
    obtain c2 w where w: "setAudioInputDevice d False (set_devices en c) = (c2, w)" by fastforce
    note f = input_switch_fields [OF w]
    show ?thesis
    proof (cases w)
      case NoWait
      with en Some w show ?thesis by (simp add: Let_def)
    next
      case (WaitSwitch e old)
      with en Some w show ?thesis by (auto simp: Let_def split: option.splits prod.splits)
    next
      case WaitInit
      then have "cc_peer c" using f(5) by simp
      then have n: "updateDevices rs (init_granted s a c2) \<noteq> None" for s a
        using f by (intro assms(2) [OF Some]) simp_all
      show ?thesis
      proof (cases "rd_mic r")
        case None
        with en Some w WaitInit show ?thesis by (simp add: Let_def)
      next
        case (Some m)
        obtain s a where "m = (s, a)" by (cases m)
        with n [of s a] Some \<open>input_fallback (set_devices en c) = Some d\<close> en w WaitInit
        show ?thesis by (auto simp: Let_def)
      qed
    qed
  qed
qed simp

lemma settles_present:
  assumes "same_devices en rs" and "2 \<le> length rs" and "present c (en_inputs en)"
  shows "updateDevices rs c \<noteq> None"
proof -
  obtain r rs' where rs: "rs = r # rs'" using assms(2) by (cases rs) auto
  have "updateDevices (r # rs') c \<noteq> None"
  proof (rule settles_next)
    show "same_devices en (r # rs')" using assms(1) rs by simp
    fix d and c' :: calls_client
    assume d: "input_fallback (set_devices en c) = Some d"
      and c': "cc_currentAudioInputDevice c' = Some d" "cc_storedInput c' = cc_storedInput c"
    have fb: "fallback_device (cc_storedInput c) (en_inputs en) (cc_currentAudioInputDevice c) = Some d"
      using d by (simp add: input_fallback_def split: if_splits)
    have "input_fallback (set_devices en c') = None"
      using fallback_selected(2) [OF fb assms(3) [unfolded present_def]] c'
      by (simp add: input_fallback_def)
    then show "updateDevices rs' c' \<noteq> None"
      using assms(1,2) rs by (cases rs') (auto intro: settles_now)
  qed
  then show ?thesis using rs by simp
qed

text \<open>
  C9. Following a change of devices ends: while the browser lists the same devices, three rounds of
  listing them are enough, whatever device was current, whatever is stored and whether or not the
  microphone is granted.\<close>
theorem device_update_settles:
  assumes "same_devices en rs" and "3 \<le> length rs"
  shows "\<exists>c' rs'. updateDevices rs c = Some (c', rs')"
proof -
  obtain r rs' where rs: "rs = r # rs'" using assms(2) by (cases rs) auto
  have "updateDevices (r # rs') c \<noteq> None"
  proof (rule settles_next)
    show "same_devices en (r # rs')" using assms(1) rs by simp
    fix d and c' :: calls_client
    assume d: "input_fallback (set_devices en c) = Some d"
      and c': "cc_currentAudioInputDevice c' = Some d" "cc_storedInput c' = cc_storedInput c"
    have "d \<in> set (en_inputs en)"
      using d fallback_present by (auto simp: input_fallback_def split: if_splits)
    then have "present c' (en_inputs en)" using c'(1) present_of by blast
    then show "updateDevices rs' c' \<noteq> None"
      using assms rs by (intro settles_present) auto
  qed
  then show ?thesis using rs by auto
qed

definition one_mic :: enumerated where
  "one_mic = \<lparr>en_inputs = [\<lparr>dv_deviceId = ''1'', dv_label = ''m''\<rparr>], en_outputs = [], en_videos = []\<rparr>"

lemma device_update_settles_witness:
  "\<exists>c' rs'. updateDevices (replicate 3 \<lparr>rd_devices = Some one_mic, rd_mic = None\<rparr>)
     (new_client plain_config 5) = Some (c', rs')"
  by (rule device_update_settles [of one_mic]) (simp_all add: same_devices_def)

section \<open>The current device is there\<close>

definition input_ok :: "calls_client \<Rightarrow> bool" where
  "input_ok c \<longleftrightarrow> cc_currentAudioInputDevice c = None \<or> cc_audioInputs c = [] \<or>
     present c (cc_audioInputs c)"

lemma input_ok_cong:
  "\<lbrakk>cc_currentAudioInputDevice c = cc_currentAudioInputDevice d;
    cc_audioInputs c = cc_audioInputs d\<rbrakk> \<Longrightarrow> input_ok c = input_ok d"
  by (simp add: input_ok_def present_def)

lemma output_switch_keeps [simp]:
  "cc_currentAudioInputDevice (setAudioOutputDevice d b c) = cc_currentAudioInputDevice c"
  "cc_audioInputs (setAudioOutputDevice d b c) = cc_audioInputs c"
  by (simp_all add: setAudioOutputDevice_def cc_emit_def)

lemma emit_keeps_devices [simp]:
  "cc_currentAudioInputDevice (cc_emit e c) = cc_currentAudioInputDevice c"
  "cc_audioInputs (cc_emit e c) = cc_audioInputs c"
  by (simp_all add: cc_emit_def)

lemma update_outputs_keeps [simp]:
  "cc_currentAudioInputDevice (update_outputs c) = cc_currentAudioInputDevice c"
  "cc_audioInputs (update_outputs c) = cc_audioInputs c"
  by (simp_all add: update_outputs_def split: option.splits)

lemma track_keeps_devices [simp]:
  "cc_currentAudioInputDevice (upd_track i f c) = cc_currentAudioInputDevice c"
  "cc_audioInputs (upd_track i f c) = cc_audioInputs c"
  "cc_stream (track_stop i c) = cc_stream c" "cc_streams (track_enable b i c) = cc_streams c"
  "cc_localVideoStream (track_stop i c) = cc_localVideoStream c"
  "cc_localVideoStream (track_enable b i c) = cc_localVideoStream c"
  "cc_segmenter (track_stop i c) = cc_segmenter c" "cc_segmenter (track_enable b i c) = cc_segmenter c"
  "cc_segmenter (peer_do p c) = cc_segmenter c"
  "cc_currentAudioInputDevice (track_stop i c) = cc_currentAudioInputDevice c"
  "cc_audioInputs (track_stop i c) = cc_audioInputs c"
  "cc_currentAudioInputDevice (track_enable b i c) = cc_currentAudioInputDevice c"
  "cc_audioInputs (track_enable b i c) = cc_audioInputs c"
  "cc_currentAudioInputDevice (peer_do p c) = cc_currentAudioInputDevice c"
  "cc_audioInputs (peer_do p c) = cc_audioInputs c"
  "cc_currentAudioInputDevice (upd_stream j g c) = cc_currentAudioInputDevice c"
  "cc_audioInputs (upd_stream j g c) = cc_audioInputs c"
  by (simp_all add: upd_track_def track_stop_def track_enable_def peer_do_def upd_stream_def Let_def
      split: option.splits)

lemma mic_switched_keeps:
  assumes "mic_switched e old s a c = (c3, err)"
  shows "cc_currentAudioInputDevice c3 = cc_currentAudioInputDevice c"
    and "cc_audioInputs c3 = cc_audioInputs c"
  using assms by (auto simp: mic_switched_def Let_def split: option.splits if_splits)

lemma init_finished_keeps [simp]:
  "cc_currentAudioInputDevice (init_finished c) = cc_currentAudioInputDevice c"
  "cc_audioInputs (init_finished c) = cc_audioInputs c"
  by (simp_all add: init_finished_def split: option.splits list.splits)

lemma update_input_ok:
  "\<lbrakk>same_devices en rs; cc_peer c; updateDevices rs c = Some (c', rs'); rd_devices (hd rs) \<noteq> None \<or> input_ok c\<rbrakk>
   \<Longrightarrow> input_ok c'"
proof (induction rs arbitrary: c c' rs')
  case (Cons r rs)
  show ?case
  proof (cases "rd_devices r")
    case None
    with Cons.prems show ?thesis by simp
  next
    case (Some en')
    note en' = this
    with Cons.prems(1) have [simp]: "en' = en" by simp
    show ?thesis
    proof (cases "input_fallback (set_devices en c)")
      case None
      then have "input_ok (set_devices en c)"
        using no_fallback_present [of "set_devices en c"] by (auto simp: input_ok_def)
      then show ?thesis
        using Cons.prems(3) en' None
        by (auto simp: Let_def elim: input_ok_cong [THEN iffD1, rotated 2])
    next
      case (Some d)
      obtain c2 w where w: "setAudioInputDevice d False (set_devices en c) = (c2, w)" by fastforce
      note f = input_switch_fields [OF w]
      have "d \<in> set (en_inputs en)"
        using Some fallback_present by (auto simp: input_fallback_def split: if_splits)
      then have ok2: "input_ok c2"
        using f Cons.prems(2) by (auto simp: input_ok_def intro: present_of)
      note ok_step = input_ok_cong [THEN iffD1, rotated 2, OF ok2]
      show ?thesis
      proof (cases w)
        case NoWait
        with f(5) Cons.prems(2) show ?thesis by simp
      next
        case (WaitSwitch e old)
        show ?thesis
        proof (cases "rd_mic r")
          case None
          with Cons.prems(3) en' Some w WaitSwitch ok2 show ?thesis by (simp add: Let_def)
        next
          case (Some m)
          obtain s a where m: "m = (s, a)" by (cases m)
          obtain c3 err where sw: "mic_switched e old s a c2 = (c3, err)" by fastforce
          have "input_ok c3"
            by (rule ok_step) (simp_all add: mic_switched_keeps [OF sw])
          then show ?thesis
            using Cons.prems(3) en' \<open>input_fallback (set_devices en c) = Some d\<close> w WaitSwitch Some m sw
            by (cases err) (auto simp: Let_def elim: input_ok_cong [THEN iffD1, rotated 2])
        qed
      next
        case WaitInit
        show ?thesis
        proof (cases "rd_mic r")
          case None
          with Cons.prems(3) en' Some w WaitInit ok2 show ?thesis by (simp add: Let_def)
        next
          case mic: (Some m)
          obtain s a where m: "m = (s, a)" by (cases m)
          let ?c = "init_granted s a c2"
          obtain c3 rs3 where u: "updateDevices rs ?c = Some (c3, rs3)"
            and c': "c' = update_outputs (cc_emit (CDeviceFallback True d) (init_finished c3))"
            using Cons.prems(3) en' Some w WaitInit mic m
            by (auto simp: Let_def split: option.splits prod.splits)
          have "input_ok ?c"
            by (rule ok_step) (simp_all add: init_granted_def)
          then have "input_ok c3"
            using Cons.prems(1,2) f(1) by (intro Cons.IH [OF _ _ u]) simp_all
          then show ?thesis
            using c' by (auto elim: input_ok_cong [THEN iffD1, rotated 2])
        qed
      qed
    qed
  qed
qed simp

text \<open>
  During a call, following a change of devices leaves the microphone that is used among the devices
  that are there, when there is any: after the devices were listed, the current one is in the list,
  whether the switch succeeded or failed.\<close>
theorem current_input_present:
  assumes "same_devices en rs" and "rd_devices (hd rs) \<noteq> None" and "cc_peer c"
    and "updateDevices rs c = Some (c', rs')" and "cc_currentAudioInputDevice c' = Some d"
    and "cc_audioInputs c' \<noteq> []"
  shows "dv_deviceId d \<in> dv_deviceId ` set (cc_audioInputs c')"
  using update_input_ok [OF assms(1,3,4)] assms(2,5,6)
  by (auto simp: input_ok_def present_def list_ex_iff)

lemma current_input_present_witness:
  "\<exists>c' rs'. updateDevices [\<lparr>rd_devices = Some one_mic, rd_mic = None\<rparr>]
       ((new_client plain_config 5)\<lparr>cc_peer := True,
          cc_currentAudioInputDevice := Some \<lparr>dv_deviceId = ''0'', dv_label = ''gone''\<rparr>\<rparr>) = Some (c', rs') \<and>
     dv_deviceId \<lparr>dv_deviceId = ''1'', dv_label = ''m''\<rparr> \<in> dv_deviceId ` set (cc_audioInputs c')"
proof -
  let ?r = "\<lparr>rd_devices = Some one_mic, rd_mic = None\<rparr> :: round"
  let ?c = "(new_client plain_config 5)\<lparr>cc_peer := True,
    cc_currentAudioInputDevice := Some \<lparr>dv_deviceId = ''0'', dv_label = ''gone''\<rparr>\<rparr>"
  let ?c' = "fst (the (updateDevices [?r] ?c))"
  have u: "updateDevices [?r] ?c = Some (?c', [])"
    and f: "cc_currentAudioInputDevice ?c' = Some \<lparr>dv_deviceId = ''1'', dv_label = ''m''\<rparr>"
      "cc_audioInputs ?c' \<noteq> []"
    by (simp_all add: new_client_def plain_config_def one_mic_def input_fallback_def Let_def
        fallback_device_def set_devices_def setAudioInputDevice_def cc_emit_def)
  have "dv_deviceId \<lparr>dv_deviceId = ''1'', dv_label = ''m''\<rparr> \<in> dv_deviceId ` set (cc_audioInputs ?c')"
    by (rule current_input_present [OF _ _ _ u f, of one_mic])
      (simp_all add: same_devices_def new_client_def)
  with u show ?thesis by blast
qed

section \<open>Switching while muted, and while leaving\<close>

lemma new_track_live [simp]:
  "track_live (new_track k i c) j \<longleftrightarrow> j = i \<or> track_live c j"
  "obj_get (cc_tracks (new_track k i c)) j =
     (if j = i then Some \<lparr>tk_kind = k, tk_enabled = True, tk_live = True\<rparr> else obj_get (cc_tracks c) j)"
  by (auto simp: track_live_def new_track_def)

lemma track_stop_get:
  "obj_get (cc_tracks (track_stop i c)) j =
     (if j = i then map_option (\<lambda>t. t\<lparr>tk_live := False\<rparr>) (obj_get (cc_tracks c) j)
      else obj_get (cc_tracks c) j)"
  by (auto simp: track_stop_def upd_track_def split: option.splits)

lemma track_enable_get:
  "obj_get (cc_tracks (track_enable b i c)) j =
     (if j = i then map_option (\<lambda>t. t\<lparr>tk_enabled := b\<rparr>) (obj_get (cc_tracks c) j)
      else obj_get (cc_tracks c) j)"
  by (auto simp: track_enable_def upd_track_def split: option.splits)

lemma upd_stream_fields [simp]:
  "cc_streams (upd_stream i f c) =
     map (\<lambda>s. if st_id s = i then s\<lparr>st_tracks := f (st_tracks s)\<rparr> else s) (cc_streams c)"
  "cc_tracks (upd_stream i f c) = cc_tracks c" "cc_peer (upd_stream i f c) = cc_peer c"
  "cc_peerOps (upd_stream i f c) = cc_peerOps c" "cc_closed (upd_stream i f c) = cc_closed c"
  "cc_segmenter (upd_stream i f c) = cc_segmenter c"
  by (simp_all add: upd_stream_def Let_def)

lemmas track_gets = track_stop_get track_enable_get

text \<open>
  C21. Switching the microphone during a call keeps whether it is muted: the new track is on exactly when
  the old one was, the old one is stopped, the peer is told to send the new one exactly when it is on,
  and leaving the call stops it.\<close>
theorem mic_switch_keeps_mute:
  assumes "cc_peer c" and "cc_audioTrack c = Some old" and "cc_stream c = Some cur"
    and "obj_get (cc_tracks c) old = Some t" and "a \<noteq> old" and "a \<in> set (st_tracks s)"
    and "\<not> cc_closed c"
  shows "\<exists>c1 c2. setAudioInputDevice d store c = (c1, WaitSwitch (tk_enabled t) old) \<and>
    mic_switched (tk_enabled t) old s a c1 = (c2, None) \<and>
    cc_audioTrack c2 = Some a \<and> map_option tk_enabled (obj_get (cc_tracks c2) a) = Some (tk_enabled t) \<and>
    track_live c2 a \<and> \<not> track_live c2 old \<and>
    cc_peerOps c2 = cc_peerOps c @ (if tk_enabled t then [PReplaceTrack old (Some a)] else []) \<and>
    \<not> track_live (disconnect err c2) a"
proof -
  define c1 where "c1 = fst (setAudioInputDevice d store c)"
  define c2 where "c2 = fst (mic_switched (tk_enabled t) old s a c1)"
  have c1: "setAudioInputDevice d store c = (c1, WaitSwitch (tk_enabled t) old)"
    "cc_peer c1" "cc_stream c1 = Some cur" "cc_tracks c1 = cc_tracks c" "cc_peerOps c1 = cc_peerOps c"
    "cc_closed c1 = cc_closed c" "cc_streams c1 = cc_streams c"
    using assms(1-4) by (simp_all add: c1_def setAudioInputDevice_def cc_emit_def Let_def)
  have c2: "mic_switched (tk_enabled t) old s a c1 = (c2, None)"
    "cc_audioTrack c2 = Some a" "map_option tk_enabled (obj_get (cc_tracks c2) a) = Some (tk_enabled t)"
    "track_live c2 a" "\<not> track_live c2 old"
    "cc_peerOps c2 = cc_peerOps c @ (if tk_enabled t then [PReplaceTrack old (Some a)] else [])"
    using assms(4,5) c1
    by (auto simp: c2_def mic_switched_def peer_do_def track_live_def track_gets Let_def)
  let ?g = "\<lambda>s. if st_id s = st_id cur then s\<lparr>st_tracks := removeAll old (st_tracks s) @ [a]\<rparr> else s"
  have "cc_streams c2 = map ?g (cc_streams c @ [s])" and open2: "\<not> cc_closed c2"
    using assms(7) c1 by (simp_all add: c2_def mic_switched_def Let_def)
  then have s': "?g s \<in> set (cc_streams c2)" "a \<in> set (st_tracks (?g s))"
    using assms(5,6) by simp_all
  from disconnect_dead [OF open2 s'] c1 c2 show ?thesis by blast
qed

definition in_call :: calls_client where
  "in_call = (audio_granted \<lparr>st_id = ''m'', st_tracks = [''a'']\<rparr> ''a'' (new_client plain_config 5))
     \<lparr>cc_peer := True\<rparr>"

lemma mic_switch_keeps_mute_witness:
  "\<exists>c1 c2. setAudioInputDevice \<lparr>dv_deviceId = ''2'', dv_label = ''n''\<rparr> True in_call =
      (c1, WaitSwitch False ''a'') \<and>
    \<not> track_live (disconnect None c2) ''b''"
  using mic_switch_keeps_mute [of in_call "''a''" "\<lparr>st_id = ''m'', st_tracks = [''a'']\<rparr>"
      "\<lparr>tk_kind = AudioTrack, tk_enabled = False, tk_live = True\<rparr>" "''b''"
      "\<lparr>st_id = ''n'', st_tracks = [''b'']\<rparr>" "\<lparr>dv_deviceId = ''2'', dv_label = ''n''\<rparr>" True None]
  by (auto simp: in_call_def audio_granted_def new_client_def cc_emit_def)

text \<open>
  A switch of the microphone that the browser answers after the call was left turns the new
  microphone on: nothing stops its track any more, in a client that is closed.\<close>
theorem late_mic_stays_live:
  assumes "setAudioInputDevice d store c = (c1, WaitSwitch e old)" and "a \<noteq> old"
  shows "track_live (fst (mic_switched e old s a (disconnect err c1))) a"
  using assms(2)
  by (auto simp: mic_switched_def peer_do_def track_live_def track_gets Let_def split: option.splits)

lemma late_mic_stays_live_witness:
  "track_live (fst (mic_switched False ''a'' \<lparr>st_id = ''n'', st_tracks = [''b'']\<rparr> ''b''
     (disconnect None (fst (setAudioInputDevice \<lparr>dv_deviceId = ''2'', dv_label = ''n''\<rparr> True in_call))))) ''b''"
  by (rule late_mic_stays_live [of "\<lparr>dv_deviceId = ''2'', dv_label = ''n''\<rparr>" True in_call])
    (simp_all add: setAudioInputDevice_def in_call_def audio_granted_def new_client_def cc_emit_def)

section \<open>Blur\<close>

lemma plain_stop_fields:
  assumes "obj_get (cc_onScreenEnded c) i = None"
  shows "cc_peerOps (stop_track_and_end i c) = cc_peerOps c"
    and "cc_localVideoStream (stop_track_and_end i c) = cc_localVideoStream c"
    and "cc_segmenter (stop_track_and_end i c) = cc_segmenter c"
  using assms
  by (simp_all add: stop_track_and_end_def dispatch_ended_def split: option.splits)

lemma camera_step_fields [simp]:
  "cc_onScreenEnded (new_track k i c) = cc_onScreenEnded c"
  "cc_onCanvasEnded (new_track k i c) = cc_onCanvasEnded c"
  "cc_localVideoStream (cc_emit e c) = cc_localVideoStream c"
  "cc_segmenter (cc_emit e c) = cc_segmenter c"
  by (simp_all add: new_track_def cc_emit_def)

lemma behind_kept [simp]:
  "behind (upd_stream j g c) i v = behind c i v" "behind (track_enable x j c) i v = behind c i v"
  "behind (peer_do p c) i v = behind c i v" "behind (cc_emit e c) i v = behind c i v"
  "behind (c\<lparr>cc_localVideoStream := l\<rparr>) i v = behind c i v"
  "behind (c\<lparr>cc_videoSenderTrackID := k\<rparr>) i v = behind c i v"
  by (simp_all add: behind_def upd_stream_def track_enable_def upd_track_def peer_do_def cc_emit_def Let_def
      split: option.splits)

text \<open>
  Switching the camera while the picture is blurred puts the new camera's own track on the wire,
  unblurred, and stops the segmenter but keeps it, so that turning blur on does nothing any more.\<close>
theorem camera_switch_loses_blur:
  assumes "blurs b" and "cc_segmenter c" and "cc_peer c" and "cc_localVideoStream c = Some cur"
    and "obj_get (cc_onScreenEnded c) old = None"
  shows "\<exists>c'. camera_switched b old True True s v c = (c', None) \<and>
    cc_peerOps c' = cc_peerOps c @ [PReplaceTrack old (Some v)] \<and> cc_videoSenderTrackID c' = v \<and>
    setBlurSettings True i c' = None"
proof -
  let ?c1 = "new_track VideoTrack v (c\<lparr>cc_streams := cc_streams c @ [s]\<rparr>)"
  have i: "initBgBackgroundTrack b s v ?c1 = (v, ?c1)"
    using assms(2) by (simp add: initBgBackgroundTrack_def)
  have "obj_get (cc_onScreenEnded ?c1) old = None" using assms(5) by simp
  note f = plain_stop_fields [OF this]
  from assms(1) have "bl_background b" by (simp add: blurs_def)
  with assms(1-4) i f show ?thesis
    by (simp add: camera_switched_def setBlurSettings_def Let_def)
      (simp add: peer_do_def cc_emit_def)
qed

lemma camera_switch_loses_blur_witness:
  "cc_videoSenderTrackID (fst (camera_switched \<lparr>bl_background = True, bl_intensity = 5, bl_stream = ''x'', bl_track = ''y''\<rparr>
      ''blurred'' True True \<lparr>st_id = ''n'', st_tracks = [''raw'']\<rparr> ''raw''
      (in_call\<lparr>cc_segmenter := True,
         cc_localVideoStream := Some \<lparr>st_id = ''v'', st_tracks = [''blurred'']\<rparr>\<rparr>))) = ''raw''"
  using camera_switch_loses_blur [of "\<lparr>bl_background = True, bl_intensity = 5, bl_stream = ''x'', bl_track = ''y''\<rparr>"
      "in_call\<lparr>cc_segmenter := True, cc_localVideoStream := Some \<lparr>st_id = ''v'', st_tracks = [''blurred'']\<rparr>\<rparr>"
      "\<lparr>st_id = ''v'', st_tracks = [''blurred'']\<rparr>" "''blurred''" "\<lparr>st_id = ''n'', st_tracks = [''raw'']\<rparr>" "''raw''" None]
  by (auto simp: blurs_def in_call_def audio_granted_def new_client_def cc_emit_def)

text \<open>
  Without a segmenter at work the picture that is sent after a switch is blurred when blur is on:
  it comes from the canvas, and the camera behind it stops with it.\<close>
theorem camera_switch_blurs:
  assumes "blurs b" and "\<not> cc_segmenter c" and "cc_peer c" and "cc_localVideoStream c = Some cur"
    and "obj_get (cc_onScreenEnded c) old = None" and "obj_get (cc_onScreenEnded c) (bl_track b) = None"
  shows "\<exists>c'. camera_switched b old True False s v c = (c', None) \<and>
    cc_peerOps c' = cc_peerOps c @ [PReplaceTrack old (Some (bl_track b))] \<and> cc_segmenter c' \<and>
    behind c' (bl_track b) v"
proof -
  let ?c1 = "new_track VideoTrack v (c\<lparr>cc_streams := cc_streams c @ [s]\<rparr>)"
  obtain c2 cur' where i: "initBgBackgroundTrack b s v ?c1 = (bl_track b, c2)"
    and c2: "cc_peerOps c2 = cc_peerOps c" "cc_peer c2" "cc_segmenter c2"
      "cc_onScreenEnded c2 = cc_onScreenEnded c" "obj_get (cc_onCanvasEnded c2) (bl_track b) = Some v"
      "cc_localVideoStream c2 = Some cur'"
    using assms(2-4)
    by (simp add: initBgBackgroundTrack_def Let_def new_track_def upd_stream_def)
  have "obj_get (cc_onScreenEnded c2) old = None" using assms(5) c2 by simp
  note f = plain_stop_fields [OF this]
  from assms(1) have "bl_background b" by (simp add: blurs_def)
  moreover have "behind (stop_track_and_end old c2) (bl_track b) v"
    using assms(6) c2 by (simp add: behind_def)
  ultimately show ?thesis
    using assms(1) i c2 f by (simp add: camera_switched_def Let_def) (simp add: peer_do_def cc_emit_def)
qed

lemma camera_switch_blurs_witness:
  "cc_segmenter (fst (camera_switched \<lparr>bl_background = True, bl_intensity = 5, bl_stream = ''x'', bl_track = ''y''\<rparr>
      ''v'' True False \<lparr>st_id = ''n'', st_tracks = [''raw'']\<rparr> ''raw''
      (in_call\<lparr>cc_localVideoStream := Some \<lparr>st_id = ''v'', st_tracks = [''v'']\<rparr>\<rparr>)))"
  using camera_switch_blurs [of "\<lparr>bl_background = True, bl_intensity = 5, bl_stream = ''x'', bl_track = ''y''\<rparr>"
      "in_call\<lparr>cc_localVideoStream := Some \<lparr>st_id = ''v'', st_tracks = [''v'']\<rparr>\<rparr>"
      "\<lparr>st_id = ''v'', st_tracks = [''v'']\<rparr>" "''v''" "\<lparr>st_id = ''n'', st_tracks = [''raw'']\<rparr>" "''raw''"]
  by (auto simp: blurs_def in_call_def audio_granted_def new_client_def cc_emit_def)

end
