(* ===== verification/Alerts.thy ===== *)
theory Alerts imports Devices begin

text \<open>
  The alerts that both windows of a call show (\<open>CallAlertStatesDefault\<close> in \<open>types.ts\<close>,
  \<open>CallAlertConfigs\<close> in \<open>constants.ts\<close>): missing devices and permissions, a device that was fallen
  back to, and bad call quality. The call widget and the expanded view each keep such alerts and
  treat them alike; \<open>alert_view\<close> is what they share.

  \<open>setState\<close> merges what it is given into the state later: within a batch every call reads the
  alerts that were there before, so of several calls that write the alerts the last one stands.
  \<open>set_alerts\<close> is that rule. React batches the calls of a lifecycle method or of an event handler,
  and under a root made with \<open>createRoot\<close>, as the widget's is, all calls of a task.
\<close>

section \<open>Alerts\<close>

datatype alert_id =
    MissingAudioInput
  | MissingAudioInputPermissions
  | MissingVideoInput
  | MissingVideoInputPermissions
  | MissingScreenPermissions
  | DegradedCallQuality
  | AudioInputDeviceFallback
  | AudioOutputDeviceFallback

record alert =
  al_active :: bool
  al_show :: bool
  al_deviceLabel :: "string option" \<comment> \<open>of \<open>args\<close>\<close>

type_synonym alerts = "alert_id \<Rightarrow> alert"

text \<open>The keys in the order of the default, which is the order of \<open>Object.entries\<close>.\<close>

definition alert_ids :: "alert_id list" where
  "alert_ids = [MissingAudioInput, MissingAudioInputPermissions, MissingVideoInput,
     MissingVideoInputPermissions, MissingScreenPermissions, DegradedCallQuality,
     AudioInputDeviceFallback, AudioOutputDeviceFallback]"

definition CallAlertStatesDefault :: alerts where
  "CallAlertStatesDefault = (\<lambda>i. \<lparr>al_active = False, al_show = False, al_deviceLabel = None\<rparr>)"

datatype alert_type = AlertError | AlertWarning | AlertInfo

record alert_config =
  ac_type :: alert_type
  ac_icon :: string
  ac_bannerText :: string
  ac_tooltipText :: string
  ac_tooltipSubtext :: string
  ac_dismissable :: bool

fun CallAlertConfigs :: "alert_id \<Rightarrow> alert_config" where
  "CallAlertConfigs MissingAudioInput = \<lparr>ac_type = AlertError, ac_icon = ''microphone-off'',
     ac_bannerText = ''Unable to find a valid audio input device. Try plugging in an audio input device.'',
     ac_tooltipText = ''No audio input devices'',
     ac_tooltipSubtext = ''Try plugging in an audio input device.'', ac_dismissable = True\<rparr>"
| "CallAlertConfigs MissingAudioInputPermissions = \<lparr>ac_type = AlertError, ac_icon = ''microphone-off'',
     ac_bannerText = ''Allow microphone access to Mattermost.'',
     ac_tooltipText = ''No audio input permissions'',
     ac_tooltipSubtext = ''Allow microphone access to Mattermost.'', ac_dismissable = True\<rparr>"
| "CallAlertConfigs MissingVideoInput = \<lparr>ac_type = AlertError, ac_icon = ''video-off-outline'',
     ac_bannerText = ''Unable to find a valid video input device. Try plugging in a video input device.'',
     ac_tooltipText = ''No video input devices'',
     ac_tooltipSubtext = ''Try plugging in a video input device.'', ac_dismissable = True\<rparr>"
| "CallAlertConfigs MissingVideoInputPermissions = \<lparr>ac_type = AlertError, ac_icon = ''video-off-outline'',
     ac_bannerText = ''Allow camera access to Mattermost.'',
     ac_tooltipText = ''No video input permissions'',
     ac_tooltipSubtext = ''Allow camera access to Mattermost.'', ac_dismissable = True\<rparr>"
| "CallAlertConfigs MissingScreenPermissions = \<lparr>ac_type = AlertError, ac_icon = ''monitor-off'',
     ac_bannerText = ''Screen sharing access is not currently allowed or was canceled.'',
     ac_tooltipText = ''No screen sharing permissions'',
     ac_tooltipSubtext = ''Allow screen sharing access to Mattermost.'', ac_dismissable = True\<rparr>"
| "CallAlertConfigs DegradedCallQuality = \<lparr>ac_type = AlertWarning, ac_icon = ''alert-outline'',
     ac_bannerText = ''Call quality may be degraded due to unstable network conditions.'',
     ac_tooltipText = [], ac_tooltipSubtext = [], ac_dismissable = True\<rparr>"
| "CallAlertConfigs AudioInputDeviceFallback = \<lparr>ac_type = AlertInfo, ac_icon = ''microphone'',
     ac_bannerText = ''The audio input device has changed to <i>{deviceLabel}</i>.'',
     ac_tooltipText = [], ac_tooltipSubtext = [], ac_dismissable = True\<rparr>"
| "CallAlertConfigs AudioOutputDeviceFallback = \<lparr>ac_type = AlertInfo, ac_icon = ''speaker'',
     ac_bannerText = ''The audio output device has changed to <i>{deviceLabel}</i>.'',
     ac_tooltipText = [], ac_tooltipSubtext = [], ac_dismissable = True\<rparr>"

definition DEGRADED_CALL_QUALITY_ALERT_WAIT :: int where
  "DEGRADED_CALL_QUALITY_ALERT_WAIT = 20000"

text \<open>\<open>{...alert, active: b, show: b}\<close>, and \<open>{active: b, show: b}\<close>.\<close>

definition spread_alert :: "alert_id \<Rightarrow> bool \<Rightarrow> alerts \<Rightarrow> alerts" where
  "spread_alert i b a = a(i := (a i)\<lparr>al_active := b, al_show := b\<rparr>)"

definition put_alert :: "alert_id \<Rightarrow> bool \<Rightarrow> string option \<Rightarrow> alerts \<Rightarrow> alerts" where
  "put_alert i b label a = a(i := \<lparr>al_active = b, al_show = b, al_deviceLabel = label\<rparr>)"

definition set_alerts :: "(alerts \<Rightarrow> alerts) list \<Rightarrow> alerts \<Rightarrow> alerts" where
  "set_alerts fs a = (if fs = [] then a else last fs a)"

section \<open>Alerts with the lock of the quality banner\<close>

record alert_state =
  as_alerts :: alerts
  as_locked :: bool \<comment> \<open>\<open>callQualityBannerLocked\<close>\<close>
  as_timers :: "int list" \<comment> \<open>when the lock's timers are due\<close>

definition init_alerts :: alert_state where
  "init_alerts = \<lparr>as_alerts = CallAlertStatesDefault, as_locked = False, as_timers = []\<rparr>"

definition upd_alerts :: "(alerts \<Rightarrow> alerts) \<Rightarrow> alert_state \<Rightarrow> alert_state" where
  "upd_alerts f s = s\<lparr>as_alerts := f (as_alerts s)\<rparr>"

text \<open>The listener of \<open>mos\<close>; \<open>low\<close>: the score is below the threshold.\<close>

definition on_mos :: "bool \<Rightarrow> alert_state \<Rightarrow> alert_state" where
  "on_mos low s =
     (let show = al_show (as_alerts s DegradedCallQuality)
      in if \<not> as_locked s \<and> \<not> show \<and> low then upd_alerts (put_alert DegradedCallQuality True None) s
         else if \<not> as_locked s \<and> show \<and> \<not> low then upd_alerts (put_alert DegradedCallQuality False None) s
         else s)"

text \<open>\<open>onClose\<close> of a banner, for an alert that can be dismissed.\<close>

definition close_alert :: "int \<Rightarrow> alert_id \<Rightarrow> alert_state \<Rightarrow> alert_state" where
  "close_alert now i s =
     (if \<not> ac_dismissable (CallAlertConfigs i) then s
      else
        let s1 = upd_alerts (\<lambda>a. a(i := (a i)\<lparr>al_show := False\<rparr>)) s
        in if i = DegradedCallQuality
           then s1\<lparr>as_locked := True,
                   as_timers := as_timers s1 @ [now + DEGRADED_CALL_QUALITY_ALERT_WAIT]\<rparr>
           else s1)"

definition unlock_banner :: "alert_state \<Rightarrow> alert_state" where
  "unlock_banner s = s\<lparr>as_locked := False\<rparr>"

text \<open>The timers that are due at a time have run.\<close>

definition run_timers :: "int \<Rightarrow> alert_state \<Rightarrow> alert_state" where
  "run_timers now s =
     (if \<exists>t\<in>set (as_timers s). t \<le> now
      then (unlock_banner s)\<lparr>as_timers := filter (\<lambda>t. t > now) (as_timers s)\<rparr> else s)"

definition shown_alerts :: "alerts \<Rightarrow> alert_id list" where
  "shown_alerts a = filter (\<lambda>i. al_show (a i)) alert_ids"

text \<open>What the client's events do to the alerts of both windows.\<close>

definition fallback_alert :: "bool \<Rightarrow> device \<Rightarrow> alerts \<Rightarrow> alerts" where
  "fallback_alert input d =
     put_alert (if input then AudioInputDeviceFallback else AudioOutputDeviceFallback) True
       (Some (dv_label d))"

section \<open>What the windows share\<close>

text \<open>
  A window's steps, each of which does to the alerts nothing, or one of these: a change of other
  alerts, a score, closing a banner, all at the time of the step.
\<close>

datatype alert_step =
    AOther "alerts \<Rightarrow> alerts"
  | AMos bool
  | AClose alert_id

text \<open>A change of other alerts leaves the quality's alone.\<close>

fun quality_safe :: "alert_step \<Rightarrow> bool" where
  "quality_safe (AOther f) \<longleftrightarrow> (\<forall>a. f a DegradedCallQuality = a DegradedCallQuality)"
| "quality_safe _ \<longleftrightarrow> True"

fun alert_do :: "int \<Rightarrow> alert_step \<Rightarrow> alert_state \<Rightarrow> alert_state" where
  "alert_do now (AOther f) s = upd_alerts f s"
| "alert_do now (AMos low) s = on_mos low s"
| "alert_do now (AClose i) s =
     (if al_show (as_alerts s i) then close_alert now i s else s)" \<comment> \<open>only a shown banner has a button\<close>

definition quality_shown :: "alert_state \<Rightarrow> bool" where
  "quality_shown s \<longleftrightarrow> al_show (as_alerts s DegradedCallQuality)"

text \<open>The banner is locked until a time: it is hidden, and no timer is due before.\<close>

definition locked_until :: "int \<Rightarrow> alert_state \<Rightarrow> bool" where
  "locked_until t s \<longleftrightarrow> as_locked s \<and> \<not> quality_shown s \<and> (\<forall>d\<in>set (as_timers s). t \<le> d)"

lemma run_timers_locked: "\<lbrakk>locked_until t s; now < t\<rbrakk> \<Longrightarrow> run_timers now s = s"
  by (force simp: run_timers_def locked_until_def)

lemma alert_do_locked:
  assumes "locked_until t s" and "quality_safe a"
  shows "locked_until t (alert_do now a s)"
  using assms
  by (cases a) (auto simp: locked_until_def quality_shown_def upd_alerts_def on_mos_def close_alert_def
      Let_def)

lemma close_locks:
  assumes "\<forall>d\<in>set (as_timers s). now < d" and "as_timers s = []"
  shows "locked_until (now + DEGRADED_CALL_QUALITY_ALERT_WAIT) (close_alert now DegradedCallQuality s)"
  using assms by (simp add: close_alert_def locked_until_def quality_shown_def upd_alerts_def Let_def)

text \<open>The lock is on exactly while a timer is pending, and then the banner is hidden.\<close>

definition lock_ok :: "alert_state \<Rightarrow> bool" where
  "lock_ok s \<longleftrightarrow> (as_locked s \<longleftrightarrow> as_timers s \<noteq> []) \<and> length (as_timers s) \<le> 1 \<and>
     (as_locked s \<longrightarrow> \<not> quality_shown s)"

lemma lock_ok_init: "lock_ok init_alerts"
  by (simp add: lock_ok_def init_alerts_def)

lemma lock_ok_timers: "lock_ok s \<Longrightarrow> lock_ok (run_timers now s)"
  by (cases "as_timers s") (auto simp: lock_ok_def run_timers_def unlock_banner_def quality_shown_def)

lemma lock_ok_do: "\<lbrakk>lock_ok s; quality_safe a\<rbrakk> \<Longrightarrow> lock_ok (alert_do now a s)"
  by (cases a) (auto simp: lock_ok_def quality_shown_def upd_alerts_def on_mos_def close_alert_def
      put_alert_def Let_def)

locale alert_view =
  fixes step :: "int \<Rightarrow> 'e \<Rightarrow> 's \<Rightarrow> 's"
    and view :: "'s \<Rightarrow> alert_state"
    and what :: "'e \<Rightarrow> 's \<Rightarrow> alert_step"
  assumes view_step: "view (step now e s) = alert_do now (what e s) (run_timers now (view s))"
    and what_safe: "quality_safe (what e s)"
begin

fun run :: "(int \<times> 'e) list \<Rightarrow> 's \<Rightarrow> 's" where
  "run [] s = s"
| "run ((now, e) # es) s = run es (step now e s)"

lemma lock_invariant: "lock_ok (view s) \<Longrightarrow> lock_ok (view (run es s))"
  by (induction es s rule: run.induct) (simp_all add: view_step what_safe lock_ok_do lock_ok_timers)

lemma stays_locked:
  "\<lbrakk>locked_until t (view s); \<forall>(now, e)\<in>set es. now < t\<rbrakk> \<Longrightarrow> locked_until t (view (run es s))"
  by (induction es s rule: run.induct)
    (auto simp: view_step what_safe alert_do_locked run_timers_locked)

lemma closed_stays_hidden:
  assumes "lock_ok (view s)" and "quality_shown (view s)" and "what e s = AClose DegradedCallQuality"
    and "\<forall>(now', e')\<in>set es. now' < now + DEGRADED_CALL_QUALITY_ALERT_WAIT"
  shows "\<not> quality_shown (view (run ((now, e) # es) s))"
proof -
  have t: "as_timers (view s) = []" using assms(1,2) by (auto simp: lock_ok_def)
  then have "run_timers now (view s) = view s" by (simp add: run_timers_def)
  then have "view (step now e s) = close_alert now DegradedCallQuality (view s)"
    using assms(2,3) by (simp add: view_step quality_shown_def)
  then have "locked_until (now + DEGRADED_CALL_QUALITY_ALERT_WAIT) (view (step now e s))"
    using t by (simp add: close_locks)
  from stays_locked [OF this assms(4)] show ?thesis by (simp add: locked_until_def)
qed

end

section \<open>Batches\<close>

text \<open>
  A fallback alert that is set in one batch with the alerts of a device change is lost, while set
  one after the other both stand.\<close>
theorem fallback_alert_lost:
  assumes "g = (\<lambda>a. spread_alert MissingAudioInput b a)"
  shows "set_alerts [fallback_alert input d, g] a AudioInputDeviceFallback = a AudioInputDeviceFallback \<and>
    g (fallback_alert True d a) AudioInputDeviceFallback =
      \<lparr>al_active = True, al_show = True, al_deviceLabel = Some (dv_label d)\<rparr>"
  using assms by (simp add: set_alerts_def spread_alert_def fallback_alert_def put_alert_def)

lemma fallback_alert_lost_witness:
  "\<not> al_show (set_alerts [fallback_alert True \<lparr>dv_deviceId = ''1'', dv_label = ''m''\<rparr>,
      (\<lambda>a. spread_alert MissingAudioInput False a)] CallAlertStatesDefault AudioInputDeviceFallback)"
  using fallback_alert_lost [OF refl, of True "\<lparr>dv_deviceId = ''1'', dv_label = ''m''\<rparr>" False CallAlertStatesDefault]
  by (simp add: CallAlertStatesDefault_def)

end
