(* ===== verification/CallWidget.thy ===== *)
theory CallWidget imports Alerts Connect RecordingPrompt Support begin

text \<open>
  The call widget (\<open>components/call_widget/component.tsx\<close>), the small window of a call, and how its
  properties are read from the store (\<open>call_widget/index.ts\<close>).

  A handler takes the properties and the widget with its environment, and returns both. A handler
  that waits is two definitions, and the answer is an argument of the second. What is drawn is a
  value per render method: which element, with which text, and what it does; styles are left out.
  The widget's reference to the expanded view's window is \<open>cw_popout\<close>, and calls into that window
  are effects. Streams are their ids.
\<close>

section \<open>Properties\<close>

record widget_props =
  wp_currentUserID :: string
  wp_channel :: "channel option"
  wp_team :: "team option"
  wp_channelURL :: string
  wp_channelDisplayName :: string
  wp_sessions :: "user_session list"
  wp_otherSessions :: "user_session list"
  wp_sessionsMap :: "(string, user_session) obj"
  wp_currentSession :: "user_session option"
  wp_profiles :: "(string, user_profile) obj"
  wp_callStartAt :: int
  wp_callHostID :: string
  wp_callHostChangeAt :: int
  wp_callRecording :: "job_state option"
  wp_isRecording :: bool
  wp_screenSharingSession :: "user_session option"
  wp_show :: bool
  wp_allowScreenSharing :: bool
  wp_global :: bool
  wp_startingCall :: bool
  wp_recentlyJoinedUsers :: "string list"
  wp_hostNotices :: "host_notice list"
  wp_wider :: bool
  wp_callsIncoming :: "incoming_call list"
  wp_transcriptionsEnabled :: bool
  wp_clientConnecting :: bool
  wp_callThreadID :: string
  wp_recordingsEnabled :: bool
  wp_enableVideo :: bool
  wp_connectedDMUser :: "user_profile option"
  wp_isAdmin :: bool

text \<open>
  \<open>mapStateToProps\<close>. \<open>global\<close> and \<open>startingCall\<close> come from the owner, \<open>myTeams\<close> is the number of
  the user's teams, and \<open>localeCompare\<close> is the platform's.
\<close>

definition call_sessions :: "(string \<Rightarrow> string \<Rightarrow> int) \<Rightarrow> global_state \<Rightarrow> user_session list" where
  "call_sessions localeCompare gs =
     js_sort (stateSortSessions
                (str_of (Option.bind (screenSharingSessionForCurrentCall gs) us_session_id)) True)
       (js_sort (alphaSortSessions localeCompare (profilesInCurrentCallMap gs)) (sessionsInCurrentCall gs))"

definition connected_dm_user :: "global_state \<Rightarrow> channel option \<Rightarrow> user_profile option" where
  "connected_dm_user gs chan =
     (case chan of
        None \<Rightarrow> None
      | Some c \<Rightarrow>
          if isDMChannel chan
          then Option.bind (getUserIdFromDM (chn_name c) (mm_currentUserID (gs_mm gs)))
                 (obj_get (mm_profiles (gs_mm gs)))
          else None)"

definition widgetProps ::
  "(string \<Rightarrow> string \<Rightarrow> int) \<Rightarrow> nat \<Rightarrow> bool \<Rightarrow> bool \<Rightarrow> global_state \<Rightarrow> widget_props" where
  "widgetProps localeCompare myTeams global startingCall gs =
     (let mm = gs_mm gs; rs = gs_plugin gs;
          chan = obj_get (mm_channels mm) (js_key (map_option cc_channelID (gs_client gs)))
      in \<lparr>wp_currentUserID = mm_currentUserID mm,
          wp_channel = chan,
          wp_team = obj_get (mm_teams mm)
                      (str_or (str_of (map_option chn_team_id chan)) (mm_currentTeamID mm)),
          wp_channelURL = fst (getChannelUrlAndDisplayName gs chan),
          wp_channelDisplayName = str_of (snd (getChannelUrlAndDisplayName gs chan)),
          wp_sessions = call_sessions localeCompare gs,
          wp_otherSessions = sessionsForOtherUsersInCall gs,
          wp_sessionsMap = obj_or_empty (sessionsInCurrentCallMap gs),
          wp_currentSession = sessionForCurrentCall gs,
          wp_profiles = profilesInCurrentCallMap gs,
          wp_callStartAt = callStartAtForCurrentCall gs,
          wp_callHostID = hostIDForCurrentCall gs,
          wp_callHostChangeAt = hostChangeAtForCurrentCall gs,
          wp_callRecording = Some (recordingForCurrentCall gs),
          wp_isRecording = isRecordingInCurrentCall gs,
          wp_screenSharingSession = screenSharingSessionForCurrentCall gs,
          wp_show = (\<not> rs_expandedView rs),
          wp_allowScreenSharing = allowScreenSharing gs,
          wp_global = global,
          wp_startingCall = startingCall,
          wp_recentlyJoinedUsers = recentlyJoinedUsersInCurrentCall gs,
          wp_hostNotices = hostControlNoticesForCurrentCall gs,
          wp_wider = (myTeams > 1),
          wp_callsIncoming = sortedIncomingCalls gs,
          wp_transcriptionsEnabled = transcriptionsEnabled gs,
          wp_clientConnecting = rs_clientConnecting rs,
          wp_callThreadID = threadIDForCallInChannel gs (str_of (map_option chn_id chan)),
          wp_recordingsEnabled = recordingsEnabled gs,
          wp_enableVideo = (EnableVideo (callsConfig_sel gs) \<and> isDMChannel chan),
          wp_connectedDMUser = connected_dm_user gs chan,
          wp_isAdmin = mm_isCurrentUserSystemAdmin mm\<rparr>)"

section \<open>State\<close>

record dragging =
  dr_dragging :: bool
  dr_x :: int
  dr_y :: int
  dr_initX :: int
  dr_initY :: int
  dr_offX :: int
  dr_offY :: int

text \<open>The window of the expanded view, once it was opened.\<close>

record popout =
  po_closed :: bool
  po_screenSharingTrackId :: "string option"

record audio_el =
  ae_track :: string
  ae_sink :: "string option"

record widget =
  cw_showMenu :: bool
  cw_showParticipantsList :: bool
  cw_screenStream :: "string option"
  cw_selfVideoStream :: "string option"
  cw_initializingSelfVideo :: bool
  cw_otherVideoStream :: "string option"
  cw_currentAudioInputDevice :: "device option"
  cw_currentAudioOutputDevice :: "device option"
  cw_currentVideoInputDevice :: "device option"
  cw_devices :: "(device list \<times> device list) option"
  cw_videoDevices :: "device list option"
  cw_showAudioInputDevicesMenu :: bool
  cw_showAudioOutputDevicesMenu :: bool
  cw_showVideoInputDevicesMenu :: bool
  cw_dragging :: dragging
  cw_audioEls :: "audio_el list"
  cw_alerts :: alert_state
  cw_removeConfirmation :: "(string \<times> string) option"
  cw_leaveMenuOpen :: bool
  cw_popout :: "popout option"

definition init_widget :: widget where
  "init_widget = \<lparr>
     cw_showMenu = False, cw_showParticipantsList = False, cw_screenStream = None,
     cw_selfVideoStream = None, cw_initializingSelfVideo = False, cw_otherVideoStream = None,
     cw_currentAudioInputDevice = None, cw_currentAudioOutputDevice = None,
     cw_currentVideoInputDevice = None, cw_devices = None, cw_videoDevices = None,
     cw_showAudioInputDevicesMenu = False, cw_showAudioOutputDevicesMenu = False,
     cw_showVideoInputDevicesMenu = False,
     cw_dragging = \<lparr>dr_dragging = False, dr_x = 0, dr_y = 0, dr_initX = 0, dr_initY = 0,
       dr_offX = 0, dr_offY = 0\<rparr>,
     cw_audioEls = [], cw_alerts = init_alerts, cw_removeConfirmation = None,
     cw_leaveMenuOpen = False, cw_popout = None\<rparr>"

text \<open>
  The window that the widget is in: the functions of \<open>window.desktopAPI\<close>, whether the page is in
  the desktop app and whether that is at least 5.1.0, and whether sound is shared with a screen.
\<close>

record widget_window =
  ww_has :: "string \<Rightarrow> bool"
  ww_desktop :: bool
  ww_desktop_5_1 :: bool
  ww_shareAudio :: bool
  ww_mac :: bool
  ww_openUserSettings :: bool
  ww_popoutURL :: "team \<Rightarrow> channel \<Rightarrow> string"

type_synonym ww = "widget \<times> env"

definition with_alerts :: "(alerts \<Rightarrow> alerts) \<Rightarrow> widget \<Rightarrow> widget" where
  "with_alerts f w = w\<lparr>cw_alerts := upd_alerts f (cw_alerts w)\<rparr>"

definition popout_call :: "window_call \<Rightarrow> ww \<Rightarrow> ww" where
  "popout_call x = (\<lambda>(w, e). (w, if cw_popout w = None then e else effect (EWindow x) e))"

section \<open>Alerts and screens\<close>

definition widget_setMissingScreenPermissions :: "bool \<Rightarrow> bool \<Rightarrow> ww \<Rightarrow> ww" where
  "widget_setMissingScreenPermissions missing forward = (\<lambda>(w, e).
     let w1 = with_alerts (spread_alert MissingScreenPermissions missing) w;
         st = (if forward then popout_call (WMissingScreen missing) (w1, e) else (w1, e))
     in (fst st, setMissingScreenPermissions missing (snd st)))"

text \<open>
  \<open>shareScreen\<close> after the wait for the stream, whose id and tracks are the answer; with no client,
  or one that is not connected, the answer is none.
\<close>

definition widget_shareScreen :: "(string \<times> string \<times> string option) option \<Rightarrow> ww \<Rightarrow> ww" where
  "widget_shareScreen answer = (\<lambda>(w, e).
     case answer of
       Some (sid, t, a) \<Rightarrow>
         widget_setMissingScreenPermissions False True
           (w\<lparr>cw_screenStream := Some sid\<rparr>, client_call (setScreenStream sid t a) e)
     | None \<Rightarrow> widget_setMissingScreenPermissions True True (w, e))"

text \<open>Whether \<open>shareScreen\<close> asks the browser for a stream at all.\<close>

definition asks_for_screen :: "env \<Rightarrow> bool" where
  "asks_for_screen e = (case ev_client e of None \<Rightarrow> False | Some c \<Rightarrow> cc_ws c \<noteq> None \<and> cc_peer c)"

datatype share_wait = NoShare | WaitShare

definition same_session :: "user_session option \<Rightarrow> user_session option \<Rightarrow> bool" where
  "same_session a b \<longleftrightarrow> Option.bind a us_session_id = Option.bind b us_session_id"

definition onShareScreenToggle :: "widget_window \<Rightarrow> widget_props \<Rightarrow> ww \<Rightarrow> ww \<times> share_wait" where
  "onShareScreenToggle h p = (\<lambda>(w, e).
     if \<not> wp_allowScreenSharing p then ((w, e), NoShare)
     else if same_session (wp_screenSharingSession p) (wp_currentSession p)
     then ((w\<lparr>cw_screenStream := None, cw_showMenu := False\<rparr>, client_call unshareScreen e), NoShare)
     else if wp_screenSharingSession p \<noteq> None then ((w\<lparr>cw_showMenu := False\<rparr>, e), NoShare)
     else if ww_desktop h \<and> ww_desktop_5_1 h
     then ((w\<lparr>cw_showMenu := False\<rparr>,
            if \<not> wp_global p then showScreenSourceModal e
            else if ww_has h ''openScreenShareModal'' then effect (EDesktopCall ''openScreenShareModal'' []) e
            else effect (EDesktopEvent ''desktop-sources-modal-request'' []) e), NoShare)
     else ((w, e), WaitShare))"

text \<open>After the wait the menu closes.\<close>

definition share_toggled :: "(string \<times> string \<times> string option) option \<Rightarrow> ww \<Rightarrow> ww" where
  "share_toggled answer st =
     (case widget_shareScreen answer st of (w, e) \<Rightarrow> (w\<lparr>cw_showMenu := False\<rparr>, e))"

section \<open>The client's events\<close>

definition attachVoiceTracks :: "string option \<Rightarrow> string list \<Rightarrow> widget \<Rightarrow> widget" where
  "attachVoiceTracks output ts w =
     w\<lparr>cw_audioEls := cw_audioEls w @ map (\<lambda>t. \<lparr>ae_track = t, ae_sink = output\<rparr>) ts\<rparr>"

definition sink_of :: "calls_client \<Rightarrow> string option" where
  "sink_of c = (case cc_currentAudioOutputDevice c of
                  None \<Rightarrow> None | Some d \<Rightarrow> if dv_deviceId d = [] then None else Some (dv_deviceId d))"

definition stream_voices :: "calls_client \<Rightarrow> string \<Rightarrow> string list" where
  "stream_voices c sid =
     (case find (\<lambda>s. st_id s = sid) (cc_streams c) of
        None \<Rightarrow> [] | Some s \<Rightarrow> kind_tracks c AudioTrack s)"

definition device_alerts :: "bool \<Rightarrow> calls_client \<Rightarrow> alerts \<Rightarrow> alerts" where
  "device_alerts enableVideo c a =
     spread_alert MissingVideoInput (enableVideo \<and> cc_videoDevices c = [])
       (spread_alert MissingAudioInput (cc_audioInputs c = []) a)"

definition take_devices :: "calls_client \<Rightarrow> widget \<Rightarrow> widget" where
  "take_devices c w = w\<lparr>cw_currentAudioInputDevice := cc_currentAudioInputDevice c,
     cw_currentAudioOutputDevice := cc_currentAudioOutputDevice c,
     cw_currentVideoInputDevice := cc_currentVideoInputDevice c\<rparr>"

text \<open>
  The listeners that \<open>componentDidMount\<close> registers; \<open>mic\<close> is the browser's answer if the microphone
  has to be initialised.
\<close>

fun widget_on :: "widget_window \<Rightarrow> widget_props \<Rightarrow> (stream \<times> string) option \<Rightarrow> client_event \<Rightarrow> ww \<Rightarrow> ww" where
  "widget_on h p mic (CRemoteVoiceStream sid) (w, e) =
     (case ev_client e of
        None \<Rightarrow> (attachVoiceTracks None [] w, e)
      | Some c \<Rightarrow> (attachVoiceTracks (sink_of c) (stream_voices c sid) w, e))"
| "widget_on h p mic (CRemoteScreenStream sid) (w, e) = (w\<lparr>cw_screenStream := Some sid\<rparr>, e)"
| "widget_on h p mic (CLocalScreenStream sid) (w, e) = (w\<lparr>cw_screenStream := Some sid\<rparr>, e)"
| "widget_on h p mic (CLocalVideoStream sid) (w, e) = (w\<lparr>cw_selfVideoStream := Some sid\<rparr>, e)"
| "widget_on h p mic (CRemoteVideoStream sid) (w, e) = (w\<lparr>cw_otherVideoStream := Some sid\<rparr>, e)"
| "widget_on h p mic CDeviceChange (w, e) =
     (case ev_client e of
        None \<Rightarrow> (w, e)
      | Some c \<Rightarrow>
          (with_alerts (device_alerts (wp_enableVideo p) c)
             ((take_devices c w)\<lparr>cw_devices := Some (cc_audioInputs c, cc_audioOutputs c),
                cw_videoDevices := Some (cc_videoDevices c)\<rparr>), e))"
| "widget_on h p mic (CDeviceFallback input d) (w, e) = (with_alerts (fallback_alert input d) w, e)"
| "widget_on h p mic CConnect (w, e) =
     (let e1 = (case ev_client e of
                  Some c \<Rightarrow>
                    if \<not> wp_global p then e
                    else if ww_has h ''callsWidgetConnected''
                    then effect (EDesktopCall ''callsWidgetConnected''
                                   [cc_channelID c, str_of (getSessionID c)]) e
                    else effect (EDesktopEvent ''calls-joined-call'' (cc_channelID c)) e
                | None \<Rightarrow> e);
          e2 = (if isDMChannel (wp_channel p) \<or> isGMChannel (wp_channel p)
                then client_call (unmute mic) e1 else e1)
      in (case ev_client e2 of None \<Rightarrow> w | Some c \<Rightarrow> take_devices c w, e2))"
| "widget_on h p mic (CError err) (w, e) =
     (if err = MediaErr ''missing audio input permissions''
      then (with_alerts (put_alert MissingAudioInputPermissions True None) w, e)
      else if err = MediaErr ''missing video input permissions''
      then (with_alerts (put_alert MissingVideoInputPermissions True None) w, e)
      else (w, e))"
| "widget_on h p mic CInitAudio (w, e) =
     (with_alerts (put_alert MissingAudioInputPermissions False None) w, e)"
| "widget_on h p mic CInitVideo (w, e) =
     (with_alerts (put_alert MissingVideoInputPermissions False None) w, e)"
| "widget_on h p mic _ (w, e) = (w, e)"

text \<open>What \<open>componentDidMount\<close> takes over from the client.\<close>

definition widget_mounted :: "ww \<Rightarrow> ww" where
  "widget_mounted = (\<lambda>(w, e).
     case ev_client e of
       None \<Rightarrow> (w, e)
     | Some c \<Rightarrow> ((attachVoiceTracks (sink_of c) (getRemoteVoiceTracks c) w)
                    \<lparr>cw_screenStream := getRemoteScreenStream c\<rparr>, e))"

text \<open>The listener of \<open>mos\<close>, and \<open>onClose\<close> of an alert's banner.\<close>

definition widget_mos :: "bool \<Rightarrow> widget \<Rightarrow> widget" where
  "widget_mos low w = w\<lparr>cw_alerts := on_mos low (cw_alerts w)\<rparr>"

definition widget_close_alert :: "int \<Rightarrow> alert_id \<Rightarrow> widget \<Rightarrow> widget" where
  "widget_close_alert now i w = w\<lparr>cw_alerts := close_alert now i (cw_alerts w)\<rparr>"

section \<open>Buttons\<close>

definition isMuted :: "widget_props \<Rightarrow> bool" where
  "isMuted p = (case wp_currentSession p of
                  None \<Rightarrow> True | Some s \<Rightarrow> \<not> truthy_bool (us_unmuted s))"

definition isVideoOn :: "widget_props \<Rightarrow> bool" where
  "isVideoOn p = (case wp_currentSession p of
                    None \<Rightarrow> False | Some s \<Rightarrow> truthy_bool (us_video s))"

definition isHandRaised :: "widget_props \<Rightarrow> bool" where
  "isHandRaised p = (case wp_currentSession p of
                       None \<Rightarrow> False | Some s \<Rightarrow> num_gt (us_raised_hand s) (Some 0))"

definition onMuteToggle :: "(stream \<times> string) option \<Rightarrow> widget_props \<Rightarrow> ww \<Rightarrow> ww" where
  "onMuteToggle mic p = (\<lambda>(w, e). (w, client_call (if isMuted p then unmute mic else mute) e))"

definition onVideoToggle :: "widget_props \<Rightarrow> ww \<Rightarrow> ww \<times> bool" where
  "onVideoToggle p = (\<lambda>(w, e).
     if ev_client e = None then ((w, e), False)
     else if isVideoOn p then ((w\<lparr>cw_selfVideoStream := None\<rparr>, client_call stopVideo e), False)
     else ((w\<lparr>cw_initializingSelfVideo := True\<rparr>, e), True))"

text \<open>The stream that \<open>startVideo\<close> resolves to.\<close>

definition started_video :: "calls_client \<Rightarrow> string option" where
  "started_video c =
     (if cc_ws c = None \<or> \<not> cc_peer c \<or> \<not> cf_enableVideo (cc_config c) then None
      else map_option st_id (cc_localVideoStream c))"

definition video_toggled ::
  "(string option \<Rightarrow> (stream \<times> string) option) \<Rightarrow> blur \<Rightarrow> ww \<Rightarrow> ww" where
  "video_toggled camera b = (\<lambda>(w, e).
     let e1 = client_call (startVideo camera b) e
     in (w\<lparr>cw_selfVideoStream := Option.bind (ev_client e1) started_video,
           cw_initializingSelfVideo := False\<rparr>, e1))"

definition onDisconnectClick :: "ww \<Rightarrow> ww" where
  "onDisconnectClick = (\<lambda>(w, e).
     case cw_popout w of
       Some q \<Rightarrow>
         if \<not> po_closed q
         then (w\<lparr>cw_popout := None\<rparr>, disconnect_client None (effect (EWindow WClose) e))
         else (w, disconnect_client None e)
     | None \<Rightarrow> (w, disconnect_client None e))"

definition onMenuClick :: "widget \<Rightarrow> widget" where
  "onMenuClick w = w\<lparr>cw_showMenu := \<not> cw_showMenu w, cw_showParticipantsList := False\<rparr>"

definition onParticipantsButtonClick :: "widget \<Rightarrow> widget" where
  "onParticipantsButtonClick w =
     w\<lparr>cw_showParticipantsList := \<not> cw_showParticipantsList w, cw_showMenu := False\<rparr>"

definition onRaiseHandToggle :: "widget_props \<Rightarrow> ww \<Rightarrow> ww" where
  "onRaiseHandToggle p = (\<lambda>(w, e).
     (w, client_call (if isHandRaised p then unraiseHand else raiseHand) e))"

definition keyboardClose :: "string \<Rightarrow> widget \<Rightarrow> widget" where
  "keyboardClose key w = (if key = ''Escape'' then w\<lparr>cw_showMenu := False\<rparr> else w)"

definition closeOnBlur :: "bool \<Rightarrow> widget \<Rightarrow> widget" where
  "closeOnBlur inside w = (if inside then w else w\<lparr>cw_showMenu := False\<rparr>)"

definition onLeaveMenuOpen :: "bool \<Rightarrow> widget \<Rightarrow> widget" where
  "onLeaveMenuOpen b w = w\<lparr>cw_leaveMenuOpen := b\<rparr>"

text \<open>\<open>handleKBShortcuts\<close>; a share that has to wait is the second result.\<close>

definition handleKBShortcuts ::
  "widget_window \<Rightarrow> (stream \<times> string) option \<Rightarrow> widget_props \<Rightarrow> key_event \<Rightarrow> ww \<Rightarrow> ww \<times> share_wait" where
  "handleKBShortcuts h mic p ev = (\<lambda>(w, e).
     if \<not> wp_show p then ((w, e), NoShare)
     else
       let act = keyToAction (ww_mac h) Widget ev
       in if act = Some ''mute-unmute'' then (onMuteToggle mic p (w, e), NoShare)
          else if act = Some ''raise-lower-hand'' then (onRaiseHandToggle p (w, e), NoShare)
          else if act = Some ''share-unshare-screen'' then onShareScreenToggle h p (w, e)
          else if act = Some ''participants-list-toggle'' then ((onParticipantsButtonClick w, e), NoShare)
          else if act = Some ''leave-call'' then (onDisconnectClick (w, e), NoShare)
          else ((w, e), NoShare))"

section \<open>Menus\<close>

definition dismissRecordingPrompt :: "widget_props \<Rightarrow> ww \<Rightarrow> ww" where
  "dismissRecordingPrompt p = (\<lambda>(w, e).
     case wp_channel p of
       None \<Rightarrow> (w, e)
     | Some c \<Rightarrow>
         let t = serverDismissedAt (wp_callRecording p) (wp_callHostChangeAt p)
         in popout_call (WDismissRecording (chn_id c) t) (w, recordingPromptDismissedAt (chn_id c) t e))"

definition onRecordToggle :: "widget_window \<Rightarrow> widget_props \<Rightarrow> ww \<Rightarrow> ww" where
  "onRecordToggle h p = (\<lambda>(w, e).
     case wp_channel p of
       None \<Rightarrow> (w, e)
     | Some c \<Rightarrow>
         let rec = wp_callRecording p;
             isRecording = (int_or (Option.bind rec jb_start_at) 0 > int_or (Option.bind rec jb_end_at) 0);
             e1 = (if \<not> isRecording then startCallRecording (chn_id c) e
                   else if \<not> wp_global p then effect (EModal ''stop_recording_confirmation'' (Some (chn_id c))) e
                   else if ww_has h ''openStopRecordingModal''
                   then effect (EDesktopCall ''openStopRecordingModal'' [chn_id c]) e
                   else stopCallRecording (chn_id c) e)
         in (w\<lparr>cw_showMenu := False\<rparr>, e1))"

definition onChatThreadButtonClick :: "widget_window \<Rightarrow> widget_props \<Rightarrow> ww \<Rightarrow> ww" where
  "onChatThreadButtonClick h p = (\<lambda>(w, e).
     if wp_callThreadID p = [] then (w, e)
     else (w\<lparr>cw_showMenu := False\<rparr>,
           if wp_global p \<and> ww_has h ''openThreadForCalls''
           then effect (EDesktopCall ''openThreadForCalls'' [wp_callThreadID p]) e
           else effect (ESelectPost (wp_callThreadID p)) e))"

definition onCallsSettingsButtonClick :: "widget_window \<Rightarrow> widget_props \<Rightarrow> ww \<Rightarrow> ww" where
  "onCallsSettingsButtonClick h p = (\<lambda>(w, e).
     (w\<lparr>cw_showMenu := False\<rparr>,
      if wp_global p \<and> ww_has h ''openCallsUserSettings''
      then effect (EDesktopCall ''openCallsUserSettings'' []) e else effect EOpenSettings e))"

text \<open>Choosing a device; the client's wait for the browser, if any, is the second result.\<close>

definition onAudioInputDeviceClick :: "device \<Rightarrow> ww \<Rightarrow> ww \<times> mic_wait" where
  "onAudioInputDeviceClick d = (\<lambda>(w, e).
     let wait = (case ev_client e of None \<Rightarrow> NoWait | Some c \<Rightarrow> snd (setAudioInputDevice d True c));
         w1 = w\<lparr>cw_showAudioInputDevicesMenu := False, cw_currentAudioInputDevice := Some d\<rparr>
     in if Some (dv_deviceId d) = map_option dv_deviceId (cw_currentAudioInputDevice w) then ((w1, e), NoWait)
        else ((w1, client_call (\<lambda>c. fst (setAudioInputDevice d True c)) e), wait))"

definition onVideoInputDeviceClick :: "device \<Rightarrow> ww \<Rightarrow> ww \<times> camera_wait" where
  "onVideoInputDeviceClick d = (\<lambda>(w, e).
     let wait = (case ev_client e of None \<Rightarrow> NoCamera | Some c \<Rightarrow> snd (setVideoInputDevice d c));
         w1 = w\<lparr>cw_showVideoInputDevicesMenu := False, cw_currentVideoInputDevice := Some d\<rparr>
     in if Some (dv_deviceId d) = map_option dv_deviceId (cw_currentVideoInputDevice w) then ((w1, e), NoCamera)
        else ((w1, client_call (\<lambda>c. fst (setVideoInputDevice d c)) e), wait))"

definition onAudioOutputDeviceClick :: "device \<Rightarrow> ww \<Rightarrow> ww" where
  "onAudioOutputDeviceClick d = (\<lambda>(w, e).
     let w1 = w\<lparr>cw_showAudioOutputDevicesMenu := False, cw_currentAudioOutputDevice := Some d\<rparr>
     in if Some (dv_deviceId d) = map_option dv_deviceId (cw_currentAudioOutputDevice w) then (w1, e)
        else (w1\<lparr>cw_audioEls := map (\<lambda>a. a\<lparr>ae_sink := Some (dv_deviceId d)\<rparr>) (cw_audioEls w1)\<rparr>,
              client_call (setAudioOutputDevice d True) e))"

text \<open>The three submenus of devices: opening one closes the others.\<close>

datatype device_type = AudioInput | AudioOutput | VideoInput

fun onDevicesClick :: "device_type \<Rightarrow> widget \<Rightarrow> widget" where
  "onDevicesClick AudioInput w = w\<lparr>cw_showAudioInputDevicesMenu := \<not> cw_showAudioInputDevicesMenu w,
     cw_showAudioOutputDevicesMenu := False, cw_showVideoInputDevicesMenu := False\<rparr>"
| "onDevicesClick AudioOutput w = w\<lparr>cw_showAudioOutputDevicesMenu := \<not> cw_showAudioOutputDevicesMenu w,
     cw_showAudioInputDevicesMenu := False, cw_showVideoInputDevicesMenu := False\<rparr>"
| "onDevicesClick VideoInput w = w\<lparr>cw_showVideoInputDevicesMenu := \<not> cw_showVideoInputDevicesMenu w,
     cw_showAudioInputDevicesMenu := False, cw_showAudioOutputDevicesMenu := False\<rparr>"

definition onRemove :: "string \<Rightarrow> string \<Rightarrow> widget \<Rightarrow> widget" where
  "onRemove sessionID userID w = w\<lparr>cw_removeConfirmation := Some (sessionID, userID)\<rparr>"

definition onRemoveConfirm :: "widget_props \<Rightarrow> ww \<Rightarrow> ww" where
  "onRemoveConfirm p = (\<lambda>(w, e).
     (w\<lparr>cw_removeConfirmation := None\<rparr>,
      hostRemove (map_option chn_id (wp_channel p)) (map_option fst (cw_removeConfirmation w)) e))"

definition onRemoveCancel :: "widget \<Rightarrow> widget" where
  "onRemoveCancel w = w\<lparr>cw_removeConfirmation := None\<rparr>"

definition onChannelLinkClick :: "widget_window \<Rightarrow> widget_props \<Rightarrow> env \<Rightarrow> env" where
  "onChannelLinkClick h p =
     (if \<not> wp_global p then effect (ENavigate (wp_channelURL p))
      else if ww_has h ''openLinkFromCalls'' then effect (EDesktopCall ''openLinkFromCalls'' [wp_channelURL p])
      else effect (EDesktopEvent ''calls-widget-channel-link-click'' (wp_channelURL p)))"

text \<open>The legacy messages of the desktop app, by type; only those of the page's own origin count.\<close>

datatype desktop_message = MsgError string | MsgShare "(string \<times> string \<times> string option) option"

definition handleDesktopEvents :: "bool \<Rightarrow> desktop_message \<Rightarrow> ww \<Rightarrow> ww" where
  "handleDesktopEvents sameOrigin m st =
     (if \<not> sameOrigin then st
      else (case m of
              MsgError err \<Rightarrow> if err = ''screen-permissions''
                              then widget_setMissingScreenPermissions True True st else st
            | MsgShare answer \<Rightarrow> widget_shareScreen answer st))"

section \<open>The expanded view's window\<close>

definition onExpandClick :: "widget_window \<Rightarrow> widget_props \<Rightarrow> ww \<Rightarrow> ww" where
  "onExpandClick h p = (\<lambda>(w, e).
     if (case cw_popout w of None \<Rightarrow> False | Some q \<Rightarrow> \<not> po_closed q)
     then (w, if \<not> wp_global p then effect (EWindow WFocus) e
              else if ww_has h ''focusPopout'' then effect (EDesktopCall ''focusPopout'' []) e
              else effect (EDesktopEvent ''calls-popout-focus'' []) e)
     else if ww_desktop h \<and> \<not> wp_global p then (w, showExpandedView e)
     else (case (wp_team p, wp_channel p) of
             (Some t, Some c) \<Rightarrow>
               (w\<lparr>cw_popout := Some \<lparr>po_closed = False, po_screenSharingTrackId = None\<rparr>\<rparr>,
                effect (EWindow (WOpen (ww_popoutURL h t c))) e)
           | _ \<Rightarrow> (w, e)))"

text \<open>
  The listener of the popout's \<open>beforeunload\<close>: a screen that was shared from that window is
  unshared with it.
\<close>

definition popout_unload :: "ww \<Rightarrow> ww" where
  "popout_unload = (\<lambda>(w, e).
     case ev_client e of
       None \<Rightarrow> (w, e)
     | Some c \<Rightarrow>
         if getLocalScreenStream c \<noteq> None \<and>
            getLocalScreenStream c = Option.bind (cw_popout w) po_screenSharingTrackId
         then (w, client_call unshareScreen e) else (w, e))"

end
