(* ===== verification/WidgetView.thy ===== *)
theory WidgetView imports CallWidget begin

text \<open>
  What the call widget draws (the render methods of \<open>components/call_widget/component.tsx\<close>) and how
  it is dragged, and its steps as one relation.

  A render method is a function of the properties and the state to the elements that it shows.
  Texts are the default messages. Positions are whole pixels.
\<close>

section \<open>Render methods\<close>

record button_view =
  bv_text :: string
  bv_subtext :: string
  bv_shortcut :: bool \<comment> \<open>is the first shortcut of the action shown\<close>
  bv_unavailable :: bool
  bv_disabled :: bool
  bv_acts :: bool \<comment> \<open>does pressing it do anything\<close>

definition is_sharing :: "widget_props \<Rightarrow> bool" where
  "is_sharing p =
     (let i = Option.bind (wp_screenSharingSession p) us_session_id
      in str_of i \<noteq> [] \<and> i = Option.bind (wp_currentSession p) us_session_id)"

definition alert_active :: "widget \<Rightarrow> alert_id \<Rightarrow> bool" where
  "alert_active w i = al_active (as_alerts (cw_alerts w) i)"

text \<open>The panel above the widget: is it the user's own screen, and its message.\<close>

definition renderScreenSharingPanel :: "widget_props \<Rightarrow> (bool \<times> string) option" where
  "renderScreenSharingPanel p =
     (case wp_screenSharingSession p of
        None \<Rightarrow> None
      | Some s \<Rightarrow>
          if us_session_id s = Option.bind (wp_currentSession p) us_session_id
          then Some (True, ''You're sharing your screen'')
          else (case Option.bind (us_user_id s) (obj_get (wp_profiles p)) of
                  None \<Rightarrow> None
                | Some u \<Rightarrow> Some (False, ''You're viewing '' @ getUserDisplayName (Some u) False @ [CHR 0x27] @ ''s screen'')))"

definition renderScreenShareButton :: "widget_props \<Rightarrow> widget \<Rightarrow> button_view" where
  "renderScreenShareButton p w =
     (let sharing = is_sharing p; noPermissions = alert_active w MissingScreenPermissions;
          shared = (str_of (Option.bind (wp_screenSharingSession p) us_session_id) \<noteq> []);
          cfg = CallAlertConfigs MissingScreenPermissions
      in \<lparr>bv_text = (if noPermissions then ac_tooltipText cfg
                     else if sharing then ''Stop presenting'' else ''Start presenting''),
          bv_subtext = (if noPermissions \<and> \<not> wp_global p then ac_tooltipSubtext cfg else []),
          bv_shortcut = (\<not> noPermissions), bv_unavailable = noPermissions,
          bv_disabled = (shared \<and> \<not> sharing), bv_acts = True\<rparr>)"

text \<open>The first speaker with a profile.\<close>

definition speaking_profile :: "widget_props \<Rightarrow> user_profile option" where
  "speaking_profile p =
     Option.bind
       (find (\<lambda>s. truthy_bool (us_voice s) \<and> Option.bind (us_user_id s) (obj_get (wp_profiles p)) \<noteq> None)
          (wp_sessions p))
       (\<lambda>s. Option.bind (us_user_id s) (obj_get (wp_profiles p)))"

definition renderSpeaking :: "widget_props \<Rightarrow> string" where
  "renderSpeaking p =
     (case speaking_profile p of None \<Rightarrow> ''No one'' | Some u \<Rightarrow> getUserDisplayName (Some u) False)"

definition current_device :: "device_type \<Rightarrow> widget \<Rightarrow> device option" where
  "current_device ty w = (case ty of
       AudioInput \<Rightarrow> cw_currentAudioInputDevice w
     | AudioOutput \<Rightarrow> cw_currentAudioOutputDevice w
     | VideoInput \<Rightarrow> cw_currentVideoInputDevice w)"

definition submenu_open :: "device_type \<Rightarrow> widget \<Rightarrow> bool" where
  "submenu_open ty w = (case ty of
       AudioInput \<Rightarrow> cw_showAudioInputDevicesMenu w
     | AudioOutput \<Rightarrow> cw_showAudioOutputDevicesMenu w
     | VideoInput \<Rightarrow> cw_showVideoInputDevicesMenu w)"

definition makeDeviceLabel :: "device \<Rightarrow> string" where
  "makeDeviceLabel d =
     (if startsWith (dv_deviceId d) ''default'' \<and> \<not> startsWith (dv_label d) ''Default''
      then ''Default - '' @ dv_label d else dv_label d)"

text \<open>A device in a submenu: its label, is it highlighted, is it ticked.\<close>

definition renderDevicesList :: "device_type \<Rightarrow> device list \<Rightarrow> widget \<Rightarrow> (string \<times> bool \<times> bool) list option" where
  "renderDevicesList ty devs w =
     (if \<not> submenu_open ty w then None
      else
        let cur = current_device ty w
        in Some (map (\<lambda>d. (makeDeviceLabel d,
                           Some (dv_deviceId d) = map_option dv_deviceId cur \<or>
                             Some (dv_label d) = map_option dv_label cur,
                           Some (dv_deviceId d) = map_option dv_deviceId cur)) devs))"

record devices_view =
  vd_title :: string
  vd_label :: string
  vd_disabled :: bool
  vd_expanded :: bool
  vd_list :: "(string \<times> bool \<times> bool) list option"

definition listed_devices :: "device_type \<Rightarrow> widget \<Rightarrow> device list" where
  "listed_devices ty w =
     (let named = filter (\<lambda>d. dv_deviceId d \<noteq> [] \<and> dv_label d \<noteq> []);
          (ins, outs) = (case cw_devices w of None \<Rightarrow> ([], []) | Some d \<Rightarrow> d)
      in case ty of
           AudioInput \<Rightarrow> named ins
         | AudioOutput \<Rightarrow> named outs
         | VideoInput \<Rightarrow> (case cw_videoDevices w of None \<Rightarrow> named outs | Some vs \<Rightarrow> named vs))"

definition renderDevices :: "device_type \<Rightarrow> env \<Rightarrow> widget \<Rightarrow> devices_view option" where
  "renderDevices ty e w =
     (case (ev_client e, cw_devices w) of
        (Some c, Some (ins, outs)) \<Rightarrow>
          if ty = AudioOutput \<and> outs = [] then None
          else
            let noInput = (ty = AudioInput \<and> ins = [] \<or> ty = VideoInput \<and> cw_videoDevices w = Some []);
                noPermission = (ty = AudioInput \<and> alert_active w MissingAudioInputPermissions \<or>
                                ty = VideoInput \<and> alert_active w MissingVideoInputPermissions);
                devs = listed_devices ty w
            in Some \<lparr>vd_title = (case ty of AudioInput \<Rightarrow> ''Microphone'' | AudioOutput \<Rightarrow> ''Audio output''
                                  | VideoInput \<Rightarrow> ''Camera''),
                     vd_label = (if noPermission
                                 then ac_tooltipText (CallAlertConfigs (if ty = AudioInput
                                        then MissingAudioInputPermissions else MissingVideoInputPermissions))
                                 else if noInput
                                 then ac_tooltipText (CallAlertConfigs (if ty = AudioInput
                                        then MissingAudioInput else MissingVideoInput))
                                 else str_or (str_of (map_option dv_label (current_device ty w))) ''Default''),
                     vd_disabled = (devs = []),
                     vd_expanded = (submenu_open ty w \<and> devs \<noteq> []),
                     vd_list = (if devs = [] then None else renderDevicesList ty devs w)\<rparr>
      | _ \<Rightarrow> None)"

datatype menu_item =
    MDevices devices_view
  | MDivider
  | MShare string bool bool \<comment> \<open>label, disabled, without permission\<close>
  | MRecord string
  | MChat
  | MSettings

definition renderRecordingMenuItem :: "widget_props \<Rightarrow> menu_item" where
  "renderRecordingMenuItem p = MRecord (if wp_isRecording p then ''Stop recording'' else ''Record call'')"

definition renderScreenSharingMenuItem :: "widget_props \<Rightarrow> widget \<Rightarrow> menu_item" where
  "renderScreenSharingMenuItem p w =
     MShare (if is_sharing p then ''Stop presenting'' else ''Start presenting'')
       (str_of (Option.bind (wp_screenSharingSession p) us_session_id) \<noteq> [] \<and> \<not> is_sharing p)
       (alert_active w MissingScreenPermissions)"

definition renderChatThreadMenuItem :: "widget_window \<Rightarrow> widget_props \<Rightarrow> menu_item list" where
  "renderChatThreadMenuItem h p =
     (if wp_global p \<and> \<not> ww_has h ''openThreadForCalls'' then [] else [MChat])"

definition renderAdditionalSettingsMenuItem :: "widget_window \<Rightarrow> widget_props \<Rightarrow> menu_item list" where
  "renderAdditionalSettingsMenuItem h p =
     (if wp_global p \<and> \<not> ww_has h ''openCallsUserSettings'' then []
      else if \<not> wp_global p \<and> \<not> ww_openUserSettings h then [] else [MSettings])"

definition renderMenu :: "widget_window \<Rightarrow> widget_props \<Rightarrow> ww \<Rightarrow> menu_item list option" where
  "renderMenu h p = (\<lambda>(w, e).
     if \<not> cw_showMenu w then None
     else
       let isHost = (wp_callHostID p = wp_currentUserID p);
           share = (wp_allowScreenSharing p \<and> \<not> wp_wider p);
           devices = (\<lambda>ty. case renderDevices ty e w of None \<Rightarrow> [] | Some v \<Rightarrow> [MDevices v])
       in Some (devices AudioOutput @ devices AudioInput @
                (if wp_enableVideo p then devices VideoInput else []) @ [MDivider] @
                (if share then [renderScreenSharingMenuItem p w, MDivider] else []) @
                (if wp_recordingsEnabled p \<and> isHost then [renderRecordingMenuItem p] else []) @
                renderChatThreadMenuItem h p @ renderAdditionalSettingsMenuItem h p))"

text \<open>The banner about the recording, in the terms of the expanded view's prompt.\<close>

definition renderRecordingDisclaimer :: "widget_props \<Rightarrow> prompt" where
  "renderRecordingDisclaimer p =
     (let rec = wp_callRecording p; isHost = (wp_callHostID p = wp_currentUserID p);
          start = Option.bind rec jb_start_at; end' = Option.bind rec jb_end_at;
          err = str_of (Option.bind rec jb_err);
          dismissedAt = int_or (Option.bind rec jb_prompt_dismissed_at) 0;
          ended = (int_or end' 0 > int_or start 0); hca = wp_callHostChangeAt p;
          shouldShowError = (truthy_int (Option.bind rec jb_error_at) \<and>
                             num_gt (Option.bind rec jb_error_at) (Some dismissedAt))
      in if \<not> truthy_int start \<and> err = [] then NoPrompt
         else if ended \<and> \<not> isHost then NoPrompt
         else if \<not> ended \<and> num_gt (Some dismissedAt) start \<and> dismissedAt > hca \<and> \<not> shouldShowError then NoPrompt
         else if ended \<and> num_gt (Some dismissedAt) end' \<and> \<not> shouldShowError then NoPrompt
         else if num_gt (Some dismissedAt) start \<and> hca > dismissedAt \<and> \<not> isHost \<and> \<not> shouldShowError then NoPrompt
         else if isHost \<and> ended \<and> num_gt (Some hca) end' \<and> \<not> shouldShowError then NoPrompt
         else Banner
                (if err \<noteq> [] then TError err
                 else if ended then TStopped (wp_transcriptionsEnabled p)
                 else TRecording isHost (wp_transcriptionsEnabled p))
                (if isHost then BDismiss else if ended then BNone else BUnderstood)
                (if isHost then BNone else BLeaveCall))"

text \<open>The badge: none, or with a spinner while the recording has not started.\<close>

definition renderRecordingBadge :: "bool \<Rightarrow> job_state option \<Rightarrow> bool option" where
  "renderRecordingBadge isHost rec =
     (let started = truthy_int (Option.bind rec jb_start_at)
      in if \<not> truthy_int (Option.bind rec jb_init_at) \<or> truthy_int (Option.bind rec jb_end_at) then None
         else if \<not> isHost \<and> \<not> started then None
         else if str_of (Option.bind rec jb_err) \<noteq> [] then None
         else Some (\<not> started))"

definition renderAlertBanners :: "widget \<Rightarrow> (alert_id \<times> alert_config \<times> string option) list" where
  "renderAlertBanners w =
     (let a = as_alerts (cw_alerts w)
      in map (\<lambda>i. (i, CallAlertConfigs i, al_deviceLabel (a i))) (shown_alerts a))"

record notification_view =
  vn_join :: "bool option" \<comment> \<open>the note on joining, and is the user muted\<close>
  vn_notices :: bool
  vn_joined :: "string list" \<comment> \<open>names\<close>

definition renderNotificationBar :: "widget_props \<Rightarrow> notification_view option" where
  "renderNotificationBar p =
     (if wp_currentUserID p = [] then None
      else Some \<lparr>vn_join = (if wp_clientConnecting p then None else Some (isMuted p)),
                 vn_notices = (wp_hostNotices p \<noteq> []),
                 vn_joined = concat (map (\<lambda>u.
                   if u = wp_currentUserID p then []
                   else (case obj_get (wp_profiles p) u of
                           None \<Rightarrow> [] | Some pr \<Rightarrow> [getUserDisplayName (Some pr) False]))
                   (wp_recentlyJoinedUsers p))\<rparr>)"

text \<open>A picture of a direct call: whose, its stream, and the states shown on it.\<close>

record profile_view =
  vp_stream :: "string option"
  vp_profile :: user_profile
  vp_speaking :: bool
  vp_muted :: bool
  vp_video :: bool
  vp_videoView :: bool
  vp_mirror :: bool
  vp_single :: bool

definition renderProfiles :: "bool \<Rightarrow> widget_props \<Rightarrow> widget \<Rightarrow> profile_view list" where
  "renderProfiles mirror p w =
     (let other = (case wp_otherSessions p of [] \<Rightarrow> None | s # _ \<Rightarrow> Some s);
          self = wp_currentSession p;
          video = (\<lambda>s. truthy_bool (Option.bind s us_video));
          view = (\<lambda>stream pr s mir single. \<lparr>vp_stream = stream, vp_profile = pr,
                    vp_speaking = truthy_bool (us_voice s), vp_muted = (\<not> truthy_bool (us_unmuted s)),
                    vp_video = truthy_bool (us_video s), vp_videoView = (video other \<or> video self),
                    vp_mirror = mir, vp_single = single\<rparr>)
      in (case (wp_connectedDMUser p, other) of
            (Some pr, Some s) \<Rightarrow> [view (cw_otherVideoStream w) pr s False False] | _ \<Rightarrow> []) @
         (case (obj_get (wp_profiles p) (wp_currentUserID p), self) of
            (Some pr, Some s) \<Rightarrow> [view (cw_selfVideoStream w) pr s mirror (wp_otherSessions p = [])]
          | _ \<Rightarrow> []))"

section \<open>The whole widget\<close>

datatype leave_button = LeaveButton | LeaveMenu bool \<comment> \<open>a menu, with ending the call for everyone\<close>

definition leave_button :: "bool \<Rightarrow> bool \<Rightarrow> bool \<Rightarrow> nat \<Rightarrow> leave_button" where
  "leave_button dm isHost isAdmin n =
     (if dm \<or> \<not> isHost \<and> \<not> isAdmin \<or> n \<le> 1 then LeaveButton
      else LeaveMenu ((isHost \<or> isAdmin) \<and> n > 1))"

definition mute_button :: "bool \<Rightarrow> alerts \<Rightarrow> button_view" where
  "mute_button muted a =
     (let noDevices = al_active (a MissingAudioInput);
          noPermissions = al_active (a MissingAudioInputPermissions);
          cfg = (\<lambda>i. CallAlertConfigs i)
      in \<lparr>bv_text = (if noPermissions then ac_tooltipText (cfg MissingAudioInputPermissions)
                     else if noDevices then ac_tooltipText (cfg MissingAudioInput)
                     else if muted then ''Unmute'' else ''Mute''),
          bv_subtext = (if noPermissions then ac_tooltipSubtext (cfg MissingAudioInputPermissions)
                        else if noDevices then ac_tooltipSubtext (cfg MissingAudioInput) else []),
          bv_shortcut = (\<not> noDevices \<and> \<not> noPermissions), bv_unavailable = (noDevices \<or> noPermissions),
          bv_disabled = False, bv_acts = (\<not> noDevices)\<rparr>)"

definition video_button :: "bool \<Rightarrow> alerts \<Rightarrow> button_view" where
  "video_button on a =
     (let noDevices = al_active (a MissingVideoInput);
          noPermissions = al_active (a MissingVideoInputPermissions)
      in \<lparr>bv_text = (if noPermissions then ac_tooltipText (CallAlertConfigs MissingVideoInputPermissions)
                     else if noDevices then ac_tooltipText (CallAlertConfigs MissingVideoInput)
                     else if on then ''Turn camera off'' else ''Turn camera on''),
          bv_subtext = (if noPermissions then ac_tooltipSubtext (CallAlertConfigs MissingVideoInputPermissions)
                        else if noDevices then ac_tooltipSubtext (CallAlertConfigs MissingVideoInput) else []),
          bv_shortcut = False, bv_unavailable = (noDevices \<or> noPermissions),
          bv_disabled = False, bv_acts = (\<not> noDevices)\<rparr>)"

record widget_view =
  vw_joining :: "bool option" \<comment> \<open>the overlay while connecting: is a call joined, not started\<close>
  vw_leaveShim :: bool
  vw_incoming :: "string list"
  vw_notifications :: "notification_view option"
  vw_alerts :: "alert_id list"
  vw_recording :: prompt
  vw_removeConfirmation :: "user_profile option option"
  vw_screen :: "(bool \<times> string) option"
  vw_participants :: bool
  vw_menu :: "menu_item list option"
  vw_speaking :: "string option"
  vw_badge :: "bool option"
  vw_profiles :: "profile_view list option"
  vw_count :: nat
  vw_mute :: button_view
  vw_video :: "button_view option"
  vw_hand :: "string option"
  vw_share :: "button_view option"
  vw_leave :: leave_button

definition render_widget :: "widget_window \<Rightarrow> bool \<Rightarrow> widget_props \<Rightarrow> ww \<Rightarrow> widget_view option" where
  "render_widget h mirror p = (\<lambda>(w, e).
     if wp_channel p = None \<or> ev_client e = None \<or> \<not> wp_show p then None
     else
       let isHost = (wp_callHostID p = wp_currentUserID p); dm = isDMChannel (wp_channel p);
           a = as_alerts (cw_alerts w)
       in Some \<lparr>
         vw_joining = (if wp_clientConnecting p
                       then Some (if wp_global p then \<not> wp_startingCall p else wp_sessions p \<noteq> []) else None),
         vw_leaveShim = (\<not> (cw_showMenu w \<or> cw_showParticipantsList w \<or> wp_screenSharingSession p \<noteq> None) \<and>
                         cw_leaveMenuOpen w),
         vw_incoming = map ic_callID (wp_callsIncoming p),
         vw_notifications = renderNotificationBar p,
         vw_alerts = map fst (renderAlertBanners w),
         vw_recording = renderRecordingDisclaimer p,
         vw_removeConfirmation = (case cw_removeConfirmation w of
             None \<Rightarrow> None
           | Some (sid, uid) \<Rightarrow>
               if obj_get (wp_sessionsMap p) sid = None then None
               else Some (obj_get (wp_profiles p) uid)),
         vw_screen = (if wp_allowScreenSharing p then renderScreenSharingPanel p else None),
         vw_participants = cw_showParticipantsList w,
         vw_menu = renderMenu h p (w, e),
         vw_speaking = (if wp_enableVideo p then None else Some (renderSpeaking p)),
         vw_badge = (if wp_enableVideo p then None else renderRecordingBadge isHost (wp_callRecording p)),
         vw_profiles = (if wp_enableVideo p then Some (renderProfiles mirror p w) else None),
         vw_count = length (wp_sessions p),
         vw_mute = mute_button (isMuted p) a,
         vw_video = (if wp_enableVideo p then Some (video_button (isVideoOn p) a) else None),
         vw_hand = (if dm then None else Some (if isHandRaised p then ''Lower hand'' else ''Raise hand'')),
         vw_share = (if wp_allowScreenSharing p \<and> (wp_wider p \<or> dm)
                     then Some (renderScreenShareButton p w) else None),
         vw_leave = leave_button dm isHost (wp_isAdmin p) (length (wp_sessions p))\<rparr>)"

section \<open>Dragging\<close>

definition onMouseDown :: "int \<Rightarrow> int \<Rightarrow> widget \<Rightarrow> widget" where
  "onMouseDown cx cy w =
     (let d = cw_dragging w
      in w\<lparr>cw_dragging := d\<lparr>dr_dragging := True, dr_initX := cx - dr_offX d, dr_initY := cy - dr_offY d\<rparr>\<rparr>)"

definition onMouseUp :: "widget \<Rightarrow> widget" where
  "onMouseUp w =
     (let d = cw_dragging w
      in w\<lparr>cw_dragging := d\<lparr>dr_dragging := False, dr_initX := dr_x d, dr_initY := dr_y d\<rparr>\<rparr>)"

text \<open>
  One axis of \<open>onMouseMove\<close>: \<open>low\<close> and \<open>high\<close> are the widget's edges on the page, \<open>extent\<close> is the
  page's, \<open>cur\<close> and \<open>new\<close> are the translation as it is and as the mouse wants it.
\<close>

definition clamp_axis :: "int \<Rightarrow> int \<Rightarrow> int \<Rightarrow> int \<Rightarrow> int \<Rightarrow> int" where
  "clamp_axis extent low high cur new =
     (let maxDiff = extent - \<bar>extent - low\<bar>; diff = \<bar>cur - new\<bar>
      in if diff > maxDiff \<and> new < cur then cur - maxDiff
         else if high + diff > extent \<and> new > cur then cur + (extent - high)
         else new)"

text \<open>The rectangle of an element that is moved by its translation from where it is laid out.\<close>

record layout =
  ly_bodyWidth :: int
  ly_bodyHeight :: int
  ly_x :: int
  ly_y :: int
  ly_width :: int
  ly_height :: int

definition onMouseMove :: "layout \<Rightarrow> int \<Rightarrow> int \<Rightarrow> widget \<Rightarrow> widget" where
  "onMouseMove l cx cy w =
     (let d = cw_dragging w
      in if \<not> dr_dragging d then w
         else
           let left = ly_x l + dr_x d; top = ly_y l + dr_y d;
               y = clamp_axis (ly_bodyHeight l) top (top + ly_height l) (dr_y d) (cy - dr_initY d);
               x = clamp_axis (ly_bodyWidth l) left (left + ly_width l) (dr_x d) (cx - dr_initX d)
           in w\<lparr>cw_dragging := d\<lparr>dr_x := x, dr_y := y, dr_offX := x, dr_offY := y\<rparr>\<rparr>)"

end
