(* ===== verification/WidgetSteps.thy ===== *)
theory WidgetSteps imports WidgetView begin

text \<open>
  The life of a call widget: everything that can happen to it as one step function, and what holds
  over all runs of it.
\<close>

section \<open>Steps\<close>

text \<open>
  What can happen to a widget with its environment. \<open>WClient\<close> is an event of the client; the steps
  that wait come in two.\<close>

datatype wstep =
    WClient client_event "(stream \<times> string) option"
  | WMounted
  | WMos bool
  | WCloseAlert alert_id
  | WDesktop bool desktop_message
  | WKey key_event "(stream \<times> string) option"
  | WShareClick
  | WShareAnswer "(string \<times> string \<times> string option) option"
  | WMissing bool \<comment> \<open>from the expanded view\<close>
  | WMute "(stream \<times> string) option"
  | WVideo
  | WVideoAnswer "string option \<Rightarrow> (stream \<times> string) option" blur
  | WDisconnect
  | WMenu
  | WParticipants
  | WHand
  | WEscape string
  | WBlur bool
  | WLeaveMenu bool
  | WDismissRecordingPrompt
  | WRecord
  | WChat
  | WSettings
  | WInput device
  | WOutput device
  | WCamera device
  | WDevices device_type
  | WRemove string string
  | WRemoveConfirm
  | WRemoveCancel
  | WExpand
  | WUnload
  | WMouseDown int int
  | WMouseUp
  | WMouseMove layout int int

fun widget_do :: "widget_window \<Rightarrow> widget_props \<Rightarrow> int \<Rightarrow> wstep \<Rightarrow> ww \<Rightarrow> ww" where
  "widget_do h p now (WClient ev mic) st = widget_on h p mic ev st"
| "widget_do h p now WMounted st = widget_mounted st"
| "widget_do h p now (WMos low) (w, e) = (widget_mos low w, e)"
| "widget_do h p now (WCloseAlert i) (w, e) =
     (if i \<in> fst ` set (renderAlertBanners w) then widget_close_alert now i w else w, e)"
| "widget_do h p now (WDesktop origin m) st = handleDesktopEvents origin m st"
| "widget_do h p now (WKey ev mic) st = fst (handleKBShortcuts h mic p ev st)"
| "widget_do h p now WShareClick st = fst (onShareScreenToggle h p st)"
| "widget_do h p now (WShareAnswer a) st = share_toggled a st"
| "widget_do h p now (WMissing b) st = widget_setMissingScreenPermissions b False st"
| "widget_do h p now (WMute mic) st = onMuteToggle mic p st"
| "widget_do h p now WVideo st = fst (onVideoToggle p st)"
| "widget_do h p now (WVideoAnswer cam b) st = video_toggled cam b st"
| "widget_do h p now WDisconnect st = onDisconnectClick st"
| "widget_do h p now WMenu (w, e) = (onMenuClick w, e)"
| "widget_do h p now WParticipants (w, e) = (onParticipantsButtonClick w, e)"
| "widget_do h p now WHand st = onRaiseHandToggle p st"
| "widget_do h p now (WEscape k) (w, e) = (keyboardClose k w, e)"
| "widget_do h p now (WBlur b) (w, e) = (closeOnBlur b w, e)"
| "widget_do h p now (WLeaveMenu b) (w, e) = (onLeaveMenuOpen b w, e)"
| "widget_do h p now WDismissRecordingPrompt st = dismissRecordingPrompt p st"
| "widget_do h p now WRecord st = onRecordToggle h p st"
| "widget_do h p now WChat st = onChatThreadButtonClick h p st"
| "widget_do h p now WSettings st = onCallsSettingsButtonClick h p st"
| "widget_do h p now (WInput d) st = fst (onAudioInputDeviceClick d st)"
| "widget_do h p now (WOutput d) st = onAudioOutputDeviceClick d st"
| "widget_do h p now (WCamera d) st = fst (onVideoInputDeviceClick d st)"
| "widget_do h p now (WDevices ty) (w, e) = (onDevicesClick ty w, e)"
| "widget_do h p now (WRemove s u) (w, e) = (onRemove s u w, e)"
| "widget_do h p now WRemoveConfirm st = onRemoveConfirm p st"
| "widget_do h p now WRemoveCancel (w, e) = (onRemoveCancel w, e)"
| "widget_do h p now WExpand st = onExpandClick h p st"
| "widget_do h p now WUnload st = popout_unload st"
| "widget_do h p now (WMouseDown x y) (w, e) = (onMouseDown x y w, e)"
| "widget_do h p now WMouseUp (w, e) = (onMouseUp w, e)"
| "widget_do h p now (WMouseMove l x y) (w, e) = (onMouseMove l x y w, e)"

text \<open>A step at a time, after the timers that are due.\<close>

definition widget_step :: "widget_window \<Rightarrow> widget_props \<Rightarrow> int \<Rightarrow> wstep \<Rightarrow> ww \<Rightarrow> ww" where
  "widget_step h p now a st =
     widget_do h p now a ((fst st)\<lparr>cw_alerts := run_timers now (cw_alerts (fst st))\<rparr>, snd st)"

section \<open>What a step does to the alerts\<close>

fun event_alerts :: "widget_props \<Rightarrow> client_event \<Rightarrow> env \<Rightarrow> alerts \<Rightarrow> alerts" where
  "event_alerts p CDeviceChange e = (case ev_client e of
       None \<Rightarrow> id | Some c \<Rightarrow> device_alerts (wp_enableVideo p) c)"
| "event_alerts p (CDeviceFallback input d) e = fallback_alert input d"
| "event_alerts p (CError err) e =
     (if err = MediaErr ''missing audio input permissions'' then put_alert MissingAudioInputPermissions True None
      else if err = MediaErr ''missing video input permissions''
      then put_alert MissingVideoInputPermissions True None else id)"
| "event_alerts p CInitAudio e = put_alert MissingAudioInputPermissions False None"
| "event_alerts p CInitVideo e = put_alert MissingVideoInputPermissions False None"
| "event_alerts p _ e = id"

fun desktop_alerts :: "bool \<Rightarrow> desktop_message \<Rightarrow> alerts \<Rightarrow> alerts" where
  "desktop_alerts origin (MsgError err) =
     (if origin \<and> err = ''screen-permissions'' then spread_alert MissingScreenPermissions True else id)"
| "desktop_alerts origin (MsgShare a) =
     (if origin then spread_alert MissingScreenPermissions (a = None) else id)"

fun widget_what :: "widget_props \<Rightarrow> wstep \<Rightarrow> ww \<Rightarrow> alert_step" where
  "widget_what p (WClient ev mic) st = AOther (event_alerts p ev (snd st))"
| "widget_what p (WMos low) st = AMos low"
| "widget_what p (WCloseAlert i) st = AClose i"
| "widget_what p (WDesktop origin m) st = AOther (desktop_alerts origin m)"
| "widget_what p (WShareAnswer a) st = AOther (spread_alert MissingScreenPermissions (a = None))"
| "widget_what p (WMissing b) st = AOther (spread_alert MissingScreenPermissions b)"
| "widget_what p _ st = AOther id"

lemma upd_alerts_id [simp]: "upd_alerts id s = s" "upd_alerts (\<lambda>a. a) s = s"
  by (simp_all add: upd_alerts_def)

lemma with_alerts_view [simp]: "cw_alerts (with_alerts f w) = upd_alerts f (cw_alerts w)"
  by (simp add: with_alerts_def)

lemma missing_view [simp]:
  "cw_alerts (fst (widget_setMissingScreenPermissions b fwd st)) =
     upd_alerts (spread_alert MissingScreenPermissions b) (cw_alerts (fst st))"
  by (cases st) (simp add: widget_setMissingScreenPermissions_def popout_call_def Let_def)

lemma share_view [simp]:
  "cw_alerts (fst (widget_shareScreen a st)) =
     upd_alerts (spread_alert MissingScreenPermissions (a = None)) (cw_alerts (fst st))"
  by (cases st; cases a) (auto simp: widget_shareScreen_def)

lemma toggled_view [simp]: "cw_alerts (fst (share_toggled a st)) = cw_alerts (fst (widget_shareScreen a st))"
  by (cases "widget_shareScreen a st") (simp add: share_toggled_def)

lemma widget_on_view:
  "cw_alerts (fst (widget_on h p mic ev st)) = upd_alerts (event_alerts p ev (snd st)) (cw_alerts (fst st))"
  by (cases st; cases ev) (auto simp: attachVoiceTracks_def take_devices_def Let_def split: option.splits)

lemma device_click_view [simp]:
  "cw_alerts (fst (fst (onAudioInputDeviceClick d st))) = cw_alerts (fst st)"
  "cw_alerts (fst (onAudioOutputDeviceClick d st)) = cw_alerts (fst st)"
  "cw_alerts (fst (fst (onVideoInputDeviceClick d st))) = cw_alerts (fst st)"
  by (cases st; simp add: onAudioInputDeviceClick_def onAudioOutputDeviceClick_def
      onVideoInputDeviceClick_def Let_def)+

lemma click_view [simp]:
  "cw_alerts (fst (onMuteToggle mic p st)) = cw_alerts (fst st)"
  "cw_alerts (fst (onRaiseHandToggle p st)) = cw_alerts (fst st)"
  "cw_alerts (fst (onDisconnectClick st)) = cw_alerts (fst st)"
  "cw_alerts (fst (fst (onShareScreenToggle h p st))) = cw_alerts (fst st)"
  "cw_alerts (fst (fst (onVideoToggle p st))) = cw_alerts (fst st)"
  "cw_alerts (fst (video_toggled cam b st)) = cw_alerts (fst st)"
  "cw_alerts (fst (dismissRecordingPrompt p st)) = cw_alerts (fst st)"
  "cw_alerts (fst (onRecordToggle h p st)) = cw_alerts (fst st)"
  "cw_alerts (fst (onChatThreadButtonClick h p st)) = cw_alerts (fst st)"
  "cw_alerts (fst (onCallsSettingsButtonClick h p st)) = cw_alerts (fst st)"
  "cw_alerts (fst (onRemoveConfirm p st)) = cw_alerts (fst st)"
  "cw_alerts (fst (onExpandClick h p st)) = cw_alerts (fst st)"
  "cw_alerts (fst (popout_unload st)) = cw_alerts (fst st)"
  "cw_alerts (fst (widget_mounted st)) = cw_alerts (fst st)"
  by (cases st; simp add: onMuteToggle_def onRaiseHandToggle_def onDisconnectClick_def
      onShareScreenToggle_def onVideoToggle_def video_toggled_def dismissRecordingPrompt_def
      onRecordToggle_def onChatThreadButtonClick_def onCallsSettingsButtonClick_def onRemoveConfirm_def
      onExpandClick_def popout_unload_def widget_mounted_def popout_call_def attachVoiceTracks_def Let_def
      split: option.splits)+

lemma key_view [simp]:
  "cw_alerts (fst (fst (handleKBShortcuts h mic p ev st))) = cw_alerts (fst st)"
  by (cases st) (simp add: handleKBShortcuts_def onParticipantsButtonClick_def Let_def)

lemma devices_view [simp]: "cw_alerts (onDevicesClick ty w) = cw_alerts w"
  by (cases ty) simp_all

lemma shown_member: "i \<in> set (shown_alerts a) \<longleftrightarrow> al_show (a i)"
  by (cases i) (auto simp: shown_alerts_def alert_ids_def)

lemma widget_do_view:
  "cw_alerts (fst (widget_do h p now a st)) = alert_do now (widget_what p a st) (cw_alerts (fst st))"
proof (cases st)
  case (Pair w e)
  have "i \<in> fst ` set (renderAlertBanners w) \<longleftrightarrow> al_show (as_alerts (cw_alerts w) i)" for i
    by (force simp: renderAlertBanners_def Let_def shown_member)
  moreover have "cw_alerts (fst (handleDesktopEvents origin m (w, e))) =
      upd_alerts (desktop_alerts origin m) (cw_alerts w)" for origin m
    by (cases m) (auto simp: handleDesktopEvents_def)
  ultimately show ?thesis
    by (cases a) (auto simp: Pair widget_on_view widget_mos_def widget_close_alert_def onMenuClick_def
        onParticipantsButtonClick_def keyboardClose_def closeOnBlur_def onLeaveMenuOpen_def onRemove_def
        onRemoveCancel_def onMouseDown_def onMouseUp_def onMouseMove_def Let_def)
qed

lemma event_alerts_safe: "event_alerts p ev e a DegradedCallQuality = a DegradedCallQuality"
  by (cases ev) (auto simp: device_alerts_def fallback_alert_def spread_alert_def put_alert_def
      split: option.splits)

lemma widget_what_safe: "quality_safe (widget_what p a st)"
proof (cases a)
  case (WDesktop origin m)
  then show ?thesis by (cases m) (auto simp: spread_alert_def)
qed (auto simp: event_alerts_safe spread_alert_def)

lemma widget_what_env [simp]: "widget_what p a (w, snd st) = widget_what p a st"
  by (cases a) simp_all

interpretation wa: alert_view "widget_step h p" "\<lambda>st. cw_alerts (fst st)" "widget_what p" for h p
proof
  fix now a st
  show "cw_alerts (fst (widget_step h p now a st)) =
    alert_do now (widget_what p a st) (run_timers now (cw_alerts (fst st)))"
    unfolding widget_step_def widget_do_view by simp
  show "quality_safe (widget_what p a st)" by (rule widget_what_safe)
qed

fun widget_run :: "widget_window \<Rightarrow> widget_props \<Rightarrow> (int \<times> wstep) list \<Rightarrow> ww \<Rightarrow> ww" where
  "widget_run h p [] st = st"
| "widget_run h p ((now, a) # as) st = widget_run h p as (widget_step h p now a st)"

lemma widget_run_eq: "widget_run h p as st = wa.run h p as st"
proof (induction as arbitrary: st)
  case Nil
  then show ?case by (simp only: widget_run.simps wa.run.simps)
next
  case (Cons x as)
  then show ?case by (cases x) (simp only: widget_run.simps wa.run.simps)
qed

lemma widget_locks: "lock_ok (cw_alerts (fst (widget_run h p as (init_widget, e))))"
  by (simp add: widget_run_eq wa.lock_invariant init_widget_def lock_ok_init)

text \<open>
  C32. A warning about the call's quality that the user closes stays away for twenty seconds: whatever
  happened to the widget before and whatever happens in that time, bad scores included, it is not
  shown.\<close>
theorem closed_warning_stays_away:
  assumes "st = widget_run h p as (init_widget, e)" and "quality_shown (cw_alerts (fst st))"
    and "\<forall>(t, a)\<in>set bs. t < now + DEGRADED_CALL_QUALITY_ALERT_WAIT"
  shows "DegradedCallQuality \<notin> fst ` set (renderAlertBanners
    (fst (widget_run h p ((now, WCloseAlert DegradedCallQuality) # bs) st)))"
proof -
  let ?s = "widget_run h p ((now, WCloseAlert DegradedCallQuality) # bs) st"
  have "lock_ok (cw_alerts (fst st))" by (simp add: assms(1) widget_locks)
  from wa.closed_stays_hidden [OF this assms(2) _ assms(3), of p "WCloseAlert DegradedCallQuality" h]
  have "\<not> quality_shown (cw_alerts (fst ?s))" by (simp add: widget_run_eq)
  then show ?thesis by (force simp: renderAlertBanners_def Let_def shown_member quality_shown_def)
qed


definition sample_layout :: layout where
  "sample_layout = \<lparr>ly_bodyWidth = 1000, ly_bodyHeight = 800, ly_x = 12, ly_y = 700,
     ly_width = 280, ly_height = 90\<rparr>"

definition plain_window :: widget_window where
  "plain_window = \<lparr>ww_has = (\<lambda>f. False), ww_desktop = False, ww_desktop_5_1 = False,
     ww_shareAudio = False, ww_mac = False, ww_openUserSettings = True,
     ww_popoutURL = (\<lambda>t c. chn_id c)\<rparr>"

definition sample_props :: widget_props where
  "sample_props = widgetProps (\<lambda>a b. 0) 1 False False (getState sample_env)"

lemma closed_warning_stays_away_witness:
  "DegradedCallQuality \<notin> fst ` set (renderAlertBanners (fst (widget_run plain_window sample_props
     [(5, WCloseAlert DegradedCallQuality), (6, WMos True), (7, WMos False), (20004, WMos True)]
     (widget_run plain_window sample_props [(0, WMos True)] (init_widget, sample_env)))))"
  by (rule closed_warning_stays_away [OF refl])
    (simp_all add: widget_step_def widget_mos_def on_mos_def run_timers_def init_widget_def
      init_alerts_def CallAlertStatesDefault_def put_alert_def quality_shown_def upd_alerts_def
      DEGRADED_CALL_QUALITY_ALERT_WAIT_def Let_def)

section \<open>Menus\<close>

text \<open>
  The menu and the list of participants exclude each other, and of the submenus of devices at most
  one is open.\<close>

definition menus_ok :: "widget \<Rightarrow> bool" where
  "menus_ok w \<longleftrightarrow> \<not> (cw_showMenu w \<and> cw_showParticipantsList w) \<and>
     \<not> (submenu_open AudioInput w \<and> submenu_open AudioOutput w) \<and>
     \<not> (submenu_open AudioInput w \<and> submenu_open VideoInput w) \<and>
     \<not> (submenu_open AudioOutput w \<and> submenu_open VideoInput w)"

text \<open>The five flags, which most steps leave alone.\<close>

definition menu_flags :: "widget \<Rightarrow> bool list" where
  "menu_flags w = [cw_showMenu w, cw_showParticipantsList w, cw_showAudioInputDevicesMenu w,
     cw_showAudioOutputDevicesMenu w, cw_showVideoInputDevicesMenu w]"

lemma menus_ok_flags: "menu_flags w = menu_flags w' \<Longrightarrow> menus_ok w = menus_ok w'"
  by (simp add: menus_ok_def menu_flags_def submenu_open_def)

lemma menus_ok_closed: "menus_ok w \<Longrightarrow> menus_ok (w\<lparr>cw_showMenu := False\<rparr>)"
  by (simp add: menus_ok_def submenu_open_def)

lemma menus_ok_device:
  "menus_ok w \<Longrightarrow> menus_ok (w\<lparr>cw_showAudioInputDevicesMenu := False\<rparr>)"
  "menus_ok w \<Longrightarrow> menus_ok (w\<lparr>cw_showAudioOutputDevicesMenu := False\<rparr>)"
  "menus_ok w \<Longrightarrow> menus_ok (w\<lparr>cw_showVideoInputDevicesMenu := False\<rparr>)"
  by (auto simp: menus_ok_def submenu_open_def split: if_splits)

lemma menus_ok_devices: "menus_ok w \<Longrightarrow> menus_ok (onDevicesClick ty w)"
  by (cases ty) (auto simp: menus_ok_def submenu_open_def)

lemma menu_flags_upd [simp]:
  "menu_flags (cw_alerts_update f w) = menu_flags w"
  "menu_flags (cw_screenStream_update f1 w) = menu_flags w"
  "menu_flags (cw_selfVideoStream_update f1 w) = menu_flags w"
  "menu_flags (cw_otherVideoStream_update f1 w) = menu_flags w"
  "menu_flags (cw_initializingSelfVideo_update f2 w) = menu_flags w"
  "menu_flags (cw_audioEls_update f3 w) = menu_flags w"
  "menu_flags (cw_currentAudioInputDevice_update f4 w) = menu_flags w"
  "menu_flags (cw_currentAudioOutputDevice_update f4 w) = menu_flags w"
  "menu_flags (cw_currentVideoInputDevice_update f4 w) = menu_flags w"
  "menu_flags (cw_devices_update f5 w) = menu_flags w"
  "menu_flags (cw_videoDevices_update f6 w) = menu_flags w"
  "menu_flags (cw_popout_update f7 w) = menu_flags w"
  "menu_flags (cw_removeConfirmation_update f8 w) = menu_flags w"
  "menu_flags (cw_leaveMenuOpen_update f2 w) = menu_flags w"
  "menu_flags (cw_dragging_update f9 w) = menu_flags w"
  by (simp_all add: menu_flags_def)

lemma menus_ok_upd [simp]:
  "menus_ok (cw_alerts_update f w) = menus_ok w"
  "menus_ok (cw_screenStream_update f1 w) = menus_ok w"
  "menus_ok (cw_selfVideoStream_update f1 w) = menus_ok w"
  "menus_ok (cw_otherVideoStream_update f1 w) = menus_ok w"
  "menus_ok (cw_initializingSelfVideo_update f2 w) = menus_ok w"
  "menus_ok (cw_audioEls_update f3 w) = menus_ok w"
  "menus_ok (cw_currentAudioInputDevice_update f4 w) = menus_ok w"
  "menus_ok (cw_currentAudioOutputDevice_update f4 w) = menus_ok w"
  "menus_ok (cw_currentVideoInputDevice_update f4 w) = menus_ok w"
  "menus_ok (cw_devices_update f5 w) = menus_ok w"
  "menus_ok (cw_videoDevices_update f6 w) = menus_ok w"
  "menus_ok (cw_popout_update f7 w) = menus_ok w"
  "menus_ok (cw_removeConfirmation_update f8 w) = menus_ok w"
  "menus_ok (cw_leaveMenuOpen_update f2 w) = menus_ok w"
  "menus_ok (cw_dragging_update f9 w) = menus_ok w"
  by (simp_all add: menus_ok_flags [OF menu_flags_upd(1)] menus_ok_def submenu_open_def)

lemma menus_ok_share: "menus_ok (fst st) \<Longrightarrow> menus_ok (fst (widget_shareScreen a st))"
  by (cases st; cases a)
    (auto simp: widget_shareScreen_def widget_setMissingScreenPermissions_def with_alerts_def
      popout_call_def Let_def)

lemma menus_ok_toggled: "menus_ok (fst st) \<Longrightarrow> menus_ok (fst (share_toggled a st))"
  using menus_ok_share [of st a]
  by (cases "widget_shareScreen a st") (simp add: share_toggled_def menus_ok_closed)

lemma menus_ok_on: "menus_ok (fst st) \<Longrightarrow> menus_ok (fst (widget_on h p mic ev st))"
  by (cases st; cases ev)
    (auto simp: with_alerts_def attachVoiceTracks_def take_devices_def Let_def split: option.splits)

lemma menus_ok_participants: "menus_ok w \<Longrightarrow> menus_ok (onParticipantsButtonClick w)"
  by (simp add: onParticipantsButtonClick_def menus_ok_def submenu_open_def)

lemma menus_ok_keys: "menus_ok (fst st) \<Longrightarrow> menus_ok (fst (fst (handleKBShortcuts h mic p ev st)))"
  by (cases st) (simp add: handleKBShortcuts_def onMuteToggle_def onRaiseHandToggle_def
      onShareScreenToggle_def onDisconnectClick_def menus_ok_participants menus_ok_closed Let_def
      split: option.splits)

lemma menus_ok_clicks:
  assumes "menus_ok (fst st)"
  shows "menus_ok (fst (onMuteToggle mic p st))" "menus_ok (fst (onRaiseHandToggle p st))"
    "menus_ok (fst (onDisconnectClick st))" "menus_ok (fst (fst (onShareScreenToggle h p st)))"
    "menus_ok (fst (fst (onVideoToggle p st)))" "menus_ok (fst (video_toggled cam b st))"
    "menus_ok (fst (dismissRecordingPrompt p st))" "menus_ok (fst (onRecordToggle h p st))"
    "menus_ok (fst (onChatThreadButtonClick h p st))" "menus_ok (fst (onCallsSettingsButtonClick h p st))"
    "menus_ok (fst (onRemoveConfirm p st))" "menus_ok (fst (onExpandClick h p st))"
    "menus_ok (fst (popout_unload st))" "menus_ok (fst (widget_mounted st))"
    "menus_ok (fst (widget_setMissingScreenPermissions m fwd st))"
    "menus_ok (fst (fst (onAudioInputDeviceClick d st)))" "menus_ok (fst (onAudioOutputDeviceClick d st))"
    "menus_ok (fst (fst (onVideoInputDeviceClick d st)))"
  using assms
  by (cases st; simp add: onMuteToggle_def onRaiseHandToggle_def onDisconnectClick_def
      onShareScreenToggle_def onVideoToggle_def video_toggled_def dismissRecordingPrompt_def
      onRecordToggle_def onChatThreadButtonClick_def onCallsSettingsButtonClick_def onRemoveConfirm_def
      onExpandClick_def popout_unload_def widget_mounted_def popout_call_def attachVoiceTracks_def
      widget_setMissingScreenPermissions_def with_alerts_def onAudioInputDeviceClick_def
      onAudioOutputDeviceClick_def onVideoInputDeviceClick_def menus_ok_closed menus_ok_device Let_def
      split: option.splits)+

lemma menus_ok_do: "menus_ok (fst st) \<Longrightarrow> menus_ok (fst (widget_do h p now a st))"
proof (cases st)
  case (Pair w e)
  assume "menus_ok (fst st)"
  moreover have "menus_ok (fst (handleDesktopEvents origin m st))" if "menus_ok (fst st)" for origin m
    using that by (cases m) (auto simp: handleDesktopEvents_def menus_ok_clicks(15) menus_ok_share)
  ultimately show ?thesis
    using menus_ok_on [of st] menus_ok_toggled [of st] menus_ok_keys [of st] menus_ok_clicks [of st]
    by (cases a) (simp_all add: Pair widget_mos_def widget_close_alert_def onMenuClick_def
        menus_ok_participants menus_ok_closed menus_ok_devices keyboardClose_def closeOnBlur_def
        onLeaveMenuOpen_def onRemove_def onRemoveCancel_def onMouseDown_def onMouseUp_def onMouseMove_def
        Let_def, simp add: menus_ok_def submenu_open_def)
qed

text \<open>
  C16. Whatever happens to a widget, its menu and its list of participants are never open together, and
  at most one submenu of devices is.\<close>
theorem menus_exclusive: "menus_ok (fst (widget_run h p as (init_widget, e)))"
proof -
  have "menus_ok (fst st) \<Longrightarrow> menus_ok (fst (widget_run h p as st))" for st
  proof (induction as arbitrary: st)
    case (Cons x as)
    then show ?case by (cases x) (simp add: widget_step_def menus_ok_do)
  qed simp
  then show ?thesis by (simp add: menus_ok_def submenu_open_def init_widget_def)
qed


section \<open>Dragging\<close>

text \<open>Where the widget is drawn lies within the page.\<close>

definition inside_page :: "layout \<Rightarrow> widget \<Rightarrow> bool" where
  "inside_page l w \<longleftrightarrow>
     0 \<le> ly_x l + dr_x (cw_dragging w) \<and> ly_x l + dr_x (cw_dragging w) + ly_width l \<le> ly_bodyWidth l \<and>
     0 \<le> ly_y l + dr_y (cw_dragging w) \<and> ly_y l + dr_y (cw_dragging w) + ly_height l \<le> ly_bodyHeight l"

lemma clamp_axis_inside:
  assumes "0 \<le> at + cur" and "at + cur + sz \<le> extent" and "0 \<le> sz"
  shows "0 \<le> at + clamp_axis extent (at + cur) (at + cur + sz) cur new"
    and "at + clamp_axis extent (at + cur) (at + cur + sz) cur new + sz \<le> extent"
  using assms by (auto simp: clamp_axis_def Let_def)

text \<open>Only moving the mouse moves the widget.\<close>

lemma dragging_upd [simp]:
  "cw_dragging (fst (widget_setMissingScreenPermissions b fwd st)) = cw_dragging (fst st)"
  "cw_dragging (fst (widget_shareScreen a st)) = cw_dragging (fst st)"
  "cw_dragging (fst (share_toggled a st)) = cw_dragging (fst st)"
proof -
  show 1: "cw_dragging (fst (widget_setMissingScreenPermissions b fwd st)) = cw_dragging (fst st)"
    for b fwd st
    by (cases st) (simp add: widget_setMissingScreenPermissions_def with_alerts_def popout_call_def Let_def)
  show 2: "cw_dragging (fst (widget_shareScreen a st)) = cw_dragging (fst st)"
    by (cases st; cases a) (auto simp: widget_shareScreen_def 1)
  show "cw_dragging (fst (share_toggled a st)) = cw_dragging (fst st)"
    using 2 by (cases "widget_shareScreen a st") (simp add: share_toggled_def)
qed

lemma dragging_clicks [simp]:
  "cw_dragging (fst (onMuteToggle mic p st)) = cw_dragging (fst st)"
  "cw_dragging (fst (onRaiseHandToggle p st)) = cw_dragging (fst st)"
  "cw_dragging (fst (onDisconnectClick st)) = cw_dragging (fst st)"
  "cw_dragging (fst (fst (onShareScreenToggle h p st))) = cw_dragging (fst st)"
  "cw_dragging (fst (fst (onVideoToggle p st))) = cw_dragging (fst st)"
  "cw_dragging (fst (video_toggled cam b st)) = cw_dragging (fst st)"
  "cw_dragging (fst (dismissRecordingPrompt p st)) = cw_dragging (fst st)"
  "cw_dragging (fst (onRecordToggle h p st)) = cw_dragging (fst st)"
  "cw_dragging (fst (onChatThreadButtonClick h p st)) = cw_dragging (fst st)"
  "cw_dragging (fst (onCallsSettingsButtonClick h p st)) = cw_dragging (fst st)"
  "cw_dragging (fst (onRemoveConfirm p st)) = cw_dragging (fst st)"
  "cw_dragging (fst (onExpandClick h p st)) = cw_dragging (fst st)"
  "cw_dragging (fst (popout_unload st)) = cw_dragging (fst st)"
  "cw_dragging (fst (widget_mounted st)) = cw_dragging (fst st)"
  "cw_dragging (fst (fst (onAudioInputDeviceClick d st))) = cw_dragging (fst st)"
  "cw_dragging (fst (onAudioOutputDeviceClick d st)) = cw_dragging (fst st)"
  "cw_dragging (fst (fst (onVideoInputDeviceClick d st))) = cw_dragging (fst st)"
  by (cases st; simp add: onMuteToggle_def onRaiseHandToggle_def onDisconnectClick_def
      onShareScreenToggle_def onVideoToggle_def video_toggled_def dismissRecordingPrompt_def
      onRecordToggle_def onChatThreadButtonClick_def onCallsSettingsButtonClick_def onRemoveConfirm_def
      onExpandClick_def popout_unload_def widget_mounted_def popout_call_def attachVoiceTracks_def
      onAudioInputDeviceClick_def onAudioOutputDeviceClick_def onVideoInputDeviceClick_def Let_def
      split: option.splits)+

lemma dragging_on [simp]: "cw_dragging (fst (widget_on h p mic ev st)) = cw_dragging (fst st)"
  by (cases st; cases ev)
    (auto simp: with_alerts_def attachVoiceTracks_def take_devices_def Let_def split: option.splits)

lemma dragging_keys [simp]:
  "cw_dragging (fst (fst (handleKBShortcuts h mic p ev st))) = cw_dragging (fst st)"
  by (cases st) (simp add: handleKBShortcuts_def onParticipantsButtonClick_def Let_def)

lemma dragging_devices [simp]: "cw_dragging (onDevicesClick ty w) = cw_dragging w"
  by (cases ty) simp_all

lemma dragging_desktop [simp]:
  "cw_dragging (fst (handleDesktopEvents origin m st)) = cw_dragging (fst st)"
  by (cases m) (auto simp: handleDesktopEvents_def)

fun moves_on :: "layout \<Rightarrow> wstep \<Rightarrow> bool" where
  "moves_on l (WMouseMove l' x y) \<longleftrightarrow> l' = l"
| "moves_on l _ \<longleftrightarrow> True"

lemma inside_move:
  assumes "inside_page l w" "0 \<le> ly_width l" "0 \<le> ly_height l"
  shows "inside_page l (onMouseMove l x y w)"
  using assms clamp_axis_inside [of "ly_x l" "dr_x (cw_dragging w)" "ly_width l" "ly_bodyWidth l"]
    clamp_axis_inside [of "ly_y l" "dr_y (cw_dragging w)" "ly_height l" "ly_bodyHeight l"]
  by (simp add: onMouseMove_def inside_page_def Let_def)

lemma inside_do:
  assumes "inside_page l (fst st)" "0 \<le> ly_width l" "0 \<le> ly_height l" "moves_on l a"
  shows "inside_page l (fst (widget_do h p now a st))"
proof (cases st)
  case (Pair w e)
  show ?thesis
  proof (cases "\<exists>l' x y. a = WMouseMove l' x y")
    case True
    then show ?thesis using assms by (auto simp: Pair inside_move)
  next
    case False
    then have "dr_x (cw_dragging (fst (widget_do h p now a st))) = dr_x (cw_dragging w) \<and>
      dr_y (cw_dragging (fst (widget_do h p now a st))) = dr_y (cw_dragging w)"
      by (cases a) (simp_all add: Pair widget_mos_def widget_close_alert_def onMenuClick_def
          onParticipantsButtonClick_def keyboardClose_def closeOnBlur_def onLeaveMenuOpen_def onRemove_def
          onRemoveCancel_def onMouseDown_def onMouseUp_def Let_def)
    with assms(1) show ?thesis by (simp add: Pair inside_page_def)
  qed
qed

text \<open>
  C34. A widget that lies within the page cannot be dragged out of it: however the mouse moves, and
  whatever else happens on the way, while the page keeps its size.\<close>
theorem drag_stays_inside:
  assumes "inside_page l (fst st)" "0 \<le> ly_width l" "0 \<le> ly_height l" "\<forall>(t, a)\<in>set as. moves_on l a"
  shows "inside_page l (fst (widget_run h p as st))"
  using assms(1,4)
proof (induction as arbitrary: st)
  case (Cons x as)
  obtain t a where [simp]: "x = (t, a)" by (cases x)
  let ?st = "((fst st)\<lparr>cw_alerts := run_timers t (cw_alerts (fst st))\<rparr>, snd st)"
  have "inside_page l (fst ?st)" using Cons.prems(1) by (simp add: inside_page_def)
  then have "inside_page l (fst (widget_step h p t a st))"
    using assms(2,3) Cons.prems(2) by (simp add: widget_step_def inside_do)
  with Cons show ?case by simp
qed simp

lemma drag_stays_inside_witness:
  "inside_page sample_layout (fst (widget_run plain_window sample_props
     [(1, WMouseDown 40 750), (2, WMouseMove sample_layout 5000 (- 5000)), (3, WMouseUp)]
     (init_widget, sample_env)))"
  by (rule drag_stays_inside) (simp_all add: sample_layout_def inside_page_def init_widget_def)

section \<open>Recordings\<close>

text \<open>
  Between a recording's initialisation and its start, the menu offers to stop it, and choosing that
  asks the server to start one: the label goes by \<open>init_at\<close>, the handler by \<open>start_at\<close>.\<close>
theorem record_toggle_mismatch:
  assumes "p = widgetProps localeCompare n global starting gs"
    and "obj_get (rs_recordings (gs_plugin gs)) (channelIDForCurrentCall gs) = Some j"
    and "jb_init_at j = Some i" "0 < i" "jb_start_at j = Some 0" "jb_end_at j = Some 0"
    and "wp_channel p = Some c"
  shows "renderRecordingMenuItem p = MRecord ''Stop recording'' \<and>
    snd (onRecordToggle h p (w, e)) = startCallRecording (chn_id c) e"
proof -
  have "wp_isRecording p" using assms(1-4,6)
    by (simp add: widgetProps_def isRecordingInCurrentCall_def num_gt_def Let_def)
  moreover have "wp_callRecording p = Some (spread_job (Some j) None)" using assms(1,2)
    by (simp add: widgetProps_def recordingForCurrentCall_def Let_def)
  ultimately show ?thesis using assms(5-7)
    by (simp add: renderRecordingMenuItem_def onRecordToggle_def int_or_def Let_def)
qed

definition starting_job :: job_state where
  "starting_job = empty_job\<lparr>jb_init_at := Some 7, jb_start_at := Some 0, jb_end_at := Some 0\<rparr>"

definition recording_env :: env where
  "recording_env = sample_env\<lparr>
     ev_client := Some ((new_client plain_config 5)\<lparr>cc_channelID := ''dm''\<rparr>),
     ev_plugin := (init_root ''w'')\<lparr>rs_recordings := [(''dm'', starting_job)]\<rparr>\<rparr>"

lemma record_toggle_mismatch_witness:
  "let p = widgetProps (\<lambda>a b. 0) 1 False False (getState recording_env)
   in renderRecordingMenuItem p = MRecord ''Stop recording'' \<and>
      snd (onRecordToggle plain_window p (init_widget, recording_env)) =
        startCallRecording (chn_id (snd (hd (mm_channels sample_mm)))) recording_env"
  unfolding Let_def
proof (rule record_toggle_mismatch [OF refl, where i = 7])
  show "obj_get (rs_recordings (gs_plugin (getState recording_env)))
      (channelIDForCurrentCall (getState recording_env)) = Some starting_job"
    by (simp add: recording_env_def getState_def channelIDForCurrentCall_def
        getCallsClientChannelID_def str_or_def obj_get_def)
  show "wp_channel (widgetProps (\<lambda>a b. 0) 1 False False (getState recording_env)) =
      Some (snd (hd (mm_channels sample_mm)))"
    by (simp add: widgetProps_def recording_env_def getState_def js_key_def sample_env_def
        sample_mm_def obj_get_def Let_def)
qed (simp_all add: starting_job_def)

text \<open>The widget's properties as the prompt of the expanded view has them.\<close>

definition prompt_of :: "int \<Rightarrow> widget_props \<Rightarrow> prompt_props" where
  "prompt_of maxDuration p = \<lparr>pp_isHost = (wp_callHostID p = wp_currentUserID p),
     pp_recording = wp_callRecording p, pp_recordingMaxDuration = maxDuration,
     pp_hostChangeAt = wp_callHostChangeAt p, pp_transcriptionsEnabled = wp_transcriptionsEnabled p\<rparr>"

fun capitalize_text :: "prompt_text \<Rightarrow> prompt_text" where
  "capitalize_text (TError err) = TError (capitalize err)"
| "capitalize_text t = t"

fun capitalize_error :: "prompt \<Rightarrow> prompt" where
  "capitalize_error (Banner t a b) = Banner (capitalize_text t) a b"
| "capitalize_error q = q"

text \<open>
  The two windows of a call agree on the prompt about its recording: the one in the expanded view
  is the widget's, with an error's first letter made large, except that the host is told there that
  the recording will end soon.\<close>
theorem prompts_agree:
  "RecordingInfoPrompt (prompt_of maxDuration p) None soon now =
     (if wp_callHostID p = wp_currentUserID p \<and> \<not> hasRecEnded (prompt_of maxDuration p) \<and>
         soon > int_or (Option.bind (wp_callRecording p) jb_prompt_dismissed_at) 0
      then WillEndSoon maxDuration (getMinutesLeftBeforeEnd (prompt_of maxDuration p) now)
      else capitalize_error (renderRecordingDisclaimer p))"
  by (simp add: RecordingInfoPrompt_def renderRecordingDisclaimer_def prompt_of_def hasRecEnded_def
      disclaimerDismissedAt_def if_distrib [of capitalize_error] if_distrib [of capitalize_text] Let_def
      cong: if_cong)

end
