(* ===== verification/ExpandedView.thy ===== *)
theory ExpandedView imports WidgetSteps begin

text \<open>
  The expanded view of a call (\<open>components/expanded_view/component.tsx\<close>): its properties
  (\<open>expanded_view/index.ts\<close>), its state and its handlers.

  The view is shown in the window of the call widget, or in a window that the widget opened. In the
  second case the calls client lives in the widget's window: \<open>xs_opener\<close> is that window, the widget
  with its environment, and calls on the client and the functions in \<open>opener.callActions\<close> run there,
  while the store is the view's own. Streams are their ids.
\<close>

section \<open>Properties\<close>

text \<open>What the web application tells of its right-hand side and of the call's thread.\<close>

record rhs_state =
  rh_selectRhsPost :: bool \<comment> \<open>is the right-hand side supported\<close>
  rh_selectedPostId :: "string option"
  rh_isOpen :: "bool option"
  rh_unread :: "string \<Rightarrow> (int \<times> int) option" \<comment> \<open>replies and mentions of a thread\<close>

definition no_rhs :: rhs_state where
  "no_rhs = \<lparr>rh_selectRhsPost = False, rh_selectedPostId = None, rh_isOpen = None,
     rh_unread = (\<lambda>t. None)\<rparr>"

record xprops =
  xp_show :: bool
  xp_currentUserID :: string
  xp_currentTeamID :: string
  xp_profiles :: "(string, user_profile) obj"
  xp_sessions :: "user_session list"
  xp_sessionsMap :: "(string, user_session) obj"
  xp_currentSession :: "user_session option"
  xp_callStartAt :: int
  xp_callHostID :: string
  xp_callHostChangeAt :: int
  xp_callRecording :: "job_state option"
  xp_isRecording :: bool
  xp_screenSharingSession :: "user_session option"
  xp_channel :: "channel option"
  xp_channelTeam :: "team option"
  xp_channelDisplayName :: string
  xp_connectedDMUser :: "user_profile option"
  xp_threadID :: string
  xp_threadUnreadReplies :: "int option"
  xp_threadUnreadMentions :: "int option"
  xp_rhsSelectedThreadID :: "string option"
  xp_isRhsOpen :: "bool option"
  xp_selectRhsPost :: bool
  xp_allowScreenSharing :: bool
  xp_recordingsEnabled :: bool
  xp_recordingMaxDuration :: int
  xp_transcriptionsEnabled :: bool
  xp_isAdmin :: bool
  xp_hostControlsAllowed :: bool
  xp_enableVideo :: bool
  xp_otherSessions :: "user_session list"

definition xprops_of :: "(string \<Rightarrow> string \<Rightarrow> int) \<Rightarrow> rhs_state \<Rightarrow> global_state \<Rightarrow> xprops" where
  "xprops_of localeCompare rhs gs =
     (let mm = gs_mm gs; chan = channelForCurrentCall gs;
          thread = threadIDForCallInChannel gs (str_of (map_option chn_id chan))
      in \<lparr>xp_show = rs_expandedView (gs_plugin gs),
          xp_currentUserID = mm_currentUserID mm,
          xp_currentTeamID = mm_currentTeamID mm,
          xp_profiles = profilesInCurrentCallMap gs,
          xp_sessions = call_sessions localeCompare gs,
          xp_sessionsMap = obj_or_empty (sessionsInCurrentCallMap gs),
          xp_currentSession = sessionForCurrentCall gs,
          xp_callStartAt = callStartAtForCurrentCall gs,
          xp_callHostID = hostIDForCurrentCall gs,
          xp_callHostChangeAt = hostChangeAtForCurrentCall gs,
          xp_callRecording = Some (recordingForCurrentCall gs),
          xp_isRecording = isRecordingInCurrentCall gs,
          xp_screenSharingSession = screenSharingSessionForCurrentCall gs,
          xp_channel = chan,
          xp_channelTeam = obj_get (mm_teams mm) (str_of (map_option chn_team_id chan)),
          xp_channelDisplayName = str_of (snd (getChannelUrlAndDisplayName gs chan)),
          xp_connectedDMUser = connected_dm_user gs chan,
          xp_threadID = thread,
          xp_threadUnreadReplies = map_option fst (rh_unread rhs thread),
          xp_threadUnreadMentions = map_option snd (rh_unread rhs thread),
          xp_rhsSelectedThreadID = rh_selectedPostId rhs,
          xp_isRhsOpen = rh_isOpen rhs,
          xp_selectRhsPost = rh_selectRhsPost rhs,
          xp_allowScreenSharing = allowScreenSharing gs,
          xp_recordingsEnabled = recordingsEnabled gs,
          xp_recordingMaxDuration = recordingMaxDuration gs,
          xp_transcriptionsEnabled = transcriptionsEnabled gs,
          xp_isAdmin = mm_isCurrentUserSystemAdmin mm,
          xp_hostControlsAllowed = areHostControlsAllowed gs,
          xp_enableVideo = (EnableVideo (callsConfig_sel gs) \<and> isDMChannel chan),
          xp_otherSessions = sessionsForOtherUsersInCall gs\<rparr>)"

section \<open>State\<close>

record xview =
  xv_screenStream :: "string option"
  xv_selfVideoStream :: "string option"
  xv_otherVideoStream :: "string option"
  xv_showParticipantsList :: bool
  xv_showLiveCaptions :: bool
  xv_alerts :: alert_state
  xv_removeConfirmation :: "(string \<times> string) option"
  xv_speaker :: bool \<comment> \<open>\<open>viewState\<close> is \<open>speaker\<close>, not \<open>grid\<close>\<close>
  xv_pushToTalk :: bool
  xv_reactions :: "bool \<times> bool" \<comment> \<open>the bar and the picker of the reaction button\<close>
  xv_micWaits :: nat \<comment> \<open>calls of \<open>unmute\<close> that wait for the browser\<close>
  xv_closed :: bool \<comment> \<open>the view's own window was closed\<close>

definition init_xview :: xview where
  "init_xview = \<lparr>xv_screenStream = None, xv_selfVideoStream = None, xv_otherVideoStream = None,
     xv_showParticipantsList = False, xv_showLiveCaptions = False, xv_alerts = init_alerts,
     xv_removeConfirmation = None, xv_speaker = True, xv_pushToTalk = False,
     xv_reactions = (False, False), xv_micWaits = 0, xv_closed = False\<rparr>"

record xs =
  xs_view :: xview
  xs_env :: env
  xs_opener :: "ww option"

abbreviation on_view :: "(xview \<Rightarrow> xview) \<Rightarrow> xs \<Rightarrow> xs" where
  "on_view f s \<equiv> s\<lparr>xs_view := f (xs_view s)\<rparr>"

abbreviation on_env :: "(env \<Rightarrow> env) \<Rightarrow> xs \<Rightarrow> xs" where
  "on_env f s \<equiv> s\<lparr>xs_env := f (xs_env s)\<rparr>"

text \<open>\<open>getCallsClient()\<close>, and a call on it.\<close>

definition view_client :: "xs \<Rightarrow> calls_client option" where
  "view_client s = ev_client (case xs_opener s of None \<Rightarrow> xs_env s | Some st \<Rightarrow> snd st)"

definition view_call :: "(calls_client \<Rightarrow> calls_client) \<Rightarrow> xs \<Rightarrow> xs" where
  "view_call f s = (case xs_opener s of
       None \<Rightarrow> on_env (client_call f) s
     | Some (w, e) \<Rightarrow> s\<lparr>xs_opener := Some (w, client_call f e)\<rparr>)"

text \<open>
  \<open>unmute\<close> waits for the browser when there is no audio track, and goes on when it answers,
  whatever happened to the client in between; without a peer the rest throws.\<close>

definition x_unmute :: "xs \<Rightarrow> xs" where
  "x_unmute s = (case view_client s of
       None \<Rightarrow> s
     | Some c \<Rightarrow> if cc_peer c \<and> cc_audioTrack c = None then on_view (xv_micWaits_update Suc) s
                 else view_call (unmute None) s)"

definition unmute_answered :: "(stream \<times> string) option \<Rightarrow> calls_client \<Rightarrow> calls_client" where
  "unmute_answered mic c = (case mic of
       None \<Rightarrow> cc_emit (CError (audio_error c)) c
     | Some (s, a) \<Rightarrow>
         if cc_peer c then unmute_ready (audio_granted s a c) else audio_granted s a c)"

definition x_mic_answer :: "(stream \<times> string) option \<Rightarrow> xs \<Rightarrow> xs" where
  "x_mic_answer mic s =
     (if xv_micWaits (xs_view s) = 0 then s
      else view_call (unmute_answered mic) (on_view (xv_micWaits_update (\<lambda>n. n - 1)) s))"

definition with_xalerts :: "(alerts \<Rightarrow> alerts) \<Rightarrow> xview \<Rightarrow> xview" where
  "with_xalerts f v = v\<lparr>xv_alerts := upd_alerts f (xv_alerts v)\<rparr>"

definition x_setMissingScreenPermissions :: "bool \<Rightarrow> bool \<Rightarrow> xs \<Rightarrow> xs" where
  "x_setMissingScreenPermissions missing forward s =
     (let s1 = on_view (with_xalerts (spread_alert MissingScreenPermissions missing)) s
      in if forward
         then s1\<lparr>xs_opener := map_option (widget_setMissingScreenPermissions missing False) (xs_opener s1)\<rparr>
         else s1)"

section \<open>Windows\<close>

text \<open>
  The environment of the view's window: does its desktop application have a function, is
  \<open>window.desktop\<close> set, is it a Mac.\<close>

record xwindow =
  xw_has :: "string \<Rightarrow> bool"
  xw_desktop :: bool
  xw_mac :: bool

text \<open>
  What the constructor registers: the window closes with the client; a navigation in a window of
  its own is blocked and passed on, and one in the widget's window hides the view, unless the
  location was replaced.\<close>

definition client_closed :: "xs \<Rightarrow> xs" where
  "client_closed s = (if xs_opener s = None then s else on_view (xv_closed_update (\<lambda>_. True)) s)"

definition navigated :: "xwindow \<Rightarrow> bool \<Rightarrow> string \<Rightarrow> xs \<Rightarrow> xs" where
  "navigated h replaced pathname s =
     (if xs_opener s \<noteq> None
      then if xw_has h ''openLinkFromCalls''
           then on_env (effect (EDesktopCall ''openLinkFromCalls'' [pathname])) s
           else on_env (effect (EDesktopEvent ''calls-link-click'' pathname)) s
      else if xw_desktop h \<and> \<not> replaced then on_env hideExpandedView s else s)"

section \<open>Keys\<close>

definition x_isMuted :: "xprops \<Rightarrow> bool" where
  "x_isMuted p = (case xp_currentSession p of
                    None \<Rightarrow> True | Some s \<Rightarrow> \<not> truthy_bool (us_unmuted s))"

definition x_isVideoOn :: "xprops \<Rightarrow> bool" where
  "x_isVideoOn p = (case xp_currentSession p of
                      None \<Rightarrow> False | Some s \<Rightarrow> truthy_bool (us_video s))"

definition x_isHandRaised :: "xprops \<Rightarrow> bool" where
  "x_isHandRaised p = (case xp_currentSession p of
                         None \<Rightarrow> False | Some s \<Rightarrow> num_gt (us_raised_hand s) (Some 0))"

definition handleBlur :: "xs \<Rightarrow> xs" where
  "handleBlur s =
     (if xv_pushToTalk (xs_view s)
      then on_view (xv_pushToTalk_update (\<lambda>_. False)) (view_call mute s) else s)"

text \<open>
  \<open>elsewhere\<close>: an input, a select, a button or a text area that is not in the view has the focus.\<close>

definition handleKeyUp :: "xwindow \<Rightarrow> bool \<Rightarrow> key_event \<Rightarrow> xs \<Rightarrow> xs" where
  "handleKeyUp h elsewhere ev s =
     (if elsewhere then s
      else if keyToAction (xw_mac h) Popout ev = Some ''push-to-talk'' \<and> xv_pushToTalk (xs_view s)
      then on_view (xv_pushToTalk_update (\<lambda>_. False)) (view_call mute s)
      else s)"

definition x_onMuteToggle :: "xprops \<Rightarrow> xs \<Rightarrow> xs" where
  "x_onMuteToggle p s =
     (if xv_pushToTalk (xs_view s) then s
      else if x_isMuted p then x_unmute s else view_call mute s)"

definition x_onVideoToggle :: "(string option \<Rightarrow> (stream \<times> string) option) \<Rightarrow> blur \<Rightarrow> xprops \<Rightarrow> xs \<Rightarrow> xs" where
  "x_onVideoToggle camera b p s =
     view_call (if x_isVideoOn p then stopVideo else startVideo camera b) s"

definition x_onRaiseHandToggle :: "xprops \<Rightarrow> xs \<Rightarrow> xs" where
  "x_onRaiseHandToggle p s = view_call (if x_isHandRaised p then unraiseHand else raiseHand) s"

definition x_onDisconnectClick :: "xs \<Rightarrow> xs" where
  "x_onDisconnectClick s =
     (let s1 = on_env hideExpandedView s
      in if view_client s1 = None then s1 else client_closed (view_call (disconnect None) s1))"

definition x_onRecordToggle :: "xprops \<Rightarrow> xs \<Rightarrow> xs" where
  "x_onRecordToggle p s = (case xp_channel p of
       None \<Rightarrow> s
     | Some c \<Rightarrow>
         if xp_isRecording p
         then on_env (effect (EModal ''stop_recording_confirmation'' (Some (chn_id c)))) s
         else on_env (startCallRecording (chn_id c)) s)"

definition x_onParticipantsListToggle :: "xview \<Rightarrow> xview" where
  "x_onParticipantsListToggle v = v\<lparr>xv_showParticipantsList := \<not> xv_showParticipantsList v\<rparr>"

definition onLiveCaptionsToggle :: "xview \<Rightarrow> xview" where
  "onLiveCaptionsToggle v = v\<lparr>xv_showLiveCaptions := \<not> xv_showLiveCaptions v\<rparr>"

definition onSwitchViewClick :: "xview \<Rightarrow> xview" where
  "onSwitchViewClick v = v\<lparr>xv_speaker := \<not> xv_speaker v\<rparr>"

definition onCloseViewClick :: "xs \<Rightarrow> xs" where
  "onCloseViewClick s =
     (if xs_opener s \<noteq> None then on_view (xv_closed_update (\<lambda>_. True)) s else on_env hideExpandedView s)"

text \<open>The bar and the picker of the reaction button (\<open>expanded_view/reaction_button.tsx\<close>).\<close>

definition toggleReactions :: "bool \<times> bool \<Rightarrow> bool \<times> bool" where
  "toggleReactions = (\<lambda>(bar, picker). (\<not> bar, picker \<and> \<not> bar))"

definition toggleShowPicker :: "bool \<times> bool \<Rightarrow> bool \<times> bool" where
  "toggleShowPicker = (\<lambda>(bar, picker). (bar, \<not> picker))"

definition reactions_hidden :: "bool \<times> bool" where
  "reactions_hidden = (False, False)"

definition reactions_blur :: "bool \<Rightarrow> bool \<times> bool \<Rightarrow> bool \<times> bool" where
  "reactions_blur inside r = (if inside then r else reactions_hidden)"

definition reactions_escape :: "string \<Rightarrow> bool \<times> bool \<Rightarrow> bool \<times> bool" where
  "reactions_escape key r = (if key = ''Escape'' then reactions_hidden else r)"

text \<open>A share that has to wait for the browser is the second result.\<close>

definition x_onShareScreenToggle :: "xwindow \<Rightarrow> xprops \<Rightarrow> xs \<Rightarrow> xs \<times> share_wait" where
  "x_onShareScreenToggle h p s =
     (if \<not> xp_allowScreenSharing p then (s, NoShare)
      else if xp_screenSharingSession p \<noteq> None \<and> same_session (xp_screenSharingSession p) (xp_currentSession p)
      then (on_view (xv_screenStream_update (\<lambda>_. None)) (view_call unshareScreen s), NoShare)
      else if xp_screenSharingSession p = None
      then if xw_has h ''openScreenShareModal''
           then (on_env (effect (EDesktopCall ''openScreenShareModal'' [])) s, NoShare)
           else (s, WaitShare)
      else (s, NoShare))"

text \<open>
  The stream's id and its tracks, once the browser has answered. The track's id is noted in the
  view's window, which is the one that the widget holds.\<close>

definition note_sharing_track :: "string \<Rightarrow> ww \<Rightarrow> ww" where
  "note_sharing_track t = (\<lambda>(w, e).
     (w\<lparr>cw_popout := map_option (po_screenSharingTrackId_update (\<lambda>_. Some t)) (cw_popout w)\<rparr>, e))"

definition x_share_answer :: "(string \<times> string \<times> string option) option \<Rightarrow> xs \<Rightarrow> xs" where
  "x_share_answer answer s = (case answer of
       None \<Rightarrow> x_setMissingScreenPermissions True True s
     | Some (sid, t, a) \<Rightarrow>
         let s1 = s\<lparr>xs_opener := map_option (note_sharing_track t) (xs_opener s)\<rparr>;
             s2 = view_call (setScreenStream sid t a) s1
         in x_setMissingScreenPermissions False True
              (on_view (xv_screenStream_update (\<lambda>_. Some sid)) s2))"

definition x_handleKBShortcuts ::
  "xwindow \<Rightarrow> bool \<Rightarrow> xprops \<Rightarrow> key_event \<Rightarrow> xs \<Rightarrow> xs \<times> share_wait" where
  "x_handleKBShortcuts h elsewhere p ev s =
     (if (\<not> xp_show p \<or> ev_client (xs_env s) = None) \<and> xs_opener s = None then (s, NoShare)
      else if elsewhere then (s, NoShare)
      else
        let act = keyToAction (xw_mac h) Popout ev
        in if act = Some ''push-to-talk''
           then (if xv_pushToTalk (xs_view s) then s
                 else on_view (xv_pushToTalk_update (\<lambda>_. True)) (x_unmute s), NoShare)
           else if act = Some ''mute-unmute'' then (x_onMuteToggle p s, NoShare)
           else if act = Some ''raise-lower-hand'' then (x_onRaiseHandToggle p s, NoShare)
           else if act = Some ''make-reaction''
           then (on_view (xv_reactions_update toggleReactions) s, NoShare)
           else if act = Some ''share-unshare-screen'' then x_onShareScreenToggle h p s
           else if act = Some ''participants-list-toggle''
           then (on_view x_onParticipantsListToggle s, NoShare)
           else if act = Some ''leave-call'' then (x_onDisconnectClick s, NoShare)
           else if act = Some ''recording-toggle'' then (x_onRecordToggle p s, NoShare)
           else (s, NoShare))"

section \<open>The client's events\<close>

definition setAudioDevices :: "device list \<Rightarrow> alerts \<Rightarrow> alerts" where
  "setAudioDevices inputs = spread_alert MissingAudioInput (inputs = [])"

definition setVideoDevices :: "device list \<Rightarrow> alerts \<Rightarrow> alerts" where
  "setVideoDevices devices = spread_alert MissingVideoInput (devices = [])"

text \<open>
  The listeners of \<open>componentDidMount\<close>. On a change of devices two calls of \<open>setState\<close> write the
  alerts; they are in one batch iff the view's root batches all calls of a task.\<close>

definition x_devicechange :: "bool \<Rightarrow> calls_client \<Rightarrow> alerts \<Rightarrow> alerts" where
  "x_devicechange batched c =
     (let fs = [setAudioDevices (cc_audioInputs c), setVideoDevices (cc_videoDevices c)]
      in if batched then set_alerts fs else fold (\<lambda>f. f) fs)"

fun x_on :: "bool \<Rightarrow> client_event \<Rightarrow> xs \<Rightarrow> xs" where
  "x_on batched (CRemoteScreenStream sid) s = on_view (xv_screenStream_update (\<lambda>_. Some sid)) s"
| "x_on batched (CLocalScreenStream sid) s = on_view (xv_screenStream_update (\<lambda>_. Some sid)) s"
| "x_on batched (CDeviceFallback input d) s = on_view (with_xalerts (fallback_alert input d)) s"
| "x_on batched (CLocalVideoStream sid) s = on_view (xv_selfVideoStream_update (\<lambda>_. Some sid)) s"
| "x_on batched (CRemoteVideoStream sid) s = on_view (xv_otherVideoStream_update (\<lambda>_. Some sid)) s"
| "x_on batched CDeviceChange s = (case view_client s of
       None \<Rightarrow> s | Some c \<Rightarrow> on_view (with_xalerts (x_devicechange batched c)) s)"
| "x_on batched CInitAudio s =
     on_view (with_xalerts (put_alert MissingAudioInputPermissions False None)) s"
| "x_on batched CInitVideo s =
     on_view (with_xalerts (put_alert MissingVideoInputPermissions False None)) s"
| "x_on batched (CClose err) s = client_closed s"
| "x_on batched _ s = s"

definition x_mos :: "bool \<Rightarrow> xview \<Rightarrow> xview" where
  "x_mos low v = v\<lparr>xv_alerts := on_mos low (xv_alerts v)\<rparr>"

section \<open>Mounting\<close>

text \<open>
  The last call of \<open>setState\<close> in \<open>componentDidMount\<close>; the alerts that it reads are those of before
  the batch.\<close>

definition mount_alerts :: "bool \<Rightarrow> calls_client \<Rightarrow> alerts \<Rightarrow> alerts" where
  "mount_alerts enableVideo c a =
     (let noAudio = (\<not> al_active (a MissingAudioInput) \<and> cc_audioTrack c = None);
          noVideo = (enableVideo \<and> \<not> al_active (a MissingVideoInput) \<and> cc_localVideoStream c = None)
      in spread_alert MissingVideoInputPermissions noVideo
           (spread_alert MissingAudioInputPermissions noAudio a))"

definition x_requestCallState :: "xs \<Rightarrow> xs" where
  "x_requestCallState s = (case view_client s of
       None \<Rightarrow> s
     | Some c \<Rightarrow> on_env (effect (ESendMessage ''custom_com.mattermost.calls_call_state'' (cc_channelID c))) s)"

text \<open>
  \<open>componentDidMount\<close>; \<open>connected\<close>: the host application's websocket is open. Otherwise the request
  waits for the first connection. \<open>missing\<close> is of the opener's \<open>currentCallData\<close>. Registering the
  listeners and prefetching the thread are left out.\<close>

definition x_componentDidMount :: "bool \<Rightarrow> xprops \<Rightarrow> xs \<Rightarrow> xs" where
  "x_componentDidMount connected p s =
     (case view_client s of
        None \<Rightarrow> s
      | Some c \<Rightarrow>
          let s1 = (if connected then x_requestCallState s else s);
              missing = (case xs_opener s1 of
                           None \<Rightarrow> [] | Some (w, e) \<Rightarrow>
                             if map_option ccd_missingScreenPermissions (currentCallData e) = Some True
                             then [spread_alert MissingScreenPermissions True] else []);
              alerts = set_alerts ([setAudioDevices (cc_audioInputs c), setVideoDevices (cc_videoDevices c),
                         mount_alerts (xp_enableVideo p) c] @ missing);
              screen = (case getLocalScreenStream c of None \<Rightarrow> getRemoteScreenStream c | Some x \<Rightarrow> Some x)
          in on_view (\<lambda>v. (with_xalerts alerts v)\<lparr>xv_screenStream := screen,
                 xv_selfVideoStream := map_option st_id (cc_localVideoStream c),
                 xv_otherVideoStream := getRemoteVideoStream c\<rparr>) s1)"

section \<open>Chat, prompts, removal\<close>

text \<open>The chat button: close the thread, go to the call's team, or open the thread.\<close>

datatype chat_action = CloseRhs | GoTo string | OpenThread string | NoChat

definition toggleChat :: "xprops \<Rightarrow> chat_action" where
  "toggleChat p =
     (if xp_isRhsOpen p = Some True \<and> xp_rhsSelectedThreadID p = Some (xp_threadID p) then CloseRhs
      else (case xp_channelTeam p of
              Some t \<Rightarrow>
                if tm_id t \<noteq> xp_currentTeamID p
                then GoTo (''/'' @ tm_name t @ ''/pl/'' @ xp_threadID p)
                else if xp_threadID p \<noteq> [] then OpenThread (xp_threadID p) else NoChat
            | None \<Rightarrow> if xp_threadID p \<noteq> [] then OpenThread (xp_threadID p) else NoChat))"

definition x_dismissRecordingPrompt :: "xprops \<Rightarrow> xs \<Rightarrow> xs" where
  "x_dismissRecordingPrompt p s = (case xp_channel p of
       None \<Rightarrow> s
     | Some c \<Rightarrow>
         let t = serverDismissedAt (xp_callRecording p) (xp_callHostChangeAt p);
             s1 = on_env (recordingPromptDismissedAt (chn_id c) t) s
         in s1\<lparr>xs_opener := map_option (map_prod id (recordingPromptDismissedAt (chn_id c) t)) (xs_opener s1)\<rparr>)"

definition x_onRemove :: "string \<Rightarrow> string \<Rightarrow> xview \<Rightarrow> xview" where
  "x_onRemove sessionID userID v = v\<lparr>xv_removeConfirmation := Some (sessionID, userID)\<rparr>"

definition x_onRemoveConfirm :: "xprops \<Rightarrow> xs \<Rightarrow> xs" where
  "x_onRemoveConfirm p s =
     on_view (xv_removeConfirmation_update (\<lambda>_. None))
       (on_env (hostRemove (map_option chn_id (xp_channel p))
                  (map_option fst (xv_removeConfirmation (xs_view s)))) s)"

definition x_onRemoveCancel :: "xview \<Rightarrow> xview" where
  "x_onRemoveCancel v = v\<lparr>xv_removeConfirmation := None\<rparr>"

definition x_close_alert :: "int \<Rightarrow> alert_id \<Rightarrow> xview \<Rightarrow> xview" where
  "x_close_alert now i v = v\<lparr>xv_alerts := close_alert now i (xv_alerts v)\<rparr>"

text \<open>Of the alerts that are shown, the first has its banner.\<close>

definition renderAlertBanner :: "xview \<Rightarrow> alert_id option" where
  "renderAlertBanner v = find (\<lambda>i. al_show (as_alerts (xv_alerts v) i)) alert_ids"

definition shouldRenderAlertBanner :: "xview \<Rightarrow> bool" where
  "shouldRenderAlertBanner v = (shown_alerts (as_alerts (xv_alerts v)) \<noteq> [])"

end
