(* ===== verification/ExpandedSteps.thy ===== *)
theory ExpandedSteps imports ExpandedView begin

text \<open>
  The life of an expanded view: everything that can happen to it as one step function, what holds
  over all runs, push to talk, and how the view and the widget's window stay in agreement.
\<close>

section \<open>Steps\<close>

text \<open>
  \<open>XClient\<close> is an event of the client, \<open>XMissing\<close> comes from the widget's window, and the steps that
  wait come in two.\<close>

datatype xstep =
    XClient client_event
  | XMount bool
  | XMos bool
  | XCloseAlert alert_id
  | XKeyDown bool key_event
  | XKeyUp bool key_event
  | XBlur
  | XMute
  | XMic "(stream \<times> string) option"
  | XVideo "string option \<Rightarrow> (stream \<times> string) option" blur
  | XHand
  | XShare
  | XShareAnswer "(string \<times> string \<times> string option) option"
  | XMissing bool
  | XDisconnect
  | XRecord
  | XParticipants
  | XCaptions
  | XSwitch
  | XClose
  | XReactions
  | XPicker
  | XPick
  | XReactionsBlur bool
  | XReactionsKey string
  | XNavigated bool string
  | XDismissPrompt
  | XRemove string string
  | XRemoveConfirm
  | XRemoveCancel
  | XFirstConnect

fun x_do :: "xwindow \<Rightarrow> bool \<Rightarrow> xprops \<Rightarrow> int \<Rightarrow> xstep \<Rightarrow> xs \<Rightarrow> xs" where
  "x_do h b p now (XClient ev) s = x_on b ev s"
| "x_do h b p now (XMount connected) s = x_componentDidMount connected p s"
| "x_do h b p now (XMos low) s = on_view (x_mos low) s"
| "x_do h b p now (XCloseAlert i) s =
     (if renderAlertBanner (xs_view s) = Some i then on_view (x_close_alert now i) s else s)"
| "x_do h b p now (XKeyDown elsewhere ev) s = fst (x_handleKBShortcuts h elsewhere p ev s)"
| "x_do h b p now (XKeyUp elsewhere ev) s = handleKeyUp h elsewhere ev s"
| "x_do h b p now XBlur s = handleBlur s"
| "x_do h b p now XMute s = x_onMuteToggle p s"
| "x_do h b p now (XMic mic) s = x_mic_answer mic s"
| "x_do h b p now (XVideo cam bl) s = x_onVideoToggle cam bl p s"
| "x_do h b p now XHand s = x_onRaiseHandToggle p s"
| "x_do h b p now XShare s = fst (x_onShareScreenToggle h p s)"
| "x_do h b p now (XShareAnswer a) s = x_share_answer a s"
| "x_do h b p now (XMissing m) s = x_setMissingScreenPermissions m False s"
| "x_do h b p now XDisconnect s = x_onDisconnectClick s"
| "x_do h b p now XRecord s = x_onRecordToggle p s"
| "x_do h b p now XParticipants s = on_view x_onParticipantsListToggle s"
| "x_do h b p now XCaptions s = on_view onLiveCaptionsToggle s"
| "x_do h b p now XSwitch s = on_view onSwitchViewClick s"
| "x_do h b p now XClose s = onCloseViewClick s"
| "x_do h b p now XReactions s = on_view (xv_reactions_update toggleReactions) s"
| "x_do h b p now XPicker s =
     (if fst (xv_reactions (xs_view s)) then on_view (xv_reactions_update toggleShowPicker) s else s)"
| "x_do h b p now XPick s = on_view (xv_reactions_update (\<lambda>_. reactions_hidden)) s"
| "x_do h b p now (XReactionsBlur inside) s = on_view (xv_reactions_update (reactions_blur inside)) s"
| "x_do h b p now (XReactionsKey k) s = on_view (xv_reactions_update (reactions_escape k)) s"
| "x_do h b p now (XNavigated r path) s = navigated h r path s"
| "x_do h b p now XDismissPrompt s = x_dismissRecordingPrompt p s"
| "x_do h b p now (XRemove sid uid) s = on_view (x_onRemove sid uid) s"
| "x_do h b p now XRemoveConfirm s = x_onRemoveConfirm p s"
| "x_do h b p now XRemoveCancel s = on_view x_onRemoveCancel s"
| "x_do h b p now XFirstConnect s = x_requestCallState s"

definition x_step :: "xwindow \<Rightarrow> bool \<Rightarrow> xprops \<Rightarrow> int \<Rightarrow> xstep \<Rightarrow> xs \<Rightarrow> xs" where
  "x_step h b p now a s = x_do h b p now a (on_view (xv_alerts_update (run_timers now)) s)"

section \<open>What a step does to the alerts\<close>

definition mount_batch :: "xprops \<Rightarrow> xs \<Rightarrow> alerts \<Rightarrow> alerts" where
  "mount_batch p s = (case view_client s of
       None \<Rightarrow> id
     | Some c \<Rightarrow> set_alerts ([setAudioDevices (cc_audioInputs c), setVideoDevices (cc_videoDevices c),
           mount_alerts (xp_enableVideo p) c] @
         (case xs_opener s of None \<Rightarrow> [] | Some (w, e) \<Rightarrow>
            if map_option ccd_missingScreenPermissions (currentCallData e) = Some True
            then [spread_alert MissingScreenPermissions True] else [])))"

fun x_event_alerts :: "bool \<Rightarrow> client_event \<Rightarrow> xs \<Rightarrow> alerts \<Rightarrow> alerts" where
  "x_event_alerts b (CDeviceFallback input d) s = fallback_alert input d"
| "x_event_alerts b CDeviceChange s = (case view_client s of
       None \<Rightarrow> id | Some c \<Rightarrow> x_devicechange b c)"
| "x_event_alerts b CInitAudio s = put_alert MissingAudioInputPermissions False None"
| "x_event_alerts b CInitVideo s = put_alert MissingVideoInputPermissions False None"
| "x_event_alerts b _ s = id"

fun x_what :: "bool \<Rightarrow> xprops \<Rightarrow> xstep \<Rightarrow> xs \<Rightarrow> alert_step" where
  "x_what b p (XClient ev) s = AOther (x_event_alerts b ev s)"
| "x_what b p (XMount connected) s = AOther (mount_batch p s)"
| "x_what b p (XMos low) s = AMos low"
| "x_what b p (XCloseAlert i) s =
     (if renderAlertBanner (xs_view s) = Some i then AClose i else AOther id)"
| "x_what b p (XShareAnswer a) s = AOther (spread_alert MissingScreenPermissions (a = None))"
| "x_what b p (XMissing m) s = AOther (spread_alert MissingScreenPermissions m)"
| "x_what b p _ s = AOther id"

lemma view_call_view [simp]: "xs_view (view_call f s) = xs_view s"
  by (simp add: view_call_def split: option.splits prod.splits)

lemma with_xalerts_view [simp]: "xv_alerts (with_xalerts f v) = upd_alerts f (xv_alerts v)"
  by (simp add: with_xalerts_def)

lemma x_missing_view [simp]:
  "xs_view (x_setMissingScreenPermissions m fwd s) =
     with_xalerts (spread_alert MissingScreenPermissions m) (xs_view s)"
  by (simp add: x_setMissingScreenPermissions_def Let_def)

lemma x_clicks_alerts [simp]:
  "xv_alerts (xs_view (x_unmute s)) = xv_alerts (xs_view s)"
  "xv_alerts (xs_view (x_mic_answer mic s)) = xv_alerts (xs_view s)"
  "xv_alerts (xs_view (x_onMuteToggle p s)) = xv_alerts (xs_view s)"
  "xv_alerts (xs_view (x_onVideoToggle cam bl p s)) = xv_alerts (xs_view s)"
  "xv_alerts (xs_view (x_onRaiseHandToggle p s)) = xv_alerts (xs_view s)"
  "xv_alerts (xs_view (handleKeyUp h elsewhere ev s)) = xv_alerts (xs_view s)"
  "xv_alerts (xs_view (handleBlur s)) = xv_alerts (xs_view s)"
  "xv_alerts (xs_view (client_closed s)) = xv_alerts (xs_view s)"
  "xv_alerts (xs_view (x_onRecordToggle p s)) = xv_alerts (xs_view s)"
  "xv_alerts (xs_view (onCloseViewClick s)) = xv_alerts (xs_view s)"
  "xv_alerts (xs_view (navigated h r path s)) = xv_alerts (xs_view s)"
  "xv_alerts (xs_view (x_requestCallState s)) = xv_alerts (xs_view s)"
  "xv_alerts (xs_view (x_dismissRecordingPrompt p s)) = xv_alerts (xs_view s)"
  "xv_alerts (xs_view (x_onRemoveConfirm p s)) = xv_alerts (xs_view s)"
  "xv_alerts (xs_view (fst (x_onShareScreenToggle h p s))) = xv_alerts (xs_view s)"
  by (simp_all add: x_unmute_def x_mic_answer_def x_onMuteToggle_def x_onVideoToggle_def
      x_onRaiseHandToggle_def handleKeyUp_def handleBlur_def client_closed_def x_onRecordToggle_def
      onCloseViewClick_def navigated_def x_requestCallState_def x_dismissRecordingPrompt_def
      x_onRemoveConfirm_def x_onShareScreenToggle_def Let_def split: option.splits)

lemma x_disconnect_alerts [simp]: "xv_alerts (xs_view (x_onDisconnectClick s)) = xv_alerts (xs_view s)"
  by (simp add: x_onDisconnectClick_def Let_def)

lemma x_key_alerts [simp]:
  "xv_alerts (xs_view (fst (x_handleKBShortcuts h elsewhere p ev s))) = xv_alerts (xs_view s)"
  by (simp add: x_handleKBShortcuts_def x_onParticipantsListToggle_def Let_def)

lemma x_share_alerts [simp]:
  "xv_alerts (xs_view (x_share_answer a s)) =
     upd_alerts (spread_alert MissingScreenPermissions (a = None)) (xv_alerts (xs_view s))"
  by (auto simp: x_share_answer_def Let_def split: option.splits)

lemma x_on_alerts:
  "xv_alerts (xs_view (x_on b ev s)) = upd_alerts (x_event_alerts b ev s) (xv_alerts (xs_view s))"
  by (cases ev) (auto split: option.splits)

lemma x_request_keeps [simp]:
  "view_client (x_requestCallState s) = view_client s" "xs_opener (x_requestCallState s) = xs_opener s"
  by (auto simp: x_requestCallState_def view_client_def split: option.splits)

lemma x_mount_alerts:
  "xv_alerts (xs_view (x_componentDidMount connected p s)) =
     upd_alerts (mount_batch p s) (xv_alerts (xs_view s))"
  by (simp add: x_componentDidMount_def mount_batch_def Let_def split: option.splits prod.splits)

lemma rendered_shown: "renderAlertBanner v = Some i \<Longrightarrow> al_show (as_alerts (xv_alerts v) i)"
  by (auto simp: renderAlertBanner_def find_Some_iff)

lemma x_do_alerts:
  "xv_alerts (xs_view (x_do h b p now a s)) = alert_do now (x_what b p a s) (xv_alerts (xs_view s))"
  by (cases a) (simp_all add: x_on_alerts x_mount_alerts x_mos_def x_close_alert_def rendered_shown
      x_onParticipantsListToggle_def onLiveCaptionsToggle_def onSwitchViewClick_def x_onRemove_def
      x_onRemoveCancel_def)

lemma devices_safe [simp]:
  "setAudioDevices ds a DegradedCallQuality = a DegradedCallQuality"
  "setVideoDevices ds a DegradedCallQuality = a DegradedCallQuality"
  "mount_alerts ev c a DegradedCallQuality = a DegradedCallQuality"
  "spread_alert MissingScreenPermissions m a DegradedCallQuality = a DegradedCallQuality"
  by (simp_all add: setAudioDevices_def setVideoDevices_def mount_alerts_def spread_alert_def Let_def)

lemma x_event_safe: "x_event_alerts b ev s a DegradedCallQuality = a DegradedCallQuality"
  by (cases ev) (auto simp: x_devicechange_def set_alerts_def fallback_alert_def put_alert_def Let_def
      split: option.splits)

lemma x_what_safe: "quality_safe (x_what b p a s)"
  by (cases a) (auto simp: x_event_safe mount_batch_def set_alerts_def split: option.splits)

lemma run_timers_alerts [simp]: "as_alerts (run_timers now s) = as_alerts s"
  by (simp add: run_timers_def unlock_banner_def)

lemma view_client_view [simp]: "view_client (xs_view_update f s) = view_client s"
  by (cases "xs_opener s") (simp_all add: view_client_def)

lemma x_what_timers [simp]:
  "x_what b p a (on_view (xv_alerts_update (run_timers now)) s) = x_what b p a s"
proof (cases a)
  case (XClient ev)
  then show ?thesis by (cases ev) simp_all
next
  case (XCloseAlert i)
  then show ?thesis by (simp add: renderAlertBanner_def)
qed (simp_all add: mount_batch_def cong: option.case_cong)

interpretation xa: alert_view "x_step h b p" "\<lambda>s. xv_alerts (xs_view s)" "x_what b p" for h b p
proof
  fix now a s
  show "xv_alerts (xs_view (x_step h b p now a s)) =
    alert_do now (x_what b p a s) (run_timers now (xv_alerts (xs_view s)))"
    unfolding x_step_def x_do_alerts by simp
  show "quality_safe (x_what b p a s)" by (rule x_what_safe)
qed

fun x_run :: "xwindow \<Rightarrow> bool \<Rightarrow> xprops \<Rightarrow> (int \<times> xstep) list \<Rightarrow> xs \<Rightarrow> xs" where
  "x_run h b p [] s = s"
| "x_run h b p ((now, a) # as) s = x_run h b p as (x_step h b p now a s)"

lemma x_run_eq: "x_run h b p as s = xa.run h b p as s"
proof (induction as arbitrary: s)
  case Nil
  then show ?case by (simp only: x_run.simps xa.run.simps)
next
  case (Cons x as)
  then show ?case by (cases x) (simp only: x_run.simps xa.run.simps)
qed


text \<open>
  In the expanded view too a warning about the call's quality that the user closes stays away for
  twenty seconds, whatever happened before and happens meanwhile.\<close>
theorem view_warning_stays_away:
  assumes "s = x_run h b p as \<lparr>xs_view = init_xview, xs_env = e, xs_opener = opener\<rparr>"
    and "renderAlertBanner (xs_view s) = Some DegradedCallQuality"
    and "\<forall>(t, a)\<in>set bs. t < now + DEGRADED_CALL_QUALITY_ALERT_WAIT"
  shows "renderAlertBanner (xs_view (x_run h b p ((now, XCloseAlert DegradedCallQuality) # bs) s)) \<noteq>
    Some DegradedCallQuality"
proof -
  let ?s = "x_run h b p ((now, XCloseAlert DegradedCallQuality) # bs) s"
  have "lock_ok (xv_alerts (xs_view s))"
    by (simp add: assms(1) x_run_eq xa.lock_invariant init_xview_def lock_ok_init)
  moreover have "quality_shown (xv_alerts (xs_view s))"
    using rendered_shown [OF assms(2)] by (simp add: quality_shown_def)
  moreover have "x_what b p (XCloseAlert DegradedCallQuality) s = AClose DegradedCallQuality"
    using assms(2) by simp
  ultimately have "\<not> quality_shown (xv_alerts (xs_view ?s))"
    unfolding x_run_eq using xa.closed_stays_hidden [OF _ _ _ assms(3)] by blast
  then show ?thesis by (auto simp: quality_shown_def dest: rendered_shown)
qed

definition plain_xwindow :: xwindow where
  "plain_xwindow = \<lparr>xw_has = (\<lambda>f. False), xw_desktop = False, xw_mac = False\<rparr>"

definition sample_xprops :: xprops where
  "sample_xprops = xprops_of (\<lambda>a b. 0) no_rhs (getState sample_env)"

definition new_view :: "env \<Rightarrow> ww option \<Rightarrow> xs" where
  "new_view e opener = \<lparr>xs_view = init_xview, xs_env = e, xs_opener = opener\<rparr>"

lemma view_warning_stays_away_witness:
  "renderAlertBanner (xs_view (x_run plain_xwindow True sample_xprops
     [(5, XCloseAlert DegradedCallQuality), (6, XMos True), (20004, XMos True)]
     (x_run plain_xwindow True sample_xprops [(0, XMos True)] (new_view sample_env None)))) \<noteq>
   Some DegradedCallQuality"
  by (rule view_warning_stays_away [OF refl, folded new_view_def])
    (simp_all add: x_step_def x_mos_def on_mos_def run_timers_def init_xview_def new_view_def
      init_alerts_def CallAlertStatesDefault_def put_alert_def upd_alerts_def renderAlertBanner_def
      alert_ids_def DEGRADED_CALL_QUALITY_ALERT_WAIT_def Let_def)

section \<open>Push to talk\<close>

text \<open>The client of the view after calls that do not close it.\<close>

definition no_close :: "client_event \<Rightarrow> bool" where
  "no_close ev \<longleftrightarrow> (\<forall>err. ev \<noteq> CClose err)"

lemma on_client_event_client: "no_close ev \<Longrightarrow> ev_client (on_client_event ev e) = ev_client e"
  by (cases ev) (simp_all add: no_close_def self_event_def)

lemma fold_client_event_client:
  "list_all no_close evs \<Longrightarrow> ev_client (fold on_client_event evs e) = ev_client e"
  by (induction evs arbitrary: e) (simp_all add: on_client_event_client)

lemma client_call_client:
  "\<lbrakk>ev_client e = Some c; cc_emitted (f c) = cc_emitted c @ evs; list_all no_close evs\<rbrakk>
   \<Longrightarrow> ev_client (client_call f e) = Some (f c)"
  by (simp add: client_call_def fold_client_event_client)

lemma view_call_client:
  assumes "view_client s = Some c" "cc_emitted (f c) = cc_emitted c @ evs" "list_all no_close evs"
  shows "view_client (view_call f s) = Some (f c)"
  using assms client_call_client [where f = f, OF _ assms(2,3)]
  by (cases "xs_opener s") (auto simp: view_call_def view_client_def)

text \<open>Is the track of the microphone live and enabled, so that the user can be heard?\<close>

definition mic_open :: "string \<Rightarrow> calls_client \<Rightarrow> bool" where
  "mic_open a c \<longleftrightarrow> (case obj_get (cc_tracks c) a of None \<Rightarrow> False | Some t \<Rightarrow> tk_live t \<and> tk_enabled t)"

lemma mic_open_enable:
  "track_live c a \<Longrightarrow> mic_open a (track_enable b a c) = b"
  by (auto simp: mic_open_def track_enable_def upd_track_def track_live_def split: option.splits)

lemma mic_open_cong: "cc_tracks c = cc_tracks d \<Longrightarrow> mic_open a c = mic_open a d"
  by (simp add: mic_open_def)

lemma mute_client:
  assumes "cc_audioTrack c = Some a" "cc_peer c" "cc_stream c \<noteq> None" "track_live c a"
  shows "cc_emitted (mute c) = cc_emitted c @ [CMute]" and "\<not> mic_open a (mute c)"
    and "cc_audioTrack (mute c) = Some a" and "cc_peer (mute c)"
proof -
  have m: "mute c = cc_send ''mute'' None False
      (cc_emit CMute (track_enable False a (peer_do (PReplaceTrack a None) c)))"
    using assms by (auto simp: mute_def)
  have t: "cc_tracks (mute c) = cc_tracks (track_enable False a (peer_do (PReplaceTrack a None) c))"
    by (simp add: m)
  have "track_live (peer_do (PReplaceTrack a None) c) a"
    using assms(4) by (simp add: track_live_def)
  then show "\<not> mic_open a (mute c)" using mic_open_cong [OF t] by (simp add: mic_open_enable)
  show "cc_emitted (mute c) = cc_emitted c @ [CMute]" "cc_peer (mute c)" by (simp_all add: m assms)
  show "cc_audioTrack (mute c) = Some a"
    using assms(1) by (simp add: m cc_send_def cc_emit_def track_enable_def peer_do_def)
qed

text \<open>What \<open>unmute_ready\<close> leaves of a client with a track.\<close>

lemma unmute_ready_client:
  assumes "cc_audioTrack c = Some a" "track_live c a"
  shows "cc_emitted (unmute_ready c) = cc_emitted c @ [CUnmute]" and "mic_open a (unmute_ready c)"
    and "cc_audioTrack (unmute_ready c) = Some a" and "cc_stream (unmute_ready c) = cc_stream c"
    and "cc_peer (unmute_ready c) = cc_peer c" and "track_live (unmute_ready c) a"
proof -
  define d where "d = (if cc_voiceTrackAdded c then peer_do (PReplaceTrack a (Some a)) c
    else case cc_stream c of
      Some s \<Rightarrow> (peer_do (PAddTrack a (st_id s)) c)\<lparr>cc_voiceTrackAdded := True\<rparr> | None \<Rightarrow> c)"
  have d: "cc_emitted d = cc_emitted c" "cc_tracks d = cc_tracks c" "cc_audioTrack d = Some a"
    "cc_stream d = cc_stream c" "cc_peer d = cc_peer c"
    using assms(1) by (auto simp: d_def peer_do_def split: option.splits)
  have u: "unmute_ready c = cc_send ''unmute'' None False (cc_emit CUnmute (track_enable True a d))"
    by (simp add: unmute_ready_def assms(1) d_def)
  have t: "cc_tracks (unmute_ready c) = cc_tracks (track_enable True a d)" by (simp add: u)
  have l: "track_live d a" using assms(2) track_live_cong [OF d(2)] by simp
  then show m: "mic_open a (unmute_ready c)" using mic_open_cong [OF t] by (simp add: mic_open_enable)
  then show "track_live (unmute_ready c) a"
    by (auto simp: mic_open_def track_live_def split: option.splits)
  show "cc_emitted (unmute_ready c) = cc_emitted c @ [CUnmute]" "cc_peer (unmute_ready c) = cc_peer c"
    by (simp_all add: u d)
  show "cc_audioTrack (unmute_ready c) = Some a" "cc_stream (unmute_ready c) = cc_stream c"
    by (simp_all add: u d cc_send_def cc_emit_def track_enable_def)
qed

text \<open>The bare space bar, on any system.\<close>

definition space_key :: key_event where
  "space_key = \<lparr>ke_key = '' '', ke_code = ''Space'', ke_meta = False, ke_ctrl = False,
     ke_shift = False, ke_alt = False\<rparr>"

lemma space_talks: "keyToAction mac Popout space_key = Some ''push-to-talk''"
proof -
  have "keyToAction True Popout space_key = Some ''push-to-talk''"
    "keyToAction False Popout space_key = Some ''push-to-talk''" by code_simp+
  then show ?thesis by (cases mac) (simp_all only:)
qed

definition space_with :: "bool \<Rightarrow> bool \<Rightarrow> bool \<Rightarrow> bool \<Rightarrow> key_event" where
  "space_with meta ctrl shift alt = \<lparr>ke_key = '' '', ke_code = ''Space'', ke_meta = meta, ke_ctrl = ctrl,
     ke_shift = shift, ke_alt = alt\<rparr>"

lemma space_with_talks:
  "keyToAction mac Popout (space_with m c sh al) = Some ''push-to-talk'' \<longleftrightarrow> \<not> (m \<or> c \<or> sh \<or> al)"
proof -
  have "\<forall>mac\<in>{True, False}. \<forall>m\<in>{True, False}. \<forall>c\<in>{True, False}. \<forall>sh\<in>{True, False}. \<forall>al\<in>{True, False}.
      (keyToAction mac Popout (space_with m c sh al) = Some ''push-to-talk'') = (\<not> (m \<or> c \<or> sh \<or> al))"
    by code_simp
  then show ?thesis by (cases mac; cases m; cases c; cases sh; cases al) simp_all
qed

text \<open>What the view does with keys and with its button while the space bar is held.\<close>

lemma held_keys:
  assumes "xv_pushToTalk (xs_view s)"
  shows "x_onMuteToggle q s = s"
    and "keyToAction (xw_mac h) Popout k \<in> {Some ''push-to-talk'', Some ''mute-unmute''} \<Longrightarrow>
      x_handleKBShortcuts h elsewhere q k s = (s, NoShare)"
proof -
  show m: "x_onMuteToggle q s = s" for q using assms by (simp add: x_onMuteToggle_def)
  assume "keyToAction (xw_mac h) Popout k \<in> {Some ''push-to-talk'', Some ''mute-unmute''}"
  then consider (talk) "keyToAction (xw_mac h) Popout k = Some ''push-to-talk''"
    | (mute) "keyToAction (xw_mac h) Popout k = Some ''mute-unmute''" by blast
  then show "x_handleKBShortcuts h elsewhere q k s = (s, NoShare)"
  proof cases
    case talk
    with assms show ?thesis by (simp add: x_handleKBShortcuts_def)
  next
    case mute
    with m show ?thesis by (simp add: x_handleKBShortcuts_def)
  qed
qed

text \<open>
  C22. Push to talk. In a view that listens to keys, pressing the bare space bar with the focus not in a field
  elsewhere opens the microphone of a call whose track is there. While it is held, its repetitions, the mute
  button and the keys for muting do nothing. Releasing it closes the microphone and ends push to talk exactly if it
  is released bare and with the focus not elsewhere; released with any modifier held, or with the focus in a
  field elsewhere, it changes nothing, so the microphone stays open.\<close>
theorem push_to_talk_works:
  assumes "view_client s = Some c" "cc_peer c" "cc_audioTrack c = Some a" "cc_stream c \<noteq> None"
    and "track_live c a" and "\<not> xv_pushToTalk (xs_view s)"
    and "xp_show p \<and> xs_opener s = None \<or> xs_opener s \<noteq> None"
    and "s1 = fst (x_handleKBShortcuts h False p space_key s)"
    and "s2 = handleKeyUp h elsewhere (space_with meta ctrl shift alt) s1"
  shows "(\<exists>c1. view_client s1 = Some c1 \<and> mic_open a c1) \<and>
    (\<forall>q. x_onMuteToggle q s1 = s1) \<and>
    (\<forall>e q k. keyToAction (xw_mac h) Popout k \<in> {Some ''push-to-talk'', Some ''mute-unmute''} \<longrightarrow>
       x_handleKBShortcuts h e q k s1 = (s1, NoShare)) \<and>
    (if elsewhere \<or> meta \<or> ctrl \<or> shift \<or> alt then s2 = s1
     else (\<exists>c2. view_client s2 = Some c2 \<and> \<not> mic_open a c2) \<and> \<not> xv_pushToTalk (xs_view s2))"
proof -
  have "unmute None c = unmute_ready c" using assms(2,3) by (simp add: unmute_def)
  note u = unmute_ready_client [OF assms(3,5), folded this]
  have shown: "\<not> ((\<not> xp_show p \<or> ev_client (xs_env s) = None) \<and> xs_opener s = None)"
    using assms(1,7) by (auto simp: view_client_def)
  have s1: "s1 = on_view (xv_pushToTalk_update (\<lambda>_. True)) (view_call (unmute None) s)"
    using assms(1,3,6) shown
    by (simp only: assms(8) x_handleKBShortcuts_def space_talks Let_def) (simp add: x_unmute_def)
  have c1: "view_client (view_call (unmute None) s) = Some (unmute None c)"
    by (rule view_call_client [where f = "unmute None", OF assms(1) u(1)]) (simp add: no_close_def)
  then have c1': "view_client s1 = Some (unmute None c)" by (simp add: s1)
  have talk: "xv_pushToTalk (xs_view s1)" by (simp add: s1)
  have st: "cc_stream (unmute None c) \<noteq> None" and pe: "cc_peer (unmute None c)"
    using assms(2,4) by (simp_all add: u)
  note m = mute_client [OF u(3) pe st u(6)]
  have s2: "s2 = (if elsewhere \<or> meta \<or> ctrl \<or> shift \<or> alt then s1
      else on_view (xv_pushToTalk_update (\<lambda>_. False)) (view_call mute s1))"
    using talk by (simp add: assms(9) handleKeyUp_def space_with_talks)
  have "view_client (view_call mute s1) = Some (mute (unmute None c))"
    by (rule view_call_client [where f = mute, OF c1' m(1)]) (simp add: no_close_def)
  then show ?thesis
    using c1' u(2) m(2) held_keys [OF talk] by (simp add: s2)
qed


definition talking_client :: calls_client where
  "talking_client = (audio_granted \<lparr>st_id = ''m'', st_tracks = [''a'']\<rparr> ''a'' (new_client plain_config 5))
     \<lparr>cc_peer := True\<rparr>"

definition talking_env :: env where
  "talking_env = sample_env\<lparr>ev_client := Some talking_client,
     ev_plugin := (init_root ''w'')\<lparr>rs_expandedView := True\<rparr>\<rparr>"

lemma push_to_talk_works_witness:
  "\<not> xv_pushToTalk (xs_view (handleKeyUp plain_xwindow False (space_with False False False False)
     (fst (x_handleKBShortcuts plain_xwindow False (xprops_of (\<lambda>a b. 0) no_rhs (getState talking_env))
        space_key (new_view talking_env None)))))"
proof -
  let ?p = "xprops_of (\<lambda>a b. 0) no_rhs (getState talking_env)"
  have "view_client (new_view talking_env None) = Some talking_client" "cc_peer talking_client"
    "cc_audioTrack talking_client = Some ''a''" "cc_stream talking_client \<noteq> None" "track_live talking_client ''a''"
    "\<not> xv_pushToTalk (xs_view (new_view talking_env None))"
    "xp_show ?p \<and> xs_opener (new_view talking_env None) = None \<or> xs_opener (new_view talking_env None) \<noteq> None"
    by (simp_all add: new_view_def view_client_def talking_env_def talking_client_def audio_granted_def
      track_live_def cc_emit_def init_xview_def xprops_of_def getState_def Let_def)
  from push_to_talk_works [OF this refl refl, of plain_xwindow False False False False False]
  show ?thesis by simp
qed

text \<open>
  Released with a modifier held, or with the focus in a field elsewhere, the space bar leaves the
  microphone as it is, open; and the view still believes that it is held, so muting with the button
  does nothing either.\<close>
theorem push_to_talk_sticks:
  assumes "xv_pushToTalk (xs_view s)" and "s1 = handleKeyUp h elsewhere ev s"
    and "elsewhere \<or> ke_key ev = '' '' \<and> ke_code ev = ''Space'' \<and>
      (ke_meta ev \<or> ke_ctrl ev \<or> ke_shift ev \<or> ke_alt ev)"
  shows "s1 = s \<and> x_onMuteToggle p s1 = s1"
proof -
  have "keyToAction (xw_mac h) Popout ev \<noteq> Some ''push-to-talk''" if "\<not> elsewhere"
  proof -
    from that assms(3) obtain m c sh a where ev: "ev = \<lparr>ke_key = '' '', ke_code = ''Space'',
        ke_meta = m, ke_ctrl = c, ke_shift = sh, ke_alt = a\<rparr>" and k: "m \<or> c \<or> sh \<or> a"
      by (cases ev) auto
    have "\<forall>mac\<in>{True, False}. \<forall>m\<in>{True, False}. \<forall>c\<in>{True, False}. \<forall>sh\<in>{True, False}. \<forall>a\<in>{True, False}.
        m \<or> c \<or> sh \<or> a \<longrightarrow>
        keyToAction mac Popout \<lparr>ke_key = '' '', ke_code = ''Space'', ke_meta = m, ke_ctrl = c,
          ke_shift = sh, ke_alt = a\<rparr> \<noteq> Some ''push-to-talk''"
      by code_simp
    with k ev show ?thesis by (cases m; cases c; cases sh; cases a; cases "xw_mac h") simp_all
  qed
  with assms(1,2) show ?thesis by (auto simp: handleKeyUp_def x_onMuteToggle_def)
qed

lemma push_to_talk_sticks_witness:
  "x_onMuteToggle sample_xprops (handleKeyUp plain_xwindow False (space_key\<lparr>ke_shift := True\<rparr>)
      ((new_view talking_env None)\<lparr>xs_view := init_xview\<lparr>xv_pushToTalk := True\<rparr>\<rparr>)) =
    handleKeyUp plain_xwindow False (space_key\<lparr>ke_shift := True\<rparr>)
      ((new_view talking_env None)\<lparr>xs_view := init_xview\<lparr>xv_pushToTalk := True\<rparr>\<rparr>)"
  by (rule push_to_talk_sticks [OF _ refl, THEN conjunct2]) (simp_all add: space_key_def)

text \<open>
  The first push to talk of a call asks the browser for the microphone. If the space bar is released
  before the browser answers, nothing is muted, and the answer opens the microphone for good.\<close>
theorem first_push_to_talk_stays_open:
  assumes "view_client s = Some c" "cc_peer c" "cc_audioTrack c = None"
    and "\<not> xv_pushToTalk (xs_view s)" and "xp_show p \<and> xs_opener s = None \<or> xs_opener s \<noteq> None"
    and "s1 = handleKeyUp h False space_key (fst (x_handleKBShortcuts h False p space_key s))"
    and "s2 = x_mic_answer (Some (st, a)) s1"
  shows "view_client s1 = Some c \<and> \<not> xv_pushToTalk (xs_view s2) \<and>
    (\<exists>c2. view_client s2 = Some c2 \<and> mic_open a c2)"
proof -
  have shown: "\<not> ((\<not> xp_show p \<or> ev_client (xs_env s) = None) \<and> xs_opener s = None)"
    using assms(1,5) by (auto simp: view_client_def)
  have down: "fst (x_handleKBShortcuts h False p space_key s) =
      xs_view_update (\<lambda>v. v\<lparr>xv_micWaits := Suc (xv_micWaits v), xv_pushToTalk := True\<rparr>) s"
    using assms(1-4) shown
    by (simp only: x_handleKBShortcuts_def space_talks Let_def) (simp add: x_unmute_def)
  have "mute c = c" using assms(3) by (simp add: mute_def)
  then have m: "view_client (view_call mute s') = Some c" if "view_client s' = Some c" for s'
    using view_call_client [where f = mute and evs = "[]", OF that] by simp
  have s1: "s1 = xs_view_update (\<lambda>v. v\<lparr>xv_pushToTalk := False\<rparr>)
      (view_call mute (fst (x_handleKBShortcuts h False p space_key s)))"
    by (simp add: assms(6) handleKeyUp_def space_talks down)
  have c1: "view_client s1 = Some c" using assms(1) by (simp add: s1 m down)
  have waits: "xv_micWaits (xs_view s1) \<noteq> 0" by (simp add: s1 down)
  let ?c2 = "unmute_ready (audio_granted st a c)"
  have g: "cc_audioTrack (audio_granted st a c) = Some a" "track_live (audio_granted st a c) a"
    by (simp_all add: audio_granted_def cc_emit_def track_live_def)
  note u = unmute_ready_client [OF g]
  have f: "unmute_answered (Some (st, a)) c = ?c2" using assms(2) by (simp add: unmute_answered_def)
  have "cc_emitted (unmute_answered (Some (st, a)) c) = cc_emitted c @ [CInitAudio, CUnmute]"
    unfolding f u(1) by (simp add: audio_granted_def)
  from view_call_client [where f = "unmute_answered (Some (st, a))", OF _ this, of "on_view (xv_micWaits_update (\<lambda>n. n - 1)) s1"]
  have "view_client s2 = Some ?c2" using c1 waits
    by (simp add: assms(7) x_mic_answer_def f no_close_def)
  with c1 u(2) show ?thesis by (simp add: assms(7) x_mic_answer_def s1)
qed

lemma first_push_to_talk_stays_open_witness:
  "let env = talking_env\<lparr>ev_client := Some ((new_client plain_config 5)\<lparr>cc_peer := True\<rparr>)\<rparr>;
       s1 = handleKeyUp plain_xwindow False space_key
              (fst (x_handleKBShortcuts plain_xwindow False
                 (xprops_of (\<lambda>a b. 0) no_rhs (getState env)) space_key (new_view env None)))
   in \<exists>c. view_client (x_mic_answer (Some (\<lparr>st_id = ''m'', st_tracks = [''a'']\<rparr>, ''a'')) s1) = Some c \<and>
     mic_open ''a'' c"
  unfolding Let_def
  by (rule first_push_to_talk_stays_open [where c = "(new_client plain_config 5)\<lparr>cc_peer := True\<rparr>",
        OF _ _ _ _ _ refl refl, THEN conjunct2, THEN conjunct2])
    (simp_all add: new_view_def view_client_def talking_env_def new_client_def init_xview_def
      xprops_of_def getState_def Let_def)


section \<open>Mounting\<close>

text \<open>
  A user without any audio input device who opens the view is not told so. The alert about the missing
  device is written first and lost, since the last \<open>setState\<close> of the batch starts from the alerts of
  before; and because that one reads the lost alert as not active, the view reports missing
  permissions instead.\<close>
theorem mount_reports_wrong_alert:
  assumes "view_client s = Some c" "cc_audioInputs c = []" "cc_audioTrack c = None"
    and "xs_opener s = None" "xs_view s = init_xview"
    and "v = xs_view (x_componentDidMount connected p s)"
  shows "\<not> al_active (as_alerts (xv_alerts v) MissingAudioInput) \<and>
    renderAlertBanner v = Some MissingAudioInputPermissions"
proof -
  have "as_alerts (xv_alerts v) = mount_alerts (xp_enableVideo p) c CallAlertStatesDefault"
    by (simp add: assms(6) x_mount_alerts mount_batch_def assms(1,4,5) init_xview_def init_alerts_def
        upd_alerts_def set_alerts_def)
  then show ?thesis
    by (simp add: mount_alerts_def spread_alert_def CallAlertStatesDefault_def assms(3)
        renderAlertBanner_def alert_ids_def Let_def)
qed

lemma mount_reports_wrong_alert_witness:
  "renderAlertBanner (xs_view (x_componentDidMount True sample_xprops
     (new_view (sample_env\<lparr>ev_client := Some (new_client plain_config 5)\<rparr>) None))) =
   Some MissingAudioInputPermissions"
  by (rule mount_reports_wrong_alert [where c = "new_client plain_config 5", OF _ _ _ _ _ refl, THEN conjunct2])
    (simp_all add: new_view_def view_client_def new_client_def)

section \<open>Two windows\<close>

definition dismissed_in :: "env \<Rightarrow> string \<Rightarrow> int option" where
  "dismissed_in e ch = Option.bind (obj_get (rs_recordings (ev_plugin e)) ch) jb_prompt_dismissed_at"

text \<open>
  Dismissing the prompt about the recording in the expanded view's own window dismisses it in the
  widget's window too, in both stores at the same time of the server.\<close>
theorem prompt_dismissed_in_both:
  assumes "xp_channel p = Some ch" "xs_opener s = Some (w, e)"
    and "s' = x_dismissRecordingPrompt p s"
  shows "\<exists>w' e'. xs_opener s' = Some (w', e') \<and>
    dismissed_in (xs_env s') (chn_id ch) = Some (serverDismissedAt (xp_callRecording p) (xp_callHostChangeAt p)) \<and>
    dismissed_in e' (chn_id ch) = dismissed_in (xs_env s') (chn_id ch)"
proof -
  have "dismissed_in (recordingPromptDismissedAt (chn_id ch) t e) (chn_id ch) = Some t" for t e
    by (simp add: dismissed_in_def recordingPromptDismissedAt_def Let_def)
  then show ?thesis by (simp add: assms x_dismissRecordingPrompt_def Let_def)
qed

lemma prompt_dismissed_in_both_witness:
  "\<exists>w' e'. xs_opener (x_dismissRecordingPrompt (xprops_of (\<lambda>a b. 0) no_rhs (getState recording_env))
      (new_view recording_env (Some (init_widget, sample_env)))) = Some (w', e') \<and>
    dismissed_in e' ''dm'' = Some 1"
proof -
  let ?p = "xprops_of (\<lambda>a b. 0) no_rhs (getState recording_env)"
  have c: "xp_channel ?p = Some (snd (hd (mm_channels sample_mm)))"
    by (simp add: xprops_of_def channelForCurrentCall_def channelIDForCurrentCall_def
        getCallsClientChannelID_def str_or_def recording_env_def sample_env_def sample_mm_def
        getState_def obj_get_def Let_def)
  have t: "serverDismissedAt (xp_callRecording ?p) (xp_callHostChangeAt ?p) = 1"
    by (simp add: xprops_of_def recordingForCurrentCall_def recording_env_def getState_def
        channelIDForCurrentCall_def getCallsClientChannelID_def str_or_def serverDismissedAt_def
        hostChangeAtForCurrentCall_def obj_get_def starting_job_def int_or_def
        empty_job_def init_root_def Let_def)
  show ?thesis
    using prompt_dismissed_in_both [OF c _ refl, of "new_view recording_env (Some (init_widget, sample_env))"
        init_widget sample_env]
    by (auto simp: t new_view_def sample_mm_def)
qed

text \<open>
  C24. A screen that is shared from the expanded view's own window is shared by the client of the widget's
  window, both windows take back their alert about missing permissions, and closing the view's window
  stops the sharing: the track ends.\<close>
theorem popout_share_ends_with_it:
  assumes "xs_opener s = Some (w, e)" "ev_client e = Some c" "cc_ws c = Some ws" "cc_peer c"
    and "cc_localScreenTrack c = None" "cw_popout w \<noteq> None"
    and "s' = x_share_answer (Some (sid, t, a)) s"
  shows "\<exists>w1 e1. xs_opener s' = Some (w1, e1) \<and> xv_screenStream (xs_view s') = Some sid \<and>
    \<not> alert_active w1 MissingScreenPermissions \<and>
    \<not> al_active (as_alerts (xv_alerts (xs_view s')) MissingScreenPermissions) \<and>
    map_option getLocalScreenStream (ev_client e1) = Some (Some t) \<and>
    (\<exists>c2. ev_client (snd (popout_unload (w1, e1))) = Some c2 \<and> getLocalScreenStream c2 = None \<and>
      \<not> track_live c2 t)"
proof -
  note sh = shared_fields [OF assms(3-5), of sid t a]
  let ?c1 = "setScreenStream sid t a c"
  have "cc_emitted ?c1 = cc_emitted c @ [CLocalScreenStream sid]"
    using assms(3-5) by (auto simp: setScreenStream_def Let_def)
  then have c1: "ev_client (client_call (setScreenStream sid t a) e) = Some ?c1"
    by (rule client_call_client [where f = "setScreenStream sid t a", OF assms(2)]) (simp add: no_close_def)
  let ?w = "w\<lparr>cw_popout := map_option (po_screenSharingTrackId_update (\<lambda>_. Some t)) (cw_popout w)\<rparr>"
  let ?o = "widget_setMissingScreenPermissions False False (?w, client_call (setScreenStream sid t a) e)"
  have o: "xs_opener s' = Some ?o" "xs_view s' = with_xalerts (spread_alert MissingScreenPermissions False)
      ((xs_view s)\<lparr>xv_screenStream := Some sid\<rparr>)"
    by (simp_all add: assms(1,7) x_share_answer_def note_sharing_track_def view_call_def
        x_setMissingScreenPermissions_def Let_def)
  obtain w1 e1 where st: "?o = (w1, e1)" by fastforce
  then have w1: "w1 = with_alerts (spread_alert MissingScreenPermissions False) ?w"
    and e1: "ev_client e1 = Some ?c1"
    by (auto simp: widget_setMissingScreenPermissions_def setMissingScreenPermissions_def
        set_call_data_def c1 Let_def)
  note u = unshared_fields [OF sh]
  have "cc_emitted (unshareScreen ?c1) = cc_emitted ?c1 @ []"
    using sh(1,3) by (simp add: unshareScreen_def)
  then have c2: "ev_client (client_call unshareScreen e1) = Some (unshareScreen ?c1)"
    by (rule client_call_client [where f = unshareScreen, OF e1]) simp
  have "popout_unload (w1, e1) = (w1, client_call unshareScreen e1)"
    using assms(6) sh(3) by (auto simp: popout_unload_def e1 w1 with_alerts_def getLocalScreenStream_def)
  then show ?thesis using o st sh(3) u(3,4) c2 e1
    by (simp add: w1 with_alerts_def with_xalerts_def alert_active_def upd_alerts_def spread_alert_def
        getLocalScreenStream_def)
qed

definition popout_widget :: widget where
  "popout_widget = init_widget\<lparr>cw_popout := Some \<lparr>po_closed = False, po_screenSharingTrackId = None\<rparr>\<rparr>"

definition connected_client :: calls_client where
  "connected_client = (new_client plain_config 5)\<lparr>cc_ws := Some opened_ws, cc_peer := True\<rparr>"

lemma popout_share_ends_with_it_witness:
  "\<exists>w1 e1. xs_opener (x_share_answer (Some (''m'', ''t'', None)) (new_view sample_env
      (Some (popout_widget, sample_env\<lparr>ev_client := Some connected_client\<rparr>)))) = Some (w1, e1) \<and>
    map_option getLocalScreenStream (ev_client e1) = Some (Some ''t'')"
proof -
  let ?s = "new_view sample_env (Some (popout_widget, sample_env\<lparr>ev_client := Some connected_client\<rparr>))"
  have "xs_opener ?s = Some (popout_widget, sample_env\<lparr>ev_client := Some connected_client\<rparr>)"
    by (simp add: new_view_def)
  moreover have "ev_client (sample_env\<lparr>ev_client := Some connected_client\<rparr>) = Some connected_client" by simp
  moreover have "cc_ws connected_client = Some opened_ws" "cc_peer connected_client"
    "cc_localScreenTrack connected_client = None" "cw_popout popout_widget \<noteq> None"
    by (simp_all add: connected_client_def new_client_def popout_widget_def)
  ultimately show ?thesis
    using popout_share_ends_with_it [OF _ _ _ _ _ _ refl, of ?s] by blast
qed

end
