(* ===== verification/Participants.thy ===== *)
theory Participants imports WidgetView begin

text \<open>
  The participants of a call as they are listed: the widget's list
  (\<open>call_widget/participants_list.tsx\<close>, \<open>call_widget/participant.tsx\<close>), the expanded view's list
  (\<open>expanded_view/call_participant_rhs.tsx\<close>) and grid (\<open>participants_grid.tsx\<close>,
  \<open>call_participant.tsx\<close>), the host's controls on them (\<open>expanded_view/hooks.ts\<close>,
  \<open>host_controls_menu.tsx\<close>) and the menu for leaving (\<open>leave_call_menu.tsx\<close>).
\<close>

section \<open>Host controls\<close>

text \<open>\<open>useHostControls\<close>: two flags of an element, and what follows from them.\<close>

record hover_state =
  hs_hover :: bool
  hs_sticky :: bool

definition hover_init :: hover_state where
  "hover_init = \<lparr>hs_hover = False, hs_sticky = False\<rparr>"

definition hoverOn :: "hover_state \<Rightarrow> hover_state" where
  "hoverOn s = s\<lparr>hs_hover := True\<rparr>"

definition hoverOff :: "hover_state \<Rightarrow> hover_state" where
  "hoverOff s = s\<lparr>hs_hover := False\<rparr>"

definition onOpenChange :: "bool \<Rightarrow> hover_state \<Rightarrow> hover_state" where
  "onOpenChange open s = \<lparr>hs_hover = open, hs_sticky = open\<rparr>"

definition hostControlsAvailable :: "bool \<Rightarrow> bool \<Rightarrow> bool \<Rightarrow> bool" where
  "hostControlsAvailable allowed isAdmin iAmHost = (allowed \<and> (iAmHost \<or> isAdmin))"

definition showHostControls :: "bool \<Rightarrow> bool \<Rightarrow> bool \<Rightarrow> hover_state \<Rightarrow> bool" where
  "showHostControls available isYou isHost s =
     (available \<and> hs_hover s \<and> \<not> (isYou \<and> isHost) \<or> hs_sticky s)"

datatype host_item = HMute | HScreenOff | HLowerHand | HMakeHost | HSeparator | HRemove

definition HostControlsMenu :: "string option \<Rightarrow> bool \<Rightarrow> bool \<Rightarrow> bool \<Rightarrow> bool \<Rightarrow> host_item list" where
  "HostControlsMenu callID muted isSharingScreen handUp isHost =
     (if str_of callID = [] then []
      else
        let showingAtLeastOne = (\<not> muted \<or> isSharingScreen \<or> handUp \<or> \<not> isHost)
        in (if muted then [] else [HMute]) @ (if isSharingScreen then [HScreenOff] else []) @
           (if handUp then [HLowerHand] else []) @ (if isHost then [] else [HMakeHost]) @
           (if showingAtLeastOne then [HSeparator] else []) @ [HRemove])"

text \<open>What choosing an item asks of the server; removing opens a dialog first.\<close>

fun host_item_click :: "string \<Rightarrow> string \<Rightarrow> string \<Rightarrow> host_item \<Rightarrow> env \<Rightarrow> env" where
  "host_item_click callID userID sessionID HMute = hostMute callID sessionID"
| "host_item_click callID userID sessionID HScreenOff = hostScreenOff callID sessionID"
| "host_item_click callID userID sessionID HLowerHand = hostLowerHand callID sessionID"
| "host_item_click callID userID sessionID HMakeHost = hostMake callID userID"
| "host_item_click callID userID sessionID HSeparator = id"
| "host_item_click callID userID sessionID HRemove = id"

datatype leave_item = LEndCall | LLeave | LCancel

definition LeaveCallMenu :: "bool \<Rightarrow> bool \<Rightarrow> nat \<Rightarrow> leave_item list" where
  "LeaveCallMenu isHost isAdmin numParticipants =
     (if (isHost \<or> isAdmin) \<and> numParticipants > 1 then [LEndCall] else []) @ [LLeave, LCancel]"

fun leave_item_click :: "string \<Rightarrow> (env \<Rightarrow> env) \<Rightarrow> leave_item \<Rightarrow> env \<Rightarrow> env" where
  "leave_item_click channelID leaveCall LEndCall = endCall channelID"
| "leave_item_click channelID leaveCall LLeave = leaveCall"
| "leave_item_click channelID leaveCall LCancel = id"

section \<open>Lists\<close>

text \<open>A row of a list; \<open>rw_controls\<close> is the menu behind the three dots.\<close>

record row_view =
  rw_name :: string
  rw_you :: bool
  rw_host :: bool
  rw_speaking :: bool
  rw_reaction :: "reaction option"
  rw_hand :: bool
  rw_sharing :: bool
  rw_controls :: "host_item list option"
  rw_video :: bool
  rw_muted :: bool

definition participant_row ::
  "(hover_state \<Rightarrow> bool \<Rightarrow> bool \<Rightarrow> bool) \<Rightarrow> hover_state \<Rightarrow> user_session \<Rightarrow> user_profile option \<Rightarrow>
   bool \<Rightarrow> bool \<Rightarrow> bool \<Rightarrow> string option \<Rightarrow> row_view option" where
  "participant_row shows hs s profile isYou isHost isSharingScreen callID =
     (case profile of
        None \<Rightarrow> None
      | Some u \<Rightarrow>
          let muted = (\<not> truthy_bool (us_unmuted s));
              handUp = num_gt (us_raised_hand s) (Some 0)
          in Some \<lparr>rw_name = getUserDisplayName (Some u) False, rw_you = isYou, rw_host = isHost,
               rw_speaking = truthy_bool (us_voice s), rw_reaction = us_reaction s,
               rw_hand = handUp, rw_sharing = isSharingScreen,
               rw_controls = (if shows hs isYou isHost
                              then Some (HostControlsMenu callID muted isSharingScreen handUp isHost)
                              else None),
               rw_video = truthy_bool (us_video s), rw_muted = muted\<rparr>)"

text \<open>What both lists are given.\<close>

record list_props =
  lp_sessions :: "user_session list"
  lp_profiles :: "(string, user_profile) obj"
  lp_callHostID :: string
  lp_currentSession :: "user_session option"
  lp_screenSharingSession :: "user_session option"
  lp_callID :: "string option"
  lp_controlsAllowed :: bool
  lp_isAdmin :: bool

definition i_am_host :: "list_props \<Rightarrow> bool" where
  "i_am_host p = (Option.bind (lp_currentSession p) us_user_id = Some (lp_callHostID p))"

definition list_row :: "(string option \<Rightarrow> hover_state) \<Rightarrow> list_props \<Rightarrow> user_session \<Rightarrow> row_view option" where
  "list_row hovers p s =
     (let iAmHost = i_am_host p;
          shows = (\<lambda>hs isYou isHost. showHostControls
                     (hostControlsAvailable (lp_controlsAllowed p) (lp_isAdmin p) iAmHost) isYou isHost hs)
      in participant_row shows (hovers (us_session_id s)) s
           (Option.bind (us_user_id s) (obj_get (lp_profiles p)))
           (us_session_id s = Option.bind (lp_currentSession p) us_session_id)
           (Some (lp_callHostID p) = us_user_id s)
           (Option.bind (lp_screenSharingSession p) us_session_id = us_session_id s)
           (lp_callID p))"

text \<open>\<open>some((s) => s.unmuted && s.user_id !== you)\<close>.\<close>

definition someone_else_unmuted :: "string option \<Rightarrow> user_session list \<Rightarrow> bool" where
  "someone_else_unmuted me ss = list_ex (\<lambda>s. truthy_bool (us_unmuted s) \<and> us_user_id s \<noteq> me) ss"

text \<open>The widget's list: is there a button that mutes the others, and the rows.\<close>

definition ParticipantsList ::
  "(string option \<Rightarrow> hover_state) \<Rightarrow> list_props \<Rightarrow> bool \<times> row_view option list" where
  "ParticipantsList hovers p =
     (hostControlsAvailable (lp_controlsAllowed p) (lp_isAdmin p) (i_am_host p) \<and>
        someone_else_unmuted (Option.bind (lp_currentSession p) us_user_id) (lp_sessions p),
      map (list_row hovers p) (lp_sessions p))"

section \<open>The grid\<close>

datatype tile_size = Small | Medium | Large | ExtraLarge

text \<open>\<open>tileSizesMap\<close>: width and height.\<close>

fun tileSizesMap :: "tile_size \<Rightarrow> int \<times> int" where
  "tileSizesMap Small = (96, 164)"
| "tileSizesMap Medium = (128, 204)"
| "tileSizesMap Large = (160, 236)"
| "tileSizesMap ExtraLarge = (208, 292)"

definition tileSpacing :: int where
  "tileSpacing = 8"

text \<open>
  The sizes are computed in hundredths of a pixel, so the margins of 12 per cent are whole numbers.
  A grid that is too narrow for one tile gives the quotient \<open>Infinity\<close>, which no height fits, or
  without sessions \<open>NaN\<close>, which no comparison accepts.\<close>

definition tilesPerRow :: "int \<Rightarrow> tile_size \<Rightarrow> int" where
  "tilesPerRow availableWidth sz =
     (availableWidth + 100 * tileSpacing) div (100 * (fst (tileSizesMap sz) + tileSpacing))"

definition ceil_div :: "int \<Rightarrow> int \<Rightarrow> int" where
  "ceil_div a b = - ((- a) div b)"

definition totalHeightNeeded :: "int \<Rightarrow> int \<Rightarrow> tile_size \<Rightarrow> int option" where
  "totalHeightNeeded availableWidth n sz =
     (if tilesPerRow availableWidth sz = 0 then None
      else Some (100 * (ceil_div n (tilesPerRow availableWidth sz) * (snd (tileSizesMap sz) + tileSpacing)
                   - tileSpacing)))"

definition hMargin :: "int \<Rightarrow> int" where
  "hMargin width = min (12 * width) 15000"

definition vMargin :: "int \<Rightarrow> int" where
  "vMargin height = 12 * height"

definition availableWidth :: "int \<Rightarrow> int" where
  "availableWidth width = 100 * width - 2 * hMargin width"

definition availableHeight :: "int \<Rightarrow> int" where
  "availableHeight height = 100 * height - 2 * vMargin height"

definition tile_fits :: "int \<Rightarrow> int \<Rightarrow> int \<Rightarrow> tile_size \<Rightarrow> bool" where
  "tile_fits width height n sz =
     (case totalHeightNeeded (availableWidth width) n sz of
        None \<Rightarrow> False | Some h \<Rightarrow> h \<le> availableHeight height)"

definition all_sizes :: "tile_size list" where
  "all_sizes = [ExtraLarge, Large, Medium, Small]"

text \<open>The size of the tiles and the paddings, vertical and horizontal, in pixels.\<close>

definition computeSizes :: "(int \<times> int) option \<Rightarrow> int \<Rightarrow> tile_size \<times> int \<times> int" where
  "computeSizes ref n = (case ref of
       None \<Rightarrow> (Small, 0, 0)
     | Some (width, height) \<Rightarrow>
         ((case find (tile_fits width height n) all_sizes of None \<Rightarrow> Small | Some sz \<Rightarrow> sz),
          vMargin height div 100, hMargin width div 100))"

record tile_view =
  tv_name :: string
  tv_muted :: bool
  tv_speaking :: bool
  tv_hand :: bool
  tv_reaction :: "reaction option"
  tv_host :: bool
  tv_controls :: "host_item list option"

text \<open>
  A tile: the hand hides the reaction. The menu is the host's, and here a screen is never being
  shared.\<close>

definition CallParticipant ::
  "bool \<Rightarrow> hover_state \<Rightarrow> string \<Rightarrow> user_session \<Rightarrow> bool \<Rightarrow> bool \<Rightarrow> string \<Rightarrow> tile_view" where
  "CallParticipant available hs name s isYou isHost callID =
     (let muted = (\<not> truthy_bool (us_unmuted s)); handUp = num_gt (us_raised_hand s) (Some 0)
      in \<lparr>tv_name = name, tv_muted = muted, tv_speaking = truthy_bool (us_voice s),
          tv_hand = handUp, tv_reaction = (if handUp then None else us_reaction s),
          tv_host = isHost,
          tv_controls = (if available \<and> showHostControls available isYou isHost hs
                         then Some (HostControlsMenu (Some callID) muted False handUp isHost)
                         else None)\<rparr>)"

definition ParticipantsGrid ::
  "(string option \<Rightarrow> hover_state) \<Rightarrow> string \<Rightarrow> list_props \<Rightarrow> tile_view list" where
  "ParticipantsGrid hovers currentUserID p =
     (let currentSessionID = str_of (Option.bind (lp_currentSession p) us_session_id);
          iAmHost = (currentUserID \<noteq> [] \<and> currentUserID = lp_callHostID p);
          available = hostControlsAvailable (lp_controlsAllowed p) (lp_isAdmin p) iAmHost
      in concat (map (\<lambda>s.
           case Option.bind (us_user_id s) (obj_get (lp_profiles p)) of
             None \<Rightarrow> []
           | Some u \<Rightarrow>
               let mine = (currentSessionID \<noteq> [] \<and> us_session_id s = Some currentSessionID)
               in [CallParticipant available (hovers (us_session_id s))
                     (getUserDisplayName (Some u) False @ '' '' @ (if mine then ''(you)'' else []))
                     s mine (up_id u = lp_callHostID p) (str_of (lp_callID p))])
           (lp_sessions p)))"

section \<open>Properties\<close>

lemma find_best: "find P xs = Some x \<Longrightarrow> P x \<and> (\<exists>as bs. xs = as @ x # bs \<and> (\<forall>y\<in>set as. \<not> P y))"
proof (induction xs)
  case (Cons a xs)
  show ?case
  proof (cases "P a")
    case True
    then show ?thesis using Cons.prems by (intro conjI exI [of _ "[]"] exI [of _ xs]) auto
  next
    case False
    then obtain as bs where "P x" "xs = as @ x # bs" "\<forall>y\<in>set as. \<not> P y" using Cons by auto
    with False show ?thesis by (intro conjI exI [of _ "a # as"] exI [of _ bs]) auto
  qed
qed simp

lemma ceil_div_bounds:
  assumes "0 < b"
  shows "a \<le> ceil_div a b * b" and "(ceil_div a b - 1) * b < a"
proof -
  have "(- a) div b * b + (- a) mod b = - a" by (rule div_mult_mod_eq)
  moreover have "ceil_div a b * b = - ((- a) div b * b)" by (simp add: ceil_div_def)
  ultimately have q: "ceil_div a b * b = a + (- a) mod b" by linarith
  have r: "0 \<le> (- a) mod b" "(- a) mod b < b" using assms by simp_all
  show "a \<le> ceil_div a b * b" using q r by linarith
  have "(ceil_div a b - 1) * b = ceil_div a b * b - b" by (simp add: algebra_simps)
  with q r show "(ceil_div a b - 1) * b < a" by linarith
qed

text \<open>The width of a row of tiles with their spacing, in hundredths.\<close>

definition row_width :: "int \<Rightarrow> tile_size \<Rightarrow> int" where
  "row_width k sz = 100 * (k * (fst (tileSizesMap sz) + tileSpacing) - tileSpacing)"

lemma tiles_in_row:
  assumes "0 < tilesPerRow w sz"
  shows "row_width (tilesPerRow w sz) sz \<le> w" and "w < row_width (tilesPerRow w sz + 1) sz"
proof -
  let ?b = "100 * (fst (tileSizesMap sz) + tileSpacing)"
  have b: "0 < ?b" by (cases sz) (simp_all add: tileSpacing_def)
  have "(w + 100 * tileSpacing) div ?b * ?b + (w + 100 * tileSpacing) mod ?b = w + 100 * tileSpacing"
    by (rule div_mult_mod_eq)
  moreover have "0 \<le> (w + 100 * tileSpacing) mod ?b" "(w + 100 * tileSpacing) mod ?b < ?b"
    using b by simp_all
  ultimately show "row_width (tilesPerRow w sz) sz \<le> w" "w < row_width (tilesPerRow w sz + 1) sz"
    unfolding row_width_def tilesPerRow_def by (simp_all add: algebra_simps)
qed

text \<open>
  C35. The grid lays its tiles out within the space that it has: unless the smallest size was taken because
  nothing fits, the rows hold all participants, and neither a row nor the stack of rows, with the
  spacing between tiles, exceeds the space between the margins; and no larger size would have fit.\<close>
theorem grid_fits:
  assumes "computeSizes (Some (width, height)) n = (sz, padV, padH)" and "0 \<le> width" "0 \<le> n"
    and "\<exists>x\<in>set all_sizes. tile_fits width height n x"
  shows "let k = tilesPerRow (availableWidth width) sz; rows = ceil_div n k
    in 0 < k \<and> n \<le> rows * k \<and> row_width k sz \<le> availableWidth width \<and>
       100 * (rows * (snd (tileSizesMap sz) + tileSpacing) - tileSpacing) \<le> availableHeight height \<and>
       (\<forall>bigger. fst (tileSizesMap bigger) > fst (tileSizesMap sz) \<longrightarrow> \<not> tile_fits width height n bigger)"
proof -
  obtain x where x: "find (tile_fits width height n) all_sizes = Some x"
    using assms(4) by (cases "find (tile_fits width height n) all_sizes") (auto simp: find_None_iff)
  then have "sz = x" using assms(1) by (simp add: computeSizes_def)
  then have fit: "tile_fits width height n sz"
    and first: "\<exists>as bs. all_sizes = as @ sz # bs \<and> (\<forall>y\<in>set as. \<not> tile_fits width height n y)"
    using find_best [OF x] by blast+
  let ?w = "availableWidth width"
  let ?k = "tilesPerRow ?w sz"
  have nz: "?k \<noteq> 0" and h: "100 * (ceil_div n ?k * (snd (tileSizesMap sz) + tileSpacing) - tileSpacing)
      \<le> availableHeight height"
    using fit by (auto simp: tile_fits_def totalHeightNeeded_def split: if_splits)
  have "0 \<le> ?w" using assms(2) by (simp add: availableWidth_def hMargin_def min_def)
  then have "0 \<le> ?k" by (cases sz) (simp_all add: tilesPerRow_def tileSpacing_def pos_imp_zdiv_nonneg_iff)
  with nz have k: "0 < ?k" by simp
  have "\<not> tile_fits width height n bigger" if "fst (tileSizesMap bigger) > fst (tileSizesMap sz)" for bigger
  proof -
    obtain as bs where s: "all_sizes = as @ sz # bs" "\<forall>y\<in>set as. \<not> tile_fits width height n y"
      using first by blast
    have "bigger \<in> set as"
      using that s(1) by (cases sz; cases bigger)
        (auto simp: all_sizes_def Cons_eq_append_conv)
    with s(2) show ?thesis by blast
  qed
  with k h ceil_div_bounds(1) [OF k] tiles_in_row(1) [OF k] show ?thesis by (simp add: Let_def)
qed

lemma grid_fits_witness:
  "let k = tilesPerRow (availableWidth 1000) Large
   in 0 < k \<and> 5 \<le> ceil_div 5 k * k \<and> row_width k Large \<le> availableWidth 1000"
proof -
  note defs = tile_fits_def totalHeightNeeded_def tilesPerRow_def availableWidth_def
    availableHeight_def hMargin_def vMargin_def tileSpacing_def ceil_div_def
  have "tile_fits 1000 700 5 Large" "\<not> tile_fits 1000 700 5 ExtraLarge" by (simp_all add: defs)
  then have "computeSizes (Some (1000, 700)) 5 = (Large, 84, 120)" and "\<exists>x\<in>set all_sizes. tile_fits 1000 700 5 x"
    by (simp_all add: computeSizes_def all_sizes_def hMargin_def vMargin_def)
  from grid_fits [OF this(1) _ _ this(2)] show ?thesis by (simp add: Let_def)
qed


definition profiles_keyed :: "(string, user_profile) obj \<Rightarrow> bool" where
  "profiles_keyed ps \<longleftrightarrow> (\<forall>uid u. obj_get ps uid = Some u \<longrightarrow> up_id u = uid)"

text \<open>
  The grid and the list offer the same controls on a participant: when nobody shares a screen, which is
  when the grid is shown, a tile has the menu of the participant's row in the list, so long as a menu
  that is open is one that the user may open.\<close>
theorem tile_and_row_controls_agree:
  assumes "profiles_keyed (lp_profiles p)" "us_user_id s = Some uid" "obj_get (lp_profiles p) uid = Some u"
    and "lp_currentSession p = Some me" "us_user_id me = Some myself" "us_session_id me = Some sid" "sid \<noteq> []"
    and "myself \<noteq> []" "lp_screenSharingSession p = None" "us_session_id s \<noteq> None" "str_of (lp_callID p) \<noteq> []"
    and "hs_sticky (hovers (us_session_id s)) \<longrightarrow>
      hostControlsAvailable (lp_controlsAllowed p) (lp_isAdmin p) (i_am_host p)"
  shows "map tv_controls (ParticipantsGrid hovers myself (p\<lparr>lp_sessions := [s]\<rparr>)) =
    [Option.bind (list_row hovers p s) rw_controls]"
proof -
  have u: "up_id u = uid" using assms(1,3) by (auto simp: profiles_keyed_def)
  have me: "i_am_host p = (myself = lp_callHostID p)" using assms(4,5) by (simp add: i_am_host_def)
  have host: "(lp_callHostID p = uid) = (uid = lp_callHostID p)" by blast
  obtain cid where "lp_callID p = Some cid" using assms(11) by (cases "lp_callID p") auto
  with assms show ?thesis
    by (auto simp: ParticipantsGrid_def list_row_def participant_row_def CallParticipant_def u me host
        showHostControls_def i_am_host_def Let_def)
qed

definition sample_list :: list_props where
  "sample_list = \<lparr>lp_sessions = [], lp_profiles = [(''you'', you)], lp_callHostID = ''me'',
     lp_currentSession = Some (empty_session\<lparr>us_user_id := Some ''me'', us_session_id := Some ''1''\<rparr>),
     lp_screenSharingSession = None, lp_callID = Some ''dm'', lp_controlsAllowed = True, lp_isAdmin = False\<rparr>"

lemma tile_and_row_controls_agree_witness:
  "map tv_controls (ParticipantsGrid (\<lambda>_. hoverOn hover_init) ''me'' (sample_list\<lparr>lp_sessions :=
      [empty_session\<lparr>us_user_id := Some ''you'', us_session_id := Some ''2''\<rparr>]\<rparr>)) =
    [Option.bind (list_row (\<lambda>_. hoverOn hover_init) sample_list
       (empty_session\<lparr>us_user_id := Some ''you'', us_session_id := Some ''2''\<rparr>)) rw_controls]"
  by (rule tile_and_row_controls_agree [where uid = "''you''" and u = you and sid = "''1''"
        and me = "empty_session\<lparr>us_user_id := Some ''me'', us_session_id := Some ''1''\<rparr>"])
    (simp_all add: sample_list_def profiles_keyed_def you_def obj_get_Cons hover_init_def hoverOn_def)

end
