(* ===== verification/ExpandedRender.thy ===== *)
theory ExpandedRender imports ExpandedView Participants begin

text \<open>
  What the expanded view draws (the render methods of \<open>components/expanded_view/component.tsx\<close>), with
  the dialogs that it opens. Texts are the default messages; styles are left out except that the banner
  and the videos take height from the screen player.
\<close>

section \<open>Videos\<close>

record video_view =
  vv_stream :: "string option"
  vv_name :: string
  vv_muted :: bool
  vv_video :: bool
  vv_speaking :: bool
  vv_mirror :: bool

definition you_suffix :: string where
  "you_suffix = ''(you)''"

definition session_video :: "user_session \<Rightarrow> bool" where
  "session_video s = truthy_bool (us_video s)"

definition some_video :: "user_session list \<Rightarrow> bool" where
  "some_video ss = list_ex session_video ss"

definition own_video :: "xprops \<Rightarrow> bool" where
  "own_video p = (case xp_currentSession p of None \<Rightarrow> False | Some s \<Rightarrow> session_video s)"

definition videoProfile :: "string option \<Rightarrow> string \<Rightarrow> user_session \<Rightarrow> bool \<Rightarrow> video_view" where
  "videoProfile stream name s mirror = \<lparr>vv_stream = stream, vv_name = name,
     vv_muted = (\<not> truthy_bool (us_unmuted s)), vv_video = session_video s,
     vv_speaking = truthy_bool (us_voice s), vv_mirror = mirror\<rparr>"

definition self_profile :: "xprops \<Rightarrow> user_profile option" where
  "self_profile p = obj_get (xp_profiles p) (xp_currentUserID p)"

definition x_other_session :: "xprops \<Rightarrow> user_session option" where
  "x_other_session p = (case xp_otherSessions p of [] \<Rightarrow> None | s # _ \<Rightarrow> Some s)"

text \<open>\<open>mirror\<close>: the user's setting to mirror the own video.\<close>

definition renderTopVideoContainer :: "bool \<Rightarrow> xprops \<Rightarrow> xview \<Rightarrow> video_view list" where
  "renderTopVideoContainer mirror p v =
     (case (self_profile p, xp_currentSession p) of
        (Some u, Some s) \<Rightarrow> [videoProfile (xv_selfVideoStream v) you_suffix s mirror] | _ \<Rightarrow> []) @
     (case (xp_screenSharingSession p, xp_connectedDMUser p, x_other_session p) of
        (Some _, Some u, Some s) \<Rightarrow>
          [videoProfile (xv_otherVideoStream v) (getUserDisplayName (Some u) False) s False]
      | _ \<Rightarrow> [])"

text \<open>
  In the speaker's view the other user, or alone the user; \<open>session === selfSession\<close> compares
  objects, which are one only when the user is alone.\<close>

definition renderSpeakerView :: "bool \<Rightarrow> xprops \<Rightarrow> xview \<Rightarrow> video_view list" where
  "renderSpeakerView mirror p v =
     (let alone = (xp_otherSessions p = []);
          session = (if alone then xp_currentSession p else x_other_session p);
          profile = (if alone then self_profile p else xp_connectedDMUser p)
      in case (profile, session) of
           (Some u, Some s) \<Rightarrow>
             [videoProfile (if alone then xv_selfVideoStream v else xv_otherVideoStream v)
                (getUserDisplayName (Some u) False @ (if alone then '' '' @ you_suffix else []))
                s (alone \<and> mirror)]
         | _ \<Rightarrow> [])"

definition renderGridView :: "bool \<Rightarrow> xprops \<Rightarrow> xview \<Rightarrow> video_view list" where
  "renderGridView mirror p v =
     (let profile = (if xp_otherSessions p = [] then self_profile p else xp_connectedDMUser p)
      in (case (xp_connectedDMUser p, x_other_session p) of
            (Some u, Some s) \<Rightarrow>
              [videoProfile (xv_otherVideoStream v) (getUserDisplayName profile False) s False]
          | _ \<Rightarrow> []) @
         (case (self_profile p, xp_currentSession p) of
            (Some u, Some s) \<Rightarrow>
              [videoProfile (xv_selfVideoStream v)
                 (getUserDisplayName (Some u) False @ '' '' @ you_suffix) s mirror]
          | _ \<Rightarrow> []))"

definition renderVideoContainer :: "bool \<Rightarrow> xprops \<Rightarrow> xview \<Rightarrow> video_view list" where
  "renderVideoContainer mirror p v =
     (if xv_speaker v then renderSpeakerView mirror p v
      else if xp_screenSharingSession p = None then renderGridView mirror p v else [])"

section \<open>Screen sharing\<close>

definition x_sharing :: "xprops \<Rightarrow> bool" where
  "x_sharing p = same_session (xp_screenSharingSession p) (xp_currentSession p)"

text \<open>The player: the message, and the height in pixels that other parts take.\<close>

definition heightAllowance :: "xprops \<Rightarrow> xview \<Rightarrow> int" where
  "heightAllowance p v =
     (if shouldRenderAlertBanner v then 164 else 124) +
     (if own_video p \<and> xp_otherSessions p \<noteq> [] \<or> some_video (xp_otherSessions p) then 96 else 0)"

definition renderScreenSharingPlayer :: "xprops \<Rightarrow> xview \<Rightarrow> (string \<times> int) option" where
  "renderScreenSharingPlayer p v =
     (if x_sharing p then Some (''You're sharing your screen'', heightAllowance p v)
      else
        let presenter = find (\<lambda>s. us_session_id s =
                          Option.bind (xp_screenSharingSession p) us_session_id) (xp_sessions p);
            profile = Option.bind presenter (\<lambda>s. Option.bind (us_user_id s) (obj_get (xp_profiles p)))
        in case profile of
             None \<Rightarrow> None
           | Some u \<Rightarrow> Some (''You're viewing '' @ getUserDisplayName (Some u) False @ [CHR 0x27] @
                              ''s screen'', heightAllowance p v))"

section \<open>Lists and badges\<close>

definition x_list_props :: "xprops \<Rightarrow> list_props" where
  "x_list_props p = \<lparr>lp_sessions = xp_sessions p, lp_profiles = xp_profiles p,
     lp_callHostID = xp_callHostID p, lp_currentSession = xp_currentSession p,
     lp_screenSharingSession = xp_screenSharingSession p, lp_callID = map_option chn_id (xp_channel p),
     lp_controlsAllowed = xp_hostControlsAllowed p, lp_isAdmin = xp_isAdmin p\<rparr>"

definition renderParticipantsRHSList :: "(string option \<Rightarrow> hover_state) \<Rightarrow> xprops \<Rightarrow> row_view option list" where
  "renderParticipantsRHSList hovers p = map (list_row hovers (x_list_props p)) (xp_sessions p)"

text \<open>The badge: with a spinner while the recording has not started; the host may click it then.\<close>

definition x_renderRecordingBadge :: "xprops \<Rightarrow> (bool \<times> bool) option" where
  "x_renderRecordingBadge p =
     (let rec = xp_callRecording p; isHost = (xp_callHostID p = xp_currentUserID p);
          started = truthy_int (Option.bind rec jb_start_at)
      in if \<not> truthy_int (Option.bind rec jb_init_at) \<or> truthy_int (Option.bind rec jb_end_at) then None
         else if \<not> isHost \<and> \<not> started then None
         else if str_of (Option.bind rec jb_err) \<noteq> [] then None
         else Some (\<not> started, started \<and> isHost))"

text \<open>The number on the chat button: \<open>None\<close> is a mere dot, and more than 99 are not told apart.\<close>

definition unreadIndicator :: "int option \<Rightarrow> (bool \<times> int) option" where
  "unreadIndicator mentions =
     (if \<not> truthy_int mentions then None
      else if num_gt mentions (Some 99) then Some (True, 99) else Some (False, int_or mentions 0))"

section \<open>The whole view\<close>

definition x_mute_button :: "bool \<Rightarrow> alerts \<Rightarrow> button_view" where
  "x_mute_button muted a =
     (let b = mute_button muted a;
          unavailable = bv_unavailable b
      in if unavailable then b else b\<lparr>bv_subtext := (if muted then ''Or hold space bar'' else [])\<rparr>)"

definition x_share_button :: "xprops \<Rightarrow> xview \<Rightarrow> button_view" where
  "x_share_button p v =
     (let no = al_active (as_alerts (xv_alerts v) MissingScreenPermissions);
          sharingID = Option.bind (xp_screenSharingSession p) us_session_id;
          cfg = CallAlertConfigs MissingScreenPermissions
      in \<lparr>bv_text = (if no then ac_tooltipText cfg
                     else if x_sharing p then ''Stop presenting'' else ''Start presenting''),
          bv_subtext = (if no then ac_tooltipSubtext cfg else []), bv_shortcut = (\<not> no),
          bv_unavailable = no, bv_disabled = (str_of sharingID \<noteq> [] \<and> \<not> x_sharing p),
          bv_acts = True\<rparr>)"

record chat_view =
  cv_text :: string
  cv_disabled :: bool
  cv_unread :: "(bool \<times> int) option option"

definition chat_button :: "(team \<Rightarrow> string) \<Rightarrow> xprops \<Rightarrow> chat_view" where
  "chat_button display_name p =
     (let open = (xp_isRhsOpen p = Some True \<and> xp_rhsSelectedThreadID p = Some (xp_threadID p));
          other = (case xp_channelTeam p of None \<Rightarrow> None
                   | Some t \<Rightarrow> if tm_id t \<noteq> xp_currentTeamID p then Some t else None)
      in \<lparr>cv_text = (case other of
             Some t \<Rightarrow> ''Chat unavailable: different team selected. Click here to switch back to '' @
                        xp_channelDisplayName p @ '' in '' @ display_name t @ ''.''
           | None \<Rightarrow> if open then ''Hide chat'' else ''Show chat''),
          cv_disabled = (other \<noteq> None),
          cv_unread = (if other = None \<and> truthy_int (xp_threadUnreadReplies p)
                       then Some (unreadIndicator (xp_threadUnreadMentions p)) else None)\<rparr>)"

datatype main_area =
    AreaGrid "tile_view list"
  | AreaVideos "video_view list"
  | AreaScreen "(string \<times> int) option"
  | AreaEmpty

record x_rendered =
  xr_banner :: "alert_id option"
  xr_badge :: "(bool \<times> bool) option"
  xr_switch :: "string option"
  xr_top :: "video_view list option"
  xr_main :: main_area
  xr_captions :: bool
  xr_count :: nat
  xr_mute :: button_view
  xr_video :: "button_view option"
  xr_share :: "button_view option"
  xr_record :: "string option"
  xr_chat :: "chat_view option"
  xr_leave :: leave_button
  xr_list :: "(bool \<times> row_view option list) option"
  xr_prompt :: prompt
  xr_removeConfirmation :: "user_profile option option"

definition x_prompt_props :: "xprops \<Rightarrow> prompt_props" where
  "x_prompt_props p = \<lparr>pp_isHost = (xp_callHostID p = xp_currentUserID p),
     pp_recording = xp_callRecording p, pp_recordingMaxDuration = xp_recordingMaxDuration p,
     pp_hostChangeAt = xp_callHostChangeAt p, pp_transcriptionsEnabled = xp_transcriptionsEnabled p\<rparr>"

definition main_area_of :: "(string option \<Rightarrow> hover_state) \<Rightarrow> bool \<Rightarrow> xprops \<Rightarrow> xview \<Rightarrow> main_area" where
  "main_area_of hovers mirror p v =
     (let videos = (own_video p \<or> some_video (xp_otherSessions p))
      in if xp_screenSharingSession p \<noteq> None then AreaScreen (renderScreenSharingPlayer p v)
         else if videos then AreaVideos (renderVideoContainer mirror p v)
         else if xp_currentSession p \<noteq> None \<and> xp_channel p \<noteq> None
         then AreaGrid (ParticipantsGrid hovers (xp_currentUserID p) (x_list_props p))
         else AreaEmpty)"

definition render_expanded ::
  "(string option \<Rightarrow> hover_state) \<Rightarrow> bool \<Rightarrow> (team \<Rightarrow> string) \<Rightarrow> int \<Rightarrow> int \<Rightarrow> xprops \<Rightarrow> xs \<Rightarrow> x_rendered option" where
  "render_expanded hovers mirror display_name soon now p s =
     (if (\<not> xp_show p \<or> ev_client (xs_env s) = None) \<and> xs_opener s = None then None
      else if view_client s = None then None
      else
        let v = xs_view s; a = as_alerts (xv_alerts v);
            isHost = (xp_callHostID p = xp_currentUserID p);
            videos = (own_video p \<or> some_video (xp_otherSessions p));
            top = ((xv_speaker v \<or> xp_screenSharingSession p \<noteq> None) \<and>
                   (own_video p \<and> xp_otherSessions p \<noteq> [] \<or> some_video (xp_otherSessions p)));
            muteOthers = (hostControlsAvailable (xp_hostControlsAllowed p) (xp_isAdmin p) isHost \<and>
                          someone_else_unmuted (Some (xp_currentUserID p)) (xp_sessions p))
        in Some \<lparr>
          xr_banner = renderAlertBanner v,
          xr_badge = x_renderRecordingBadge p,
          xr_switch = (if xp_enableVideo p \<and> xp_screenSharingSession p = None \<and> videos \<and> xp_otherSessions p \<noteq> []
                       then Some (if xv_speaker v then ''Switch to grid view'' else ''Switch to speaker view'')
                       else None),
          xr_top = (if top then Some (renderTopVideoContainer mirror p v) else None),
          xr_main = main_area_of hovers mirror p v,
          xr_captions = xv_showLiveCaptions v,
          xr_count = length (xp_sessions p),
          xr_mute = x_mute_button (x_isMuted p) a,
          xr_video = (if xp_enableVideo p then Some (video_button (x_isVideoOn p) a) else None),
          xr_share = (if xp_allowScreenSharing p then Some (x_share_button p v) else None),
          xr_record = (if isHost \<and> xp_recordingsEnabled p
                       then Some (if xp_isRecording p then ''Stop recording'' else ''Record call'') else None),
          xr_chat = (if xp_selectRhsPost p then Some (chat_button display_name p) else None),
          xr_leave = leave_button (isDMChannel (xp_channel p)) isHost (xp_isAdmin p) (length (xp_sessions p)),
          xr_list = (if xv_showParticipantsList v
                     then Some (muteOthers, renderParticipantsRHSList hovers p) else None),
          xr_prompt = RecordingInfoPrompt (x_prompt_props p)
            (Option.bind (xs_opener s) (\<lambda>st. if ev_callData (snd st)
               then Some (ccd_recordingPromptDismissedAt (ev_callDataDefault (snd st))) else None)) soon now,
          xr_removeConfirmation = (case xv_removeConfirmation v of
              None \<Rightarrow> None
            | Some (sid, uid) \<Rightarrow> if obj_get (xp_sessionsMap p) sid = None then None
                               else Some (obj_get (xp_profiles p) uid))\<rparr>)"

section \<open>Dialogs\<close>

text \<open>\<open>stop_recording_confirmation.tsx\<close>: the header, and what confirming asks for.\<close>

definition StopRecordingConfirmation :: "global_state \<Rightarrow> string \<Rightarrow> string \<times> (env \<Rightarrow> env)" where
  "StopRecordingConfirmation gs channelID =
     (if transcriptionsEnabled gs then ''Stop recording and transcription'' else ''Stop recording'',
      stopCallRecording channelID)"

section \<open>Properties\<close>

text \<open>
  Whoever shares, the main area of the view is the screen, with the presenter's name or the note that it
  is the user's own; it is empty only when the presenter is not among the sessions with a profile.\<close>
theorem screen_is_shown:
  assumes "xp_screenSharingSession p = Some sh" "us_session_id sh = Some sid"
    and "s \<in> set (xp_sessions p)" "us_session_id s = Some sid"
    and "\<forall>s'\<in>set (xp_sessions p). us_session_id s' = Some sid \<longrightarrow> us_user_id s' = Some uid"
    and "obj_get (xp_profiles p) uid = Some u"
  shows "\<exists>msg h. main_area_of hovers mirror p v = AreaScreen (Some (msg, h)) \<and>
    (msg = ''You're sharing your screen'') = x_sharing p \<and>
    (h > 124 \<longleftrightarrow> shouldRenderAlertBanner v \<or> own_video p \<and> xp_otherSessions p \<noteq> [] \<or>
       some_video (xp_otherSessions p))"
proof -
  obtain s' where f: "find (\<lambda>x. us_session_id x = Some sid) (xp_sessions p) = Some s'"
    using assms(3,4) by (cases "find (\<lambda>x. us_session_id x = Some sid) (xp_sessions p)")
      (auto simp: find_None_iff)
  then have "us_user_id s' = Some uid" using assms(5) nth_mem by (fastforce simp: find_Some_iff)
  with f assms(1,2,6) show ?thesis
    by (auto simp: main_area_of_def renderScreenSharingPlayer_def heightAllowance_def Let_def)
qed

text \<open>What the widget hands to its list; the host's controls read the store themselves.\<close>

definition w_list_props :: "global_state \<Rightarrow> widget_props \<Rightarrow> list_props" where
  "w_list_props gs p = \<lparr>lp_sessions = wp_sessions p, lp_profiles = wp_profiles p,
     lp_callHostID = wp_callHostID p, lp_currentSession = wp_currentSession p,
     lp_screenSharingSession = wp_screenSharingSession p, lp_callID = map_option chn_id (wp_channel p),
     lp_controlsAllowed = areHostControlsAllowed gs, lp_isAdmin = mm_isCurrentUserSystemAdmin (gs_mm gs)\<rparr>"

text \<open>
  C14. From one store the two windows show one call: the same participants in the same order with the same
  controls, the same button for muting the others, the same microphone, recording badge and way to
  leave.\<close>
theorem windows_agree:
  assumes "gs_client gs = Some c" "cc_channelID c \<noteq> []"
    and "sessionForCurrentCall gs = Some s" "us_user_id s = Some (mm_currentUserID (gs_mm gs))"
    and "w = widgetProps lc n global starting gs" "x = xprops_of lc rhs gs"
    and "isHost = (xp_callHostID x = xp_currentUserID x)"
  shows "xp_channel x = wp_channel w \<and> x_isMuted x = isMuted w \<and> x_isHandRaised x = CallWidget.isHandRaised w \<and>
    ParticipantsList hovers (w_list_props gs w) =
      (hostControlsAvailable (xp_hostControlsAllowed x) (xp_isAdmin x) isHost \<and>
         someone_else_unmuted (Some (xp_currentUserID x)) (xp_sessions x),
       renderParticipantsRHSList hovers x) \<and>
    map_option fst (x_renderRecordingBadge x) =
      renderRecordingBadge (wp_callHostID w = wp_currentUserID w) (wp_callRecording w) \<and>
    leave_button (isDMChannel (xp_channel x)) isHost (xp_isAdmin x) (length (xp_sessions x)) =
      leave_button (isDMChannel (wp_channel w)) (wp_callHostID w = wp_currentUserID w) (wp_isAdmin w)
        (length (wp_sessions w))"
proof -
  have ch: "wp_channel w = xp_channel x"
    using assms(1,2) by (simp add: assms(5,6) widgetProps_def xprops_of_def channelForCurrentCall_def
        channelIDForCurrentCall_def getCallsClientChannelID_def str_or_def js_key_def Let_def)
  have lists: "w_list_props gs w = x_list_props x"
    using ch by (simp add: w_list_props_def x_list_props_def)
      (simp add: assms(5,6) widgetProps_def xprops_of_def Let_def)
  have cur: "lp_currentSession (x_list_props x) = Some s"
    using assms(3) by (simp add: assms(6) x_list_props_def xprops_of_def Let_def)
  have host: "i_am_host (x_list_props x) = isHost"
    using assms(4) cur by (auto simp: i_am_host_def assms(6,7) x_list_props_def xprops_of_def Let_def)
  have "ParticipantsList hovers (x_list_props x) =
      (hostControlsAvailable (xp_hostControlsAllowed x) (xp_isAdmin x) isHost \<and>
         someone_else_unmuted (Some (xp_currentUserID x)) (xp_sessions x),
       renderParticipantsRHSList hovers x)"
    using assms(4) by (simp add: ParticipantsList_def host cur)
      (simp add: x_list_props_def renderParticipantsRHSList_def assms(6) xprops_of_def Let_def)
  moreover have "map_option fst (x_renderRecordingBadge x) =
      renderRecordingBadge (wp_callHostID w = wp_currentUserID w) (wp_callRecording w)"
    by (simp add: x_renderRecordingBadge_def renderRecordingBadge_def assms(5,6) widgetProps_def
        xprops_of_def Let_def)
  ultimately show ?thesis
    using ch by (simp add: lists)
      (simp add: assms(5-7) x_isMuted_def isMuted_def x_isHandRaised_def CallWidget.isHandRaised_def
        widgetProps_def xprops_of_def Let_def)
qed


definition both_windows :: global_state where
  "both_windows = getState (sample_env\<lparr>
     ev_client := Some ((new_client plain_config 5)\<lparr>cc_channelID := ''dm''\<rparr>),
     ev_plugin := (init_root ''w'')\<lparr>rs_sessions :=
       [(''dm'', [([], empty_session\<lparr>us_user_id := Some ''me''\<rparr>)])]\<rparr>\<rparr>)"

lemma windows_agree_witness:
  "x_isMuted (xprops_of (\<lambda>a b. 0) no_rhs both_windows) =
   isMuted (widgetProps (\<lambda>a b. 0) 1 False False both_windows)"
  by (rule windows_agree [where c = "(new_client plain_config 5)\<lparr>cc_channelID := ''dm''\<rparr>"
          and s = "empty_session\<lparr>us_user_id := Some ''me''\<rparr>",
        OF _ _ _ _ refl refl refl, THEN conjunct2, THEN conjunct1])
    (simp_all add: both_windows_def getState_def sessionForCurrentCall_def session_at_def
      sessionsInCalls_def channelIDForCurrentCall_def getCallsClientChannelID_def
      getCallsClientSessionID_def getSessionID_def new_client_def str_or_def obj_get_Cons
      sample_env_def sample_mm_def)

end
