(* ===== verification/UserSettings.thy ===== *)
theory UserSettings imports WidgetView begin

text \<open>
  The user's settings of devices: the sections for audio, video and screen sharing in the host
  application's settings (\<open>components/user_settings\<close>), and the menu of the expanded view that switches
  devices in a call (\<open>expanded_view/call_settings.tsx\<close>).

  An option of a select is a device: its value is the id. The tracks of a preview are ids.
\<close>

section \<open>Choosing an option\<close>

definition first_option :: "device list \<Rightarrow> device" where
  "first_option devs = (case devs of [] \<Rightarrow> \<lparr>dv_deviceId = [], dv_label = []\<rparr> | d # _ \<Rightarrow> d)"

text \<open>The option for what is stored.\<close>

definition stored_option :: "stored_data \<Rightarrow> device list \<Rightarrow> device" where
  "stored_option stored devs =
     (let def = parse_stored stored;
          sel = filter (\<lambda>d. dv_deviceId d = sd_deviceId def \<or> Some (dv_label d) = sd_label def) devs;
          sel' = (if length sel > 1 then filter (\<lambda>d. dv_deviceId d = sd_deviceId def) sel else sel)
      in case sel' of d # _ \<Rightarrow> d | [] \<Rightarrow> first_option devs)"

definition getOption :: "device option \<Rightarrow> stored_data \<Rightarrow> device list \<Rightarrow> device" where
  "getOption selectedOption stored devs =
     (case selectedOption of Some d \<Rightarrow> d | None \<Rightarrow> stored_option stored devs)"

section \<open>Audio devices\<close>

text \<open>The section and, while it is open, its two selects; what is stored beside it.\<close>

record audio_section =
  as_active :: bool
  as_inputs :: "device list"
  as_outputs :: "device list"
  as_selectedInput :: "device option"
  as_selectedOutput :: "device option"

record audio_stored =
  st_input :: stored_data
  st_output :: stored_data

definition init_audio_section :: audio_section where
  "init_audio_section = \<lparr>as_active = False, as_inputs = [], as_outputs = [], as_selectedInput = None,
     as_selectedOutput = None\<rparr>"

definition audio_open :: "audio_section \<Rightarrow> audio_section" where
  "audio_open s = s\<lparr>as_active := True\<rparr>"

text \<open>Closing the section unmounts the selects.\<close>

definition audio_close :: "audio_section \<Rightarrow> audio_section" where
  "audio_close s = s\<lparr>as_active := False, as_selectedInput := None, as_selectedOutput := None\<rparr>"

text \<open>\<open>loadAudioDevices\<close>; none when the permission was denied or the devices could not be listed.\<close>

definition loadAudioDevices :: "(device list \<times> device list) option \<Rightarrow> audio_section \<Rightarrow> audio_section" where
  "loadAudioDevices answer s =
     (case answer of None \<Rightarrow> s | Some (ins, outs) \<Rightarrow> s\<lparr>as_inputs := ins, as_outputs := outs\<rparr>)"

definition audio_save :: "audio_section \<Rightarrow> audio_stored \<Rightarrow> audio_section \<times> audio_stored" where
  "audio_save s st =
     (if \<not> as_active s then (s, st)
      else (audio_close s,
            \<lparr>st_input = stored_of (getOption (as_selectedInput s) (st_input st) (as_inputs s)),
             st_output = stored_of (getOption (as_selectedOutput s) (st_output st) (as_outputs s))\<rparr>))"

section \<open>Video devices\<close>

text \<open>
  \<open>vs_preview\<close> is the stream in the state, \<open>vs_live\<close> are the camera tracks of previews that are not
  stopped, \<open>vs_waits\<close> the selections that wait for the browser.\<close>

record video_section =
  vs_mounted :: bool
  vs_active :: bool
  vs_devices :: "device list"
  vs_selected :: "device option"
  vs_initialSet :: bool
  vs_preview :: "string option"
  vs_live :: "string list"
  vs_waits :: nat
  vs_mirror :: bool
  vs_blur :: bool
  vs_intensity :: int

record video_stored =
  vt_input :: stored_data
  vt_mirror :: bool
  vt_blur :: "bool \<times> int"

definition init_video_section :: "video_stored \<Rightarrow> video_section" where
  "init_video_section st = \<lparr>vs_mounted = True, vs_active = False, vs_devices = [], vs_selected = None,
     vs_initialSet = False, vs_preview = None, vs_live = [], vs_waits = 0, vs_mirror = vt_mirror st,
     vs_blur = fst (vt_blur st), vs_intensity = snd (vt_blur st)\<rparr>"

definition stop_preview :: "video_section \<Rightarrow> video_section" where
  "stop_preview s = (case vs_preview s of
       None \<Rightarrow> s | Some t \<Rightarrow> s\<lparr>vs_live := filter (\<lambda>u. u \<noteq> t) (vs_live s)\<rparr>)"

text \<open>\<open>onSelectionChange\<close> up to its wait, and the rest of it with the track of the new stream.\<close>

definition onSelectionChange :: "video_section \<Rightarrow> video_section" where
  "onSelectionChange s = (stop_preview s)\<lparr>vs_waits := Suc (vs_waits s)\<rparr>"

definition previewed :: "string option \<Rightarrow> video_section \<Rightarrow> video_section" where
  "previewed answer s =
     (if vs_waits s = 0 then s
      else
        let s1 = s\<lparr>vs_waits := vs_waits s - 1\<rparr>
        in case answer of
             None \<Rightarrow> s1
           | Some t \<Rightarrow>
               let s2 = s1\<lparr>vs_live := vs_live s1 @ [t]\<rparr>
               in if vs_mounted s then (stop_preview s2)\<lparr>vs_preview := Some t\<rparr> else s2)"

text \<open>The effect of the select that chooses, once, the first option.\<close>

definition initial_selection :: "video_section \<Rightarrow> video_section" where
  "initial_selection s =
     (if vs_active s \<and> \<not> vs_initialSet s \<and> vs_devices s \<noteq> []
      then (onSelectionChange s)\<lparr>vs_initialSet := True\<rparr> else s)"

definition video_open :: "video_section \<Rightarrow> video_section" where
  "video_open s = initial_selection (s\<lparr>vs_active := True\<rparr>)"

definition video_close :: "video_section \<Rightarrow> video_section" where
  "video_close s = s\<lparr>vs_active := False, vs_selected := None, vs_initialSet := False\<rparr>"

definition loadVideoDevices :: "device list option \<Rightarrow> video_section \<Rightarrow> video_section" where
  "loadVideoDevices answer s =
     (case answer of None \<Rightarrow> s | Some ds \<Rightarrow> initial_selection (s\<lparr>vs_devices := ds\<rparr>))"

definition video_select :: "device \<Rightarrow> video_section \<Rightarrow> video_section" where
  "video_select d s = (if vs_active s then (onSelectionChange s)\<lparr>vs_selected := Some d\<rparr> else s)"

text \<open>Saving also tells the client of a call, if there is one.\<close>

definition video_save :: "video_section \<Rightarrow> video_stored \<Rightarrow> video_section \<times> video_stored" where
  "video_save s st =
     (if \<not> vs_active s then (s, st)
      else (video_close s,
            \<lparr>vt_input = stored_of (getOption (vs_selected s) (vt_input st) (vs_devices s)),
             vt_mirror = vs_mirror s, vt_blur = (vs_blur s, vs_intensity s)\<rparr>))"

text \<open>Leaving the settings: the cleanup of the effect on the preview.\<close>

definition video_unmount :: "video_section \<Rightarrow> video_section" where
  "video_unmount s = (stop_preview s)\<lparr>vs_mounted := False, vs_active := False\<rparr>"

datatype video_step =
    VOpen
  | VLoaded "device list option"
  | VSelect device
  | VPreview "string option"
  | VMirror bool
  | VBlur bool
  | VIntensity int
  | VSave
  | VCancel
  | VUnmount

fun video_do :: "video_step \<Rightarrow> video_section \<times> video_stored \<Rightarrow> video_section \<times> video_stored" where
  "video_do VOpen (s, st) = (if vs_mounted s then video_open s else s, st)"
| "video_do (VLoaded a) (s, st) = (loadVideoDevices a s, st)"
| "video_do (VSelect d) (s, st) = (video_select d s, st)"
| "video_do (VPreview a) (s, st) = (previewed a s, st)"
| "video_do (VMirror b) (s, st) = (s\<lparr>vs_mirror := b\<rparr>, st)"
| "video_do (VBlur b) (s, st) = (s\<lparr>vs_blur := b\<rparr>, st)"
| "video_do (VIntensity n) (s, st) = (s\<lparr>vs_intensity := n\<rparr>, st)"
| "video_do VSave (s, st) = video_save s st"
| "video_do VCancel (s, st) = (video_close s, st)"
| "video_do VUnmount (s, st) = (video_unmount s, st)"

section \<open>Screen sharing\<close>

text \<open>The radio buttons store at once; saving and cancelling only close the section.\<close>

record screen_section =
  ss_active :: bool
  ss_shareAudio :: string

definition init_screen_section :: "string option \<Rightarrow> screen_section" where
  "init_screen_section stored = \<lparr>ss_active = False, ss_shareAudio = str_or (str_of stored) ''on''\<rparr>"

definition handleShareAudioChange :: "string \<Rightarrow> screen_section \<Rightarrow> screen_section \<times> string option" where
  "handleShareAudioChange value s = (s\<lparr>ss_shareAudio := value\<rparr>, Some value)"

definition screen_close :: "screen_section \<Rightarrow> screen_section" where
  "screen_close s = s\<lparr>ss_active := False\<rparr>"

section \<open>The menu in a call\<close>

text \<open>
  \<open>Devices\<close>, one per type. The listener of \<open>devicechange\<close> is the first render's: the devices it
  compares with are null. \<open>same\<close>: the device clicked is the very object that is current.\<close>

record devices_menu =
  dm_input :: "device option"
  dm_output :: "device option"
  dm_video :: "device option"
  dm_audioDevices :: "device list \<times> device list"
  dm_videoDevices :: "device list"

definition init_devices_menu :: devices_menu where
  "init_devices_menu = \<lparr>dm_input = None, dm_output = None, dm_video = None, dm_audioDevices = ([], []),
     dm_videoDevices = []\<rparr>"

definition devices_mounted :: "device_type \<Rightarrow> calls_client option \<Rightarrow> devices_menu \<Rightarrow> devices_menu" where
  "devices_mounted ty client m = (case client of
       None \<Rightarrow> m
     | Some c \<Rightarrow>
         let m1 = m\<lparr>dm_audioDevices := (cc_audioInputs c, cc_audioOutputs c), dm_videoDevices := cc_videoDevices c\<rparr>
         in case ty of
              AudioInput \<Rightarrow> m1\<lparr>dm_input := cc_currentAudioInputDevice c\<rparr>
            | AudioOutput \<Rightarrow> m1\<lparr>dm_output := cc_currentAudioOutputDevice c\<rparr>
            | VideoInput \<Rightarrow> m1\<lparr>dm_video := cc_currentVideoInputDevice c\<rparr>)"

definition handleDeviceChange :: "calls_client option \<Rightarrow> device list \<times> device list \<Rightarrow> device list \<Rightarrow>
    devices_menu \<Rightarrow> devices_menu" where
  "handleDeviceChange client aDevices vDevices m =
     (let m1 = m\<lparr>dm_audioDevices := aDevices, dm_videoDevices := vDevices\<rparr>;
          take = (\<lambda>now old. if now = None then old else now)
      in case client of
           None \<Rightarrow> m1
         | Some c \<Rightarrow> m1\<lparr>dm_input := take (cc_currentAudioInputDevice c) (dm_input m),
                        dm_output := take (cc_currentAudioOutputDevice c) (dm_output m),
                        dm_video := take (cc_currentVideoInputDevice c) (dm_video m)\<rparr>)"

definition handleDeviceClick :: "device_type \<Rightarrow> bool \<Rightarrow> device \<Rightarrow> devices_menu \<Rightarrow>
    devices_menu \<times> (calls_client \<Rightarrow> calls_client)" where
  "handleDeviceClick ty same d m = (case ty of
       AudioInput \<Rightarrow> (m\<lparr>dm_input := Some d\<rparr>, if same then id else (\<lambda>c. fst (setAudioInputDevice d True c)))
     | AudioOutput \<Rightarrow> (m\<lparr>dm_output := Some d\<rparr>, if same then id else setAudioOutputDevice d True)
     | VideoInput \<Rightarrow> (m\<lparr>dm_video := Some d\<rparr>, if same then id else (\<lambda>c. fst (setVideoInputDevice d c))))"

definition menu_current :: "device_type \<Rightarrow> devices_menu \<Rightarrow> device option" where
  "menu_current ty m = (case ty of
       AudioInput \<Rightarrow> dm_input m | AudioOutput \<Rightarrow> dm_output m | VideoInput \<Rightarrow> dm_video m)"

definition menu_all :: "device_type \<Rightarrow> devices_menu \<Rightarrow> device list" where
  "menu_all ty m = (case ty of
       AudioInput \<Rightarrow> fst (dm_audioDevices m) | AudioOutput \<Rightarrow> snd (dm_audioDevices m)
     | VideoInput \<Rightarrow> dm_videoDevices m)"

text \<open>\<open>Devices\<close> as it is drawn, with \<open>MediaDevicesList\<close> when it is the active one.\<close>

definition render_devices :: "device_type \<Rightarrow> bool \<Rightarrow> devices_menu \<Rightarrow> devices_view option" where
  "render_devices ty isActive m =
     (if menu_all ty m = [] then None
      else
        let cur = menu_current ty m;
            devs = filter (\<lambda>d. dv_deviceId d \<noteq> [] \<and> dv_label d \<noteq> []) (menu_all ty m)
        in Some \<lparr>vd_title = (case ty of AudioInput \<Rightarrow> ''Microphone'' | AudioOutput \<Rightarrow> ''Audio output''
                              | VideoInput \<Rightarrow> ''Camera''),
                 vd_label = str_or (str_of (map_option dv_label cur)) ''Default'',
                 vd_disabled = (devs = []),
                 vd_expanded = isActive,
                 vd_list = (if isActive
                            then Some (map (\<lambda>d. let this = (Some (dv_deviceId d) = map_option dv_deviceId cur)
                                                in (makeDeviceLabel d, this, this)) devs)
                            else None)\<rparr>)"

text \<open>\<open>CallSettings\<close>: which submenu is open, and the items after the devices.\<close>

record settings_menu =
  sm_shown :: bool
  sm_open :: "device_type option"

definition settings_toggle :: "device_type \<Rightarrow> settings_menu \<Rightarrow> settings_menu" where
  "settings_toggle ty m = m\<lparr>sm_open := (if sm_open m = Some ty then None else Some ty)\<rparr>"

text \<open>Hiding the menu unmounts it.\<close>

definition settings_hide :: "settings_menu \<Rightarrow> settings_menu" where
  "settings_hide m = \<lparr>sm_shown = False, sm_open = None\<rparr>"

definition settings_button :: "settings_menu \<Rightarrow> settings_menu" where
  "settings_button m = \<lparr>sm_shown = (\<not> sm_shown m), sm_open = None\<rparr>"

definition settings_blur :: "bool \<Rightarrow> settings_menu \<Rightarrow> settings_menu" where
  "settings_blur inside m = (if inside then m else settings_hide m)"

definition settings_escape :: "string \<Rightarrow> settings_menu \<Rightarrow> settings_menu" where
  "settings_escape key m = (if key = ''Escape'' then settings_hide m else m)"

definition CallSettings :: "bool \<Rightarrow> bool \<Rightarrow> bool \<Rightarrow> bool \<Rightarrow> (device_type \<Rightarrow> devices_menu) \<Rightarrow> settings_menu \<Rightarrow>
    (devices_view list \<times> string list) option" where
  "CallSettings isVideoEnabled showCCButton hasSettings showLiveCaptions menus m =
     (if \<not> sm_shown m then None
      else
        let devs = concat (map (\<lambda>ty. case render_devices ty (sm_open m = Some ty) (menus ty) of
                                 None \<Rightarrow> [] | Some v \<Rightarrow> [v])
                     ([AudioOutput, AudioInput] @ (if isVideoEnabled then [VideoInput] else [])))
        in Some (devs,
             (if showCCButton then [if showLiveCaptions then ''Hide live captions'' else ''Show live captions''] else []) @
             (if hasSettings then [''Additional settings''] else [])))"

section \<open>Properties: stored devices\<close>

lemma find_in: "find P xs = Some x \<Longrightarrow> x \<in> set xs \<and> P x"
  by (induction xs) (auto split: if_splits)

lemma find_filter: "find P xs = Some x \<Longrightarrow> \<exists>ys. filter P xs = x # ys"
  by (induction xs) (auto split: if_splits)

text \<open>
  The settings show the microphone that a call will use: when the client finds a stored device among
  those that are there, the section's option is that device.\<close>
theorem settings_show_the_clients_device:
  assumes "getSelectedAudioDevice stored devs = Some d"
  shows "getOption None stored devs = d"
proof -
  let ?def = "parse_stored stored"
  let ?sel = "filter (\<lambda>v. dv_deviceId v = sd_deviceId ?def \<or> Some (dv_label v) = sd_label ?def) devs"
  show ?thesis
  proof (cases "length ?sel > 1")
    case True
    then have "find (\<lambda>v. dv_deviceId v = sd_deviceId ?def) ?sel = Some d"
      using assms by (simp add: getSelectedAudioDevice_def Let_def split: if_splits)
    from find_filter [OF this] True show ?thesis
      by (auto simp: getOption_def stored_option_def Let_def)
  next
    case False
    then have "length ?sel = 1" "hd ?sel = d"
      using assms by (simp_all add: getSelectedAudioDevice_def Let_def split: if_splits)
    then show ?thesis using False
      by (cases ?sel) (simp_all add: getOption_def stored_option_def Let_def)
  qed
qed

definition two_mics :: "device list" where
  "two_mics = [\<lparr>dv_deviceId = ''1'', dv_label = ''mic''\<rparr>, \<lparr>dv_deviceId = ''2'', dv_label = ''mic''\<rparr>]"

lemma settings_show_the_clients_device_witness:
  "getOption None (stored_of (two_mics ! 1)) two_mics = two_mics ! 1"
  by (rule settings_show_the_clients_device)
    (simp add: getSelectedAudioDevice_def stored_of_def parse_stored_def two_mics_def)

text \<open>
  C37. A microphone that is saved is the one that the next call takes, also when other devices have its
  label: the section's choice survives being stored and read again.\<close>
theorem saved_device_is_used:
  assumes "as_active s" "d \<in> set devs" "distinct (map dv_deviceId devs)" "dv_deviceId d \<noteq> []"
    and "getOption (as_selectedInput s) (st_input st) (as_inputs s) = d"
  shows "getSelectedAudioDevice (st_input (snd (audio_save s st))) devs = Some d"
proof -
  have st: "st_input (snd (audio_save s st)) = stored_of d" using assms(1,5) by (simp add: audio_save_def)
  let ?sel = "filter (\<lambda>v. dv_deviceId v = dv_deviceId d \<or> dv_label v = dv_label d) devs"
  have in_sel: "d \<in> set ?sel" using assms(2) by simp
  have uniq: "v = d" if "v \<in> set devs" "dv_deviceId v = dv_deviceId d" for v
    using assms(2,3) that by (auto simp: distinct_map inj_on_def)
  have find: "find (\<lambda>v. dv_deviceId v = dv_deviceId d) ?sel = Some d"
  proof (cases "find (\<lambda>v. dv_deviceId v = dv_deviceId d) ?sel")
    case None
    with in_sel show ?thesis by (auto simp: find_None_iff)
  next
    case (Some v)
    with uniq find_in [OF Some] show ?thesis by auto
  qed
  have "length ?sel \<ge> 1" using in_sel by (cases ?sel) auto
  moreover have "hd ?sel = d" if "length ?sel = 1" using that in_sel by (cases ?sel) auto
  ultimately show ?thesis using assms(4) find
    by (auto simp: st getSelectedAudioDevice_def stored_of_def parse_stored_def Let_def)
qed

lemma saved_device_is_used_witness:
  "getSelectedAudioDevice (st_input (snd (audio_save
      (init_audio_section\<lparr>as_active := True, as_selectedInput := Some (two_mics ! 1)\<rparr>)
      \<lparr>st_input = NoData, st_output = NoData\<rparr>))) two_mics = Some (two_mics ! 1)"
  by (rule saved_device_is_used) (simp_all add: two_mics_def getOption_def)

text \<open>
  Saving before the devices were listed, or when the browser refuses to list them, stores an empty
  device over the user's choice, and calls use none from then on.\<close>
theorem saving_unlisted_forgets:
  assumes "as_active s" "as_inputs s = []" "as_selectedInput s = None"
  shows "getSelectedAudioDevice (st_input (snd (audio_save (loadAudioDevices None s) st))) devs = None"
  using assms by (simp add: audio_save_def loadAudioDevices_def getOption_def stored_option_def
      first_option_def getSelectedAudioDevice_def stored_of_def parse_stored_def Let_def)

lemma saving_unlisted_forgets_witness:
  "getSelectedAudioDevice (st_input (snd (audio_save (loadAudioDevices None (audio_open init_audio_section))
     \<lparr>st_input = stored_of (two_mics ! 1), st_output = NoData\<rparr>))) two_mics = None"
  by (rule saving_unlisted_forgets) (simp_all add: audio_open_def init_audio_section_def)

section \<open>Properties: previews\<close>

text \<open>No camera track of a preview is live but the one that is shown.\<close>

definition one_preview :: "video_section \<Rightarrow> bool" where
  "one_preview s \<longleftrightarrow> set (vs_live s) \<subseteq> set_option (vs_preview s)"

lemma one_preview_stop: "one_preview s \<Longrightarrow> vs_live (stop_preview s) = []"
  by (cases "vs_preview s") (auto simp: one_preview_def stop_preview_def filter_empty_conv)

lemma stop_preview_fields [simp]:
  "vs_preview (stop_preview s) = vs_preview s" "vs_mounted (stop_preview s) = vs_mounted s"
  "vs_waits (stop_preview s) = vs_waits s"
  by (simp_all add: stop_preview_def split: option.splits)

lemma one_preview_change: "one_preview s \<Longrightarrow> one_preview (onSelectionChange s)"
  by (simp add: onSelectionChange_def one_preview_stop one_preview_def)

lemma one_preview_initial: "one_preview s \<Longrightarrow> one_preview (initial_selection s)"
  using one_preview_change [of s] by (simp add: initial_selection_def one_preview_def)

text \<open>A new track takes the place of the old one, whose tracks are stopped.\<close>

lemma one_preview_previewed: "\<lbrakk>one_preview s; vs_mounted s\<rbrakk> \<Longrightarrow> one_preview (previewed a s)"
  by (cases "vs_preview s")
    (auto simp: previewed_def one_preview_def stop_preview_def Let_def split: option.splits)

text \<open>
  C38. While the settings are open at most one camera track of a preview is live, the one that is shown,
  however selections and the browser's answers interleave.\<close>
theorem at_most_one_preview:
  assumes "VUnmount \<notin> set as"
  shows "one_preview (fst (fold video_do as (init_video_section st, st)))"
proof -
  have step: "one_preview (fst (video_do a x)) \<and> vs_mounted (fst (video_do a x))"
    if "one_preview (fst x)" "vs_mounted (fst x)" "a \<noteq> VUnmount" for a x
  proof (cases x)
    case (Pair s t)
    have m: "vs_mounted (onSelectionChange s') = vs_mounted s'"
      "vs_mounted (initial_selection s') = vs_mounted s'" "vs_mounted (previewed b s') = vs_mounted s'" for s' b
      by (simp_all add: onSelectionChange_def initial_selection_def previewed_def Let_def split: option.splits)
    have "one_preview (initial_selection (s\<lparr>vs_active := True\<rparr>))"
      "one_preview (initial_selection (s\<lparr>vs_devices := ds\<rparr>))" for ds
      by (rule one_preview_initial, use that Pair in \<open>simp add: one_preview_def\<close>)+
    moreover have "one_preview ((onSelectionChange s)\<lparr>vs_selected := d\<rparr>)" for d
      using one_preview_change [of s] that Pair by (simp add: one_preview_def)
    ultimately show ?thesis using that Pair one_preview_previewed [of s]
      by (cases a) (auto simp: video_open_def loadVideoDevices_def video_select_def video_save_def
          video_close_def one_preview_def m split: option.splits)
  qed
  have "one_preview (fst (fold video_do as x)) \<and> vs_mounted (fst (fold video_do as x))"
    if "one_preview (fst x)" "vs_mounted (fst x)" for x
    using assms that
  proof (induction as arbitrary: x)
    case (Cons a as)
    have "one_preview (fst (video_do a x))" "vs_mounted (fst (video_do a x))"
      using step [of x a] Cons.prems by auto
    then show ?case using Cons.IH [of "video_do a x"] Cons.prems(1) by simp
  qed simp
  then show ?thesis by (simp add: init_video_section_def one_preview_def)
qed

text \<open>
  Cancelling or saving the section leaves the camera on: the preview's track is not stopped, although
  nothing shows it any more, until the settings are left.\<close>
theorem closed_section_keeps_camera:
  assumes "vs_active s" "vs_preview s = Some t" "t \<in> set (vs_live s)" "x \<in> {VSave, VCancel}"
  shows "let s' = fst (video_do x (s, st))
    in \<not> vs_active s' \<and> t \<in> set (vs_live s') \<and> t \<notin> set (vs_live (video_unmount s'))"
  using assms by (auto simp: video_save_def video_close_def video_unmount_def stop_preview_def Let_def)

definition sample_video_stored :: video_stored where
  "sample_video_stored = \<lparr>vt_input = NoData, vt_mirror = False, vt_blur = (False, 0)\<rparr>"

lemma at_most_one_preview_witness:
  "one_preview (fst (fold video_do [VOpen, VLoaded (Some two_mics), VSelect (two_mics ! 1), VPreview (Some ''a''),
     VPreview (Some ''b''), VCancel] (init_video_section sample_video_stored, sample_video_stored)))"
  by (rule at_most_one_preview) simp

lemma closed_section_keeps_camera_witness:
  "''a'' \<in> set (vs_live (fst (video_do VCancel
     ((init_video_section sample_video_stored)\<lparr>vs_active := True, vs_preview := Some ''a'', vs_live := [''a'']\<rparr>,
      sample_video_stored))))"
  using closed_section_keeps_camera [of "(init_video_section sample_video_stored)\<lparr>vs_active := True,
      vs_preview := Some ''a'', vs_live := [''a'']\<rparr>" "''a''" VCancel sample_video_stored]
  by (simp add: Let_def)

end
