(* ===== verification/Panels.thy ===== *)
theory Panels imports IncomingCalls WidgetView begin

text \<open>
  The smaller parts of the interface as what they show and do: a call's post and the toast and button of
  a channel, the dialogs for switching calls, choosing a screen and errors, and in a call the stream of
  reactions, captions and notices, the profiles, the duration and the overlays. Texts are the default
  messages with their values.
\<close>

section \<open>Profiles\<close>

text \<open>\<open>connected_profiles.tsx\<close>: the names shown, and those behind the last circle.\<close>

definition ConnectedProfiles :: "nat \<Rightarrow> user_profile list \<Rightarrow> string list \<times> string list option" where
  "ConnectedProfiles maxShowedProfiles profiles =
     (let m = (if maxShowedProfiles = 0 then 2 else maxShowedProfiles);
          name = (\<lambda>u. getUserDisplayName (Some u) False)
      in case split_list_at profiles m False of
           (firsts, overflow) \<Rightarrow> (map name firsts, map_option (map name) overflow))"

section \<open>A call's post\<close>

text \<open>\<open>custom_post_types/post_type\<close>.\<close>

record post_props =
  ps_channel_id :: string
  ps_user :: "user_profile option" \<comment> \<open>the post's author\<close>
  ps_json :: "json option"
  ps_connectedID :: string
  ps_profiles :: "user_profile list"
  ps_isCloudPaid :: bool
  ps_maxParticipants :: int
  ps_compactDisplay :: bool
  ps_isRHS :: bool
  ps_isHost :: bool

definition post_props_of ::
  "string \<Rightarrow> user_profile option \<Rightarrow> json option \<Rightarrow> bool \<Rightarrow> bool \<Rightarrow> bool \<Rightarrow> global_state \<Rightarrow> post_props" where
  "post_props_of ch user json isCloudPaid compact isRHS gs = \<lparr>
     ps_channel_id = ch, ps_user = user, ps_json = json, ps_connectedID = channelIDForCurrentCall gs,
     ps_profiles = profilesInCallInChannel gs ch, ps_isCloudPaid = isCloudPaid,
     ps_maxParticipants = maxParticipants gs, ps_compactDisplay = compact, ps_isRHS = isRHS,
     ps_isHost = (hostIDForCallInChannel gs ch = Some (mm_currentUserID (gs_mm gs)))\<rparr>"

datatype post_title = TitleText string | TitleBreak | NoTitle

datatype post_sub =
    EndedAt int int \<comment> \<open>when, and how long it lasted\<close>
  | StartedBy started_text string

datatype post_button =
    JoinButton
  | JoinFull int bool \<comment> \<open>the limit, and the note for cloud customers\<close>
  | PostLeave leave_button

record post_view =
  pv_title :: post_title
  pv_active :: bool
  pv_sub :: post_sub
  pv_divider :: bool
  pv_profiles :: "(string list \<times> string list option) option"
  pv_button :: "post_button option"
  pv_recordings :: "nat option"
  pv_transcriptions :: "nat option"

definition artifacts :: "(string, job_metadata) obj \<Rightarrow> string list" where
  "artifacts jobs = map jm_file_id (filter (\<lambda>j. jm_file_id j \<noteq> []) (obj_values jobs))"

definition PostType :: "int \<Rightarrow> channel option \<Rightarrow> bool \<Rightarrow> post_props \<Rightarrow> post_view" where
  "PostType now chan isAdmin p =
     (let cp = getCallPropsFromPost (ps_json p);
          recordings = artifacts (cp_recordings cp); transcriptions = artifacts (cp_transcriptions cp);
          callActive = (cp_end_at cp = 0); inCall = (ps_connectedID p = ps_channel_id p);
          full = (ps_maxParticipants p > 0 \<and> int (length (ps_profiles p)) \<ge> ps_maxParticipants p);
          join = (if full then JoinFull (ps_maxParticipants p) (ps_isCloudPaid p) else JoinButton);
          n = length (ps_profiles p);
          leave = PostLeave (if \<not> isDMChannel chan \<and> (ps_isHost p \<or> isAdmin) \<and> n > 1
                             then LeaveMenu ((ps_isHost p \<or> isAdmin) \<and> n > 1) else LeaveButton)
      in \<lparr>pv_title = (if cp_title cp \<noteq> [] then TitleText (cp_title cp)
                      else if ps_compactDisplay p \<and> \<not> ps_isRHS p then TitleBreak else NoTitle),
          pv_active = callActive,
          pv_sub = (if cp_start_at cp > 0 \<and> cp_end_at cp > 0
                    then EndedAt (cp_end_at cp) (cp_end_at cp - cp_start_at cp)
                    else StartedBy (callStartedTimestampFn now (Some (cp_start_at cp)))
                           (getUserDisplayName (ps_user p) False)),
          pv_divider = (recordings \<noteq> [] \<or> callActive),
          pv_profiles = (if callActive then Some (ConnectedProfiles 3 (ps_profiles p)) else None),
          pv_button = (if callActive then Some (if inCall then leave else join) else None),
          pv_recordings = (if recordings \<noteq> [] then Some (length recordings) else None),
          pv_transcriptions = (if transcriptions \<noteq> [] \<and> recordings \<noteq> []
                               then Some (length transcriptions) else None)\<rparr>)"

text \<open>The post's button for leaving, also from a window that only shows the global widget's call.\<close>

definition onLeaveButtonClick :: "bool \<Rightarrow> env \<Rightarrow> env" where
  "onLeaveButtonClick has_leaveCall e =
     (if ev_client e \<noteq> None then disconnect_client None e
      else if has_leaveCall then effect (EDesktopCall ''leaveCall'' []) e else e)"

section \<open>The toast of a channel\<close>

definition ChannelCallToast :: "int \<Rightarrow> global_state \<Rightarrow> (started_text \<times> string list \<times> string list option) option" where
  "ChannelCallToast now gs = (case callInCurrentChannel gs of
       None \<Rightarrow> None
     | Some call \<Rightarrow>
         if mm_currentChannelID (gs_mm gs) = channelIDForCurrentCall gs \<or>
            dismissedCallForCurrentChannel gs \<or> isLimitRestricted gs then None
         else Some (callStartedTimestampFn now (Some (ci_startAt call)),
                    ConnectedProfiles 2 (profilesInCallInCurrentChannel gs)))"

section \<open>The button of a channel\<close>

text \<open>
  \<open>channel_header_button.tsx\<close>; \<open>deactivated\<close>: the other user of a direct channel was deactivated,
  \<open>joining\<close>: there was a call when the button was pressed.\<close>

datatype header_note =
    NoteArchived
  | NoteDeactivated
  | NoteUpsell
  | NoteLimit int "string list"

record header_button =
  hb_text :: string
  hb_disabledLook :: bool
  hb_disabled :: bool
  hb_upsell :: bool
  hb_note :: "header_note option"

definition ChannelHeaderButton ::
  "bool \<Rightarrow> bool \<Rightarrow> bool \<Rightarrow> bool \<Rightarrow> global_state \<Rightarrow> header_button option" where
  "ChannelHeaderButton joining deactivated cloudStarter isCloudPaid gs =
     (let mm = gs_mm gs; chan = obj_get (mm_channels mm) (mm_currentChannelID mm);
          isDeactivatedDM = (isDMChannel chan \<and> deactivated);
          inCall = (Some (channelIDForCurrentCall gs) = map_option chn_id chan);
          limitRestricted = isLimitRestricted gs;
          archived = (case chan of None \<Rightarrow> False | Some c \<Rightarrow> chn_delete_at c > 0);
          connecting = rs_clientConnecting (gs_plugin gs);
          callsAllowed = (areGroupCallsAllowed gs \<or> isDMChannel chan);
          restricted = (limitRestricted \<or> archived \<or> isDeactivatedDM);
          upsell = (limitRestricted \<and> cloudStarter \<and> \<not> inCall)
      in if \<not> callsShowButton gs (Some (str_of (map_option chn_id chan))) \<or> chan = None \<or> \<not> callsAllowed then None
         else Some \<lparr>
           hb_text = (if connecting then (if joining then ''Joining call...'' else ''Starting call...'')
                      else if currentChannelHasCall gs then ''Join call'' else ''Start call''),
           hb_disabledLook = (inCall \<or> restricted),
           hb_disabled = (archived \<or> isDeactivatedDM \<or> connecting),
           hb_upsell = upsell,
           hb_note = (if archived then Some NoteArchived
                      else if isDeactivatedDM then Some NoteDeactivated
                      else if upsell then Some NoteUpsell
                      else if limitRestricted \<and> \<not> inCall
                      then Some (NoteLimit (maxParticipants gs)
                             ((if cloudStarter \<and> \<not> mm_isCurrentUserSystemAdmin mm then [''contact your admin''] else []) @
                              (if cloudStarter \<and> mm_isCurrentUserSystemAdmin mm then [''upgrade''] else []) @
                              (if isCloudPaid then [''limit of cloud calls''] else [])))
                      else None)\<rparr>)"

section \<open>Switching calls\<close>

text \<open>\<open>switch_call_modal\<close>: the channel to go to, and what joining does.\<close>

definition switch_target :: "global_state \<Rightarrow> channel option" where
  "switch_target gs =
     (let t = str_of (sm_targetID (rs_switchCallModal (gs_plugin gs)));
          chs = mm_channels (gs_mm gs)
      in if t \<noteq> [] then obj_get chs t else obj_get chs (mm_currentChannelID (gs_mm gs)))"

definition switch_names :: "global_state \<Rightarrow> channel \<Rightarrow> string" where
  "switch_names gs c =
     (if isDMChannel (Some c)
      then getUserDisplayName (Option.bind (getUserIdFromDM (chn_name c) (mm_currentUserID (gs_mm gs)))
             (obj_get (mm_profiles (gs_mm gs)))) False
      else chn_display_name c)"

text \<open>The two names of the message: of the call that the user is in and of the one to join.\<close>

definition SwitchCallModal :: "global_state \<Rightarrow> (string \<times> string option) option" where
  "SwitchCallModal gs = (case channelForCurrentCall gs of
       None \<Rightarrow> None
     | Some c \<Rightarrow>
         if sm_show (rs_switchCallModal (gs_plugin gs))
         then Some (switch_names gs c, map_option (switch_names gs) (switch_target gs)) else None)"

definition switch_joinCall :: "env \<Rightarrow> env" where
  "switch_joinCall e =
     (let gs = getState e; target = sm_targetID (rs_switchCallModal (gs_plugin gs));
          callID = str_of (idForCallInChannel gs (str_of target));
          e1 = dismissIncomingCallNotification (js_key target) callID e;
          e2 = disconnect_client None (hideSwitchCallModal e1)
      in effect (EPostConnect (js_key (map_option chn_id (switch_target gs)))) e2)"

definition switch_keyboardClose :: "string \<Rightarrow> env \<Rightarrow> env" where
  "switch_keyboardClose key e =
     (if sm_show (rs_switchCallModal (ev_plugin e)) \<and> key = ''Escape'' then hideSwitchCallModal e else e)"

definition switch_closeOnBlur :: "bool \<Rightarrow> env \<Rightarrow> env" where
  "switch_closeOnBlur inside e =
     (if sm_show (rs_switchCallModal (ev_plugin e)) \<and> \<not> inside then hideSwitchCallModal e else e)"

section \<open>Choosing a screen\<close>

text \<open>\<open>screen_source_modal/component.tsx\<close>: sources are ids and names.\<close>

record source_modal =
  so_sources :: "(string \<times> string) list"
  so_selected :: string
  so_shareSystemAudio :: bool

definition init_source_modal :: source_modal where
  "init_source_modal = \<lparr>so_sources = [], so_selected = [], so_shareSystemAudio = False\<rparr>"

definition source_hide :: "source_modal \<times> env \<Rightarrow> source_modal \<times> env" where
  "source_hide = (\<lambda>(m, e). (init_source_modal, hideScreenSourceModal e))"

definition source_keyboardClose :: "string \<Rightarrow> source_modal \<times> env \<Rightarrow> source_modal \<times> env" where
  "source_keyboardClose key x =
     (if rs_screenSourceModal (ev_plugin (snd x)) \<and> key = ''Escape'' then source_hide x else x)"

definition source_closeOnBlur :: "bool \<Rightarrow> source_modal \<times> env \<Rightarrow> source_modal \<times> env" where
  "source_closeOnBlur inside x =
     (if rs_screenSourceModal (ev_plugin (snd x)) \<and> \<not> inside then source_hide x else x)"

definition source_select :: "string \<Rightarrow> source_modal \<Rightarrow> source_modal" where
  "source_select i m = m\<lparr>so_selected := i\<rparr>"

definition source_toggleAudio :: "source_modal \<Rightarrow> source_modal" where
  "source_toggleAudio m = m\<lparr>so_shareSystemAudio := \<not> so_shareSystemAudio m\<rparr>"

definition set_sources :: "(string \<times> string) list \<Rightarrow> source_modal \<Rightarrow> source_modal" where
  "set_sources ss m = m\<lparr>so_sources := ss, so_selected := (case ss of [] \<Rightarrow> [] | s # _ \<Rightarrow> fst s)\<rparr>"

text \<open>The answer of \<open>getDesktopSources\<close>; none when it failed.\<close>

definition got_sources :: "(string \<times> string) list option \<Rightarrow> source_modal \<times> env \<Rightarrow> source_modal \<times> env" where
  "got_sources answer = (\<lambda>(m, e). case answer of
       None \<Rightarrow> (m, hideScreenSourceModal e)
     | Some ss \<Rightarrow> if ss = [] then (m, hideScreenSourceModal e)
                  else (set_sources (filter (\<lambda>s. snd s \<noteq> ''Calls Widget'') ss) m, e))"

datatype source_message = SourcesResult "(string \<times> string) list" | SourcesError string

definition source_message :: "bool \<Rightarrow> source_message \<Rightarrow> source_modal \<times> env \<Rightarrow> source_modal \<times> env" where
  "source_message sameOrigin msg = (\<lambda>(m, e).
     if \<not> sameOrigin then (m, e)
     else (case msg of
             SourcesResult ss \<Rightarrow> (set_sources ss m, e)
           | SourcesError err \<Rightarrow> (m, if err = ''screen-permissions'' then hideScreenSourceModal e else e)))"

text \<open>
  Who is asked to share, with which source and with sound or not; \<open>withAudio\<close> is the user's setting to
  share sound with a screen.\<close>

datatype share_request =
    AskDesktop string bool
  | AskWidget string bool
  | AskClient string bool

definition source_share :: "bool \<Rightarrow> bool \<Rightarrow> bool \<Rightarrow> source_modal \<times> env \<Rightarrow> share_request \<times> source_modal \<times> env" where
  "source_share has_shareScreen desktopWidget withAudio x =
     (let m = fst x
      in (if has_shareScreen then AskDesktop (so_selected m) (withAudio \<and> so_shareSystemAudio m)
          else if desktopWidget then AskWidget (so_selected m) (withAudio \<and> so_shareSystemAudio m)
          else AskClient (so_selected m) withAudio,
          source_hide x))"

text \<open>What is drawn: the sources, which is selected, and the box for sound on two platforms.\<close>

definition ScreenSourceModal :: "string \<Rightarrow> bool \<Rightarrow> bool \<Rightarrow> source_modal \<Rightarrow>
    ((string \<times> bool) list \<times> bool option) option" where
  "ScreenSourceModal platform show withAudio m =
     (if \<not> show \<or> so_sources m = [] then None
      else Some (map (\<lambda>s. (snd s, fst s = so_selected m)) (so_sources m),
                 if withAudio \<and> (platform = ''Linux'' \<or> platform = ''Windows'')
                 then Some (so_shareSystemAudio m) else None))"

section \<open>Errors\<close>

text \<open>\<open>call_error_modal.tsx\<close>: header, may the user rejoin, is there a cancel button, and the confirm text.\<close>

record error_view =
  er_header :: string
  er_rejoin :: bool
  er_troubleshooting :: bool
  er_cancel :: bool
  er_confirm :: string

definition plain_error :: "string \<Rightarrow> error_view" where
  "plain_error header = \<lparr>er_header = header, er_rejoin = False, er_troubleshooting = False,
     er_cancel = False, er_confirm = ''Okay''\<rparr>"

fun CallErrorModal :: "client_error \<Rightarrow> error_view" where
  "CallErrorModal RtcPeerTimeoutErr =
     (plain_error ''Call connection failed'')\<lparr>er_troubleshooting := True\<rparr>"
| "CallErrorModal RtcPeerErr =
     (plain_error ''Call connection failed'')\<lparr>er_rejoin := True, er_troubleshooting := True\<rparr>"
| "CallErrorModal RtcPeerCloseErr =
     (plain_error ''Call connection failed'')\<lparr>er_rejoin := True, er_troubleshooting := True\<rparr>"
| "CallErrorModal InsecureContextErr =
     (plain_error ''Calls can't be initiated in an insecure context'')
       \<lparr>er_cancel := True, er_confirm := ''Learn more''\<rparr>"
| "CallErrorModal UserRemovedFromChannelErr = plain_error ''You were removed from the channel''"
| "CallErrorModal UserLeftChannelErr = plain_error ''You left the channel''"
| "CallErrorModal HostRemovedErr =
     (plain_error ''You were removed from the call'')\<lparr>er_confirm := ''Dismiss''\<rparr>"
| "CallErrorModal _ =
     (plain_error ''Something went wrong with calls'')\<lparr>er_troubleshooting := True\<rparr>"

definition onRejoinClick :: "string option \<Rightarrow> env \<Rightarrow> env" where
  "onRejoinClick channelID = effect (EPostConnect (js_key channelID))"

section \<open>Notices, reactions, captions\<close>

fun HostNotice :: "string \<Rightarrow> host_notice \<Rightarrow> string" where
  "HostNotice currentUserID n = (case hn_type n of
       LowerHand \<Rightarrow> hn_displayName n @ '' lowered your hand''
     | HostChanged \<Rightarrow> if hn_userID n = Some currentUserID then ''You are now the host''
                      else hn_displayName n @ '' is now the host''
     | HostRemoved \<Rightarrow> hn_displayName n @ '' was removed from the call'')"

definition HostNotices :: "global_state \<Rightarrow> string list" where
  "HostNotices gs = map (HostNotice (mm_currentUserID (gs_mm gs))) (hostControlNoticesForCurrentCall gs)"

text \<open>\<open>reaction_stream.tsx\<close>: emojis with names, newest first, and who has a hand up.\<close>

definition hand_cmp :: "user_session \<Rightarrow> user_session \<Rightarrow> int" where
  "hand_cmp a b = int_or (us_raised_hand a) 0 - int_or (us_raised_hand b) 0"

definition hands_up :: "user_session list \<Rightarrow> user_session list" where
  "hands_up ss = js_sort hand_cmp (filter (\<lambda>s. truthy_int (us_raised_hand s)) ss)"

definition stream_name :: "string \<Rightarrow> (string, user_profile) obj \<Rightarrow> string option \<Rightarrow> string" where
  "stream_name me profiles uid =
     (if uid = Some me then ''You'' else getUserDisplayName (Option.bind uid (obj_get profiles)) True)"

text \<open>The names of the hands and, when there are more, how many others.\<close>

definition handsUp :: "string \<Rightarrow> (string, user_profile) obj \<Rightarrow> user_session list \<Rightarrow> (string list \<times> nat option) option" where
  "handsUp me profiles ss =
     (let hs = hands_up ss
      in if hs = [] then None
         else case split_list_at hs 2 True of
                (firsts, overflow) \<Rightarrow>
                  Some (map (\<lambda>s. stream_name me profiles (us_user_id s)) firsts, map_option length overflow))"

record reactions_view =
  rv_notices :: "string list"
  rv_hands :: "(string list \<times> nat option) option"
  rv_reactions :: "(string \<times> string) list"

definition ReactionStream :: "global_state \<Rightarrow> reactions_view" where
  "ReactionStream gs =
     (let me = mm_currentUserID (gs_mm gs); profiles = profilesInCurrentCallMap gs
      in \<lparr>rv_notices = HostNotices gs,
          rv_hands = handsUp me profiles (sessionsInCurrentCall gs),
          rv_reactions = map (\<lambda>r. (rc_emoji r, str_or (stream_name me profiles (Some (rc_user_id r))) ''Someone''))
            (rev (reactionsInCurrentCall gs))\<rparr>)"

definition LiveCaptionsStream :: "global_state \<Rightarrow> string list option" where
  "LiveCaptionsStream gs =
     (let cs = obj_values (liveCaptionsInCurrentCall gs)
      in if cs = [] then None
         else Some (map (\<lambda>c. ''('' @ lc_display_name c @ '') '' @ lc_text c) cs))"

section \<open>Overlays and the duration\<close>

text \<open>
  \<open>JoinNotification\<close> and the overlays of \<open>loading_overlays.tsx\<close> are shown until an animation has
  ended; the overlay for joining keeps the text it was made with.\<close>

definition JoinNotification :: "bool \<Rightarrow> bool \<Rightarrow> bool \<Rightarrow> bool option" where
  "JoinNotification visible muted animationEnded =
     (if \<not> visible \<or> animationEnded then None else Some muted)"

definition JoinLoadingOverlay :: "bool \<Rightarrow> bool \<Rightarrow> bool \<Rightarrow> string option" where
  "JoinLoadingOverlay wasJoining visible transitionEnded =
     (if \<not> visible \<and> transitionEnded then None
      else Some (if wasJoining then ''Joining call...'' else ''Starting call...''))"

definition VideoLoadingOverlay :: "string option \<Rightarrow> bool \<Rightarrow> bool \<Rightarrow> string option option" where
  "VideoLoadingOverlay txt visible transitionEnded =
     (if \<not> visible \<and> transitionEnded then None else Some txt)"

text \<open>\<open>call_duration.tsx\<close>: the start that is counted from, and hours, minutes and seconds.\<close>

definition adjustedStartAt :: "int \<Rightarrow> int \<Rightarrow> int" where
  "adjustedStartAt startAt now = min startAt now"

definition getCallDuration :: "int \<Rightarrow> int \<Rightarrow> int option \<times> int \<times> int" where
  "getCallDuration startAt now =
     (let d = (now - startAt) div 1000
      in if now - startAt < 3600000 then (None, d div 60, d mod 60)
         else (Some (d div 3600), d div 60 mod 60, d mod 60))"

section \<open>Properties\<close>

text \<open>
  The post of a running call has exactly one button, and it is the right one: to leave when the user is
  in that call, else to join, which is refused only when the call is full; the post of an ended call has
  none, and tells when the call ended.\<close>
theorem post_button_right:
  assumes "v = PostType now chan isAdmin p" "cp = getCallPropsFromPost (ps_json p)"
  shows "(pv_button v = None \<longleftrightarrow> cp_end_at cp \<noteq> 0) \<and>
    (cp_end_at cp = 0 \<and> ps_connectedID p = ps_channel_id p \<longrightarrow> (\<exists>l. pv_button v = Some (PostLeave l))) \<and>
    (cp_end_at cp = 0 \<and> ps_connectedID p \<noteq> ps_channel_id p \<longrightarrow>
       (pv_button v = Some JoinButton \<longleftrightarrow>
          \<not> (ps_maxParticipants p > 0 \<and> int (length (ps_profiles p)) \<ge> ps_maxParticipants p))) \<and>
    (cp_start_at cp > 0 \<and> cp_end_at cp > 0 \<longrightarrow>
       pv_sub v = EndedAt (cp_end_at cp) (cp_end_at cp - cp_start_at cp))"
  using assms by (auto simp: PostType_def Let_def)

text \<open>
  Transcriptions of a call whose recordings left no file are not mentioned: the line about transcriptions
  is guarded by the number of recordings.\<close>
theorem transcriptions_need_recordings:
  assumes "cp = getCallPropsFromPost (ps_json p)" "artifacts (cp_recordings cp) = []"
  shows "pv_transcriptions (PostType now chan isAdmin p) = None"
  using assms by (simp add: PostType_def Let_def)

definition hand_key :: "user_session \<Rightarrow> int" where
  "hand_key s = int_or (us_raised_hand s) 0"

interpretation by_hand: keyed_comparator hand_cmp hand_key "\<lambda>a b. True"
  by unfold_locales (simp add: hand_cmp_def hand_key_def)

text \<open>
  Raised hands are listed in the order in which they were raised, each once; and at least the first two
  are named, with the number of the others, so that nobody is left out and a single other is named too.\<close>
theorem hands_in_order:
  assumes "handsUp me profiles ss = Some (names, others)"
  shows "sorted (map hand_key (hands_up ss)) \<and>
    mset (hands_up ss) = mset (filter (\<lambda>s. truthy_int (us_raised_hand s)) ss) \<and>
    names = take (length names) (map (\<lambda>s. stream_name me profiles (us_user_id s)) (hands_up ss)) \<and>
    length names + (case others of None \<Rightarrow> 0 | Some n \<Rightarrow> n) = length (hands_up ss) \<and>
    (case others of None \<Rightarrow> length names \<le> 3 | Some n \<Rightarrow> length names = 2 \<and> n \<ge> 2)"
proof -
  have "sorted_wrt (\<lambda>a b. True) xs" for xs :: "user_session list"
    by (induction xs) simp_all
  then have "sorted (map hand_key (hands_up ss))"
    unfolding hands_up_def by (rule by_hand.sorted_stable)
  moreover have "mset (hands_up ss) = mset (filter (\<lambda>s. truthy_int (us_raised_hand s)) ss)"
    by (simp only: hands_up_def mset_js_sort)
  ultimately show ?thesis
    using assms by (auto simp: handsUp_def split_list_at_def take_map Let_def split: if_splits)
qed

text \<open>
  Leaving one call for another: the client of the first call is closed, the dialog is hidden, and the
  last thing asked for is to connect to the channel that the dialog was about.\<close>
theorem switching_leaves_then_joins:
  assumes "ev_client e = Some c" "\<not> cc_closed c" "sm_targetID (rs_switchCallModal (ev_plugin e)) = Some t"
    and "obj_get (mm_channels (ev_mm e)) t = Some ch" "chn_id ch = t" "t \<noteq> []"
  shows "ev_client (switch_joinCall e) = None \<and>
    last (ev_effects (switch_joinCall e)) = EPostConnect t \<and>
    \<not> sm_show (rs_switchCallModal (ev_plugin (switch_joinCall e)))"
proof -
  let ?d = "hideSwitchCallModal (dismissIncomingCallNotification t (str_of (idForCallInChannel (getState e) t)) e)"
  have d: "ev_client ?d = Some c"
    using assms(1) by (simp add: hideSwitchCallModal_def dismissIncomingCallNotification_def
        removeIncomingCallNotification_def stopRingingForCall_def Let_def)
  have s: "\<not> sm_show (rs_switchCallModal (ev_plugin ?d))"
    by (simp add: hideSwitchCallModal_def no_switch_modal_def)
  have j: "switch_joinCall e = effect (EPostConnect t) (disconnect_client None ?d)"
    using assms(3-6) by (simp add: switch_joinCall_def switch_target_def js_key_def Let_def)
  show ?thesis
    using d s assms(2) by (simp add: j disconnect_client_eq on_client_close_def Let_def)
qed

text \<open>
  On a desktop application without the global widget, the box for system audio has no effect: whatever the
  user ticked, the sound is shared if the setting allows it.\<close>
theorem system_audio_box_ignored:
  "fst (source_share False False withAudio (m, e)) = AskClient (so_selected m) withAudio \<and>
   fst (source_share False False withAudio (source_toggleAudio m, e)) = AskClient (so_selected m) withAudio"
  by (simp add: source_share_def source_toggleAudio_def)

lemma clock_below_hour:
  assumes "0 \<le> d" "d < (3600 :: int)"
  shows "0 \<le> d div 60 \<and> d div 60 < 60 \<and> 0 \<le> d mod 60 \<and> d mod 60 < 60 \<and> d div 60 * 60 + d mod 60 = d"
proof -
  have "0 \<le> d div 60 \<and> d div 60 < 60" using assms by presburger
  then show ?thesis using div_mult_mod_eq [of d 60] by simp
qed

lemma clock_with_hours:
  assumes "3600 \<le> (d :: int)"
  shows "1 \<le> d div 3600 \<and> 0 \<le> d div 60 mod 60 \<and> d div 60 mod 60 < 60 \<and> 0 \<le> d mod 60 \<and> d mod 60 < 60 \<and>
    d div 3600 * 3600 + d div 60 mod 60 * 60 + d mod 60 = d"
proof -
  have "d div 60 * 60 + d mod 60 = d" "d div 60 div 60 * 60 + d div 60 mod 60 = d div 60"
    by (rule div_mult_mod_eq)+
  moreover have "d div 3600 = d div 60 div 60" by (simp add: zdiv_zmult2_eq [symmetric])
  ultimately have "d div 3600 * 3600 + d div 60 mod 60 * 60 + d mod 60 = d" by linarith
  then show ?thesis using assms by simp
qed

text \<open>
  The duration shown counts from zero and never runs backwards or shows a negative time, also when the
  server's clock is ahead: minutes and seconds are proper, and together they are the whole seconds since
  the start.\<close>
theorem duration_proper:
  assumes "mounted \<le> now" "getCallDuration (adjustedStartAt startAt mounted) now = (h, m, s)"
  shows "0 \<le> m \<and> m < 60 \<and> 0 \<le> s \<and> s < 60 \<and> (\<forall>x. h = Some x \<longrightarrow> 1 \<le> x) \<and>
    (case h of None \<Rightarrow> 0 | Some x \<Rightarrow> x) * 3600 + m * 60 + s = (now - adjustedStartAt startAt mounted) div 1000"
proof -
  define t where "t = now - adjustedStartAt startAt mounted"
  define d where "d = t div 1000"
  have "0 \<le> t" using assms(1) by (simp add: t_def adjustedStartAt_def)
  then have d: "0 \<le> d" "t < 3600000 \<longleftrightarrow> d < 3600" by (simp_all add: d_def) linarith
  have hms: "(h, m, s) = (if d < 3600 then (None, d div 60, d mod 60) else (Some (d div 3600), d div 60 mod 60, d mod 60))"
    using assms(2) d(2) by (simp add: getCallDuration_def Let_def t_def [symmetric] d_def [symmetric])
  show ?thesis
  proof (cases "d < 3600")
    case True
    then show ?thesis using hms clock_below_hour [OF d(1) True] by (simp add: t_def d_def)
  next
    case False
    then show ?thesis using hms clock_with_hours [of d] by (simp add: t_def d_def)
  qed
qed


section \<open>The properties at concrete inputs\<close>

definition running_post :: post_props where
  "running_post = \<lparr>ps_channel_id = ''c'', ps_user = None,
     ps_json = Some (JObj [(''start_at'', JNum 1000), (''transcriptions'',
        JObj [(''t'', JObj [(''file_id'', JStr ''f'')])])]),
     ps_connectedID = ''c'', ps_profiles = [], ps_isCloudPaid = False, ps_maxParticipants = 8,
     ps_compactDisplay = False, ps_isRHS = False, ps_isHost = False\<rparr>"

lemma running_fields:
  "cp_end_at (getCallPropsFromPost (ps_json running_post)) = 0"
  "artifacts (cp_recordings (getCallPropsFromPost (ps_json running_post))) = []"
  by (simp_all add: running_post_def getCallPropsFromPost_def num_field_def json_field_def
      job_map_field_def artifacts_def obj_get_Cons int_or_def obj_values_def)

lemma post_button_right_witness:
  "\<exists>l. pv_button (PostType 5000 None False running_post) = Some (PostLeave l)"
  using post_button_right [OF refl refl, of 5000 None False running_post] running_fields(1)
  by (simp add: running_post_def)

lemma transcriptions_need_recordings_witness:
  "pv_transcriptions (PostType 5000 None False running_post) = None"
  by (rule transcriptions_need_recordings [OF refl running_fields(2)])

definition hand_at :: "string \<Rightarrow> int \<Rightarrow> user_session" where
  "hand_at u t = empty_session\<lparr>us_user_id := Some u, us_raised_hand := Some t\<rparr>"

lemma handsUp_sample:
  "handsUp ''me'' [] [hand_at ''a'' 7, hand_at ''me'' 3] = Some ([''You'', []], None)"
  by (simp add: handsUp_def hands_up_def js_sort_def hand_cmp_def hand_at_def stream_name_def
      split_list_at_def getUserDisplayName_def truthy_int_def int_or_def Let_def)

lemma hands_in_order_witness:
  "sorted (map hand_key (hands_up [hand_at ''a'' 7, hand_at ''me'' 3]))"
  using hands_in_order [OF handsUp_sample] by blast

definition switching_env :: env where
  "switching_env = sample_env\<lparr>ev_client := Some (new_client plain_config 5),
     ev_plugin := (init_root ''w'')\<lparr>rs_switchCallModal := \<lparr>sm_show = True, sm_targetID = Some ''dm''\<rparr>\<rparr>\<rparr>"

lemma switching_leaves_then_joins_witness:
  "last (ev_effects (switch_joinCall switching_env)) = EPostConnect ''dm''"
  by (rule switching_leaves_then_joins [where c = "new_client plain_config 5"
        and ch = "snd (hd (mm_channels sample_mm))", THEN conjunct2, THEN conjunct1])
    (simp_all add: switching_env_def new_client_def sample_env_def sample_mm_def obj_get_Cons)

lemma duration_proper_witness:
  "(3 :: int) < 60 \<and> (None = Some (0 :: int) \<longrightarrow> (1 :: int) \<le> 0) \<and>
    2 * 60 + 3 = (123999 - adjustedStartAt 9000 0) div 1000"
  using duration_proper [of 0 123999 9000 None 2 3]
  by (simp add: getCallDuration_def adjustedStartAt_def)

end
