(* ===== verification/StandaloneTheme.thy ===== *)
theory StandaloneTheme imports Utils begin

text \<open>
  What the standalone pages read from their address (\<open>standalone/src/common.ts\<close>,
  \<open>setBasename\<close> of \<open>init.ts\<close>) and the colours that they set (\<open>theme_utils.ts\<close>).

  The query is the list of its decoded pairs. Decoding a token (\<open>atob\<close> and \<open>JSON.parse\<close>) and
  the colour functions of other packages are
  parameters; an opacity is in hundredths.
\<close>

section \<open>The address\<close>

type_synonym query = "(string \<times> string) list"

definition getCallID :: "query \<Rightarrow> string option" where
  "getCallID q = map_of q ''call_id''"

definition getCallTitle :: "query \<Rightarrow> string" where
  "getCallTitle q = str_of (map_of q ''title'')"

definition getRootID :: "query \<Rightarrow> string" where
  "getRootID q = str_of (map_of q ''root_id'')"

definition getJobID :: "query \<Rightarrow> string" where
  "getJobID q = str_of (map_of q ''job_id'')"

text \<open>The URL safe alphabet of base64 is translated to the usual one.\<close>

definition from_url_safe :: "string \<Rightarrow> string" where
  "from_url_safe s = map (\<lambda>c. if c = CHR ''_'' then CHR ''/'' else if c = CHR ''-'' then CHR ''+'' else c) s"

definition getToken :: "(string \<Rightarrow> error + json) \<Rightarrow> string \<Rightarrow> error + string" where
  "getToken decode hash =
     (if hash = [] then Inr []
      else (case decode (from_url_safe (drop 1 hash)) of
              Inl err \<Rightarrow> Inl err
            | Inr JNull \<Rightarrow> Inl (TypeError ''Cannot read properties of null'')
            | Inr data \<Rightarrow> Inr (str_of (str_field ''token'' (Some data)))))"

text \<open>The new \<open>window.basename\<close>, when it is set.\<close>

definition setBasename :: "string \<Rightarrow> string option" where
  "setBasename pathname =
     (case indexOf ''/plugins/'' pathname of
        None \<Rightarrow> None | Some idx \<Rightarrow> if idx > 0 then Some (take idx pathname) else None)"

section \<open>Numbers in text\<close>

fun show_nat :: "nat \<Rightarrow> string" where
  "show_nat n =
     (if n < 10 then [char_of (48 + n)] else show_nat (n div 10) @ [char_of (48 + n mod 10)])"

declare show_nat.simps [simp del]

definition show_int :: "int \<Rightarrow> string" where
  "show_int n = (if n < 0 then ''-'' @ show_nat (nat (- n)) else show_nat (nat n))"

definition hex_value :: "char \<Rightarrow> nat option" where
  "hex_value c =
     (let n = (of_char c :: nat)
      in if 48 \<le> n \<and> n \<le> 57 then Some (n - 48)
         else if 97 \<le> n \<and> n \<le> 102 then Some (n - 87)
         else if 65 \<le> n \<and> n \<le> 70 then Some (n - 55)
         else None)"

definition is_white :: "char \<Rightarrow> bool" where
  "is_white c \<longleftrightarrow> (of_char c :: nat) \<in> {9, 10, 11, 12, 13, 32, 160}"

fun hex_digits :: "string \<Rightarrow> nat list" where
  "hex_digits [] = []"
| "hex_digits (c # s) = (case hex_value c of None \<Rightarrow> [] | Some d \<Rightarrow> d # hex_digits s)"

text \<open>\<open>parseInt(s, 16)\<close>, \<open>None\<close> for \<open>NaN\<close>: the longest numeral after blanks, a sign and \<open>0x\<close>.\<close>

definition parse_hex :: "string \<Rightarrow> int option" where
  "parse_hex s0 =
     (let s1 = dropWhile is_white s0;
          neg = (take 1 s1 = ''-'');
          s2 = (if take 1 s1 = ''-'' \<or> take 1 s1 = ''+'' then drop 1 s1 else s1);
          s3 = (if take 2 s2 = ''0x'' \<or> take 2 s2 = ''0X'' then drop 2 s2 else s2);
          ds = hex_digits s3
      in if ds = [] then None
         else let n = int (foldl (\<lambda>a d. 16 * a + d) 0 ds) in Some (if neg then - n else n))"

definition number_text :: "int option \<Rightarrow> string" where
  "number_text x = (case x of None \<Rightarrow> ''NaN'' | Some n \<Rightarrow> show_int n)"

section \<open>Colours\<close>

text \<open>\<open>split\<close> at a character.\<close>

fun split_at :: "char \<Rightarrow> string \<Rightarrow> string list" where
  "split_at d [] = [[]]"
| "split_at d (c # s) = (if c = d then [] # split_at d s
     else (case split_at d s of [] \<Rightarrow> [[c]] | p # ps \<Rightarrow> (c # p) # ps))"

fun join_with :: "string \<Rightarrow> string list \<Rightarrow> string" where
  "join_with d [] = []"
| "join_with d [p] = p"
| "join_with d (p # q # ps) = p @ d @ join_with d (q # ps)"

definition dropAlpha :: "string \<Rightarrow> string" where
  "dropAlpha value =
     (let start = (case indexOf ''('' value of None \<Rightarrow> 0 | Some i \<Rightarrow> i + 1)
      in join_with '','' (take 3 (split_at (CHR '','') (drop start value))))"

definition toRgbValues :: "string \<Rightarrow> string" where
  "toRgbValues hexStr =
     (let part = (\<lambda>i. number_text (parse_hex (take 2 (drop i hexStr))))
      in part 1 @ '', '' @ part 3 @ '', '' @ part 5)"

record theme =
  th_awayIndicator :: string
  th_buttonBg :: string
  th_buttonColor :: string
  th_centerChannelBg :: string
  th_centerChannelColor :: string
  th_dndIndicator :: string
  th_errorTextColor :: string
  th_linkColor :: string
  th_mentionBg :: string
  th_mentionColor :: string
  th_mentionHighlightBg :: string
  th_mentionHighlightLink :: string
  th_newMessageSeparator :: string
  th_onlineIndicator :: string
  th_sidebarBg :: string
  th_sidebarHeaderBg :: string
  th_sidebarTeamBarBg :: string
  th_sidebarHeaderTextColor :: string
  th_sidebarText :: string
  th_sidebarTextActiveBorder :: string
  th_sidebarTextActiveColor :: string
  th_sidebarTextHoverBg :: string
  th_sidebarUnreadText :: string

definition themeCssVariablesMap ::
  "(string \<Rightarrow> string \<Rightarrow> int \<Rightarrow> string) \<Rightarrow> (string \<Rightarrow> int \<Rightarrow> string) \<Rightarrow> theme \<Rightarrow> (string \<times> string) list" where
  "themeCssVariablesMap blend opac t = [
     (''away-indicator-rgb'', toRgbValues (th_awayIndicator t)),
     (''button-bg-rgb'', toRgbValues (th_buttonBg t)),
     (''button-color-rgb'', toRgbValues (th_buttonColor t)),
     (''center-channel-bg-rgb'', toRgbValues (th_centerChannelBg t)),
     (''center-channel-color-rgb'', toRgbValues (th_centerChannelColor t)),
     (''dnd-indicator-rgb'', toRgbValues (th_dndIndicator t)),
     (''error-text-color-rgb'', toRgbValues (th_errorTextColor t)),
     (''link-color-rgb'', toRgbValues (th_linkColor t)),
     (''mention-bg-rgb'', toRgbValues (th_mentionBg t)),
     (''mention-color-rgb'', toRgbValues (th_mentionColor t)),
     (''mention-highlight-bg-rgb'', toRgbValues (th_mentionHighlightBg t)),
     (''mention-highlight-link-rgb'', toRgbValues (th_mentionHighlightLink t)),
     (''mention-highlight-bg-mixed-rgb'', dropAlpha (blend (th_centerChannelBg t) (th_mentionHighlightBg t) 50)),
     (''pinned-highlight-bg-mixed-rgb'', dropAlpha (blend (th_centerChannelBg t) (th_mentionHighlightBg t) 24)),
     (''own-highlight-bg-rgb'', dropAlpha (blend (th_mentionHighlightBg t) (th_centerChannelColor t) 5)),
     (''new-message-separator-rgb'', toRgbValues (th_newMessageSeparator t)),
     (''online-indicator-rgb'', toRgbValues (th_onlineIndicator t)),
     (''sidebar-bg-rgb'', toRgbValues (th_sidebarBg t)),
     (''sidebar-header-bg-rgb'', toRgbValues (th_sidebarHeaderBg t)),
     (''sidebar-teambar-bg-rgb'', toRgbValues (th_sidebarTeamBarBg t)),
     (''sidebar-header-text-color-rgb'', toRgbValues (th_sidebarHeaderTextColor t)),
     (''sidebar-text-rgb'', toRgbValues (th_sidebarText t)),
     (''sidebar-text-active-border-rgb'', toRgbValues (th_sidebarTextActiveBorder t)),
     (''sidebar-text-active-color-rgb'', toRgbValues (th_sidebarTextActiveColor t)),
     (''sidebar-text-hover-bg-rgb'', toRgbValues (th_sidebarTextHoverBg t)),
     (''sidebar-unread-text-rgb'', toRgbValues (th_sidebarUnreadText t)),
     (''sidebar-bg'', th_sidebarBg t),
     (''sidebar-text'', th_sidebarText t),
     (''sidebar-unread-text'', th_sidebarUnreadText t),
     (''sidebar-text-hover-bg'', th_sidebarTextHoverBg t),
     (''sidebar-text-active-border'', th_sidebarTextActiveBorder t),
     (''sidebar-text-active-color'', th_sidebarTextActiveColor t),
     (''sidebar-header-bg'', th_sidebarHeaderBg t),
     (''sidebar-teambar-bg'', th_sidebarTeamBarBg t),
     (''sidebar-header-text-color'', th_sidebarHeaderTextColor t),
     (''online-indicator'', th_onlineIndicator t),
     (''away-indicator'', th_awayIndicator t),
     (''dnd-indicator'', th_dndIndicator t),
     (''mention-bg'', th_mentionBg t),
     (''mention-color'', th_mentionColor t),
     (''center-channel-bg'', th_centerChannelBg t),
     (''center-channel-color'', th_centerChannelColor t),
     (''new-message-separator'', th_newMessageSeparator t),
     (''link-color'', th_linkColor t),
     (''button-bg'', th_buttonBg t),
     (''button-color'', th_buttonColor t),
     (''error-text'', th_errorTextColor t),
     (''mention-highlight-bg'', th_mentionHighlightBg t),
     (''mention-highlight-link'', th_mentionHighlightLink t),
     (''sidebar-text-08'', opac (th_sidebarText t) 8),
     (''sidebar-text-16'', opac (th_sidebarText t) 16),
     (''sidebar-text-30'', opac (th_sidebarText t) 30),
     (''sidebar-text-40'', opac (th_sidebarText t) 40),
     (''sidebar-text-50'', opac (th_sidebarText t) 50),
     (''sidebar-text-60'', opac (th_sidebarText t) 60),
     (''sidebar-text-72'', opac (th_sidebarText t) 72),
     (''sidebar-text-80'', opac (th_sidebarText t) 80),
     (''sidebar-header-text-color-80'', opac (th_sidebarHeaderTextColor t) 80),
     (''center-channel-bg-88'', opac (th_centerChannelBg t) 88),
     (''center-channel-color-88'', opac (th_centerChannelColor t) 88),
     (''center-channel-bg-80'', opac (th_centerChannelBg t) 80),
     (''center-channel-color-80'', opac (th_centerChannelColor t) 80),
     (''center-channel-color-72'', opac (th_centerChannelColor t) 72),
     (''center-channel-bg-64'', opac (th_centerChannelBg t) 64),
     (''center-channel-color-64'', opac (th_centerChannelColor t) 64),
     (''center-channel-bg-56'', opac (th_centerChannelBg t) 56),
     (''center-channel-color-56'', opac (th_centerChannelColor t) 56),
     (''center-channel-color-48'', opac (th_centerChannelColor t) 48),
     (''center-channel-bg-40'', opac (th_centerChannelBg t) 40),
     (''center-channel-color-40'', opac (th_centerChannelColor t) 40),
     (''center-channel-bg-30'', opac (th_centerChannelBg t) 30),
     (''center-channel-color-32'', opac (th_centerChannelColor t) 32),
     (''center-channel-bg-20'', opac (th_centerChannelBg t) 20),
     (''center-channel-color-20'', opac (th_centerChannelColor t) 20),
     (''center-channel-bg-16'', opac (th_centerChannelBg t) 16),
     (''center-channel-color-24'', opac (th_centerChannelColor t) 24),
     (''center-channel-color-16'', opac (th_centerChannelColor t) 16),
     (''center-channel-bg-08'', opac (th_centerChannelBg t) 8),
     (''center-channel-color-08'', opac (th_centerChannelColor t) 8),
     (''center-channel-color-04'', opac (th_centerChannelColor t) 4),
     (''link-color-08'', opac (th_linkColor t) 8),
     (''button-bg-88'', opac (th_buttonBg t) 88),
     (''button-color-88'', opac (th_buttonColor t) 88),
     (''button-bg-80'', opac (th_buttonBg t) 80),
     (''button-color-80'', opac (th_buttonColor t) 80),
     (''button-bg-72'', opac (th_buttonBg t) 72),
     (''button-color-72'', opac (th_buttonColor t) 72),
     (''button-bg-64'', opac (th_buttonBg t) 64),
     (''button-color-64'', opac (th_buttonColor t) 64),
     (''button-bg-56'', opac (th_buttonBg t) 56),
     (''button-color-56'', opac (th_buttonColor t) 56),
     (''button-bg-48'', opac (th_buttonBg t) 48),
     (''button-color-48'', opac (th_buttonColor t) 48),
     (''button-bg-40'', opac (th_buttonBg t) 40),
     (''button-color-40'', opac (th_buttonColor t) 40),
     (''button-bg-30'', opac (th_buttonBg t) 32),
     (''button-color-32'', opac (th_buttonColor t) 32),
     (''button-bg-24'', opac (th_buttonBg t) 24),
     (''button-color-24'', opac (th_buttonColor t) 24),
     (''button-bg-16'', opac (th_buttonBg t) 16),
     (''button-color-16'', opac (th_buttonColor t) 16),
     (''button-bg-08'', opac (th_buttonBg t) 8),
     (''button-color-08'', opac (th_buttonColor t) 8),
     (''button-bg-04'', opac (th_buttonBg t) 4),
     (''button-color-04'', opac (th_buttonColor t) 4)]"

text \<open>The variables that are set on the root element.\<close>

definition applyTheme ::
  "(string \<Rightarrow> string \<Rightarrow> int \<Rightarrow> string) \<Rightarrow> (string \<Rightarrow> int \<Rightarrow> string) \<Rightarrow> theme \<Rightarrow>
   (string, string) obj \<Rightarrow> (string, string) obj" where
  "applyTheme blend opac t style =
     fold (\<lambda>(key, v). obj_set (''--'' @ key) v) (themeCssVariablesMap blend opac t) style"


text \<open>
  The functions of other packages: a base and a badge colour made from the sidebar's, and the text
  of a colour.
\<close>

type_synonym rgb = "int \<times> int \<times> int"

record host_colours =
  hc_blend :: "string \<Rightarrow> string \<Rightarrow> int \<Rightarrow> string"
  hc_opacity :: "string \<Rightarrow> int \<Rightarrow> string"
  hc_baseAndBadge :: "string \<Rightarrow> rgb \<times> rgb"
  hc_rgbToCSS :: "rgb \<Rightarrow> string"

definition setCallsGlobalCSSVars :: "host_colours \<Rightarrow> string \<Rightarrow> (string, string) obj \<Rightarrow> (string, string) obj" where
  "setCallsGlobalCSSVars hc baseColor style =
     (case hc_baseAndBadge hc baseColor of (base, badge) \<Rightarrow>
        case base of (r, g, b) \<Rightarrow>
          obj_set ''--calls-badge-bg'' (hc_rgbToCSS hc badge)
            (obj_set ''--calls-bg-rgb'' (show_int r @ '','' @ show_int g @ '','' @ show_int b)
              (obj_set ''--calls-bg'' (hc_rgbToCSS hc base) style)))"

section \<open>Colours that are read back\<close>

definition hex_digit :: "nat \<Rightarrow> char" where
  "hex_digit d = char_of (if d < 10 then 48 + d else 87 + d)"

definition hex_byte :: "nat \<Rightarrow> string" where
  "hex_byte n = [hex_digit (n div 16), hex_digit (n mod 16)]"

lemma of_hex_digit: "d < 16 \<Longrightarrow> (of_char (hex_digit d) :: nat) = (if d < 10 then 48 + d else 87 + d)"
  by (simp add: hex_digit_def)

lemma hex_digit_value: "d < 16 \<Longrightarrow> hex_value (hex_digit d) = Some d"
  by (simp add: hex_value_def Let_def of_hex_digit)

lemma hex_digit_plain:
  assumes "d < 16"
  shows "\<not> is_white (hex_digit d)" and "hex_digit d \<noteq> CHR ''-''" and "hex_digit d \<noteq> CHR ''+''"
    and "hex_digit d \<noteq> CHR ''x''" and "hex_digit d \<noteq> CHR ''X''"
proof -
  have o: "(of_char (hex_digit d) :: nat) = (if d < 10 then 48 + d else 87 + d)"
    using assms by (rule of_hex_digit)
  show "\<not> is_white (hex_digit d)" using o assms by (auto simp: is_white_def)
  have ne: "hex_digit d \<noteq> c" if "(of_char c :: nat) \<noteq> (if d < 10 then 48 + d else 87 + d)" for c
    using o that by metis
  show "hex_digit d \<noteq> CHR ''-''" "hex_digit d \<noteq> CHR ''+''" "hex_digit d \<noteq> CHR ''x''" "hex_digit d \<noteq> CHR ''X''"
    using assms by (auto intro!: ne split: if_split_asm)
qed

lemma parse_hex_byte: "n < 256 \<Longrightarrow> parse_hex (hex_byte n) = Some (int n)"
proof -
  assume n: "n < 256"
  then have h: "n div 16 < 16" "n mod 16 < 16" by auto
  show ?thesis
    using n hex_digit_plain [OF h(1)] hex_digit_plain [OF h(2)]
    by (simp add: parse_hex_def hex_byte_def hex_digit_value h Let_def)
qed

lemma hex_byte_length [simp]: "length (hex_byte n) = 2"
  by (simp add: hex_byte_def)

text \<open>
  The three channels of a colour written with six hexadecimal digits are read back.\<close>
theorem rgb_values_read_back:
  assumes "r < 256" "g < 256" "b < 256"
  shows "toRgbValues (''#'' @ hex_byte r @ hex_byte g @ hex_byte b) =
    show_nat r @ '', '' @ show_nat g @ '', '' @ show_nat b"
  using assms by (simp add: toRgbValues_def Let_def parse_hex_byte number_text_def show_int_def)

theorem rgb_values_read_back_witness:
  "toRgbValues ''#1e325c'' = ''30, 50, 92''"
proof -
  have "hex_byte 30 = ''1e''" "hex_byte 50 = ''32''" "hex_byte 92 = ''5c''"
    by code_simp+
  moreover have "show_nat 30 = ''30''" "show_nat 50 = ''50''" "show_nat 92 = ''92''"
    by code_simp+
  ultimately show ?thesis
    using rgb_values_read_back [of 30 50 92] by simp
qed

end
