(* ===== verification/Standalone.thy ===== *)
theory Standalone imports StandaloneTheme Plugin Participants CallWidget WidgetView begin

text \<open>
  The two standalone pages: the call widget of the desktop app and the page that the recorder
  opens (\<open>standalone/src/init.ts\<close>, \<open>widget/index.tsx\<close> and \<open>recording/\<close>).

  A page has its own store, its own calls client and its own listeners on it, so the handlers of
  websocket events that call the client are given here for any listeners: with those of the
  plugin they are the handlers of \<open>Plugin\<close>, and a page runs them with its own. What differs
  between the pages is what they do when the client closes (\<open>closeCb\<close>), and what they add.
\<close>

section \<open>State\<close>

datatype page_kind = WidgetPage | RecordingPage

text \<open>What the page tells the desktop app: by a function of its API, or by a message.\<close>

datatype told =
    ToldError "string option" client_error
  | ToldLeaveCall
  | ToldAppVersionRequest

type_synonym images_state = "(string, (string, string) obj) obj"

record standalone =
  sp_env :: env
  sp_images :: images_state \<comment> \<open>the recording page's own reducer\<close>
  sp_fetching :: "(string \<times> string list) list" \<comment> \<open>images asked for: channel, users\<close>
  sp_mounted :: bool
  sp_listening :: bool \<comment> \<open>\<open>initWidget\<close> has registered its listeners\<close>
  sp_socket :: bool \<comment> \<open>the events of the websocket are handled\<close>
  sp_closing :: "int list" \<comment> \<open>when the timers of \<open>deinitWidget\<close> fire\<close>
  sp_told :: "told list"
  sp_awaitsApp :: bool \<comment> \<open>listens for the desktop app's version\<close>
  sp_desktop :: "string option" \<comment> \<open>\<open>window.desktop\<close>\<close>
  sp_serverVersion :: "string option"
  sp_style :: "(string, string) obj"

definition on_page :: "(env \<Rightarrow> env) \<Rightarrow> standalone \<Rightarrow> standalone" where
  "on_page f p = p\<lparr>sp_env := f (sp_env p)\<rparr>"

lemma on_page_fields [simp]:
  "sp_env (on_page f p) = f (sp_env p)" "sp_images (on_page f p) = sp_images p"
  "sp_mounted (on_page f p) = sp_mounted p" "sp_closing (on_page f p) = sp_closing p"
  "sp_told (on_page f p) = sp_told p" "sp_listening (on_page f p) = sp_listening p"
  "sp_fetching (on_page f p) = sp_fetching p" "sp_socket (on_page f p) = sp_socket p"
  by (simp_all add: on_page_def)

lemma on_page_comp: "on_page f (on_page g p) = on_page (\<lambda>e. f (g e)) p"
  by (simp add: on_page_def)

section \<open>The handlers, for any listeners on the client\<close>

type_synonym listener = "client_event \<Rightarrow> standalone \<Rightarrow> standalone"

definition client_call_on :: "listener \<Rightarrow> (calls_client \<Rightarrow> calls_client) \<Rightarrow> standalone \<Rightarrow> standalone" where
  "client_call_on listen f p =
     (case ev_client (sp_env p) of
        None \<Rightarrow> p
      | Some c \<Rightarrow>
          fold listen (drop (length (cc_emitted c)) (cc_emitted (f c)))
            (on_page (\<lambda>e. e\<lparr>ev_client := Some (f c)\<rparr>) p))"

definition callEnd_on :: "listener \<Rightarrow> string \<Rightarrow> standalone \<Rightarrow> standalone" where
  "callEnd_on listen channelID p =
     (let p1 = (if channelIDForCurrentCall (getState (sp_env p)) = channelID
                then client_call_on listen (disconnect None) p else p);
          callID = str_of (idForCallInChannel (getState (sp_env p1)) channelID)
      in on_page (\<lambda>e. removeIncomingCallNotification callID (dispatch (CALL_END channelID callID) e)) p1)"

definition userLeft_on :: "listener \<Rightarrow> string \<Rightarrow> string \<Rightarrow> string \<Rightarrow> standalone \<Rightarrow> standalone" where
  "userLeft_on listen channelID userID sessionID p =
     (let p1 = on_page (dispatch (USER_LEFT channelID userID sessionID)) p
      in if numSessionsInCallInChannel (getState (sp_env p1)) channelID = 0
         then callEnd_on listen channelID p1 else p1)"

definition userRemoved_on ::
  "listener \<Rightarrow> string \<Rightarrow> string \<Rightarrow> string \<Rightarrow> event_meta \<Rightarrow> standalone \<Rightarrow> standalone" where
  "userRemoved_on listen channel_id user_id remover_id m p =
     (let ch = str_or channel_id (em_broadcast_channel m);
          me = mm_currentUserID (ev_mm (sp_env p));
          removed = str_or user_id (em_broadcast_user m)
      in if removed = me \<and> ch = channelIDForCurrentCall (getState (sp_env p))
         then client_call_on listen
                (disconnect (Some (if remover_id = me then UserLeftChannelErr else UserRemovedFromChannelErr))) p
         else p)"

definition hostMute_on :: "listener \<Rightarrow> string \<Rightarrow> string \<Rightarrow> standalone \<Rightarrow> standalone" where
  "hostMute_on listen channelID sessionID p =
     (if for_me channelID sessionID (sp_env p) then client_call_on listen mute p else p)"

definition hostScreenOff_on :: "listener \<Rightarrow> string \<Rightarrow> string \<Rightarrow> standalone \<Rightarrow> standalone" where
  "hostScreenOff_on listen channelID sessionID p =
     (if for_me channelID sessionID (sp_env p) then client_call_on listen unshareScreen p else p)"

definition hostLowerHand_on ::
  "listener \<Rightarrow> string \<Rightarrow> string \<Rightarrow> string \<Rightarrow> string \<Rightarrow> standalone \<Rightarrow> standalone" where
  "hostLowerHand_on listen channelID sessionID call_id host_id p =
     (if \<not> for_me channelID sessionID (sp_env p) then p
      else
        let p1 = client_call_on listen unraiseHand p; e1 = sp_env p1;
            n = \<lparr>hn_type = LowerHand, hn_callID = call_id, hn_noticeID = next_id e1,
                 hn_displayName = current_display_name e1 host_id, hn_userID = None\<rparr>
        in on_page (\<lambda>e. setTimeout (TDispatch (HOST_CONTROL_NOTICE_TIMEOUT_EVENT call_id (hn_noticeID n)))
             HOST_CONTROL_NOTICE_TIMEOUT
             (setTimeout (TDispatch (HOST_CONTROL_NOTICE n)) 0 (draw_id e))) p1)"

definition hostRemoved_on ::
  "listener \<Rightarrow> string \<Rightarrow> string \<Rightarrow> string \<Rightarrow> string \<Rightarrow> standalone \<Rightarrow> standalone" where
  "hostRemoved_on listen channelID sessionID call_id user_id p =
     (if \<not> in_channel channelID (sp_env p) then p
      else if is_my_session sessionID (sp_env p)
      then client_call_on listen (disconnect (Some HostRemovedErr)) p
      else on_page (handleHostRemoved channelID sessionID call_id user_id) p)"

text \<open>
  The \<open>switch\<close> of the websocket events, case by case. There is none for captions and for the settings
  of a channel, which go to its default.
\<close>

fun server_event_on :: "listener \<Rightarrow> server_event \<Rightarrow> standalone \<Rightarrow> standalone" where
  "server_event_on listen (CallStart m d) p = on_page (handleCallStart m d) p"
| "server_event_on listen (CallEnd m) p = callEnd_on listen (event_channel m) p"
| "server_event_on listen (UserJoined m u s) p = on_page (handleUserJoined m u s) p"
| "server_event_on listen (UserLeft m u s) p = userLeft_on listen (event_channel m) u s p"
| "server_event_on listen (UserVoiceOn m u s) p = on_page (handleUserVoiceOn m u s) p"
| "server_event_on listen (UserVoiceOff m u s) p = on_page (handleUserVoiceOff m u s) p"
| "server_event_on listen (UserScreenOn m s) p = on_page (handleUserScreenOn m s) p"
| "server_event_on listen (UserScreenOff m s) p = on_page (handleUserScreenOff m s) p"
| "server_event_on listen (UserMuted m u s) p = on_page (handleUserMuted m u s) p"
| "server_event_on listen (UserUnmuted m u s) p = on_page (handleUserUnmuted m u s) p"
| "server_event_on listen (UserRaiseHand m u s t) p = on_page (handleUserRaisedHand m u s t) p"
| "server_event_on listen (UserUnraiseHand m u s t) p = on_page (handleUserUnraisedHand m u s t) p"
| "server_event_on listen (CallHostChanged m host call) p = on_page (handleCallHostChanged m host call) p"
| "server_event_on listen (UserReacted m d) p = on_page (handleUserReaction m d) p"
| "server_event_on listen (CallJobState call j) p = on_page (handleCallJobState call j) p"
| "server_event_on listen (UserDismissedNotification u call) p =
     on_page (handleUserDismissedNotification u call) p"
| "server_event_on listen (CallState ch d) p = on_page (handleCallState ch d) p"
| "server_event_on listen (HostMute ch s) p = hostMute_on listen ch s p"
| "server_event_on listen (HostScreenOff ch s) p = hostScreenOff_on listen ch s p"
| "server_event_on listen (HostLowerHand ch s call host) p = hostLowerHand_on listen ch s call host p"
| "server_event_on listen (HostRemovedUser ch s call u) p = hostRemoved_on listen ch s call u p"
| "server_event_on listen (UserVideoOn m u s) p = on_page (handleUserVideoOn m u s) p"
| "server_event_on listen (UserVideoOff m u s) p = on_page (handleUserVideoOff m u s) p"
| "server_event_on listen (UserRemoved ch u remover m) p = userRemoved_on listen ch u remover m p"
| "server_event_on listen _ p = p"

section \<open>Closing\<close>

text \<open>The message about an error goes out at once; the rest waits for the sound to play.\<close>

definition deinitWidget :: "client_error option \<Rightarrow> standalone \<Rightarrow> standalone" where
  "deinitWidget err p =
     (let p1 = on_page (effect (EPlaySound ''leave_self'')) p;
          p2 = (case err of
                  None \<Rightarrow> p1
                | Some x \<Rightarrow> p1\<lparr>sp_told := sp_told p1 @
                    [ToldError (map_option cc_channelID (ev_client (sp_env p1))) x]\<rparr>)
      in p2\<lparr>sp_closing := sp_closing p2 @ [ev_now (sp_env p2) + 250]\<rparr>)"

text \<open>\<open>window.callsClient?.destroy(); delete window.callsClient\<close>\<close>

definition drop_client :: "env \<Rightarrow> env" where
  "drop_client e = e\<lparr>ev_client := None\<rparr>"

definition deinitWidget_timer :: "int \<Rightarrow> standalone \<Rightarrow> standalone" where
  "deinitWidget_timer t p =
     (on_page drop_client p)\<lparr>sp_mounted := False, sp_closing := remove1 t (sp_closing p),
        sp_told := sp_told p @ [ToldLeaveCall]\<rparr>"

definition deinitRecording :: "standalone \<Rightarrow> standalone" where
  "deinitRecording p = (on_page drop_client p)\<lparr>sp_mounted := False\<rparr>"

definition closeCb :: "page_kind \<Rightarrow> client_error option \<Rightarrow> standalone \<Rightarrow> standalone" where
  "closeCb k err = (case k of WidgetPage \<Rightarrow> deinitWidget err | RecordingPage \<Rightarrow> deinitRecording)"

section \<open>The listeners on the client\<close>

definition page_closed :: "page_kind \<Rightarrow> client_error option \<Rightarrow> standalone \<Rightarrow> standalone" where
  "page_closed k err p =
     (let p1 = on_page (setClientConnecting False) p;
          p2 = (case ev_client (sp_env p1) of
                  None \<Rightarrow> p1 | Some c \<Rightarrow> on_page (localSessionClose (cc_channelID c)) p1)
      in closeCb k err p2)"

text \<open>Those of \<open>connectCall\<close>, and those that \<open>initWidget\<close> registers.\<close>

fun page_listener :: "page_kind \<Rightarrow> listener" where
  "page_listener k CConnect p = on_page (setClientConnecting False) p"
| "page_listener k (CClose err) p = page_closed k err p"
| "page_listener k CMute p = (if sp_listening p then on_page (self_event USER_MUTED) p else p)"
| "page_listener k CUnmute p = (if sp_listening p then on_page (self_event USER_UNMUTED) p else p)"
| "page_listener k CVideoOn p = (if sp_listening p then on_page (self_event USER_VIDEO_ON) p else p)"
| "page_listener k CVideoOff p = (if sp_listening p then on_page (self_event USER_VIDEO_OFF) p else p)"
| "page_listener k _ p = p"

definition page_call :: "page_kind \<Rightarrow> (calls_client \<Rightarrow> calls_client) \<Rightarrow> standalone \<Rightarrow> standalone" where
  "page_call k = client_call_on (page_listener k)"

section \<open>The recording page\<close>

datatype images_action = RECEIVED_CALL_PROFILE_IMAGES string "(string, string) obj" | OTHER_IMAGES_ACTION

fun callProfileImages_reducer :: "images_state \<Rightarrow> images_action \<Rightarrow> images_state" where
  "callProfileImages_reducer state (RECEIVED_CALL_PROFILE_IMAGES ch imgs) =
     (case obj_get state ch of
        None \<Rightarrow> obj_set ch imgs state
      | Some old \<Rightarrow> obj_set ch (obj_spread old imgs) state)"
| "callProfileImages_reducer state OTHER_IMAGES_ACTION = state"

definition callProfileImages :: "images_state \<Rightarrow> string \<Rightarrow> (string, string) obj" where
  "callProfileImages state ch = obj_or_empty (obj_get state ch)"

text \<open>
  The requests in the order in which they end, each after its retries: the images that are there
  when all have come or the first has failed, which is only logged.
\<close>

fun fetchProfileImages :: "(string \<times> (error + string)) list \<Rightarrow> (string, string) obj \<Rightarrow> (string, string) obj" where
  "fetchProfileImages [] imgs = imgs"
| "fetchProfileImages ((uid, Inl err) # rest) imgs = imgs"
| "fetchProfileImages ((uid, Inr url) # rest) imgs = fetchProfileImages rest (obj_set uid url imgs)"

definition ask_images :: "string \<Rightarrow> string list \<Rightarrow> standalone \<Rightarrow> standalone" where
  "ask_images ch ids p = p\<lparr>sp_fetching := sp_fetching p @ [(ch, ids)]\<rparr>"

definition images_fetched ::
  "string \<Rightarrow> string list \<Rightarrow> (string \<times> (error + string)) list \<Rightarrow> standalone \<Rightarrow> standalone" where
  "images_fetched ch ids results p =
     p\<lparr>sp_fetching := remove1 (ch, ids) (sp_fetching p),
       sp_images := callProfileImages_reducer (sp_images p)
         (RECEIVED_CALL_PROFILE_IMAGES ch (fetchProfileImages results []))\<rparr>"

text \<open>A message on the websocket: an event of the plugin's, or one that only a page knows.\<close>

datatype page_message =
    Hello string \<comment> \<open>the server's version\<close>
  | Event server_event
  | JobStop string
  | OtherMessage

fun wsHandlerRecording :: "string \<Rightarrow> page_message \<Rightarrow> standalone \<Rightarrow> standalone" where
  "wsHandlerRecording jobID (Event (UserJoined m u s)) p = ask_images (em_data_channel m) [u] p"
| "wsHandlerRecording jobID (Event (CallState ch parsed)) p =
     (case parsed of
        None \<Rightarrow> p
      | Some call \<Rightarrow>
          if cd_sessions call \<noteq> []
          then ask_images ch (getUserIDsForSessions (cd_sessions call)) p else p)"
| "wsHandlerRecording jobID (JobStop job) p =
     (if jobID = job then page_call RecordingPage (disconnect None) p else p)"
| "wsHandlerRecording jobID _ p = p"

text \<open>The handler that \<open>init\<close> gives to \<open>connectCall\<close>.\<close>

fun page_switch :: "page_kind \<Rightarrow> page_message \<Rightarrow> standalone \<Rightarrow> standalone" where
  "page_switch k (Hello version) p = p\<lparr>sp_serverVersion := Some version\<rparr>"
| "page_switch k (Event ev) p = server_event_on (page_listener k) ev p"
| "page_switch k _ p = p"

definition wsEventHandler :: "page_kind \<Rightarrow> query \<Rightarrow> page_message \<Rightarrow> standalone \<Rightarrow> standalone" where
  "wsEventHandler k q m p =
     (let p1 = page_switch k m p
      in case k of WidgetPage \<Rightarrow> p1 | RecordingPage \<Rightarrow> wsHandlerRecording (getJobID q) m p1)"

definition page_message :: "page_kind \<Rightarrow> query \<Rightarrow> page_message \<Rightarrow> standalone \<Rightarrow> standalone" where
  "page_message k q m p = (if sp_socket p then wsEventHandler k q m p else p)"

section \<open>The view of the recording\<close>

record recording_view =
  rv_grid :: "(string option \<times> tile_view) list option" \<comment> \<open>each tile with its picture\<close>
  rv_screen :: "string option option" \<comment> \<open>the screen's player with its text\<close>
  rv_participants :: nat
  rv_speaking :: "(string option \<times> string) option" \<comment> \<open>the speaker's picture and name\<close>

text \<open>The first session that is the presenter's, and the first that speaks and has a profile.\<close>

definition rec_screen_player :: "(string \<Rightarrow> string \<Rightarrow> int) \<Rightarrow> global_state \<Rightarrow> string option" where
  "rec_screen_player localeCompare gs =
     (case find (\<lambda>s. us_session_id s =
              Option.bind (screenSharingSessionForCurrentCall gs) us_session_id) (call_sessions localeCompare gs) of
        None \<Rightarrow> None
      | Some s \<Rightarrow>
          (case Option.bind (us_user_id s) (obj_get (profilesInCurrentCallMap gs)) of
             None \<Rightarrow> None
           | Some u \<Rightarrow> Some (''You're viewing '' @ getUserDisplayName (Some u) False @ [CHR 0x27] @ ''s screen'')))"

definition rec_speaking ::
  "(string \<Rightarrow> string \<Rightarrow> int) \<Rightarrow> (string, string) obj \<Rightarrow> global_state \<Rightarrow> (string option \<times> string) option" where
  "rec_speaking localeCompare images gs =
     (let profile = (\<lambda>s. Option.bind (us_user_id s) (obj_get (profilesInCurrentCallMap gs)))
      in case find (\<lambda>s. truthy_bool (us_voice s) \<and> profile s \<noteq> None) (call_sessions localeCompare gs) of
           None \<Rightarrow> None
         | Some s \<Rightarrow>
             (case profile s of
                None \<Rightarrow> None
              | Some u \<Rightarrow> Some (obj_get images (up_id u), getUserDisplayName (Some u) False)))"

definition tile_pictures ::
  "(string, string) obj \<Rightarrow> (string, user_profile) obj \<Rightarrow> user_session list \<Rightarrow> string option list" where
  "tile_pictures images profiles ss =
     concat (map (\<lambda>s. case Option.bind (us_user_id s) (obj_get profiles) of
         None \<Rightarrow> [] | Some u \<Rightarrow> [obj_get images (up_id u)]) ss)"

definition RecordingView :: "(string \<Rightarrow> string \<Rightarrow> int) \<Rightarrow> standalone \<Rightarrow> recording_view option" where
  "RecordingView localeCompare p =
     (let gs = getState (sp_env p); sessions = call_sessions localeCompare gs;
          hasScreenShare = (screenSharingSessionForCurrentCall gs \<noteq> None);
          props = \<lparr>lp_sessions = sessions, lp_profiles = profilesInCurrentCallMap gs,
                    lp_callHostID = hostIDForCurrentCall gs, lp_currentSession = None,
                    lp_screenSharingSession = None, lp_callID = None,
                    lp_controlsAllowed = areHostControlsAllowed gs,
                    lp_isAdmin = mm_isCurrentUserSystemAdmin (gs_mm gs)\<rparr>
      in case ev_client (sp_env p) of
           None \<Rightarrow> None
         | Some c \<Rightarrow> let images = callProfileImages (sp_images p) (cc_channelID c) in Some \<lparr>
             rv_grid = (if hasScreenShare then None
                        else Some (zip (tile_pictures images (lp_profiles props) sessions)
                               (ParticipantsGrid (\<lambda>s. hover_init) []
                                  (props\<lparr>lp_callID := Some (cc_channelID c)\<rparr>)))),
             rv_screen = (if hasScreenShare then Some (rec_screen_player localeCompare gs) else None),
             rv_participants = length sessions,
             rv_speaking = (if hasScreenShare
                then rec_speaking localeCompare images gs else None)\<rparr>)"

section \<open>Starting\<close>

text \<open>
  The state that a page needs of the host application. The recording page asks for the channel
  (\<open>answer\<close>, after the retries); the widget asks for the user, the teams and the channel
  (\<open>loaded\<close>), then for the channel's team, or for its members to select the first team.
\<close>

definition initRecordingStore :: "error + channel \<Rightarrow> mm_state \<Rightarrow> mm_state" where
  "initRecordingStore answer mm =
     (case answer of
        Inl err \<Rightarrow> mm
      | Inr c \<Rightarrow> mm\<lparr>mm_channels := obj_set (chn_id c) c (mm_channels mm)\<rparr>)"

record store_requests =
  sr_loaded :: "mm_state \<Rightarrow> mm_state"
  sr_openOrPrivate :: "channel \<Rightarrow> bool" \<comment> \<open>of the host application\<close>
  sr_getTeam :: "string \<Rightarrow> mm_state \<Rightarrow> mm_state"
  sr_getChannelMembers :: "string \<Rightarrow> mm_state \<Rightarrow> mm_state"
  sr_selectTeam :: "team option \<Rightarrow> mm_state \<Rightarrow> mm_state"

definition initStoreWidget :: "store_requests \<Rightarrow> string \<Rightarrow> mm_state \<Rightarrow> mm_state" where
  "initStoreWidget r channelID mm0 =
     (let mm = sr_loaded r mm0
      in case obj_get (mm_channels mm) channelID of
           None \<Rightarrow> mm
         | Some c \<Rightarrow>
             if sr_openOrPrivate r c then sr_getTeam r (chn_team_id c) mm
             else let mm1 = sr_getChannelMembers r (chn_id c) mm
                  in sr_selectTeam r
                       (case obj_values (mm_teams mm1) of [] \<Rightarrow> None | t # ts \<Rightarrow> Some t) mm1)"

text \<open>
  The three results that \<open>init\<close> waits for together: two are the results of actions, objects with
  the data or the error, the third is whether the call is active.
\<close>

datatype fetched = ActionResult bool \<comment> \<open>with data\<close> | CallActive bool

fun fetched_truthy :: "fetched \<Rightarrow> bool" where
  "fetched_truthy (ActionResult has_data) = True"
| "fetched_truthy (CallActive b) = b"

datatype store_answer = RecordingStore "error + channel" | WidgetStore store_requests

definition init_store :: "store_answer \<Rightarrow> string \<Rightarrow> mm_state \<Rightarrow> mm_state" where
  "init_store s channelID =
     (case s of RecordingStore answer \<Rightarrow> initRecordingStore answer | WidgetStore r \<Rightarrow> initStoreWidget r channelID)"

record init_answers =
  ia_store :: store_answer
  ia_config :: "calls_config option"
  ia_version :: "(string, string) obj option"
  ia_active :: "error + bool"
  ia_rejected :: bool \<comment> \<open>one of the three requests rejects\<close>
  ia_turn :: "error + string list"
  ia_theme :: theme
  ia_colours :: host_colours

record address =
  ad_pathname :: string
  ad_query :: query
  ad_hash :: string

datatype outcome =
    Logged string \<comment> \<open>an error is logged and nothing is shown\<close>
  | Rejected
  | Started bool \<comment> \<open>\<open>startingCall\<close>\<close>

definition with_basename :: "string \<Rightarrow> host_window \<Rightarrow> host_window" where
  "with_basename pathname h =
     (case setBasename pathname of None \<Rightarrow> h | Some b \<Rightarrow> h\<lparr>hw_basename := b\<rparr>)"

text \<open>
  \<open>connectCall\<close>: with a client already there it only logs. The client's own \<open>init\<close> has set the
  channel when it first waits.
\<close>

definition page_connect :: "client_config \<Rightarrow> string \<Rightarrow> standalone \<Rightarrow> standalone" where
  "page_connect cf channelID p =
     (if ev_client (sp_env p) \<noteq> None then p
      else on_page (start_client cf \<lparr>ca_channelID = channelID, ca_title = None, ca_rootId = None\<rparr>) p)"

definition page_join_data :: "query \<Rightarrow> string \<Rightarrow> join_data" where
  "page_join_data q channelID = \<lparr>jd_channelID = channelID, jd_title = Some (getCallTitle q),
     jd_threadID = Some (getRootID q), jd_av1Support = False, jd_dcSignaling = False\<rparr>"

definition page_client_config ::
  "host_window \<Rightarrow> string \<Rightarrow> string list \<Rightarrow> string \<Rightarrow> env \<Rightarrow> client_config" where
  "page_client_config h token turn channelID e =
     (let cf = client_config_of h \<lparr>ca_channelID = channelID, ca_title = None, ca_rootId = None\<rparr> e
      in cf\<lparr>cf_authToken := token, cf_iceServers := cf_iceServers cf @ turn\<rparr>)"

text \<open>The state after the three requests.\<close>

definition page_fetched :: "init_answers \<Rightarrow> standalone \<Rightarrow> standalone" where
  "page_fetched a = on_page (\<lambda>e. dispatch_some RECEIVED_CALLS_VERSION_INFO (ia_version a)
      (dispatch_some RECEIVED_CALLS_CONFIG (ia_config a) e))"

definition starting_call :: "init_answers \<Rightarrow> bool" where
  "starting_call a =
     (let results = [ActionResult (ia_config a \<noteq> None), ActionResult (ia_version a \<noteq> None),
                     CallActive (getCallActive (ia_active a))]
      in \<not> fetched_truthy (results ! 1))"

definition init ::
  "host_window \<Rightarrow> address \<Rightarrow> (string \<Rightarrow> error + json) \<Rightarrow> string \<Rightarrow> init_answers \<Rightarrow> standalone \<Rightarrow>
   standalone \<times> outcome" where
  "init h0 ad decode whisperCPP a p0 =
     (let h = with_basename (ad_pathname ad) h0;
          p = on_page (\<lambda>e. e\<lparr>ev_plugin := init_root whisperCPP\<rparr>) p0;
          channelID = str_of (getCallID (ad_query ad))
      in if channelID = [] then (p, Logged ''invalid call id'')
         else (case getToken decode (ad_hash ad) of
             Inl err \<Rightarrow> (p, Rejected)
           | Inr token \<Rightarrow>
               let p1 = on_page (\<lambda>e. e\<lparr>ev_mm := init_store (ia_store a) channelID (ev_mm e)\<rparr>) p
               in if obj_get (mm_channels (ev_mm (sp_env p1))) channelID = None
                  then (p1, Logged ''channel not found'')
                  else if ia_rejected a then (p1, Rejected)
                  else
                    let p2 = page_fetched a p1;
                        turn = (if needsTURNCredentials (getState (sp_env p2)) then ia_turn a else Inr [])
                    in (case turn of
                          Inl err \<Rightarrow> (p2, Rejected)
                        | Inr creds \<Rightarrow>
                            let p3 = page_connect (page_client_config h token creds channelID (sp_env p2))
                                       channelID p2
                            in (p3\<lparr>sp_style := setCallsGlobalCSSVars (ia_colours a) (th_sidebarBg (ia_theme a))
                                   (applyTheme (hc_blend (ia_colours a)) (hc_opacity (ia_colours a))
                                      (ia_theme a) (sp_style p3))\<rparr>,
                                Started (starting_call a)))))"

text \<open>What the client's \<open>init\<close> ends with.\<close>

definition page_init_done :: "standalone \<Rightarrow> standalone" where
  "page_init_done p =
     (if Option.bind (ev_client (sp_env p)) cc_ws \<noteq> None then p\<lparr>sp_socket := True\<rparr> else p)"

definition page_init_failed :: "page_kind \<Rightarrow> client_error \<Rightarrow> standalone \<Rightarrow> standalone" where
  "page_init_failed k err p = closeCb k (Some err) (on_page (setClientConnecting False) p)"

text \<open>
  \<open>initCb\<close>: the recording shows its view; the widget first learns the version of the desktop app,
  from its API (and stops for good when that fails) or, later, from a message.
\<close>

definition initRecording :: "host_colours \<Rightarrow> theme \<Rightarrow> standalone \<Rightarrow> standalone" where
  "initRecording hc t p =
     p\<lparr>sp_style := setCallsGlobalCSSVars hc (th_sidebarBg t) (sp_style p), sp_mounted := True\<rparr>"

definition initWidget_rest :: "standalone \<Rightarrow> standalone" where
  "initWidget_rest p =
     (if ev_client (sp_env p) = None then p\<lparr>sp_mounted := True\<rparr>
      else p\<lparr>sp_listening := True, sp_mounted := True\<rparr>)"

definition initWidget :: "bool \<Rightarrow> standalone \<Rightarrow> standalone" where
  "initWidget has_getAppInfo p =
     (if has_getAppInfo then p
      else initWidget_rest (p\<lparr>sp_awaitsApp := True, sp_told := sp_told p @ [ToldAppVersionRequest]\<rparr>))"

definition app_info_answered :: "error + string \<Rightarrow> standalone \<Rightarrow> standalone" where
  "app_info_answered answer p =
     (case answer of
        Inl err \<Rightarrow> p | Inr info \<Rightarrow> initWidget_rest (p\<lparr>sp_desktop := Some info\<rparr>))"

definition register_desktop :: "bool \<Rightarrow> string \<Rightarrow> standalone \<Rightarrow> standalone" where
  "register_desktop sameOrigin info p =
     (if sp_awaitsApp p \<and> sameOrigin then p\<lparr>sp_desktop := Some info\<rparr> else p)"

text \<open>\<open>runWithRetry\<close> around \<open>init\<close>: the attempts go on until one is not rejected.\<close>

fun recording_start ::
  "host_window \<Rightarrow> address \<Rightarrow> (string \<Rightarrow> error + json) \<Rightarrow> string \<Rightarrow> init_answers list \<Rightarrow> standalone \<Rightarrow>
   standalone \<times> outcome" where
  "recording_start h ad decode w [] p = (p, Rejected)"
| "recording_start h ad decode w (a # as) p =
     (case init h ad decode w a p of
        (p1, Rejected) \<Rightarrow> recording_start h ad decode w as p1
      | (p1, Started b) \<Rightarrow> (initRecording (ia_colours a) (ia_theme a) p1, Started b)
      | (p1, r) \<Rightarrow> (p1, r))"

section \<open>The plugin's listeners\<close>

definition plugin_listener :: listener where
  "plugin_listener ev = on_page (on_client_event ev)"

lemma fold_on_page: "fold (\<lambda>x. on_page (f x)) xs (on_page g p) = on_page (\<lambda>e. fold f xs (g e)) p"
  by (induction xs arbitrary: g) (simp_all add: on_page_comp)

lemma on_page_id [simp]: "on_page (\<lambda>e. e) p = p"
  by (simp add: on_page_def)

lemma on_page_eqI: "f (sp_env p) = g (sp_env p) \<Longrightarrow> on_page f p = on_page g p"
  by (simp add: on_page_def)

lemma client_call_plugin: "client_call_on plugin_listener f p = on_page (client_call f) p"
proof (cases "ev_client (sp_env p)")
  case None
  then show ?thesis by (simp add: client_call_on_def client_call_def on_page_def)
next
  case (Some c)
  have l: "plugin_listener = (\<lambda>ev. on_page (on_client_event ev))" by (simp add: plugin_listener_def fun_eq_iff)
  from Some show ?thesis
    by (simp add: client_call_on_def client_call_def l fold_on_page)
      (simp add: on_page_def client_call_def)
qed

lemma callEnd_plugin: "callEnd_on plugin_listener ch p = on_page (callEnd ch) p"
  by (simp add: callEnd_on_def callEnd_def Let_def client_call_plugin disconnect_client_def on_page_comp
      on_page_def)

lemma userLeft_plugin: "userLeft_on plugin_listener ch u s p = on_page (userLeft ch u s) p"
  by (simp add: userLeft_on_def userLeft_def Let_def callEnd_plugin on_page_comp on_page_def)

section \<open>Listeners that leave other channels alone\<close>

abbreviation page_view :: "standalone \<Rightarrow> string \<Rightarrow> channel_view" where
  "page_view p ch \<equiv> view (sp_env p) ch"

text \<open>
  What a window's listeners promise: whatever event its client emits, the other channels' views
  stay. Then no event of the server's changes a channel that it does not name.
\<close>

locale client_listeners =
  fixes listen :: listener
  assumes listen_local:
    "ev_client (sp_env p) = Some c \<Longrightarrow> cc_channelID c \<noteq> ch \<Longrightarrow> page_view (listen ev p) ch = page_view p ch"
begin

lemma call_local:
  assumes "map_option cc_channelID (ev_client (sp_env p)) \<noteq> Some ch"
    and "\<And>c. cc_channelID (f c) = cc_channelID c"
    and "\<And>c. length (drop (length (cc_emitted c)) (cc_emitted (f c))) \<le> 1"
  shows "page_view (client_call_on listen f p) ch = page_view p ch"
proof (cases "ev_client (sp_env p)")
  case None
  then show ?thesis by (simp add: client_call_on_def)
next
  case (Some c)
  let ?q = "on_page (\<lambda>e. e\<lparr>ev_client := Some (f c)\<rparr>) p"
  have q: "ev_client (sp_env ?q) = Some (f c)" "cc_channelID (f c) \<noteq> ch" "page_view ?q ch = page_view p ch"
    using assms(1,2) Some by simp_all
  show ?thesis
    using assms(3) [of c] Some listen_local [OF q(1,2)] q(3)
    by (cases "drop (length (cc_emitted c)) (cc_emitted (f c))") (auto simp: client_call_on_def)
qed

lemma disconnect_local:
  assumes "map_option cc_channelID (ev_client (sp_env p)) \<noteq> Some ch"
  shows "page_view (client_call_on listen (disconnect err) p) ch = page_view p ch"
  by (rule call_local [OF assms]) (simp_all add: disconnect_emits)

lemma callEnd_local:
  assumes "client_in_channel (sp_env p)" "ch \<noteq> ch'"
  shows "page_view (callEnd_on listen ch' p) ch = page_view p ch"
  using assms disconnect_local [of p ch None] current_is_client [of "sp_env p" ch' ch]
  by (auto simp: callEnd_on_def Let_def store_chan.frame touches_def)

lemma host_local:
  assumes "ch \<noteq> ch'"
  shows "page_view (hostMute_on listen ch' s p) ch = page_view p ch"
    and "page_view (hostScreenOff_on listen ch' s p) ch = page_view p ch"
    and "page_view (hostLowerHand_on listen ch' s call host p) ch = page_view p ch"
    and "page_view (hostRemoved_on listen ch' s call u p) ch = page_view p ch"
proof -
  have m: "length (drop (length (cc_emitted c)) (cc_emitted (mute c))) \<le> 1" for c
    using host_command_emits(1) [of c] by (auto simp del: length_drop)
  show "page_view (hostMute_on listen ch' s p) ch = page_view p ch"
    using assms call_local [of p ch mute] m
    by (auto simp: hostMute_on_def for_me_def in_channel_def host_command_emits)
  show "page_view (hostScreenOff_on listen ch' s p) ch = page_view p ch"
    using assms call_local [of p ch unshareScreen]
    by (auto simp: hostScreenOff_on_def for_me_def in_channel_def host_command_emits)
  show "page_view (hostLowerHand_on listen ch' s call host p) ch = page_view p ch"
    using assms call_local [of p ch unraiseHand]
    by (auto simp: hostLowerHand_on_def for_me_def in_channel_def host_command_emits Let_def)
  show "page_view (hostRemoved_on listen ch' s call u p) ch = page_view p ch"
    using assms disconnect_local [of p ch]
    by (auto simp: hostRemoved_on_def in_channel_def handleHostRemoved_def split: option.splits)
qed

end

interpretation plugin_window: client_listeners plugin_listener
proof
  fix p :: standalone and c ch ev
  assume a: "ev_client (sp_env p) = Some c" "cc_channelID c \<noteq> ch"
  then show "page_view (plugin_listener ev p) ch = page_view p ch"
    using view_close [of "sp_env p" ch]
    by (cases ev) (simp_all add: plugin_listener_def self_event_def js_key_def store_chan.frame touches_def)
qed

lemma closeCb_view [simp]: "page_view (closeCb k err p) ch = page_view p ch"
  by (simp add: closeCb_def deinitWidget_def deinitRecording_def drop_client_def Let_def
      split: page_kind.split option.split)

lemma page_closed_local:
  assumes "ev_client (sp_env p) = Some c" "cc_channelID c \<noteq> ch"
  shows "page_view (page_closed k err p) ch = page_view p ch"
  using assms
  by (simp add: page_closed_def Let_def setClientConnecting_def localSessionClose_def store_chan.frame
      touches_def)

interpretation page_window: client_listeners "page_listener k" for k
proof
  fix p :: standalone and c ch ev
  assume "ev_client (sp_env p) = Some c" "cc_channelID c \<noteq> ch"
  then show "page_view (page_listener k ev p) ch = page_view p ch"
    by (cases ev) (simp_all add: page_closed_local self_event_def js_key_def setClientConnecting_def
        store_chan.frame touches_def)
qed

context client_listeners begin

lemma event_local:
  assumes "batch_ok (sp_env p)" "client_in_channel (sp_env p)" "event_target ev \<noteq> Some ch"
  shows "page_view (server_event_on listen ev p) ch = page_view p ch"
proof (cases ev)
  case (UserLeft m u s)
  let ?p = "on_page (dispatch (USER_LEFT (event_channel m) u s)) p"
  have "page_view ?p ch = page_view p ch" "client_in_channel (sp_env ?p)"
    using assms(2,3) UserLeft by (simp_all add: store_chan.frame touches_def)
  with UserLeft assms(3) callEnd_local [of ?p ch] show ?thesis
    by (simp add: userLeft_on_def Let_def)
next
  case (UserRemoved c u remover m)
  with assms disconnect_local [of p ch] current_is_client [of "sp_env p" _ ch] show ?thesis
    by (auto simp: userRemoved_on_def Let_def)
qed (use assms callEnd_local host_local event_keeps_other_channels [OF assms] in simp_all)

end

section \<open>Pictures of the participants\<close>

fun images_touch :: "images_action \<Rightarrow> string \<Rightarrow> bool" where
  "images_touch (RECEIVED_CALL_PROFILE_IMAGES ch imgs) ch' = (ch = ch')"
| "images_touch OTHER_IMAGES_ACTION ch' = False"

interpretation image_slice: channel_slice callProfileImages_reducer obj_get images_touch
proof
  fix a :: images_action and c :: string and s t :: images_state
  show "\<not> images_touch a c \<Longrightarrow> obj_get (callProfileImages_reducer s a) c = obj_get s c"
    by (cases a) (auto split: option.split)
  show "obj_get s c = obj_get t c \<Longrightarrow>
      obj_get (callProfileImages_reducer s a) c = obj_get (callProfileImages_reducer t a) c"
    by (cases a) (auto split: option.split)
qed

text \<open>The picture of a user that the actions for a channel brought last.\<close>

fun last_image :: "string \<Rightarrow> string \<Rightarrow> images_action list \<Rightarrow> string option" where
  "last_image ch u [] = None"
| "last_image ch u (RECEIVED_CALL_PROFILE_IMAGES ch' imgs # as) =
     (case last_image ch u as of
        Some url \<Rightarrow> Some url | None \<Rightarrow> if ch' = ch then obj_get imgs u else None)"
| "last_image ch u (OTHER_IMAGES_ACTION # as) = last_image ch u as"

fun images_ok :: "images_action \<Rightarrow> bool" where
  "images_ok (RECEIVED_CALL_PROFILE_IMAGES ch imgs) = wf_obj imgs"
| "images_ok OTHER_IMAGES_ACTION = True"

lemma image_step:
  assumes "images_ok a"
  shows "obj_get (callProfileImages (callProfileImages_reducer st a) ch) u =
    (case last_image ch u [a] of Some url \<Rightarrow> Some url | None \<Rightarrow> obj_get (callProfileImages st ch) u)"
  using assms
  by (cases a) (auto simp: callProfileImages_def obj_get_spread obj_or_empty_def split: option.splits)

lemma last_image_Cons:
  "last_image ch u (a # as) =
     (case last_image ch u as of Some url \<Rightarrow> Some url | None \<Rightarrow> last_image ch u [a])"
  by (cases a) (auto split: option.splits)

lemma images_run:
  assumes "list_all images_ok as"
  shows "obj_get (callProfileImages (foldl callProfileImages_reducer st as) ch) u =
    (case last_image ch u as of Some url \<Rightarrow> Some url | None \<Rightarrow> obj_get (callProfileImages st ch) u)"
  using assms
proof (induction as arbitrary: st)
  case (Cons a as)
  then have "images_ok a" by simp
  from image_step [OF this, of st ch u] Cons show ?case
    by (simp add: last_image_Cons [of ch u a as] del: last_image.simps split: option.splits)
qed simp

lemma fetched_wf: "wf_obj imgs \<Longrightarrow> wf_obj (fetchProfileImages rs imgs)"
  by (induction rs imgs rule: fetchProfileImages.induct) auto

section \<open>Properties\<close>

text \<open>The events that the plugin's table has and the \<open>switch\<close> of the pages has not.\<close>

fun plugin_only :: "server_event \<Rightarrow> bool" where
  "plugin_only (ChannelEnableVoice ch) = True"
| "plugin_only (ChannelDisableVoice ch) = True"
| "plugin_only (Caption d) = True"
| "plugin_only ev = False"

lemma switch_is_table:
  "server_event_on plugin_listener ev p = (if plugin_only ev then p else on_page (handle_event ev) p)"
proof (cases ev)
  case (CallEnd m)
  then show ?thesis by (simp add: callEnd_plugin handleCallEnd_def on_page_def)
next
  case (UserLeft m u s)
  then show ?thesis by (simp add: userLeft_plugin handleUserLeft_def on_page_def)
next
  case (UserRemoved c u r m)
  then show ?thesis
    by (simp add: userRemoved_on_def Let_def client_call_plugin disconnect_client_def)
      (simp add: on_page_def handleUserRemovedFromChannel_def Let_def disconnect_client_def)
next
  case (HostLowerHand c s k h)
  then show ?thesis
    by (simp add: hostLowerHand_on_def Let_def client_call_plugin on_page_comp)
      (simp add: on_page_def handleHostLowerHand_def Let_def)
next
  case (HostRemovedUser c s k u)
  then show ?thesis
    by (simp add: hostRemoved_on_def client_call_plugin)
      (simp add: on_page_def handleHostRemoved_def disconnect_client_def)
qed (simp_all add: hostMute_on_def hostScreenOff_on_def client_call_plugin,
    simp_all add: on_page_def handleHostMute_def handleHostScreenOff_def)

text \<open>
  C13. The \<open>switch\<close> of the standalone pages and the plugin's table of events agree: given the same listeners
  on the client, any sequence of events of the server leaves a page as the plugin's handlers of these events,
  without those for captions and for the settings of channels, leave its window; those three events leave the page
  as it is.\<close>
theorem pages_use_the_plugins_handlers:
  "fold (server_event_on plugin_listener) evs p = on_page (fold handle_event (filter (\<lambda>ev. \<not> plugin_only ev) evs)) p \<and>
   (\<forall>ev q. server_event_on plugin_listener ev q = (if plugin_only ev then q else on_page (handle_event ev) q))"
proof -
  have "fold (server_event_on plugin_listener) evs p =
      on_page (fold handle_event (filter (\<lambda>ev. \<not> plugin_only ev) evs)) p"
    by (induction evs arbitrary: p) (simp_all add: switch_is_table on_page_def)
  then show ?thesis by (simp add: switch_is_table)
qed

text \<open>
  In the standalone pages too, whose listeners are not the plugin's, an event of the server's
  changes nothing of a channel that it does not name.\<close>
theorem page_event_changes_its_channel:
  assumes "batch_ok (sp_env p)" "client_in_channel (sp_env p)" "event_target ev \<noteq> Some ch"
  shows "view_channel (ev_plugin (sp_env (server_event_on (page_listener k) ev p))) ch =
    view_channel (ev_plugin (sp_env p)) ch"
  using assms by (rule page_window.event_local)

definition sample_standalone :: standalone where
  "sample_standalone = \<lparr>sp_env = sample_env, sp_images = [], sp_fetching = [], sp_mounted = False,
     sp_listening = False, sp_socket = False, sp_closing = [], sp_told = [], sp_awaitsApp = False,
     sp_desktop = None, sp_serverVersion = None, sp_style = []\<rparr>"

theorem page_event_changes_its_channel_witness:
  "view_channel (ev_plugin (sp_env (server_event_on (page_listener RecordingPage)
     (CallEnd \<lparr>em_data_channel = ''dm'', em_broadcast_channel = [], em_broadcast_user = []\<rparr>)
     sample_standalone))) ''other'' = view_channel (ev_plugin (sp_env sample_standalone)) ''other''"
  by (rule page_event_changes_its_channel)
    (simp_all add: sample_standalone_def sample_batch client_in_channel_def event_channel_def sample_env_def
      batch_ok_def)

text \<open>
  When the client of a standalone page closes, the page has, at once for the recording and after
  its 250 milliseconds for the widget, no client and no view; its store is not connecting and has no
  recording of the channel; and the widget has told the desktop app of the error, if there was
  one, and then that the call was left.\<close>
theorem page_closes:
  assumes "ev_client (sp_env p) = Some c" "\<not> cc_closed c"
    and "p1 = page_call k (disconnect err) p"
    and "p2 = (case k of WidgetPage \<Rightarrow> deinitWidget_timer (ev_now (sp_env p) + 250) p1 | RecordingPage \<Rightarrow> p1)"
  shows "ev_client (sp_env p2) = None \<and> \<not> sp_mounted p2 \<and>
    \<not> rs_clientConnecting (ev_plugin (sp_env p2)) \<and>
    obj_get (rs_recordings (ev_plugin (sp_env p2))) (cc_channelID c) = None \<and>
    (k = WidgetPage \<longrightarrow> ev_now (sp_env p) + 250 \<in> set (sp_closing p1) \<and>
       sp_told p2 = sp_told p @ (case err of None \<Rightarrow> [] | Some x \<Rightarrow> [ToldError (Some (cc_channelID c)) x]) @
         [ToldLeaveCall])"
proof -
  have p1: "p1 = page_closed k err (on_page (\<lambda>e. e\<lparr>ev_client := Some (disconnect err c)\<rparr>) p)"
    using assms(1-3) by (simp add: page_call_def client_call_on_def disconnect_emits)
  show ?thesis
    unfolding assms(4) p1
    by (cases k) (auto simp: page_closed_def Let_def closeCb_def deinitWidget_def deinitWidget_timer_def
        deinitRecording_def drop_client_def localSessionClose_def setClientConnecting_def split: option.split)
qed

definition calling_page :: standalone where
  "calling_page = on_page (start_client plain_config dm_args) (sample_standalone\<lparr>sp_mounted := True\<rparr>)"

theorem page_closes_witness:
  "sp_told (deinitWidget_timer (ev_now (sp_env calling_page) + 250)
     (page_call WidgetPage (disconnect (Some HostRemovedErr)) calling_page)) =
   [ToldError (Some ''dm'') HostRemovedErr, ToldLeaveCall]"
proof -
  obtain c where c: "ev_client (sp_env calling_page) = Some c" "\<not> cc_closed c" "cc_channelID c = ''dm''"
    by (auto simp: calling_page_def new_client_def dm_args_def)
  from page_closes [OF c(1,2) refl refl, of WidgetPage "Some HostRemovedErr"] c(3) show ?thesis
    by (simp add: calling_page_def sample_standalone_def)
qed

text \<open>
  The recorder's page, with an open client, leaves the call when the job that it runs is told to
  stop, and nothing of it changes when another job is; the widget ignores both.\<close>
theorem own_job_stops_recording:
  assumes "sp_socket p" "ev_client (sp_env p) = Some c" "\<not> cc_closed c"
  shows "let p' = page_message RecordingPage q (JobStop job) p
    in (if job = getJobID q then ev_client (sp_env p') = None \<and> \<not> sp_mounted p' else p' = p) \<and>
       page_message WidgetPage q (JobStop job) p = p"
  using assms
  by (auto simp: Let_def page_message_def wsEventHandler_def page_call_def client_call_on_def
      disconnect_emits page_closed_def closeCb_def deinitRecording_def drop_client_def)

theorem own_job_stops_recording_witness:
  "ev_client (sp_env (page_message RecordingPage [(''call_id'', ''dm''), (''job_id'', ''j'')] (JobStop ''j'')
     (calling_page\<lparr>sp_socket := True\<rparr>))) = None"
proof -
  obtain c where c: "ev_client (sp_env (calling_page\<lparr>sp_socket := True\<rparr>)) = Some c" "\<not> cc_closed c"
    by (auto simp: calling_page_def new_client_def)
  show ?thesis
    using own_job_stops_recording [OF _ c, of "[(''call_id'', ''dm''), (''job_id'', ''j'')]" "''j''"]
    by (simp add: Let_def getJobID_def)
qed

text \<open>
  Whatever pictures were received before and for whichever channels, a participant's picture in a
  channel is the last that was received for that channel and user.\<close>
theorem pictures_are_the_last_received:
  assumes "list_all images_ok as"
  shows "obj_get (callProfileImages (foldl callProfileImages_reducer [] as) ch) u = last_image ch u as"
  using images_run [OF assms, of "[]" ch u] by (simp add: callProfileImages_def split: option.splits)

theorem pictures_are_the_last_received_witness:
  "obj_get (callProfileImages (foldl callProfileImages_reducer []
     [RECEIVED_CALL_PROFILE_IMAGES ''a'' [(''u'', ''1'')], RECEIVED_CALL_PROFILE_IMAGES ''b'' [(''u'', ''2'')],
      RECEIVED_CALL_PROFILE_IMAGES ''a'' [(''v'', ''3'')]]) ''a'') ''u'' = Some ''1''"
  by (subst pictures_are_the_last_received) (simp_all add: obj_simps)

text \<open>
  The recording shows the call as the widget of a participant with the same store does: as many
  participants, the participants' tiles exactly while no screen is shared, and else the same
  speaker, with the picture that was received for them.\<close>
theorem recording_agrees_with_widget:
  assumes "RecordingView lc p = Some v" "ev_client (sp_env p) = Some c"
    and "w = widgetProps lc n g b (getState (sp_env p))"
  shows "rv_participants v = length (wp_sessions w) \<and>
    (wp_screenSharingSession w \<noteq> None \<longrightarrow>
       rv_speaking v = map_option (\<lambda>u. (obj_get (callProfileImages (sp_images p) (cc_channelID c)) (up_id u),
         getUserDisplayName (Some u) False)) (speaking_profile w)) \<and>
    (rv_grid v = None) = (wp_screenSharingSession w \<noteq> None)"
  using assms(1,2) unfolding assms(3)
  by (auto simp: RecordingView_def Let_def widgetProps_def rec_speaking_def speaking_profile_def
      split: option.splits if_splits)

theorem recording_agrees_with_widget_witness:
  "\<exists>v. RecordingView (\<lambda>a b. 0) calling_page = Some v \<and> rv_participants v =
     length (wp_sessions (widgetProps (\<lambda>a b. 0) 1 True False (getState (sp_env calling_page))))"
proof -
  obtain c where c: "ev_client (sp_env calling_page) = Some c" by (auto simp: calling_page_def)
  then obtain v where v: "RecordingView (\<lambda>a b. 0) calling_page = Some v"
    by (simp add: RecordingView_def Let_def)
  from recording_agrees_with_widget [OF v c refl] v show ?thesis by blast
qed

lemma dispatch_some_fields [simp]:
  "ev_client (dispatch_some mk x e) = ev_client e" "ev_mm (dispatch_some mk x e) = ev_mm e"
  by (simp_all add: dispatch_some_def split: option.split)

lemma fetched_not_connecting:
  "\<not> rs_clientConnecting (ev_plugin e) \<Longrightarrow>
   \<not> rs_clientConnecting (ev_plugin (dispatch_some RECEIVED_CALLS_VERSION_INFO v
       (dispatch_some RECEIVED_CALLS_CONFIG cfg e)))"
  by (simp add: dispatch_some_def split: option.split)

text \<open>What an attempt to start leaves behind.\<close>

definition page_started :: "address \<Rightarrow> (string \<Rightarrow> error + json) \<Rightarrow> standalone \<Rightarrow> bool" where
  "page_started ad decode p \<longleftrightarrow>
     (\<exists>c. ev_client (sp_env p) = Some c \<and> Some (cc_channelID c) = getCallID (ad_query ad) \<and>
        cc_channelID c \<noteq> [] \<and>
        Inr (cf_authToken (cc_config c)) = getToken decode (ad_hash ad) \<and>
        obj_get (mm_channels (ev_mm (sp_env p))) (cc_channelID c) \<noteq> None) \<and>
     rs_clientConnecting (ev_plugin (sp_env p))"

definition page_idle :: "standalone \<Rightarrow> bool" where
  "page_idle p \<longleftrightarrow> ev_client (sp_env p) = None \<and> \<not> rs_clientConnecting (ev_plugin (sp_env p))"

lemma setClientConnecting_mm [simp]: "ev_mm (start_client cf a e) = ev_mm e"
  by (simp add: start_client_def)

lemma init_leaves:
  assumes "init h ad decode w a p = (p', r)" "ev_client (sp_env p) = None"
  shows "if \<exists>b. r = Started b then page_started ad decode p' else page_idle p'"
proof -
  have i: "\<not> rs_clientConnecting (init_root w)" by (simp add: init_root_def)
  have str: "str_of x \<noteq> [] \<Longrightarrow> Some (str_of x) = x" for x by (cases x) simp_all
  show ?thesis
    using assms i fetched_not_connecting
    by (auto simp: init_def Let_def page_idle_def page_started_def page_fetched_def page_connect_def str
        page_client_config_def new_client_def
        split: if_splits sum.splits)
qed

text \<open>
  C10. However often the recorder's page is made to start, there is a client exactly when an attempt got
  to the end, and then it is connecting to the call of the address with the token of the address, in
  a channel that is known; a rejected or abandoned start leaves no client and no connection.\<close>
theorem page_starts_or_stays_idle:
  assumes "recording_start h ad decode w answers p = (p', r)"
    and "ev_client (sp_env p) = None" "\<not> rs_clientConnecting (ev_plugin (sp_env p))"
  shows "if \<exists>b. r = Started b then page_started ad decode p' \<and> sp_mounted p'
    else page_idle p'"
  using assms
proof (induction answers arbitrary: p)
  case Nil
  then show ?case by (auto simp: page_idle_def)
next
  case (Cons a answers)
  obtain p1 r1 where i: "init h ad decode w a p = (p1, r1)" by fastforce
  have l: "if \<exists>b. r1 = Started b then page_started ad decode p1 else page_idle p1"
    by (rule init_leaves [OF i Cons.prems(2)])
  show ?case
  proof (cases r1)
    case Rejected
    with l Cons.prems i Cons.IH [of p1] show ?thesis by (simp add: page_idle_def)
  next
    case (Started b)
    with l Cons.prems i show ?thesis by (auto simp: initRecording_def page_started_def)
  qed (use l Cons.prems i in auto)
qed

theorem page_starts_or_stays_idle_witness:
  "page_idle (fst (recording_start (sample_window False) \<lparr>ad_pathname = ''/'', ad_query = [], ad_hash = []\<rparr>
     (\<lambda>s. Inr JNull) ''w'' [] sample_standalone))"
  using page_starts_or_stays_idle [of "sample_window False" "\<lparr>ad_pathname = ''/'', ad_query = [], ad_hash = []\<rparr>"
      "\<lambda>s. Inr JNull" "''w''" "[]" sample_standalone]
  by (simp add: sample_standalone_def sample_env_def init_root_def)

text \<open>
  C33. A page starts exactly when its address names a call and has a readable token, the channel is known
  once the state is loaded, no request is rejected and the TURN credentials come when they are
  needed. Whether the call is active never matters: the page takes the version request's result,
  an object, for it, so that \<open>startingCall\<close> is always false.\<close>
theorem page_starts_iff:
  "snd (init h ad decode w a p) \<noteq> Started True \<and>
   (snd (init h ad decode w a p) = Started False) =
     (\<exists>ch token. getCallID (ad_query ad) = Some ch \<and> ch \<noteq> [] \<and>
        getToken decode (ad_hash ad) = Inr token \<and>
        obj_get (mm_channels (init_store (ia_store a) ch (ev_mm (sp_env p)))) ch \<noteq> None \<and>
        \<not> ia_rejected a \<and>
        (if NeedsTURNCredentials (case ia_config a of None \<Rightarrow> CallsConfigDefault w | Some cfg \<Rightarrow> cfg)
         then \<not> isl (ia_turn a) else True))"
proof -
  have n: "needsTURNCredentials (getState (dispatch_some RECEIVED_CALLS_VERSION_INFO v
        (dispatch_some RECEIVED_CALLS_CONFIG cfg (e\<lparr>ev_plugin := init_root w, ev_mm := mm\<rparr>)))) =
      NeedsTURNCredentials (case cfg of None \<Rightarrow> CallsConfigDefault w | Some cfg \<Rightarrow> cfg)" for v cfg e mm
    by (auto simp: dispatch_some_def needsTURNCredentials_def callsConfig_sel_def init_root_def
        split: option.splits)
  show ?thesis
    by (cases "getCallID (ad_query ad)"; cases "ia_turn a"; cases "getToken decode (ad_hash ad)")
      (auto simp: init_def Let_def page_fetched_def starting_call_def n)
qed

section \<open>What the recording hears and sees\<close>

text \<open>
  The audio elements, by their tracks; the stream of the screen, of a track or as it was received;
  and what the player shows.
\<close>

record rec_media =
  rm_audio :: "string list"
  rm_screen :: "(string + string) option"
  rm_player :: "(string + string) option"

definition rec_attachVoiceTracks :: "string list \<Rightarrow> rec_media \<Rightarrow> rec_media" where
  "rec_attachVoiceTracks ts m = m\<lparr>rm_audio := rm_audio m @ ts\<rparr>"

definition rec_track_ended :: "string \<Rightarrow> rec_media \<Rightarrow> rec_media" where
  "rec_track_ended t m = m\<lparr>rm_audio := remove1 t (rm_audio m)\<rparr>"

definition rec_mounted :: "calls_client \<Rightarrow> rec_media" where
  "rec_mounted c = rec_attachVoiceTracks (getRemoteVoiceTracks c)
     \<lparr>rm_audio = [], rm_screen = map_option Inl (getRemoteScreenStream c), rm_player = None\<rparr>"

fun rec_client_event :: "calls_client \<Rightarrow> client_event \<Rightarrow> rec_media \<Rightarrow> rec_media" where
  "rec_client_event c (CRemoteScreenStream sid) m = m\<lparr>rm_screen := Some (Inr sid)\<rparr>"
| "rec_client_event c (CRemoteVoiceStream sid) m = rec_attachVoiceTracks (stream_voices c sid) m"
| "rec_client_event c ev m = m"

text \<open>The effect that gives the stream to the player, once there is one.\<close>

definition rec_play :: "bool \<Rightarrow> rec_media \<Rightarrow> rec_media" where
  "rec_play hasPlayer m =
     (if rm_screen m \<noteq> None \<and> hasPlayer \<and> rm_player m \<noteq> rm_screen m
      then m\<lparr>rm_player := rm_screen m\<rparr> else m)"

definition rec_stream :: "stream \<times> string option \<Rightarrow> calls_client \<times> rec_media \<Rightarrow> calls_client \<times> rec_media" where
  "rec_stream st cm = (case (st, cm) of ((s, ty), (c, m)) \<Rightarrow>
     let c' = on_peer_stream s ty c
     in (c', fold (rec_client_event c') (drop (length (cc_emitted c)) (cc_emitted c')) m))"

lemma find_last: "\<forall>x\<in>set xs. \<not> P x \<Longrightarrow> P s \<Longrightarrow> find P (xs @ [s]) = Some s"
  by (induction xs) auto

lemma stream_voices_last:
  assumes "cc_streams c' = cc_streams c @ [s]" "cc_tracks c' = cc_tracks c"
    and "st_id s \<notin> st_id ` set (cc_streams c)"
  shows "stream_voices c' (st_id s) = kind_tracks c AudioTrack s"
proof -
  have "find (\<lambda>x. st_id x = st_id s) (cc_streams c @ [s]) = Some s"
    by (rule find_last) (use assms(3) in \<open>auto simp: rev_image_eqI\<close>)
  then show ?thesis by (simp add: stream_voices_def kind_tracks_def assms(1,2))
qed

lemma on_peer_stream_fields:
  "cc_streams (on_peer_stream s ty c) = cc_streams c @ [s]"
  "cc_tracks (on_peer_stream s ty c) = cc_tracks c"
  by (simp_all add: on_peer_stream_def Let_def)

text \<open>A received stream is announced to the listeners as voice once, with its tracks.\<close>

lemma on_peer_stream_emits:
  "\<exists>voices vs. cc_emitted (on_peer_stream s ty c) = cc_emitted c @ voices @ vs \<and>
     (voices = [] \<and> cc_remoteVoiceTracks (on_peer_stream s ty c) = cc_remoteVoiceTracks c \<or>
      voices = [CRemoteVoiceStream (st_id s)] \<and>
        cc_remoteVoiceTracks (on_peer_stream s ty c) = cc_remoteVoiceTracks c @ kind_tracks c AudioTrack s) \<and>
     set vs \<subseteq> {CRemoteVideoStream (st_id s), CRemoteScreenStream (st_id s)}"
proof -
  have k: "kind_tracks (c\<lparr>cc_streams := cc_streams c @ [s]\<rparr>) knd s = kind_tracks c knd s" for knd
    by (simp add: kind_tracks_def)
  let ?heard = "kind_tracks c AudioTrack s \<noteq> [] \<and>
    (ty = Some ''screen-audio'' \<or> ty = Some ''voice'' \<or> ty = None \<or> ty = Some [])"
  let ?video = "kind_tracks c VideoTrack s \<noteq> [] \<and> ty = Some ''video''"
  let ?screen = "kind_tracks c VideoTrack s \<noteq> [] \<and> ty = Some ''screen''"
  let ?voices = "if ?heard then [CRemoteVoiceStream (st_id s)] else []"
  let ?vs = "if ?video then [CRemoteVideoStream (st_id s)]
    else if ?screen then [CRemoteScreenStream (st_id s)] else []"
  have e: "cc_emitted (on_peer_stream s ty c) = cc_emitted c @ ?voices @ ?vs"
    by (simp add: on_peer_stream_def Let_def k)
  have v: "cc_remoteVoiceTracks (on_peer_stream s ty c) =
      cc_remoteVoiceTracks c @ (if ?heard then kind_tracks c AudioTrack s else [])"
    by (simp add: on_peer_stream_def Let_def k cc_emit_def)
  have vs: "set ?vs \<subseteq> {CRemoteVideoStream (st_id s), CRemoteScreenStream (st_id s)}" by auto
  have "?voices = [] \<and> cc_remoteVoiceTracks (on_peer_stream s ty c) = cc_remoteVoiceTracks c \<or>
      ?voices = [CRemoteVoiceStream (st_id s)] \<and>
        cc_remoteVoiceTracks (on_peer_stream s ty c) = cc_remoteVoiceTracks c @ kind_tracks c AudioTrack s"
    unfolding v by (cases ?heard) (simp_all, auto)
  with e vs show ?thesis by blast
qed

lemma rec_video_events:
  assumes "set vs \<subseteq> {CRemoteVideoStream i, CRemoteScreenStream i}"
  shows "rm_audio (fold (rec_client_event c) vs m) = rm_audio m"
  using assms by (induction vs arbitrary: m) auto

lemma rec_stream_step:
  assumes "rec_stream (s, ty) (c, m) = (c', m')" "st_id s \<notin> st_id ` set (cc_streams c)"
    and "rm_audio m = cc_remoteVoiceTracks c"
  shows "rm_audio m' = cc_remoteVoiceTracks c' \<and> cc_streams c' = cc_streams c @ [s]"
proof -
  have c': "c' = on_peer_stream s ty c" using assms(1) by (auto simp: rec_stream_def Let_def)
  have v: "stream_voices c' (st_id s) = kind_tracks c AudioTrack s"
    using stream_voices_last [OF _ _ assms(2)] by (simp add: c' on_peer_stream_fields)
  have m': "m' = fold (rec_client_event c') (drop (length (cc_emitted c)) (cc_emitted c')) m"
    using assms(1) by (auto simp: rec_stream_def Let_def)
  obtain voices vs where e: "cc_emitted c' = cc_emitted c @ voices @ vs"
    and o: "voices = [] \<and> cc_remoteVoiceTracks c' = cc_remoteVoiceTracks c \<or>
      voices = [CRemoteVoiceStream (st_id s)] \<and>
        cc_remoteVoiceTracks c' = cc_remoteVoiceTracks c @ kind_tracks c AudioTrack s"
    and vs: "set vs \<subseteq> {CRemoteVideoStream (st_id s), CRemoteScreenStream (st_id s)}"
    using on_peer_stream_emits [of s ty c] c' by blast
  have "rm_audio m' = rm_audio (fold (rec_client_event c') voices m)"
    using rec_video_events [OF vs] by (simp add: m' e)
  then show ?thesis
    using o assms(3) v by (auto simp: c' on_peer_stream_fields rec_attachVoiceTracks_def)
qed

text \<open>
  Whatever streams come after the recording's view is shown, in whatever order and of whatever kind,
  there is one audio element for every voice track that the client has of the others, those from before
  included: no voice is missed and none is heard twice.\<close>
theorem recording_hears_every_voice:
  assumes "fold rec_stream ss (c, rec_mounted c) = (c', m')"
    and "list_all (track_live c) (cc_remoteVoiceTracks c)"
    and "distinct (map st_id (cc_streams c @ map fst ss))"
  shows "rm_audio m' = cc_remoteVoiceTracks c'"
proof -
  have run: "rm_audio m = cc_remoteVoiceTracks c0 \<Longrightarrow> distinct (map st_id (cc_streams c0 @ map fst ss)) \<Longrightarrow>
      fold rec_stream ss (c0, m) = (c', m') \<Longrightarrow> rm_audio m' = cc_remoteVoiceTracks c'" for c0 m
  proof (induction ss arbitrary: c0 m)
    case (Cons st ss)
    obtain s ty where st: "st = (s, ty)" by fastforce
    obtain c1 m1 where r: "rec_stream (s, ty) (c0, m) = (c1, m1)" by fastforce
    have "st_id s \<notin> st_id ` set (cc_streams c0)" using Cons.prems(2) st by auto
    from rec_stream_step [OF r this Cons.prems(1)] Cons.IH [of m1 c1] Cons.prems(2,3) st r
    show ?case by simp
  qed simp
  show ?thesis
    by (rule run [OF _ assms(3,1)])
      (use assms(2) in \<open>simp add: rec_mounted_def rec_attachVoiceTracks_def getRemoteVoiceTracks_def
        list_all_iff filter_id_conv\<close>)
qed

theorem recording_hears_every_voice_witness:
  "\<exists>c' m'. fold rec_stream [(\<lparr>st_id = ''x'', st_tracks = [''v'']\<rparr>, Some ''voice''),
       (\<lparr>st_id = ''y'', st_tracks = [''u'']\<rparr>, Some ''voice'')]
     (new_client plain_config 5, rec_mounted (new_client plain_config 5)) = (c', m') \<and>
     rm_audio m' = cc_remoteVoiceTracks c'"
proof -
  obtain c' m' where r: "fold rec_stream [(\<lparr>st_id = ''x'', st_tracks = [''v'']\<rparr>, Some ''voice''),
       (\<lparr>st_id = ''y'', st_tracks = [''u'']\<rparr>, Some ''voice'')]
     (new_client plain_config 5, rec_mounted (new_client plain_config 5)) = (c', m')" by fastforce
  from recording_hears_every_voice [OF r] r show ?thesis by (simp add: new_client_def)
qed

end
