(* ===== verification/AdminSettings.thy ===== *)
theory AdminSettings imports StandaloneTheme Actions begin

text \<open>
  The settings of the plugin in the system console: the components of
  \<open>webapp/src/components/admin_console_settings\<close>, one definition each, the settings of the
  manifest (\<open>plugin.json\<close>) that they look up, and the table that \<open>index.tsx\<close> registers.

  A component gives nothing, or a form: its label, its control with the value that it shows, whether
  it is disabled, whether it warns that the environment sets the value, and what choosing an
  option or typing a text hands to the console. The help texts are left out, except that those of
  the RTC server are followed by a remark when an RTCD service is in use.
\<close>

section \<open>Values, settings of the manifest\<close>

datatype setting_value = VUndefined | VNull | VBool bool | VNum int | VNaN | VStr string

text \<open>\<open>??\<close> and \<open>||\<close> on the values that occur.\<close>

definition nullish_or :: "setting_value \<Rightarrow> setting_value \<Rightarrow> setting_value" where
  "nullish_or v d = (if v = VUndefined \<or> v = VNull then d else v)"

definition falsy :: "setting_value \<Rightarrow> bool" where
  "falsy v \<longleftrightarrow> v \<in> {VUndefined, VNull, VBool False, VNum 0, VNaN, VStr []}"

text \<open>A setting: its key, placeholder, default and options, each a value and a name.\<close>

datatype manifest_setting =
  MSetting (ms_key: string) (ms_placeholder: "string option") (ms_default: setting_value)
    (ms_options: "(string \<times> string) list")

definition manifest_settings :: "manifest_setting list" where
  "manifest_settings = [
     MSetting ''DefaultEnabled''
       (None) (VUndefined) [],
     MSetting ''UDPServerAddress''
       (Some ''127.0.0.1'') (VStr []) [],
     MSetting ''TCPServerAddress''
       (Some ''127.0.0.1'') (VStr []) [],
     MSetting ''UDPServerPort''
       (Some ''8443'') (VNum 8443) [],
     MSetting ''TCPServerPort''
       (Some ''8443'') (VNum 8443) [],
     MSetting ''ICEHostOverride''
       (None) (VStr []) [],
     MSetting ''ICEHostPortOverride''
       (None) (VUndefined) [],
     MSetting ''RTCDServiceURL''
       (Some ''https://rtcd.example.com'') (VUndefined) [],
     MSetting ''MaxCallParticipants''
       (None) (VNum 0) [],
     MSetting ''ICEServersConfigs''
       (Some (''[{'' @ [CHR 0x0A] @ '' \"urls\":[\"turn:turnserver.example.org:3478\"],'' @ [CHR 0x0A] @ '' \"username\": \"webrtc\",'' @ [CHR 0x0A] @ '' \"credential\": \"turnpassword\"'' @ [CHR 0x0A] @ ''}]'')) (VStr ''[{\"urls\":[\"stun:stun.global.calls.mattermost.com:3478\"]}]'') [],
     MSetting ''TURNStaticAuthSecret''
       (None) (VStr []) [],
     MSetting ''TURNCredentialsExpirationMinutes''
       (None) (VNum 240) [],
     MSetting ''ServerSideTURN''
       (None) (VBool False) [],
     MSetting ''AllowScreenSharing''
       (None) (VBool True) [],
     MSetting ''EnableSimulcast''
       (None) (VBool False) [],
     MSetting ''EnableRecordings''
       (None) (VBool False) [],
     MSetting ''JobServiceURL''
       (Some ''https://calls-job-service.example.com'') (VUndefined) [],
     MSetting ''MaxRecordingDuration''
       (None) (VNum 60) [],
     MSetting ''RecordingQuality''
       (None) (VStr ''medium'') [(''low'', ''Low''), (''medium'', ''Medium''), (''high'', ''High'')],
     MSetting ''EnableTranscriptions''
       (None) (VBool False) [],
     MSetting ''TranscribeAPI''
       (None) (VStr ''whisper.cpp'') [(''whisper.cpp'', ''Whisper.CPP''), (''azure'', ''Azure AI'')],
     MSetting ''TranscriberModelSize''
       (None) (VStr ''base'') [(''tiny'', ''Tiny''), (''base'', ''Base''), (''small'', ''Small'')],
     MSetting ''TranscribeAPIAzureSpeechKey''
       (None) (VStr []) [],
     MSetting ''TranscribeAPIAzureSpeechRegion''
       (None) (VStr []) [],
     MSetting ''TranscriberNumThreads''
       (None) (VNum 2) [],
     MSetting ''EnableLiveCaptions''
       (None) (VBool False) [],
     MSetting ''LiveCaptionsModelSize''
       (None) (VStr ''tiny'') [(''tiny'', ''Tiny''), (''base'', ''Base''), (''small'', ''Small'')],
     MSetting ''LiveCaptionsNumTranscribers''
       (None) (VNum 1) [],
     MSetting ''LiveCaptionsNumThreadsPerTranscriber''
       (None) (VNum 2) [],
     MSetting ''LiveCaptionsLanguage''
       (None) (VStr ''en'') [],
     MSetting ''EnableIPv6''
       (None) (VBool False) [],
     MSetting ''EnableRinging''
       (None) (VBool False) [],
     MSetting ''EnableAV1''
       (None) (VBool False) [],
     MSetting ''EnableDCSignaling''
       (None) (VBool False) [],
     MSetting ''EnableVideo''
       (None) (VBool False) []]"

definition manifest_find :: "string \<Rightarrow> manifest_setting option" where
  "manifest_find key = find (\<lambda>s. ms_key s = key) manifest_settings"

definition placeholder_of :: "string \<Rightarrow> setting_value" where
  "placeholder_of key = VStr (str_of (Option.bind (manifest_find key) ms_placeholder))"

definition default_of :: "string \<Rightarrow> setting_value" where
  "default_of key =
     (case manifest_find key of
        None \<Rightarrow> VStr []
      | Some s \<Rightarrow> if falsy (ms_default s) then VStr [] else ms_default s)"

definition options_of :: "string \<Rightarrow> (string \<times> string) list" where
  "options_of key = (case manifest_find key of None \<Rightarrow> [] | Some s \<Rightarrow> ms_options s)"

text \<open>\<open>parseInt(s, 10)\<close>.\<close>

fun dec_digits :: "string \<Rightarrow> nat list" where
  "dec_digits [] = []"
| "dec_digits (c # s) =
     (let n = (of_char c :: nat) in if 48 \<le> n \<and> n \<le> 57 then (n - 48) # dec_digits s else [])"

definition parse_dec :: "string \<Rightarrow> setting_value" where
  "parse_dec s0 =
     (let s1 = dropWhile is_white s0;
          neg = (take 1 s1 = ''-'');
          ds = dec_digits (if take 1 s1 = ''-'' \<or> take 1 s1 = ''+'' then drop 1 s1 else s1)
      in if ds = [] then VNaN
         else let n = int (foldl (\<lambda>a d. 10 * a + d) 0 ds) in VNum (if neg then - n else n))"

section \<open>Forms\<close>

text \<open>What a component gets from the console.\<close>

record setting_props =
  stp_value :: setting_value
  stp_disabled :: bool

text \<open>
  What it reads: the store, and the fields of the configuration that only administrators get. The
  names of the transcription APIs are members of an enum of another package.
\<close>

record admin_state =
  ad_gs :: global_state
  ad_config :: "string \<Rightarrow> setting_value"
  ad_stringify :: "string list \<Rightarrow> string" \<comment> \<open>\<open>JSON.stringify(_, null, 2)\<close>\<close>
  ad_WhisperCPP :: string
  ad_AzureAI :: string

datatype control =
    Radios string string bool bool \<comment> \<open>both values, and which is checked\<close>
  | InputBox string setting_value setting_value \<comment> \<open>type, value, placeholder\<close>
  | TextArea setting_value setting_value
  | SelectBox setting_value "(string \<times> string) list"

record field_view =
  fv_label :: string
  fv_control :: control
  fv_disabled :: bool
  fv_remark :: bool \<comment> \<open>not applicable when the RTCD service is in use\<close>
  fv_alert :: bool
  fv_change :: "string \<Rightarrow> setting_value"

definition in_env :: "admin_state \<Rightarrow> string \<Rightarrow> bool" where
  "in_env a key = (obj_get (rs_callsConfigEnvOverrides (gs_plugin (ad_gs a))) key \<noteq> None)"

definition ad_calls :: "admin_state \<Rightarrow> calls_config" where
  "ad_calls a = callsConfig_sel (ad_gs a)"

definition ad_rtcd :: "admin_state \<Rightarrow> bool" where
  "ad_rtcd a = rs_rtcdEnabled (gs_plugin (ad_gs a))"

text \<open>The tests of a stored boolean that the components make.\<close>

definition is_true :: "setting_value \<Rightarrow> bool" where
  "is_true v \<longleftrightarrow> v = VStr ''true'' \<or> v = VBool True"

definition unset_or_true :: "setting_value \<Rightarrow> bool" where
  "unset_or_true v \<longleftrightarrow> v = VUndefined \<or> v = VStr ''true'' \<or> v = VBool True"

definition is_on :: "setting_value \<Rightarrow> bool" where
  "is_on v \<longleftrightarrow> v = VStr ''on'' \<or> v = VBool True"

definition is_off :: "setting_value \<Rightarrow> bool" where
  "is_off v \<longleftrightarrow> falsy v \<or> v = VStr ''false'' \<or> v = VBool False"

text \<open>
  Two radio buttons, whose first is checked by the configuration if the environment sets the key
  and by the stored value otherwise; a text or number; a choice of options. \<open>rtcd\<close>: the setting is of
  the integrated RTC server.
\<close>

definition radio_setting ::
  "string \<Rightarrow> string \<Rightarrow> string \<times> string \<Rightarrow> bool \<Rightarrow> (setting_value \<Rightarrow> bool) \<Rightarrow> (string \<Rightarrow> bool) \<Rightarrow> bool \<Rightarrow>
   admin_state \<Rightarrow> setting_props \<Rightarrow> field_view" where
  "radio_setting key label vals configured stored change rtcd a p =
     (let overridden = in_env a key;
          checked = (if overridden then configured else stored (stp_value p))
      in \<lparr>fv_label = label, fv_control = Radios (fst vals) (snd vals) checked (\<not> checked),
          fv_disabled = (stp_disabled p \<or> rtcd \<and> ad_rtcd a \<or> overridden),
          fv_remark = (rtcd \<and> ad_rtcd a), fv_alert = overridden, fv_change = (\<lambda>v. VBool (change v))\<rparr>)"

definition boolean_setting ::
  "string \<Rightarrow> string \<Rightarrow> bool \<Rightarrow> bool \<Rightarrow> admin_state \<Rightarrow> setting_props \<Rightarrow> field_view" where
  "boolean_setting key label configured rtcd =
     radio_setting key label (''true'', ''false'') configured is_true (\<lambda>v. v = ''true'') rtcd"

definition input_setting ::
  "string \<Rightarrow> string \<Rightarrow> (setting_value \<Rightarrow> control) \<Rightarrow> setting_value \<Rightarrow> (setting_value \<Rightarrow> setting_value) \<Rightarrow>
   (string \<Rightarrow> setting_value) \<Rightarrow> bool \<Rightarrow> admin_state \<Rightarrow> setting_props \<Rightarrow> field_view" where
  "input_setting key label box configured stored change rtcd a p =
     (let overridden = in_env a key;
          v = (if overridden then configured else stored (stp_value p))
      in \<lparr>fv_label = label, fv_control = box v,
          fv_disabled = (stp_disabled p \<or> rtcd \<and> ad_rtcd a \<or> overridden),
          fv_remark = (rtcd \<and> ad_rtcd a), fv_alert = overridden, fv_change = change\<rparr>)"

text \<open>\<open>value === null ? '' : value\<close>\<close>

definition null_blank :: "setting_value \<Rightarrow> setting_value" where
  "null_blank v = (if v = VNull then VStr [] else v)"

definition text_setting ::
  "string \<Rightarrow> string \<Rightarrow> bool \<Rightarrow> admin_state \<Rightarrow> setting_props \<Rightarrow> field_view" where
  "text_setting key label rtcd a = input_setting key label
     (\<lambda>v. InputBox ''input'' v (placeholder_of key)) (ad_config a key) id VStr rtcd a"

definition number_setting ::
  "string \<Rightarrow> string \<Rightarrow> setting_value \<Rightarrow> setting_value \<Rightarrow> (setting_value \<Rightarrow> setting_value) \<Rightarrow>
   (setting_value \<Rightarrow> setting_value) \<Rightarrow> bool \<Rightarrow> admin_state \<Rightarrow> setting_props \<Rightarrow> field_view" where
  "number_setting key label configured placeholder visible stored rtcd = input_setting key label
     (\<lambda>v. InputBox ''number'' (visible v) placeholder) configured stored parse_dec rtcd"

definition select_setting ::
  "string \<Rightarrow> string \<Rightarrow> (string \<times> string) list \<Rightarrow> setting_value \<Rightarrow> (setting_value \<Rightarrow> setting_value) \<Rightarrow>
   admin_state \<Rightarrow> setting_props \<Rightarrow> field_view" where
  "select_setting key label options configured stored = input_setting key label
     (\<lambda>v. SelectBox v options) configured stored VStr False"

type_synonym setting_component = "admin_state \<Rightarrow> setting_props \<Rightarrow> error + field_view option"

text \<open>
  A component that is not shown in some states. \<open>restricted\<close> is read of the licence, and reading it
  fails without one.
\<close>

definition shown_unless :: "(admin_state \<Rightarrow> bool \<Rightarrow> bool) \<Rightarrow> (admin_state \<Rightarrow> setting_props \<Rightarrow> field_view) \<Rightarrow> setting_component" where
  "shown_unless hidden view a p =
     (case isOnPremNotEnterprise (ad_gs a) of
        Inl err \<Rightarrow> Inl err
      | Inr restricted \<Rightarrow> if hidden a restricted then Inr None else Inr (Some (view a p)))"

definition always_shown :: "(admin_state \<Rightarrow> setting_props \<Rightarrow> field_view) \<Rightarrow> setting_component" where
  "always_shown view a p = Inr (Some (view a p))"

section \<open>General settings\<close>

text \<open>The setting of the manifest is \<open>DefaultEnabled\<close>; the test mode is its opposite.\<close>

definition TestMode :: setting_component where
  "TestMode = always_shown (\<lambda>a. radio_setting ''DefaultEnabled'' ''Test mode'' (''on'', ''off'')
     (\<not> DefaultEnabled (ad_calls a)) is_off (\<lambda>v. v \<noteq> ''on'') False a)"

definition MaxCallParticipants_setting :: setting_component where
  "MaxCallParticipants_setting = always_shown (\<lambda>a. number_setting ''MaxCallParticipants''
     ''Max call participants'' (VStr (show_int (MaxCallParticipants (ad_calls a))))
     (placeholder_of ''MaxCallParticipants'') id id False a)"

definition AllowScreenSharing_setting :: setting_component where
  "AllowScreenSharing_setting = always_shown (\<lambda>a. radio_setting ''AllowScreenSharing''
     ''Allow screen sharing'' (''true'', ''false'') (AllowScreenSharing (ad_calls a)) unset_or_true
     (\<lambda>v. v = ''true'') False a)"

definition EnableSimulcast_setting :: setting_component where
  "EnableSimulcast_setting = always_shown (\<lambda>a. boolean_setting ''EnableSimulcast''
     ''Enable simulcast for screen sharing (Experimental)'' (EnableSimulcast (ad_calls a)) False a)"

definition EnableAV1_setting :: setting_component where
  "EnableAV1_setting = always_shown (\<lambda>a. boolean_setting ''EnableAV1''
     ''Enable AV1 codec for screen sharing (Experimental)'' (EnableAV1 (ad_calls a)) False a)"

definition EnableRinging_setting :: setting_component where
  "EnableRinging_setting = always_shown (\<lambda>a. boolean_setting ''EnableRinging'' ''Enable call ringing''
     (EnableRinging (ad_calls a)) False a)"

definition EnableDCSignaling_setting :: setting_component where
  "EnableDCSignaling_setting = always_shown (\<lambda>a. boolean_setting ''EnableDCSignaling''
     ''Use data channels for signaling (Experimental)'' (EnableDCSignaling (ad_calls a)) False a)"

text \<open>The only one that does not look at the environment.\<close>

definition EnableVideo_setting :: setting_component where
  "EnableVideo_setting = always_shown (\<lambda>a p.
     let checked = is_true (stp_value p)
     in \<lparr>fv_label = ''Enable video calls in DMs (Experimental)'',
         fv_control = Radios ''true'' ''false'' checked (\<not> checked), fv_disabled = stp_disabled p,
         fv_remark = False, fv_alert = False, fv_change = (\<lambda>v. VBool (v = ''true''))\<rparr>)"

section \<open>RTC server, ICE and TURN\<close>

definition RTCDServiceURL :: setting_component where
  "RTCDServiceURL = shown_unless (\<lambda>a restricted. False)
     (text_setting ''RTCDServiceURL'' ''RTCD service URL'' False)"

definition UDPServerAddress :: setting_component where
  "UDPServerAddress = always_shown (text_setting ''UDPServerAddress'' ''RTC Server Address (UDP)'' True)"

definition TCPServerAddress :: setting_component where
  "TCPServerAddress = always_shown (text_setting ''TCPServerAddress'' ''RTC Server Address (TCP)'' True)"

definition UDPServerPort :: setting_component where
  "UDPServerPort = always_shown (\<lambda>a. number_setting ''UDPServerPort'' ''RTC Server Port (UDP)''
     (ad_config a ''UDPServerPort'') (placeholder_of ''UDPServerPort'') id id True a)"

definition TCPServerPort :: setting_component where
  "TCPServerPort = always_shown (\<lambda>a. number_setting ''TCPServerPort'' ''RTC Server Port (TCP)''
     (ad_config a ''TCPServerPort'') (placeholder_of ''TCPServerPort'') id id True a)"

definition EnableIPv6 :: setting_component where
  "EnableIPv6 = always_shown (\<lambda>a. boolean_setting ''EnableIPv6'' ''Enable IPv6 support (Experimental)''
     (is_true (ad_config a ''EnableIPv6'')) True a)"

definition ICEHostOverride :: setting_component where
  "ICEHostOverride = always_shown (text_setting ''ICEHostOverride'' ''ICE Host Override'' True)"

definition ICEHostPortOverride :: setting_component where
  "ICEHostPortOverride = always_shown (\<lambda>a. number_setting ''ICEHostPortOverride'' ''ICE Host Port Override''
     (ad_config a ''ICEHostPortOverride'') (placeholder_of ''ICEHostPortOverride'') null_blank id True a)"

definition ICEServersConfigs_setting :: setting_component where
  "ICEServersConfigs_setting = always_shown (\<lambda>a. input_setting ''ICEServersConfigs''
     ''ICE Servers Configurations'' (\<lambda>v. TextArea v (placeholder_of ''ICEServersConfigs''))
     (VStr (ad_stringify a (ICEServersConfigs (ad_calls a)))) id VStr False a)"

definition TURNStaticAuthSecret :: setting_component where
  "TURNStaticAuthSecret =
     always_shown (text_setting ''TURNStaticAuthSecret'' ''TURN Static Auth Secret'' False)"

text \<open>The placeholder is looked up under the key of another setting.\<close>

definition TURNCredentialsExpirationMinutes :: setting_component where
  "TURNCredentialsExpirationMinutes = always_shown (\<lambda>a. number_setting
     ''TURNCredentialsExpirationMinutes'' ''TURN Credentials Expiration (minutes)''
     (ad_config a ''TURNCredentialsExpirationMinutes'') (placeholder_of ''TURNStaticAuthSecret'')
     null_blank id False a)"

definition ServerSideTURN :: setting_component where
  "ServerSideTURN = always_shown (\<lambda>a. radio_setting ''ServerSideTURN'' ''Server Side TURN''
     (''on'', ''off'') (is_true (ad_config a ''ServerSideTURN'')) is_on (\<lambda>v. v = ''on'') True a)"

section \<open>Recordings, transcriptions and captions\<close>

abbreviation no_recordings :: "admin_state \<Rightarrow> bool \<Rightarrow> bool" where
  "no_recordings a restricted \<equiv> isCloud (ad_gs a) \<or> restricted \<or> \<not> recordingsEnabled (ad_gs a)"

abbreviation no_transcriptions :: "admin_state \<Rightarrow> bool \<Rightarrow> bool" where
  "no_transcriptions a restricted \<equiv> no_recordings a restricted \<or> \<not> transcriptionsEnabled (ad_gs a)"

abbreviation no_captions :: "admin_state \<Rightarrow> bool \<Rightarrow> bool" where
  "no_captions a restricted \<equiv> no_transcriptions a restricted \<or> \<not> liveCaptionsEnabled (ad_gs a)"

definition EnableRecordings_setting :: setting_component where
  "EnableRecordings_setting a p =
     (if isCloud (ad_gs a) then Inr None
      else Inr (Some (boolean_setting ''EnableRecordings'' ''Enable call recordings''
                        (EnableRecordings (ad_calls a)) False a p)))"

definition JobServiceURL :: setting_component where
  "JobServiceURL = shown_unless no_recordings (text_setting ''JobServiceURL'' ''Job service URL'' False)"

definition MaxRecordingDuration_setting :: setting_component where
  "MaxRecordingDuration_setting = shown_unless no_recordings (\<lambda>a. number_setting ''MaxRecordingDuration''
     ''Maximum call recording duration'' (VNum (MaxRecordingDuration (ad_calls a)))
     (placeholder_of ''MaxRecordingDuration'') id (\<lambda>v. nullish_or v (VNum 60)) False a)"

definition RecordingQuality :: setting_component where
  "RecordingQuality = shown_unless no_recordings (\<lambda>a. select_setting ''RecordingQuality''
     ''Call recording quality'' [(''low'', ''Low''), (''medium'', ''Medium''), (''high'', ''High'')]
     (ad_config a ''RecordingQuality'') (\<lambda>v. nullish_or v (VStr ''medium'')) a)"

definition EnableTranscriptions_setting :: setting_component where
  "EnableTranscriptions_setting = shown_unless no_recordings (\<lambda>a. boolean_setting ''EnableTranscriptions''
     ''Enable call transcriptions (Beta)'' (EnableTranscriptions (ad_calls a)) False a)"

definition TranscribeAPI_setting :: setting_component where
  "TranscribeAPI_setting = shown_unless no_transcriptions (\<lambda>a. select_setting ''TranscribeAPI''
     ''Call transcriber API'' (options_of ''TranscribeAPI'') (VStr (TranscribeAPI (ad_calls a))) id a)"

definition TranscriberModelSize :: setting_component where
  "TranscriberModelSize = shown_unless
     (\<lambda>a r. no_transcriptions a r \<or> transcribeAPI (ad_gs a) \<noteq> ad_WhisperCPP a)
     (\<lambda>a. select_setting ''TranscriberModelSize'' ''Call transcriber model size''
        (options_of ''TranscriberModelSize'') (ad_config a ''TranscriberModelSize'')
        (\<lambda>v. nullish_or v (VStr ''base'')) a)"

definition TranscriberNumThreads :: setting_component where
  "TranscriberNumThreads = shown_unless
     (\<lambda>a r. no_transcriptions a r \<or> transcribeAPI (ad_gs a) \<noteq> ad_WhisperCPP a)
     (\<lambda>a. number_setting ''TranscriberNumThreads'' ''Call transcriber threads''
        (ad_config a ''TranscriberNumThreads'') (default_of ''TranscriberNumThreads'') id id False a)"

text \<open>The Azure settings have no placeholder.\<close>

definition TranscribeAPIAzureSpeechKey :: setting_component where
  "TranscribeAPIAzureSpeechKey = shown_unless
     (\<lambda>a r. no_transcriptions a r \<or> transcribeAPI (ad_gs a) \<noteq> ad_AzureAI a)
     (\<lambda>a. input_setting ''TranscribeAPIAzureSpeechKey'' ''Azure API Key''
        (\<lambda>v. InputBox ''input'' v VUndefined) (ad_config a ''TranscribeAPIAzureSpeechKey'') id VStr False a)"

definition TranscribeAPIAzureSpeechRegion :: setting_component where
  "TranscribeAPIAzureSpeechRegion = shown_unless
     (\<lambda>a r. no_transcriptions a r \<or> transcribeAPI (ad_gs a) \<noteq> ad_AzureAI a)
     (\<lambda>a. input_setting ''TranscribeAPIAzureSpeechRegion'' ''Azure API Region''
        (\<lambda>v. InputBox ''input'' v VUndefined) (ad_config a ''TranscribeAPIAzureSpeechRegion'') id VStr False a)"

definition EnableLiveCaptions_setting :: setting_component where
  "EnableLiveCaptions_setting = shown_unless no_transcriptions (\<lambda>a. boolean_setting ''EnableLiveCaptions''
     ''Enable live captions (Beta)'' (EnableLiveCaptions (ad_calls a)) False a)"

definition LiveCaptionsModelSize :: setting_component where
  "LiveCaptionsModelSize = shown_unless no_captions (\<lambda>a. select_setting ''LiveCaptionsModelSize''
     ''Live captions: Model size'' (options_of ''LiveCaptionsModelSize'')
     (ad_config a ''LiveCaptionsModelSize'') id a)"

definition LiveCaptionsNumTranscribers :: setting_component where
  "LiveCaptionsNumTranscribers = shown_unless no_captions (\<lambda>a. number_setting ''LiveCaptionsNumTranscribers''
     ''Live captions: Number of transcribers used per call'' (ad_config a ''LiveCaptionsNumTranscribers'')
     (default_of ''LiveCaptionsNumTranscribers'') id id False a)"

definition LiveCaptionsNumThreadsPerTranscriber :: setting_component where
  "LiveCaptionsNumThreadsPerTranscriber = shown_unless no_captions (\<lambda>a. number_setting
     ''LiveCaptionsNumThreadsPerTranscriber'' ''Live captions: Number of threads per transcriber''
     (ad_config a ''LiveCaptionsNumThreadsPerTranscriber'')
     (default_of ''LiveCaptionsNumThreadsPerTranscriber'') id id False a)"

definition LiveCaptionsLanguage :: setting_component where
  "LiveCaptionsLanguage =
     shown_unless no_captions (text_setting ''LiveCaptionsLanguage'' ''Live captions language'' False)"

section \<open>What the plugin registers\<close>

definition admin_settings :: "(string \<times> setting_component) list" where
  "admin_settings = [
     (''DefaultEnabled'', TestMode),
     (''MaxCallParticipants'', MaxCallParticipants_setting),
     (''AllowScreenSharing'', AllowScreenSharing_setting),
     (''EnableSimulcast'', EnableSimulcast_setting),
     (''EnableAV1'', EnableAV1_setting),
     (''EnableRinging'', EnableRinging_setting),
     (''EnableDCSignaling'', EnableDCSignaling_setting),
     (''EnableVideo'', EnableVideo_setting),
     (''RTCDServiceURL'', RTCDServiceURL),
     (''UDPServerAddress'', UDPServerAddress),
     (''UDPServerPort'', UDPServerPort),
     (''TCPServerAddress'', TCPServerAddress),
     (''TCPServerPort'', TCPServerPort),
     (''EnableIPv6'', EnableIPv6),
     (''ICEHostOverride'', ICEHostOverride),
     (''ICEHostPortOverride'', ICEHostPortOverride),
     (''ICEServersConfigs'', ICEServersConfigs_setting),
     (''TURNStaticAuthSecret'', TURNStaticAuthSecret),
     (''TURNCredentialsExpirationMinutes'', TURNCredentialsExpirationMinutes),
     (''ServerSideTURN'', ServerSideTURN),
     (''EnableRecordings'', EnableRecordings_setting),
     (''JobServiceURL'', JobServiceURL),
     (''MaxRecordingDuration'', MaxRecordingDuration_setting),
     (''RecordingQuality'', RecordingQuality),
     (''EnableTranscriptions'', EnableTranscriptions_setting),
     (''TranscribeAPI'', TranscribeAPI_setting),
     (''TranscriberModelSize'', TranscriberModelSize),
     (''TranscriberNumThreads'', TranscriberNumThreads),
     (''TranscribeAPIAzureSpeechKey'', TranscribeAPIAzureSpeechKey),
     (''TranscribeAPIAzureSpeechRegion'', TranscribeAPIAzureSpeechRegion),
     (''EnableLiveCaptions'', EnableLiveCaptions_setting),
     (''LiveCaptionsModelSize'', LiveCaptionsModelSize),
     (''LiveCaptionsNumTranscribers'', LiveCaptionsNumTranscribers),
     (''LiveCaptionsNumThreadsPerTranscriber'', LiveCaptionsNumThreadsPerTranscriber),
     (''LiveCaptionsLanguage'', LiveCaptionsLanguage)]"

section \<open>The store follows the fields\<close>

text \<open>
  Five of the components keep their value in a state of their own, and an effect puts it into the
  store when the component is mounted and whenever it changes. They put it there also when they
  show nothing, since effects run all the same.
\<close>

definition EnableRecordings_mounted :: "setting_props \<Rightarrow> env \<Rightarrow> bool \<times> env" where
  "EnableRecordings_mounted p e =
     (let enabled = is_true (stp_value p) in (enabled, setRecordingsEnabled enabled e))"

definition EnableTranscriptions_mounted :: "setting_props \<Rightarrow> env \<Rightarrow> bool \<times> env" where
  "EnableTranscriptions_mounted p e =
     (let enabled = is_true (stp_value p) in (enabled, setTranscriptionsEnabled enabled e))"

definition EnableLiveCaptions_mounted :: "setting_props \<Rightarrow> env \<Rightarrow> bool \<times> env" where
  "EnableLiveCaptions_mounted p e =
     (let enabled = is_true (stp_value p) in (enabled, setLiveCaptionsEnabled enabled e))"

definition RTCDServiceURL_mounted :: "setting_props \<Rightarrow> env \<Rightarrow> error + (bool \<times> env)" where
  "RTCDServiceURL_mounted p e =
     (case isOnPremNotEnterprise (getState e) of
        Inl err \<Rightarrow> Inl err
      | Inr restricted \<Rightarrow>
          (let enabled = (\<not> restricted \<and> (case stp_value p of VStr s \<Rightarrow> s \<noteq> [] | _ \<Rightarrow> False))
           in Inr (enabled, setRTCDEnabled enabled e)))"

definition TranscribeAPI_mounted :: "setting_props \<Rightarrow> env \<Rightarrow> setting_value \<times> env" where
  "TranscribeAPI_mounted p e =
     (stp_value p, case stp_value p of VStr s \<Rightarrow> if s = [] then e else setTranscribeAPI s e | _ \<Rightarrow> e)"

text \<open>
  The effect of the setting of a key, whose props are \<open>p\<close>. The console mounts the settings of a page,
  whose keys are \<open>keys\<close>; \<open>console\<close> is what the settings read then.
\<close>

definition mount_effect :: "string \<Rightarrow> setting_props \<Rightarrow> env \<Rightarrow> env" where
  "mount_effect key p e =
     (if key = ''EnableRecordings'' then snd (EnableRecordings_mounted p e)
      else if key = ''EnableTranscriptions'' then snd (EnableTranscriptions_mounted p e)
      else if key = ''EnableLiveCaptions'' then snd (EnableLiveCaptions_mounted p e)
      else if key = ''TranscribeAPI'' then snd (TranscribeAPI_mounted p e)
      else if key = ''RTCDServiceURL''
      then (case RTCDServiceURL_mounted p e of Inl err \<Rightarrow> e | Inr (b, e') \<Rightarrow> e')
      else e)"

definition console_mounted :: "string list \<Rightarrow> (string \<Rightarrow> setting_props) \<Rightarrow> env \<Rightarrow> env" where
  "console_mounted keys props = fold (\<lambda>key. mount_effect key (props key)) keys"

definition console :: "admin_state \<Rightarrow> string list \<Rightarrow> (string \<Rightarrow> setting_props) \<Rightarrow> env \<Rightarrow> admin_state" where
  "console a keys props e = a\<lparr>ad_gs := getState (console_mounted keys props e)\<rparr>"

text \<open>A change of the state runs the effect again when the state is another.\<close>

definition EnableRecordings_changed :: "string \<Rightarrow> bool \<times> env \<Rightarrow> bool \<times> env" where
  "EnableRecordings_changed v st =
     (let enabled = (v = ''true'')
      in (enabled, if enabled = fst st then snd st else setRecordingsEnabled enabled (snd st)))"

definition EnableTranscriptions_changed :: "string \<Rightarrow> bool \<times> env \<Rightarrow> bool \<times> env" where
  "EnableTranscriptions_changed v st =
     (let enabled = (v = ''true'')
      in (enabled, if enabled = fst st then snd st else setTranscriptionsEnabled enabled (snd st)))"

definition EnableLiveCaptions_changed :: "string \<Rightarrow> bool \<times> env \<Rightarrow> bool \<times> env" where
  "EnableLiveCaptions_changed v st =
     (let enabled = (v = ''true'')
      in (enabled, if enabled = fst st then snd st else setLiveCaptionsEnabled enabled (snd st)))"

definition RTCDServiceURL_changed :: "string \<Rightarrow> bool \<times> env \<Rightarrow> bool \<times> env" where
  "RTCDServiceURL_changed v st =
     (let enabled = (v \<noteq> [])
      in (enabled, if enabled = fst st then snd st else setRTCDEnabled enabled (snd st)))"

definition TranscribeAPI_changed :: "string \<Rightarrow> setting_value \<times> env \<Rightarrow> setting_value \<times> env" where
  "TranscribeAPI_changed v st =
     (VStr v, if VStr v = fst st \<or> v = [] then snd st else setTranscribeAPI v (snd st))"

section \<open>What a form shows\<close>

definition text_of :: "setting_value \<Rightarrow> string" where
  "text_of v = (case v of VStr s \<Rightarrow> s | VNum n \<Rightarrow> show_int n | VNaN \<Rightarrow> ''NaN''
     | VBool b \<Rightarrow> (if b then ''true'' else ''false'') | _ \<Rightarrow> [])"

fun shows_choice :: "control \<Rightarrow> string \<Rightarrow> bool" where
  "shows_choice (Radios v w b c) x = (x = v \<and> b \<or> x = w \<and> c)"
| "shows_choice (InputBox ty v ph) x = (text_of v = x)"
| "shows_choice (TextArea v ph) x = (text_of v = x)"
| "shows_choice (SelectBox v options) x = (text_of v = x)"

text \<open>What can be chosen or typed: a number field is given the numeral of a natural number.\<close>

fun choosable :: "control \<Rightarrow> string \<Rightarrow> bool" where
  "choosable (Radios v w b c) x = (x = v \<or> x = w)"
| "choosable (InputBox ty v ph) x = (if ty = ''number'' then \<exists>n. x = show_nat n else True)"
| "choosable (TextArea v ph) x = True"
| "choosable (SelectBox v options) x = (x \<in> fst ` set options)"

subsection \<open>Numerals are read back\<close>

lemma of_digit: "d < 10 \<Longrightarrow> (of_char (char_of (48 + d :: nat) :: char) :: nat) = 48 + d"
  by simp

lemma show_nat_digits:
  "\<exists>ds. show_nat n = map (\<lambda>d. char_of (48 + d)) ds \<and> (\<forall>d\<in>set ds. d < 10) \<and> ds \<noteq> [] \<and>
     foldl (\<lambda>a d. 10 * a + d) 0 ds = n"
proof (induction n rule: show_nat.induct)
  case (1 n)
  show ?case
  proof (cases "n < 10")
    case True
    then show ?thesis by (intro exI [of _ "[n]"]) (simp add: show_nat.simps)
  next
    case False
    with 1 obtain ds where "show_nat (n div 10) = map (\<lambda>d. char_of (48 + d)) ds"
      "\<forall>d\<in>set ds. d < 10" "ds \<noteq> []" "foldl (\<lambda>a d. 10 * a + d) 0 ds = n div 10" by blast
    with False show ?thesis
      by (intro exI [of _ "ds @ [n mod 10]"]) (simp add: show_nat.simps [of n])
  qed
qed

lemma dec_digits_map: "\<forall>d\<in>set ds. d < 10 \<Longrightarrow> dec_digits (map (\<lambda>d. char_of (48 + d)) ds) = ds"
  by (induction ds) (simp_all add: Let_def)

lemma digit_plain:
  fixes d :: nat
  assumes "d < 10"
  shows "\<not> is_white (char_of (48 + d))" "char_of (48 + d) \<noteq> CHR ''-''" "char_of (48 + d) \<noteq> CHR ''+''"
proof -
  have o: "(of_char (char_of (48 + d) :: char) :: nat) = 48 + d" using assms by (rule of_digit)
  show "\<not> is_white (char_of (48 + d))" using o assms by (auto simp: is_white_def)
  have ne: "char_of (48 + d) \<noteq> c" if "(of_char c :: nat) < 48" for c :: char using o that by auto
  show "char_of (48 + d) \<noteq> CHR ''-''" "char_of (48 + d) \<noteq> CHR ''+''" by (auto intro!: ne)
qed

lemma parse_show_nat: "parse_dec (show_nat n) = VNum (int n)"
proof -
  obtain ds where ds: "show_nat n = map (\<lambda>d. char_of (48 + d)) ds" "\<forall>d\<in>set ds. d < 10" "ds \<noteq> []"
    "foldl (\<lambda>a d. 10 * a + d) 0 ds = n" using show_nat_digits by blast
  then obtain d es where c: "ds = d # es" "d < 10" by (cases ds) auto
  have s: "show_nat n = char_of (48 + d) # map (\<lambda>d. char_of (48 + d)) es" using ds(1) c by simp
  have "dec_digits (show_nat n) = ds" using dec_digits_map [OF ds(2)] ds(1) by simp
  then show ?thesis
    using s digit_plain [OF c(2)] ds(3,4) by (simp add: parse_dec_def)
qed

section \<open>The contract of a setting's form\<close>

text \<open>
  A form of the key: when the environment sets it, it is disabled, says so, and shows the same
  whatever is stored; otherwise what was chosen is shown once it is stored, and the choices do not
  depend on what is stored.
\<close>

abbreviation stored_as :: "setting_props \<Rightarrow> setting_value \<Rightarrow> setting_props" where
  "stored_as p v \<equiv> p\<lparr>stp_value := v\<rparr>"

locale setting_form =
  fixes key :: string and view :: "admin_state \<Rightarrow> setting_props \<Rightarrow> field_view"
  assumes env_fixed: "in_env a key \<Longrightarrow>
      fv_disabled (view a p) \<and> fv_alert (view a p) \<and> view a (stored_as p v) = view a p"
    and no_alert: "\<not> in_env a key \<Longrightarrow> \<not> fv_alert (view a p)"
    and chosen: "\<not> in_env a key \<Longrightarrow> choosable (fv_control (view a p)) x \<Longrightarrow>
      shows_choice (fv_control (view a (stored_as p (fv_change (view a p) x)))) x"
    and same_choices: "choosable (fv_control (view a (stored_as p v))) = choosable (fv_control (view a p))"
    and same_change: "fv_change (view a (stored_as p v)) = fv_change (view a p)"
begin

definition pick :: "admin_state \<Rightarrow> string \<Rightarrow> setting_props \<Rightarrow> setting_props" where
  "pick a x p = stored_as p (fv_change (view a p) x)"

lemma pick_keeps:
  "choosable (fv_control (view a (fold (pick a) xs p))) = choosable (fv_control (view a p))"
  by (induction xs arbitrary: p) (simp_all add: pick_def same_choices)

text \<open>After any choices the last is shown.\<close>

lemma last_choice:
  assumes "\<not> in_env a key" "choosable (fv_control (view a p)) x"
  shows "shows_choice (fv_control (view a (fold (pick a) (xs @ [x]) p))) x"
  using chosen [OF assms(1), of "fold (pick a) xs p" x] assms(2)
  by (simp add: pick_keeps) (simp add: pick_def)

end

lemma radio_form:
  assumes "fst vals \<noteq> snd vals" "stored (VBool (change (fst vals)))" "\<not> stored (VBool (change (snd vals)))"
  shows "setting_form key (\<lambda>a. radio_setting key label vals (cfg a) stored change rtcd a)"
  using assms by unfold_locales (auto simp: radio_setting_def Let_def fun_eq_iff)

interpretation boolean_form: setting_form key "\<lambda>a. boolean_setting key label (cfg a) rtcd a"
  for key label cfg rtcd
  unfolding boolean_setting_def by (rule radio_form) (simp_all add: is_true_def)

interpretation text_form: setting_form key "text_setting key label rtcd" for key label rtcd
  by unfold_locales (auto simp: text_setting_def input_setting_def Let_def text_of_def fun_eq_iff)

lemma number_form:
  assumes "\<And>n. visible (stored (VNum n)) = VNum n"
  shows "setting_form key (\<lambda>a. number_setting key label (cfg a) ph visible stored rtcd a)"
  using assms
  by unfold_locales
    (auto simp: number_setting_def input_setting_def Let_def text_of_def fun_eq_iff parse_show_nat show_int_def)

interpretation port_form: setting_form key "\<lambda>a. number_setting key label (cfg a) ph id id rtcd a"
  for key label cfg ph rtcd
  by (rule number_form) simp

lemma select_form:
  assumes "\<And>s. stored (VStr s) = VStr s"
  shows "setting_form key (\<lambda>a. select_setting key label options (cfg a) stored a)"
  using assms
  by unfold_locales (auto simp: select_setting_def input_setting_def Let_def text_of_def fun_eq_iff)

interpretation plain_select_form: setting_form key "\<lambda>a. select_setting key label options (cfg a) id a"
  for key label options cfg
  by (rule select_form) simp

lemma free_form:
  assumes "\<And>v. box v = InputBox ''input'' v ph \<or> box v = TextArea v ph"
  shows "setting_form key (\<lambda>a. input_setting key label box (cfg a) id VStr rtcd a)"
proof
  fix a p x
  have "choosable (box v) y" "shows_choice (box v) y = (text_of v = y)" for v and y :: string
    using assms [of v] by auto
  then show "\<not> in_env a key \<Longrightarrow> choosable (fv_control (input_setting key label box (cfg a) id VStr rtcd a p)) x \<Longrightarrow>
      shows_choice (fv_control (input_setting key label box (cfg a) id VStr rtcd a
        (stored_as p (fv_change (input_setting key label box (cfg a) id VStr rtcd a p) x)))) x"
    and "choosable (fv_control (input_setting key label box (cfg a) id VStr rtcd a (stored_as p y))) =
      choosable (fv_control (input_setting key label box (cfg a) id VStr rtcd a p))" for y
    by (simp_all add: input_setting_def Let_def text_of_def fun_eq_iff)
qed (simp_all add: input_setting_def Let_def)

section \<open>Every setting is such a form\<close>

text \<open>A component that, when it shows something, shows a form of the key, whatever is stored.\<close>

definition is_form :: "string \<Rightarrow> setting_component \<Rightarrow> bool" where
  "is_form key f \<longleftrightarrow> (\<exists>view hidden. setting_form key view \<and>
     (\<forall>a p. f a p = (case hidden a of Inl err \<Rightarrow> Inl err
                     | Inr h \<Rightarrow> if h then Inr None else Inr (Some (view a p)))))"

lemma always_form: "setting_form key view \<Longrightarrow> is_form key (always_shown view)"
  unfolding is_form_def always_shown_def
  by (intro exI [of _ view] exI [of _ "\<lambda>a. Inr False"]) simp

lemma unless_form: "setting_form key view \<Longrightarrow> is_form key (shown_unless hidden view)"
  unfolding is_form_def shown_unless_def
  by (intro exI [of _ view] exI [of _ "\<lambda>a. map_sum id (hidden a) (isOnPremNotEnterprise (ad_gs a))"])
    (simp split: sum.split)

lemma recordings_form: "is_form ''EnableRecordings'' EnableRecordings_setting"
  unfolding is_form_def EnableRecordings_setting_def
  by (intro exI [of _ "\<lambda>a. boolean_setting ''EnableRecordings'' ''Enable call recordings''
        (EnableRecordings (ad_calls a)) False a"] exI [of _ "\<lambda>a. Inr (isCloud (ad_gs a))"])
    (simp add: boolean_form.setting_form_axioms)

lemmas plain_forms = boolean_form.setting_form_axioms text_form.setting_form_axioms
  port_form.setting_form_axioms plain_select_form.setting_form_axioms

lemma general_forms:
  "is_form ''DefaultEnabled'' TestMode" "is_form ''MaxCallParticipants'' MaxCallParticipants_setting"
  "is_form ''AllowScreenSharing'' AllowScreenSharing_setting"
  "is_form ''EnableSimulcast'' EnableSimulcast_setting" "is_form ''EnableAV1'' EnableAV1_setting"
  "is_form ''EnableRinging'' EnableRinging_setting" "is_form ''EnableDCSignaling'' EnableDCSignaling_setting"
  unfolding TestMode_def MaxCallParticipants_setting_def AllowScreenSharing_setting_def
    EnableSimulcast_setting_def EnableAV1_setting_def EnableRinging_setting_def EnableDCSignaling_setting_def
  by (rule always_form plain_forms radio_form | simp add: is_off_def falsy_def unset_or_true_def)+

lemma server_forms:
  "is_form ''RTCDServiceURL'' RTCDServiceURL" "is_form ''UDPServerAddress'' UDPServerAddress"
  "is_form ''TCPServerAddress'' TCPServerAddress" "is_form ''UDPServerPort'' UDPServerPort"
  "is_form ''TCPServerPort'' TCPServerPort" "is_form ''EnableIPv6'' EnableIPv6"
  "is_form ''ICEHostOverride'' ICEHostOverride" "is_form ''ICEHostPortOverride'' ICEHostPortOverride"
  "is_form ''ICEServersConfigs'' ICEServersConfigs_setting"
  "is_form ''TURNStaticAuthSecret'' TURNStaticAuthSecret"
  "is_form ''TURNCredentialsExpirationMinutes'' TURNCredentialsExpirationMinutes"
  "is_form ''ServerSideTURN'' ServerSideTURN"
  unfolding RTCDServiceURL_def UDPServerAddress_def TCPServerAddress_def UDPServerPort_def TCPServerPort_def
    EnableIPv6_def ICEHostOverride_def ICEHostPortOverride_def ICEServersConfigs_setting_def
    TURNStaticAuthSecret_def TURNCredentialsExpirationMinutes_def ServerSideTURN_def
  by (rule always_form unless_form plain_forms radio_form number_form free_form
    | simp add: is_on_def null_blank_def)+

lemma recording_forms:
  "is_form ''JobServiceURL'' JobServiceURL" "is_form ''MaxRecordingDuration'' MaxRecordingDuration_setting"
  "is_form ''RecordingQuality'' RecordingQuality"
  "is_form ''EnableTranscriptions'' EnableTranscriptions_setting"
  "is_form ''TranscribeAPI'' TranscribeAPI_setting" "is_form ''TranscriberModelSize'' TranscriberModelSize"
  "is_form ''TranscriberNumThreads'' TranscriberNumThreads"
  "is_form ''TranscribeAPIAzureSpeechKey'' TranscribeAPIAzureSpeechKey"
  "is_form ''TranscribeAPIAzureSpeechRegion'' TranscribeAPIAzureSpeechRegion"
  unfolding JobServiceURL_def MaxRecordingDuration_setting_def RecordingQuality_def
    EnableTranscriptions_setting_def TranscribeAPI_setting_def TranscriberModelSize_def
    TranscriberNumThreads_def TranscribeAPIAzureSpeechKey_def TranscribeAPIAzureSpeechRegion_def
  by (rule unless_form plain_forms number_form select_form free_form | simp add: nullish_or_def)+

lemma caption_forms:
  "is_form ''EnableLiveCaptions'' EnableLiveCaptions_setting"
  "is_form ''LiveCaptionsModelSize'' LiveCaptionsModelSize"
  "is_form ''LiveCaptionsNumTranscribers'' LiveCaptionsNumTranscribers"
  "is_form ''LiveCaptionsNumThreadsPerTranscriber'' LiveCaptionsNumThreadsPerTranscriber"
  "is_form ''LiveCaptionsLanguage'' LiveCaptionsLanguage"
  unfolding EnableLiveCaptions_setting_def LiveCaptionsModelSize_def LiveCaptionsNumTranscribers_def
    LiveCaptionsNumThreadsPerTranscriber_def LiveCaptionsLanguage_def
  by (rule unless_form plain_forms)+

lemma setting_forms:
  assumes "(key, f) \<in> set admin_settings" "key \<noteq> ''EnableVideo''"
  shows "is_form key f"
proof -
  have "list_all (\<lambda>(key, f). key = ''EnableVideo'' \<or> is_form key f) admin_settings"
    by (simp add: admin_settings_def general_forms server_forms recording_forms caption_forms recordings_form)
  with assms show ?thesis by (auto simp: list_all_iff)
qed

lemma form_view:
  assumes "is_form key f"
  obtains view where "setting_form key view" "\<And>a p v. f a p = Inr (Some v) \<Longrightarrow> v = view a p"
    "\<And>a p q v. f a p = Inr (Some v) \<Longrightarrow> f a q = Inr (Some (view a q))"
proof -
  obtain view hidden where v: "setting_form key view"
    and f: "f = (\<lambda>a p. case hidden a of Inl err \<Rightarrow> Inl err
                     | Inr h \<Rightarrow> if h then Inr None else Inr (Some (view a p)))"
    using assms unfolding is_form_def by (auto simp: fun_eq_iff)
  show ?thesis
    by (rule that [OF v]) (auto simp: f split: sum.splits if_splits)
qed

section \<open>What mounting leaves\<close>

lemma mount_effects:
  "rs_callsConfigEnvOverrides (ev_plugin (mount_effect k p e)) = rs_callsConfigEnvOverrides (ev_plugin e)"
  "ev_mm (mount_effect k p e) = ev_mm e"
  "EnableRecordings (rs_callsConfig (ev_plugin (mount_effect k p e))) =
     (if k = ''EnableRecordings'' then is_true (stp_value p) else EnableRecordings (rs_callsConfig (ev_plugin e)))"
  "EnableTranscriptions (rs_callsConfig (ev_plugin (mount_effect k p e))) =
     (if k = ''EnableTranscriptions'' then is_true (stp_value p)
      else EnableTranscriptions (rs_callsConfig (ev_plugin e)))"
  "EnableLiveCaptions (rs_callsConfig (ev_plugin (mount_effect k p e))) =
     (if k = ''EnableLiveCaptions'' then is_true (stp_value p)
      else EnableLiveCaptions (rs_callsConfig (ev_plugin e)))"
  "TranscribeAPI (rs_callsConfig (ev_plugin (mount_effect k p e))) =
     (if k = ''TranscribeAPI'' \<and> stp_value p \<in> range VStr - {VStr []} then text_of (stp_value p)
      else TranscribeAPI (rs_callsConfig (ev_plugin e)))"
  by (simp_all add: mount_effect_def EnableRecordings_mounted_def EnableTranscriptions_mounted_def
      EnableLiveCaptions_mounted_def TranscribeAPI_mounted_def RTCDServiceURL_mounted_def setRecordingsEnabled_def
      setTranscriptionsEnabled_def setLiveCaptionsEnabled_def setTranscribeAPI_def setRTCDEnabled_def Let_def
      text_of_def split: sum.split setting_value.split) auto

lemma console_env: "in_env (console a keys props e) key = (obj_get (rs_callsConfigEnvOverrides (ev_plugin e)) key \<noteq> None)"
  unfolding console_def console_mounted_def in_env_def
  by (simp, subst fold_keeps [where g = "\<lambda>e. rs_callsConfigEnvOverrides (ev_plugin e)"]) (simp_all add: mount_effects)

text \<open>A switch that is mounted shows in the configuration what is stored.\<close>

lemma console_switches:
  assumes "key \<in> set keys"
  shows "key = ''EnableRecordings'' \<Longrightarrow>
      EnableRecordings (ad_calls (console a keys props e)) = is_true (stp_value (props key))"
    and "key = ''EnableTranscriptions'' \<Longrightarrow>
      EnableTranscriptions (ad_calls (console a keys props e)) = is_true (stp_value (props key))"
    and "key = ''EnableLiveCaptions'' \<Longrightarrow>
      EnableLiveCaptions (ad_calls (console a keys props e)) = is_true (stp_value (props key))"
  unfolding ad_calls_def console_def console_mounted_def callsConfig_sel_def
  by (simp, rule fold_establish [OF assms, where P = "\<lambda>e. _ (rs_callsConfig (ev_plugin e)) = _"];
      simp add: mount_effects)+

definition api_text :: "calls_config \<Rightarrow> setting_value \<Rightarrow> string" where
  "api_text cfg v = (if v \<in> range VStr - {VStr []} then text_of v else TranscribeAPI cfg)"

lemma console_api:
  assumes "''TranscribeAPI'' \<in> set keys"
  shows "TranscribeAPI (ad_calls (console a keys props e)) =
    api_text (rs_callsConfig (ev_plugin e)) (stp_value (props ''TranscribeAPI''))"
proof (cases "stp_value (props ''TranscribeAPI'') \<in> range VStr - {VStr []}")
  case True
  then show ?thesis
    unfolding ad_calls_def console_def console_mounted_def callsConfig_sel_def api_text_def
    by (simp, rule_tac fold_establish [OF assms, where P = "\<lambda>e. TranscribeAPI (rs_callsConfig (ev_plugin e)) = _"])
      (auto simp: mount_effects)
next
  case False
  then have "TranscribeAPI (rs_callsConfig (ev_plugin (fold (\<lambda>key. mount_effect key (props key)) keys e))) =
      TranscribeAPI (rs_callsConfig (ev_plugin e))"
    by (intro fold_keeps) (auto simp: mount_effects)
  with False show ?thesis
    by (auto simp: ad_calls_def console_def console_mounted_def callsConfig_sel_def api_text_def)
qed

text \<open>What is stored for a setting without an effect makes no difference to the store.\<close>

definition store_value :: "string \<Rightarrow> setting_value \<Rightarrow> (string \<Rightarrow> setting_props) \<Rightarrow> string \<Rightarrow> setting_props" where
  "store_value key x props = props(key := (props key)\<lparr>stp_value := x\<rparr>)"

definition with_effect :: "string list" where
  "with_effect = [''EnableRecordings'', ''EnableTranscriptions'', ''EnableLiveCaptions'', ''TranscribeAPI'',
     ''RTCDServiceURL'']"

lemma with_effect_cases:
  assumes "key \<in> set with_effect"
  obtains (rec) "key = ''EnableRecordings''" | (trans) "key = ''EnableTranscriptions''"
    | (caps) "key = ''EnableLiveCaptions''" | (api) "key = ''TranscribeAPI''" | (url) "key = ''RTCDServiceURL''"
proof -
  from assms have "key = ''EnableRecordings'' \<or> key = ''EnableTranscriptions'' \<or> key = ''EnableLiveCaptions'' \<or>
      key = ''TranscribeAPI'' \<or> key = ''RTCDServiceURL''"
    by (simp only: with_effect_def list.set insert_iff empty_iff simp_thms)
  then show thesis
    by (elim disjE) (fact that)+
qed

lemma console_same:
  assumes "key \<notin> set with_effect"
  shows "console a keys (store_value key x props) e = console a keys props e"
proof -
  have "mount_effect k (store_value key x props k) = mount_effect k (props k)" for k
  proof (cases "k = key")
    case True
    from assms have "mount_effect key p = (\<lambda>e. e)" for p
      by (simp add: with_effect_def mount_effect_def fun_eq_iff)
    with True show ?thesis by simp
  next
    case False
    then show ?thesis by (simp add: store_value_def)
  qed
  then show ?thesis by (simp add: console_def console_mounted_def)
qed

lemma console_fields [simp]:
  "ad_config (console a keys props e) = ad_config a" "gs_mm (ad_gs (console a keys props e)) = ev_mm e"
proof -
  have "ev_mm (fold (\<lambda>key. mount_effect key (props key)) keys e) = ev_mm e"
    by (rule fold_keeps) (simp add: mount_effects)
  then show "ad_config (console a keys props e) = ad_config a" "gs_mm (ad_gs (console a keys props e)) = ev_mm e"
    by (simp_all add: console_def console_mounted_def)
qed

lemma rtcd_url_same:
  assumes "in_env a ''RTCDServiceURL'' = in_env b ''RTCDServiceURL''" "ad_config a = ad_config b"
    and "gs_mm (ad_gs a) = gs_mm (ad_gs b)" "in_env a ''RTCDServiceURL''"
  shows "RTCDServiceURL a (stored_as p x) = RTCDServiceURL b p"
proof -
  have "isOnPremNotEnterprise (ad_gs a) = isOnPremNotEnterprise (ad_gs b)"
    using assms(3) by (simp add: isOnPremNotEnterprise_def isCloud_def Let_def split: option.split)
  with assms show ?thesis
    by (simp add: RTCDServiceURL_def shown_unless_def text_setting_def input_setting_def Let_def split: sum.split)
qed

definition written_text :: "calls_config \<Rightarrow> string \<Rightarrow> setting_props \<Rightarrow> string option" where
  "written_text cfg key p =
     (if key \<in> {''EnableRecordings'', ''EnableTranscriptions'', ''EnableLiveCaptions''}
      then Some (if is_true (stp_value p) then ''true'' else ''false'')
      else if key = ''TranscribeAPI'' then Some (api_text cfg (stp_value p)) else None)"

text \<open>The four settings that show what is stored in spite of the environment.\<close>

lemma boolean_shown:
  "in_env a key \<Longrightarrow> shows_choice (fv_control (boolean_setting key label b False a p)) (if b then ''true'' else ''false'')"
  by (simp add: boolean_setting_def radio_setting_def Let_def)

lemma switch_shown:
  assumes "(key, f) \<in> set admin_settings" "key \<in> {''EnableRecordings'', ''EnableTranscriptions'', ''EnableLiveCaptions''}"
    and "key \<in> set keys" "in_env (console a keys props e) key" "f (console a keys props e) (props key) = Inr (Some v)"
  shows "shows_choice (fv_control v) (if is_true (stp_value (props key)) then ''true'' else ''false'')"
proof -
  let ?a = "console a keys props e" and ?b = "is_true (stp_value (props key))"
  consider (rec) "key = ''EnableRecordings''" | (trans) "key = ''EnableTranscriptions''"
    | (caps) "key = ''EnableLiveCaptions''" using assms(2) by blast
  then have "\<exists>label. v = boolean_setting key label ?b False ?a (props key)"
  proof cases
    case rec
    then have "f = EnableRecordings_setting" using assms(1) by (simp add: admin_settings_def)
    with rec assms(5) console_switches(1) [OF assms(3), of a props e] show ?thesis
      by (auto simp: EnableRecordings_setting_def split: if_splits)
  next
    case trans
    then have "f = EnableTranscriptions_setting" using assms(1) by (simp add: admin_settings_def)
    with trans assms(5) console_switches(2) [OF assms(3), of a props e] show ?thesis
      by (auto simp: EnableTranscriptions_setting_def shown_unless_def split: sum.splits if_splits)
  next
    case caps
    then have "f = EnableLiveCaptions_setting" using assms(1) by (simp add: admin_settings_def)
    with caps assms(5) console_switches(3) [OF assms(3), of a props e] show ?thesis
      by (auto simp: EnableLiveCaptions_setting_def shown_unless_def split: sum.splits if_splits)
  qed
  then show ?thesis using boolean_shown [OF assms(4)] by metis
qed

lemma api_shown:
  assumes "(key, f) \<in> set admin_settings" "key = ''TranscribeAPI''"
    and "key \<in> set keys" "in_env (console a keys props e) key" "f (console a keys props e) (props key) = Inr (Some v)"
  shows "shows_choice (fv_control v) (api_text (rs_callsConfig (ev_plugin e)) (stp_value (props key)))"
proof -
  let ?a = "console a keys props e"
  have "f = TranscribeAPI_setting" using assms(1,2) by (simp add: admin_settings_def)
  then have v: "v = select_setting key ''Call transcriber API'' (options_of key)
      (VStr (TranscribeAPI (ad_calls ?a))) id ?a (props key)"
    using assms(2,5) by (simp add: TranscribeAPI_setting_def shown_unless_def split: sum.splits if_splits)
  have "TranscribeAPI (ad_calls ?a) = api_text (rs_callsConfig (ev_plugin e)) (stp_value (props key))"
    using console_api [of keys a props e] assms(2,3) by simp
  then show ?thesis using assms(4) by (simp add: v select_setting_def input_setting_def Let_def text_of_def)
qed

section \<open>Properties\<close>

text \<open>
  C18. A registered setting but \<open>EnableVideo\<close> that the environment sets is disabled and says so, once the console
  has mounted it with any others; and it shows the same whatever value is stored for it, with exactly four
  exceptions, whose effect writes the stored value into the configuration of the store when they are mounted: the
  three switches of recordings, transcriptions and live captions show the stored switch, and the transcriber's
  API shows the stored name, unless none is stored.\<close>
theorem environment_wins:
  assumes "(key, f) \<in> set admin_settings" "key \<noteq> ''EnableVideo''" "key \<in> set keys"
    and "obj_get (rs_callsConfigEnvOverrides (ev_plugin e)) key \<noteq> None"
    and "f (console a keys props e) (props key) = Inr (Some v)"
  shows "fv_disabled v \<and> fv_alert v \<and>
    (case written_text (rs_callsConfig (ev_plugin e)) key (props key) of
       Some t \<Rightarrow> shows_choice (fv_control v) t
     | None \<Rightarrow> (\<forall>x. f (console a keys (store_value key x props) e) (store_value key x props key) = Inr (Some v)))"
proof -
  let ?a = "console a keys props e"
  have env: "in_env (console a keys ps e) key" for ps using assms(4) by (simp add: console_env)
  obtain view where view: "setting_form key view" "v = view ?a (props key)"
    "\<And>x. f ?a (stored_as (props key) x) = Inr (Some (view ?a (stored_as (props key) x)))"
    using form_view [OF setting_forms [OF assms(1,2)]] assms(5) by metis
  have fixed: "fv_disabled v \<and> fv_alert v" "\<And>x. f ?a (stored_as (props key) x) = Inr (Some v)"
    using setting_form.env_fixed [OF view(1) env, of props "props key"] view by simp_all
  have p: "store_value key x props key = stored_as (props key) x" for x by (simp add: store_value_def)
  show ?thesis
  proof (cases "key \<in> set with_effect")
    case False
    then have "written_text (rs_callsConfig (ev_plugin e)) key (props key) = None"
      by (simp add: written_text_def with_effect_def)
    then show ?thesis using fixed by (simp add: console_same [OF False] p)
  next
    case True
    note shown = switch_shown [OF assms(1) _ assms(3) env assms(5)]
    from True show ?thesis
    proof (cases rule: with_effect_cases)
      case api
      with fixed(1) api_shown [OF assms(1) api assms(3) env assms(5)] show ?thesis by (simp add: written_text_def)
    next
      case url
      then have f: "f = RTCDServiceURL" using assms(1) by (simp add: admin_settings_def)
      have "RTCDServiceURL (console a keys (store_value key x props) e) (stored_as (props key) x) = Inr (Some v)" for x
        using rtcd_url_same [of "console a keys (store_value key x props) e" ?a x "props key"] env assms(5) url f by simp
      moreover have "written_text (rs_callsConfig (ev_plugin e)) key (props key) = None"
        using url by (simp add: written_text_def)
      ultimately show ?thesis using fixed(1) f by (simp add: p)
    qed (use fixed(1) shown in \<open>simp_all add: written_text_def\<close>)
  qed
qed

text \<open>
  C19. Whatever was chosen or typed before, a setting that the environment does not set shows the last
  choice once the console has stored it: the two directions in which each component converts its
  value agree, for the inverted test mode and the numbers as for the rest.\<close>
theorem last_choice_is_shown:
  assumes "(key, f) \<in> set admin_settings" "key \<noteq> ''EnableVideo''"
    and "\<not> in_env a key" "f a p = Inr (Some v)" "choosable (fv_control v) x"
  shows "\<exists>v'. f a (fold (\<lambda>y q. q\<lparr>stp_value := fv_change v y\<rparr>) (xs @ [x]) p) = Inr (Some v') \<and>
    shows_choice (fv_control v') x"
proof -
  obtain view where form: "setting_form key view" and v: "v = view a p"
    and f: "\<And>q. f a q = Inr (Some (view a q))"
    using form_view [OF setting_forms [OF assms(1,2)]] assms(4) by metis
  have run: "fold (\<lambda>y q. stored_as q (fv_change v y)) ys q = fold (setting_form.pick view a) ys q"
    if "fv_change (view a q) = fv_change v" for ys q
    using that
    by (induction ys arbitrary: q)
      (simp_all add: setting_form.pick_def [OF form] setting_form.same_change [OF form])
  have eq: "fold (\<lambda>y q. stored_as q (fv_change v y)) (xs @ [x]) p =
      fold (setting_form.pick view a) (xs @ [x]) p"
    by (rule run) (simp add: v)
  have "shows_choice (fv_control (view a (fold (setting_form.pick view a) (xs @ [x]) p))) x"
    using setting_form.last_choice [OF form assms(3)] assms(5) v by blast
  with f show ?thesis unfolding eq by blast
qed

definition sample_admin :: "(string, string) obj \<Rightarrow> admin_state" where
  "sample_admin overrides = \<lparr>ad_gs = getState (dispatch (RECEIVED_CALLS_CONFIG_ENV_OVERRIDES overrides) sample_env),
     ad_config = (\<lambda>key. VUndefined), ad_stringify = (\<lambda>ss. []), ad_WhisperCPP = ''w'', ad_AzureAI = ''azure''\<rparr>"

definition stored_props :: "setting_value \<Rightarrow> setting_props" where
  "stored_props v = \<lparr>stp_value = v, stp_disabled = False\<rparr>"

lemma in_sample: "in_env (sample_admin [(k, v)]) key = (key = k)"
  by (simp add: in_env_def sample_admin_def obj_simps)

lemma no_env: "\<not> in_env (sample_admin []) key"
  by (simp add: in_env_def sample_admin_def obj_simps)

definition overridden_env :: env where
  "overridden_env = dispatch (RECEIVED_CALLS_CONFIG_ENV_OVERRIDES [(''DefaultEnabled'', ''true'')]) sample_env"

theorem environment_wins_witness:
  "TestMode (console (sample_admin []) [''DefaultEnabled''] (\<lambda>key. stored_props (VBool True)) overridden_env)
     (stored_props (VBool True)) =
   TestMode (console (sample_admin []) [''DefaultEnabled'']
       (store_value ''DefaultEnabled'' (VBool False) (\<lambda>key. stored_props (VBool True))) overridden_env)
     (stored_props (VBool False))"
proof -
  let ?a = "console (sample_admin []) [''DefaultEnabled''] (\<lambda>key. stored_props (VBool True)) overridden_env"
  obtain v where v: "TestMode ?a (stored_props (VBool True)) = Inr (Some v)"
    by (simp add: TestMode_def always_shown_def)
  have "obj_get (rs_callsConfigEnvOverrides (ev_plugin overridden_env)) ''DefaultEnabled'' \<noteq> None"
    by (simp add: overridden_env_def obj_simps)
  moreover have "written_text cfg ''DefaultEnabled'' p = None" for cfg p by (simp add: written_text_def)
  ultimately have "\<forall>x. TestMode (console (sample_admin []) [''DefaultEnabled'']
        (store_value ''DefaultEnabled'' x (\<lambda>key. stored_props (VBool True))) overridden_env)
      (store_value ''DefaultEnabled'' x (\<lambda>key. stored_props (VBool True)) ''DefaultEnabled'') = Inr (Some v)"
    using environment_wins [where key = "''DefaultEnabled''" and f = TestMode and v = v and keys = "[''DefaultEnabled'']"
        and a = "sample_admin []" and props = "\<lambda>key. stored_props (VBool True)" and e = overridden_env] v
    by (simp add: admin_settings_def)
  then have "TestMode (console (sample_admin []) [''DefaultEnabled'']
        (store_value ''DefaultEnabled'' (VBool False) (\<lambda>key. stored_props (VBool True))) overridden_env)
      (stored_props (VBool False)) = Inr (Some v)"
    by (auto dest: spec [of _ "VBool False"] simp: store_value_def stored_props_def)
  with v show ?thesis by simp
qed

theorem last_choice_is_shown_witness:
  "\<exists>v'. TestMode (sample_admin []) (stored_props (VBool False)) = Inr (Some v') \<and> shows_choice (fv_control v') ''on''"
proof -
  obtain v where v: "TestMode (sample_admin []) (stored_props VNull) = Inr (Some v)"
    "choosable (fv_control v) ''on''" "fv_change v ''on'' = VBool False"
    by (simp add: TestMode_def always_shown_def radio_setting_def Let_def)
  have "\<exists>v'. TestMode (sample_admin []) (fold (\<lambda>y q. q\<lparr>stp_value := fv_change v y\<rparr>) ([] @ [''on'']) (stored_props VNull)) = Inr (Some v') \<and>
      shows_choice (fv_control v') ''on''"
    by (rule last_choice_is_shown [where key = "''DefaultEnabled''" and f = TestMode, OF _ _ _ v(1,2)])
      (simp_all add: admin_settings_def no_env)
  with v(3) show ?thesis by (simp add: stored_props_def)
qed

text \<open>
  A setting that depends on a switch is shown only together with the switch: those of recordings,
  transcriptions and captions with \<open>EnableRecordings\<close>, those of captions and of the transcriber with
  \<open>EnableTranscriptions\<close>, and the four of captions with \<open>EnableLiveCaptions\<close>.\<close>
theorem dependent_settings_follow_their_switch:
  assumes "f a p = Inr (Some v)"
  shows "(f \<in> {JobServiceURL, MaxRecordingDuration_setting, RecordingQuality, EnableTranscriptions_setting} \<longrightarrow>
       (\<exists>w. EnableRecordings_setting a q = Inr (Some w)) \<and> recordingsEnabled (ad_gs a)) \<and>
    (f \<in> {TranscribeAPI_setting, TranscriberModelSize, TranscriberNumThreads, TranscribeAPIAzureSpeechKey,
          TranscribeAPIAzureSpeechRegion, EnableLiveCaptions_setting} \<longrightarrow>
       (\<exists>w. EnableTranscriptions_setting a q = Inr (Some w)) \<and> transcriptionsEnabled (ad_gs a)) \<and>
    (f \<in> {LiveCaptionsModelSize, LiveCaptionsNumTranscribers, LiveCaptionsNumThreadsPerTranscriber,
          LiveCaptionsLanguage} \<longrightarrow>
       (\<exists>w. EnableLiveCaptions_setting a q = Inr (Some w)) \<and> liveCaptionsEnabled (ad_gs a))"
  using assms
  by (auto simp: EnableRecordings_setting_def JobServiceURL_def MaxRecordingDuration_setting_def
      RecordingQuality_def EnableTranscriptions_setting_def TranscribeAPI_setting_def
      TranscriberModelSize_def TranscriberNumThreads_def TranscribeAPIAzureSpeechKey_def
      TranscribeAPIAzureSpeechRegion_def EnableLiveCaptions_setting_def LiveCaptionsModelSize_def
      LiveCaptionsNumTranscribers_def LiveCaptionsNumThreadsPerTranscriber_def LiveCaptionsLanguage_def
      shown_unless_def split: sum.splits if_splits)

text \<open>
  Mounting the field of recordings writes the stored value over the configuration that the store
  received, and with it over the value that the environment set: the field then shows the stored value
  as the one set through the environment.\<close>
theorem mounted_field_hides_environment:
  assumes "a = admin\<lparr>ad_gs := getState (snd (EnableRecordings_mounted p e))\<rparr>"
    and "in_env a ''EnableRecordings''" "\<not> isCloud (ad_gs a)"
  shows "\<exists>v. EnableRecordings_setting a p = Inr (Some v) \<and> fv_alert v \<and>
    shows_choice (fv_control v) (if is_true (stp_value p) then ''true'' else ''false'')"
  using assms(2,3) unfolding assms(1)
  by (simp add: EnableRecordings_setting_def boolean_setting_def radio_setting_def Let_def ad_calls_def
      EnableRecordings_mounted_def setRecordingsEnabled_def callsConfig_sel_def dispatch_def getState_def)

theorem mounted_field_hides_environment_witness:
  "\<exists>v. EnableRecordings_setting ((sample_admin [])\<lparr>ad_gs := getState (snd (EnableRecordings_mounted (stored_props (VBool False))
       (dispatch (RECEIVED_CALLS_CONFIG ((CallsConfigDefault ''w'')\<lparr>EnableRecordings := True\<rparr>))
         (dispatch (RECEIVED_CALLS_CONFIG_ENV_OVERRIDES [(''EnableRecordings'', ''true'')]) sample_env))))\<rparr>)
     (stored_props (VBool False)) = Inr (Some v) \<and> fv_alert v \<and> shows_choice (fv_control v) ''false''"
proof -
  have "\<not> is_true (stp_value (stored_props (VBool False)))" by (simp add: stored_props_def is_true_def)
  then show ?thesis
    using mounted_field_hides_environment [where admin = "sample_admin []" and p = "stored_props (VBool False)" and
        e = "dispatch (RECEIVED_CALLS_CONFIG ((CallsConfigDefault ''w'')\<lparr>EnableRecordings := True\<rparr>))
         (dispatch (RECEIVED_CALLS_CONFIG_ENV_OVERRIDES [(''EnableRecordings'', ''true'')]) sample_env)", OF refl]
    by (simp add: in_env_def EnableRecordings_mounted_def setRecordingsEnabled_def obj_simps isCloud_def
        sample_env_def sample_mm_def Let_def)
qed

text \<open>
  With the address of the RTCD service set through the environment and none stored, the store is
  told that no such service is in use, and the settings of the integrated server stay editable.\<close>
theorem rtcd_of_environment_is_ignored:
  assumes "RTCDServiceURL_mounted (stored_props (VStr [])) e = Inr (b, e')"
    and "a = admin\<lparr>ad_gs := getState e'\<rparr>" "\<not> in_env a ''UDPServerPort''"
  shows "\<exists>v. UDPServerPort a (stored_props x) = Inr (Some v) \<and> \<not> fv_disabled v \<and> \<not> fv_remark v"
  using assms(1,3) unfolding assms(2)
  by (auto simp: RTCDServiceURL_mounted_def setRTCDEnabled_def stored_props_def UDPServerPort_def always_shown_def
      number_setting_def input_setting_def Let_def ad_rtcd_def split: sum.splits)

end
