(* ===== verification/Dialogs.thy ===== *)
theory Dialogs imports Actions begin

text \<open>
  The dialogs and menus of the plugin: \<open>components/generic_modal.tsx\<close>, the dialogs that are built
  on it (\<open>cloud_pricing/modals.tsx\<close>, \<open>modals/index.tsx\<close>, \<open>generic_error_modal.tsx\<close>, the
  \<open>modals.tsx\<close> of the system console), and \<open>components/dot_menu\<close> with its drop-down.

  Handlers are functions on a state \<open>'e\<close> of whatever shows the dialog. A dialog is left through
  react-bootstrap, which calls \<open>onExited\<close> when its transition has ended, and calls \<open>onHide\<close> when the
  cross, the backdrop or the escape key is used.
\<close>

section \<open>A modal dialog\<close>

record 'e modal_props =
  mp_id :: string
  mp_show :: "bool option"
  mp_header :: "string option"
  mp_handleCancel :: "('e \<Rightarrow> 'e) option"
  mp_handleConfirm :: "('e \<Rightarrow> 'e) option"
  mp_showCancel :: bool
  mp_confirmText :: "string option"
  mp_cancelText :: "string option"
  mp_confirmDisabled :: bool
  mp_destructive :: bool
  mp_autoCloseOnCancel :: bool
  mp_autoCloseOnConfirm :: bool
  mp_onHide :: "'e \<Rightarrow> 'e"
  mp_onExited :: "('e \<Rightarrow> 'e) option"
  mp_contentPadding :: "string option"

text \<open>\<open>defaultProps\<close>, and nothing for the rest.\<close>

definition default_modal :: "'e modal_props" where
  "default_modal = \<lparr>mp_id = ''genericModal'', mp_show = None, mp_header = None, mp_handleCancel = None,
     mp_handleConfirm = None, mp_showCancel = False, mp_confirmText = None, mp_cancelText = None,
     mp_confirmDisabled = False, mp_destructive = False, mp_autoCloseOnCancel = True,
     mp_autoCloseOnConfirm = True, mp_onHide = id, mp_onExited = None, mp_contentPadding = None\<rparr>"

text \<open>
  The component's state, the timers of 150 ms that it has set and not yet got, and the outside.\<close>

record 'e modal_state =
  md_show :: bool
  md_timers :: nat
  md_outer :: 'e

definition modal_mounted :: "'e \<Rightarrow> 'e modal_state" where
  "modal_mounted e = \<lparr>md_show = True, md_timers = 0, md_outer = e\<rparr>"

definition modal_onHide :: "'e modal_state \<Rightarrow> 'e modal_state" where
  "modal_onHide st = st\<lparr>md_show := False, md_timers := Suc (md_timers st)\<rparr>"

definition modal_timer :: "'e modal_props \<Rightarrow> 'e modal_state \<Rightarrow> 'e modal_state" where
  "modal_timer p st =
     (case md_timers st of
        0 \<Rightarrow> st
      | Suc n \<Rightarrow> st\<lparr>md_timers := n, md_outer := mp_onHide p (md_outer st)\<rparr>)"

definition call_handler :: "('e \<Rightarrow> 'e) option \<Rightarrow> 'e modal_state \<Rightarrow> 'e modal_state" where
  "call_handler h st = (case h of None \<Rightarrow> st | Some f \<Rightarrow> st\<lparr>md_outer := f (md_outer st)\<rparr>)"

definition modal_handleCancel :: "'e modal_props \<Rightarrow> 'e modal_state \<Rightarrow> 'e modal_state" where
  "modal_handleCancel p st =
     call_handler (mp_handleCancel p) (if mp_autoCloseOnCancel p then modal_onHide st else st)"

definition modal_handleConfirm :: "'e modal_props \<Rightarrow> 'e modal_state \<Rightarrow> 'e modal_state" where
  "modal_handleConfirm p st =
     call_handler (mp_handleConfirm p) (if mp_autoCloseOnConfirm p then modal_onHide st else st)"

text \<open>\<open>onExited={this.props.onExited || this.onHide}\<close>\<close>

definition modal_exited :: "'e modal_props \<Rightarrow> 'e modal_state \<Rightarrow> 'e modal_state" where
  "modal_exited p st =
     (case mp_onExited p of None \<Rightarrow> modal_onHide st | Some f \<Rightarrow> st\<lparr>md_outer := f (md_outer st)\<rparr>)"

record modal_view =
  mv_show :: bool
  mv_id :: string
  mv_labelledby :: string
  mv_heading :: "string option"
  mv_cancel :: "string option"
  mv_confirm :: "(string \<times> bool \<times> bool) option" \<comment> \<open>text, destructive, disabled\<close>
  mv_padding :: string

definition text_or :: "string option \<Rightarrow> string \<Rightarrow> string" where
  "text_or s d = (case s of None \<Rightarrow> d | Some t \<Rightarrow> str_or t d)"

definition modal_render :: "'e modal_props \<Rightarrow> 'e modal_state \<Rightarrow> modal_view" where
  "modal_render p st =
     \<lparr>mv_show = (case mp_show p of None \<Rightarrow> md_show st | Some b \<Rightarrow> b), mv_id = mp_id p,
      mv_labelledby = mp_id p @ ''_heading'',
      mv_heading = (if text_or (mp_header p) [] = [] then None else mp_header p),
      mv_cancel = (if mp_handleCancel p \<noteq> None \<or> mp_showCancel p
                   then Some (text_or (mp_cancelText p) ''Cancel'') else None),
      mv_confirm = (if mp_handleConfirm p \<noteq> None
                    then Some (text_or (mp_confirmText p) ''Confirm'', mp_destructive p, mp_confirmDisabled p)
                    else None),
      mv_padding = text_or (mp_contentPadding p) ''0px''\<rparr>"

text \<open>What can happen to a dialog: a press counts only on a button that is there and not disabled.\<close>

datatype modal_event = PressCancel | PressConfirm | CloseDialog | ExitEnds | TimerFires

definition modal_event_step :: "'e modal_props \<Rightarrow> modal_event \<Rightarrow> 'e modal_state \<Rightarrow> 'e modal_state" where
  "modal_event_step p ev st =
     (case ev of
        PressCancel \<Rightarrow> if mv_cancel (modal_render p st) = None then st else modal_handleCancel p st
      | PressConfirm \<Rightarrow>
          (case mv_confirm (modal_render p st) of
             Some (_, _, False) \<Rightarrow> modal_handleConfirm p st
           | _ \<Rightarrow> st)
      | CloseDialog \<Rightarrow> modal_onHide st
      | ExitEnds \<Rightarrow> modal_exited p st
      | TimerFires \<Rightarrow> modal_timer p st)"

definition modal_run :: "'e modal_props \<Rightarrow> modal_event list \<Rightarrow> 'e modal_state \<Rightarrow> 'e modal_state" where
  "modal_run p evs st = fold (modal_event_step p) evs st"

section \<open>The dialogs\<close>

text \<open>
  What the dialogs of trials do, in order: \<open>requestOnPremTrialLicense\<close> with the number of users,
  a modal, the licence asked for again, the pricing modal, the notification of the administrators, a
  page opened.
\<close>

datatype trial_effect =
    TRequest int bool bool
  | TModal string
  | TLicenseConfig
  | TPricing string
  | TNotifyAdmins
  | TNavigate string
  | TOpen string

type_synonym trial_log = "trial_effect list"

definition notifyAdminCloudFreeTrial :: "trial_log \<Rightarrow> trial_log" where
  "notifyAdminCloudFreeTrial log = log @ [TNotifyAdmins]"

definition displayCloudPricing :: "global_state \<Rightarrow> trial_log \<Rightarrow> trial_log" where
  "displayCloudPricing gs log =
     (if mm_isCurrentUserSystemAdmin (gs_mm gs) then log @ [TPricing ''calls > ''] else log)"

text \<open>The props of the host application's modal controller come before those that the dialogs set themselves.\<close>

definition CloudFreeTrialModalUser :: "trial_log modal_props \<Rightarrow> trial_log modal_props" where
  "CloudFreeTrialModalUser p = p\<lparr>
     mp_header := Some ''Try channel calls with a free trial'', mp_confirmText := Some ''Notify admin'',
     mp_cancelText := Some ''Back'', mp_handleConfirm := Some notifyAdminCloudFreeTrial,
     mp_showCancel := True, mp_onHide := id\<rparr>"

definition CloudFreeTrialModalAdmin :: "global_state \<Rightarrow> trial_log modal_props \<Rightarrow> trial_log modal_props" where
  "CloudFreeTrialModalAdmin gs p =
     (let taken = isCloudTrialCompleted gs
      in p\<lparr>mp_header := Some (if taken then ''Upgrade to use calls in Channels''
                              else ''Try channel calls with a free trial''),
           mp_confirmText := Some (if taken then ''View plans'' else ''Try free for 30 days''),
           mp_cancelText := Some ''Back'', mp_handleConfirm := Some (displayCloudPricing gs),
           mp_showCancel := True, mp_onHide := id\<rparr>)"

definition trial_body :: "global_state \<Rightarrow> string" where
  "trial_body gs =
     (if isCloudTrialCompleted gs
      then ''Calls are a quick, audio-first, way to interact with your team. Upgrade to Mattermost Professional to use calls in channels and group messages.''
      else ''Calls are a quick, audio-first, way to interact with your team. Get the full calls experience when you start a free, 30-day trial.'')"

definition CallsInTestModeModal :: "'e modal_props \<Rightarrow> 'e modal_props" where
  "CallsInTestModeModal p = p\<lparr>
     mp_header := Some ''Calls is not currently enabled'', mp_confirmText := Some ''Understood'',
     mp_handleConfirm := Some id, mp_showCancel := False, mp_onHide := id\<rparr>"

text \<open>The props of the error modal: its title, and the text of its button if one is given.\<close>

definition GenericErrorModal :: "string \<Rightarrow> string option \<Rightarrow> 'e modal_props \<Rightarrow> 'e modal_props" where
  "GenericErrorModal title confirm p = p\<lparr>
     mp_header := Some title, mp_confirmText := Some (case confirm of None \<Rightarrow> ''Understood'' | Some c \<Rightarrow> c),
     mp_handleConfirm := Some id, mp_showCancel := False, mp_onHide := id,
     mp_contentPadding := Some ''4px 32px 24px 32px''\<rparr>"

text \<open>
  The answers to a request for a trial, once for the recordings and once for the RTCD service: the
  modals differ in the text of the button. \<open>end_date\<close> is the day 30 days and 8 hours from now, which
  the date library computes and prints.
\<close>

definition OnPremTrialSuccess :: "string \<Rightarrow> trial_log modal_props \<Rightarrow> trial_log modal_props" where
  "OnPremTrialSuccess setup p = p\<lparr>
     mp_confirmText := Some setup,
     mp_handleConfirm := Some (\<lambda>log. log @ [TNavigate ''/admin_console/plugins/plugin_com.mattermost.calls'']),
     mp_onHide := id\<rparr>"

definition trial_welcome :: "(nat \<Rightarrow> nat \<Rightarrow> string) \<Rightarrow> string" where
  "trial_welcome end_date =
     ''Welcome to your Mattermost Enterprise trial! It expires on '' @ end_date 30 8 @ ''. ''"

definition OnPremTrialError :: "'e modal_props \<Rightarrow> 'e modal_props" where
  "OnPremTrialError p = p\<lparr>
     mp_confirmText := Some ''Okay'', mp_handleConfirm := Some id, mp_onHide := id\<rparr>"

section \<open>Menus behind a button\<close>

record dot_menu_props =
  dp_title :: "string option"
  dp_disabled :: bool
  dp_isActive :: "bool option"
  dp_closeOnClick :: bool
  dp_tooltipText :: "string option"

record dot_menu =
  dm_isOpen :: bool
  dm_isHover :: bool
  dm_drop :: bool \<comment> \<open>the state of the drop-down, which follows but is not asked\<close>
  dm_told :: "bool list" \<comment> \<open>what \<open>onOpenChange\<close> was told\<close>

definition dot_menu_mounted :: dot_menu where
  "dot_menu_mounted = \<lparr>dm_isOpen = False, dm_isHover = False, dm_drop = False, dm_told = []\<rparr>"

definition setOpenWrapper :: "bool \<Rightarrow> dot_menu \<Rightarrow> dot_menu" where
  "setOpenWrapper open m = m\<lparr>dm_told := dm_told m @ [open], dm_isOpen := open\<rparr>"

definition toggleOpen :: "dot_menu \<Rightarrow> dot_menu" where
  "toggleOpen m = setOpenWrapper (\<not> dm_isOpen m) m"

text \<open>\<open>setOpen\<close> of \<open>Dropdown\<close>, which the floating-ui library calls to dismiss it.\<close>

definition dropdown_setOpen :: "bool \<Rightarrow> dot_menu \<Rightarrow> dot_menu" where
  "dropdown_setOpen open m = (setOpenWrapper open m)\<lparr>dm_drop := open\<rparr>"

definition menu_clicked :: "dot_menu_props \<Rightarrow> dot_menu \<Rightarrow> dot_menu" where
  "menu_clicked p m = (if dp_closeOnClick p then setOpenWrapper False m else m)"

record dot_menu_view =
  dv_active :: bool
  dv_disabled :: bool
  dv_testid :: string
  dv_tooltip :: "string option"
  dv_content :: bool

text \<open>The drop-down is given \<open>isOpen\<close>, which is never null, so that it shows what the menu says.\<close>

definition dot_menu_render :: "dot_menu_props \<Rightarrow> dot_menu \<Rightarrow> dot_menu_view" where
  "dot_menu_render p m =
     \<lparr>dv_active = ((case dp_isActive p of None \<Rightarrow> False | Some b \<Rightarrow> b) \<or> dm_isOpen m), dv_disabled = dp_disabled p,
      dv_testid = ''menuButton'' @ str_of (dp_title p),
      dv_tooltip = (if text_or (dp_tooltipText p) [] \<noteq> [] \<and> dm_isHover m \<and> \<not> dm_isOpen m
                    then dp_tooltipText p else None),
      dv_content = dm_isOpen m\<rparr>"

datatype menu_event = Hover bool | ButtonClick | MenuClick | Dismissed

definition menu_step :: "dot_menu_props \<Rightarrow> menu_event \<Rightarrow> dot_menu \<Rightarrow> dot_menu" where
  "menu_step p ev m =
     (case ev of
        Hover b \<Rightarrow> m\<lparr>dm_isHover := b\<rparr>
      | ButtonClick \<Rightarrow> toggleOpen m
      | MenuClick \<Rightarrow> if dm_isOpen m then menu_clicked p m else m
      | Dismissed \<Rightarrow> dropdown_setOpen False m)"

section \<open>Properties\<close>

lemma modal_run_simps [simp]:
  "modal_run p [] st = st" "modal_run p (ev # evs) st = modal_run p evs (modal_event_step p ev st)"
  by (simp_all add: modal_run_def)

lemma modal_run_append: "modal_run p (evs @ evs') st = modal_run p evs' (modal_run p evs st)"
  by (simp add: modal_run_def)

lemma modal_onHide_fields [simp]:
  "md_show (modal_onHide st) = False" "md_outer (modal_onHide st) = md_outer st"
  "md_timers (modal_onHide st) = Suc (md_timers st)"
  by (simp_all add: modal_onHide_def)

lemma call_handler_fields [simp]:
  "md_show (call_handler h st) = md_show st" "md_timers (call_handler h st) = md_timers st"
  "md_outer (call_handler h st) = (case h of None \<Rightarrow> md_outer st | Some f \<Rightarrow> f (md_outer st))"
  by (simp_all add: call_handler_def split: option.splits)

lemma modal_handler_fields [simp]:
  "md_outer (modal_handleConfirm p st) = (case mp_handleConfirm p of None \<Rightarrow> md_outer st | Some f \<Rightarrow> f (md_outer st))"
  "md_outer (modal_handleCancel p st) = (case mp_handleCancel p of None \<Rightarrow> md_outer st | Some f \<Rightarrow> f (md_outer st))"
  by (auto simp: modal_handleConfirm_def modal_handleCancel_def split: option.splits)

lemma modal_timer_outer:
  "md_outer (modal_timer p st) = (if md_timers st = 0 then md_outer st else mp_onHide p (md_outer st))"
  by (simp add: modal_timer_def split: nat.splits)

text \<open>A dialog that has been told to close is not shown again, and is about to say so until it has.\<close>

lemma modal_stays_closed:
  "\<not> md_show st \<Longrightarrow> \<not> md_show (modal_run p evs st)"
proof (induction evs arbitrary: st)
  case (Cons ev evs)
  have "\<not> md_show (modal_event_step p ev st)"
    using Cons.prems
    by (auto simp: modal_event_step_def modal_handleConfirm_def modal_handleCancel_def modal_exited_def
        modal_timer_def split: modal_event.splits option.splits bool.splits nat.splits)
  then show ?case using Cons.IH by simp
qed simp

text \<open>
  A dialog whose cancel and confirm buttons close it: after a press of either, whatever happens next,
  it stays closed.\<close>
lemma modal_closes:
  assumes "mp_autoCloseOnConfirm p" "mp_handleConfirm p \<noteq> None" "\<not> mp_confirmDisabled p"
  shows "\<not> md_show (modal_run p (PressConfirm # evs) st)"
  using assms unfolding modal_run_simps
  by (intro modal_stays_closed) (simp add: modal_event_step_def modal_render_def modal_handleConfirm_def)

text \<open>The dialogs of this file leave the outside alone except through their handlers.\<close>

lemma dialog_log:
  assumes "mp_handleConfirm p = Some f" "\<not> mp_confirmDisabled p" "mp_handleCancel p = None"
    and "mp_onHide p = id" "\<And>g. mp_onExited p = Some g \<Longrightarrow> g = id"
  shows "md_outer (modal_run p evs st) = (f ^^ count_list evs PressConfirm) (md_outer st)"
proof (induction evs arbitrary: st)
  case (Cons ev evs)
  have "md_outer (modal_event_step p ev st) = (if ev = PressConfirm then f (md_outer st) else md_outer st)"
    using assms
    by (cases ev; cases "mp_onExited p")
      (simp_all add: modal_event_step_def modal_render_def modal_timer_outer modal_exited_def)
  then show ?case using Cons.IH by (simp add: funpow_swap1)
qed simp

lemma append_power: "((\<lambda>log. log @ [x]) ^^ n) log = log @ replicate n x"
  by (induction n) (simp_all add: replicate_append_same)

text \<open>
  Whatever is done with the dialog that offers a user the trial, the administrators are notified once
  for every press of its button and by nothing else: not by going back, by closing it, or by its
  timers.\<close>
theorem admins_notified_per_press:
  assumes "\<not> mp_confirmDisabled p" "mp_handleCancel p = None" "mp_onExited p = Some id"
  shows "md_outer (modal_run (CloudFreeTrialModalUser p) evs (modal_mounted log)) =
    log @ replicate (count_list evs PressConfirm) TNotifyAdmins"
proof -
  have "md_outer (modal_run (CloudFreeTrialModalUser p) evs (modal_mounted log)) =
      (notifyAdminCloudFreeTrial ^^ count_list evs PressConfirm) (md_outer (modal_mounted log))"
    using assms by (intro dialog_log) (simp_all add: CloudFreeTrialModalUser_def)
  then show ?thesis
    by (simp add: modal_mounted_def notifyAdminCloudFreeTrial_def [abs_def] append_power)
qed

theorem admins_notified_per_press_witness:
  "md_outer (modal_run (CloudFreeTrialModalUser (default_modal\<lparr>mp_onExited := Some id\<rparr>))
     [PressCancel, PressConfirm, ExitEnds, TimerFires] (modal_mounted [])) = [TNotifyAdmins]"
  using admins_notified_per_press [of "default_modal\<lparr>mp_onExited := Some id\<rparr>"
      "[PressCancel, PressConfirm, ExitEnds, TimerFires]" "[]"]
  by (simp add: default_modal_def)

lemma setOpenWrapper_fields [simp]:
  "dm_isOpen (setOpenWrapper b m) = b" "dm_told (setOpenWrapper b m) = dm_told m @ [b]"
  "dm_isHover (setOpenWrapper b m) = dm_isHover m" "dm_drop (setOpenWrapper b m) = dm_drop m"
  by (simp_all add: setOpenWrapper_def)

text \<open>
  The owner of a menu is told of every change: after any events, what it was told last is whether the
  menu is open, and if it was told nothing the menu is closed; the tooltip never covers an open menu.\<close>
lemma owner_knows_the_menu:
  "dm_isOpen (fold (menu_step p) evs dot_menu_mounted) =
     (let told = dm_told (fold (menu_step p) evs dot_menu_mounted) in told \<noteq> [] \<and> last told)"
proof (induction evs rule: rev_induct)
  case (snoc ev evs)
  then show ?case
    by (cases ev) (auto simp: menu_step_def toggleOpen_def dropdown_setOpen_def menu_clicked_def Let_def)
qed (simp add: dot_menu_mounted_def)

lemma tooltip_or_menu:
  "dv_tooltip (dot_menu_render p m) = None \<or> \<not> dv_content (dot_menu_render p m)"
  by (simp add: dot_menu_render_def)

end
