(* ===== verification/AdminSections.thy ===== *)
theory AdminSections imports AdminSettings Dialogs begin

text \<open>
  The sections of the system console (\<open>admin_console_settings/sections\<close>), the request for a trial that
  two of them offer, and what the console shows of the plugin: the sections of the manifest
  (\<open>plugin.json\<close>) with the settings that they list, each drawn by the component registered for it.
\<close>

section \<open>Sections\<close>

text \<open>The offer of a trial has a title and a link; a section a title, a pill, a subtitle and perhaps a body.\<close>

record 'a section_view =
  sv_testid :: string
  sv_title :: string
  sv_pill :: bool
  sv_subtitle :: "string option"
  sv_unavailable :: bool \<comment> \<open>the subtitle is drawn as one of a section that is not available\<close>
  sv_body :: "'a option"

datatype 'a console_section = NoSection | TrialOffer string string | ConsoleSection "'a section_view"

type_synonym 'a section_component = "global_state \<Rightarrow> 'a \<Rightarrow> error + 'a console_section"

definition plain_section :: "string \<Rightarrow> string \<Rightarrow> string option \<Rightarrow> bool \<Rightarrow> 'a \<Rightarrow> 'a console_section" where
  "plain_section testid title subtitle pill settings = ConsoleSection
     \<lparr>sv_testid = testid, sv_title = title, sv_pill = pill, sv_subtitle = subtitle, sv_unavailable = False,
      sv_body = Some settings\<rparr>"

definition GeneralSettingsSection :: "'a section_component" where
  "GeneralSettingsSection gs settings = Inr (plain_section ''calls-general-settings-section''
     ''General settings'' (Some ''Settings for participants, screen sharing, ringing, and more'') False settings)"

definition RTCServerSection :: "'a section_component" where
  "RTCServerSection gs settings = Inr (plain_section ''calls-rtc-server-section'' ''RTC Server''
     (Some ''Network configuration for the integrated RTC server'') False settings)"

definition ICEAndTURNSection :: "'a section_component" where
  "ICEAndTURNSection gs settings =
     Inr (plain_section ''calls-ice-and-turn-section'' ''ICE and TURN'' None False settings)"

definition RTCDServiceSection :: "'a section_component" where
  "RTCDServiceSection gs settings =
     (case isOnPremNotEnterprise gs of
        Inl err \<Rightarrow> Inl err
      | Inr restricted \<Rightarrow> Inr (
          if restricted
          then TrialOffer ''Use your own WebRTC service''
                 ''https://mattermost.com/pl/calls-deployment-the-rtcd-service?utm_source=mattermost&utm_medium=in-product&utm_content=calls_rtcd_feature_discovery''
          else plain_section ''calls-rtcd-service-section'' ''RTCD Service''
                 (Some ''Configure a dedicated service used to offload calls and efficiently support scalable and secure deployments'')
                 (\<not> isCloud gs) settings))"

text \<open>Its subtitle has a typographic apostrophe in the source.\<close>

definition CallRecordingsSection :: "'a section_component" where
  "CallRecordingsSection gs settings =
     (case isOnPremNotEnterprise gs of
        Inl err \<Rightarrow> Inl err
      | Inr restricted \<Rightarrow> Inr (
          if isCloud gs then NoSection
          else if restricted
          then TrialOffer ''Get access to call recordings, transcriptions, and live captions''
                 ''https://mattermost.com/pl/calls-deployment-recordings?utm_source=mattermost&utm_medium=in-product&utm_content=calls_recordings_feature_discovery''
          else plain_section ''calls-recordings-section'' ''Call recordings''
                 (Some ''Recordings include the entire call window view along with participants' audio track and any shared screen video. Recordings are stored in Mattermost'')
                 (\<not> isCloud gs) settings))"

definition CallTranscriptionsSection :: "'a section_component" where
  "CallTranscriptionsSection gs settings =
     (case isOnPremNotEnterprise gs of
        Inl err \<Rightarrow> Inl err
      | Inr restricted \<Rightarrow>
          if restricted \<or> isCloud gs then Inr NoSection
          else let available = recordingsEnabled gs
               in Inr (ConsoleSection
                 \<lparr>sv_testid = ''calls-transcriptions-section'', sv_title = ''Call transcriptions'', sv_pill = True,
                  sv_subtitle = Some (if available
                    then ''Allows calls to be transcribed to text files. Recordings must be enabled''
                    else ''Allows calls to be transcribed to text files. To enable call transcriptions, recordings must be enabled first''),
                  sv_unavailable = (\<not> available), sv_body = (if available then Some settings else None)\<rparr>))"

definition CallLiveCaptionsSection :: "'a section_component" where
  "CallLiveCaptionsSection gs settings =
     (case isOnPremNotEnterprise gs of
        Inl err \<Rightarrow> Inl err
      | Inr restricted \<Rightarrow>
          if restricted \<or> isCloud gs then Inr NoSection
          else let available = (recordingsEnabled gs \<and> transcriptionsEnabled gs)
               in Inr (ConsoleSection
                 \<lparr>sv_testid = ''calls-live-captions-section'', sv_title = ''Live captions'', sv_pill = True,
                  sv_subtitle = Some (if available
                    then ''Displays spoken words as text captions during a call. Recordings and transcriptions must be enabled''
                    else ''Displays spoken words as text captions during a call. To enable live captions, recordings and transcriptions must be enabled first''),
                  sv_unavailable = (\<not> available), sv_body = (if available then Some settings else None)\<rparr>))"

section \<open>Asking for a trial\<close>

text \<open>
  The button of an offer: it asks for as many users as the server counts, 30 at least, and shows one
  of two dialogs when it is answered. A request that fails gives the message of the error, and an
  empty one counts as none.
\<close>

definition requested_users :: "json option \<Rightarrow> int" where
  "requested_users stats = max (case num_field ''TOTAL_USERS'' stats of None \<Rightarrow> 0 | Some n \<Rightarrow> n) 30"

definition requestLicense :: "json option \<Rightarrow> trial_log \<Rightarrow> trial_log" where
  "requestLicense stats log = log @ [TRequest (requested_users stats) True True]"

text \<open>The answer of \<open>requestOnPremTrialLicense\<close>: the message of an error, or none.\<close>

definition requestOnPremTrialLicense :: "(string \<times> int) + unit \<Rightarrow> string option" where
  "requestOnPremTrialLicense response = (case response of Inl (message, status) \<Rightarrow> Some message | Inr _ \<Rightarrow> None)"

definition license_answered :: "string option \<Rightarrow> trial_log \<Rightarrow> trial_log" where
  "license_answered err log =
     (if text_or err [] \<noteq> [] then log @ [TModal ''onprem_trial_error'']
      else log @ [TModal ''onprem_trial_success'', TLicenseConfig])"

section \<open>The console\<close>

text \<open>The sections of the manifest, each with the keys of its settings.\<close>

definition manifest_sections :: "(string \<times> string list) list" where
  "manifest_sections = [
     (''GeneralSettings'', [''DefaultEnabled'', ''MaxCallParticipants'', ''AllowScreenSharing'',
        ''EnableSimulcast'', ''EnableRinging'', ''EnableAV1'', ''EnableDCSignaling'', ''EnableVideo'']),
     (''RTCDService'', [''RTCDServiceURL'']),
     (''RTCServer'', [''UDPServerAddress'', ''TCPServerAddress'', ''UDPServerPort'', ''TCPServerPort'', ''EnableIPv6'']),
     (''ICEAndTURN'', [''ICEHostOverride'', ''ICEHostPortOverride'', ''ICEServersConfigs'',
        ''TURNStaticAuthSecret'', ''TURNCredentialsExpirationMinutes'', ''ServerSideTURN'']),
     (''CallRecordings'', [''EnableRecordings'', ''JobServiceURL'', ''MaxRecordingDuration'', ''RecordingQuality'']),
     (''CallTranscriptions'', [''EnableTranscriptions'', ''TranscribeAPI'', ''TranscriberModelSize'',
        ''TranscriberNumThreads'', ''TranscribeAPIAzureSpeechKey'', ''TranscribeAPIAzureSpeechRegion'']),
     (''CallLiveCaptions'', [''EnableLiveCaptions'', ''LiveCaptionsModelSize'', ''LiveCaptionsNumTranscribers'',
        ''LiveCaptionsNumThreadsPerTranscriber'', ''LiveCaptionsLanguage''])]"

text \<open>What the plugin registers, if the host application knows sections.\<close>

definition admin_sections :: "bool \<Rightarrow> (string \<times> 'a section_component) list" where
  "admin_sections known =
     (if known
      then [(''GeneralSettings'', GeneralSettingsSection), (''RTCDService'', RTCDServiceSection),
            (''RTCServer'', RTCServerSection), (''ICEAndTURN'', ICEAndTURNSection),
            (''CallRecordings'', CallRecordingsSection), (''CallTranscriptions'', CallTranscriptionsSection),
            (''CallLiveCaptions'', CallLiveCaptionsSection)]
      else [])"

text \<open>A setting of the manifest, drawn by its component.\<close>

definition setting_view :: "admin_state \<Rightarrow> (string \<Rightarrow> setting_props) \<Rightarrow> string \<Rightarrow> error + field_view option" where
  "setting_view a props key =
     (case map_of admin_settings key of
        None \<Rightarrow> Inr None
      | Some f \<Rightarrow> f a (props key))"

definition setting_visible :: "admin_state \<Rightarrow> (string \<Rightarrow> setting_props) \<Rightarrow> string \<Rightarrow> bool" where
  "setting_visible a props key = (case setting_view a props key of Inr (Some v) \<Rightarrow> True | _ \<Rightarrow> False)"

definition console_section_view ::
  "admin_state \<Rightarrow> string \<Rightarrow> error + string list console_section" where
  "console_section_view a name =
     (case map_of (admin_sections True) name of
        None \<Rightarrow> Inr NoSection
      | Some f \<Rightarrow> f (ad_gs a) (case map_of manifest_sections name of None \<Rightarrow> [] | Some keys \<Rightarrow> keys))"

definition section_body :: "admin_state \<Rightarrow> string \<Rightarrow> string list option" where
  "section_body a name =
     (case console_section_view a name of Inr (ConsoleSection v) \<Rightarrow> sv_body v | _ \<Rightarrow> None)"

section \<open>Properties\<close>

lemma not_restricted: "isOnPremNotEnterprise (ad_gs a) = Inr r \<Longrightarrow> isCloud (ad_gs a) \<Longrightarrow> \<not> r"
  by (auto simp: isOnPremNotEnterprise_def Let_def split: option.splits)

lemma visible_cases:
  "setting_visible a props key =
     (case map_of admin_settings key of None \<Rightarrow> False
      | Some f \<Rightarrow> (case f a (props key) of Inr (Some v) \<Rightarrow> True | _ \<Rightarrow> False))"
  by (simp add: setting_visible_def setting_view_def split: option.split)

lemma shown_always [simp]:
  "(case always_shown view a p of Inr (Some v) \<Rightarrow> True | _ \<Rightarrow> False)"
  by (simp add: always_shown_def)

lemma shown_unless_visible:
  "isOnPremNotEnterprise (ad_gs a) = Inr r \<Longrightarrow>
   (case shown_unless hidden view a p of Inr (Some v) \<Rightarrow> True | _ \<Rightarrow> False) = (\<not> hidden a r)"
  by (simp add: shown_unless_def)

lemma visible_switches:
  assumes "isOnPremNotEnterprise (ad_gs a) = Inr r"
  shows "setting_visible a props ''DefaultEnabled''" "setting_visible a props ''RTCDServiceURL''"
    "setting_visible a props ''UDPServerAddress''" "setting_visible a props ''ICEHostOverride''"
    "setting_visible a props ''EnableRecordings'' = (\<not> isCloud (ad_gs a))"
    "setting_visible a props ''EnableTranscriptions'' = (\<not> no_recordings a r)"
    "setting_visible a props ''EnableLiveCaptions'' = (\<not> no_transcriptions a r)"
  by (simp_all add: visible_cases admin_settings_def TestMode_def RTCDServiceURL_def UDPServerAddress_def
      ICEHostOverride_def EnableRecordings_setting_def EnableTranscriptions_setting_def
      EnableLiveCaptions_setting_def shown_unless_visible [OF assms])

lemma visible_dependents:
  assumes "isOnPremNotEnterprise (ad_gs a) = Inr r"
  shows "setting_visible a props ''JobServiceURL'' = (\<not> no_recordings a r)"
    "setting_visible a props ''MaxRecordingDuration'' = (\<not> no_recordings a r)"
    "setting_visible a props ''RecordingQuality'' = (\<not> no_recordings a r)"
    "setting_visible a props ''TranscribeAPI'' = (\<not> no_transcriptions a r)"
    "setting_visible a props ''TranscriberModelSize'' = (\<not> no_transcriptions a r \<and> transcribeAPI (ad_gs a) = ad_WhisperCPP a)"
    "setting_visible a props ''TranscriberNumThreads'' = (\<not> no_transcriptions a r \<and> transcribeAPI (ad_gs a) = ad_WhisperCPP a)"
    "setting_visible a props ''TranscribeAPIAzureSpeechKey'' = (\<not> no_transcriptions a r \<and> transcribeAPI (ad_gs a) = ad_AzureAI a)"
    "setting_visible a props ''TranscribeAPIAzureSpeechRegion'' = (\<not> no_transcriptions a r \<and> transcribeAPI (ad_gs a) = ad_AzureAI a)"
    "setting_visible a props ''LiveCaptionsModelSize'' = (\<not> no_captions a r)"
    "setting_visible a props ''LiveCaptionsNumTranscribers'' = (\<not> no_captions a r)"
    "setting_visible a props ''LiveCaptionsNumThreadsPerTranscriber'' = (\<not> no_captions a r)"
    "setting_visible a props ''LiveCaptionsLanguage'' = (\<not> no_captions a r)"
  by (simp_all add: visible_cases admin_settings_def JobServiceURL_def MaxRecordingDuration_setting_def
      RecordingQuality_def TranscribeAPI_setting_def TranscriberModelSize_def TranscriberNumThreads_def
      TranscribeAPIAzureSpeechKey_def TranscribeAPIAzureSpeechRegion_def LiveCaptionsModelSize_def
      LiveCaptionsNumTranscribers_def LiveCaptionsNumThreadsPerTranscriber_def LiveCaptionsLanguage_def
      shown_unless_visible [OF assms] conj_ac)

lemma bodies:
  assumes "isOnPremNotEnterprise (ad_gs a) = Inr r"
  shows "section_body a ''GeneralSettings'' \<noteq> None" "section_body a ''RTCServer'' \<noteq> None"
    "section_body a ''ICEAndTURN'' \<noteq> None"
    "(section_body a ''RTCDService'' \<noteq> None) = (\<not> r)"
    "(section_body a ''CallRecordings'' \<noteq> None) = (\<not> isCloud (ad_gs a) \<and> \<not> r)"
    "(section_body a ''CallTranscriptions'' \<noteq> None) = (\<not> no_recordings a r)"
    "(section_body a ''CallLiveCaptions'' \<noteq> None) = (\<not> no_transcriptions a r)"
  using assms
  by (auto simp: section_body_def console_section_view_def admin_sections_def plain_section_def Let_def
      GeneralSettingsSection_def RTCServerSection_def ICEAndTURNSection_def RTCDServiceSection_def
      CallRecordingsSection_def CallTranscriptionsSection_def CallLiveCaptionsSection_def)

text \<open>
  With a licence that allows the features, a section of the console has a body exactly if one of the
  settings listed in it is shown: no section is drawn empty, and no setting is left without its
  section.\<close>
theorem sections_hold_their_settings:
  assumes "isOnPremNotEnterprise (ad_gs a) = Inr False" "(name, keys) \<in> set manifest_sections"
  shows "(section_body a name \<noteq> None) = (\<exists>key\<in>set keys. setting_visible a props key)"
proof -
  note body = bodies [OF assms(1)] and switch = visible_switches [OF assms(1), of props]
    and dependent = visible_dependents [OF assms(1), of props]
  have "list_all (\<lambda>(name, keys). (section_body a name \<noteq> None) = (\<exists>key\<in>set keys. setting_visible a props key))
      manifest_sections"
    unfolding manifest_sections_def list.pred_inject prod.case
    by (intro conjI TrueI) (simp_all del: not_None_eq add: body switch dependent, blast+)
  with assms(2) show ?thesis by (auto simp: list_all_iff)
qed

text \<open>
  Every setting of the manifest is listed in exactly one of its sections and drawn by exactly one
  registered component, and every section has a component of its own.\<close>
theorem every_setting_has_its_place:
  "mset (concat (map snd manifest_sections)) = mset (map ms_key manifest_settings) \<and>
   mset (concat (map snd manifest_sections)) = mset (map fst admin_settings) \<and>
   distinct (map fst admin_settings) \<and> map fst manifest_sections = map fst (admin_sections True)"
  by (intro conjI) (simp_all add: manifest_sections_def manifest_settings_def admin_settings_def admin_sections_def)

text \<open>
  A press on the offer of a trial sends one request, for at least 30 users and for all that are
  counted; its answer opens one dialog, and the licence is asked for again exactly if it succeeded.\<close>
theorem trial_requested_once:
  assumes "num_field ''TOTAL_USERS'' stats = Some m"
  shows "\<exists>n. license_answered (requestOnPremTrialLicense response) (requestLicense stats log) =
      log @ [TRequest n True True] @
        (if \<exists>message status. response = Inl (message, status) \<and> message \<noteq> [] then [TModal ''onprem_trial_error'']
         else [TModal ''onprem_trial_success'', TLicenseConfig]) \<and>
    30 \<le> n \<and> m \<le> n"
  using assms
  by (auto simp: license_answered_def requestLicense_def requestOnPremTrialLicense_def requested_users_def
      text_or_def str_or_def split: sum.splits option.splits)

definition on_prem :: admin_state where
  "on_prem = (sample_admin [])\<lparr>ad_gs := (ad_gs (sample_admin []))\<lparr>gs_mm := sample_mm\<lparr>mm_license :=
     Some \<lparr>li_Cloud = ''false'', li_SkuShortName = ''enterprise''\<rparr>\<rparr>\<rparr>\<rparr>"

theorem sections_hold_their_settings_witness:
  "section_body on_prem ''RTCDService'' = Some [''RTCDServiceURL''] \<and>
   (\<exists>key\<in>set [''RTCDServiceURL'']. setting_visible on_prem (\<lambda>_. stored_props VUndefined) key)"
proof -
  have licensed: "isOnPremNotEnterprise (ad_gs on_prem) = Inr False"
    by (simp add: on_prem_def isOnPremNotEnterprise_def isCloud_def)
  have body: "section_body on_prem ''RTCDService'' = Some [''RTCDServiceURL'']"
    using licensed by (simp add: section_body_def console_section_view_def admin_sections_def
        manifest_sections_def RTCDServiceSection_def plain_section_def)
  then show ?thesis
    using sections_hold_their_settings [OF licensed, of "''RTCDService''" "[''RTCDServiceURL'']" "\<lambda>_. stored_props VUndefined"]
    by (simp add: manifest_sections_def)
qed

theorem trial_requested_once_witness:
  "\<exists>n. license_answered (requestOnPremTrialLicense (Inl (''embargoed'', 451)))
       (requestLicense (Some (JObj [(''TOTAL_USERS'', JNum 12)])) []) =
     [TRequest n True True, TModal ''onprem_trial_error''] \<and> 30 \<le> n \<and> 12 \<le> n"
  using trial_requested_once [of "Some (JObj [(''TOTAL_USERS'', JNum 12)])" 12 "Inl (''embargoed'', 451)" "[]"]
  by (simp add: num_field_def json_field_def obj_simps)

end
