(* ===== verification/IncomingViews.thy ===== *)
theory IncomingViews imports IncomingCalls begin

text \<open>
  The notifications of incoming calls as they are drawn: the cards
  (\<open>components/incoming_calls/call_incoming.tsx\<close>, \<open>call_incoming_condensed.tsx\<close>) and the two containers
  that show them (\<open>call_container.tsx\<close>, \<open>expanded_incoming_call_container.tsx\<close>).

  \<open>members\<close> is the host application's selector of the profiles in a channel and \<open>teams\<close> the number of
  the user's teams; the picture of the caller is named by the id of the profile.
\<close>

record incoming_card =
  ica_callID :: string
  ica_testid :: string
  ica_avatar :: string
  ica_caller :: string
  ica_others :: "(string list \<times> nat option) option" \<comment> \<open>named, and how many more\<close>
  ica_tooltip :: "string option" \<comment> \<open>where it is placed\<close>
  ica_border :: bool

definition caller_of :: "incoming_call \<Rightarrow> env \<Rightarrow> user_profile option" where
  "caller_of call e = obj_get (mm_profiles (ev_mm e)) (ic_callerID call)"

definition incoming_card_of ::
  "nat \<Rightarrow> string \<Rightarrow> string option \<Rightarrow> bool \<Rightarrow> (string \<Rightarrow> user_profile list) \<Rightarrow> incoming_call \<Rightarrow> env \<Rightarrow>
   error + incoming_card" where
  "incoming_card_of splitAt testid tooltip border members call e =
     (case useGetCallerNameAndOthers call splitAt (members (ic_channelID call)) e of
        Inl err \<Rightarrow> Inl err
      | Inr (callerName, named, rest) \<Rightarrow>
          (case caller_of call e of
             None \<Rightarrow> Inl (TypeError ''id'')
           | Some caller \<Rightarrow> Inr
               \<lparr>ica_callID = ic_callID call, ica_testid = testid, ica_avatar = up_id caller, ica_caller = callerName,
                ica_others = (if ic_type call = GM then Some (named, rest) else None),
                ica_tooltip = tooltip, ica_border = border\<rparr>))"

definition CallIncoming :: "(string \<Rightarrow> user_profile list) \<Rightarrow> incoming_call \<Rightarrow> env \<Rightarrow> error + incoming_card" where
  "CallIncoming = incoming_card_of 2 ''call-incoming'' None False"

text \<open>\<open>desktop\<close>: the window is one of the desktop app. \<open>overflows\<close>: the message does not fit, so that it has a tooltip.\<close>

definition CallIncomingCondensed ::
  "bool \<Rightarrow> bool \<Rightarrow> bool \<Rightarrow> bool \<Rightarrow> (string \<Rightarrow> user_profile list) \<Rightarrow> incoming_call \<Rightarrow> env \<Rightarrow> error + incoming_card" where
  "CallIncomingCondensed onWidget border desktop overflows =
     incoming_card_of 10 (if onWidget then ''call-incoming-condensed-widget'' else ''call-incoming-condensed'')
       (if overflows then Some (if onWidget \<and> desktop then ''bottom'' else ''top'') else None) border"

text \<open>One component that fails takes down the container that it is in.\<close>

fun each_drawn :: "('a \<Rightarrow> error + 'b) \<Rightarrow> 'a list \<Rightarrow> error + 'b list" where
  "each_drawn f [] = Inr []"
| "each_drawn f (x # xs) =
     (case f x of
        Inl err \<Rightarrow> Inl err
      | Inr y \<Rightarrow> (case each_drawn f xs of Inl err \<Rightarrow> Inl err | Inr ys \<Rightarrow> Inr (y # ys)))"

section \<open>The containers\<close>

definition incoming_shown :: "host_window \<Rightarrow> string \<Rightarrow> env \<Rightarrow> incoming_call list" where
  "incoming_shown h pluginId e =
     (let calls = sortedIncomingCalls (getState e)
      in if \<not> ringingEnabled (getState e) \<or> \<not> shouldRenderCallsIncoming pluginId (hw_page h) \<or> calls = [] \<or>
            useOnACallWithoutGlobalWidget h e
         then [] else calls)"

record incoming_view =
  icv_wide :: bool
  icv_cards :: "incoming_card list"

definition IncomingCallContainer ::
  "host_window \<Rightarrow> string \<Rightarrow> nat \<Rightarrow> (string \<Rightarrow> bool) \<Rightarrow> (string \<Rightarrow> user_profile list) \<Rightarrow> env \<Rightarrow>
   error + incoming_view option" where
  "IncomingCallContainer h pluginId teams overflows members e =
     (case incoming_shown h pluginId e of
        [] \<Rightarrow> Inr None
      | cs \<Rightarrow>
          (case each_drawn (\<lambda>c. CallIncomingCondensed False False (wo_desktop (pg_window (hw_page h)) \<noteq> None) (overflows (ic_callID c)) members c e)
                  (butlast cs) of
             Inl err \<Rightarrow> Inl err
           | Inr condensed \<Rightarrow>
               (case CallIncoming members (last cs) e of
                  Inl err \<Rightarrow> Inl err
                | Inr full \<Rightarrow> Inr (Some \<lparr>icv_wide = (teams > 1), icv_cards = condensed @ [full]\<rparr>))))"

definition ExpandedIncomingCallContainer ::
  "host_window \<Rightarrow> (string \<Rightarrow> bool) \<Rightarrow> (string \<Rightarrow> user_profile list) \<Rightarrow> env \<Rightarrow> error + incoming_card list option" where
  "ExpandedIncomingCallContainer h overflows members e =
     (let calls = sortedIncomingCalls (getState e)
      in if \<not> ringingEnabled (getState e) \<or> calls = [] then Inr None
         else (case each_drawn (\<lambda>c. CallIncomingCondensed False True (wo_desktop (pg_window (hw_page h)) \<noteq> None) (overflows (ic_callID c)) members c e)
                      calls of
                 Inl err \<Rightarrow> Inl err
               | Inr cards \<Rightarrow> Inr (Some cards)))"

section \<open>Properties\<close>

lemma each_drawn_result:
  "each_drawn f xs = Inr ys \<Longrightarrow> list_all2 (\<lambda>x y. f x = Inr y) xs ys"
  by (induction xs arbitrary: ys) (auto split: sum.splits)

lemma card_of_call:
  assumes "incoming_card_of n t tip b members c e = Inr w"
  shows "ica_callID w = ic_callID c \<and> ica_testid w = t \<and> (\<exists>u. caller_of c e = Some u \<and> ica_avatar w = up_id u)"
  using assms by (auto simp: incoming_card_of_def split: sum.splits option.splits)

lemma cards_of_calls:
  assumes "list_all2 (\<lambda>c card. incoming_card_of n t (tip c) b members c e = Inr card) cs cards"
  shows "map ica_callID cards = map ic_callID cs" "map ica_testid cards = replicate (length cs) t"
  using assms by (induction rule: list_all2_induct) (simp_all add: card_of_call)

text \<open>
  C36. Every incoming call that is shown has one card, latest first, and the one that is shown in full is
  the call that started first.\<close>
theorem one_card_per_call:
  assumes "IncomingCallContainer h pluginId teams overflows members e = Inr (Some v)"
  shows "map ica_callID (icv_cards v) = map ic_callID (sortedIncomingCalls (getState e)) \<and>
    map ica_testid (icv_cards v) =
      replicate (length (sortedIncomingCalls (getState e)) - 1) ''call-incoming-condensed'' @ [''call-incoming''] \<and>
    (\<forall>c \<in> set (incomingCalls_sel (getState e)). ic_startAt (last (sortedIncomingCalls (getState e))) \<le> ic_startAt c)"
proof -
  let ?calls = "sortedIncomingCalls (getState e)"
  from assms have ne: "?calls \<noteq> []" and shown: "incoming_shown h pluginId e = ?calls"
    by (auto simp: IncomingCallContainer_def incoming_shown_def Let_def split: if_splits list.splits)
  with assms obtain condensed full where
    parts: "list_all2 (\<lambda>c card. CallIncomingCondensed False False (wo_desktop (pg_window (hw_page h)) \<noteq> None) (overflows (ic_callID c)) members c e = Inr card)
        (butlast ?calls) condensed"
      "CallIncoming members (last ?calls) e = Inr full" and v: "icv_cards v = condensed @ [full]"
    by (auto simp: IncomingCallContainer_def split: list.splits sum.splits dest!: each_drawn_result)
  have condensed: "map ica_callID condensed = map ic_callID (butlast ?calls)"
      "map ica_testid condensed = replicate (length ?calls - 1) ''call-incoming-condensed''"
    using cards_of_calls [OF parts(1) [unfolded CallIncomingCondensed_def]] by simp_all
  have full: "ica_callID full = ic_callID (last ?calls)" "ica_testid full = ''call-incoming''"
    using card_of_call parts(2) unfolding CallIncoming_def by blast+
  have "map ica_callID (icv_cards v) = map ic_callID (butlast ?calls @ [last ?calls])"
    by (simp add: v condensed full)
  then have ids: "map ica_callID (icv_cards v) = map ic_callID ?calls" using ne by simp
  have "ic_startAt (last ?calls) \<le> ic_startAt c" if "c \<in> set (incomingCalls_sel (getState e))" for c
  proof -
    have "c \<in> set ?calls" using sorted_incoming_calls [of "getState e"] that by (metis mset_eq_setD)
    then obtain i where "i < length ?calls" "?calls ! i = c" by (auto simp: in_set_conv_nth)
    with sorted_incoming_calls [of "getState e"] ne
    have "map (\<lambda>c. - ic_startAt c) ?calls ! i \<le> map (\<lambda>c. - ic_startAt c) ?calls ! (length ?calls - 1)"
      by (intro sorted_nth_mono) auto
    with ne \<open>i < length ?calls\<close> \<open>?calls ! i = c\<close> show ?thesis by (simp add: last_conv_nth)
  qed
  then show ?thesis by (intro conjI ballI) (rule ids, simp_all add: v condensed full)
qed

lemma sorted_removed:
  fixes cs :: "incoming_call list"
  shows "js_sort (\<lambda>a b. ic_startAt b - ic_startAt a) (filter P cs) =
    filter P (js_sort (\<lambda>a b. ic_startAt b - ic_startAt a) cs)"
proof -
  have a: "sorted_wrt (\<lambda>_ _. True) xs" for xs :: "incoming_call list"
    by (induction xs) simp_all
  show ?thesis by (simp add: by_start.sort_key_eq [OF a] filter_sort)
qed

lemma dismissed_state:
  "rs_incomingCalls (ev_plugin (onDismiss channelID callID e)) =
     filter (\<lambda>c. ic_callID c \<noteq> callID) (rs_incomingCalls (ev_plugin e))"
  "rs_callsConfig (ev_plugin (onDismiss channelID callID e)) = rs_callsConfig (ev_plugin e)"
  "rs_clientState (ev_plugin (onDismiss channelID callID e)) = rs_clientState (ev_plugin e)"
  "ev_client (onDismiss channelID callID e) = ev_client e" "ev_mm (onDismiss channelID callID e) = ev_mm e"
  by (simp_all add: onDismiss_def dismissIncomingCallNotification_def removeIncomingCallNotification_def
      stopRingingForCall_def)

text \<open>
  Ignoring a call takes its card away, in both containers, and leaves the cards of the others, in their
  order.\<close>
theorem ignored_call_disappears:
  "incoming_shown h pluginId (onDismiss channelID callID e) =
     filter (\<lambda>c. ic_callID c \<noteq> callID) (incoming_shown h pluginId e) \<and>
   sortedIncomingCalls (getState (onDismiss channelID callID e)) =
     filter (\<lambda>c. ic_callID c \<noteq> callID) (sortedIncomingCalls (getState e)) \<and>
   callID \<notin> ic_callID ` set (sortedIncomingCalls (getState (onDismiss channelID callID e)))"
proof -
  have sorted: "sortedIncomingCalls (getState (onDismiss channelID callID e)) =
      filter (\<lambda>c. ic_callID c \<noteq> callID) (sortedIncomingCalls (getState e))"
    by (simp add: sortedIncomingCalls_def incomingCalls_sel_def getState_def dismissed_state sorted_removed)
  have same: "ringingEnabled (getState (onDismiss channelID callID e)) = ringingEnabled (getState e)"
    "useOnACallWithoutGlobalWidget h (onDismiss channelID callID e) = useOnACallWithoutGlobalWidget h e"
    by (simp_all add: ringingEnabled_def callsConfig_sel_def useOnACallWithoutGlobalWidget_def
        channelIDForCurrentCall_def getCallsClientChannelID_def clientState_def getState_def dismissed_state)
  show ?thesis by (auto simp: incoming_shown_def Let_def sorted same)
qed

definition called_env :: env where
  "called_env = foldl (\<lambda>e a. dispatch a e)
     (sample_env\<lparr>ev_mm := sample_mm\<lparr>mm_profiles := [(''you'', you)]\<rparr>\<rparr>)
     [RECEIVED_CALLS_CONFIG ((CallsConfigDefault ''w'')\<lparr>EnableRinging := True\<rparr>),
      ADD_INCOMING_CALL \<lparr>ic_callID = ''k'', ic_channelID = ''dm'', ic_callerID = ''you'', ic_startAt = 5, ic_type = DM\<rparr>,
      ADD_INCOMING_CALL \<lparr>ic_callID = ''l'', ic_channelID = ''dm'', ic_callerID = ''you'', ic_startAt = 9, ic_type = DM\<rparr>]"

lemma called_calls:
  "sortedIncomingCalls (getState called_env) =
     [\<lparr>ic_callID = ''l'', ic_channelID = ''dm'', ic_callerID = ''you'', ic_startAt = 9, ic_type = DM\<rparr>,
      \<lparr>ic_callID = ''k'', ic_channelID = ''dm'', ic_callerID = ''you'', ic_startAt = 5, ic_type = DM\<rparr>]"
  by (simp add: called_env_def sortedIncomingCalls_def incomingCalls_sel_def getState_def js_sort_def
      sample_env_def init_root_def)

lemma called_shown: "incoming_shown (sample_window False) ''p'' called_env = sortedIncomingCalls (getState called_env)"
proof -
  have "channelIDForCurrentCall (getState called_env) = []"
    by (simp add: channelIDForCurrentCall_def getCallsClientChannelID_def clientState_def getState_def
        called_env_def sample_env_def init_root_def)
  moreover have "ringingEnabled (getState called_env)"
    by (simp add: ringingEnabled_def callsConfig_sel_def getState_def called_env_def)
  moreover have "shouldRenderCallsIncoming ''p'' (hw_page (sample_window False))"
    by (simp add: shouldRenderCallsIncoming_def sample_window_def sample_page_def getCallsWindow_def Let_def)
  ultimately show ?thesis
    by (simp add: incoming_shown_def useOnACallWithoutGlobalWidget_def called_calls)
qed

theorem one_card_per_call_witness:
  "\<exists>v. IncomingCallContainer (sample_window False) ''p'' 2 (\<lambda>_. False) (\<lambda>_. []) called_env = Inr (Some v) \<and>
    map ica_callID (icv_cards v) = [''l'', ''k'']"
proof -
  have known: "obj_get (mm_profiles (ev_mm called_env)) ''you'' = Some you"
    by (simp add: called_env_def obj_simps)
  have "\<exists>v. IncomingCallContainer (sample_window False) ''p'' 2 (\<lambda>_. False) (\<lambda>_. []) called_env = Inr (Some v)"
    by (simp add: IncomingCallContainer_def called_shown called_calls CallIncomingCondensed_def CallIncoming_def
        incoming_card_of_def useGetCallerNameAndOthers_def caller_of_def known Let_def)
  then obtain v where "IncomingCallContainer (sample_window False) ''p'' 2 (\<lambda>_. False) (\<lambda>_. []) called_env = Inr (Some v)"
    by blast
  with one_card_per_call [OF this] show ?thesis by (simp add: called_calls)
qed

end
