(* ===== verification/Buttons.thy ===== *)
theory Buttons imports Panels Participants Dialogs StandaloneTheme begin

text \<open>
  The buttons, prompts and banners that the views of a call are made of: \<open>expanded_view/controls_button.tsx\<close>,
  \<open>reaction_button.tsx\<close>, \<open>in_call_prompt.tsx\<close>, \<open>global_banner.tsx\<close>, \<open>remove_confirmation.tsx\<close> and
  \<open>call_participant_rhs.tsx\<close>, their counterparts in \<open>call_widget\<close> (\<open>widget_button.tsx\<close>,
  \<open>widget_banner.tsx\<close>, \<open>unavailable_icon_wrapper.tsx\<close>, \<open>remove_confirmation.tsx\<close>), the hint of a
  keyboard shortcut (\<open>shortcut.tsx\<close>), the badge (\<open>badge.tsx\<close>), and the entry that the channel header shows when
  several plugins offer calls (\<open>channel_header_dropdown_button\<close>).

  Styles are modelled where props choose them.
\<close>

section \<open>Keyboard hints\<close>

text \<open>The signs of Apple's keyboards for \<open>meta\<close> and \<open>alt\<close>.\<close>

datatype key_cap = CommandSign | OptionSign | KeyText string

definition macKeyToCharMap :: "(string, key_cap) obj" where
  "macKeyToCharMap = [(''meta'', CommandSign), (''alt'', OptionSign)]"

definition Shortcut :: "bool \<Rightarrow> string \<Rightarrow> key_cap list" where
  "Shortcut mac shortcut =
     map (\<lambda>key. case (if mac then obj_get macKeyToCharMap key else None) of
                  Some sign \<Rightarrow> sign | None \<Rightarrow> KeyText key)
       (split_at (CHR ''+'') shortcut)"

section \<open>Buttons of the controls\<close>

record 'e button_props =
  bp_disabled :: bool
  bp_unavailable :: bool
  bp_onToggle :: "('e \<Rightarrow> 'e) option"
  bp_tooltipText :: string
  bp_tooltipSubtext :: string
  bp_shortcut :: string
  bp_bgColor :: string
  bp_bgColorHover :: string
  bp_iconFill :: string
  bp_iconFillHover :: string
  bp_margin :: string
  bp_text :: string

record button_style =
  bs_margin :: string
  bs_background :: string
  bs_color :: string
  bs_fill :: string
  bs_hover_background :: string
  bs_hover_color :: string

record pressed_view =
  bv_disabled :: bool
  bv_badge :: bool \<comment> \<open>the cross of an unavailable device\<close>
  bv_text :: "string option"
  bv_tooltip :: "(string \<times> key_cap list option \<times> string option) option"
  bv_style :: button_style

definition non_empty :: "string \<Rightarrow> string option" where
  "non_empty s = (if s = [] then None else Some s)"

text \<open>Later rules of a style win over earlier ones.\<close>

definition controls_style :: "'e button_props \<Rightarrow> button_style" where
  "controls_style p =
     (let off = bp_disabled p \<or> bp_unavailable p
      in \<lparr>bs_margin = str_or (bp_margin p) ''0'',
          bs_background = str_or (bp_bgColor p) ''rgba(var(--button-color-rgb), 0.08)'',
          bs_color = str_or (bp_iconFill p) ''rgba(var(--button-color-rgb), 0.56)'',
          bs_fill = (if off then ''rgba(var(--button-color-rgb), 0.32)''
                     else str_or (bp_iconFill p) ''rgba(var(--button-color-rgb), 0.56)''),
          bs_hover_background = (if off then ''rgba(var(--button-color-rgb), 0.08)''
                                 else str_or (bp_bgColorHover p) ''rgba(var(--button-color-rgb), 0.12)''),
          bs_hover_color = str_or (bp_iconFillHover p) ''var(--button-color)''\<rparr>)"

definition ControlsButton :: "bool \<Rightarrow> 'e button_props \<Rightarrow> pressed_view" where
  "ControlsButton mac p =
     \<lparr>bv_disabled = bp_disabled p, bv_badge = bp_unavailable p, bv_text = non_empty (bp_text p),
      bv_tooltip = Some (bp_tooltipText p, map_option (Shortcut mac) (non_empty (bp_shortcut p)),
                         non_empty (bp_tooltipSubtext p)),
      bv_style = controls_style p\<rparr>"

text \<open>A click: nothing when disabled, else the tooltip goes and the handler runs.\<close>

definition controls_click :: "'e button_props \<Rightarrow> bool \<times> 'e \<Rightarrow> bool \<times> 'e" where
  "controls_click p = (\<lambda>(tip, e).
     if bp_disabled p then (tip, e)
     else (False, case bp_onToggle p of None \<Rightarrow> e | Some f \<Rightarrow> f e))"

text \<open>The widget's button; \<open>show\<close>: the pointer is over it.\<close>

definition widget_style :: "'e button_props \<Rightarrow> button_style" where
  "widget_style p =
     \<lparr>bs_margin = ''0'', bs_background = bp_bgColor p, bs_color = ''rgba(var(--center-channel-color-rgb), 0.64)'',
      bs_fill = (if bp_unavailable p then ''rgba(var(--center-channel-color-rgb), 0.32)''
                 else ''rgba(var(--center-channel-color-rgb), 0.64)''),
      bs_hover_background = str_or (bp_bgColorHover p) ''rgba(var(--center-channel-color-rgb), 0.12)'',
      bs_hover_color = ''rgba(var(--center-channel-color-rgb), 0.64)''\<rparr>"

definition WidgetButton :: "bool \<Rightarrow> bool \<Rightarrow> 'e button_props \<Rightarrow> pressed_view" where
  "WidgetButton mac show p =
     \<lparr>bv_disabled = bp_disabled p, bv_badge = bp_unavailable p, bv_text = None,
      bv_tooltip = (if bp_tooltipText p \<noteq> [] \<and> show
                    then Some (bp_tooltipText p, map_option (Shortcut mac) (non_empty (bp_shortcut p)),
                               non_empty (bp_tooltipSubtext p))
                    else None),
      bv_style = widget_style p\<rparr>"

definition widget_click :: "'e button_props \<Rightarrow> 'e \<Rightarrow> 'e" where
  "widget_click p e =
     (if bp_disabled p then e else (case bp_onToggle p of None \<Rightarrow> e | Some f \<Rightarrow> f e))"

section \<open>Prompts and banners\<close>

record 'e prompt_buttons =
  pb_leftText :: string
  pb_rightText :: string
  pb_onLeft :: "('e \<Rightarrow> 'e) option"
  pb_onRight :: "('e \<Rightarrow> 'e) option"
  pb_onClose :: "('e \<Rightarrow> 'e) option"

record prompt_view =
  pv_left :: "string option"
  pv_right :: "string option"
  pv_footer :: bool
  pv_close :: bool

text \<open>The prompt of the expanded view: its cross is there if the left button has a handler.\<close>

definition InCallPrompt :: "'e prompt_buttons \<Rightarrow> prompt_view" where
  "InCallPrompt p =
     \<lparr>pv_left = (if pb_leftText p \<noteq> [] \<and> pb_onLeft p \<noteq> None then Some (pb_leftText p) else None),
      pv_right = (if pb_rightText p \<noteq> [] \<and> pb_onRight p \<noteq> None then Some (pb_rightText p) else None),
      pv_footer = True, pv_close = (pb_onLeft p \<noteq> None)\<rparr>"

text \<open>The banner of the widget.\<close>

definition WidgetBanner :: "'e prompt_buttons \<Rightarrow> prompt_view" where
  "WidgetBanner p =
     (let left = pb_leftText p \<noteq> [] \<and> pb_onLeft p \<noteq> None; right = pb_onRight p \<noteq> None \<and> pb_rightText p \<noteq> []
      in \<lparr>pv_left = (if left then Some (pb_leftText p) else None),
          pv_right = (if right then Some (pb_rightText p) else None),
          pv_footer = (left \<or> right), pv_close = (pb_onClose p \<noteq> None)\<rparr>)"

text \<open>A press starts the fading; its handler runs when an animation ends.\<close>

record 'e banner_state =
  bn_left :: bool
  bn_right :: bool
  bn_close :: bool
  bn_outer :: 'e

definition banner_mounted :: "'e \<Rightarrow> 'e banner_state" where
  "banner_mounted e = \<lparr>bn_left = False, bn_right = False, bn_close = False, bn_outer = e\<rparr>"

definition fades_in :: "'e banner_state \<Rightarrow> bool" where
  "fades_in s \<longleftrightarrow> \<not> bn_left s \<and> \<not> bn_right s \<and> \<not> bn_close s"

definition run_if :: "bool \<Rightarrow> ('e \<Rightarrow> 'e) option \<Rightarrow> 'e \<Rightarrow> 'e" where
  "run_if b h e = (case h of None \<Rightarrow> e | Some f \<Rightarrow> if b then f e else e)"

definition onAnimationEnd :: "'e prompt_buttons \<Rightarrow> 'e banner_state \<Rightarrow> 'e banner_state" where
  "onAnimationEnd p s = s\<lparr>bn_outer :=
     run_if (bn_close s) (pb_onClose p) (run_if (bn_right s) (pb_onRight p)
       (run_if (bn_left s) (pb_onLeft p) (bn_outer s)))\<rparr>"

datatype banner_event = BannerLeft | BannerRight | BannerClose | BannerAnimated

definition banner_step :: "'e prompt_buttons \<Rightarrow> banner_event \<Rightarrow> 'e banner_state \<Rightarrow> 'e banner_state" where
  "banner_step p ev s =
     (case ev of
        BannerLeft \<Rightarrow> if pv_left (WidgetBanner p) \<noteq> None then s\<lparr>bn_left := True\<rparr> else s
      | BannerRight \<Rightarrow> if pv_right (WidgetBanner p) \<noteq> None then s\<lparr>bn_right := True\<rparr> else s
      | BannerClose \<Rightarrow> if pv_close (WidgetBanner p) then s\<lparr>bn_close := True\<rparr> else s
      | BannerAnimated \<Rightarrow> onAnimationEnd p s)"

text \<open>
  The question before a participant is removed, the same in both views: in the widget with the banner's
  fading, in the expanded view without.\<close>

definition RemoveConfirmation :: "('e \<Rightarrow> 'e) \<Rightarrow> ('e \<Rightarrow> 'e) \<Rightarrow> 'e prompt_buttons" where
  "RemoveConfirmation onConfirm onCancel =
     \<lparr>pb_leftText = ''Yes, remove'', pb_rightText = ''Cancel'', pb_onLeft = Some onConfirm,
      pb_onRight = Some onCancel, pb_onClose = Some onCancel\<rparr>"

definition WidgetRemoveConfirmation :: "('e \<Rightarrow> 'e) \<Rightarrow> ('e \<Rightarrow> 'e) \<Rightarrow> 'e prompt_buttons" where
  "WidgetRemoveConfirmation onConfirm onCancel =
     \<lparr>pb_leftText = ''Yes, remove'', pb_rightText = ''Cancel'', pb_onLeft = Some onConfirm,
      pb_onRight = Some onCancel, pb_onClose = Some onCancel\<rparr>"

datatype banner_type = BError | BWarning | BInfo

fun colorMap :: "banner_type \<Rightarrow> string" where
  "colorMap BError = ''var(--button-color)''"
| "colorMap BWarning = ''rgb(63, 67, 80)''"
| "colorMap BInfo = ''var(--center-channel-color)''"

fun bgMap :: "banner_type \<Rightarrow> string" where
  "bgMap BError = ''var(--dnd-indicator)''"
| "bgMap BWarning = ''rgb(255, 188, 31)''"
| "bgMap BInfo = ''var(--center-channel-bg)''"

fun hoverMap :: "banner_type \<Rightarrow> string" where
  "hoverMap BError = ''rgba(var(--button-color-rgb), 0.08)''"
| "hoverMap BWarning = ''rgba(63, 67, 80, 0.08)''"
| "hoverMap BInfo = ''rgba(var(--center-channel-color-rgb), 0.08)''"

text \<open>Colour, background, and what hovering over the cross shows, if there is one.\<close>

definition GlobalBanner :: "banner_type \<Rightarrow> bool \<Rightarrow> string \<times> string \<times> string option" where
  "GlobalBanner ty closable = (colorMap ty, bgMap ty, if closable then Some (hoverMap ty) else None)"

section \<open>The badge\<close>

record badge_props =
  bg_loading :: bool
  bg_icon :: string
  bg_hoverIcon :: "string option"
  bg_textSize :: nat
  bg_lineHeight :: nat

text \<open>What stands before the text, a spinner or an icon; and the height of the line.\<close>

definition Badge :: "badge_props \<Rightarrow> bool \<Rightarrow> string option \<times> nat" where
  "Badge p hover =
     (if bg_loading p then None
      else if hover then Some (text_or (bg_hoverIcon p) (bg_icon p)) else Some (bg_icon p),
      if bg_lineHeight p = 0 then bg_textSize p else bg_lineHeight p)"

definition toggleHover :: "bool \<Rightarrow> bool" where "toggleHover hover = (\<not> hover)"

section \<open>Reactions\<close>

text \<open>
  What the picker gives for an emoji, and the button's state: is the picker shown, is the bar. The table
  \<open>EmojiIndicesByAlias\<close> is generated; \<open>known\<close> says which aliases are in it.\<close>

record emoji_click =
  ek_names :: "string list"
  ek_skin :: "string option"
  ek_unified :: string
  ek_emoji :: "string option"

record reaction_button =
  rb_picker :: bool
  rb_bar :: bool

definition reaction_mounted :: reaction_button where
  "reaction_mounted = \<lparr>rb_picker = False, rb_bar = False\<rparr>"

definition replace_char :: "char \<Rightarrow> char \<Rightarrow> string \<Rightarrow> string" where
  "replace_char c d = map (\<lambda>x. if x = c then d else x)"

definition name_variants :: "string list \<Rightarrow> string list" where
  "name_variants names =
     concat (map (\<lambda>n. [n, replace_char (CHR '' '') (CHR ''_'') n, replace_char (CHR '' '') (CHR ''-'') n]) names)"

definition findEmojiName :: "(string \<Rightarrow> bool) \<Rightarrow> string list \<Rightarrow> string" where
  "findEmojiName known names = str_of (find known (name_variants names))"

definition emoji_data :: "(string \<Rightarrow> bool) \<Rightarrow> emoji_click \<Rightarrow> json" where
  "emoji_data known k = JObj
     ([(''name'', JStr (findEmojiName known (ek_names k)))] @
      (case ek_skin k of None \<Rightarrow> [] | Some s \<Rightarrow> [(''skin'', JStr s)]) @
      [(''unified'', JStr (toLowerCase (ek_unified k))), (''literal'', JStr (str_of (ek_emoji k)))])"

definition hide_reactions :: "reaction_button \<Rightarrow> reaction_button" where
  "hide_reactions s = s\<lparr>rb_picker := False, rb_bar := False\<rparr>"

text \<open>\<open>closeOnBlur_bar\<close>: a click anywhere in the document, inside the component or not.\<close>

definition closeOnBlur_bar :: "bool \<Rightarrow> reaction_button \<Rightarrow> reaction_button" where
  "closeOnBlur_bar inside s = (if inside then s else hide_reactions s)"

definition closeOnEscape :: "string \<Rightarrow> reaction_button \<Rightarrow> reaction_button" where
  "closeOnEscape key s = (if key = ''Escape'' then hide_reactions s else s)"

definition toggleShowPicker_bar :: "reaction_button \<Rightarrow> reaction_button" where
  "toggleShowPicker_bar s = s\<lparr>rb_picker := \<not> rb_picker s\<rparr>"

definition toggleReactions_bar :: "reaction_button \<Rightarrow> reaction_button" where
  "toggleReactions_bar s =
     (let s1 = (if rb_bar s \<and> rb_picker s then s\<lparr>rb_picker := False\<rparr> else s) in s1\<lparr>rb_bar := \<not> rb_bar s\<rparr>)"

definition handleUserPicksEmoji ::
  "(string \<Rightarrow> bool) \<Rightarrow> emoji_click \<Rightarrow> reaction_button \<times> calls_client option \<Rightarrow> reaction_button \<times> calls_client option" where
  "handleUserPicksEmoji known k = (\<lambda>(s, c).
     (hide_reactions s, map_option (sendUserReaction (emoji_data known k)) c))"

text \<open>The five emojis of the bar, and what a press on one gives.\<close>

definition quick_emojis :: "(string \<times> string) list" where
  "quick_emojis = [(''+1'', ''1f44d''), (''clap'', ''1f44f''), (''joy'', ''1f602''), (''heart'', ''2764-fe0f''),
     (''tada'', ''1f389'')]"

definition QuickSelect :: "string \<times> string \<Rightarrow> emoji_click" where
  "QuickSelect = (\<lambda>(name, unified). \<lparr>ek_names = [name], ek_skin = None, ek_unified = unified, ek_emoji = None\<rparr>)"

definition reaction_raise :: "bool \<Rightarrow> calls_client option \<Rightarrow> calls_client option" where
  "reaction_raise handUp = map_option (if handUp then unraiseHand else raiseHand)"

record reaction_view =
  rc_picker :: bool
  rc_hand :: "(string \<times> string) option" \<comment> \<open>test id and text of the hand's button, with the bar\<close>
  rc_quick :: "(string \<times> string) list"
  rc_picker_label :: string
  rc_toggle :: "bool button_props"

definition ReactionButton :: "string \<Rightarrow> bool \<Rightarrow> reaction_button \<Rightarrow> reaction_view" where
  "ReactionButton shortcut handUp s =
     \<lparr>rc_picker = rb_picker s,
      rc_hand = (if rb_bar s
                 then Some (if handUp then (''lower-hand-button'', ''Lower hand'') else (''raise-hand-button'', ''Raise hand''))
                 else None),
      rc_quick = (if rb_bar s then quick_emojis else []),
      rc_picker_label = (if rb_picker s then ''Close emoji picker'' else ''Open emoji picker''),
      rc_toggle = \<lparr>bp_disabled = False, bp_unavailable = False, bp_onToggle = Some Not,
        bp_tooltipText = (if rb_bar s then ''Close reactions'' else ''Add reaction''), bp_tooltipSubtext = [],
        bp_shortcut = shortcut, bp_bgColor = (if rb_bar s then ''white'' else []),
        bp_bgColorHover = (if rb_bar s then ''rgba(255, 255, 255, 0.92)'' else []),
        bp_iconFill = (if rb_bar s then ''rgba(var(--calls-bg-rgb), 0.80)'' else []),
        bp_iconFillHover = (if rb_bar s then ''var(--calls-bg)'' else []), bp_margin = [], bp_text = []\<rparr>\<rparr>"

text \<open>What can happen to it: the buttons in the bar and the picker count only while they are shown.\<close>

datatype reaction_event =
    RToggle | RPicker | RQuick nat | REmoji emoji_click | RHand bool | RClick bool | RKeyUp string

definition reaction_step ::
  "(string \<Rightarrow> bool) \<Rightarrow> reaction_event \<Rightarrow> reaction_button \<times> calls_client option \<Rightarrow> reaction_button \<times> calls_client option" where
  "reaction_step known ev sc =
     (case sc of (s, c) \<Rightarrow>
        (case ev of
           RToggle \<Rightarrow> (toggleReactions_bar s, c)
         | RPicker \<Rightarrow> if rb_bar s then (toggleShowPicker_bar s, c) else sc
         | RQuick n \<Rightarrow>
             if rb_bar s \<and> n < length quick_emojis
             then handleUserPicksEmoji known (QuickSelect (quick_emojis ! n)) sc else sc
         | REmoji k \<Rightarrow> if rb_picker s then handleUserPicksEmoji known k sc else sc
         | RHand up \<Rightarrow> if rb_bar s then (s, reaction_raise up c) else sc
         | RClick inside \<Rightarrow> (closeOnBlur_bar inside s, c)
         | RKeyUp key \<Rightarrow> (closeOnEscape key s, c)))"

text \<open>An emoji drawn: its name, its picture's address and its px. The tables are generated.\<close>

definition getEmojiURL :: "(string \<Rightarrow> nat option) \<Rightarrow> (nat \<Rightarrow> string) \<Rightarrow> string \<Rightarrow> string" where
  "getEmojiURL index url unified = (case index (toLowerCase unified) of None \<Rightarrow> [] | Some i \<Rightarrow> url i)"

definition Emoji ::
  "(string \<Rightarrow> nat option) \<Rightarrow> (nat \<Rightarrow> string) \<Rightarrow> (string \<times> string) option \<Rightarrow> nat option \<Rightarrow> (string \<times> string \<times> string) option" where
  "Emoji index url emoji px =
     (case emoji of
        None \<Rightarrow> None
      | Some (name, unified) \<Rightarrow>
          Some (name, getEmojiURL index url unified,
                (case px of None \<Rightarrow> ''18px'' | Some n \<Rightarrow> if n = 0 then ''18px'' else show_nat n @ ''px'')))"

section \<open>The list of the expanded view\<close>

text \<open>Its rows: those of the widget, with the controls of the expanded view.\<close>

definition CallParticipantRHS ::
  "bool \<Rightarrow> hover_state \<Rightarrow> user_session \<Rightarrow> user_profile option \<Rightarrow> bool \<Rightarrow> bool \<Rightarrow> bool \<Rightarrow> string option \<Rightarrow> row_view option" where
  "CallParticipantRHS available hs s profile isYou isHost isSharingScreen callID =
     (case profile of
        None \<Rightarrow> None
      | Some u \<Rightarrow>
          (let isMuted = (\<not> truthy_bool (us_unmuted s)); isSpeaking = truthy_bool (us_voice s);
               isHandRaised = num_gt (us_raised_hand s) (Some 0)
           in Some \<lparr>rw_name = getUserDisplayName (Some u) False, rw_you = isYou, rw_host = isHost,
                rw_speaking = isSpeaking, rw_reaction = us_reaction s, rw_hand = isHandRaised,
                rw_sharing = isSharingScreen,
                rw_controls = (if showHostControls available isYou isHost hs
                               then Some (HostControlsMenu callID isMuted isSharingScreen isHandRaised isHost) else None),
                rw_video = truthy_bool (us_video s), rw_muted = isMuted\<rparr>))"

section \<open>The entry of the channel header\<close>

record dropdown_props =
  dd_show :: bool
  dd_inCall :: bool
  dd_hasCall :: bool
  dd_isAdmin :: bool
  dd_isCloudStarter :: bool
  dd_isLimitRestricted :: bool
  dd_maxParticipants :: int
  dd_isChannelArchived :: bool

definition dropdown_mapState :: "bool \<Rightarrow> global_state \<Rightarrow> dropdown_props" where
  "dropdown_mapState cloudStarter gs =
     (let chan = obj_get (mm_channels (gs_mm gs)) (mm_currentChannelID (gs_mm gs))
      in \<lparr>dd_show = callsShowButton gs (map_option chn_id chan),
          dd_inCall = (channelIDForCurrentCall gs \<noteq> [] \<and> Some (channelIDForCurrentCall gs) = map_option chn_id chan),
          dd_hasCall = currentChannelHasCall gs, dd_isAdmin = mm_isCurrentUserSystemAdmin (gs_mm gs),
          dd_isCloudStarter = cloudStarter, dd_isLimitRestricted = isLimitRestricted gs,
          dd_maxParticipants = maxParticipants gs,
          dd_isChannelArchived = (case chan of None \<Rightarrow> False | Some c \<Rightarrow> chn_delete_at c > 0)\<rparr>)"

definition ChannelHeaderDropdownButton :: "dropdown_props \<Rightarrow> header_button option" where
  "ChannelHeaderDropdownButton p =
     (if \<not> dd_show p then None
      else
        let restricted = (dd_isLimitRestricted p \<or> dd_isChannelArchived p);
            upsell = (dd_isLimitRestricted p \<and> dd_isCloudStarter p \<and> \<not> dd_inCall p)
        in Some \<lparr>
          hb_text = (if dd_hasCall p then ''Join call'' else ''Start call''),
          hb_disabledLook = (dd_inCall p \<or> restricted), hb_disabled = False, hb_upsell = upsell,
          hb_note = (if dd_isChannelArchived p then Some NoteArchived
                     else if upsell then Some NoteUpsell
                     else if dd_isLimitRestricted p \<and> \<not> dd_inCall p
                     then Some (NoteLimit (dd_maxParticipants p)
                            ((if dd_isCloudStarter p \<and> \<not> dd_isAdmin p then [''contact your admin''] else []) @
                             (if dd_isCloudStarter p \<and> dd_isAdmin p then [''upgrade''] else [])))
                     else None)\<rparr>)"

section \<open>Properties\<close>

lemma hide_reactions_fields [simp]:
  "rb_picker (hide_reactions s) = False" "rb_bar (hide_reactions s) = False"
  by (simp_all add: hide_reactions_def)

lemma reaction_step_keeps:
  "rb_picker (fst sc) \<longrightarrow> rb_bar (fst sc) \<Longrightarrow>
   rb_picker (fst (reaction_step known ev sc)) \<longrightarrow> rb_bar (fst (reaction_step known ev sc))"
  by (cases sc; cases ev)
    (auto simp: reaction_step_def toggleReactions_bar_def toggleShowPicker_bar_def handleUserPicksEmoji_def
      closeOnBlur_bar_def closeOnEscape_def Let_def)

text \<open>
  Whatever is pressed, clicked or typed, the emoji picker is shown only together with the bar that it
  belongs to; and picking an emoji, a click elsewhere or the escape key leave neither.\<close>
theorem picker_only_with_bar:
  "(rb_picker (fst (fold (reaction_step known) evs (reaction_mounted, c))) \<longrightarrow>
      rb_bar (fst (fold (reaction_step known) evs (reaction_mounted, c)))) \<and>
   (\<forall>ev \<in> {RClick False, RKeyUp ''Escape''}.
      fst (fold (reaction_step known) (evs @ [ev]) (reaction_mounted, c)) = reaction_mounted)"
proof -
  have keep: "rb_picker (fst (fold (reaction_step known) evs sc)) \<longrightarrow> rb_bar (fst (fold (reaction_step known) evs sc))"
    if "rb_picker (fst sc) \<longrightarrow> rb_bar (fst sc)" for sc
    using that
  proof (induction evs arbitrary: sc)
    case (Cons ev evs)
    show ?case using Cons.IH [OF reaction_step_keeps [OF Cons.prems, of known ev]] by simp
  qed simp
  then show ?thesis
    by (auto simp: reaction_mounted_def reaction_step_def closeOnBlur_bar_def closeOnEscape_def hide_reactions_def
        split: prod.splits)
qed

theorem picker_only_with_bar_witness:
  "fst (fold (reaction_step (\<lambda>_. True)) ([RToggle, RPicker] @ [RClick False]) (reaction_mounted, None)) = reaction_mounted"
  using picker_only_with_bar [of "\<lambda>_. True" "[RToggle, RPicker]" None] by simp

lemma find_known: "find P xs = Some x \<Longrightarrow> P x \<and> x \<in> set xs"
  by (auto simp: find_Some_iff)

text \<open>
  The name sent with a reaction is one that the table of emojis knows, among the names of the picked
  emoji with spaces as they are, as underscores or as hyphens, and it is empty only if none of these is
  known.\<close>
theorem emoji_name_known:
  "let name = findEmojiName known names; variants = set (name_variants names)
   in ((\<exists>n\<in>variants. known n) \<longrightarrow> known name \<and> name \<in> variants) \<and>
      ((\<forall>n\<in>variants. \<not> known n) \<longrightarrow> name = [])"
proof (cases "find known (name_variants names)")
  case None
  then have "findEmojiName known names = []" "\<forall>n\<in>set (name_variants names). \<not> known n"
    by (simp_all add: findEmojiName_def str_of_def) (simp add: find_None_iff)
  then show ?thesis by auto
next
  case (Some n)
  with find_known [OF Some] show ?thesis by (auto simp: findEmojiName_def str_of_def)
qed

theorem emoji_name_known_witness:
  "findEmojiName (\<lambda>n. n = ''thumbs_up'') [''thumbs up''] = ''thumbs_up''"
  using emoji_name_known [of "\<lambda>n. n = ''thumbs_up''" "[''thumbs up'']"]
  by (simp add: name_variants_def replace_char_def Let_def)

lemma banner_outer:
  "bn_outer (banner_step p ev s) = (if ev = BannerAnimated then bn_outer (onAnimationEnd p s) else bn_outer s)"
  by (cases ev) (simp_all add: banner_step_def)

lemma banner_press:
  "\<not> list_ex (\<lambda>ev. ev = BannerAnimated) evs \<Longrightarrow> bn_outer (fold (banner_step p) evs s) = bn_outer s"
  by (induction evs arbitrary: s) (auto simp: banner_outer)

text \<open>
  A banner of the widget acts only when its fading has ended: until then no handler has run, whatever was
  pressed; the end of the fading in runs none; and the press of one button, when the fading out has
  ended, has run the handler of that button and no other.\<close>
theorem banner_acts_when_faded:
  assumes "pb_onLeft p = Some left" "pb_leftText p \<noteq> []"
  shows "bn_outer (fold (banner_step p) [BannerAnimated, BannerLeft] (banner_mounted e)) = e \<and>
    bn_outer (fold (banner_step p) [BannerAnimated, BannerLeft, BannerAnimated] (banner_mounted e)) = left e"
  using assms
  by (simp add: banner_step_def WidgetBanner_def onAnimationEnd_def banner_mounted_def run_if_def Let_def
      split: option.split)

text \<open>
  Two answers given while the banner fades both take effect: to cancel the removal of a participant and
  then to confirm it, or the other way round, runs the removal first and the cancelling after it.\<close>
theorem both_answers_run:
  assumes "evs \<in> {[BannerRight, BannerLeft, BannerAnimated], [BannerLeft, BannerRight, BannerAnimated]}"
  shows "bn_outer (fold (banner_step (WidgetRemoveConfirmation onConfirm onCancel)) evs (banner_mounted e)) =
    onCancel (onConfirm e)"
  using assms
  by (auto simp: banner_step_def WidgetBanner_def onAnimationEnd_def banner_mounted_def run_if_def
      WidgetRemoveConfirmation_def)

theorem both_answers_run_witness:
  "bn_outer (fold (banner_step (WidgetRemoveConfirmation (\<lambda>log. log @ [''remove'']) (\<lambda>log. log @ [''close''])))
     [BannerRight, BannerLeft, BannerAnimated] (banner_mounted [])) = [''remove'', ''close'']"
  using both_answers_run [of "[BannerRight, BannerLeft, BannerAnimated]"
      "\<lambda>log. log @ [''remove'']" "\<lambda>log. log @ [''close'']" "[]"] by simp

text \<open>The two lists of participants show the same of a participant, given the same flags.\<close>

lemma lists_show_the_same:
  "CallParticipantRHS available hs s profile isYou isHost sharing callID =
   participant_row (\<lambda>hs isYou isHost. showHostControls available isYou isHost hs) hs s profile isYou isHost sharing callID"
  by (simp add: CallParticipantRHS_def participant_row_def Let_def split: option.split)

text \<open>
  The two entries of the channel header for calls agree on their text, their look and their note in a
  channel whose calls are allowed, of which the other user is not deactivated, while the client is not
  connecting and the server has no paid cloud licence.\<close>
theorem header_entries_agree:
  assumes "obj_get (mm_channels (gs_mm gs)) (mm_currentChannelID (gs_mm gs)) = Some chan" "chn_id chan \<noteq> []"
    and "areGroupCallsAllowed gs \<or> isDMChannel (Some chan)" "\<not> rs_clientConnecting (gs_plugin gs)"
  shows "map_option (\<lambda>b. (hb_text b, hb_disabledLook b, hb_upsell b, hb_note b))
      (ChannelHeaderDropdownButton (dropdown_mapState cloudStarter gs)) =
    map_option (\<lambda>b. (hb_text b, hb_disabledLook b, hb_upsell b, hb_note b))
      (ChannelHeaderButton joining False cloudStarter False gs)"
  using assms
  by (auto simp: ChannelHeaderDropdownButton_def dropdown_mapState_def ChannelHeaderButton_def Let_def
      callsShowButton_def)

text \<open>
  In a channel whose calls are not allowed the button is not shown, but the entry of the drop-down is,
  unless calls are switched off there.\<close>
theorem dropdown_ignores_group_calls:
  assumes "obj_get (mm_channels (gs_mm gs)) (mm_currentChannelID (gs_mm gs)) = Some chan"
    and "\<not> areGroupCallsAllowed gs" "\<not> isDMChannel (Some chan)" "callsShowButton gs (Some (chn_id chan))"
  shows "ChannelHeaderButton joining deactivated cloudStarter isCloudPaid gs = None \<and>
    ChannelHeaderDropdownButton (dropdown_mapState cloudStarter gs) \<noteq> None"
  using assms
  by (simp add: ChannelHeaderDropdownButton_def dropdown_mapState_def ChannelHeaderButton_def Let_def)

end
