(* ===== verification/Posts.thy ===== *)
theory Posts imports Dialogs IncomingViews StandaloneTheme "HOL-Library.Sublist" begin

text \<open>
  Posts about trials, recordings and transcriptions (\<open>components/custom_post_types\<close>,
  \<open>components/recordings_file_preview.tsx\<close>), and how participants are summed up: the label of a channel's link
  (\<open>components/channel_link_label\<close>), the pictures of those on a call
  (\<open>components/connected_profiles.tsx\<close>, \<open>components/avatar/avatar.tsx\<close>), the text of the channel's menu.
  Lists of names and plurals are put together by the library for translations; they stay lists and
  numbers here.
\<close>

section \<open>A request for a trial\<close>

text \<open>\<open>text.split(sep)[0]\<close>\<close>

definition before :: "string \<Rightarrow> string \<Rightarrow> string" where
  "before sep s = (case indexOf sep s of None \<Rightarrow> s | Some n \<Rightarrow> take n s)"

text \<open>\<open>replace(/---/g, '')\<close>\<close>

fun drop_rules :: "string \<Rightarrow> string" where
  "drop_rules (a # b # c # s) =
     (if a = CHR ''-'' \<and> b = CHR ''-'' \<and> c = CHR ''-'' then drop_rules s else a # drop_rules (b # c # s))"
| "drop_rules s = s"

definition trial_text :: "string \<Rightarrow> string" where
  "trial_text s = drop_rules (before ''[Upgrade now]'' s)"

text \<open>\<open>post.props.attachments[0]\<close>\<close>

definition first_attachment :: "json option \<Rightarrow> error + json option" where
  "first_attachment props =
     (case json_field ''attachments'' props of
        None \<Rightarrow> Inl (TypeError ''0'')
      | Some JNull \<Rightarrow> Inl (TypeError ''0'')
      | Some (JArr xs) \<Rightarrow> Inr (case xs of [] \<Rightarrow> None | x # _ \<Rightarrow> Some x)
      | Some (JStr s) \<Rightarrow> Inr (case s of [] \<Rightarrow> None | c # _ \<Rightarrow> Some (JStr [c]))
      | Some (JObj m) \<Rightarrow> Inr (obj_get m ''0'')
      | Some v \<Rightarrow> Inr None)"

record trial_post =
  tp_message :: string
  tp_title :: "string option"
  tp_text :: string

definition PostTypeCloudTrialRequest :: "global_state \<Rightarrow> string \<Rightarrow> json option \<Rightarrow> error + trial_post option" where
  "PostTypeCloudTrialRequest gs message props =
     (case first_attachment props of
        Inl err \<Rightarrow> Inl err
      | Inr att \<Rightarrow>
          if \<not> isCloud gs then Inr None
          else (case att of
             None \<Rightarrow> Inl (TypeError ''text'')
           | Some v \<Rightarrow>
               (case str_field ''text'' (Some v) of
                  None \<Rightarrow> Inl (TypeError ''split'')
                | Some s \<Rightarrow> Inr (Some \<lparr>tp_message = message, tp_title = str_field ''title'' (Some v),
                    tp_text = trial_text s\<rparr>))))"

text \<open>Its two buttons.\<close>

definition trial_post_press :: "bool \<Rightarrow> global_state \<Rightarrow> trial_log \<Rightarrow> trial_log" where
  "trial_post_press upgrade gs log =
     (if upgrade then displayCloudPricing gs log else log @ [TOpen ''https://mattermost.com/pricing-cloud''])"

section \<open>Recordings and transcriptions\<close>

definition PostTypeRecording :: "global_state \<Rightarrow> string" where
  "PostTypeRecording gs =
     (if transcriptionsEnabled gs
      then ''Here's the call recording. Transcription is processing and will be posted when ready.''
      else ''Here's the call recording'')"

text \<open>
  The button for a summary is there if the plugin that makes summaries is, with its function, which gets the
  id and the message of the post.
\<close>

definition PostTypeTranscription ::
  "bool \<Rightarrow> (string \<times> string \<Rightarrow> 'e \<Rightarrow> 'e) option \<Rightarrow> string \<times> string \<Rightarrow> string \<times> ('e \<Rightarrow> 'e) option" where
  "PostTypeTranscription aiAvailable clicked p =
     (snd p, if aiAvailable then map_option (\<lambda>f. f p) clicked else None)"

record caption_track =
  ct_label :: "string option"
  ct_lang :: "string option"
  ct_src :: string
  ct_default :: bool

text \<open>The subtitles of a recording; \<open>url\<close> makes the address of a file. A caption may be missing (null).\<close>

definition caption_track_of :: "(string option \<Rightarrow> string) \<Rightarrow> nat \<times> json \<Rightarrow> error + caption_track" where
  "caption_track_of url ic =
     (case ic of (idx, caption) \<Rightarrow>
        if caption = JNull then Inl (TypeError ''title'')
        else Inr \<lparr>ct_label = str_field ''title'' (Some caption), ct_lang = str_field ''language'' (Some caption),
               ct_src = url (str_field ''file_id'' (Some caption)), ct_default = (idx = 0)\<rparr>)"

record recording_preview =
  rp_src :: string
  rp_type :: string
  rp_tracks :: "caption_track list"

definition RecordingsFilePreview ::
  "(string option \<Rightarrow> int \<Rightarrow> string) \<Rightarrow> int \<Rightarrow> string \<times> string \<Rightarrow> json option \<Rightarrow> error + recording_preview" where
  "RecordingsFilePreview getFileUrl now file props =
     (case each_drawn (caption_track_of (\<lambda>i. getFileUrl i now))
             (enumerate 0 (cr_captions (getCallRecordingPropsFromPost props))) of
        Inl err \<Rightarrow> Inl err
      | Inr tracks \<Rightarrow> Inr \<lparr>rp_src = getFileUrl (Some (fst file)) now, rp_type = snd file, rp_tracks = tracks\<rparr>)"

section \<open>Those on a call\<close>

record avatar_props =
  ap_size :: "int option"
  ap_fontSize :: "int option"
  ap_url :: "string option"
  ap_username :: string
  ap_text :: string
  ap_icon :: string
  ap_border :: "bool option"
  ap_glowWidth :: int

datatype avatar_body = AvatarText string | AvatarIcon string | AvatarPicture "string option" string

record avatar_view =
  avt_body :: avatar_body
  avt_size :: int
  avt_fontSize :: int
  avt_border :: bool
  avt_glow :: bool
  avt_overlap :: int \<comment> \<open>in hundredths of a pixel, for all but the first\<close>

definition or_int :: "int option \<Rightarrow> int \<Rightarrow> int" where
  "or_int a b = (case a of None \<Rightarrow> b | Some n \<Rightarrow> n)"

definition Avatar :: "avatar_props \<Rightarrow> avatar_view" where
  "Avatar p =
     \<lparr>avt_body = (if ap_text p \<noteq> [] then AvatarText (ap_text p)
                 else if ap_icon p \<noteq> [] then AvatarIcon (ap_icon p)
                 else AvatarPicture (ap_url p) (str_or (ap_username p) ''user'' @ '' profile image'')),
      avt_size = or_int (ap_size p) 32, avt_fontSize = or_int (ap_fontSize p) 12,
      avt_border = (ap_border p \<noteq> Some False \<and> ap_glowWidth p = 0), avt_glow = (ap_glowWidth p > 0),
      avt_overlap = or_int (ap_size p) 32 * 25\<rparr>"

definition plain_avatar :: avatar_props where
  "plain_avatar = \<lparr>ap_size = None, ap_fontSize = None, ap_url = None, ap_username = [], ap_text = [],
     ap_icon = [], ap_border = None, ap_glowWidth = 0\<rparr>"

text \<open>A picture has a key, the names in its tooltip, and an avatar. \<open>url\<close>: of the picture of a profile.\<close>

record connected =
  cn_key :: string
  cn_names :: "string list"
  cn_avatar :: avatar_view

definition ConnectedProfiles ::
  "(user_profile \<Rightarrow> string) \<Rightarrow> user_profile list \<Rightarrow> nat \<Rightarrow> int \<Rightarrow> int \<Rightarrow> bool \<Rightarrow> connected list" where
  "ConnectedProfiles url profiles maxShowed sz fontSize border =
     (case split_list_at profiles (if maxShowed = 0 then 2 else maxShowed) False of (showed, overflowed) \<Rightarrow>
        map (\<lambda>u. \<lparr>cn_key = ''call_thread_profile_'' @ up_id u, cn_names = [getUserDisplayName (Some u) False],
               cn_avatar = Avatar (plain_avatar\<lparr>ap_size := Some sz, ap_fontSize := Some fontSize,
                 ap_url := Some (url u), ap_border := Some border\<rparr>)\<rparr>) showed @
        (case overflowed of
           None \<Rightarrow> []
         | Some us \<Rightarrow> [\<lparr>cn_key = ''call_thread_more_profiles'',
               cn_names = map (\<lambda>u. getUserDisplayName (Some u) False) us,
               cn_avatar = Avatar (plain_avatar\<lparr>ap_size := Some sz, ap_text := ''+'' @ show_nat (length us),
                 ap_border := Some border\<rparr>)\<rparr>]))"

definition MAX_CHANNEL_LINK_TOOLTIP_NAMES :: nat where "MAX_CHANNEL_LINK_TOOLTIP_NAMES = 8"

record link_label =
  ll_names :: "string list"
  ll_others :: "nat option"
  ll_count :: nat

definition link_label_props :: "global_state \<Rightarrow> string \<Rightarrow> bool \<times> user_profile list" where
  "link_label_props gs channelID = (obj_get (calls_sel gs) channelID \<noteq> None, profilesInCallInChannel gs channelID)"

definition ChannelLinkLabel :: "bool \<times> user_profile list \<Rightarrow> link_label option" where
  "ChannelLinkLabel p =
     (case p of (hasCall, profiles) \<Rightarrow>
        if \<not> hasCall then None
        else (case split_list_at profiles MAX_CHANNEL_LINK_TOOLTIP_NAMES False of (showed, overflowed) \<Rightarrow>
          Some \<lparr>ll_names = map (\<lambda>u. getUserDisplayName (Some u) False) showed,
            ll_others = map_option length overflowed, ll_count = length profiles\<rparr>))"

definition ChannelHeaderMenuButton :: "bool \<Rightarrow> string" where
  "ChannelHeaderMenuButton enabled = (if enabled then ''Disable calls'' else ''Enable calls'')"

section \<open>Properties\<close>

lemma indexOf_occurs: "indexOf p (a @ p @ b) \<noteq> None"
proof (induction a)
  case Nil
  show ?case
  proof (cases "p @ b")
    case (Cons c l)
    then have "take (length p) (c # l) = p" by (metis append_eq_conv_conj)
    with Cons show ?thesis by simp
  qed simp
next
  case (Cons c a)
  then show ?case by auto
qed

lemma indexOf_found: "indexOf p s = Some n \<Longrightarrow> \<exists>b. s = take n s @ p @ b"
proof (induction s arbitrary: n)
  case (Cons c s)
  show ?case
  proof (cases "take (length p) (c # s) = p")
    case True
    with Cons.prems have "n = 0" by simp
    with True show ?thesis by (metis append_Nil append_take_drop_id take0)
  next
    case False
    with Cons.prems obtain m where m: "indexOf p s = Some m" "n = Suc m" by auto
    with Cons.IH [OF m(1)] show ?thesis by auto
  qed
qed (auto split: if_splits)

lemma includes_iff: "str_includes s p \<longleftrightarrow> sublist p s"
  using indexOf_occurs indexOf_found by (fastforce simp: str_includes_def sublist_def)

lemma drop_rules_other: "c \<noteq> CHR ''-'' \<Longrightarrow> drop_rules (c # s) = c # drop_rules s"
  by (cases s rule: drop_rules.cases) (auto split: list.split)

lemma drop_rules_clean: "\<not> sublist ''---'' (drop_rules s)"
proof (induction s rule: drop_rules.induct)
  case (1 a b c s)
  show ?case
  proof (cases "a = CHR ''-'' \<and> b = CHR ''-'' \<and> c = CHR ''-''")
    case False
    have "\<not> prefix ''---'' (a # drop_rules (b # c # s))"
    proof (cases "a = CHR ''-'' \<and> b = CHR ''-''")
      case True
      with False have "c \<noteq> CHR ''-''" by simp
      with True show ?thesis by (cases s) (auto simp: drop_rules_other)
    next
      case other: False
      then show ?thesis by (auto simp: drop_rules_other)
    qed
    with 1 False show ?thesis by (auto simp: sublist_Cons_right)
  qed (use 1 in auto)
qed (auto simp: sublist_Cons_right)

lemma drop_rules_subseq: "subseq (drop_rules s) s"
  by (induction s rule: drop_rules.induct) (auto intro: list_emb_Cons)

lemma drop_rules_same: "\<not> sublist ''---'' s \<Longrightarrow> drop_rules s = s"
  by (induction s rule: drop_rules.induct) (auto simp: sublist_Cons_right)

lemma before_prefix: "prefix (before sep s) s"
  by (auto simp: before_def take_is_prefix split: option.split)

text \<open>
  The text of a request for a trial has no rule of three dashes; it is what was sent up to the link that stands
  for the buttons, with characters left out only, and none if there was no rule.\<close>
theorem trial_text_clean:
  "\<not> sublist ''---'' (trial_text s) \<and> (\<exists>t. prefix t s \<and> subseq (trial_text s) t \<and>
     (sublist ''[Upgrade now]'' s \<or> t = s) \<and> (sublist ''---'' t \<or> trial_text s = t))"
proof -
  have "sublist ''[Upgrade now]'' s \<or> before ''[Upgrade now]'' s = s"
    using includes_iff [of s "''[Upgrade now]''"] by (cases "indexOf ''[Upgrade now]'' s") (auto simp: before_def str_includes_def)
  then show ?thesis
    using drop_rules_clean drop_rules_subseq drop_rules_same before_prefix unfolding trial_text_def by metis
qed

theorem trial_text_clean_witness:
  "trial_text ''Upgrade.---[Upgrade now](link)'' = ''Upgrade.'' \<and> \<not> sublist ''---'' (trial_text ''a-----b'')"
  using trial_text_clean [of "''a-----b''"] by (simp add: trial_text_def before_def)

lemma split_whole: "split_list_at xs n False = (ys, r) \<Longrightarrow>
  ys = take n xs \<and> (case r of None \<Rightarrow> length xs \<le> n | Some zs \<Rightarrow> zs = drop n xs \<and> n < length xs)"
  by (auto simp: split_list_at_def split: if_splits)

text \<open>
  The row of pictures names every participant exactly once and in order, in at most one element more than it
  was asked for, two if it was asked for none; the last element counts those that have no picture of their own.\<close>
theorem connected_names_all:
  "let els = ConnectedProfiles url profiles maxShowed sz fontSize border; m = (if maxShowed = 0 then 2 else maxShowed)
   in concat (map cn_names els) = map (\<lambda>u. getUserDisplayName (Some u) False) profiles \<and>
      length els = min (length profiles) (m + 1) \<and>
      map (avt_body \<circ> cn_avatar) els =
        map (\<lambda>u. AvatarPicture (Some (url u)) ''user profile image'') (take m profiles) @
        (if length profiles > m then [AvatarText (''+'' @ show_nat (length profiles - m))] else [])"
proof -
  define m where "m = (if maxShowed = 0 then 2 else maxShowed)"
  obtain ys r where s: "split_list_at profiles m False = (ys, r)" by fastforce
  note w = split_whole [OF s]
  have names: "concat (map (\<lambda>u. [getUserDisplayName (Some u) False]) us) = map (\<lambda>u. getUserDisplayName (Some u) False) us"
    for us by (induction us) auto
  show ?thesis
  proof (cases r)
    case None
    with w s show ?thesis
      by (simp add: ConnectedProfiles_def Let_def names comp_def Avatar_def plain_avatar_def str_or_def
          flip: m_def)
  next
    case (Some zs)
    with w s show ?thesis
      by (simp add: ConnectedProfiles_def Let_def names comp_def Avatar_def plain_avatar_def str_or_def
          flip: m_def)
        (metis append_take_drop_id map_append)
  qed
qed

lemma each_drawn_fails: "each_drawn f xs = Inl err \<Longrightarrow> \<exists>x\<in>set xs. f x = Inl err"
  by (induction xs) (auto split: sum.splits)

text \<open>
  A recording has one track of subtitles for each caption, in order, of which the first alone is shown at
  once; if one of the captions is missing the player is not drawn at all.\<close>
theorem preview_has_all_captions:
  "let captions = cr_captions (getCallRecordingPropsFromPost props)
   in case RecordingsFilePreview getFileUrl now file props of
        Inl err \<Rightarrow> JNull \<in> set captions
      | Inr v \<Rightarrow> JNull \<notin> set captions \<and>
          map ct_src (rp_tracks v) = map (\<lambda>c. getFileUrl (str_field ''file_id'' (Some c)) now) captions \<and>
          list_all (\<lambda>(i, t). ct_default t = (i = 0)) (enumerate 0 (rp_tracks v))"
proof -
  let ?cs = "cr_captions (getCallRecordingPropsFromPost props)"
  let ?f = "caption_track_of (\<lambda>i. getFileUrl i now)"
  show ?thesis
  proof (cases "each_drawn ?f (enumerate 0 ?cs)")
    case (Inl err)
    from each_drawn_fails [OF Inl] obtain i c where "(i, c) \<in> set (enumerate 0 ?cs)" "?f (i, c) = Inl err" by auto
    then have "JNull \<in> set ?cs"
      by (auto simp: caption_track_of_def in_set_enumerate_eq split: if_splits dest: nth_mem)
    with Inl show ?thesis by (simp add: RecordingsFilePreview_def Let_def)
  next
    case (Inr ts)
    from each_drawn_result [OF Inr] have len: "length ts = length ?cs"
      and nth: "\<And>i. i < length ?cs \<Longrightarrow> ?f (i, ?cs ! i) = Inr (ts ! i)"
      by (auto simp: list_all2_conv_all_nth nth_enumerate_eq)
    have one: "?cs ! i \<noteq> JNull \<and> ct_src (ts ! i) = getFileUrl (str_field ''file_id'' (Some (?cs ! i))) now \<and>
        ct_default (ts ! i) = (i = 0)" if "i < length ?cs" for i
      using nth [OF that] by (cases "ts ! i") (auto simp: caption_track_of_def split: if_splits)
    then have "JNull \<notin> set ?cs" by (auto simp: in_set_conv_nth)
    moreover have "map ct_src ts = map (\<lambda>c. getFileUrl (str_field ''file_id'' (Some c)) now) ?cs"
      using one len by (intro nth_equalityI) simp_all
    moreover have "list_all (\<lambda>(i, t). ct_default t = (i = 0)) (enumerate 0 ts)"
      using one len by (auto simp: list_all_iff in_set_enumerate_eq)
    ultimately show ?thesis using Inr by (simp add: RecordingsFilePreview_def Let_def)
  qed
qed

end
