(* ===== verification/Lifecycle.thy ===== *)
theory Lifecycle imports Plugin begin

text \<open>
  The life of the plugin in the host application (\<open>webapp/src/index.tsx\<close>): what \<open>initialize\<close> registers
  and notes for its removal, what \<open>onActivate\<close> and the watch over the current channel register later, and
  what \<open>uninitialize\<close> takes back.

  Only what is registered to be taken back by the plugin itself is kept; routes, post types, settings and the
  handlers of websocket events belong to the host application, which drops them with the plugin. The
  registry and the browser give every registration a new number.
\<close>

datatype registered =
    KWidgetChannel \<comment> \<open>the broadcast channel of the desktop app\<close>
  | KLinkLabel
  | KMenuButton
  | KHeaderMenu \<comment> \<open>the entry that enables and disables calls\<close>
  | KDesktop string
  | KMessage
  | KActivate \<comment> \<open>the subscription to the store that waits for the login\<close>
  | KChannelWatch
  | KClick
  | KKeydown
  | KReconnect

datatype undo = UndoRoot | UndoRegistered nat | UndoMenuButton | UndoUnload

record lifecycle =
  lf_env :: env
  lf_root :: bool \<comment> \<open>the element that the widget is drawn in\<close>
  lf_held :: "(nat \<times> registered) list"
  lf_next :: nat
  lf_undo :: "undo list" \<comment> \<open>\<open>unsubscribers\<close>\<close>
  lf_menuButton :: "nat option" \<comment> \<open>\<open>channelHeaderMenuButtonID\<close>\<close>
  lf_headerMenu :: "nat option" \<comment> \<open>\<open>channelHeaderMenuID\<close>\<close>
  lf_activate :: nat \<comment> \<open>\<open>unsubscribeActivateListener\<close>\<close>
  lf_channel :: string \<comment> \<open>\<open>currChannelId\<close>\<close>
  lf_sections :: "string list" \<comment> \<open>of the user settings, as registered last\<close>

definition unloaded :: "env \<Rightarrow> lifecycle" where
  "unloaded e = \<lparr>lf_env = e, lf_root = False, lf_held = [], lf_next = 0, lf_undo = [], lf_menuButton = None,
     lf_headerMenu = None, lf_activate = 0, lf_channel = [], lf_sections = []\<rparr>"

definition register :: "registered \<Rightarrow> lifecycle \<Rightarrow> lifecycle" where
  "register k l = l\<lparr>lf_held := lf_held l @ [(lf_next l, k)], lf_next := Suc (lf_next l)\<rparr>"

definition unregister :: "nat \<Rightarrow> lifecycle \<Rightarrow> lifecycle" where
  "unregister i l = l\<lparr>lf_held := filter (\<lambda>(j, k). j \<noteq> i) (lf_held l)\<rparr>"

definition note_undo :: "undo \<Rightarrow> lifecycle \<Rightarrow> lifecycle" where
  "note_undo u l = l\<lparr>lf_undo := lf_undo l @ [u]\<rparr>"

definition register_undone :: "registered \<Rightarrow> lifecycle \<Rightarrow> lifecycle" where
  "register_undone k l = note_undo (UndoRegistered (lf_next l)) (register k l)"

section \<open>Initializing\<close>

definition desktop_listeners :: "string list" where
  "desktop_listeners = [''onOpenScreenShareModal'', ''onJoinCallRequest'', ''onCallsError'',
     ''onOpenThreadForCalls'', ''onOpenStopRecordingModal'', ''onOpenCallsUserSettings'']"

text \<open>The element of the widget is made unless the page has one; it is taken away in any case.\<close>

definition register_root :: "lifecycle \<Rightarrow> lifecycle" where
  "register_root l = note_undo UndoRoot (l\<lparr>lf_root := True\<rparr>)"

definition registerChannelHeaderMenuButton :: "lifecycle \<Rightarrow> lifecycle" where
  "registerChannelHeaderMenuButton l =
     (if lf_menuButton l \<noteq> None then l else register KMenuButton (l\<lparr>lf_menuButton := Some (lf_next l)\<rparr>))"

definition unregisterChannelHeaderMenuButton :: "lifecycle \<Rightarrow> lifecycle" where
  "unregisterChannelHeaderMenuButton l =
     (case lf_menuButton l of None \<Rightarrow> l | Some i \<Rightarrow> (unregister i l)\<lparr>lf_menuButton := None\<rparr>)"

definition register_desktop_hooks :: "(string \<Rightarrow> bool) \<Rightarrow> lifecycle \<Rightarrow> lifecycle" where
  "register_desktop_hooks api l = fold (\<lambda>name. register_undone (KDesktop name)) (filter api desktop_listeners) l"

definition subscribe_activate :: "lifecycle \<Rightarrow> lifecycle" where
  "subscribe_activate l = register KActivate (l\<lparr>lf_activate := lf_next l\<rparr>)"

text \<open>\<open>desktop\<close>: the window is one of the desktop app; \<open>api\<close>: the functions that it has.\<close>

definition initialize :: "bool \<Rightarrow> (string \<Rightarrow> bool) \<Rightarrow> lifecycle \<Rightarrow> lifecycle" where
  "initialize desktop api l0 =
     (let l1 = register_root l0;
          l2 = (if desktop then register_undone KWidgetChannel l1 else l1);
          l3 = register_undone KLinkLabel l2;
          l4 = l3\<lparr>lf_sections := [''Audio devices settings'', ''Screen sharing settings'']\<rparr>;
          l5 = registerChannelHeaderMenuButton (note_undo UndoMenuButton l4);
          l6 = register_undone KMessage (register_desktop_hooks api l5);
          l7 = note_undo UndoUnload (subscribe_activate l6);
          l8 = l7\<lparr>lf_channel := mm_currentChannelID (ev_mm (lf_env l7))\<rparr>
      in register_undone KKeydown (register_undone KChannelWatch (register_undone KClick l8)))"

section \<open>Afterwards\<close>

text \<open>A component without looks, once mounted, registers what is done when the websocket reconnects.\<close>

definition ws_component_mounted :: "lifecycle \<Rightarrow> lifecycle" where
  "ws_component_mounted = register_undone KReconnect"

definition unregister_header :: "lifecycle \<Rightarrow> lifecycle" where
  "unregister_header l = (case lf_headerMenu l of None \<Rightarrow> l | Some i \<Rightarrow> unregister i l)"

definition registerHeaderMenuComponentIfNeeded :: "string \<Rightarrow> lifecycle \<Rightarrow> lifecycle" where
  "registerHeaderMenuComponentIfNeeded ch l =
     (let l1 = unregister_header l
      in (case hasPermissionsToEnableCalls (getState (lf_env l1)) ch of
            Inr True \<Rightarrow> register KHeaderMenu (l1\<lparr>lf_headerMenu := Some (lf_next l1)\<rparr>)
          | Inr False \<Rightarrow> l1
          | Inl err \<Rightarrow> unregister_header l1))"

text \<open>\<open>onActivate\<close> up to its first \<open>await\<close>, and the rest, with the answers of the server.\<close>

definition onActivate :: "lifecycle \<Rightarrow> lifecycle" where
  "onActivate l = (if mm_currentUserID (ev_mm (lf_env l)) = [] then l else unregister (lf_activate l) l)"

definition settings_sections :: "env \<Rightarrow> string list" where
  "settings_sections e = [''Audio devices settings'', ''Screen sharing settings''] @
     (if EnableVideo (callsConfig_sel (getState e)) then [''Video devices settings''] else [])"

record activation =
  av_config :: "calls_config option"
  av_version :: "(string, string) obj option"
  av_overrides :: "(string, string) obj option"
  av_hasWs :: bool
  av_channels :: "error + channel_entry list"

definition onActivate_answered :: "host_window \<Rightarrow> activation \<Rightarrow> lifecycle \<Rightarrow> lifecycle" where
  "onActivate_answered h a l =
     (let e1 = activate_requests (av_config a) (av_version a) (av_overrides a) (lf_env l);
          e2 = activate_load h (av_hasWs a) (av_channels a) e1;
          l1 = l\<lparr>lf_sections := settings_sections e1, lf_env := e2\<rparr>;
          ch = mm_currentChannelID (ev_mm e2)
      in if isCallsPopOut (hw_page h) \<or> ch = [] then l1 else registerHeaderMenuComponentIfNeeded ch l1)"

definition holds :: "registered \<Rightarrow> lifecycle \<Rightarrow> bool" where
  "holds k l \<longleftrightarrow> k \<in> snd ` set (lf_held l)"

text \<open>The subscriptions to the store, in the order in which they were made.\<close>

definition channel_watched :: "lifecycle \<Rightarrow> lifecycle" where
  "channel_watched l =
     (let ch = mm_currentChannelID (ev_mm (lf_env l)); l1 = l\<lparr>lf_channel := ch\<rparr>
      in if lf_channel l = ch then l
         else if lf_channel l = [] then registerHeaderMenuComponentIfNeeded ch l1 else l1)"

definition store_changed :: "env \<Rightarrow> lifecycle \<Rightarrow> lifecycle" where
  "store_changed e l =
     (let l1 = l\<lparr>lf_env := e\<rparr>; l2 = (if holds KActivate l1 then onActivate l1 else l1)
      in if holds KChannelWatch l2 then channel_watched l2 else l2)"

definition reconnected :: "lifecycle \<Rightarrow> lifecycle" where
  "reconnected l = (if holds KReconnect l then onActivate (l\<lparr>lf_env := ws_reconnected (lf_env l)\<rparr>) else l)"

section \<open>Removing the plugin\<close>

definition run_undo :: "undo \<Rightarrow> lifecycle \<Rightarrow> lifecycle" where
  "run_undo u l =
     (case u of
        UndoRoot \<Rightarrow> l\<lparr>lf_root := False\<rparr>
      | UndoRegistered i \<Rightarrow> unregister i l
      | UndoMenuButton \<Rightarrow> unregisterChannelHeaderMenuButton l
      | UndoUnload \<Rightarrow> l\<lparr>lf_env := unload (lf_env l)\<rparr>)"

definition uninitialize :: "lifecycle \<Rightarrow> lifecycle" where
  "uninitialize l = (fold run_undo (lf_undo l) l)\<lparr>lf_undo := []\<rparr>"

section \<open>Runs\<close>

datatype life_event =
    StoreChanged env
  | WsMounted
  | Reconnected
  | ActivateAnswered activation

definition life_step :: "host_window \<Rightarrow> life_event \<Rightarrow> lifecycle \<Rightarrow> lifecycle" where
  "life_step h ev l =
     (case ev of
        StoreChanged e \<Rightarrow> store_changed e l
      | WsMounted \<Rightarrow> ws_component_mounted l
      | Reconnected \<Rightarrow> reconnected l
      | ActivateAnswered a \<Rightarrow> onActivate_answered h a l)"

inductive plugin_runs :: "host_window \<Rightarrow> bool \<Rightarrow> (string \<Rightarrow> bool) \<Rightarrow> lifecycle \<Rightarrow> bool"
  for h desktop api where
  started: "plugin_runs h desktop api (initialize desktop api (unloaded e))"
| stepped: "plugin_runs h desktop api l \<Longrightarrow> plugin_runs h desktop api (life_step h ev l)"

section \<open>What is held and what is noted\<close>

lemma register_fields [simp]:
  "lf_held (register k l) = lf_held l @ [(lf_next l, k)]" "lf_next (register k l) = Suc (lf_next l)"
  "lf_undo (register k l) = lf_undo l" "lf_menuButton (register k l) = lf_menuButton l"
  "lf_headerMenu (register k l) = lf_headerMenu l" "lf_activate (register k l) = lf_activate l"
  "lf_env (register k l) = lf_env l" "lf_root (register k l) = lf_root l"
  by (simp_all add: register_def)

lemma unregister_fields [simp]:
  "lf_held (unregister i l) = filter (\<lambda>(j, k). j \<noteq> i) (lf_held l)" "lf_next (unregister i l) = lf_next l"
  "lf_undo (unregister i l) = lf_undo l" "lf_menuButton (unregister i l) = lf_menuButton l"
  "lf_headerMenu (unregister i l) = lf_headerMenu l" "lf_activate (unregister i l) = lf_activate l"
  "lf_env (unregister i l) = lf_env l" "lf_root (unregister i l) = lf_root l"
  by (simp_all add: unregister_def)

lemma note_undo_fields [simp]:
  "lf_held (note_undo u l) = lf_held l" "lf_next (note_undo u l) = lf_next l"
  "lf_undo (note_undo u l) = lf_undo l @ [u]" "lf_menuButton (note_undo u l) = lf_menuButton l"
  "lf_headerMenu (note_undo u l) = lf_headerMenu l" "lf_activate (note_undo u l) = lf_activate l"
  "lf_env (note_undo u l) = lf_env l" "lf_root (note_undo u l) = lf_root l"
  by (simp_all add: note_undo_def)

text \<open>Each registration can be taken back by one note or one variable, and has its own number.\<close>

fun owned :: "lifecycle \<Rightarrow> nat \<times> registered \<Rightarrow> bool" where
  "owned l (i, KHeaderMenu) = (lf_headerMenu l = Some i)"
| "owned l (i, KActivate) = (lf_activate l = i)"
| "owned l (i, KMenuButton) = (lf_menuButton l = Some i)"
| "owned l (i, k) = (UndoRegistered i \<in> set (lf_undo l))"

definition tidy :: "lifecycle \<Rightarrow> bool" where
  "tidy l \<longleftrightarrow> distinct (map fst (lf_held l)) \<and> (\<forall>i\<in>fst ` set (lf_held l). i < lf_next l) \<and>
     (\<forall>x\<in>set (lf_held l). owned l x)"

definition noted :: "lifecycle \<Rightarrow> bool" where
  "noted l \<longleftrightarrow> {UndoRoot, UndoMenuButton} \<subseteq> set (lf_undo l) \<and> count_list (lf_undo l) UndoUnload = 1"

lemma owned_cong:
  "lf_headerMenu l' = lf_headerMenu l \<Longrightarrow> lf_activate l' = lf_activate l \<Longrightarrow> lf_menuButton l' = lf_menuButton l \<Longrightarrow>
   set (lf_undo l) \<subseteq> set (lf_undo l') \<Longrightarrow> owned l x \<Longrightarrow> owned l' x"
  by (cases "(l, x)" rule: owned.cases) auto

lemma tidy_frame:
  assumes "tidy l" "lf_held l' = lf_held l" "lf_next l' = lf_next l" "lf_headerMenu l' = lf_headerMenu l"
    "lf_activate l' = lf_activate l" "lf_menuButton l' = lf_menuButton l" "set (lf_undo l) \<subseteq> set (lf_undo l')"
  shows "tidy l'"
  using assms owned_cong [of l' l] by (auto simp: tidy_def)

lemma tidy_note [simp]: "tidy l \<Longrightarrow> tidy (note_undo u l)"
  by (rule tidy_frame) auto

lemma tidy_unregister [simp]: "tidy l \<Longrightarrow> tidy (unregister i l)"
  using owned_cong [of "unregister i l" l]
  by (auto simp: tidy_def distinct_map_filter)

text \<open>A new registration is tidy if it is owned; the others keep their owners.\<close>

lemma tidy_new:
  assumes "tidy l" "lf_held l' = lf_held l @ [(lf_next l, k)]" "lf_next l' = Suc (lf_next l)"
    and "owned l' (lf_next l, k)" "\<And>x. x \<in> set (lf_held l) \<Longrightarrow> owned l' x"
  shows "tidy l'"
  using assms by (auto simp: tidy_def less_Suc_eq)

lemma tidy_register_undone [simp]:
  assumes "tidy l" "k \<notin> {KHeaderMenu, KActivate, KMenuButton}"
  shows "tidy (register_undone k l)"
proof (rule tidy_new [OF assms(1)])
  show "owned (register_undone k l) (lf_next l, k)"
    using assms(2) by (cases k) (simp_all add: register_undone_def)
  show "owned (register_undone k l) x" if "x \<in> set (lf_held l)" for x
    using assms(1) that owned_cong [of "register_undone k l" l x] by (auto simp: tidy_def register_undone_def)
qed (simp_all add: register_undone_def)

lemma noted_note [simp]: "noted l \<Longrightarrow> u \<noteq> UndoUnload \<Longrightarrow> noted (note_undo u l)"
  by (simp add: noted_def)

lemma noted_frame: "noted l \<Longrightarrow> lf_undo l' = lf_undo l \<Longrightarrow> noted l'"
  by (simp add: noted_def)

lemma noted_register_undone [simp]: "noted l \<Longrightarrow> noted (register_undone k l)"
  by (simp add: noted_def register_undone_def)

lemma tidy_header [simp]:
  assumes "tidy l"
  shows "tidy (registerHeaderMenuComponentIfNeeded ch l)"
proof -
  let ?l1 = "unregister_header l"
  have t: "tidy ?l1" using assms by (simp add: unregister_header_def split: option.split)
  have gone: "k \<noteq> KHeaderMenu" if "(i, k) \<in> set (lf_held ?l1)" for i k
    using assms that by (auto simp: unregister_header_def tidy_def split: option.splits)
  have new: "tidy (register KHeaderMenu (?l1\<lparr>lf_headerMenu := Some (lf_next ?l1)\<rparr>))"
  proof (rule tidy_new [OF t])
    show "owned (register KHeaderMenu (?l1\<lparr>lf_headerMenu := Some (lf_next ?l1)\<rparr>)) (lf_next ?l1, KHeaderMenu)"
      unfolding owned.simps by simp
    show "owned (register KHeaderMenu (?l1\<lparr>lf_headerMenu := Some (lf_next ?l1)\<rparr>)) x" if x: "x \<in> set (lf_held ?l1)" for x
    proof -
      obtain i k where "x = (i, k)" by (cases x)
      with t x gone [of i k] show ?thesis by (cases k) (auto simp: tidy_def)
    qed
  qed simp_all
  have "tidy (unregister_header ?l1)" using t by (simp add: unregister_header_def split: option.split)
  with t new show ?thesis
    by (simp add: registerHeaderMenuComponentIfNeeded_def Let_def split: sum.split bool.split)
qed

lemma undo_header [simp]: "lf_undo (registerHeaderMenuComponentIfNeeded ch l) = lf_undo l"
  by (simp add: registerHeaderMenuComponentIfNeeded_def unregister_header_def Let_def
      split: sum.split bool.split option.split)

lemma tidy_env:
  assumes "tidy l" "lf_held l' = lf_held l" "lf_next l' = lf_next l" "lf_headerMenu l' = lf_headerMenu l"
    "lf_activate l' = lf_activate l" "lf_menuButton l' = lf_menuButton l" "lf_undo l' = lf_undo l"
  shows "tidy l'"
  using assms by (intro tidy_frame [OF assms(1)]) auto

lemma tidy_onActivate [simp]: "tidy l \<Longrightarrow> tidy (onActivate l)"
  by (simp add: onActivate_def)

lemma undo_onActivate [simp]: "lf_undo (onActivate l) = lf_undo l"
  by (simp add: onActivate_def)

lemma tidy_step:
  assumes "tidy l"
  shows "tidy (life_step h ev l)"
proof -
  have env: "tidy (l\<lparr>lf_env := e\<rparr>)" for e by (rule tidy_env [OF assms]) simp_all
  have act: "tidy (onActivate_answered h a l)" for a
    unfolding onActivate_answered_def Let_def
    by (simp split: if_splits) (intro conjI impI tidy_header; rule tidy_env [OF assms]; simp)
  have watch: "tidy (channel_watched l')" if "tidy l'" for l'
    using that unfolding channel_watched_def Let_def
    by (simp split: if_splits) (intro conjI impI tidy_header; rule tidy_env [OF that]; simp)
  show ?thesis
    using env act assms
    by (cases ev) (auto simp: life_step_def store_changed_def reconnected_def ws_component_mounted_def Let_def
        intro!: watch)
qed

lemma noted_step:
  assumes "noted l"
  shows "noted (life_step h ev l)"
proof -
  have "lf_undo (life_step h ev l) \<in> {lf_undo l, lf_undo l @ [UndoRegistered (lf_next l)]}"
    by (cases ev) (auto simp: life_step_def store_changed_def reconnected_def ws_component_mounted_def Let_def
        onActivate_answered_def channel_watched_def register_undone_def)
  with assms show ?thesis by (auto simp: noted_def)
qed

lemma register_undone_fields [simp]:
  "lf_held (register_undone k l) = lf_held l @ [(lf_next l, k)]" "lf_next (register_undone k l) = Suc (lf_next l)"
  "lf_undo (register_undone k l) = lf_undo l @ [UndoRegistered (lf_next l)]"
  "lf_menuButton (register_undone k l) = lf_menuButton l" "lf_headerMenu (register_undone k l) = lf_headerMenu l"
  "lf_activate (register_undone k l) = lf_activate l" "lf_env (register_undone k l) = lf_env l"
  "lf_root (register_undone k l) = lf_root l"
  by (simp_all add: register_undone_def)

lemma fold_register_undone:
  "tidy l \<Longrightarrow> tidy (fold (\<lambda>name. register_undone (KDesktop name)) names l)"
  "lf_menuButton (fold (\<lambda>name. register_undone (KDesktop name)) names l) = lf_menuButton l"
  "\<exists>us. lf_undo (fold (\<lambda>name. register_undone (KDesktop name)) names l) = lf_undo l @ us \<and> UndoUnload \<notin> set us"
  "KActivate \<in> snd ` set (lf_held (fold (\<lambda>name. register_undone (KDesktop name)) names l)) \<longleftrightarrow>
   KActivate \<in> snd ` set (lf_held l)"
proof (induction names arbitrary: l)
  case (Cons n names)
  { case 1 then show ?case using Cons(1) by simp }
  { case 2 then show ?case using Cons(2) by simp }
  { case 3
    obtain us where "lf_undo (fold (\<lambda>name. register_undone (KDesktop name)) names (register_undone (KDesktop n) l)) =
        lf_undo (register_undone (KDesktop n) l) @ us" "UndoUnload \<notin> set us"
      using Cons(3) by blast
    then show ?case by (intro exI [of _ "UndoRegistered (lf_next l) # us"]) simp }
  { case 4 then show ?case using Cons(4) by simp }
qed auto


lemma tidy_menu_button:
  assumes "tidy l" "lf_menuButton l = None"
  shows "tidy (registerChannelHeaderMenuButton l)"
proof -
  have none: "k \<noteq> KMenuButton" if "(i, k) \<in> set (lf_held l)" for i k
    using assms that by (auto simp: tidy_def)
  have "tidy (register KMenuButton (l\<lparr>lf_menuButton := Some (lf_next l)\<rparr>))"
  proof (rule tidy_new [OF assms(1)])
    show "owned (register KMenuButton (l\<lparr>lf_menuButton := Some (lf_next l)\<rparr>)) (lf_next l, KMenuButton)"
      unfolding owned.simps by simp
    show "owned (register KMenuButton (l\<lparr>lf_menuButton := Some (lf_next l)\<rparr>)) x" if x: "x \<in> set (lf_held l)" for x
    proof -
      obtain i k where "x = (i, k)" by (cases x)
      with assms(1) x none [of i k] show ?thesis by (cases k) (auto simp: tidy_def)
    qed
  qed simp_all
  with assms(2) show ?thesis by (simp add: registerChannelHeaderMenuButton_def)
qed

lemma tidy_subscribe:
  assumes "tidy l" "\<not> holds KActivate l"
  shows "tidy (subscribe_activate l)"
proof -
  have "tidy (register KActivate (l\<lparr>lf_activate := lf_next l\<rparr>))"
  proof (rule tidy_new [OF assms(1)])
    show "owned (register KActivate (l\<lparr>lf_activate := lf_next l\<rparr>)) (lf_next l, KActivate)"
      unfolding owned.simps by simp
    show "owned (register KActivate (l\<lparr>lf_activate := lf_next l\<rparr>)) x" if x: "x \<in> set (lf_held l)" for x
    proof -
      obtain i k where "x = (i, k)" by (cases x)
      with assms x show ?thesis by (cases k) (auto simp: tidy_def holds_def image_iff)
    qed
  qed simp_all
  then show ?thesis by (simp add: subscribe_activate_def)
qed

lemma initialize_tidy: "tidy (initialize desktop api (unloaded e)) \<and> noted (initialize desktop api (unloaded e))"
proof -
  let ?l1 = "register_root (unloaded e)"
  let ?l3 = "register_undone KLinkLabel (if desktop then register_undone KWidgetChannel ?l1 else ?l1)"
  let ?l4 = "?l3\<lparr>lf_sections := [''Audio devices settings'', ''Screen sharing settings'']\<rparr>"
  let ?l5 = "registerChannelHeaderMenuButton (note_undo UndoMenuButton ?l4)"
  let ?l6 = "register_undone KMessage (register_desktop_hooks api ?l5)"
  have "tidy ?l1" by (simp add: register_root_def unloaded_def tidy_def)
  then have "tidy ?l3" by (cases desktop) simp_all
  then have "tidy ?l4" by (rule tidy_env) simp_all
  then have t5: "tidy ?l5"
    by (intro tidy_menu_button) (simp_all add: register_root_def unloaded_def)
  have held5: "\<not> holds KActivate ?l5" and undo5: "{UndoRoot, UndoMenuButton} \<subseteq> set (lf_undo ?l5)" "UndoUnload \<notin> set (lf_undo ?l5)"
    by (simp_all add: holds_def registerChannelHeaderMenuButton_def register_root_def unloaded_def)
  obtain us where us: "lf_undo (register_desktop_hooks api ?l5) = lf_undo ?l5 @ us" "UndoUnload \<notin> set us"
    using fold_register_undone(3) unfolding register_desktop_hooks_def by blast
  have t6: "tidy ?l6" using t5 fold_register_undone(1) unfolding register_desktop_hooks_def by simp
  have held6: "\<not> holds KActivate ?l6"
    using held5 fold_register_undone(4) by (simp add: holds_def register_desktop_hooks_def)
  let ?l7 = "note_undo UndoUnload (subscribe_activate ?l6)"
  have t7: "tidy ?l7" using tidy_subscribe [OF t6 held6] by simp
  have n7: "noted ?l7"
    using us undo5 by (simp add: noted_def subscribe_activate_def)
  let ?l8 = "?l7\<lparr>lf_channel := mm_currentChannelID (ev_mm (lf_env ?l7))\<rparr>"
  have "tidy ?l8" by (rule tidy_env [OF t7]) simp_all
  moreover have "noted ?l8" by (rule noted_frame [OF n7]) simp
  ultimately show ?thesis by (simp add: initialize_def Let_def)
qed

lemma runs_tidy: "plugin_runs h desktop api l \<Longrightarrow> tidy l \<and> noted l"
  by (induction rule: plugin_runs.induct) (simp_all add: initialize_tidy tidy_step noted_step)

lemma run_undo_fields:
  "set (lf_held (run_undo u l)) = {x \<in> set (lf_held l). u \<noteq> UndoRegistered (fst x) \<and>
     \<not> (u = UndoMenuButton \<and> lf_menuButton l = Some (fst x))}"
  "lf_menuButton (run_undo u l) = (if u = UndoMenuButton then None else lf_menuButton l)"
  "lf_root (run_undo u l) = (lf_root l \<and> u \<noteq> UndoRoot)"
  "lf_env (run_undo u l) = (if u = UndoUnload then unload (lf_env l) else lf_env l)"
  by (auto simp: run_undo_def unregisterChannelHeaderMenuButton_def split: undo.splits option.splits)

lemma undo_held:
  "set (lf_held (fold run_undo us l)) =
     {x \<in> set (lf_held l). UndoRegistered (fst x) \<notin> set us \<and>
        \<not> (UndoMenuButton \<in> set us \<and> lf_menuButton l = Some (fst x))}"
  by (induction us arbitrary: l) (auto simp: run_undo_fields)

lemma undo_rest:
  "lf_root (fold run_undo us l) = (lf_root l \<and> UndoRoot \<notin> set us)"
  "lf_env (fold run_undo us l) = (unload ^^ count_list us UndoUnload) (lf_env l)"
  by (induction us arbitrary: l) (auto simp: run_undo_fields funpow_swap1)

section \<open>Properties\<close>

text \<open>
  C15. Removing the plugin, at any time of its life, takes back what it registered: no element of the page,
  no listener on the window, the document, the desktop app or the websocket is left, the call that the
  client is in is left once and the state reset. The entry of the channel's menu stays for the host application to
  drop; and so does the subscription that waits for a login which never came.\<close>
theorem nothing_left_behind:
  assumes "plugin_runs h desktop api l"
  shows "(\<forall>(i, k) \<in> set (lf_held (uninitialize l)). k = KHeaderMenu \<or> k = KActivate \<and> holds KActivate l) \<and>
    \<not> lf_root (uninitialize l) \<and> lf_undo (uninitialize l) = [] \<and> lf_env (uninitialize l) = unload (lf_env l)"
proof -
  from runs_tidy [OF assms] have t: "tidy l" and n: "noted l" by simp_all
  have "k = KHeaderMenu \<or> k = KActivate \<and> holds KActivate l" if x: "(i, k) \<in> set (lf_held (uninitialize l))" for i k
  proof -
    from x have x': "(i, k) \<in> set (lf_held l)" "UndoRegistered i \<notin> set (lf_undo l)" "lf_menuButton l \<noteq> Some i"
      using n by (auto simp: uninitialize_def undo_held noted_def)
    moreover have "owned l (i, k)" using t x'(1) by (auto simp: tidy_def)
    ultimately show ?thesis by (cases k) (force simp: holds_def)+
  qed
  with n show ?thesis by (auto simp: uninitialize_def undo_rest noted_def)
qed

text \<open>
  C29. The channel header has at most one button and one menu entry for calls, however often the plugin
  is activated, the websocket reconnects or channels are switched.\<close>
theorem one_entry_per_header:
  assumes "plugin_runs h desktop api l" "k \<in> {KHeaderMenu, KMenuButton, KActivate}"
  shows "length (filter (\<lambda>x. snd x = k) (lf_held l)) \<le> 1"
proof -
  from runs_tidy [OF assms(1)] have t: "tidy l" by simp
  have same: "i = j" if "(i, k) \<in> set (lf_held l)" "(j, k) \<in> set (lf_held l)" for i j
  proof -
    from t that have "owned l (i, k)" "owned l (j, k)" by (auto simp: tidy_def)
    with assms(2) show ?thesis by auto
  qed
  let ?ids = "map fst (filter (\<lambda>x. snd x = k) (lf_held l))"
  have "distinct ?ids" using t by (simp add: tidy_def distinct_map_filter)
  then have "length ?ids = card (set ?ids)" by (simp only: distinct_card)
  also have "\<dots> \<le> 1"
    using same by (auto simp: card_le_Suc0_iff_eq)
  finally show ?thesis by simp
qed

definition guest_env :: env where
  "guest_env = sample_env\<lparr>ev_mm := sample_mm\<lparr>mm_currentUserID := []\<rparr>\<rparr>"

theorem nothing_left_behind_witness:
  "\<not> lf_root (uninitialize (life_step (sample_window False) WsMounted
       (initialize False (\<lambda>_. False) (unloaded sample_env))))"
  using nothing_left_behind [OF plugin_runs.stepped [OF plugin_runs.started], of "sample_window False" WsMounted False "\<lambda>_. False"
      sample_env] by blast

theorem one_entry_per_header_witness:
  "length (filter (\<lambda>x. snd x = KMenuButton) (lf_held (initialize True (\<lambda>_. True) (unloaded sample_env)))) \<le> 1"
  using one_entry_per_header [OF plugin_runs.started, of KMenuButton True "\<lambda>_. True" sample_env] by blast

text \<open>Without a login the subscription outlives the plugin.\<close>

lemma waiting_outlives_plugin:
  "holds KActivate (uninitialize (initialize False (\<lambda>_. False) (unloaded guest_env)))"
  by (simp add: holds_def uninitialize_def run_undo_fields initialize_def Let_def register_root_def unloaded_def
      registerChannelHeaderMenuButton_def register_desktop_hooks_def subscribe_activate_def image_iff)

end
