(* ===== verification/Statistics.thy ===== *)
theory Statistics imports Utils begin

text \<open>
  The statistics of calls in the system console (\<open>webapp/src/stats.tsx\<close>, and the handler that
  \<open>index.tsx\<close> registers for them).

  The averages are whole numbers of seconds and participants, as the server sends them. The panel of
  durations shows minutes to two places: its value is kept in hundredths, and what the code computes with
  floating point division is rounded exactly. The keys of a dictionary are dates and channel types, which
  keep the order in which the server sent them.
\<close>

record calls_stats =
  st_total_calls :: int
  st_total_active_calls :: int
  st_total_active_sessions :: int
  st_calls_by_day :: "(string, int) obj"
  st_calls_by_month :: "(string, int) obj"
  st_calls_by_channel_type :: "(string, int) obj"
  st_avg_duration :: int
  st_avg_participants :: int
  st_recording_jobs_by_day :: "(string, int) obj"
  st_recording_jobs_by_month :: "(string, int) obj"

datatype panel_value =
    PCount int
  | PHundredths int
  | PLine "string list" "int list"
  | PDoughnut "string list" "int list"

record panel =
  pn_name :: string
  pn_icon :: "string option"
  pn_id :: string
  pn_value :: panel_value

text \<open>\<open>Math.round((x / 60) * 100)\<close>: halves go up.\<close>

definition minutes_hundredths :: "int \<Rightarrow> int" where
  "minutes_hundredths seconds = (10 * seconds + 3) div 6"

definition count_panel :: "string \<Rightarrow> string \<Rightarrow> string \<Rightarrow> panel_value \<Rightarrow> string \<times> panel" where
  "count_panel key name icon v = (key, \<lparr>pn_name = name, pn_icon = Some icon, pn_id = key, pn_value = v\<rparr>)"

definition line_panel :: "string \<Rightarrow> string \<Rightarrow> string \<Rightarrow> (string, int) obj \<Rightarrow> string \<times> panel" where
  "line_panel key name ident data =
     (key, \<lparr>pn_name = name, pn_icon = None, pn_id = ident, pn_value = PLine (obj_keys data) (obj_values data)\<rparr>)"

text \<open>\<open>channelLabelsMap\<close>: the message of each type of channel.\<close>

definition channelLabelsMap :: "(string, string) obj" where
  "channelLabelsMap = [(''D'', ''Direct''), (''G'', ''Group''), (''O'', ''Public''), (''P'', ''Private'')]"

text \<open>
  The label of a type: the translation of its message, or else the type. \<open>msg_id\<close>: the id that the build
  gives a message. A type without a message cannot be asked for its id.\<close>

definition type_label :: "(string \<Rightarrow> string) \<Rightarrow> (string \<Rightarrow> string option) \<Rightarrow> string \<Rightarrow> error + string" where
  "type_label msg_id transl t =
     (case obj_get channelLabelsMap t of
        None \<Rightarrow> Inl (TypeError ''id'')
      | Some msg \<Rightarrow> Inr (case transl (msg_id msg) of None \<Rightarrow> t | Some s \<Rightarrow> s))"

fun type_labels :: "(string \<Rightarrow> string) \<Rightarrow> (string \<Rightarrow> string option) \<Rightarrow> string list \<Rightarrow> error + string list" where
  "type_labels msg_id transl [] = Inr []"
| "type_labels msg_id transl (t # ts) =
     (case type_label msg_id transl t of
        Inl err \<Rightarrow> Inl err
      | Inr s \<Rightarrow> (case type_labels msg_id transl ts of Inl err \<Rightarrow> Inl err | Inr ss \<Rightarrow> Inr (s # ss)))"

definition counters :: "calls_stats \<Rightarrow> (string \<times> panel) list" where
  "counters d = [
     count_panel ''total_calls'' ''Total Calls'' ''fa-phone'' (PCount (st_total_calls d)),
     count_panel ''total_active_calls'' ''Total Active Calls'' ''fa-phone'' (PCount (st_total_active_calls d)),
     count_panel ''total_active_sessions'' ''Total Active Call Sessions'' ''fa-desktop'' (PCount (st_total_active_sessions d)),
     count_panel ''avg_call_duration'' ''Avg Call Duration (minutes)'' ''fa-clock'' (PHundredths (minutes_hundredths (st_avg_duration d))),
     count_panel ''avg_call_participants'' ''Avg Call Participants'' ''fa-users'' (PCount (st_avg_participants d))]"

definition recording_panels :: "calls_stats \<Rightarrow> (string \<times> panel) list" where
  "recording_panels d =
     (if list_ex (\<lambda>v. v > 0) (obj_values (st_recording_jobs_by_day d))
      then [line_panel ''recording_jobs_by_day'' ''Daily Call Recordings'' ''calls_recording_jobs_by_day'' (st_recording_jobs_by_day d),
            line_panel ''recording_jobs_by_month'' ''Monthly Call Recordings'' ''calls_recording_jobs_by_month'' (st_recording_jobs_by_month d)]
      else [])"

text \<open>\<open>charts\<close>: the server is of version 9.10 or later.\<close>

definition convertStatsToPanels ::
  "(string \<Rightarrow> string) \<Rightarrow> calls_stats \<Rightarrow> bool \<Rightarrow> (string \<Rightarrow> string option) \<Rightarrow> error + (string \<times> panel) list" where
  "convertStatsToPanels msg_id d charts transl =
     (if \<not> charts then Inr (counters d)
      else (case type_labels msg_id transl (obj_keys (st_calls_by_channel_type d)) of
              Inl err \<Rightarrow> Inl err
            | Inr labels \<Rightarrow> Inr (counters d @
                [line_panel ''calls_by_day'' ''Daily Calls'' ''calls_by_day'' (st_calls_by_day d),
                 line_panel ''calls_by_month'' ''Monthly Calls'' ''calls_by_month'' (st_calls_by_month d),
                 (''calls_by_channel_type'', \<lparr>pn_name = ''Calls by Channel Type'', pn_icon = None,
                    pn_id = ''calls_by_channel_type'',
                    pn_value = PDoughnut labels (obj_values (st_calls_by_channel_type d))\<rparr>)] @
                recording_panels d)))"

text \<open>The handler: nothing when the request or the conversion fails.\<close>

definition siteStatisticsHandler ::
  "(string \<Rightarrow> string) \<Rightarrow> error + calls_stats \<Rightarrow> bool \<Rightarrow> (string \<Rightarrow> string option) \<Rightarrow> (string \<times> panel) list" where
  "siteStatisticsHandler msg_id answer charts transl =
     (case answer of
        Inl err \<Rightarrow> []
      | Inr d \<Rightarrow> (case convertStatsToPanels msg_id d charts transl of Inl err \<Rightarrow> [] | Inr panels \<Rightarrow> panels))"

section \<open>Properties\<close>

text \<open>The average shown is the nearest hundredth of a minute: at most half of one away.\<close>

lemma average_rounded: "\<bar>60 * minutes_hundredths s - 100 * s\<bar> \<le> 30"
  unfolding minutes_hundredths_def by linarith

lemma type_labels_result:
  "(\<exists>ls. type_labels msg_id tr ts = Inr ls) \<longleftrightarrow> set ts \<subseteq> set (obj_keys channelLabelsMap)"
  by (induction ts)
    (auto simp: type_label_def obj_simps channelLabelsMap_def split: sum.splits option.splits if_splits)

lemma type_labels_length: "type_labels msg_id tr ts = Inr ls \<Longrightarrow> length ls = length ts"
  by (induction ts arbitrary: ls) (auto split: sum.splits)

lemma keys_values_length: "length (obj_keys xs) = length (obj_values xs)"
  by (simp add: obj_keys_def obj_values_def)

lemma panel_keys:
  "map fst (counters d) = [''total_calls'', ''total_active_calls'', ''total_active_sessions'',
     ''avg_call_duration'', ''avg_call_participants'']"
  "map fst (recording_panels d) \<in> {[], [''recording_jobs_by_day'', ''recording_jobs_by_month'']}"
  by (simp_all add: counters_def count_panel_def recording_panels_def line_panel_def)

text \<open>
  The console shows either the five counters, and on newer servers the charts, each once and each chart
  with as many points as labels; or nothing at all: that is the case exactly if the request failed, or on a newer
  server a call was in a channel of a type without a label, in spite of the type being the label to
  fall back to.\<close>
theorem statistics_or_nothing:
  "let panels = siteStatisticsHandler msg_id answer charts transl
   in (panels = [] \<longleftrightarrow> (\<forall>d. answer = Inr d \<longrightarrow>
         charts \<and> \<not> set (obj_keys (st_calls_by_channel_type d)) \<subseteq> set (obj_keys channelLabelsMap))) \<and>
      distinct (map fst panels) \<and>
      (\<forall>(key, p) \<in> set panels. \<forall>labels data. pn_value p \<in> {PLine labels data, PDoughnut labels data} \<longrightarrow>
         length labels = length data)"
proof (cases answer)
  case (Inl err)
  then show ?thesis by (simp add: siteStatisticsHandler_def)
next
  case (Inr d)
  let ?ts = "obj_keys (st_calls_by_channel_type d)"
  have counts: "\<forall>(key, p) \<in> set (counters d). \<forall>labels data. pn_value p \<notin> {PLine labels data, PDoughnut labels data}"
    by (auto simp: counters_def count_panel_def)
  show ?thesis
  proof (cases "charts \<and> \<not> set ?ts \<subseteq> set (obj_keys channelLabelsMap)")
    case True
    then obtain err where "type_labels msg_id transl ?ts = Inl err"
      using type_labels_result [of msg_id transl ?ts] by (cases "type_labels msg_id transl ?ts") auto
    with True Inr show ?thesis by (simp add: siteStatisticsHandler_def convertStatsToPanels_def)
  next
    case False
    show ?thesis
    proof (cases charts)
      case True
      with False obtain ls where "type_labels msg_id transl ?ts = Inr ls" "length ls = length ?ts"
        using type_labels_result [of msg_id transl ?ts] type_labels_length by blast
      with True False Inr counts keys_values_length panel_keys show ?thesis
        by (auto simp: siteStatisticsHandler_def convertStatsToPanels_def line_panel_def recording_panels_def
            counters_def count_panel_def)
    next
      case False
      with Inr counts panel_keys show ?thesis
        by (auto simp: siteStatisticsHandler_def convertStatsToPanels_def counters_def count_panel_def)
    qed
  qed
qed

definition one_call :: "string \<Rightarrow> calls_stats" where
  "one_call ty = \<lparr>st_total_calls = 1, st_total_active_calls = 0, st_total_active_sessions = 0, st_calls_by_day = [],
     st_calls_by_month = [], st_calls_by_channel_type = [(ty, 1)], st_avg_duration = 100, st_avg_participants = 2,
     st_recording_jobs_by_day = [], st_recording_jobs_by_month = []\<rparr>"

theorem statistics_or_nothing_witness:
  "siteStatisticsHandler id (Inr (one_call ''X'')) True (\<lambda>_. None) = [] \<and>
   siteStatisticsHandler id (Inr (one_call ''D'')) True (\<lambda>_. None) \<noteq> []"
  using statistics_or_nothing [of id "Inr (one_call ''X'')" True "\<lambda>_. None"]
    statistics_or_nothing [of id "Inr (one_call ''D'')" True "\<lambda>_. None"]
  by (simp add: Let_def one_call_def channelLabelsMap_def obj_simps)

end
