(* ===== verification/Segmenter.thy ===== *)
theory Segmenter imports Prelude "HOL-Library.Word" begin

text \<open>
  The blurring of a video's background: \<open>webapp/src/segmenter/index.ts\<close>, which hands the frames of a video to a
  worker, \<open>segmenter.worker.ts\<close>, which draws them on a canvas, and the preview of the user settings
  that uses both (\<open>VideoPreview\<close> of \<open>user_settings/video_devices_settings_section.tsx\<close>).

  The segmentation itself is the mediapipe library's: whether it loads and the mask that it gives for a
  frame are arguments. A canvas can hand its control to a worker once; doing so again raises an error.
  Frames and streams are numbered.
\<close>

section \<open>The worker\<close>

datatype worker_message =
    MCanvas nat nat \<comment> \<open>width and height\<close>
  | MFrame nat nat nat \<comment> \<open>the frame, width and height\<close>
  | MBlur int

record drawing =
  dr_blur :: int
  dr_frame :: nat
  dr_width :: nat
  dr_height :: nat

record worker =
  wk_loaded :: bool \<comment> \<open>is there a segmenter\<close>
  wk_loading :: "(nat \<times> nat) option"
  wk_output :: "(nat \<times> nat) option"
  wk_temp :: "(nat \<times> nat) option"
  wk_blurIntensity :: int
  wk_drawn :: "drawing list"

definition new_worker :: worker where
  "new_worker = \<lparr>wk_loaded = False, wk_loading = None, wk_output = None, wk_temp = None,
     wk_blurIntensity = 0, wk_drawn = []\<rparr>"

text \<open>
  A frame is drawn when the segmenter answers with a mask; \<open>masked\<close>: it does. Without a second canvas
  the handler fails after the first was resized.\<close>

definition worker_onmessage :: "bool \<Rightarrow> worker_message \<Rightarrow> worker \<Rightarrow> worker" where
  "worker_onmessage masked m w =
     (case m of
        MCanvas width height \<Rightarrow> w\<lparr>wk_loading := Some (width, height)\<rparr>
      | MFrame frame width height \<Rightarrow>
          if \<not> wk_loaded w then w
          else if wk_temp w = None then w\<lparr>wk_output := Some (width, height)\<rparr>
          else let w1 = w\<lparr>wk_output := Some (width, height), wk_temp := Some (width, height)\<rparr>
               in if masked
                  then w1\<lparr>wk_drawn := wk_drawn w1 @ [\<lparr>dr_blur = wk_blurIntensity w1, dr_frame = frame,
                            dr_width = width, dr_height = height\<rparr>]\<rparr>
                  else w1
      | MBlur intensity \<Rightarrow> w\<lparr>wk_blurIntensity := intensity\<rparr>)"

text \<open>The library has loaded, or not; and there is a second canvas to work on, of 640 by 480.\<close>

definition worker_initialized :: "bool \<Rightarrow> bool \<Rightarrow> worker \<Rightarrow> worker" where
  "worker_initialized loaded temp w =
     (case wk_loading w of
        None \<Rightarrow> w
      | Some dims \<Rightarrow> w\<lparr>wk_loading := None, wk_loaded := (wk_loaded w \<or> loaded), wk_output := Some dims,
                        wk_temp := (if temp then Some (640, 480) else wk_temp w)\<rparr>)"

text \<open>
  The pixels, four bytes each, and the mask, one value each, that says whether a pixel belongs to the
  background: those are made transparent. Bytes outside of the image are not written.
\<close>

definition clear_pixel :: "nat \<Rightarrow> 8 word list \<Rightarrow> 8 word list" where
  "clear_pixel j px = px[j := 0, j + 1 := 0, j + 2 := 0, j + 3 := 0]"

fun apply_mask_from :: "nat \<Rightarrow> bool list \<Rightarrow> 8 word list \<Rightarrow> 8 word list" where
  "apply_mask_from j [] px = px"
| "apply_mask_from j (b # bs) px = apply_mask_from (j + 4) bs (if b then clear_pixel j px else px)"

definition apply_mask :: "bool list \<Rightarrow> 8 word list \<Rightarrow> 8 word list" where
  "apply_mask = apply_mask_from 0"

section \<open>The segmenter\<close>

text \<open>
  What goes on in it: a callback is requested for the next frame, or the picture of a frame is awaited, or neither
  is the case any more.
\<close>

datatype frame_phase = Requested nat | Awaiting nat nat nat | Ended

record segmenter =
  sg_done :: bool
  sg_initialized :: bool
  sg_lastCallbackID :: nat
  sg_phase :: frame_phase
  sg_posted :: "worker_message list"
  sg_terminated :: bool

text \<open>The numbers of callbacks are the video element's.\<close>

definition new_segmenter :: "nat \<Rightarrow> segmenter" where
  "new_segmenter callback = \<lparr>sg_done = False, sg_initialized = False, sg_lastCallbackID = callback,
     sg_phase = Requested callback, sg_posted = [], sg_terminated = False\<rparr>"

definition post_message :: "worker_message \<Rightarrow> segmenter \<Rightarrow> segmenter" where
  "post_message m s = (if sg_terminated s then s else s\<lparr>sg_posted := sg_posted s @ [m]\<rparr>)"

text \<open>
  \<open>videoCb\<close> up to its \<open>await\<close>, with the frame at hand and whether the canvas has handed over its control
  already; and after it. A callback that fails requests no other.
\<close>

definition videoCb :: "nat \<Rightarrow> nat \<Rightarrow> nat \<Rightarrow> segmenter \<times> bool \<Rightarrow> segmenter \<times> bool" where
  "videoCb frame width height = (\<lambda>(s, transferred).
     case sg_phase s of
       Requested _ \<Rightarrow>
         if sg_done s then (s\<lparr>sg_phase := Ended\<rparr>, transferred)
         else if sg_initialized s then (s\<lparr>sg_phase := Awaiting frame width height\<rparr>, transferred)
         else if transferred then (s\<lparr>sg_phase := Ended\<rparr>, True)
         else ((post_message (MCanvas width height) s)\<lparr>sg_initialized := True,
                 sg_phase := Awaiting frame width height\<rparr>, True)
     | _ \<Rightarrow> (s, transferred))"

definition bitmap_created :: "bool \<Rightarrow> nat \<Rightarrow> segmenter \<Rightarrow> segmenter" where
  "bitmap_created ok next s =
     (case sg_phase s of
        Awaiting frame width height \<Rightarrow>
          (if ok then post_message (MFrame frame width height) s else s)
            \<lparr>sg_lastCallbackID := next, sg_phase := Requested next\<rparr>
      | _ \<Rightarrow> s)"

definition setBlurIntensity :: "int \<Rightarrow> segmenter \<Rightarrow> segmenter" where
  "setBlurIntensity intensity = post_message (MBlur intensity)"

definition segmenter_stop :: "segmenter \<Rightarrow> segmenter" where
  "segmenter_stop s =
     s\<lparr>sg_phase := (if sg_phase s = Requested (sg_lastCallbackID s) then Ended else sg_phase s),
       sg_terminated := True, sg_done := True\<rparr>"

section \<open>The preview\<close>

record preview_props =
  vp_stream :: "nat option"
  vp_blurBackground :: bool
  vp_blurIntensity :: int

text \<open>
  \<open>pv_canvas\<close>: the canvas element, if it is mounted, with whether its control was handed over.
  \<open>pv_stopped\<close>: the segmenters that were stopped.
\<close>

record preview =
  pv_props :: preview_props
  pv_canvas :: "bool option"
  pv_srcObject :: "nat option option"
  pv_segmenter :: "segmenter option"
  pv_stopped :: "segmenter list"

definition preview_cleanup :: "preview \<Rightarrow> preview" where
  "preview_cleanup v =
     (case pv_segmenter v of
        None \<Rightarrow> v
      | Some s \<Rightarrow> v\<lparr>pv_segmenter := None, pv_stopped := pv_stopped v @ [segmenter_stop s]\<rparr>)"

definition preview_start :: "nat \<Rightarrow> preview \<Rightarrow> preview" where
  "preview_start callback v =
     (let p = pv_props v
      in if vp_stream p \<noteq> None \<and> vp_blurBackground p \<and> pv_canvas v \<noteq> None
         then v\<lparr>pv_segmenter := Some (setBlurIntensity (vp_blurIntensity p) (new_segmenter callback))\<rparr> else v)"

text \<open>
  A commit: the elements are mounted or kept, then the effects run whose dependencies changed, after
  their cleanups. \<open>first\<close>: the component was mounted.
\<close>

definition preview_commit :: "bool \<Rightarrow> nat \<Rightarrow> preview_props \<Rightarrow> preview \<Rightarrow> preview" where
  "preview_commit first callback p v =
     (let old = pv_props v;
          shown = (vp_stream p \<noteq> None \<and> vp_blurBackground p);
          v1 = v\<lparr>pv_props := p, pv_canvas := (if shown then Some (case pv_canvas v of None \<Rightarrow> False | Some b \<Rightarrow> b) else None)\<rparr>;
          video = first \<or> vp_stream p \<noteq> vp_stream old;
          v2 = (if video \<or> vp_blurBackground p \<noteq> vp_blurBackground old then preview_cleanup v1 else v1);
          v3 = (if video \<or> vp_blurBackground p \<noteq> vp_blurBackground old then preview_start callback v2 else v2);
          v4 = (if vp_blurIntensity p \<noteq> vp_blurIntensity old \<or> vp_blurBackground p \<noteq> vp_blurBackground old \<or> first
                then (if vp_blurBackground p
                      then v3\<lparr>pv_segmenter := map_option (setBlurIntensity (vp_blurIntensity p)) (pv_segmenter v3)\<rparr> else v3)
                else v3)
      in if vp_stream p = None then v4\<lparr>pv_srcObject := None\<rparr> else v4\<lparr>pv_srcObject := Some (vp_stream p)\<rparr>)"

definition preview_mounted :: "nat \<Rightarrow> preview_props \<Rightarrow> preview" where
  "preview_mounted callback p = preview_commit True callback p
     \<lparr>pv_props = p, pv_canvas = None, pv_srcObject = None, pv_segmenter = None, pv_stopped = []\<rparr>"

definition preview_unmounted :: "preview \<Rightarrow> preview" where
  "preview_unmounted v = (preview_cleanup v)\<lparr>pv_canvas := None, pv_srcObject := None\<rparr>"

text \<open>A frame of the video, and the picture made of it, for the segmenter in use.\<close>

definition preview_frame :: "nat \<Rightarrow> nat \<Rightarrow> nat \<Rightarrow> preview \<Rightarrow> preview" where
  "preview_frame frame width height v =
     (case (pv_segmenter v, pv_canvas v) of
        (Some s, Some transferred) \<Rightarrow>
          (case videoCb frame width height (s, transferred) of
             (s', t) \<Rightarrow> v\<lparr>pv_segmenter := Some s', pv_canvas := Some t\<rparr>)
      | _ \<Rightarrow> v)"

definition preview_bitmap :: "bool \<Rightarrow> nat \<Rightarrow> preview \<Rightarrow> preview" where
  "preview_bitmap ok next v = v\<lparr>pv_segmenter := map_option (bitmap_created ok next) (pv_segmenter v)\<rparr>"

datatype preview_event =
    PRender nat preview_props
  | PFrame nat nat nat
  | PBitmap bool nat

definition preview_step :: "preview_event \<Rightarrow> preview \<Rightarrow> preview" where
  "preview_step ev v =
     (case ev of
        PRender callback p \<Rightarrow> preview_commit False callback p v
      | PFrame frame width height \<Rightarrow> preview_frame frame width height v
      | PBitmap ok next \<Rightarrow> preview_bitmap ok next v)"

section \<open>Properties\<close>

lemma clear_pixel_length [simp]: "length (clear_pixel j px) = length px"
  by (simp add: clear_pixel_def)

lemma clear_pixel_nth:
  "k < length px \<Longrightarrow> clear_pixel j px ! k = (if j \<le> k \<and> k < j + 4 then 0 else px ! k)"
proof -
  assume "k < length px"
  moreover have "j \<le> k \<and> k < j + 4 \<longleftrightarrow> k = j \<or> k = j + 1 \<or> k = j + 2 \<or> k = j + 3" by arith
  ultimately show ?thesis by (auto simp: clear_pixel_def nth_list_update)
qed

lemma apply_mask_from_length [simp]: "length (apply_mask_from j bs px) = length px"
  by (induction bs arbitrary: j px) simp_all

lemma apply_mask_from_nth:
  "k < length px \<Longrightarrow> apply_mask_from j bs px ! k =
     (if j \<le> k \<and> (k - j) div 4 < length bs \<and> bs ! ((k - j) div 4) then 0 else px ! k)"
proof (induction bs arbitrary: j px)
  case (Cons b bs)
  have "apply_mask_from j (b # bs) px ! k = (if j + 4 \<le> k \<and> (k - (j + 4)) div 4 < length bs \<and> bs ! ((k - (j + 4)) div 4) then 0
      else (if b then clear_pixel j px else px) ! k)"
    using Cons by simp
  moreover have "(k - j) div 4 = Suc ((k - (j + 4)) div 4)" if "j + 4 \<le> k"
    using that by presburger
  moreover have "(k - j) div 4 = 0" if "\<not> j + 4 \<le> k" using that by auto
  ultimately show ?case using Cons.prems by (auto simp: clear_pixel_nth)
qed simp

text \<open>
  Masking an image keeps its size; every byte of a pixel of the background becomes 0, and every other
  byte is what it was, also those beyond the mask.\<close>
theorem mask_clears_background:
  assumes "k < length px"
  shows "length (apply_mask bs px) = length px \<and>
    apply_mask bs px ! k = (if k div 4 < length bs \<and> bs ! (k div 4) then 0 else px ! k)"
  using assms by (simp add: apply_mask_def apply_mask_from_nth)

theorem mask_clears_background_witness:
  "apply_mask [False, True] [1, 2, 3, 4, 5, 6, 7, 8] ! 5 = (0 :: 8 word)"
  using mask_clears_background [of 5 "[1, 2, 3, 4, 5, 6, 7, 8]" "[False, True]"] by simp

lemma setBlur_fields [simp]:
  "sg_done (setBlurIntensity i s) = sg_done s" "sg_phase (setBlurIntensity i s) = sg_phase s"
  "sg_initialized (setBlurIntensity i s) = sg_initialized s" "sg_terminated (setBlurIntensity i s) = sg_terminated s"
  "sg_lastCallbackID (setBlurIntensity i s) = sg_lastCallbackID s"
  by (simp_all add: setBlurIntensity_def post_message_def)

lemma stop_fields [simp]:
  "sg_done (segmenter_stop s)" "sg_terminated (segmenter_stop s)" "sg_posted (segmenter_stop s) = sg_posted s"
  by (simp_all add: segmenter_stop_def)

text \<open>A stopped segmenter hands on nothing, whatever frames, pictures and settings still come in.\<close>

datatype segmenter_event = SFrame nat nat nat bool | SBitmap bool nat | SBlur int

definition segmenter_step :: "segmenter_event \<Rightarrow> segmenter \<Rightarrow> segmenter" where
  "segmenter_step ev s =
     (case ev of
        SFrame frame width height transferred \<Rightarrow> fst (videoCb frame width height (s, transferred))
      | SBitmap ok next \<Rightarrow> bitmap_created ok next s
      | SBlur i \<Rightarrow> setBlurIntensity i s)"

lemma stopped_step:
  assumes "sg_done s" "sg_terminated s"
  shows "sg_done (segmenter_step ev s)" "sg_terminated (segmenter_step ev s)"
    "sg_posted (segmenter_step ev s) = sg_posted s"
    "sg_phase (segmenter_step ev s) = Ended \<or> sg_phase (segmenter_step ev s) = sg_phase s \<or>
     (\<exists>f w h n. sg_phase s = Awaiting f w h \<and> sg_phase (segmenter_step ev s) = Requested n)"
  using assms
  by (auto simp: segmenter_step_def videoCb_def bitmap_created_def setBlurIntensity_def post_message_def
      split: segmenter_event.splits frame_phase.splits)

text \<open>
  Stopping a segmenter is final: whatever frames, pictures and settings still come in, it hands nothing
  more to the worker, and no callback is left once the picture that was awaited has come and one more
  frame after it.\<close>
theorem stop_is_final:
  "sg_posted (fold segmenter_step evs (segmenter_stop s)) = sg_posted s \<and>
   sg_phase (segmenter_step (SFrame f w h t) (segmenter_step (SBitmap ok n)
     (fold segmenter_step evs (segmenter_stop s)))) = Ended"
proof -
  have "sg_done (fold segmenter_step evs s') \<and> sg_terminated (fold segmenter_step evs s') \<and>
      sg_posted (fold segmenter_step evs s') = sg_posted s'"
    if "sg_done s'" "sg_terminated s'" for s'
    using that by (induction evs arbitrary: s') (simp_all add: stopped_step)
  from this [of "segmenter_stop s"] have "sg_done (fold segmenter_step evs (segmenter_stop s))"
    and "sg_posted (fold segmenter_step evs (segmenter_stop s)) = sg_posted s" by simp_all
  then show ?thesis
    by (auto simp: segmenter_step_def videoCb_def bitmap_created_def post_message_def split: frame_phase.splits)
qed

text \<open>
  How far a segmenter is, by whether its canvas has handed over its control: one that took the control itself has
  given the canvas to its worker and goes on for as long as it is not stopped; one before its first frame waits for
  it; and one whose canvas was taken by another before it ends at its first frame.\<close>

definition segmenter_fit :: "segmenter list \<Rightarrow> segmenter \<Rightarrow> bool \<Rightarrow> bool" where
  "segmenter_fit old s taken \<longleftrightarrow>
     (if sg_initialized s
      then taken \<and> sg_phase s \<noteq> Ended \<and> (\<exists>a b. MCanvas a b \<in> set (sg_posted s))
      else (\<forall>m\<in>set (sg_posted s). \<exists>i. m = MBlur i) \<and>
        (if taken
         then (\<exists>d\<in>set old. sg_initialized d) \<and> sg_phase s \<in> {Requested (sg_lastCallbackID s), Ended}
         else sg_phase s = Requested (sg_lastCallbackID s)))"

text \<open>
  In the preview: exactly one segmenter while there is something to blur, neither stopped nor with its worker ended,
  and as far as its canvas lets it; and those that were replaced are stopped.\<close>

definition preview_ok :: "preview \<Rightarrow> bool" where
  "preview_ok v \<longleftrightarrow>
     (pv_segmenter v \<noteq> None) = (vp_stream (pv_props v) \<noteq> None \<and> vp_blurBackground (pv_props v)) \<and>
     (pv_canvas v \<noteq> None) = (vp_stream (pv_props v) \<noteq> None \<and> vp_blurBackground (pv_props v)) \<and>
     (\<forall>s. pv_segmenter v = Some s \<longrightarrow> \<not> sg_done s \<and> \<not> sg_terminated s) \<and>
     (\<forall>s t. pv_segmenter v = Some s \<longrightarrow> pv_canvas v = Some t \<longrightarrow> segmenter_fit (pv_stopped v) s t) \<and>
     (\<forall>s\<in>set (pv_stopped v). sg_done s \<and> sg_terminated s)"

lemma new_running: "\<not> sg_done (new_segmenter n)" "\<not> sg_terminated (new_segmenter n)"
  by (simp_all add: new_segmenter_def)

lemma stop_initialized [simp]: "sg_initialized (segmenter_stop s) = sg_initialized s"
  by (simp add: segmenter_stop_def)

lemma new_fit: "(t \<Longrightarrow> \<exists>d\<in>set old. sg_initialized d) \<Longrightarrow> segmenter_fit old (new_segmenter n) t"
  by (simp add: segmenter_fit_def new_segmenter_def)

lemma blur_fit [simp]: "segmenter_fit old s t \<Longrightarrow> segmenter_fit old (setBlurIntensity i s) t"
  by (auto simp: segmenter_fit_def setBlurIntensity_def post_message_def split: if_splits)

lemma taken_before:
  assumes "preview_ok v" "pv_canvas v = Some True"
  shows "\<exists>d\<in>set (pv_stopped (preview_cleanup v)). sg_initialized d"
  using assms by (fastforce simp: preview_ok_def preview_cleanup_def segmenter_fit_def split: option.splits if_splits)

lemma cleanup_stopped [simp]:
  "pv_stopped (preview_cleanup (v\<lparr>pv_props := p, pv_canvas := c\<rparr>)) = pv_stopped (preview_cleanup v)"
  by (simp add: preview_cleanup_def split: option.splits)

lemma commit_restarts:
  assumes "first \<or> vp_stream p \<noteq> vp_stream (pv_props v) \<or> vp_blurBackground p \<noteq> vp_blurBackground (pv_props v)"
    and "\<forall>s\<in>set (pv_stopped v). sg_done s \<and> sg_terminated s"
    and "pv_canvas v = Some True \<longrightarrow> (\<exists>d\<in>set (pv_stopped (preview_cleanup v)). sg_initialized d)"
  shows "preview_ok (preview_commit first n p v)"
proof (cases "vp_stream p \<noteq> None \<and> vp_blurBackground p")
  case True
  let ?t = "case pv_canvas v of None \<Rightarrow> False | Some b \<Rightarrow> b"
  have "segmenter_fit (pv_stopped (preview_cleanup v)) (new_segmenter n) ?t"
    using assms(3) by (intro new_fit) (auto split: option.splits)
  with True assms(1,2) show ?thesis
    by (cases "pv_segmenter v")
      (simp_all add: preview_ok_def preview_commit_def preview_cleanup_def preview_start_def Let_def new_running, auto)
next
  case False
  with assms(1,2) show ?thesis
    by (cases "pv_segmenter v"; cases "vp_stream p")
      (simp_all add: preview_ok_def preview_commit_def preview_cleanup_def preview_start_def Let_def, auto)
qed

lemma commit_keeps:
  assumes "preview_ok v" "vp_stream p = vp_stream (pv_props v)" "vp_blurBackground p = vp_blurBackground (pv_props v)"
  shows "preview_ok (preview_commit False n p v)"
  using assms
  by (cases "vp_stream p"; cases "pv_segmenter v"; cases "vp_blurIntensity p = vp_blurIntensity (pv_props v)")
    (auto simp: preview_ok_def preview_commit_def Let_def)

lemma commit_ok:
  assumes "preview_ok v"
  shows "preview_ok (preview_commit False n p v)"
proof (cases "vp_stream p \<noteq> vp_stream (pv_props v) \<or> vp_blurBackground p \<noteq> vp_blurBackground (pv_props v)")
  case True
  with assms taken_before [OF assms] show ?thesis by (intro commit_restarts) (auto simp: preview_ok_def)
next
  case False
  with assms show ?thesis by (intro commit_keeps) auto
qed

lemma videoCb_running:
  "sg_done (fst (videoCb f w h (s, t))) = sg_done s" "sg_terminated (fst (videoCb f w h (s, t))) = sg_terminated s"
  by (auto simp: videoCb_def post_message_def split: frame_phase.splits)

lemma videoCb_fit:
  assumes "segmenter_fit old s t" "\<not> sg_done s" "\<not> sg_terminated s"
  shows "segmenter_fit old (fst (videoCb f w h (s, t))) (snd (videoCb f w h (s, t)))"
  using assms by (auto simp: segmenter_fit_def videoCb_def post_message_def split: frame_phase.splits if_splits)

lemma bitmap_running [simp]:
  "sg_done (bitmap_created ok n s) = sg_done s" "sg_terminated (bitmap_created ok n s) = sg_terminated s"
  by (auto simp: bitmap_created_def post_message_def split: frame_phase.splits)

lemma bitmap_fit [simp]: "segmenter_fit old s t \<Longrightarrow> segmenter_fit old (bitmap_created ok n s) t"
  by (auto simp: segmenter_fit_def bitmap_created_def post_message_def split: frame_phase.splits if_splits)

lemma step_ok: "preview_ok v \<Longrightarrow> preview_ok (preview_step ev v)"
proof (cases ev)
  case (PFrame f w h)
  assume ok: "preview_ok v"
  show ?thesis
  proof (cases "pv_segmenter v")
    case None
    with ok PFrame show ?thesis by (simp add: preview_step_def preview_frame_def)
  next
    case (Some s)
    with ok obtain t where t: "pv_canvas v = Some t" by (auto simp: preview_ok_def)
    with ok Some have "segmenter_fit (pv_stopped v) s t" "\<not> sg_done s" "\<not> sg_terminated s"
      by (simp_all add: preview_ok_def)
    from videoCb_fit [OF this, of f w h] this(2,3) ok PFrame Some t show ?thesis
      using videoCb_running [of f w h s t]
      by (auto simp: preview_step_def preview_frame_def preview_ok_def split: prod.splits)
  qed
qed (auto simp: preview_step_def commit_ok, auto simp: preview_bitmap_def preview_ok_def)

text \<open>
  What the next frame and the picture made of it come to: nothing, when the segmenter gives up, having sent
  its worker settings of the intensity only; or the frame is handed to the worker, which has the canvas, and
  another is asked for.\<close>

definition canvas_taken :: "preview \<Rightarrow> segmenter \<Rightarrow> bool" where
  "canvas_taken v s \<longleftrightarrow> \<not> sg_initialized s \<and> pv_canvas v = Some True"

definition gives_up :: "segmenter \<Rightarrow> segmenter option \<Rightarrow> bool" where
  "gives_up s r \<longleftrightarrow> (\<exists>s'. r = Some s' \<and> sg_phase s' = Ended \<and> sg_posted s' = sg_posted s \<and>
     (\<forall>m\<in>set (sg_posted s'). \<exists>i. m = MBlur i))"

definition hands_frame :: "nat \<Rightarrow> segmenter \<Rightarrow> segmenter option \<Rightarrow> bool" where
  "hands_frame k s r \<longleftrightarrow> (\<exists>s'. r = Some s' \<and> sg_phase s' = Requested k \<and>
     (\<exists>a b. MCanvas a b \<in> set (sg_posted s')) \<and> (\<exists>ms f w h. sg_posted s' = sg_posted s @ ms @ [MFrame f w h]))"

lemma next_frame:
  assumes "preview_ok v" "pv_segmenter v = Some s"
  shows "if canvas_taken v s
    then (\<exists>d\<in>set (pv_stopped v). sg_initialized d) \<and>
      gives_up s (pv_segmenter (fold preview_step [PFrame f w h, PBitmap True k] v))
    else hands_frame k s (pv_segmenter (fold preview_step [PFrame f w h, PBitmap True k] v))"
proof -
  from assms obtain t where t: "pv_canvas v = Some t" by (auto simp: preview_ok_def)
  from assms t have fit: "segmenter_fit (pv_stopped v) s t" and run: "\<not> sg_done s" "\<not> sg_terminated s"
    by (simp_all add: preview_ok_def)
  have r: "pv_segmenter (fold preview_step [PFrame f w h, PBitmap True k] v) =
      Some (bitmap_created True k (fst (videoCb f w h (s, t))))"
    using assms(2) t by (simp add: preview_step_def preview_frame_def preview_bitmap_def split: prod.splits)
  show ?thesis
  proof (cases "canvas_taken v s")
    case True
    with fit t have t: "t" "\<not> sg_initialized s" "\<exists>d\<in>set (pv_stopped v). sg_initialized d"
      "sg_phase s \<in> {Requested (sg_lastCallbackID s), Ended}" "\<forall>m\<in>set (sg_posted s). \<exists>i. m = MBlur i" by (auto simp: canvas_taken_def segmenter_fit_def)
    with run True show ?thesis
      unfolding r by (auto simp: gives_up_def videoCb_def bitmap_created_def)
  next
    case False
    with fit t have "sg_initialized s \<and> sg_phase s \<noteq> Ended \<and> (\<exists>a b. MCanvas a b \<in> set (sg_posted s)) \<or>
        \<not> sg_initialized s \<and> \<not> t \<and> sg_phase s = Requested (sg_lastCallbackID s)"
      by (auto simp: canvas_taken_def segmenter_fit_def split: if_splits)
    then show ?thesis
      unfolding r if_not_P [OF False]
      using run by (cases "sg_phase s") (auto simp: hands_frame_def videoCb_def bitmap_created_def post_message_def)
  qed
qed

text \<open>
  C25. While the preview is open it has exactly one segmenter if there is a stream whose background is to be
  blurred, and none otherwise. That one is not stopped and its worker runs; and it works: from any moment on, the next
  frame and its picture bring another frame to its worker, which has the canvas, and ask for the next. The one
  exception is a canvas that a segmenter before it has taken, as after a change of the camera while blurring: then the
  segmenter in use gives up at its first frame, and nothing but the intensity is ever sent to its worker. All segmenters before it are stopped
  and their workers ended; and once the preview is closed, all are.\<close>
theorem one_segmenter_at_work:
  "let v = fold preview_step evs (preview_mounted n p);
       later = pv_segmenter (fold preview_step [PFrame f w h, PBitmap True k] v)
   in (case pv_segmenter v of
         None \<Rightarrow> \<not> (vp_stream (pv_props v) \<noteq> None \<and> vp_blurBackground (pv_props v))
       | Some s \<Rightarrow> (vp_stream (pv_props v) \<noteq> None \<and> vp_blurBackground (pv_props v)) \<and>
           \<not> sg_done s \<and> \<not> sg_terminated s \<and>
           (if canvas_taken v s then (\<exists>d\<in>set (pv_stopped v). sg_initialized d) \<and> gives_up s later
            else hands_frame k s later)) \<and>
      list_all (\<lambda>s. sg_done s \<and> sg_terminated s) (pv_stopped v) \<and>
      pv_segmenter (preview_unmounted v) = None \<and>
      list_all (\<lambda>s. sg_done s \<and> sg_terminated s) (pv_stopped (preview_unmounted v))"
proof -
  let ?v = "fold preview_step evs (preview_mounted n p)"
  have "preview_ok (preview_mounted n p)"
    unfolding preview_mounted_def by (rule commit_restarts) simp_all
  then have ok: "preview_ok ?v"
    by (induction evs arbitrary: n p rule: rev_induct) (simp_all add: step_ok)
  have closed: "pv_segmenter (preview_unmounted ?v) = None"
    "list_all (\<lambda>s. sg_done s \<and> sg_terminated s) (pv_stopped (preview_unmounted ?v))"
    "list_all (\<lambda>s. sg_done s \<and> sg_terminated s) (pv_stopped ?v)"
    using ok by (auto simp: preview_ok_def preview_unmounted_def preview_cleanup_def list_all_iff split: option.splits)
  show ?thesis
  proof (cases "pv_segmenter ?v")
    case None
    with ok closed show ?thesis by (simp add: Let_def preview_ok_def)
  next
    case (Some s)
    with ok have "vp_stream (pv_props ?v) \<noteq> None \<and> vp_blurBackground (pv_props ?v)" "\<not> sg_done s" "\<not> sg_terminated s"
      by (simp_all add: preview_ok_def)
    with Some closed next_frame [OF ok Some, of f w h k] show ?thesis by (simp only: Let_def option.simps simp_thms)
  qed
qed

text \<open>
  A second camera is not blurred: when the background is blurred and a frame of the first stream was
  drawn, another stream gets a segmenter whose first frame ends it, since the canvas has handed over
  its control already. Nothing but the intensity reaches its worker.\<close>
theorem second_camera_not_blurred:
  assumes "vp_stream p = Some a" "vp_blurBackground p" "b \<noteq> a"
  shows "\<exists>s. pv_segmenter (fold preview_step [PFrame f w h, PBitmap ok k, PRender n' (p\<lparr>vp_stream := Some b\<rparr>),
      PFrame f' w' h'] (preview_mounted n p)) = Some s \<and>
    sg_phase s = Ended \<and> sg_posted s = [MBlur (vp_blurIntensity p)]"
  using assms
  by (simp add: preview_step_def preview_mounted_def preview_commit_def preview_cleanup_def preview_start_def
      preview_frame_def preview_bitmap_def videoCb_def bitmap_created_def post_message_def setBlurIntensity_def
      new_segmenter_def Let_def) (rule exI [of _ False], simp)

theorem second_camera_not_blurred_witness:
  "\<exists>s. pv_segmenter (fold preview_step [PFrame 0 640 480, PBitmap True 1,
      PRender 2 \<lparr>vp_stream = Some 8, vp_blurBackground = True, vp_blurIntensity = 5\<rparr>, PFrame 1 640 480]
      (preview_mounted 0 \<lparr>vp_stream = Some 7, vp_blurBackground = True, vp_blurIntensity = 5\<rparr>)) = Some s \<and>
    sg_phase s = Ended \<and> sg_posted s = [MBlur 5]"
  using second_camera_not_blurred [of "\<lparr>vp_stream = Some 7, vp_blurBackground = True, vp_blurIntensity = 5\<rparr>" 7 8
      0 640 480 True 1 2 1 640 480] by simp

end
