(* ===== verification/Convergence.thy ===== *)
theory Convergence imports Plugin begin

text \<open>
  What the windows of a call agree on. The server sends the same events to every window of the web
  application; a window also has a clock, a client and timers of its own. This theory gives an
  abstract call, the events' effect on it, and shows that the handlers of
  \<open>websocket_handlers.ts\<close> with the thunks and the reducers below them implement it, whatever the
  window does besides. Two windows that were sent the state of a call and the same events after it
  show the same call, no matter what they had seen before.
\<close>

section \<open>The abstract call\<close>

text \<open>
  A participant as the server tells of them: a session without the reaction, which only the windows in
  the call keep and which their timers remove. An empty id is no sharer of the screen.
\<close>

record participant =
  pa_session :: "string option"
  pa_user :: "string option"
  pa_unmuted :: "bool option"
  pa_voice :: "bool option"
  pa_video :: "bool option"
  pa_hand :: "int option"

type_synonym attendance = "string \<Rightarrow> participant option"

record shared_call =
  sh_call :: "call_info option"
  sh_host :: "string option"
  sh_sharer :: "string option"
  sh_sessions :: "attendance option"

definition participant_of :: "user_session \<Rightarrow> participant" where
  "participant_of s = \<lparr>pa_session = us_session_id s, pa_user = us_user_id s, pa_unmuted = us_unmuted s,
     pa_voice = us_voice s, pa_video = us_video s, pa_hand = us_raised_hand s\<rparr>"

definition attendance_of :: "(string, user_session) obj \<Rightarrow> attendance" where
  "attendance_of ss sid = map_option participant_of (obj_get ss sid)"

definition shared :: "string \<Rightarrow> root_state \<Rightarrow> shared_call" where
  "shared ch st = \<lparr>sh_call = obj_get (rs_calls st) ch,
     sh_host = map_option he_hostID (obj_get (rs_hosts st) ch),
     sh_sharer = sharer (rs_screenSharingIDs st) ch,
     sh_sessions = map_option attendance_of (obj_get (rs_sessions st) ch)\<rparr>"

section \<open>What events do to it\<close>

definition newcomer :: "string \<Rightarrow> string \<Rightarrow> participant" where
  "newcomer uid sid = \<lparr>pa_session = Some sid, pa_user = Some uid, pa_unmuted = Some False,
     pa_voice = Some False, pa_video = Some False, pa_hand = Some 0\<rparr>"

definition nobody :: attendance where
  "nobody = (\<lambda>_. None)"

definition attends :: "string \<Rightarrow> shared_call \<Rightarrow> bool" where
  "attends sid x \<longleftrightarrow> (case sh_sessions x of None \<Rightarrow> False | Some m \<Rightarrow> m sid \<noteq> None)"

definition arrive :: "string \<Rightarrow> string \<Rightarrow> shared_call \<Rightarrow> shared_call" where
  "arrive uid sid x = x\<lparr>sh_sessions :=
     Some ((case sh_sessions x of None \<Rightarrow> nobody | Some m \<Rightarrow> m)(sid \<mapsto> newcomer uid sid))\<rparr>"

definition over_call :: "shared_call \<Rightarrow> shared_call" where
  "over_call x = x\<lparr>sh_call := None, sh_sessions := None\<rparr>"

text \<open>The last to leave ends the call.\<close>

definition depart :: "string \<Rightarrow> shared_call \<Rightarrow> shared_call" where
  "depart sid x =
     (let y = x\<lparr>sh_sharer := (if sh_sharer x = Some sid then None else sh_sharer x)\<rparr>
      in case sh_sessions x of
           None \<Rightarrow> over_call y
         | Some m \<Rightarrow> if m(sid := None) = nobody then over_call y else y\<lparr>sh_sessions := Some (m(sid := None))\<rparr>)"

definition amend :: "string \<Rightarrow> (participant \<Rightarrow> participant) \<Rightarrow> shared_call \<Rightarrow> shared_call" where
  "amend sid f x = x\<lparr>sh_sessions := map_option (\<lambda>m. m(sid := map_option f (m sid))) (sh_sessions x)\<rparr>"

definition share :: "string \<Rightarrow> shared_call \<Rightarrow> shared_call" where
  "share sid x = x\<lparr>sh_sharer := (if sid = [] then None else Some sid)\<rparr>"

text \<open>The state of a call, as the server sends it to a window that asks or connects.\<close>

definition attending :: "session_state list \<Rightarrow> attendance" where
  "attending ss = fold (\<lambda>s m. m(ss_session_id s \<mapsto> participant_of (stored_session s))) ss nobody"

definition snapshot :: "string \<Rightarrow> call_data \<Rightarrow> shared_call" where
  "snapshot ch d = \<lparr>sh_call = Some (call_info_of ch d), sh_host = Some (cd_host_id d),
     sh_sharer = (if cd_screen_sharing_session_id d = [] then None else Some (cd_screen_sharing_session_id d)),
     sh_sessions = Some (attending (cd_sessions d))\<rparr>"

definition started :: "string \<Rightarrow> call_start \<Rightarrow> call_info" where
  "started ch d = \<lparr>ci_ID = cst_id d, ci_startAt = cst_start_at d, ci_channelID = ch,
     ci_threadID = cst_thread_id d, ci_ownerID = cst_owner_id d, ci_hostID = Some (cst_host_id d)\<rparr>"

fun follow_here :: "string \<Rightarrow> server_event \<Rightarrow> shared_call \<Rightarrow> shared_call" where
  "follow_here ch (UserJoined m u s) x = arrive u s x"
| "follow_here ch (UserLeft m u s) x = depart s x"
| "follow_here ch (UserMuted m u s) x = amend s (pa_unmuted_update (\<lambda>_. Some False)) x"
| "follow_here ch (UserUnmuted m u s) x = amend s (pa_unmuted_update (\<lambda>_. Some True)) x"
| "follow_here ch (UserVoiceOn m u s) x = amend s (pa_voice_update (\<lambda>_. Some True)) x"
| "follow_here ch (UserVoiceOff m u s) x = amend s (pa_voice_update (\<lambda>_. Some False)) x"
| "follow_here ch (UserVideoOn m u s) x = amend s (pa_video_update (\<lambda>_. Some True)) x"
| "follow_here ch (UserVideoOff m u s) x = amend s (pa_video_update (\<lambda>_. Some False)) x"
| "follow_here ch (UserRaiseHand m u s t) x = amend s (pa_hand_update (\<lambda>_. Some t)) x"
| "follow_here ch (UserUnraiseHand m u s t) x = amend s (pa_hand_update (\<lambda>_. Some t)) x"
| "follow_here ch (UserScreenOn m s) x = share s x"
| "follow_here ch (UserScreenOff m s) x = (if sh_sharer x = Some s then share [] x else x)"
| "follow_here ch (CallStart m d) x = x\<lparr>sh_call := Some (started ch d), sh_host := Some (cst_host_id d)\<rparr>"
| "follow_here ch (CallEnd m) x = over_call x"
| "follow_here ch (CallHostChanged m host call) x = x\<lparr>sh_host := Some host\<rparr>"
| "follow_here ch (CallState c (Some d)) x = snapshot ch d"
| "follow_here ch ev x = x"

definition follow :: "string \<Rightarrow> server_event \<Rightarrow> shared_call \<Rightarrow> shared_call" where
  "follow ch ev x = (if event_target ev = Some ch then follow_here ch ev x else x)"

text \<open>
  The server's order: what an event says of a session comes between the joining and the leaving
  of the session. The host's commands to a client are not events of the call: a client that is told to
  mute, or to lower its hand, shows so at once, before the server tells everyone.
\<close>

fun speaks_of :: "server_event \<Rightarrow> string option" where
  "speaks_of (UserMuted m u s) = Some s"
| "speaks_of (UserUnmuted m u s) = Some s"
| "speaks_of (UserVoiceOn m u s) = Some s"
| "speaks_of (UserVoiceOff m u s) = Some s"
| "speaks_of (UserVideoOn m u s) = Some s"
| "speaks_of (UserVideoOff m u s) = Some s"
| "speaks_of (UserRaiseHand m u s t) = Some s"
| "speaks_of (UserUnraiseHand m u s t) = Some s"
| "speaks_of (UserReacted m d) = Some (rd_session_id d)"
| "speaks_of _ = None"

fun commands :: "server_event \<Rightarrow> bool" where
  "commands (HostMute c s) = True"
| "commands (HostLowerHand c s call host) = True"
| "commands _ = False"

definition timely :: "string \<Rightarrow> server_event \<Rightarrow> shared_call \<Rightarrow> bool" where
  "timely ch ev x \<longleftrightarrow> event_target ev \<noteq> Some ch \<or>
     \<not> commands ev \<and> (case speaks_of ev of None \<Rightarrow> True | Some sid \<Rightarrow> attends sid x)"

fun timely_run :: "string \<Rightarrow> server_event list \<Rightarrow> shared_call \<Rightarrow> bool" where
  "timely_run ch [] x \<longleftrightarrow> True"
| "timely_run ch (ev # evs) x \<longleftrightarrow> timely ch ev x \<and> timely_run ch evs (follow ch ev x)"

section \<open>A window\<close>

text \<open>What happens in a window: an event is handled, or one of its timers fires.\<close>

datatype window_step = Served server_event | Fired "int \<times> task"

fun window_run :: "window_step list \<Rightarrow> env \<Rightarrow> env" where
  "window_run [] e = e"
| "window_run (Served ev # ws) e = window_run ws (handle_event ev e)"
| "window_run (Fired t # ws) e = window_run ws (if t \<in> set (ev_timers e) then fire_timer t e else e)"

fun served :: "window_step list \<Rightarrow> server_event list" where
  "served [] = []"
| "served (Served ev # ws) = ev # served ws"
| "served (Fired t # ws) = served ws"

text \<open>The timers that the handlers and the notifications set.\<close>

fun expiry :: "task \<Rightarrow> bool" where
  "expiry (TDispatch (USER_JOINED_TIMEOUT ch u)) = True"
| "expiry (TDispatch (USER_REACTED_TIMEOUT ch u s r)) = True"
| "expiry (TDispatch (LIVE_CAPTION_TIMEOUT_EVENT ch s c)) = True"
| "expiry (TDispatch (HOST_CONTROL_NOTICE_TIMEOUT_EVENT call n)) = True"
| "expiry (TDispatch (HOST_CONTROL_NOTICE n)) = True"
| "expiry (TStopRinging call) = True"
| "expiry _ = False"

definition window_ok :: "env \<Rightarrow> bool" where
  "window_ok e \<longleftrightarrow> batch_ok e \<and> client_in_channel e \<and> (\<forall>t\<in>set (ev_timers e). expiry (snd t))"

section \<open>What a step keeps of a window\<close>

definition kept :: "env \<Rightarrow> env \<Rightarrow> bool" where
  "kept e e' \<longleftrightarrow> ev_batch e' = ev_batch e \<and>
     (\<forall>c'. ev_client e' = Some c' \<longrightarrow> (\<exists>c. ev_client e = Some c \<and> cc_channelID c' = cc_channelID c)) \<and>
     (\<forall>t\<in>set (ev_timers e'). t \<in> set (ev_timers e) \<or> expiry (snd t))"

lemma kept_refl [simp]: "kept e e"
  by (simp add: kept_def)

lemma kept_trans: "kept e0 e \<Longrightarrow> kept e e' \<Longrightarrow> kept e0 e'"
  by (fastforce simp: kept_def)

lemma kept_simps [simp]:
  "kept e0 (dispatch a e) = kept e0 e" "kept e0 (effect x e) = kept e0 e"
  "kept e0 (await k e) = kept e0 e" "kept e0 (draw_id e) = kept e0 e"
  "kept e0 (dispatch_batch as e) = kept e0 e"
  by (simp_all add: kept_def effect_def await_def draw_id_def dispatch_batch_def)

lemma kept_timeout [simp]: "expiry t \<Longrightarrow> kept e0 e \<Longrightarrow> kept e0 (setTimeout t d e)"
  by (auto simp: kept_def setTimeout_def)

lemma kept_close [simp]: "kept e0 e \<Longrightarrow> kept e0 (on_client_close err e)"
  by (auto simp: on_client_close_def Let_def kept_def split: option.splits)

lemma kept_client_event [simp]: "kept e0 e \<Longrightarrow> kept e0 (on_client_event v e)"
  by (cases v) (simp_all add: self_event_def)

lemma kept_client_events: "kept e0 e \<Longrightarrow> kept e0 (fold on_client_event vs e)"
  by (induction vs arbitrary: e) simp_all

lemma kept_client_call:
  assumes "\<And>c. cc_channelID (f c) = cc_channelID c" "kept e0 e"
  shows "kept e0 (client_call f e)"
proof (cases "ev_client e")
  case (Some c)
  with assms have "kept e0 (e\<lparr>ev_client := Some (f c)\<rparr>)" by (auto simp: kept_def)
  with Some show ?thesis by (simp add: client_call_def kept_client_events)
qed (use assms in \<open>simp add: client_call_def\<close>)

lemma kept_thunks [simp]:
  "kept e0 e \<Longrightarrow> kept e0 (disconnect_client err e)"
  "kept e0 e \<Longrightarrow> kept e0 (removeIncomingCallNotification k e)"
  "kept e0 e \<Longrightarrow> kept e0 (loadProfilesByIdsIfMissing ids e)"
  "kept e0 e \<Longrightarrow> kept e0 (incomingCallOnChannel c k u s e)"
  "kept e0 e \<Longrightarrow> kept e0 (followThread c t e)"
  "kept e0 e \<Longrightarrow> kept e0 (show_notice n e)"
  "kept e0 e \<Longrightarrow> kept e0 (client_call mute e)"
  "kept e0 e \<Longrightarrow> kept e0 (client_call unshareScreen e)"
  "kept e0 e \<Longrightarrow> kept e0 (client_call unraiseHand e)"
  by (auto simp: disconnect_client_def kept_client_call host_command_emits removeIncomingCallNotification_def
      stopRingingForCall_def loadProfilesByIdsIfMissing_def incomingCallOnChannel_def incoming_with_channel_def
      add_incoming_def followThread_def show_notice_def Let_def split: option.splits)

lemma kept_callEnd [simp]: "kept e0 e \<Longrightarrow> kept e0 (callEnd c e)"
  by (simp add: callEnd_def Let_def)

lemma event_kept: "kept e (handle_event ev e)"
  by (cases ev) (simp_all add: handleCallEnd_def handleUserLeft_def userLeft_def handleUserJoined_def
      handleCallStart_def handleCallState_def loadCallState_def handleUserRemovedFromChannel_def
      handleUserMuted_def handleUserUnmuted_def handleUserVoiceOn_def handleUserVoiceOff_def
      handleUserScreenOn_def handleUserScreenOff_def handleUserRaisedHand_def handleUserUnraisedHand_def
      handleUserVideoOn_def handleUserVideoOff_def handleUserReaction_def handleCaption_def
      handleCallHostChanged_def handleCallJobState_def handleUserDismissedNotification_def
      handleHostMute_def handleHostScreenOff_def handleHostLowerHand_def handleHostRemoved_def Let_def
      split: option.splits)

lemma kept_ok: "kept e e' \<Longrightarrow> window_ok e \<Longrightarrow> window_ok e'"
  by (fastforce simp: kept_def window_ok_def batch_ok_def client_in_channel_def)

lemma fire_kept: "kept e (fire_timer t e)"
proof -
  have "kept e (e\<lparr>ev_timers := remove1 t (ev_timers e)\<rparr>)"
    by (auto simp: kept_def dest: set_mp [OF set_remove1_subset])
  then show ?thesis by (auto simp: fire_timer_def run_task_def stopRingingForCall_def Let_def split: task.split)
qed

section \<open>What a step does to the call\<close>

lemma shared_view: "view_channel st ch = view_channel st' ch \<Longrightarrow> shared ch st = shared ch st'"
  by (simp add: view_channel_def shared_def sharer_def)

lemma sessions_left_empty:
  "numSessionsInCallInChannel gs ch = 0 \<longleftrightarrow>
     (case map_option attendance_of (obj_get (rs_sessions (gs_plugin gs)) ch) of None \<Rightarrow> True | Some m \<Rightarrow> m = nobody)"
proof (cases "obj_get (rs_sessions (gs_plugin gs)) ch")
  case (Some ss)
  have "ss = [] \<longleftrightarrow> (\<forall>sid. obj_get ss sid = None)"
    by (cases ss) (auto simp: obj_get_Cons)
  with Some show ?thesis
    by (simp add: numSessionsInCallInChannel_def sessionsInCalls_def obj_keys_def attendance_of_def nobody_def
        fun_eq_iff)
qed (simp add: numSessionsInCallInChannel_def sessionsInCalls_def)

lemma other_slices [simp]:
  "rs_hosts (ev_plugin (on_client_close err e)) = rs_hosts (ev_plugin e)"
  "rs_screenSharingIDs (ev_plugin (on_client_close err e)) = rs_screenSharingIDs (ev_plugin e)"
  "rs_hosts (ev_plugin (disconnect_client err e)) = rs_hosts (ev_plugin e)"
  "rs_screenSharingIDs (ev_plugin (disconnect_client err e)) = rs_screenSharingIDs (ev_plugin e)"
  by (simp_all add: disconnect_client_eq on_client_close_def Let_def split: option.splits)

lemma attendance_set [simp]:
  "attendance_of (obj_set sid s ss) = (attendance_of ss)(sid \<mapsto> participant_of s)"
  "attendance_of (obj_del sid ss) = (attendance_of ss)(sid := None)"
  "attendance_of [] = nobody"
  by (auto simp: attendance_of_def nobody_def fun_eq_iff)

lemma shared_call_fields [simp]:
  "sh_call (shared ch st) = obj_get (rs_calls st) ch"
  "sh_host (shared ch st) = map_option he_hostID (obj_get (rs_hosts st) ch)"
  "sh_sharer (shared ch st) = sharer (rs_screenSharingIDs st) ch"
  "sh_sessions (shared ch st) = map_option attendance_of (obj_get (rs_sessions st) ch)"
  by (simp_all add: shared_def)

lemma sharer_steps [simp]:
  "sharer (obj_set ch sid st) c = (if c = ch then (if sid = [] then None else Some sid) else sharer st c)"
  "sharer (clear_screen ch (Some sid) st) ch = (if sharer st ch = Some sid then None else sharer st ch)"
  "sharer (clear_screen ch None st) ch = sharer st ch"
  "sharer (screenSharingIDs st (USER_LEFT ch u sid)) ch = (if sharer st ch = Some sid then None else sharer st ch)"
  by (auto simp: sharer_def clear_screen_def split: option.splits)

text \<open>A field of a session that is in the call.\<close>

lemma put_present:
  assumes "attends sid (shared ch st)"
    and "\<And>s. participant_of (write s) = f (participant_of s)"
  shows "map_option attendance_of (obj_get (put_session ch sid initial write (rs_sessions st)) ch) =
    map_option (\<lambda>m. m(sid := map_option f (m sid))) (map_option attendance_of (obj_get (rs_sessions st) ch))"
proof -
  obtain ss s where s: "obj_get (rs_sessions st) ch = Some ss" "obj_get ss sid = Some s"
    using assms(1) by (auto simp: attends_def attendance_of_def split: option.splits)
  then show ?thesis
    using assms(2) by (auto simp: put_session_def spread_session_def fun_eq_iff attendance_of_def)
qed

lemma participant_writes [simp]:
  "participant_of (s\<lparr>us_unmuted := v1\<rparr>) = (participant_of s)\<lparr>pa_unmuted := v1\<rparr>"
  "participant_of (s\<lparr>us_voice := v1\<rparr>) = (participant_of s)\<lparr>pa_voice := v1\<rparr>"
  "participant_of (s\<lparr>us_video := v1\<rparr>) = (participant_of s)\<lparr>pa_video := v1\<rparr>"
  "participant_of (s\<lparr>us_raised_hand := h\<rparr>) = (participant_of s)\<lparr>pa_hand := h\<rparr>"
  "participant_of (s\<lparr>us_reaction := r\<rparr>) = participant_of s"
  "participant_of (fresh_session u sid) = newcomer u sid"
  by (simp_all add: participant_of_def fresh_session_def newcomer_def)

lemma shared_eqI:
  "sh_call x = sh_call y \<Longrightarrow> sh_host x = sh_host y \<Longrightarrow> sh_sharer x = sh_sharer y \<Longrightarrow>
   sh_sessions x = sh_sessions y \<Longrightarrow> x = (y :: shared_call)"
  by simp

lemma amend_fields [simp]:
  "sh_call (amend sid f x) = sh_call x" "sh_host (amend sid f x) = sh_host x"
  "sh_sharer (amend sid f x) = sh_sharer x"
  "sh_sessions (amend sid f x) = map_option (\<lambda>m. m(sid := map_option f (m sid))) (sh_sessions x)"
  by (simp_all add: amend_def)

lemmas field_handlers = handleUserMuted_def handleUserUnmuted_def handleUserVoiceOn_def handleUserVoiceOff_def
  handleUserRaisedHand_def handleUserUnraisedHand_def handleUserVideoOn_def handleUserVideoOff_def
  user_muted_def user_unmuted_def user_voice_on_def user_voice_off_def user_raise_hand_def user_lower_hand_def
  user_video_on_def user_video_off_def

lemma field_events:
  assumes "speaks_of ev = Some sid" "event_target ev = Some ch" "attends sid (shared ch (ev_plugin e))"
    "\<And>m d. ev \<noteq> UserReacted m d"
  shows "shared ch (ev_plugin (handle_event ev e)) = follow_here ch ev (shared ch (ev_plugin e))"
  using assms by (cases ev) (auto intro!: shared_eqI simp: field_handlers put_present)

lemma reacted_here:
  assumes "attends (rd_session_id d) (shared ch (ev_plugin e))" "event_channel m = ch"
  shows "shared ch (ev_plugin (handleUserReaction m d e)) = shared ch (ev_plugin e)"
proof -
  let ?sid = "rd_session_id d" and ?st = "rs_sessions (ev_plugin e)"
  have "map_option attendance_of (obj_get (user_reacted ch uid ?sid r ?st) ch) = map_option attendance_of (obj_get ?st ch)"
    for uid r
    unfolding user_reacted_def
    by (subst put_present [OF assms(1), where f = id]) (simp_all add: option.map_id option.map_ident)
  with assms(2) show ?thesis by (auto intro!: shared_eqI simp: handleUserReaction_def Let_def)
qed

lemma call_over_here:
  "shared ch (ev_plugin (callEnd ch e)) = over_call (shared ch (ev_plugin e))"
  by (auto intro!: shared_eqI simp: callEnd_def Let_def over_call_def)

lemma session_gone:
  "shared ch (store_dispatch st (USER_LEFT ch uid sid)) = (shared ch st)\<lparr>
     sh_sharer := (if sharer (rs_screenSharingIDs st) ch = Some sid then None else sharer (rs_screenSharingIDs st) ch),
     sh_sessions := map_option (\<lambda>m. m(sid := None)) (sh_sessions (shared ch st))\<rparr>"
  by (intro shared_eqI) (auto simp: user_left_def split: option.splits simp del: screenSharingIDs.simps)

lemma depart_last:
  assumes "y = x\<lparr>sh_sharer := (if sh_sharer x = Some sid then None else sh_sharer x),
     sh_sessions := map_option (\<lambda>m. m(sid := None)) (sh_sessions x)\<rparr>"
  shows "depart sid x = (if case sh_sessions y of None \<Rightarrow> True | Some m \<Rightarrow> m = nobody then over_call y else y)"
  unfolding assms by (cases "sh_sessions x") (simp_all add: depart_def Let_def over_call_def)

lemma left_here:
  "shared ch (ev_plugin (userLeft ch uid sid e)) = depart sid (shared ch (ev_plugin e))"
proof -
  let ?e1 = "dispatch (USER_LEFT ch uid sid) e"
  let ?y = "shared ch (ev_plugin ?e1)"
  have "userLeft ch uid sid e =
      (if case sh_sessions ?y of None \<Rightarrow> True | Some m \<Rightarrow> m = nobody then callEnd ch ?e1 else ?e1)"
    by (simp only: userLeft_def Let_def sessions_left_empty getState_fields shared_call_fields)
  then have "shared ch (ev_plugin (userLeft ch uid sid e)) =
      (if case sh_sessions ?y of None \<Rightarrow> True | Some m \<Rightarrow> m = nobody then over_call ?y else ?y)"
    by (simp only: call_over_here if_distrib [where f = "\<lambda>e. shared ch (ev_plugin e)"])
  also have "\<dots> = depart sid (shared ch (ev_plugin e))"
    by (rule depart_last [symmetric]) (simp only: dispatch_fields session_gone shared_call_fields)
  finally show ?thesis .
qed

lemma unshare_slices [simp]: "ev_plugin (client_call unshareScreen e) = ev_plugin e"
  using host_command_emits(2) by (auto simp: client_call_def split: option.splits)

lemma attending_map:
  "attendance_of (fold (\<lambda>s. obj_set (ss_session_id s) (stored_session s)) ss acc) =
     fold (\<lambda>s m. m(ss_session_id s \<mapsto> participant_of (stored_session s))) ss (attendance_of acc)"
  by (induction ss arbitrary: acc) simp_all

lemma state_here:
  assumes "batch_ok e"
  shows "shared ch (ev_plugin (loadCallState ch d e)) = snapshot ch d"
  using assms
  by (auto intro!: shared_eqI simp: loadCallState_def call_state_actions_def Let_def batch_ok_def snapshot_def
      getSessionsMapFromSessions_def attending_map attending_def call_info_of_def)

lemma incoming_slices [simp]:
  "rs_calls (ev_plugin (incomingCallOnChannel c k u s e)) = rs_calls (ev_plugin e)"
  "rs_hosts (ev_plugin (incomingCallOnChannel c k u s e)) = rs_hosts (ev_plugin e)"
  "rs_screenSharingIDs (ev_plugin (incomingCallOnChannel c k u s e)) = rs_screenSharingIDs (ev_plugin e)"
  "rs_sessions (ev_plugin (incomingCallOnChannel c k u s e)) = rs_sessions (ev_plugin e)"
  by (auto simp: incomingCallOnChannel_def incoming_with_channel_def add_incoming_def Let_def split: option.splits)

lemma notice_slices [simp]:
  "rs_calls (ev_plugin (show_notice n e)) = rs_calls (ev_plugin e)"
  "rs_screenSharingIDs (ev_plugin (show_notice n e)) = rs_screenSharingIDs (ev_plugin e)"
  "rs_sessions (ev_plugin (show_notice n e)) = rs_sessions (ev_plugin e)"
  by (simp_all add: show_notice_def)

lemma call_events:
  assumes "speaks_of ev = None" "event_target ev = Some ch" "\<not> commands ev" "batch_ok e"
  shows "shared ch (ev_plugin (handle_event ev e)) = follow_here ch ev (shared ch (ev_plugin e))"
proof (cases ev)
  case (CallState c d)
  with assms show ?thesis by (cases d) (simp_all add: handleCallState_def state_here)
next
  case (UserLeft m u s)
  with assms show ?thesis by (simp add: handleUserLeft_def left_here)
next
  case (CallEnd m)
  with assms show ?thesis by (simp add: handleCallEnd_def call_over_here)
next
  case (UserScreenOff m s)
  with assms show ?thesis
    by (auto intro!: shared_eqI simp: handleUserScreenOff_def share_def)
next
  case (CallStart m d)
  with assms show ?thesis
    by (auto intro!: shared_eqI simp: handleCallStart_def Let_def started_def split: option.splits)
next
  case (UserJoined m u s)
  with assms show ?thesis
    by (auto intro!: shared_eqI simp: handleUserJoined_def Let_def arrive_def user_joined_def split: option.splits)
next
  case (CallHostChanged m host call)
  with assms show ?thesis
    by (auto intro!: shared_eqI simp: handleCallHostChanged_def Let_def split: option.splits)
qed (use assms in \<open>auto intro!: shared_eqI simp: handleUserScreenOn_def share_def handleCallJobState_def
      handleUserRemovedFromChannel_def handleCaption_def handleHostScreenOff_def handleHostRemoved_def Let_def
      split: option.splits\<close>)

section \<open>Following the server\<close>

lemma event_follows:
  assumes "window_ok e" "timely ch ev (shared ch (ev_plugin e))"
  shows "shared ch (ev_plugin (handle_event ev e)) = follow ch ev (shared ch (ev_plugin e))"
proof (cases "event_target ev = Some ch")
  case False
  with assms(1) event_keeps_other_channels [of e ev ch] show ?thesis
    by (auto simp: follow_def window_ok_def dest: shared_view)
next
  case True
  with assms(2) have c: "\<not> commands ev" by (simp add: timely_def)
  show ?thesis
  proof (cases "speaks_of ev")
    case None
    with True c assms(1) show ?thesis by (simp add: call_events follow_def window_ok_def)
  next
    case (Some sid)
    with True assms(2) have p: "attends sid (shared ch (ev_plugin e))" by (simp add: timely_def)
    show ?thesis
    proof (cases "\<exists>m d. ev = UserReacted m d")
      case False
      with field_events [OF Some True p] True show ?thesis by (simp add: follow_def)
    qed (use Some p True in \<open>auto simp: reacted_here follow_def\<close>)
  qed
qed

lemma timer_follows:
  assumes "window_ok e" "t \<in> set (ev_timers e)"
  shows "shared ch (ev_plugin (fire_timer t e)) = shared ch (ev_plugin e)"
proof -
  have x: "expiry (snd t)" using assms by (simp add: window_ok_def)
  have r: "map_option attendance_of (obj_get (user_reacted_timeout c sid r st) ch) = map_option attendance_of (obj_get st ch)"
    for c sid r st
    by (auto simp: user_reacted_timeout_def session_at_def fun_eq_iff attendance_of_def bind_eq_Some_conv
        split: option.splits)
  obtain due k where "t = (due, k)" by fastforce
  with x show ?thesis
    by (cases k rule: expiry.cases)
      (auto intro!: shared_eqI simp: fire_timer_def run_task_def r)
qed

lemma run_follows:
  assumes "window_ok e" "timely_run ch (served ws) (shared ch (ev_plugin e))"
  shows "shared ch (ev_plugin (window_run ws e)) = fold (follow ch) (served ws) (shared ch (ev_plugin e))"
  using assms
proof (induction ws e rule: window_run.induct)
  case (2 ev ws e)
  then show ?case by (simp add: event_follows kept_ok [OF event_kept])
next
  case (3 t ws e)
  then show ?case by (auto simp: timer_follows kept_ok [OF fire_kept])
qed simp

lemma run_ok: "window_ok e \<Longrightarrow> window_ok (window_run ws e)"
  by (induction ws e rule: window_run.induct) (simp_all add: kept_ok [OF event_kept] kept_ok [OF fire_kept])

lemma run_append: "window_run (ws @ vs) e = window_run vs (window_run ws e)"
  by (induction ws e rule: window_run.induct) simp_all

text \<open>The state of a call makes a window forget what it showed of the call before.\<close>

lemma snapshot_then:
  assumes "window_ok e" "timely_run ch (served ws) (snapshot ch d)"
  shows "shared ch (ev_plugin (window_run (bs @ Served (CallState ch (Some d)) # ws) e)) =
    fold (follow ch) (served ws) (snapshot ch d)"
proof -
  let ?e1 = "handle_event (CallState ch (Some d)) (window_run bs e)"
  have ok: "window_ok (window_run bs e)" by (rule run_ok [OF assms(1)])
  then have s: "shared ch (ev_plugin ?e1) = snapshot ch d"
    by (simp add: handleCallState_def state_here window_ok_def)
  with run_follows [OF kept_ok [OF event_kept ok], of ch ws "CallState ch (Some d)"] assms(2)
  show ?thesis by (simp add: run_append)
qed

section \<open>Properties\<close>

text \<open>
  C5. The handlers implement the abstract call: after any events in the server's order, with the window's timers
  firing in between, the store's call, host, sharer and participants of a channel are what the
  events alone make of them, for this client's call and for all others.\<close>
theorem store_follows_server:
  assumes "window_ok e" "timely_run ch (served ws) (shared ch (ev_plugin e))"
  shows "shared ch (ev_plugin (window_run ws e)) = fold (follow ch) (served ws) (shared ch (ev_plugin e))"
  using assms by (rule run_follows)

text \<open>
  C3. Windows agree: once two windows, whatever they were sent and have missed before, receive the state of a call,
  they show the same call after the same further events, each at its own pace with its own timers, and
  whichever client they have.\<close>
theorem windows_converge:
  assumes "window_ok e1" "window_ok e2" "timely_run ch (served ws1) (snapshot ch d)"
    and "served ws2 = served ws1"
  shows "shared ch (ev_plugin (window_run (before1 @ Served (CallState ch (Some d)) # ws1) e1)) =
    shared ch (ev_plugin (window_run (before2 @ Served (CallState ch (Some d)) # ws2) e2))"
  using snapshot_then [OF assms(1,3)] snapshot_then [OF assms(2), of ch ws2 d before2] assms(3,4) by simp

definition dm_meta :: event_meta where
  "dm_meta = \<lparr>em_data_channel = ''dm'', em_broadcast_channel = [], em_broadcast_user = []\<rparr>"

definition dm_call :: call_data where
  "dm_call = \<lparr>cd_id = ''k'', cd_start_at = 7, cd_owner_id = ''me'', cd_thread_id = ''t'', cd_host_id = ''me'',
     cd_recording = None, cd_live_captions = None, cd_screen_sharing_session_id = [],
     cd_dismissed_notification = None,
     cd_sessions = [\<lparr>ss_session_id = ''s'', ss_user_id = ''me'', ss_unmuted = False, ss_raised_hand = 0,
       ss_video = Some False\<rparr>]\<rparr>"

lemma sample_window_ok: "window_ok sample_env"
  using sample_batch by (simp add: window_ok_def client_in_channel_def sample_env_def)

theorem windows_converge_witness:
  "shared ''dm'' (ev_plugin (window_run ([] @ Served (CallState ''dm'' (Some dm_call)) #
     [Served (UserUnmuted dm_meta ''me'' ''s''), Served (UserJoined dm_meta ''you'' ''z'')]) sample_env)) =
   shared ''dm'' (ev_plugin (window_run ([Served (UserJoined dm_meta ''you'' ''y'')] @
     Served (CallState ''dm'' (Some dm_call)) # [Served (UserUnmuted dm_meta ''me'' ''s''),
       Fired (5100, TDispatch (USER_JOINED_TIMEOUT ''dm'' ''you'')), Served (UserJoined dm_meta ''you'' ''z'')]) sample_env))"
  by (rule windows_converge [OF sample_window_ok sample_window_ok])
    (simp_all add: timely_def dm_meta_def event_channel_def str_or_def attends_def snapshot_def dm_call_def
      attending_def nobody_def)

theorem store_follows_server_witness:
  "sh_sharer (shared ''dm'' (ev_plugin (window_run [Served (UserJoined dm_meta ''you'' ''y''),
     Served (UserScreenOn dm_meta ''y'')] sample_env))) = Some ''y''"
proof -
  have "timely_run ''dm'' (served [Served (UserJoined dm_meta ''you'' ''y''), Served (UserScreenOn dm_meta ''y'')])
      (shared ''dm'' (ev_plugin sample_env))"
    by (simp add: timely_def dm_meta_def)
  from store_follows_server [OF sample_window_ok this] show ?thesis
    by (simp add: follow_def dm_meta_def event_channel_def str_or_def share_def)
qed

end
