(* ===== verification/PageConvergence.thy ===== *)
theory PageConvergence imports Convergence Standalone begin

text \<open>
  The standalone pages follow the server too. Their handlers are those of the plugin with other
  listeners on the client (\<open>standalone/src/init.ts\<close>), so what the recorder records is the call that the
  participants see.
\<close>

section \<open>Listeners that leave the call alone\<close>

abbreviation page_shared :: "string \<Rightarrow> standalone \<Rightarrow> shared_call" where
  "page_shared ch p \<equiv> shared ch (ev_plugin (sp_env p))"

text \<open>
  What the listeners on a client must promise beyond leaving other channels alone: a call that closes
  changes nothing of what the server said of it, and none of them replaces the client or sets a timer of its own.
\<close>

locale quiet_listeners = client_listeners +
  assumes close_quiet: "page_shared ch (listen (CClose err) p) = page_shared ch p"
    and listen_kept: "kept e (sp_env p) \<Longrightarrow> kept e (sp_env (listen ev p))"
    and listen_socket: "sp_socket (listen ev p) = sp_socket p"
begin

lemma fold_kept: "kept e (sp_env p) \<Longrightarrow> kept e (sp_env (fold listen evs p))"
  by (induction evs arbitrary: p) (simp_all add: listen_kept)

lemma fold_socket: "sp_socket (fold listen evs p) = sp_socket p"
  by (induction evs arbitrary: p) (simp_all add: listen_socket)

lemma call_kept:
  assumes "\<And>c. cc_channelID (f c) = cc_channelID c" "kept e (sp_env p)"
  shows "kept e (sp_env (client_call_on listen f p))"
proof (cases "ev_client (sp_env p)")
  case (Some c)
  with assms have "kept e (sp_env (on_page (\<lambda>e. e\<lparr>ev_client := Some (f c)\<rparr>) p))" by (auto simp: kept_def)
  from fold_kept [OF this] Some show ?thesis by (simp add: client_call_on_def)
qed (use assms in \<open>simp add: client_call_on_def\<close>)

lemma call_socket: "sp_socket (client_call_on listen f p) = sp_socket p"
  by (simp add: client_call_on_def fold_socket split: option.split)

lemma disconnect_quiet: "page_shared ch (client_call_on listen (disconnect err) p) = page_shared ch p"
  by (cases "ev_client (sp_env p)") (auto simp: client_call_on_def disconnect_emits close_quiet)

lemma unshare_quiet: "page_shared ch (client_call_on listen unshareScreen p) = page_shared ch p"
  by (cases "ev_client (sp_env p)") (simp_all add: client_call_on_def host_command_emits)

lemma callEnd_here: "page_shared ch (callEnd_on listen ch p) = over_call (page_shared ch p)"
  by (rule shared_eqI)
    (use disconnect_quiet [of ch None p] in \<open>auto simp: callEnd_on_def Let_def over_call_def shared_def\<close>)

lemma userLeft_here: "page_shared ch (userLeft_on listen ch u s p) = depart s (page_shared ch p)"
proof -
  let ?p1 = "on_page (dispatch (USER_LEFT ch u s)) p"
  let ?y = "page_shared ch ?p1"
  have "userLeft_on listen ch u s p =
      (if case sh_sessions ?y of None \<Rightarrow> True | Some m \<Rightarrow> m = nobody then callEnd_on listen ch ?p1 else ?p1)"
    by (simp only: userLeft_on_def Let_def sessions_left_empty getState_fields shared_call_fields)
  then have "page_shared ch (userLeft_on listen ch u s p) =
      (if case sh_sessions ?y of None \<Rightarrow> True | Some m \<Rightarrow> m = nobody then over_call ?y else ?y)"
    by (simp only: callEnd_here if_distrib [where f = "page_shared ch"])
  also have "\<dots> = depart s (page_shared ch p)"
    by (rule depart_last [symmetric]) (simp only: on_page_fields dispatch_fields session_gone shared_call_fields)
  finally show ?thesis .
qed

lemma removed_quiet:
  "page_shared ch (hostRemoved_on listen ch' s call u p) = page_shared ch p"
  "page_shared ch (userRemoved_on listen c u r m p) = page_shared ch p"
proof -
  have "shared ch (ev_plugin (handleHostRemoved ch' s call u (sp_env p))) = page_shared ch p"
    if "\<not> is_my_session s (sp_env p)"
    using that by (auto intro!: shared_eqI simp: handleHostRemoved_def Let_def split: option.splits)
  then show "page_shared ch (hostRemoved_on listen ch' s call u p) = page_shared ch p"
    by (simp add: hostRemoved_on_def disconnect_quiet)
qed (simp add: userRemoved_on_def Let_def disconnect_quiet)

lemma event_here:
  assumes "event_target ev = Some ch" "window_ok (sp_env p)" "timely ch ev (page_shared ch p)"
  shows "page_shared ch (server_event_on listen ev p) = follow ch ev (page_shared ch p)"
proof (cases ev)
  case (CallEnd m)
  with assms(1) show ?thesis by (simp add: callEnd_here follow_def)
next
  case (UserLeft m u s)
  with assms(1) show ?thesis by (simp add: userLeft_here follow_def)
next
  case (HostScreenOff c s)
  then show ?thesis by (simp add: hostScreenOff_on_def unshare_quiet follow_def)
next
  case (UserRemoved c u r m)
  then show ?thesis by (simp add: removed_quiet follow_def)
next
  case (HostRemovedUser c s k u)
  then show ?thesis by (simp add: removed_quiet follow_def)
qed (use assms event_follows [OF assms(2,3)] in \<open>simp_all add: timely_def follow_def\<close>)

lemma event_follows_on:
  assumes "window_ok (sp_env p)" "timely ch ev (page_shared ch p)"
  shows "page_shared ch (server_event_on listen ev p) = follow ch ev (page_shared ch p)"
proof (cases "event_target ev = Some ch")
  case False
  with assms(1) event_local [of p ev ch] show ?thesis
    by (auto simp: follow_def window_ok_def dest: shared_view)
qed (use assms in \<open>simp add: event_here\<close>)

lemma hosts_keep:
  assumes "kept e (sp_env p)"
  shows "kept e (sp_env (callEnd_on listen ch p))"
    "kept e (sp_env (userLeft_on listen ch u s p))"
    "kept e (sp_env (userRemoved_on listen ch u r m p))"
    "kept e (sp_env (hostMute_on listen ch s p))"
    "kept e (sp_env (hostScreenOff_on listen ch s p))"
    "kept e (sp_env (hostLowerHand_on listen ch s k h p))"
    "kept e (sp_env (hostRemoved_on listen ch s k u p))"
proof -
  have c: "kept e (sp_env (callEnd_on listen ch q))" if "kept e (sp_env q)" for q
    using that by (simp add: callEnd_on_def Let_def call_kept)
  from c assms show "kept e (sp_env (callEnd_on listen ch p))"
    and "kept e (sp_env (userLeft_on listen ch u s p))"
    by (simp_all add: userLeft_on_def Let_def)
qed (use assms in \<open>simp_all add: userRemoved_on_def hostMute_on_def hostScreenOff_on_def hostLowerHand_on_def
    hostRemoved_on_def handleHostRemoved_def Let_def call_kept host_command_emits split: option.split\<close>)

lemma event_kept_on:
  assumes "kept e (sp_env p)"
  shows "kept e (sp_env (server_event_on listen ev p))"
proof (cases ev)
  case (HostRemovedUser c s k u)
  with hosts_keep(7) [OF assms] show ?thesis by simp
qed (use hosts_keep [OF assms] kept_trans [OF assms event_kept, of ev] assms in simp_all)

lemma events_socket: "sp_socket (server_event_on listen ev p) = sp_socket p"
proof -
  have c: "sp_socket (callEnd_on listen ch q) = sp_socket q" for ch q
    by (simp add: callEnd_on_def Let_def call_socket)
  then show ?thesis
    by (cases ev) (simp_all add: userLeft_on_def userRemoved_on_def hostMute_on_def hostScreenOff_on_def
        hostLowerHand_on_def hostRemoved_on_def Let_def call_socket)
qed

end

lemma closeCb_quiet [simp]:
  "page_shared ch (closeCb k err p) = page_shared ch p" "sp_socket (closeCb k err p) = sp_socket p"
  "kept e (sp_env p) \<Longrightarrow> kept e (sp_env (closeCb k err p))"
  by (auto simp: closeCb_def deinitWidget_def deinitRecording_def drop_client_def Let_def kept_def
      split: page_kind.split option.split)

lemma page_closed_quiet:
  "page_shared ch (page_closed k err p) = page_shared ch p" "sp_socket (page_closed k err p) = sp_socket p"
  "kept e (sp_env p) \<Longrightarrow> kept e (sp_env (page_closed k err p))"
  by (auto intro!: shared_eqI simp: page_closed_def Let_def setClientConnecting_def localSessionClose_def
      split: option.split)

interpretation page_calls: quiet_listeners "page_listener k" for k
proof
  fix p :: standalone and ch err e ev
  show "page_shared ch (page_listener k (CClose err) p) = page_shared ch p"
    by (simp add: page_closed_quiet)
  show "kept e (sp_env p) \<Longrightarrow> kept e (sp_env (page_listener k ev p))"
    by (cases ev) (simp_all add: page_closed_quiet setClientConnecting_def self_event_def)
  show "sp_socket (page_listener k ev p) = sp_socket p"
    by (cases ev) (simp_all add: page_closed_quiet)
qed

interpretation plugin_call: quiet_listeners plugin_listener
proof
  fix p :: standalone and ch err e ev
  show "page_shared ch (plugin_listener (CClose err) p) = page_shared ch p"
    by (auto intro!: shared_eqI simp: plugin_listener_def on_client_close_def Let_def split: option.split)
  show "kept e (sp_env p) \<Longrightarrow> kept e (sp_env (plugin_listener ev p))"
    by (simp add: plugin_listener_def)
  show "sp_socket (plugin_listener ev p) = sp_socket p"
    by (simp add: plugin_listener_def)
qed

section \<open>A page\<close>

text \<open>What happens on a page: a message, a timer of a handler or of \<open>deinitWidget\<close>, pictures that arrive.\<close>

datatype page_input =
    Received page_message
  | Elapsed "int \<times> task"
  | Gone int
  | Pictures string "string list" "(string \<times> (error + string)) list"

definition page_fire :: "int \<times> task \<Rightarrow> env \<Rightarrow> env" where
  "page_fire t e = (if t \<in> set (ev_timers e) then fire_timer t e else e)"

fun page_step :: "page_kind \<Rightarrow> query \<Rightarrow> page_input \<Rightarrow> standalone \<Rightarrow> standalone" where
  "page_step k q (Received m) p = page_message k q m p"
| "page_step k q (Elapsed t) p = on_page (page_fire t) p"
| "page_step k q (Gone t) p = (if t \<in> set (sp_closing p) then deinitWidget_timer t p else p)"
| "page_step k q (Pictures ch ids rs) p = images_fetched ch ids rs p"

definition page_run :: "page_kind \<Rightarrow> query \<Rightarrow> page_input list \<Rightarrow> standalone \<Rightarrow> standalone" where
  "page_run k q vs p = fold (page_step k q) vs p"

fun received :: "page_input list \<Rightarrow> server_event list" where
  "received [] = []"
| "received (Received (Event ev) # vs) = ev # received vs"
| "received (v # vs) = received vs"

definition page_ok :: "standalone \<Rightarrow> bool" where
  "page_ok p \<longleftrightarrow> window_ok (sp_env p) \<and> sp_socket p"

lemma images_quiet [simp]:
  "sp_env (ask_images ch ids p) = sp_env p" "sp_socket (ask_images ch ids p) = sp_socket p"
  "sp_env (images_fetched ch ids rs p) = sp_env p" "sp_socket (images_fetched ch ids rs p) = sp_socket p"
  by (simp_all add: ask_images_def images_fetched_def)

text \<open>Beside the handlers, the recording page asks for pictures, and ends with its own job.\<close>

lemma recording_handler_quiet:
  "page_shared ch (wsHandlerRecording j m p) = page_shared ch p"
  "sp_socket (wsHandlerRecording j m p) = sp_socket p"
  "kept e (sp_env p) \<Longrightarrow> kept e (sp_env (wsHandlerRecording j m p))"
  by (induction j m p rule: wsHandlerRecording.induct)
    (simp_all add: page_call_def page_calls.disconnect_quiet page_calls.call_socket page_calls.call_kept
      split: option.splits)

lemma message_quiet:
  assumes "\<And>ev. m \<noteq> Event ev"
  shows "page_shared ch (page_message k q m p) = page_shared ch p"
  using assms by (cases m) (auto simp: page_message_def wsEventHandler_def Let_def page_call_def
      page_calls.disconnect_quiet split: page_kind.split)

lemma message_event:
  assumes "page_ok p" "timely ch ev (page_shared ch p)"
  shows "page_shared ch (page_message k q (Event ev) p) = follow ch ev (page_shared ch p)"
  using assms page_calls.event_follows_on [of p ch ev k]
  by (cases k) (simp_all add: page_message_def wsEventHandler_def Let_def recording_handler_quiet page_ok_def)

lemma switch_kept:
  "kept e (sp_env p) \<Longrightarrow> kept e (sp_env (page_switch k m p))" "sp_socket (page_switch k m p) = sp_socket p"
  by (cases m; simp add: page_calls.event_kept_on page_calls.events_socket)+

lemma page_kept: "page_ok p \<Longrightarrow> page_ok (page_step k q v p)"
proof (cases v)
  case (Received m)
  have "kept (sp_env p) (sp_env (page_step k q v p))" "sp_socket (page_step k q v p) = sp_socket p"
    by (simp_all add: Received page_message_def wsEventHandler_def Let_def recording_handler_quiet switch_kept
        split: page_kind.split)
  then show "page_ok p \<Longrightarrow> page_ok (page_step k q v p)" by (auto simp: page_ok_def dest: kept_ok)
next
  case (Elapsed t)
  then show "page_ok p \<Longrightarrow> page_ok (page_step k q v p)"
    by (auto simp: page_ok_def page_fire_def on_page_def intro: kept_ok [OF fire_kept])
next
  case (Gone t)
  have "kept (sp_env p) (drop_client (sp_env p))" by (simp add: drop_client_def kept_def)
  with Gone show "page_ok p \<Longrightarrow> page_ok (page_step k q v p)"
    by (auto simp: page_ok_def deinitWidget_timer_def dest: kept_ok)
qed (auto simp: page_ok_def)

lemma page_run_ok: "page_ok p \<Longrightarrow> page_ok (page_run k q vs p)"
  unfolding page_run_def by (induction vs arbitrary: p) (simp_all add: page_kept)

text \<open>What is not an event leaves the call as it is.\<close>

lemma step_quiet:
  assumes "page_ok p" "\<And>ev. v \<noteq> Received (Event ev)"
  shows "page_shared ch (page_step k q v p) = page_shared ch p"
proof (cases v)
  case (Received m)
  with assms(2) show ?thesis by (simp add: message_quiet)
next
  case (Elapsed t)
  with assms(1) show ?thesis by (simp add: page_fire_def page_ok_def timer_follows)
qed (simp_all add: deinitWidget_timer_def drop_client_def)

lemma page_follows:
  assumes "page_ok p" "timely_run ch (received vs) (page_shared ch p)"
  shows "page_shared ch (page_run k q vs p) = fold (follow ch) (received vs) (page_shared ch p)"
  using assms unfolding page_run_def
proof (induction vs arbitrary: p)
  case (Cons v vs)
  note IH = Cons.IH [OF page_kept [OF Cons.prems(1), where v = v and k = k and q = q]]
  show ?case
  proof (cases "\<exists>ev. v = Received (Event ev)")
    case True
    with Cons.prems IH show ?thesis by (auto simp: message_event)
  next
    case False
    then have "received (v # vs) = received vs" by (cases "v # vs" rule: received.cases) auto
    moreover have "page_shared ch (page_step k q v p) = page_shared ch p"
      using False by (intro step_quiet [OF Cons.prems(1)]) blast
    ultimately show ?thesis using IH Cons.prems(2) by simp
  qed
qed simp

section \<open>Properties\<close>

text \<open>
  C4. The recording shows the participants' call: once a standalone page and a window of the web application have
  each received the state of a call, and the same events after it, they show the same call, whatever came before and
  whichever timers fire, pictures arrive and messages of its own job reach the page meanwhile.\<close>
theorem page_shows_the_call:
  assumes "window_ok e" "page_ok p" "timely_run ch (served ws) (snapshot ch d)" "received vs = served ws"
  shows "page_shared ch (page_run k q (before @ Received (Event (CallState ch (Some d))) # vs) p) =
    shared ch (ev_plugin (window_run (earlier @ Served (CallState ch (Some d)) # ws) e))"
proof -
  let ?p = "page_run k q before p"
  let ?p1 = "page_step k q (Received (Event (CallState ch (Some d)))) ?p"
  have ok: "page_ok ?p" by (rule page_run_ok [OF assms(2)])
  then have "page_shared ch ?p1 = snapshot ch d"
    using message_event [OF ok, of ch "CallState ch (Some d)" k q] by (simp add: timely_def follow_def)
  with page_follows [OF page_kept [OF ok], of ch vs k q "Received (Event (CallState ch (Some d)))" k q] assms(3,4)
  have p: "page_shared ch (page_run k q vs ?p1) = fold (follow ch) (served ws) (snapshot ch d)" by simp
  from assms(1,3) have "shared ch (ev_plugin (window_run (earlier @ Served (CallState ch (Some d)) # ws) e)) =
      fold (follow ch) (served ws) (snapshot ch d)"
    by (rule snapshot_then)
  with p show ?thesis by (simp add: page_run_def)
qed

lemma sample_page_ok: "page_ok (sample_standalone\<lparr>sp_socket := True\<rparr>)"
  using sample_window_ok by (simp add: page_ok_def sample_standalone_def)

theorem page_shows_the_call_witness:
  "page_shared ''dm'' (page_run RecordingPage [(''job_id'', ''j'')]
     ([] @ Received (Event (CallState ''dm'' (Some dm_call))) #
       [Received (Event (UserUnmuted dm_meta ''me'' ''s'')), Pictures ''dm'' [''me''] [],
        Received (Event (UserJoined dm_meta ''you'' ''z'')), Received (JobStop ''j'')])
     (sample_standalone\<lparr>sp_socket := True\<rparr>)) =
   shared ''dm'' (ev_plugin (window_run ([Served (UserJoined dm_meta ''you'' ''y'')] @
     Served (CallState ''dm'' (Some dm_call)) # [Served (UserUnmuted dm_meta ''me'' ''s''),
       Fired (5100, TDispatch (USER_JOINED_TIMEOUT ''dm'' ''you'')), Served (UserJoined dm_meta ''you'' ''z'')]) sample_env))"
  by (rule page_shows_the_call [OF sample_window_ok sample_page_ok])
    (simp_all add: timely_def dm_meta_def event_channel_def str_or_def attends_def snapshot_def dm_call_def
      attending_def nobody_def)

end
