(* ===== verification/HostCalls.thy ===== *)
theory HostCalls imports Plugin begin

text \<open>
  Where the web application calls the browser and the host application and acts on what comes back:
  the requests for a screen, sounds, messages to the desktop app, translations and durations
  (\<open>utils.ts\<close>), requests for the configuration, for threads and for statistics (\<open>actions.ts\<close>), the
  mounting of the widget (\<open>index.tsx\<close>) and the timer of \<open>timestamp.tsx\<close>. What the other side answers is an argument.
\<close>

section \<open>The stream of a screen\<close>

text \<open>Electron is told the source; the browser asks the user itself.\<close>

datatype media_request =
    DesktopMedia "string option" bool \<comment> \<open>\<open>chromeMediaSourceId\<close>, with audio\<close>
  | DisplayMedia bool

definition screen_media_request :: "bool \<Rightarrow> string option \<Rightarrow> bool option \<Rightarrow> media_request" where
  "screen_media_request has_desktop sourceID withAudio =
     (if has_desktop
      then DesktopMedia (if str_of sourceID = [] then None else sourceID) (truthy_bool withAudio)
      else DisplayMedia (truthy_bool withAudio))"

definition getScreenStream ::
  "(media_request \<Rightarrow> error + stream) \<Rightarrow> bool \<Rightarrow> string option \<Rightarrow> bool option \<Rightarrow> stream option" where
  "getScreenStream answer has_desktop sourceID withAudio =
     (case answer (screen_media_request has_desktop sourceID withAudio) of
        Inl err \<Rightarrow> None | Inr s \<Rightarrow> Some s)"

text \<open>Sound is asked for exactly when the caller wants it, on the desktop and in the browser.\<close>

fun asks_audio :: "media_request \<Rightarrow> bool" where
  "asks_audio (DesktopMedia src a) = a"
| "asks_audio (DisplayMedia a) = a"

lemma screen_audio: "asks_audio (screen_media_request d src a) \<longleftrightarrow> a = Some True"
  by (cases a) (auto simp: screen_media_request_def truthy_bool_def)

section \<open>Sounds\<close>

record audio_element =
  au_src :: string
  au_attached :: bool

definition sound_source :: "string \<Rightarrow> string option" where
  "sound_source name =
     (if name = ''leave_self'' then Some ''sounds/leave_self.mp3''
      else if name = ''join_self'' then Some ''sounds/join_self.mp3''
      else if name = ''join_user'' then Some ''sounds/join_user.mp3''
      else None)"

definition playSound :: "string \<Rightarrow> audio_element option" where
  "playSound name = map_option (\<lambda>src. \<lparr>au_src = src, au_attached = True\<rparr>) (sound_source name)"

definition audio_ended :: "audio_element \<Rightarrow> audio_element" where
  "audio_ended a = a\<lparr>au_src := [], au_attached := False\<rparr>"

text \<open>The handlers play sounds that there are, so \<open>playSound\<close> never has to log an unknown one.\<close>

definition has_sound :: "string \<Rightarrow> bool" where
  "has_sound n \<longleftrightarrow> playSound n \<noteq> None"

definition sounds_known :: "env \<Rightarrow> bool" where
  "sounds_known e \<longleftrightarrow> (\<forall>n. EPlaySound n \<in> set (ev_effects e) \<longrightarrow> has_sound n)"

lemma sounds_steps [simp]:
  "sounds_known (dispatch a e) = sounds_known e" "sounds_known (setTimeout t d e) = sounds_known e"
  "sounds_known (await k e) = sounds_known e" "sounds_known (draw_id e) = sounds_known e"
  "sounds_known (dispatch_batch as e) = sounds_known e"
  "sounds_known (e\<lparr>ev_client := c\<rparr>) = sounds_known e"
  "sounds_known (effect x e) \<longleftrightarrow> sounds_known e \<and> (\<forall>n. x = EPlaySound n \<longrightarrow> has_sound n)"
  by (auto simp: sounds_known_def dispatch_batch_def)

lemma playSound_known [simp]:
  "has_sound ''leave_self''" "has_sound ''join_self''" "has_sound ''join_user''"
  by (simp_all add: has_sound_def playSound_def sound_source_def)

lemma sounds_close [simp]: "sounds_known e \<Longrightarrow> sounds_known (on_client_close err e)"
  by (auto simp: on_client_close_def Let_def sounds_known_def split: option.splits)

lemma sounds_client_events: "sounds_known e \<Longrightarrow> sounds_known (fold on_client_event vs e)"
proof (induction vs arbitrary: e)
  case (Cons v vs)
  then have "sounds_known (on_client_event v e)" by (cases v) (simp_all add: self_event_def)
  with Cons.IH show ?case by simp
qed simp

lemma sounds_client_call [simp]: "sounds_known e \<Longrightarrow> sounds_known (client_call f e)"
  by (simp add: client_call_def sounds_client_events split: option.split)

lemma sounds_thunks [simp]:
  "sounds_known e \<Longrightarrow> sounds_known (disconnect_client err e)"
  "sounds_known e \<Longrightarrow> sounds_known (removeIncomingCallNotification k e)"
  "sounds_known e \<Longrightarrow> sounds_known (loadProfilesByIdsIfMissing ids e)"
  "sounds_known e \<Longrightarrow> sounds_known (incomingCallOnChannel c k u s e)"
  "sounds_known e \<Longrightarrow> sounds_known (followThread c t e)"
  "sounds_known e \<Longrightarrow> sounds_known (show_notice n e)"
  by (simp_all add: disconnect_client_def removeIncomingCallNotification_def
      stopRingingForCall_def loadProfilesByIdsIfMissing_def incomingCallOnChannel_def incoming_with_channel_def
      add_incoming_def followThread_def show_notice_def Let_def split: option.splits)

lemma sounds_callEnd [simp]: "sounds_known e \<Longrightarrow> sounds_known (callEnd c e)"
  by (simp add: callEnd_def Let_def)

lemma event_sounds: "sounds_known e \<Longrightarrow> sounds_known (handle_event ev e)"
  by (cases ev) (simp_all add: handleCallEnd_def handleUserLeft_def userLeft_def handleUserJoined_def
      handleCallStart_def handleCallState_def loadCallState_def handleUserRemovedFromChannel_def
      handleUserMuted_def handleUserUnmuted_def handleUserVoiceOn_def handleUserVoiceOff_def
      handleUserScreenOn_def handleUserScreenOff_def handleUserRaisedHand_def handleUserUnraisedHand_def
      handleUserVideoOn_def handleUserVideoOff_def handleUserReaction_def handleCaption_def
      handleCallHostChanged_def handleCallJobState_def handleUserDismissedNotification_def
      handleHostMute_def handleHostScreenOff_def handleHostLowerHand_def handleHostRemoved_def Let_def
      split: option.splits)

section \<open>Messages to the desktop app\<close>

text \<open>A message to the window that has the calls client, for the same origin only.\<close>

record posted =
  po_type :: string
  po_data :: "(string, string) obj"
  po_origin :: string

definition sendDesktopEvent :: "string \<Rightarrow> string \<Rightarrow> (string, string) obj \<Rightarrow> posted" where
  "sendDesktopEvent origin event data = \<lparr>po_type = event, po_data = data, po_origin = origin\<rparr>"

datatype error_report = ReportByApi string "string option" "string option" | ReportByMessage posted

definition optional_field :: "string \<Rightarrow> string option \<Rightarrow> (string, string) obj" where
  "optional_field k v = (case v of None \<Rightarrow> [] | Some x \<Rightarrow> [(k, x)])"

definition sendDesktopError ::
  "bool \<Rightarrow> string \<Rightarrow> string option \<Rightarrow> string option \<Rightarrow> error_report" where
  "sendDesktopError has_api origin channelID errMsg =
     (if has_api then ReportByApi ''client-error'' channelID errMsg
      else ReportByMessage (sendDesktopEvent origin ''calls-error''
        ((''err'', ''client-error'') # optional_field ''callID'' channelID @ optional_field ''errMsg'' errMsg)))"

text \<open>How \<open>windowEventHandler\<close> reads such a message.\<close>

definition read_error :: "posted \<Rightarrow> window_message" where
  "read_error m =
     (if po_type m = ''calls-error''
      then MCallsError (str_of (obj_get (po_data m) ''err'')) (str_of (obj_get (po_data m) ''errMsg''))
        (str_of (obj_get (po_data m) ''callID''))
      else MOther)"

text \<open>
  Whichever way an error of the desktop widget travels, the main window shows the same dialog and
  ends the attempt to connect.\<close>
theorem widget_errors_arrive:
  assumes "sendDesktopError has_api origin (Some ch) (Some err) = r"
  shows "(case r of
      ReportByApi ty c msg \<Rightarrow> onCallsError ty c e
    | ReportByMessage m \<Rightarrow> fst (windowEventHandler (h\<lparr>hw_onCallsError := has_api\<rparr>) ans True (read_error m) e)) =
    displayCallErrorModal (Some ch) (setClientConnecting False e)"
  using assms
  by (auto simp: sendDesktopError_def sendDesktopEvent_def read_error_def optional_field_def
      windowEventHandler_def onCallsError_def Let_def obj_get_Cons)

theorem widget_errors_arrive_witness:
  "fst (windowEventHandler ((sample_window True)\<lparr>hw_onCallsError := False\<rparr>) ans True
     (read_error (sendDesktopEvent ''o'' ''calls-error'' [(''err'', ''client-error''), (''callID'', ''dm''), (''errMsg'', ''x'')]))
     sample_env) = displayCallErrorModal (Some ''dm'') (setClientConnecting False sample_env)"
  using widget_errors_arrive [of False "''o''" "''dm''" "''x''" _ sample_env "sample_window True" ans, OF refl]
  by (simp add: sendDesktopError_def optional_field_def)

section \<open>Translations\<close>

text \<open>The bundle has a file per locale; a missing one is logged and nothing is translated.\<close>

definition getTranslations :: "(string \<Rightarrow> (string, string) obj option) \<Rightarrow> string \<Rightarrow> (string, string) obj" where
  "getTranslations bundle locale = obj_or_empty (bundle (''../i18n/'' @ translation_locale locale @ ''.json''))"

section \<open>Durations\<close>

text \<open>
  \<open>toHuman\<close>: the date library splits the milliseconds over the units (\<open>shiftTo\<close>) and prints what is
  left, the units from the largest to \<open>smallestUnit\<close> that are not zero.
\<close>

definition human_units :: "string list" where
  "human_units = [''years'', ''months'', ''days'', ''hours'', ''minutes'', ''seconds'', ''milliseconds'']"

datatype human_duration = AFewSeconds | InUnits "(string \<times> int) list"

fun keep_units :: "string \<Rightarrow> (string \<times> int) list \<Rightarrow> (string \<times> int) list" where
  "keep_units smallest [] = []"
| "keep_units smallest ((u, n) # us) =
     (if n > 0 then [(u, n)] else []) @ (if u = smallest then [] else keep_units smallest us)"

definition toHuman :: "(int \<Rightarrow> int list) \<Rightarrow> int \<Rightarrow> string \<Rightarrow> human_duration" where
  "toHuman shiftTo dur smallestUnit =
     (if dur < aFewSecondsThreshold then AFewSeconds
      else
        let d = (if dur < 60 * 1000 then 60 * 1000 else dur);
            entries = (if smallestUnit \<in> set human_units
                       then keep_units smallestUnit (zip human_units (shiftTo d)) else [])
        in InUnits (if entries = [] then [(smallestUnit, 0)] else entries))"

lemma human_not_empty: "toHuman shiftTo dur u \<noteq> InUnits []"
  by (simp add: toHuman_def Let_def)

lemma human_minute: "44000 \<le> dur \<Longrightarrow> dur < 60000 \<Longrightarrow> toHuman shiftTo dur u = toHuman shiftTo 60000 u"
  by (simp add: toHuman_def aFewSecondsThreshold_def)

section \<open>Requests\<close>

text \<open>
  The thunks that \<open>bindClientFunc\<close> of the host application makes: a request, whose answer is
  dispatched, and nothing of the plugin's when it fails.
\<close>

definition getCallsConfig :: "env \<Rightarrow> env" where
  "getCallsConfig = effect (EFetch ''get'' ''/config'' [])"

definition getCallsConfigEnvOverrides :: "env \<Rightarrow> env" where
  "getCallsConfigEnvOverrides = effect (EFetch ''get'' ''/env'' [])"

definition getCallsVersionInfo :: "env \<Rightarrow> env" where
  "getCallsVersionInfo = effect (EFetch ''get'' ''/version'' [])"

definition fetched_info :: "('a \<Rightarrow> action) \<Rightarrow> error + 'a \<Rightarrow> env \<Rightarrow> env" where
  "fetched_info mk answer e = (case answer of Inl err \<Rightarrow> e | Inr x \<Rightarrow> dispatch (mk x) e)"

definition getCallsStats :: "env \<Rightarrow> env" where
  "getCallsStats = effect (EFetch ''get'' ''/stats'' [])"

definition selectRHSPost :: "bool \<Rightarrow> string \<Rightarrow> env \<Rightarrow> env" where
  "selectRHSPost has_ProductApi postID e = (if has_ProductApi then effect (ESelectPost postID) e else e)"

definition openCallsUserSettings :: "bool \<Rightarrow> bool \<Rightarrow> env \<Rightarrow> env" where
  "openCallsUserSettings has_WebappUtils has_openUserSettings e =
     (if has_WebappUtils \<and> has_openUserSettings then effect EOpenSettings e else e)"

text \<open>A thread that the store has is not asked for; another one is, for the current user and team.\<close>

datatype 'a prefetch = Data "'a option" | FetchThread string string string

definition prefetchThread :: "(string, 'a) obj \<Rightarrow> string \<Rightarrow> env \<Rightarrow> 'a prefetch" where
  "prefetchThread threads postId e =
     (case obj_get threads postId of
        Some t \<Rightarrow> Data (Some t)
      | None \<Rightarrow> FetchThread (mm_currentUserID (ev_mm e)) (mm_currentTeamID (ev_mm e)) postId)"

definition thread_fetched :: "'a option \<Rightarrow> 'a prefetch" where
  "thread_fetched data = Data data"

text \<open>Together they are what the activation of the plugin makes of the answers.\<close>

definition answer_of :: "error + 'a \<Rightarrow> 'a option" where
  "answer_of a = (case a of Inl err \<Rightarrow> None | Inr x \<Rightarrow> Some x)"

lemma fetched_some: "fetched_info mk a e = dispatch_some mk (answer_of a) e"
  by (simp add: fetched_info_def dispatch_some_def answer_of_def split: sum.split)

lemma activation_fetches:
  "mm_currentUserID (ev_mm e) \<noteq> [] \<Longrightarrow> activate_requests (answer_of c) (answer_of v) (answer_of o1) e =
     (let e2 = fetched_info RECEIVED_CALLS_VERSION_INFO v (fetched_info RECEIVED_CALLS_CONFIG c e)
      in if mm_isCurrentUserSystemAdmin (ev_mm e)
         then fetched_info RECEIVED_CALLS_CONFIG_ENV_OVERRIDES o1 e2 else e2)"
  by (simp add: activate_requests_def fetched_some Let_def)

section \<open>The widget in the page\<close>

text \<open>
  What \<open>connectCall\<close> shows of a call: the widget in its element, when the page has one, with the
  translations of the user's locale, and in an old desktop app the expanded view as a root component.
\<close>

record widget_mount =
  wm_root :: "(string \<times> (string, string) obj) option"
  wm_component :: "string option" \<comment> \<open>\<open>rootComponentID\<close>\<close>
  wm_registered :: "string list" \<comment> \<open>the host's root components\<close>

definition mount_call ::
  "(string \<Rightarrow> (string, string) obj option) \<Rightarrow> bool \<Rightarrow> bool \<Rightarrow> string \<Rightarrow> string \<Rightarrow> widget_mount \<Rightarrow> widget_mount" where
  "mount_call bundle has_element has_desktop userLocale component w =
     (let locale = str_or userLocale ''en''
      in w\<lparr>wm_root := (if has_element then Some (locale, getTranslations bundle locale) else None),
           wm_component := (if has_desktop then Some component else None),
           wm_registered := wm_registered w @ (if has_desktop then [component] else [])\<rparr>)"

definition unmountCallWidget :: "widget_mount \<Rightarrow> widget_mount" where
  "unmountCallWidget w = w\<lparr>wm_root := None\<rparr>"

definition call_closed :: "bool \<Rightarrow> widget_mount \<Rightarrow> widget_mount" where
  "call_closed has_desktop w =
     (let w1 = unmountCallWidget w
      in if has_desktop then w1\<lparr>wm_registered := removeAll (str_of (wm_component w1)) (wm_registered w1)\<rparr> else w1)"

definition call_init_failed :: "widget_mount \<Rightarrow> widget_mount" where
  "call_init_failed = unmountCallWidget"

text \<open>
  A call that closes leaves the page as it was. When the client's initialisation fails the widget goes, but the
  root component that an old desktop app registered stays.\<close>
theorem mount_is_undone:
  assumes "component \<notin> set (wm_registered w)"
    and "w1 = mount_call bundle has_element has_desktop locale component w"
  shows "wm_root (call_closed has_desktop w1) = None \<and>
    wm_registered (call_closed has_desktop w1) = wm_registered w \<and>
    wm_root (call_init_failed w1) = None \<and>
    wm_registered (call_init_failed w1) = wm_registered w @ (if has_desktop then [component] else [])"
  using assms by (simp add: mount_call_def call_closed_def call_init_failed_def unmountCallWidget_def Let_def)

theorem mount_is_undone_witness:
  "wm_registered (call_init_failed (mount_call (\<lambda>f. None) True True [] ''r''
     \<lparr>wm_root = None, wm_component = None, wm_registered = [''j'']\<rparr>)) = [''j'', ''r'']"
  using mount_is_undone [where w = "\<lparr>wm_root = None, wm_component = None, wm_registered = [''j'']\<rparr>"
      and component = "''r''" and has_desktop = True, OF _ refl] by simp

section \<open>The base address\<close>

record rest_urls =
  ru_rest :: string \<comment> \<open>\<open>RestClient\<close>\<close>
  ru_client4 :: string \<comment> \<open>\<open>Client4\<close>\<close>

definition set_base_url :: "string \<Rightarrow> rest_urls \<Rightarrow> rest_urls" where
  "set_base_url basename u = (if basename \<noteq> [] then \<lparr>ru_rest = basename, ru_client4 = basename\<rparr> else u)"

definition navigateToURL :: "bool \<Rightarrow> string \<Rightarrow> env \<Rightarrow> env" where
  "navigateToURL has_WebappUtils urlPath e = (if has_WebappUtils then effect (ENavigate urlPath) e else e)"

definition getWebappUtils :: "error + 'u option \<Rightarrow> 'u option" where
  "getWebappUtils of_window = (case of_window of Inl err \<Rightarrow> None | Inr u \<Rightarrow> u)"

datatype web_storage = LocalStorage | SessionStorage

definition getPersistentStorage :: "bool \<Rightarrow> web_storage" where
  "getPersistentStorage has_desktop = (if has_desktop then LocalStorage else SessionStorage)"

section \<open>A text that follows the time\<close>

text \<open>
  The effect of \<open>Timestamp\<close> has no dependencies, so every render clears the interval and sets another. The
  browser numbers intervals; one that is set may run.
\<close>

record timestamp =
  ts_intervals :: "(nat \<times> int) list" \<comment> \<open>set and not cleared\<close>
  ts_next :: nat
  ts_timer :: "nat option" \<comment> \<open>of the last render's effect\<close>
  ts_shown :: "string option"

definition timestamp_rendered :: "int \<Rightarrow> string \<Rightarrow> timestamp \<Rightarrow> timestamp" where
  "timestamp_rendered interval text t =
     (let cleared = (case ts_timer t of None \<Rightarrow> ts_intervals t
                     | Some i \<Rightarrow> filter (\<lambda>x. fst x \<noteq> i) (ts_intervals t))
      in \<lparr>ts_intervals = cleared @ [(ts_next t, interval)], ts_next = Suc (ts_next t),
          ts_timer = Some (ts_next t), ts_shown = Some text\<rparr>)"

definition timestamp_unmounted :: "timestamp \<Rightarrow> timestamp" where
  "timestamp_unmounted t =
     t\<lparr>ts_intervals := (case ts_timer t of None \<Rightarrow> ts_intervals t
                     | Some i \<Rightarrow> filter (\<lambda>x. fst x \<noteq> i) (ts_intervals t)), ts_timer := None, ts_shown := None\<rparr>"

text \<open>An interval runs, or the owner draws it again with another function or interval.\<close>

datatype timestamp_event = Ran nat string | Redrawn int string

fun timestamp_step :: "int \<Rightarrow> timestamp_event \<Rightarrow> timestamp \<Rightarrow> timestamp" where
  "timestamp_step interval (Ran i text) t =
     (if i \<in> fst ` set (ts_intervals t) then timestamp_rendered interval text t else t)"
| "timestamp_step interval (Redrawn d text) t = timestamp_rendered d text t"

definition no_timestamp :: timestamp where
  "no_timestamp = \<lparr>ts_intervals = [], ts_next = 0, ts_timer = None, ts_shown = None\<rparr>"

definition one_interval :: "timestamp \<Rightarrow> bool" where
  "one_interval t \<longleftrightarrow> (\<exists>i d. ts_intervals t = [(i, d)] \<and> ts_timer t = Some i \<and> i < ts_next t)"

lemma rendered_one: "one_interval t \<Longrightarrow> one_interval (timestamp_rendered d x t)"
  by (auto simp: one_interval_def timestamp_rendered_def Let_def)

text \<open>
  However often the text is drawn again, a mounted timestamp has one interval, and an unmounted one none.\<close>
theorem timestamp_has_one_interval:
  "one_interval (fold (timestamp_step d) evs (timestamp_rendered d x no_timestamp)) \<and>
   ts_intervals (timestamp_unmounted (fold (timestamp_step d) evs (timestamp_rendered d x no_timestamp))) = []"
proof -
  have "one_interval t \<Longrightarrow> one_interval (fold (timestamp_step d) evs t)" for t
  proof (induction evs arbitrary: t)
    case (Cons ev evs)
    then have "one_interval (timestamp_step d ev t)" by (cases ev) (simp_all add: rendered_one)
    with Cons.IH show ?case by simp
  qed simp
  moreover have "one_interval (timestamp_rendered d x no_timestamp)"
    by (simp add: one_interval_def timestamp_rendered_def no_timestamp_def)
  ultimately have "one_interval (fold (timestamp_step d) evs (timestamp_rendered d x no_timestamp))" by blast
  then show ?thesis by (auto simp: one_interval_def timestamp_unmounted_def)
qed

end
