(* ===== verification/Toolbars.thy ===== *)
theory Toolbars imports ExpandedSteps ExpandedRender Buttons Support "HOL-Library.Multiset" begin

text \<open>
  The bars of buttons under the call widget and under the expanded view, as \<open>render\<close> of both components hands
  them to \<open>WidgetButton\<close> and \<open>ControlsButton\<close>: what each shows, which keys it advertises, and what pressing it
  does. The keys are those of \<open>shortcuts.ts\<close>, so that a key can be compared with the button that
  shows it.
\<close>

section \<open>Buttons\<close>

text \<open>\<open>reverseKeyMappings[scope][action][0]\<close>\<close>

definition first_shortcut :: "bool \<Rightarrow> key_scope \<Rightarrow> string \<Rightarrow> string" where
  "first_shortcut mac scope act =
     (case obj_get (reverseKeyMappings mac scope) act of Some (s # ss) \<Rightarrow> s | _ \<Rightarrow> [])"

definition plain_button :: "string \<Rightarrow> ('e \<Rightarrow> 'e) \<Rightarrow> 'e button_props" where
  "plain_button label f = \<lparr>bp_disabled = False, bp_unavailable = False, bp_onToggle = Some f,
     bp_tooltipText = label, bp_tooltipSubtext = [], bp_shortcut = [], bp_bgColor = [], bp_bgColorHover = [],
     bp_iconFill = [], bp_iconFillHover = [], bp_margin = [], bp_text = []\<rparr>"

definition shown_button :: "string \<Rightarrow> ('e \<Rightarrow> 'e) \<Rightarrow> button_view \<Rightarrow> 'e button_props" where
  "shown_button keys f v = (plain_button (WidgetView.bv_text v) f)\<lparr>
     bp_disabled := WidgetView.bv_disabled v, bp_unavailable := bv_unavailable v,
     bp_onToggle := (if bv_acts v then Some f else None), bp_tooltipSubtext := bv_subtext v,
     bp_shortcut := (if bv_shortcut v then keys else [])\<rparr>"

text \<open>What a button looks like while what it switches is on.\<close>

definition lit :: "bool \<Rightarrow> string \<Rightarrow> string \<Rightarrow> string \<Rightarrow> string \<Rightarrow> 'e button_props \<Rightarrow> 'e button_props" where
  "lit on bg hover fill fillHover b =
     (if on then b\<lparr>bp_bgColor := bg, bp_bgColorHover := hover, bp_iconFill := fill, bp_iconFillHover := fillHover\<rparr>
      else b)"

definition green :: "bool \<Rightarrow> 'e button_props \<Rightarrow> 'e button_props" where
  "green on = lit on ''rgba(61, 184, 135, 0.16)'' ''rgba(61, 184, 135, 0.20)''
     ''rgba(61, 184, 135, 0.80)'' ''rgba(61, 184, 135, 0.80)''"

definition red :: "bool \<Rightarrow> 'e button_props \<Rightarrow> 'e button_props" where
  "red on = lit on ''rgba(var(--dnd-indicator-rgb), 0.16)'' ''rgba(var(--dnd-indicator-rgb), 0.20)''
     ''rgba(var(--dnd-indicator-rgb), 0.80)'' ''var(--dnd-indicator)''"

definition white :: "bool \<Rightarrow> 'e button_props \<Rightarrow> 'e button_props" where
  "white on = lit on ''white'' ''rgba(255, 255, 255, 0.92)'' ''rgba(var(--calls-bg-rgb), 0.80)'' ''var(--calls-bg)''"

definition press :: "'e button_props \<Rightarrow> 'e \<Rightarrow> 'e" where
  "press b e = (if bp_disabled b then e else case bp_onToggle b of None \<Rightarrow> e | Some f \<Rightarrow> f e)"

section \<open>The expanded view\<close>

text \<open>A handler changes the view, and sharing may have to wait for a stream.\<close>

type_synonym xpress = "xs \<times> share_wait"

definition at_once :: "(xs \<Rightarrow> xs) \<Rightarrow> xpress \<Rightarrow> xpress" where
  "at_once f = (\<lambda>(s, wait). (f s, NoShare))"

definition x_participants_tool :: "bool \<Rightarrow> xprops \<Rightarrow> xs \<Rightarrow> xpress button_props" where
  "x_participants_tool mac p s =
     (let open = xv_showParticipantsList (xs_view s)
      in white open ((plain_button (if open then ''Hide participants list'' else ''Show participants list'')
           (at_once (on_view x_onParticipantsListToggle)))
           \<lparr>bp_shortcut := first_shortcut mac Popout ''participants-list-toggle'',
            bp_text := show_nat (length (xp_sessions p))\<rparr>))"

definition x_mute_tool :: "bool \<Rightarrow> xprops \<Rightarrow> xs \<Rightarrow> xpress button_props" where
  "x_mute_tool mac p s =
     green (\<not> x_isMuted p) (shown_button (first_shortcut mac Popout ''mute-unmute'') (at_once (x_onMuteToggle p))
       (x_mute_button (x_isMuted p) (as_alerts (xv_alerts (xs_view s)))))"

text \<open>The camera's stream and its blur are the browser's answer and the stored setting.\<close>

definition x_video_tool ::
  "(string option \<Rightarrow> (stream \<times> string) option) \<Rightarrow> blur \<Rightarrow> xprops \<Rightarrow> xs \<Rightarrow> xpress button_props" where
  "x_video_tool camera b p s =
     green (x_isVideoOn p) (shown_button [] (at_once (x_onVideoToggle camera b p))
       (video_button (x_isVideoOn p) (as_alerts (xv_alerts (xs_view s)))))"

definition x_share_tool :: "xwindow \<Rightarrow> xprops \<Rightarrow> xs \<Rightarrow> xpress button_props" where
  "x_share_tool h p s =
     red (x_sharing p) (shown_button (first_shortcut (xw_mac h) Popout ''share-unshare-screen'')
       (\<lambda>(s, wait). x_onShareScreenToggle h p s) (x_share_button p (xs_view s)))"

definition x_record_tool :: "bool \<Rightarrow> xprops \<Rightarrow> xpress button_props" where
  "x_record_tool mac p =
     red (xp_isRecording p) ((plain_button (if xp_isRecording p then ''Stop recording'' else ''Record call'')
       (at_once (x_onRecordToggle p)))\<lparr>bp_shortcut := first_shortcut mac Popout ''recording-toggle''\<rparr>)"

text \<open>The chat button calls functions of the host application, or goes to another address (\<open>chat\<close>).\<close>

definition x_chat_tool ::
  "(team \<Rightarrow> string) \<Rightarrow> (chat_action \<Rightarrow> xs \<Rightarrow> xs) \<Rightarrow> xprops \<Rightarrow> xpress button_props" where
  "x_chat_tool display_name chat p =
     (let v = chat_button display_name p
      in white (xp_isRhsOpen p = Some True \<and> xp_rhsSelectedThreadID p = Some (xp_threadID p))
           ((plain_button (cv_text v) (at_once (chat (toggleChat p))))\<lparr>bp_unavailable := cv_disabled v\<rparr>))"

definition x_leave_tool :: "xpress button_props" where
  "x_leave_tool = plain_button ''Leave call'' (at_once x_onDisconnectClick)"

datatype 'e tool =
    Tool string "'e button_props"
  | ReactionTool bool \<comment> \<open>is the hand raised\<close>
  | SettingsTool bool \<comment> \<open>are captions shown\<close>
  | LeaveMenuTool string bool \<comment> \<open>its keys; opens a menu, with ending the call for everyone\<close>

definition x_leave_entry :: "bool \<Rightarrow> xprops \<Rightarrow> xpress tool" where
  "x_leave_entry mac p =
     (case leave_button (isDMChannel (xp_channel p)) (xp_callHostID p = xp_currentUserID p) (xp_isAdmin p)
             (length (xp_sessions p)) of
        LeaveButton \<Rightarrow> Tool ''calls-popout-leave-button'' x_leave_tool
      | LeaveMenu all \<Rightarrow> LeaveMenuTool (first_shortcut mac Widget ''leave-call'') all)"

definition x_toolbar ::
  "xwindow \<Rightarrow> (string option \<Rightarrow> (stream \<times> string) option) \<Rightarrow> blur \<Rightarrow> (team \<Rightarrow> string) \<Rightarrow>
   (chat_action \<Rightarrow> xs \<Rightarrow> xs) \<Rightarrow> xprops \<Rightarrow> xs \<Rightarrow> xpress tool list" where
  "x_toolbar h camera b display_name chat p s =
     (let mac = xw_mac h; isHost = (xp_callHostID p = xp_currentUserID p)
      in [Tool ''calls-popout-participants-button'' (x_participants_tool mac p s),
          Tool ''calls-popout-mute-button'' (x_mute_tool mac p s)] @
         (if xp_enableVideo p then [Tool ''calls-popout-video-button'' (x_video_tool camera b p s)] else []) @
         (if xp_allowScreenSharing p then [Tool ''calls-popout-screenshare-button'' (x_share_tool h p s)] else []) @
         [ReactionTool (x_isHandRaised p)] @
         (if isHost \<and> xp_recordingsEnabled p then [Tool ''calls-popout-record-button'' (x_record_tool mac p)] else []) @
         (if xp_selectRhsPost p then [Tool ''calls-popout-chat-button'' (x_chat_tool display_name chat p)] else []) @
         [SettingsTool (xv_showLiveCaptions (xs_view s)), x_leave_entry mac p])"

text \<open>
  The keys that a tool shows, each with what pressing that button does: the buttons themselves, the button of
  the reactions and, while its bar is open, the hand in it, and the menu for leaving, which opens in a
  state of its own and leaves the view as it is.
\<close>

definition tool_keys :: "bool \<Rightarrow> xs \<Rightarrow> xpress tool \<Rightarrow> (string \<times> (xpress \<Rightarrow> xpress)) list" where
  "tool_keys mac s t =
     (case t of
        Tool i b \<Rightarrow> [(bp_shortcut b, press b)]
      | ReactionTool up \<Rightarrow>
          (first_shortcut mac Popout ''make-reaction'', at_once (on_view (xv_reactions_update toggleReactions))) #
          (if fst (xv_reactions (xs_view s))
           then [(first_shortcut mac Popout ''raise-lower-hand'', at_once (view_call (if up then unraiseHand else raiseHand)))]
           else [])
      | SettingsTool captions \<Rightarrow> []
      | LeaveMenuTool keys all \<Rightarrow> [(keys, id)])"

text \<open>The header of the list of participants, with the button that mutes the others.\<close>

datatype list_header = MuteOthers | CloseList string

definition x_list_header :: "bool \<Rightarrow> xprops \<Rightarrow> xs \<Rightarrow> list_header list option" where
  "x_list_header showMuteOthers p s =
     (if xv_showParticipantsList (xs_view s)
      then Some ((if showMuteOthers then [MuteOthers] else []) @ [CloseList ''Hide participants list'']) else None)"

definition list_header_press :: "xprops \<Rightarrow> list_header \<Rightarrow> xs \<Rightarrow> xs" where
  "list_header_press p b s = (case b of
       MuteOthers \<Rightarrow> on_env (hostMuteOthers (map_option chn_id (xp_channel p))) s
     | CloseList t \<Rightarrow> on_view x_onParticipantsListToggle s)"

section \<open>The call widget\<close>

type_synonym wpress = "ww \<times> share_wait"

definition w_at_once :: "(ww \<Rightarrow> ww) \<Rightarrow> wpress \<Rightarrow> wpress" where
  "w_at_once f = (\<lambda>(st, wait). (f st, NoShare))"

definition on_widget :: "(widget \<Rightarrow> widget) \<Rightarrow> ww \<Rightarrow> ww" where
  "on_widget f = (\<lambda>(w, e). (f w, e))"

definition w_lit :: "bool \<Rightarrow> string \<Rightarrow> 'e button_props \<Rightarrow> 'e button_props" where
  "w_lit on bg b = (if on then b\<lparr>bp_bgColor := bg\<rparr> else b)"

definition w_participants_tool :: "bool \<Rightarrow> widget \<Rightarrow> wpress button_props" where
  "w_participants_tool mac w =
     (let open = cw_showParticipantsList w
      in w_lit open ''rgba(var(--button-bg-rgb), 0.08)''
           ((plain_button (if open then ''Hide participants'' else ''Show participants'')
              (w_at_once (on_widget onParticipantsButtonClick)))
              \<lparr>bp_shortcut := first_shortcut mac Widget ''participants-list-toggle'', bp_margin := ''auto''\<rparr>))"

definition w_mute_tool :: "bool \<Rightarrow> (stream \<times> string) option \<Rightarrow> widget_props \<Rightarrow> widget \<Rightarrow> wpress button_props" where
  "w_mute_tool mac mic p w =
     w_lit (\<not> isMuted p) ''rgba(61, 184, 135, 0.16)''
       (shown_button (first_shortcut mac Widget ''mute-unmute'') (w_at_once (onMuteToggle mic p))
          (mute_button (isMuted p) (as_alerts (cw_alerts w))))"

text \<open>Starting the camera waits for the browser (second result of \<open>onVideoToggle\<close>).\<close>

definition w_video_tool :: "widget_props \<Rightarrow> widget \<Rightarrow> wpress button_props" where
  "w_video_tool p w =
     w_lit (isVideoOn p) ''rgba(61, 184, 135, 0.16)''
       (shown_button [] (w_at_once (\<lambda>st. fst (onVideoToggle p st)))
          (video_button (isVideoOn p) (as_alerts (cw_alerts w))))"

definition w_hand_tool :: "bool \<Rightarrow> widget_props \<Rightarrow> wpress button_props" where
  "w_hand_tool mac p =
     w_lit (isHandRaised p) ''rgba(var(--away-indicator-rgb), 0.16)''
       ((plain_button (if isHandRaised p then ''Lower hand'' else ''Raise hand'') (w_at_once (onRaiseHandToggle p)))
          \<lparr>bp_shortcut := first_shortcut mac Widget ''raise-lower-hand''\<rparr>)"

definition w_share_tool :: "widget_window \<Rightarrow> widget_props \<Rightarrow> widget \<Rightarrow> wpress button_props" where
  "w_share_tool h p w =
     w_lit (is_sharing p) ''rgba(var(--dnd-indicator-rgb), 0.16)''
       (shown_button (first_shortcut (ww_mac h) Widget ''share-unshare-screen'')
          (\<lambda>(st, wait). onShareScreenToggle h p st) (renderScreenShareButton p w))"

definition w_menu_tool :: "widget \<Rightarrow> wpress button_props" where
  "w_menu_tool w =
     w_lit (cw_showMenu w) ''rgba(var(--button-bg-rgb), 0.08)''
       (plain_button ''More options'' (w_at_once (on_widget onMenuClick)))"

definition w_leave_tool :: "bool \<Rightarrow> wpress button_props" where
  "w_leave_tool mac =
     (plain_button ''Leave call'' (w_at_once onDisconnectClick))
       \<lparr>bp_shortcut := first_shortcut mac Widget ''leave-call'', bp_bgColor := ''var(--dnd-indicator)'',
        bp_bgColorHover := ''linear-gradient(0deg, var(--error-text), var(--error-text)), '' @
          ''linear-gradient(0deg, rgba(0, 0, 0, 0.08), rgba(0, 0, 0, 0.08))''\<rparr>"

definition w_leave_entry :: "bool \<Rightarrow> widget_props \<Rightarrow> wpress tool" where
  "w_leave_entry mac p =
     (case leave_button (isDMChannel (wp_channel p)) (wp_callHostID p = wp_currentUserID p) (wp_isAdmin p)
             (length (wp_sessions p)) of
        LeaveButton \<Rightarrow> Tool ''calls-widget-leave-button'' (w_leave_tool mac)
      | LeaveMenu all \<Rightarrow> LeaveMenuTool (first_shortcut mac Widget ''leave-call'') all)"

definition w_toolbar ::
  "widget_window \<Rightarrow> (stream \<times> string) option \<Rightarrow> widget_props \<Rightarrow> widget \<Rightarrow> wpress tool list" where
  "w_toolbar h mic p w =
     (let mac = ww_mac h; dm = isDMChannel (wp_channel p)
      in [Tool ''calls-widget-participants-button'' (w_participants_tool mac w),
          Tool ''voice-mute-unmute'' (w_mute_tool mac mic p w)] @
         (if wp_enableVideo p then [Tool ''video-start-stop'' (w_video_tool p w)] else []) @
         (if \<not> dm then [Tool ''raise-hand'' (w_hand_tool mac p)] else []) @
         (if wp_allowScreenSharing p \<and> (wp_wider p \<or> dm) then [Tool ''share-screen'' (w_share_tool h p w)] else []) @
         [Tool ''calls-widget-toggle-menu-button'' (w_menu_tool w), w_leave_entry mac p])"

section \<open>The top of the widget\<close>

text \<open>The icon before the channel's name, by its type.\<close>

definition channel_icon :: "channel option \<Rightarrow> string list" where
  "channel_icon c =
     (if isPublicChannel c then [''globe''] else []) @ (if isPrivateChannel c then [''lock''] else []) @
     (if isDMChannel c then [''account-outline''] else []) @
     (if isGMChannel c then [''account-multiple-outline''] else [])"

definition renderChannelName :: "widget_props \<Rightarrow> string list \<times> string \<times> string" where
  "renderChannelName p = (channel_icon (wp_channel p), wp_channelURL p, wp_channelDisplayName p)"

record top_bar =
  tb_drags :: bool \<comment> \<open>\<open>onMouseDown\<close> is set\<close>
  tb_name :: "string list \<times> string \<times> string"
  tb_startAt :: int
  tb_expandIcon :: bool \<comment> \<open>of a window of the desktop app, else that of a new window\<close>
  tb_expand :: "wpress button_props"

definition renderTopBar :: "widget_window \<Rightarrow> widget_props \<Rightarrow> top_bar" where
  "renderTopBar h p = \<lparr>tb_drags = (\<not> wp_global p), tb_name = renderChannelName p, tb_startAt = wp_callStartAt p,
     tb_expandIcon = (ww_desktop h \<and> \<not> wp_global p),
     tb_expand = plain_button ''Open in new window'' (w_at_once (onExpandClick h p))\<rparr>"

text \<open>The picture of the speaker, or an icon when no one speaks.\<close>

definition renderSpeakingProfile :: "(user_profile \<Rightarrow> string) \<Rightarrow> widget_props \<Rightarrow> string option" where
  "renderSpeakingProfile getProfilePictureUrl p = map_option getProfilePictureUrl (speaking_profile p)"

lemma speaking_agree:
  "renderSpeakingProfile url p = None \<longleftrightarrow> speaking_profile p = None"
  "speaking_profile p = None \<Longrightarrow> renderSpeaking p = ''No one''"
  by (simp_all add: renderSpeakingProfile_def renderSpeaking_def)

section \<open>Keys and buttons\<close>

lemma first_shortcuts:
  "first_shortcut mac Widget ''mute-unmute'' = meta_or_ctrl mac ''+shift+space''"
  "first_shortcut mac Widget ''raise-lower-hand'' = meta_or_ctrl mac ''+shift+y''"
  "first_shortcut mac Widget ''share-unshare-screen'' = meta_or_ctrl mac ''+shift+e''"
  "first_shortcut mac Widget ''participants-list-toggle'' = ''alt+p''"
  "first_shortcut mac Widget ''leave-call'' = meta_or_ctrl mac ''+shift+l''"
  "first_shortcut mac Popout ''mute-unmute'' = meta_or_ctrl mac ''+shift+space''"
  "first_shortcut mac Popout ''share-unshare-screen'' = meta_or_ctrl mac ''+shift+e''"
  "first_shortcut mac Popout ''participants-list-toggle'' = ''alt+p''"
  "first_shortcut mac Popout ''recording-toggle'' = meta_or_ctrl mac ''+alt+r''"
  "first_shortcut mac Popout ''raise-lower-hand'' = meta_or_ctrl mac ''+shift+y''"
  "first_shortcut mac Popout ''make-reaction'' = meta_or_ctrl mac ''+shift+x''"
  by (simp_all add: first_shortcut_def reverseKeyMappings_def widgetMappings_def popoutMappings_def add_reverse_def
      obj_get_Cons)

lemma shortcut_actions:
  "scope \<in> {Widget, Popout} \<Longrightarrow> obj_get (keyMappings mac scope) (meta_or_ctrl mac ''+shift+space'') = Some ''mute-unmute''"
  "scope \<in> {Widget, Popout} \<Longrightarrow> obj_get (keyMappings mac scope) (meta_or_ctrl mac ''+shift+y'') = Some ''raise-lower-hand''"
  "scope \<in> {Widget, Popout} \<Longrightarrow> obj_get (keyMappings mac scope) (meta_or_ctrl mac ''+shift+e'') = Some ''share-unshare-screen''"
  "scope \<in> {Widget, Popout} \<Longrightarrow> obj_get (keyMappings mac scope) ''alt+p'' = Some ''participants-list-toggle''"
  "scope \<in> {Widget, Popout} \<Longrightarrow> obj_get (keyMappings mac scope) (meta_or_ctrl mac ''+shift+l'') = Some ''leave-call''"
  "scope \<in> {Widget, Popout} \<Longrightarrow> obj_get (keyMappings mac scope) (meta_or_ctrl mac ''+shift+x'') = Some ''make-reaction''"
  "obj_get (keyMappings mac Popout) (meta_or_ctrl mac ''+alt+r'') = Some ''recording-toggle''"
  by (cases mac; auto simp: widgetMappings_def popoutMappings_def meta_or_ctrl_def obj_get_Cons)+

text \<open>What the colours leave as it is.\<close>

lemma colours_keep [simp]:
  "bp_shortcut (lit on a b c d t) = bp_shortcut t" "press (lit on a b c d t) = press t"
  "bp_disabled (lit on a b c d t) = bp_disabled t" "bp_tooltipText (lit on a b c d t) = bp_tooltipText t"
  "bp_shortcut (w_lit on a t) = bp_shortcut t" "press (w_lit on a t) = press t"
  "bp_disabled (w_lit on a t) = bp_disabled t" "bp_tooltipText (w_lit on a t) = bp_tooltipText t"
  by (simp_all add: lit_def w_lit_def press_def fun_eq_iff)

lemma plain_press [simp]: "press (plain_button l f) e = f e" "bp_shortcut (plain_button l f) = []"
  "press ((plain_button l f)\<lparr>bp_shortcut := k\<rparr>) e = f e"
  "press ((plain_button l f)\<lparr>bp_shortcut := k, bp_text := t\<rparr>) e = f e"
  "press ((plain_button l f)\<lparr>bp_shortcut := k, bp_margin := t\<rparr>) e = f e"
  "press ((plain_button l f)\<lparr>bp_shortcut := k, bp_bgColor := c, bp_bgColorHover := d\<rparr>) e = f e"
  "bp_shortcut ((plain_button l f)\<lparr>bp_unavailable := u\<rparr>) = []"
  by (simp_all add: plain_button_def press_def)

lemma shown_fields [simp]:
  "bp_shortcut (shown_button k f v) = (if bv_shortcut v then k else [])"
  "bp_disabled (shown_button k f v) = WidgetView.bv_disabled v"
  "bp_tooltipText (shown_button k f v) = WidgetView.bv_text v"
  by (simp_all add: shown_button_def plain_button_def)

lemma shown_press: "bv_acts v \<Longrightarrow> \<not> WidgetView.bv_disabled v \<Longrightarrow> press (shown_button k f v) e = f e"
  by (simp add: shown_button_def plain_button_def press_def)

text \<open>A button for a device shows its keys only when it acts.\<close>

lemma keys_act:
  "bv_shortcut (mute_button m a) \<Longrightarrow> bv_acts (mute_button m a) \<and> \<not> WidgetView.bv_disabled (mute_button m a)"
  "bv_shortcut (x_mute_button m a) \<Longrightarrow>
     bv_acts (x_mute_button m a) \<and> \<not> WidgetView.bv_disabled (x_mute_button m a)"
  "\<not> bv_shortcut (video_button m a)"
  "bv_acts (x_share_button p v)" "bv_acts (renderScreenShareButton wp w)"
  by (auto simp: mute_button_def x_mute_button_def video_button_def x_share_button_def renderScreenShareButton_def
      Let_def)

lemma at_once_apply [simp]: "at_once f (s, w) = (f s, NoShare)" "w_at_once g (st, w) = (g st, NoShare)"
  by (simp_all add: at_once_def w_at_once_def)

text \<open>
  The keys of a tool of the expanded view, and the action that they stand for. A disabled button does nothing, and
  neither do its keys: the one for sharing is disabled while someone else shares.
\<close>

lemma share_disabled:
  "WidgetView.bv_disabled (x_share_button p v) \<Longrightarrow> x_onShareScreenToggle h p s = (s, NoShare)"
  by (auto simp: x_share_button_def x_onShareScreenToggle_def x_sharing_def str_of_def Let_def
      split: option.splits)

lemma x_tool_keys:
  assumes "Tool i b \<in> set (x_toolbar h camera bl dn chat p s)" "bp_shortcut b \<noteq> []"
  obtains
    "bp_shortcut b = ''alt+p''" "press b (s, NoShare) = (on_view x_onParticipantsListToggle s, NoShare)"
  | "bp_shortcut b = meta_or_ctrl (xw_mac h) ''+shift+space''" "press b (s, NoShare) = (x_onMuteToggle p s, NoShare)"
  | "bp_shortcut b = meta_or_ctrl (xw_mac h) ''+shift+e''" "press b (s, NoShare) = x_onShareScreenToggle h p s"
  | "bp_shortcut b = meta_or_ctrl (xw_mac h) ''+alt+r''" "press b (s, NoShare) = (x_onRecordToggle p s, NoShare)"
proof -
  have share: "press (x_share_tool h p s) (s, NoShare) = x_onShareScreenToggle h p s"
    using share_disabled [of p "xs_view s" h s]
    by (cases "WidgetView.bv_disabled (x_share_button p (xs_view s))")
      (simp_all add: x_share_tool_def red_def shown_press keys_act, simp add: press_def)
  have "b \<in> {x_participants_tool (xw_mac h) p s, x_mute_tool (xw_mac h) p s, x_video_tool camera bl p s,
      x_share_tool h p s, x_record_tool (xw_mac h) p, x_chat_tool dn chat p, x_leave_tool}"
    using assms(1) by (auto simp: x_toolbar_def Let_def x_leave_entry_def split: if_splits leave_button.splits)
  then consider "b = x_share_tool h p s" | "b \<in> {x_participants_tool (xw_mac h) p s, x_mute_tool (xw_mac h) p s,
      x_video_tool camera bl p s, x_record_tool (xw_mac h) p, x_chat_tool dn chat p, x_leave_tool}" by blast
  then show thesis
  proof cases
    case 1
    moreover from this have "bp_shortcut b = meta_or_ctrl (xw_mac h) ''+shift+e''"
      using assms(2) by (simp add: x_share_tool_def red_def first_shortcuts split: if_splits)
    ultimately show thesis using that(3) share by simp
  next
    case 2
    then show thesis
      using assms(2) that
      by (auto simp: x_participants_tool_def x_mute_tool_def x_video_tool_def x_record_tool_def
          x_chat_tool_def x_leave_tool_def Let_def first_shortcuts green_def red_def white_def shown_press keys_act
          split: if_splits)
  qed
qed

text \<open>The entries that are no plain buttons.\<close>

lemma other_tools:
  assumes "t \<in> set (x_toolbar h camera bl dn chat p s)" "\<And>i b. t \<noteq> Tool i b"
  shows "t = ReactionTool (x_isHandRaised p) \<or> t = SettingsTool (xv_showLiveCaptions (xs_view s)) \<or>
    (\<exists>all. t = LeaveMenuTool (meta_or_ctrl (xw_mac h) ''+shift+l'') all)"
  using assms
  by (auto simp: x_toolbar_def Let_def x_leave_entry_def first_shortcuts split: if_splits leave_button.splits)

lemma key_effects:
  assumes "keyToAction (xw_mac h) Popout ev = Some a" "xp_show p \<and> ev_client (xs_env s) \<noteq> None \<or> xs_opener s \<noteq> None"
  shows "a = ''make-reaction'' \<Longrightarrow>
      x_handleKBShortcuts h False p ev s = (on_view (xv_reactions_update toggleReactions) s, NoShare)"
    and "a = ''raise-lower-hand'' \<Longrightarrow> x_handleKBShortcuts h False p ev s = (x_onRaiseHandToggle p s, NoShare)"
    and "a = ''leave-call'' \<Longrightarrow> x_handleKBShortcuts h False p ev s = (x_onDisconnectClick s, NoShare)"
  using assms by (auto simp: x_handleKBShortcuts_def)

definition opens_menu :: "'e tool \<Rightarrow> bool" where
  "opens_menu t = (case t of LeaveMenuTool keys all \<Rightarrow> True | _ \<Rightarrow> False)"

section \<open>Properties\<close>

text \<open>
  C23. Keys and buttons of the expanded view. While the view listens and the focus is not in a field elsewhere, the
  keys that a button shows do exactly what pressing the button does: this holds of every button of the bar that shows
  keys, also of those that are disabled (both do nothing), of the button of the reactions and of the hand in its
  bar. The one exception is the button for leaving when it is a menu, for hosts and administrators who are not alone:
  its keys leave the call at once, while pressing it opens the menu and changes nothing in the view.\<close>
theorem keys_are_the_buttons:
  assumes "t \<in> set (x_toolbar h camera bl dn chat p s)" "(keys, act) \<in> set (tool_keys (xw_mac h) s t)" "keys \<noteq> []"
    and "keyToAction (xw_mac h) Popout ev = obj_get (keyMappings (xw_mac h) Popout) keys"
    and "xp_show p \<and> ev_client (xs_env s) \<noteq> None \<or> xs_opener s \<noteq> None"
  shows "if opens_menu t
    then x_handleKBShortcuts h False p ev s = (x_onDisconnectClick s, NoShare) \<and> act (s, NoShare) = (s, NoShare)
    else x_handleKBShortcuts h False p ev s = act (s, NoShare)"
proof (cases t)
  case (Tool i b)
  then have b: "Tool i b \<in> set (x_toolbar h camera bl dn chat p s)" "bp_shortcut b \<noteq> []"
    and act: "keys = bp_shortcut b" "act = press b" using assms(1-3) by (simp_all add: tool_keys_def)
  show ?thesis
    using assms(4,5) Tool act
    by (rule_tac x_tool_keys [OF b])
      (auto simp: x_handleKBShortcuts_def Let_def shortcut_actions opens_menu_def simp del: keyMappings.simps)
next
  case (ReactionTool up)
  then have up: "up = x_isHandRaised p" using other_tools [OF assms(1)] by simp
  consider (react) "keys = meta_or_ctrl (xw_mac h) ''+shift+x''"
      "act = at_once (on_view (xv_reactions_update toggleReactions))"
    | (hand) "keys = meta_or_ctrl (xw_mac h) ''+shift+y''"
      "act = at_once (view_call (if up then unraiseHand else raiseHand))"
    using assms(2) ReactionTool by (auto simp: tool_keys_def first_shortcuts split: if_splits)
  then show ?thesis
  proof cases
    case react
    with ReactionTool show ?thesis using key_effects(1) [OF _ assms(5)] assms(4)
      by (simp add: opens_menu_def shortcut_actions del: keyMappings.simps)
  next
    case hand
    with ReactionTool up show ?thesis using key_effects(2) [OF _ assms(5)] assms(4)
      by (simp add: opens_menu_def shortcut_actions x_onRaiseHandToggle_def del: keyMappings.simps)
  qed
next
  case (SettingsTool captions)
  then show ?thesis using assms(2) by (simp add: tool_keys_def)
next
  case (LeaveMenuTool k all)
  then have "keys = meta_or_ctrl (xw_mac h) ''+shift+l''" "act = id"
    using assms(2) other_tools [OF assms(1)] by (simp_all add: tool_keys_def)
  with LeaveMenuTool show ?thesis using key_effects(3) [OF _ assms(5)] assms(4)
    by (simp add: opens_menu_def shortcut_actions del: keyMappings.simps)
qed

lemma w_tool_keys:
  assumes "Tool i b \<in> set (w_toolbar h mic p w)" "bp_shortcut b \<noteq> []" "\<not> bp_disabled b"
  obtains
    "bp_shortcut b = ''alt+p''" "press b ((w, e), x) = ((onParticipantsButtonClick w, e), NoShare)"
  | "bp_shortcut b = meta_or_ctrl (ww_mac h) ''+shift+space''" "press b ((w, e), x) = (onMuteToggle mic p (w, e), NoShare)"
  | "bp_shortcut b = meta_or_ctrl (ww_mac h) ''+shift+y''" "press b ((w, e), x) = (onRaiseHandToggle p (w, e), NoShare)"
  | "bp_shortcut b = meta_or_ctrl (ww_mac h) ''+shift+e''" "press b ((w, e), x) = onShareScreenToggle h p (w, e)"
  | "bp_shortcut b = meta_or_ctrl (ww_mac h) ''+shift+l''" "press b ((w, e), x) = (onDisconnectClick (w, e), NoShare)"
proof -
  have "b \<in> {w_participants_tool (ww_mac h) w, w_mute_tool (ww_mac h) mic p w, w_video_tool p w,
      w_hand_tool (ww_mac h) p, w_share_tool h p w, w_menu_tool w, w_leave_tool (ww_mac h)}"
    using assms(1) by (auto simp: w_toolbar_def Let_def w_leave_entry_def split: if_splits leave_button.splits)
  then show thesis
    using assms(2,3) that
    by (auto simp: w_participants_tool_def w_mute_tool_def w_video_tool_def w_hand_tool_def w_share_tool_def
        w_menu_tool_def w_leave_tool_def Let_def first_shortcuts shown_press keys_act on_widget_def
        split: if_splits)
qed

text \<open>The same holds of the call widget, whose handler of keys is another one.\<close>
theorem widget_keys_are_the_buttons:
  assumes "Tool i b \<in> set (w_toolbar h mic p w)" "bp_shortcut b \<noteq> []" "\<not> bp_disabled b"
    and "keyToAction (ww_mac h) Widget ev = obj_get (keyMappings (ww_mac h) Widget) (bp_shortcut b)"
    and "wp_show p"
  shows "handleKBShortcuts h mic p ev (w, e) = press b ((w, e), NoShare)"
  using assms(4,5)
  by (rule_tac w_tool_keys [OF assms(1-3), where e = e and x = NoShare])
    (auto simp: handleKBShortcuts_def Let_def shortcut_actions simp del: keyMappings.simps)

definition list_keys :: key_event where
  "list_keys = \<lparr>ke_key = ''p'', ke_code = ''KeyP'', ke_meta = False, ke_ctrl = False, ke_shift = False, ke_alt = True\<rparr>"

lemma list_keys_action: "keyToAction mac scope list_keys = obj_get (keyMappings mac scope) ''alt+p''"
proof -
  have "toLowerCase ''p'' = ''p''" "toLowerCase (remove_first ''Key'' ''KeyP'') = ''p''" by code_simp+
  then show ?thesis by (simp add: keyToAction_def list_keys_def modifiers_def split: option.split)
qed

definition shared_view :: xs where
  "shared_view = new_view sample_env (Some (init_widget, sample_env))"

theorem keys_are_the_buttons_witness:
  "xv_showParticipantsList (xs_view (fst (x_handleKBShortcuts plain_xwindow False sample_xprops list_keys shared_view)))"
proof -
  let ?b = "x_participants_tool (xw_mac plain_xwindow) sample_xprops shared_view"
  have b: "bp_shortcut ?b = ''alt+p''" "\<not> bp_disabled ?b"
    by (simp_all add: x_participants_tool_def Let_def white_def first_shortcuts plain_button_def)
  have "x_handleKBShortcuts plain_xwindow False sample_xprops list_keys shared_view = press ?b (shared_view, NoShare)"
    using keys_are_the_buttons [where t = "Tool ''calls-popout-participants-button'' ?b" and h = plain_xwindow
          and camera = "\<lambda>d. None" and dn = "\<lambda>t. []" and chat = "\<lambda>a s. s" and keys = "''alt+p''" and act = "press ?b"
          and p = sample_xprops and s = shared_view and ev = list_keys]
    by (simp add: b x_toolbar_def Let_def list_keys_action tool_keys_def opens_menu_def del: keyMappings.simps)
      (simp add: shared_view_def new_view_def)
  then show ?thesis
    by (simp add: x_participants_tool_def Let_def white_def x_onParticipantsListToggle_def shared_view_def
        new_view_def init_xview_def)
qed

theorem widget_keys_are_the_buttons_witness:
  "cw_showParticipantsList (fst (fst (handleKBShortcuts h None (p\<lparr>wp_show := True\<rparr>) list_keys (init_widget, sample_env))))"
proof -
  let ?b = "w_participants_tool (ww_mac h) init_widget"
  have b: "bp_shortcut ?b = ''alt+p''" "\<not> bp_disabled ?b"
    by (simp_all add: w_participants_tool_def Let_def first_shortcuts plain_button_def)
  have "handleKBShortcuts h None (p\<lparr>wp_show := True\<rparr>) list_keys (init_widget, sample_env) =
      press ?b ((init_widget, sample_env), NoShare)"
    by (rule widget_keys_are_the_buttons [where i = "''calls-widget-participants-button''"])
      (simp_all add: b w_toolbar_def Let_def list_keys_action del: keyMappings.simps)
  then show ?thesis
    by (simp add: w_participants_tool_def Let_def on_widget_def onParticipantsButtonClick_def init_widget_def)
qed

text \<open>
  The key for recording is not tied to its button: whoever presses it in the expanded view asks the server to record,
  also a participant who is not the host and has no such button.\<close>
lemma recording_key_without_button:
  assumes "keyToAction (xw_mac h) Popout ev = Some ''recording-toggle''"
    and "xp_show p \<and> ev_client (xs_env s) \<noteq> None \<or> xs_opener s \<noteq> None"
    and "xp_callHostID p \<noteq> xp_currentUserID p" "xp_channel p = Some c" "\<not> xp_isRecording p"
  shows "Tool ''calls-popout-record-button'' b \<notin> set (x_toolbar h camera bl dn chat p s) \<and>
    fst (x_handleKBShortcuts h False p ev s) = on_env (startCallRecording (chn_id c)) s"
  using assms
  by (auto simp: x_toolbar_def Let_def x_leave_entry_def x_handleKBShortcuts_def x_onRecordToggle_def
      split: leave_button.splits)

section \<open>The window of the widget\<close>

text \<open>
  In the desktop app the widget tells the app how large its window has to be. Sizes of elements are in
  hundredths of a pixel. The children of the widget are the overlay while it loads, the menu and the
  widget itself.
\<close>

record rect =
  rc_width :: int
  rc_height :: int

definition getGlobalWidgetBounds :: "rect list option \<Rightarrow> rect option \<Rightarrow> error + (int \<times> int)" where
  "getGlobalWidgetBounds children audioMenu =
     (case children of
        None \<Rightarrow> Inr (0, 0)
      | Some cs \<Rightarrow>
          let first = (if length cs = 2 then 0 else 1)
          in if length cs \<le> Suc first then Inl (TypeError ''getBoundingClientRect'')
             else
               let menu = cs ! first; base = cs ! Suc first;
                   width = rc_width base + 600; height = rc_height base + rc_height menu + 600
               in Inr (width + (case audioMenu of None \<Rightarrow> 0 | Some a \<Rightarrow> rc_width a + 600),
                       if rc_height menu > 0 then height + 600 else height))"

definition ceil_px :: "int \<Rightarrow> int" where
  "ceil_px x = - ((- x) div 100)"

datatype resize = ResizeByApi int int | ResizeByMessage int int

definition sendGlobalWidgetBounds :: "bool \<Rightarrow> rect list option \<Rightarrow> rect option \<Rightarrow> error + resize" where
  "sendGlobalWidgetBounds has_api children audioMenu =
     (case getGlobalWidgetBounds children audioMenu of
        Inl err \<Rightarrow> Inl err
      | Inr (w, h) \<Rightarrow> Inr ((if has_api then ResizeByApi else ResizeByMessage) (ceil_px w) (ceil_px h)))"

definition onViewportResize :: "int \<Rightarrow> int \<Rightarrow> int \<times> bool" where
  "onViewportResize devicePixelRatio prev = (devicePixelRatio, devicePixelRatio \<noteq> prev)"

text \<open>What is observed: the widget and its menu for as long as it is mounted, the devices' menu while it is open.\<close>

record observers =
  ob_widget :: bool
  ob_menu :: bool
  ob_audioMenu :: bool
  ob_sent :: nat \<comment> \<open>sizes sent by the callback itself\<close>

definition observe_widget :: "bool \<Rightarrow> observers \<Rightarrow> observers" where
  "observe_widget global o1 = (if global then o1\<lparr>ob_widget := True, ob_menu := True\<rparr> else o1)"

definition devicesMenuRefCb :: "bool \<Rightarrow> observers \<Rightarrow> observers" where
  "devicesMenuRefCb has_element o1 =
     (if has_element then o1\<lparr>ob_audioMenu := True\<rparr> else o1\<lparr>ob_audioMenu := False, ob_sent := Suc (ob_sent o1)\<rparr>)"

definition unobserve_widget :: "observers \<Rightarrow> observers" where
  "unobserve_widget o1 = o1\<lparr>ob_widget := False, ob_menu := False\<rparr>"

lemma ceil_px_covers: "x \<le> 100 * ceil_px x" "100 * ceil_px x < x + 100"
proof -
  have "100 * ((- x) div 100) + (- x) mod 100 = - x" by simp
  moreover have "0 \<le> (- x) mod 100" "(- x) mod 100 < 100" by simp_all
  ultimately show "x \<le> 100 * ceil_px x" "100 * ceil_px x < x + 100" unfolding ceil_px_def by linarith+
qed

text \<open>
  The window that is asked for has room for the widget, the menu above it and the devices' menu beside
  it, and at most thirteen pixels more.\<close>
theorem window_has_room:
  assumes "sendGlobalWidgetBounds has_api (Some (if loading then [overlay, menu, base] else [menu, base])) audio =
           Inr ((if has_api then ResizeByApi else ResizeByMessage) w h)"
  shows "rc_width base + (case audio of None \<Rightarrow> 0 | Some a \<Rightarrow> rc_width a) \<le> 100 * w \<and>
    rc_height menu + rc_height base \<le> 100 * h \<and>
    100 * w < rc_width base + (case audio of None \<Rightarrow> 0 | Some a \<Rightarrow> rc_width a) + 1300 \<and>
    100 * h < rc_height menu + rc_height base + 1300"
proof -
  let ?w = "rc_width base + 600 + (case audio of None \<Rightarrow> 0 | Some a \<Rightarrow> rc_width a + 600)"
  let ?h = "rc_height base + rc_height menu + (if rc_height menu > 0 then 1200 else 600)"
  have "w = ceil_px ?w" "h = ceil_px ?h"
    using assms by (auto simp: sendGlobalWidgetBounds_def getGlobalWidgetBounds_def Let_def algebra_simps split: if_splits)
  then show ?thesis
    using ceil_px_covers [of ?w] ceil_px_covers [of ?h] by (auto split: option.splits if_splits)
qed

theorem window_has_room_witness:
  "rc_width \<lparr>rc_width = 24850, rc_height = 8000\<rparr> + 0 \<le> 100 * (255 :: int)"
  using window_has_room [where menu = "\<lparr>rc_width = 24850, rc_height = 1000\<rparr>" and has_api = True
      and loading = False and base = "\<lparr>rc_width = 24850, rc_height = 8000\<rparr>" and audio = None
      and w = 255 and h = 102]
  by (simp add: sendGlobalWidgetBounds_def getGlobalWidgetBounds_def Let_def ceil_px_def)

text \<open>The widget's listeners on its page, each with its removal.\<close>

definition widget_listeners :: "bool \<Rightarrow> (string \<Rightarrow> bool) \<Rightarrow> string list" where
  "widget_listeners global has_api =
     (if global
      then [''visualViewport resize''] @
           (if has_api ''onScreenShared'' \<and> has_api ''onCallsError''
            then [''desktopAPI onScreenShared'', ''desktopAPI onCallsError''] else [''window message''])
      else [''document mouseup'']) @ [''document click'', ''document keyup'', ''document keydown'']"

definition listen_widget :: "bool \<Rightarrow> bool \<Rightarrow> (string \<Rightarrow> bool) \<Rightarrow> string list \<times> string list \<Rightarrow> string list \<times> string list" where
  "listen_widget has_client global has_api = (\<lambda>(page, unsubscribers).
     if has_client then (page @ widget_listeners global has_api, unsubscribers @ widget_listeners global has_api)
     else (page, unsubscribers))"

definition unlisten_widget :: "string list \<times> string list \<Rightarrow> string list \<times> string list" where
  "unlisten_widget = (\<lambda>(page, unsubscribers). (fold remove1 unsubscribers page, []))"

lemma widget_unlistens:
  "mset (fst (unlisten_widget (listen_widget c g api (page, [])))) = mset page"
proof -
  have "mset (fold remove1 xs ys) = mset ys - mset xs" for xs ys :: "string list"
    by (induction xs arbitrary: ys) simp_all
  then show ?thesis by (simp add: unlisten_widget_def listen_widget_def)
qed

section \<open>The window of the expanded view\<close>

text \<open>
  In a window of its own the view sets the title, once, as soon as it knows the channel, and asks for the thread of the call
  when it is mounted or learns of it.
\<close>

definition popout_title :: "xprops \<Rightarrow> string \<Rightarrow> string" where
  "popout_title p title =
     (if indexOf ''Call'' title \<noteq> None then title
      else case xp_channel p of
          None \<Rightarrow> title
        | Some c \<Rightarrow>
            if isDMChannel (Some c)
            then (case xp_connectedDMUser p of
                    None \<Rightarrow> title | Some u \<Rightarrow> ''Call - '' @ getUserDisplayName (Some u) False)
            else ''Call - '' @ chn_display_name c)"

definition prefetch_on_mount :: "bool \<Rightarrow> xprops \<Rightarrow> string option" where
  "prefetch_on_mount has_opener p =
     (if has_opener \<and> xp_selectRhsPost p \<and> xp_threadID p \<noteq> [] then Some (xp_threadID p) else None)"

definition x_componentDidUpdate :: "bool \<Rightarrow> xprops \<Rightarrow> xprops \<Rightarrow> string \<Rightarrow> string \<times> string option" where
  "x_componentDidUpdate has_opener prev p title =
     (if has_opener
      then (popout_title p title,
            if xp_selectRhsPost p \<and> xp_threadID p \<noteq> [] \<and> xp_threadID prev = [] then Some (xp_threadID p) else None)
      else (title, None))"

lemma title_set_once:
  assumes "popout_title p title \<noteq> title"
  shows "popout_title q (popout_title p title) = popout_title p title"
proof -
  have "indexOf ''Call'' (''Call - '' @ n) \<noteq> None" for n by simp
  moreover obtain n where "popout_title p title = ''Call - '' @ n"
    using assms by (auto simp: popout_title_def split: if_splits option.splits)
  ultimately show ?thesis by (simp add: popout_title_def)
qed

end
