(* ===== verification/ClientEnd.thy ===== *)
theory ClientEnd imports Devices begin

text \<open>
  What is left of a calls client (\<open>webapp/src/client.ts\<close>) after it was disconnected. A disconnected
  client is an object that others still hold: its methods can be called, its listeners hear of devices,
  of the old websocket and of the old peer, and methods that were waiting for the browser or for the
  peer go on. \<open>client_op\<close> has all of these; the parts of the methods after an \<open>await\<close> that the
  theories before run together with what precedes are defined here on their own.
\<close>

section \<open>What was waiting\<close>

text \<open>\<open>unmute\<close> after \<open>initAudio\<close>; without a peer it throws, with the microphone granted.\<close>

definition unmute_resumed ::
  "(stream \<times> string) option \<Rightarrow> calls_client \<Rightarrow> calls_client \<times> error option" where
  "unmute_resumed mic c =
     (case mic of
        None \<Rightarrow> (cc_emit (CError (audio_error c)) c, None)
      | Some (s, a) \<Rightarrow>
          let c1 = audio_granted s a c
          in if cc_peer c1 then (unmute_ready c1, None)
             else (c1, Some (TypeError (if cc_voiceTrackAdded c1 then ''replaceTrack'' else ''addTrack''))))"

text \<open>\<open>unmute\<close> after the peer took the track.\<close>

definition unmute_added :: "calls_client \<Rightarrow> calls_client" where
  "unmute_added c =
     (let c1 = c\<lparr>cc_voiceTrackAdded := True\<rparr>;
          c2 = (case cc_audioTrack c1 of None \<Rightarrow> c1 | Some a \<Rightarrow> track_enable True a c1)
      in cc_send ''unmute'' None False (cc_emit CUnmute c2))"

text \<open>\<open>setScreenStream\<close> after the peer took the stream.\<close>

definition share_added :: "string \<Rightarrow> string \<Rightarrow> calls_client \<Rightarrow> calls_client \<times> error option" where
  "share_added streamID screenTrack c =
     (if \<not> (cf_enableAV1 (cc_config c) \<and> cc_av1Codec c) then (c, None)
      else if cc_peer c then (peer_do (PAddTrackAV1 screenTrack streamID) c, None)
      else (c, Some (TypeError ''addTrack'')))"

text \<open>
  \<open>startVideo\<close> after \<open>initVideo\<close>, after the peer took the track \<open>t\<close>, and after it took it once
  more in AV1. A local stream that is gone meanwhile is emitted as \<open>null\<close>, here the empty id, and reading
  its id throws.
\<close>

definition local_id :: "calls_client \<Rightarrow> string" where
  "local_id c = (case cc_localVideoStream c of None \<Rightarrow> [] | Some s \<Rightarrow> st_id s)"

definition start_video_resumed ::
  "blur \<Rightarrow> (stream \<times> string) option \<Rightarrow> calls_client \<Rightarrow> calls_client \<times> error option" where
  "start_video_resumed b answer c =
     (case answer of
        None \<Rightarrow> (cc_emit (CError (video_error c)) c, None)
      | Some (s, v) \<Rightarrow>
          let c1 = video_granted s v c; c2 = track_enable True v c1
          in if cc_peer c1 then (start_video_ready b s v c1, None)
             else (if blurs b then snd (initBgBackgroundTrack b s v c2) else c2,
                   Some (TypeError (if cc_videoTrackAdded c1 then ''replaceTrack'' else ''addTrack''))))"

definition start_video_sent :: "string \<Rightarrow> calls_client \<Rightarrow> calls_client \<times> error option" where
  "start_video_sent t c =
     (let c1 = c\<lparr>cc_videoTrackAdded := True, cc_videoSenderTrackID := t\<rparr>;
          c2 = cc_emit (CLocalVideoStream (local_id c1)) c1
      in if cc_ws c2 = None then (c2, Some (TypeError ''send''))
         else (case cc_localVideoStream c2 of
                 None \<Rightarrow> (c2, Some (TypeError ''id''))
               | Some s \<Rightarrow>
                   (cc_emit CVideoOn
                      (cc_send ''video_on''
                         (Some (JObj [(''data'', JObj [(''videoStreamID'', JStr (st_id s))])])) False c2), None)))"

definition start_video_added :: "string \<Rightarrow> calls_client \<Rightarrow> calls_client \<times> error option" where
  "start_video_added t c =
     (if \<not> (cf_enableAV1 (cc_config c) \<and> cc_av1Codec c) then start_video_sent t c
      else if cc_peer c
      then (peer_do (PAddTrackAV1 t (local_id c)) c, None)
      else (c, Some (TypeError ''addTrack'')))"

text \<open>The parts make up the methods as they are when nothing comes in between.\<close>

lemma unmute_parts:
  assumes "cc_peer c"
  shows "cc_audioTrack c = None \<Longrightarrow> unmute mic c = fst (unmute_resumed mic c)"
    and "cc_audioTrack c = Some a \<Longrightarrow> cc_stream c = Some s \<Longrightarrow> \<not> cc_voiceTrackAdded c \<Longrightarrow>
      unmute mic c = unmute_added (peer_do (PAddTrack a (st_id s)) c)"
  using assms
  by (auto simp: unmute_def unmute_resumed_def unmute_ready_def unmute_added_def audio_granted_def Let_def
      cc_emit_def peer_do_def split: option.split)

lemma share_parts:
  assumes "cc_ws c = Some w" "cc_peer c" "cc_localScreenTrack c = None"
  shows "setScreenStream sid t a c = fst (share_added sid t (peer_do (PAddStream sid)
    (cc_send ''screen_on'' (Some (JObj [(''data'', JObj [(''screenStreamID'', JStr sid)])])) False
      (cc_emit (CLocalScreenStream sid)
        (c\<lparr>cc_localScreenTrack := Some t,
           cc_streams := cc_streams c @ [\<lparr>st_id = sid, st_tracks = t # opt_list a\<rparr>],
           cc_onScreenEnded := obj_set t a (cc_onScreenEnded c)\<rparr>)))))"
  using assms by (simp add: setScreenStream_def share_added_def Let_def)

lemma start_video_parts:
  assumes "cc_ws c \<noteq> None" "cc_peer c" "cf_enableVideo (cc_config c)" "cc_localVideoStream c = None"
  shows "startVideo camera b c =
    (case choose_video None c of (want, c1) \<Rightarrow> fst (start_video_resumed b (camera want) c1))"
proof -
  have "cc_peer (snd (choose_video None c))" using assms(2) by (simp add: choose_video_def Let_def split: option.split)
  then show ?thesis
    using assms
    by (auto simp: startVideo_def start_video_resumed_def video_granted_def cc_emit_def Let_def
        split: prod.split option.split)
qed

lemma start_video_ready_parts:
  assumes "\<not> blurs b" "\<not> cc_videoTrackAdded c" "cc_ws c \<noteq> None" "cc_peer c" "cc_localVideoStream c = Some s"
    and "\<not> (cf_enableAV1 (cc_config c) \<and> cc_av1Codec c)"
  shows "start_video_ready b s v c =
    fst (start_video_added v (peer_do (PAddTrack v (st_id s)) (track_enable True v c)))"
  using assms
  by (auto simp: start_video_ready_def start_video_added_def start_video_sent_def local_id_def Let_def peer_do_def
      track_enable_def upd_track_def cc_emit_def cc_send_def split: option.split)

section \<open>What can still be done\<close>

text \<open>
  The public methods that change the client (\<open>setBlurSettings\<close> is a \<open>DoSetVideo\<close> or reaches the segmenter
  only, \<open>onBeforeUnload\<close> a \<open>DoDisconnect\<close>); the events of the websocket client, of the peer and of the browser's devices; and,
  with \<open>Late\<close> in their name, the methods that go on after an \<open>await\<close>, each with the answer that it
  waited for.
\<close>

datatype client_op =
    DoMute
  | DoUnmute "(stream \<times> string) option"
  | DoShare "(string \<times> string \<times> string option) option"
  | DoUnshare
  | DoStartVideo "string option \<Rightarrow> (stream \<times> string) option" blur
  | DoStopVideo
  | DoRaiseHand
  | DoUnraiseHand
  | DoReact json
  | DoDisconnect "client_error option"
  | DoSetInput device bool
  | DoSetOutput device bool
  | DoSetVideo device
  | DoDestroy
  | DoInit bool bool join_data
  | OnDevices "round list"
  | OnWs "ws_client \<Rightarrow> ws_client"
  | OnOldWs ws_event
  | OnPeerError bool
  | OnPeerConnect
  | OnPeerClose
  | OnPeerStream stream "string option"
  | LateInit string "client_error + (stream \<times> string)"
  | LateUnmute "(stream \<times> string) option"
  | LateUnmuteAdded
  | LateShare string string "string option"
  | LateShareAdded string string
  | LateScreenOff "string list"
  | LateVideo blur "(stream \<times> string) option"
  | LateVideoAdded string
  | LateVideoSent string
  | LateAudio stream string
  | LateAudioOf stream string
  | LateAudioDone
  | LateMic bool string stream string
  | LateCamera blur string bool bool stream string
  | LateProbe string
  | LateFallback device
  | LateStats "(string, string) obj" "ice_pair list"

definition inr_or :: "'a \<Rightarrow> 'e + 'a \<Rightarrow> 'a" where
  "inr_or d r = (case r of Inl e \<Rightarrow> d | Inr x \<Rightarrow> x)"

fun client_do :: "(string \<Rightarrow> string option) \<Rightarrow> client_op \<Rightarrow> calls_client \<Rightarrow> calls_client" where
  "client_do ty DoMute c = mute c"
| "client_do ty (DoUnmute mic) c = unmute mic c"
| "client_do ty (DoShare answer) c = fst (shareScreen answer c)"
| "client_do ty DoUnshare c = unshareScreen c"
| "client_do ty (DoStartVideo cam b) c = startVideo cam b c"
| "client_do ty DoStopVideo c = stopVideo c"
| "client_do ty DoRaiseHand c = raiseHand c"
| "client_do ty DoUnraiseHand c = unraiseHand c"
| "client_do ty (DoReact d) c = sendUserReaction d c"
| "client_do ty (DoDisconnect err) c = disconnect err c"
| "client_do ty (DoSetInput d store) c = fst (setAudioInputDevice d store c)"
| "client_do ty (DoSetOutput d store) c = setAudioOutputDevice d store c"
| "client_do ty (DoSetVideo d) c = fst (setVideoInputDevice d c)"
| "client_do ty DoDestroy c = destroy c"
| "client_do ty (DoInit secure av1 jd) c =
     inr_or (c\<lparr>cc_channelID := jd_channelID jd\<rparr>) (map_sum id snd (init_start secure av1 jd c))"
| "client_do ty (OnDevices rs) c = (case updateDevices rs c of None \<Rightarrow> c | Some (c', left) \<Rightarrow> c')"
| "client_do ty (OnWs f) c = client_ws ty f c"
| "client_do ty (OnOldWs e) c = on_ws_event ty e c"
| "client_do ty (OnPeerError t) c = on_peer_error t c"
| "client_do ty OnPeerConnect c = on_peer_connect c"
| "client_do ty OnPeerClose c = on_peer_close c"
| "client_do ty (OnPeerStream s t) c = on_peer_stream s t c"
| "client_do ty (LateInit plugin media) c = init_connect plugin media c"
| "client_do ty (LateUnmute mic) c = fst (unmute_resumed mic c)"
| "client_do ty LateUnmuteAdded c = unmute_added c"
| "client_do ty (LateShare sid t a) c = setScreenStream sid t a c"
| "client_do ty (LateShareAdded sid t) c = fst (share_added sid t c)"
| "client_do ty (LateScreenOff is) c = inr_or c (resume_screen_off is c)"
| "client_do ty (LateVideo b answer) c = fst (start_video_resumed b answer c)"
| "client_do ty (LateVideoAdded t) c = fst (start_video_added t c)"
| "client_do ty (LateVideoSent t) c = fst (start_video_sent t c)"
| "client_do ty (LateAudio s a) c = audio_granted s a c"
| "client_do ty (LateAudioOf s a) c = init_granted s a c"
| "client_do ty LateAudioDone c = init_finished c"
| "client_do ty (LateMic e old s a) c = fst (mic_switched e old s a c)"
| "client_do ty (LateCamera b old e seg s v) c = fst (camera_switched b old e seg s v c)"
| "client_do ty (LateProbe v) c = video_probed v c"
| "client_do ty (LateFallback d) c = update_outputs (cc_emit (CDeviceFallback True d) c)"
| "client_do ty (LateStats seen pairs) c = snd (fold gather_pair pairs (seen, c))"



section \<open>What is done changes nothing any more\<close>

text \<open>Without its peer and closed; it may have a websocket client, when an initialisation made one.\<close>

definition left :: "calls_client \<Rightarrow> bool" where
  "left c \<longleftrightarrow> cc_closed c \<and> \<not> cc_peer c"

definition same_end :: "calls_client \<Rightarrow> calls_client \<Rightarrow> bool" where
  "same_end c d \<longleftrightarrow> left d \<and> cc_peerOps d = cc_peerOps c \<and> cc_leavingWs d = cc_leavingWs c \<and>
     closes d = closes c"

definition socketless :: "calls_client \<Rightarrow> calls_client \<Rightarrow> bool" where
  "socketless c d \<longleftrightarrow> (cc_ws d = None) = (cc_ws c = None)"

lemma late_fields [simp]:
  "cc_closed (new_track k i c) = cc_closed c" "cc_emitted (new_track k i c) = cc_emitted c"
  "cc_ws (new_track k i c) = cc_ws c" "cc_leavingWs (new_track k i c) = cc_leavingWs c"
  "cc_emitted (upd_stream i f c) = cc_emitted c" "cc_ws (upd_stream i f c) = cc_ws c"
  "cc_leavingWs (upd_stream i f c) = cc_leavingWs c"
  by (simp_all add: new_track_def upd_stream_def Let_def)

lemma closes_cong: "cc_emitted d = cc_emitted c \<Longrightarrow> closes d = closes c"
  by (simp add: closes_def)

lemma closes_emit [simp]: "(\<And>err. e \<noteq> CClose err) \<Longrightarrow> closes (cc_emit e c) = closes c"
  by (simp add: closes_def)

lemma closes_same [simp]:
  "closes (new_track k i c) = closes c" "closes (upd_stream i f c) = closes c"
  "closes (upd_track i g c) = closes c" "closes (track_stop i c) = closes c"
  "closes (track_enable b i c) = closes c" "closes (cc_send x y b c) = closes c"
  "closes (peer_do p c) = closes c" "closes (stop_track_and_end i c) = closes c"
  "closes (cleanup c) = closes c"
  by (simp_all add: closes_def)




lemmas primitives = same_end_def left_def socketless_def closes_same closes_emit


definition quiet :: "calls_client \<Rightarrow> calls_client \<Rightarrow> bool" where
  "quiet c d \<longleftrightarrow> same_end c d \<and> socketless c d"




lemmas quiet_defs = quiet_def primitives








lemma quiet_upd [simp]:
  "quiet c (d\<lparr>cc_channelID := x0\<rparr>) = quiet c d" "quiet c (d\<lparr>cc_streams := x1\<rparr>) = quiet c d"
  "quiet c (d\<lparr>cc_stream := x2\<rparr>) = quiet c d" "quiet c (d\<lparr>cc_audioTrack := x3\<rparr>) = quiet c d"
  "quiet c (d\<lparr>cc_voiceTrackAdded := x4\<rparr>) = quiet c d" "quiet c (d\<lparr>cc_localVideoStream := x5\<rparr>) = quiet c d"
  "quiet c (d\<lparr>cc_videoTrackAdded := x6\<rparr>) = quiet c d" "quiet c (d\<lparr>cc_videoSenderTrackID := x7\<rparr>) = quiet c d"
  "quiet c (d\<lparr>cc_localScreenTrack := x8\<rparr>) = quiet c d" "quiet c (d\<lparr>cc_onCanvasEnded := x9\<rparr>) = quiet c d"
  "quiet c (d\<lparr>cc_segmenter := x10\<rparr>) = quiet c d" "quiet c (d\<lparr>cc_listening := x11\<rparr>) = quiet c d"
  "quiet c (d\<lparr>cc_connected := x12\<rparr>) = quiet c d" "quiet c (d\<lparr>cc_remoteVoiceTracks := x13\<rparr>) = quiet c d"
  "quiet c (d\<lparr>cc_remoteVideoTracks := x14\<rparr>) = quiet c d" "quiet c (d\<lparr>cc_remoteScreenTrack := x15\<rparr>) = quiet c d"
  "quiet c (d\<lparr>cc_currentAudioInputDevice := x16\<rparr>) = quiet c d" "quiet c (d\<lparr>cc_av1Codec := x17\<rparr>) = quiet c d"
  by (simp_all add: quiet_defs closes_def)




lemma granted_peer [simp]:
  "cc_peer (audio_granted s a d) = cc_peer d" "cc_peer (video_granted s v d) = cc_peer d"
  by (simp_all add: audio_granted_def video_granted_def)






section \<open>Which tracks can be live\<close>

definition lives :: "string set \<Rightarrow> calls_client \<Rightarrow> calls_client \<Rightarrow> bool" where
  "lives T c d \<longleftrightarrow> (\<forall>i. track_live d i \<longrightarrow> track_live c i \<or> i \<in> T)"


lemma lives_cong: "cc_tracks d' = cc_tracks d \<Longrightarrow> lives T c d' = lives T c d"
  by (simp add: lives_def track_live_def)

lemma lives_upd [simp]:
  "lives T c (cc_emit e d) = lives T c d" "lives T c (cc_send x y b d) = lives T c d"
  "lives T c (upd_stream i f d) = lives T c d" "lives T c (set_devices en d) = lives T c d"
  "lives T c (peer_do p d) = lives T c d"
  by (rule lives_cong; simp add: upd_stream_def set_devices_def Let_def peer_do_def cc_send_def cc_emit_def)+

lemma live_steps:
  "track_live (track_enable b j d) i = track_live d i"
  "track_live (audio_granted s a d) i = (i = a \<or> track_live d i)"
  "track_live (video_granted s a d) i = (i = a \<or> track_live d i)"
  "track_live (init_granted s a d) i = (i = a \<or> track_live d i)"
  by (auto simp: track_enable_get track_live_def audio_granted_def video_granted_def init_granted_def cc_emit_def
      split: option.split)


lemma lives_fields [simp]:
  "lives T c (d\<lparr>cc_channelID := x0\<rparr>) = lives T c d" "lives T c (d\<lparr>cc_streams := x1\<rparr>) = lives T c d"
  "lives T c (d\<lparr>cc_stream := x2\<rparr>) = lives T c d" "lives T c (d\<lparr>cc_audioTrack := x3\<rparr>) = lives T c d"
  "lives T c (d\<lparr>cc_voiceTrackAdded := x4\<rparr>) = lives T c d" "lives T c (d\<lparr>cc_localVideoStream := x5\<rparr>) = lives T c d"
  "lives T c (d\<lparr>cc_videoTrackAdded := x6\<rparr>) = lives T c d" "lives T c (d\<lparr>cc_videoSenderTrackID := x7\<rparr>) = lives T c d"
  "lives T c (d\<lparr>cc_localScreenTrack := x8\<rparr>) = lives T c d" "lives T c (d\<lparr>cc_onCanvasEnded := x9\<rparr>) = lives T c d"
  "lives T c (d\<lparr>cc_segmenter := x10\<rparr>) = lives T c d" "lives T c (d\<lparr>cc_listening := x11\<rparr>) = lives T c d"
  "lives T c (d\<lparr>cc_connected := x12\<rparr>) = lives T c d" "lives T c (d\<lparr>cc_remoteVoiceTracks := x13\<rparr>) = lives T c d"
  "lives T c (d\<lparr>cc_remoteVideoTracks := x14\<rparr>) = lives T c d" "lives T c (d\<lparr>cc_remoteScreenTrack := x15\<rparr>) = lives T c d"
  "lives T c (d\<lparr>cc_currentAudioInputDevice := x16\<rparr>) = lives T c d" "lives T c (d\<lparr>cc_av1Codec := x17\<rparr>) = lives T c d"
  "lives T c (d\<lparr>cc_ws := x18\<rparr>) = lives T c d"
  by (rule lives_cong; simp)+









lemma disconnect_left: "\<not> cc_closed c \<Longrightarrow> left (disconnect err c)"
  using disconnect_ended by (simp add: ended_def left_def)

section \<open>Properties\<close>





text \<open>
  What the browser grants after the client was disconnected to an \<open>unmute\<close> or a \<open>startVideo\<close> that was
  waiting for it is never stopped: the microphone is live, and the camera is live and on, while both methods
  throw for want of a peer.\<close>
theorem late_grants_stay_live:
  assumes "\<not> cc_closed c" "\<not> blurs b"
  shows "let d = disconnect err c
         in track_live (client_do ty (LateUnmute (Some (s, a))) d) a \<and>
            obj_get (cc_tracks (client_do ty (LateVideo b (Some (s, a))) d)) a =
              Some \<lparr>tk_kind = VideoTrack, tk_enabled = True, tk_live = True\<rparr> \<and>
            snd (unmute_resumed (Some (s, a)) d) \<noteq> None \<and> snd (start_video_resumed b (Some (s, a)) d) \<noteq> None"
  using disconnect_left [OF assms(1), of err] assms(2)
  by (auto simp: unmute_resumed_def start_video_resumed_def left_def live_steps Let_def track_enable_get)
    (simp add: video_granted_def)

lemma late_grants_stay_live_witness:
  "track_live (client_do (\<lambda>_. None) (LateUnmute (Some (\<lparr>st_id = ''n'', st_tracks = [''b'']\<rparr>, ''b'')))
     (disconnect None (new_client plain_config 5))) ''b''"
  by (rule late_grants_stay_live [where b = no_blur, unfolded Let_def, THEN conjunct1])
    (simp_all add: new_client_def no_blur_def blurs_def)

end
