(* ===== verification/JoinAttempt.thy ===== *)
theory JoinAttempt imports Convergence begin

text \<open>
  How long an attempt to join a call lasts, and what may be asked for meanwhile. \<open>connectToCall\<close> of
  \<open>webapp/src/index.tsx\<close> does nothing while the client is connecting. The marker is set before the first
  wait, and many parts of the plugin reset it: the client's listeners, the answers of the desktop app, the
  failure of the client's \<open>init\<close>, the reset of the store when the host application's websocket comes
  back, the plugin's removal. This theory follows an attempt through all of them, in any order.
\<close>

section \<open>What happens during an attempt\<close>

text \<open>
  \<open>Dispatched\<close>: any action of the views, of the timers or of the requests that were under way.
\<close>

datatype attempt_event =
    Asked host_window connect_args "string option"
  | TurnAnswer "error + string list" client_config connect_args
  | DesktopAnswer host_window "error + (string \<times> string \<times> string option)"
  | DesktopError string "string option"
  | InitFailure string
  | ClientSays client_event
  | ServerSays server_event
  | WindowSays host_window answers bool window_message
  | Reconnected
  | Unloaded
  | Dispatched action

fun attempt_step :: "attempt_event \<Rightarrow> env \<Rightarrow> env" where
  "attempt_step (Asked h a t) e = fst (connectToCall h a t e)"
| "attempt_step (TurnAnswer r cf a) e = turn_answered r cf a e"
| "attempt_step (DesktopAnswer h r) e = desktop_answered h r e"
| "attempt_step (DesktopError err call) e = onCallsError err call e"
| "attempt_step (InitFailure ch) e = init_failed ch e"
| "attempt_step (ClientSays v) e = on_client_event v e"
| "attempt_step (ServerSays ev) e = handle_event ev e"
| "attempt_step (WindowSays h ans same m) e = fst (windowEventHandler h ans same m e)"
| "attempt_step Reconnected e = ws_reconnected e"
| "attempt_step Unloaded e = unload e"
| "attempt_step (Dispatched a) e = dispatch a e"

definition attempt_run :: "attempt_event list \<Rightarrow> env \<Rightarrow> env" where
  "attempt_run = fold attempt_step"

definition is_asked :: "attempt_event \<Rightarrow> bool" where
  "is_asked x = (case x of Asked h a t \<Rightarrow> True | _ \<Rightarrow> False)"

section \<open>What ends it\<close>

text \<open>The client is taken away.\<close>

definition loses_client :: "env \<Rightarrow> env \<Rightarrow> bool" where
  "loses_client e e' \<longleftrightarrow> ev_client e \<noteq> None \<and> ev_client e' = None"

fun message_ends :: "host_window \<Rightarrow> window_message \<Rightarrow> env \<Rightarrow> env \<Rightarrow> bool" where
  "message_ends h (MJoinedCall call sid ty) e e' = (\<not> hw_joinCall h)"
| "message_ends h (MCallsError err msg call) e e' = (err = ''client-error'' \<and> \<not> hw_onCallsError h)"
| "message_ends h (MRunSlashCommand msg args) e e' = loses_client e e'"
| "message_ends h _ e e' = False"

fun attempt_ends :: "attempt_event \<Rightarrow> env \<Rightarrow> bool" where
  "attempt_ends (Asked h a t) e = False"
| "attempt_ends (TurnAnswer r cf a) e = False"
| "attempt_ends (DesktopAnswer h r) e = (case r of Inl err \<Rightarrow> False | Inr joined \<Rightarrow> True)"
| "attempt_ends (DesktopError err call) e = True"
| "attempt_ends (InitFailure ch) e = True"
| "attempt_ends (ClientSays v) e = (case v of CConnect \<Rightarrow> True | CClose err \<Rightarrow> True | _ \<Rightarrow> False)"
| "attempt_ends (ServerSays ev) e = loses_client e (handle_event ev e)"
| "attempt_ends (WindowSays h ans same m) e = (same \<and> message_ends h m e (fst (windowEventHandler h ans same m e)))"
| "attempt_ends Reconnected e = (ev_client e = None \<and> channelIDForCurrentCall (getState e) = [])"
| "attempt_ends Unloaded e = True"
| "attempt_ends (Dispatched a) e = (case a of UNINIT \<Rightarrow> True | CLIENT_CONNECTING b \<Rightarrow> \<not> b | _ \<Rightarrow> False)"

fun attempt_lasts :: "attempt_event list \<Rightarrow> env \<Rightarrow> bool" where
  "attempt_lasts [] e = True"
| "attempt_lasts (x # xs) e = (\<not> attempt_ends x e \<and> attempt_lasts xs (attempt_step x e))"

section \<open>What leaves the marker alone\<close>

abbreviation connecting :: "env \<Rightarrow> bool" where
  "connecting e \<equiv> rs_clientConnecting (ev_plugin e)"

definition unmarked :: "action \<Rightarrow> bool" where
  "unmarked a = (case a of UNINIT \<Rightarrow> False | CLIENT_CONNECTING b \<Rightarrow> False | _ \<Rightarrow> True)"

lemma unmarked_keeps [simp]: "unmarked a \<Longrightarrow> clientConnecting b a = b"
  by (cases a) (simp_all add: unmarked_def)

lemma unmarked_run: "list_all unmarked as \<Longrightarrow> rs_clientConnecting (foldl store_dispatch st as) = rs_clientConnecting st"
  by (induction as arbitrary: st) simp_all

text \<open>Between two moments of an attempt: no client is made, and the marker is reset exactly by losing the client.\<close>

definition same_attempt :: "env \<Rightarrow> env \<Rightarrow> bool" where
  "same_attempt e0 e \<longleftrightarrow> ev_batch e = ev_batch e0 \<and> (ev_client e0 = None \<longrightarrow> ev_client e = None) \<and>
     connecting e = (connecting e0 \<and> \<not> loses_client e0 e)"

lemma same_refl [simp]: "same_attempt e e"
  by (auto simp: same_attempt_def loses_client_def)

lemma same_trans: "same_attempt e0 e \<Longrightarrow> same_attempt e e' \<Longrightarrow> same_attempt e0 e'"
  by (auto simp: same_attempt_def loses_client_def)

lemma same_simps [simp]:
  "unmarked a \<Longrightarrow> same_attempt e0 (dispatch a e) = same_attempt e0 e"
  "same_attempt e0 (effect x e) = same_attempt e0 e" "same_attempt e0 (await k e) = same_attempt e0 e"
  "same_attempt e0 (draw_id e) = same_attempt e0 e" "same_attempt e0 (setTimeout t d e) = same_attempt e0 e"
  by (simp_all add: same_attempt_def loses_client_def effect_def await_def draw_id_def setTimeout_def)

lemma same_batch: "same_attempt e0 e \<Longrightarrow> batch_ok e0 \<Longrightarrow> list_all unmarked as \<Longrightarrow> same_attempt e0 (dispatch_batch as e)"
  by (simp add: same_attempt_def loses_client_def dispatch_batch_def batch_ok_def unmarked_run)

lemma same_disconnect: "same_attempt e (disconnect_client err e)"
  by (auto simp: disconnect_client_eq on_client_close_def same_attempt_def loses_client_def Let_def effect_def
      dispatch_def split: option.splits)

lemma same_call:
  assumes "\<And>c. drop (length (cc_emitted c)) (cc_emitted (f c)) \<in> {[], [CMute], [CLowerHand]}"
  shows "same_attempt e (client_call f e)"
proof (cases "ev_client e")
  case (Some c)
  have "same_attempt e (e\<lparr>ev_client := Some (f c)\<rparr>)" using Some by (simp add: same_attempt_def loses_client_def)
  with Some assms [of c] show ?thesis by (auto simp: client_call_def self_event_def unmarked_def)
qed (simp add: client_call_def)

lemma same_thunks [simp]:
  "same_attempt e0 (removeIncomingCallNotification k e) = same_attempt e0 e"
  "same_attempt e0 (loadProfilesByIdsIfMissing ids e) = same_attempt e0 e"
  "same_attempt e0 (incomingCallOnChannel c k u s e) = same_attempt e0 e"
  "same_attempt e0 (followThread c t e) = same_attempt e0 e"
  "same_attempt e0 (show_notice n e) = same_attempt e0 e"
  by (simp_all add: removeIncomingCallNotification_def stopRingingForCall_def loadProfilesByIdsIfMissing_def
      incomingCallOnChannel_def incoming_with_channel_def add_incoming_def followThread_def show_notice_def
      unmarked_def Let_def split: option.splits)

lemma same_load: "batch_ok e \<Longrightarrow> same_attempt e (loadCallState ch d e)"
  by (auto simp: loadCallState_def call_state_actions_def Let_def unmarked_def intro!: same_batch)

lemma same_ended: "same_attempt e (callEnd ch e)"
  using same_disconnect by (simp add: callEnd_def Let_def unmarked_def)

lemma same_left: "same_attempt e (userLeft ch u s e)"
proof -
  have "same_attempt e (dispatch (USER_LEFT ch u s) e)" by (simp add: unmarked_def)
  with same_trans [OF this same_ended] show ?thesis by (simp add: userLeft_def Let_def)
qed

lemma same_commands:
  "same_attempt e (client_call mute e)" "same_attempt e (client_call unshareScreen e)"
  "same_attempt e (client_call unraiseHand e)"
  using host_command_emits(1-3) by (blast intro: same_call)+

lemma same_event:
  assumes "batch_ok e"
  shows "same_attempt e (handle_event ev e)"
  by (cases ev)
    (simp_all add: unmarked_def handleUserJoined_def handleUserLeft_def same_left handleUserMuted_def
      handleUserUnmuted_def handleUserVoiceOn_def handleUserVoiceOff_def handleCallStart_def handleCallEnd_def
      same_ended handleUserScreenOn_def handleUserScreenOff_def handleUserRaisedHand_def handleUserUnraisedHand_def
      handleUserReaction_def handleCallHostChanged_def handleCallJobState_def handleUserDismissedNotification_def
      handleCallState_def same_load [OF assms] handleUserRemovedFromChannel_def same_disconnect handleCaption_def
      handleHostMute_def handleHostScreenOff_def handleHostLowerHand_def handleHostRemoved_def same_commands
      handleUserVideoOn_def handleUserVideoOff_def Let_def split: option.splits)

lemma same_modal [simp]: "same_attempt e0 (displayGenericErrorModal t m e) = same_attempt e0 e"
  by (simp add: displayGenericErrorModal_def)

lemma same_leave: "same_attempt e (fst (slash_leave h args e))"
  using same_disconnect by (simp add: slash_leave_def handled_def Let_def)

lemma joins_nothing:
  assumes "connecting e" "joinCall h a t e = Inr (e1, w)"
  shows "same_attempt e e1"
  using assms
  by (auto simp: joinCall_def Let_def connecting_blocks displayFreeTrial_def displayCallsTestModeUser_def
      split: if_splits)

lemma same_join_answer:
  assumes "connecting e1" "same_attempt e e1"
  shows "same_attempt e (fst (case joinCall h a t e1 of
      Inl err \<Rightarrow> handled (displayGenericErrorModal title (text err) e1) | Inr (e2, w) \<Rightarrow> (e2, w, SkHandled)))"
proof (cases "joinCall h a t e1")
  case (Inr r)
  with joins_nothing [OF assms(1)] same_trans [OF assms(2)] show ?thesis by (cases r) simp
qed (use assms in simp)

lemma same_join:
  assumes "connecting e"
  shows "same_attempt e (fst (slash_join ans (joinCall h) flds args e))"
  using assms by (simp add: slash_join_def Let_def same_join_answer)

lemma same_slash:
  assumes "connecting e"
  shows "same_attempt e (fst (slashCommandsHandler h ans (joinCall h) msg args e))"
proof -
  have "same_attempt e (fst (slash_end ans args e))" "same_attempt e (fst (slash_stats ans e))"
    "same_attempt e (fst (slash_logs ans args e))" "same_attempt e (fst (slash_recording ans flds msg args e))" for flds
    by (auto simp: slash_end_def slash_stats_def slash_logs_def slash_recording_def handled_def Let_def endCall_def startCallRecording_def stopCallRecording_def split: sum.split option.split)
  with same_join [OF assms] same_leave show ?thesis by (simp add: slashCommandsHandler_def Let_def)
qed

lemma connectCall_batch: "ev_batch (fst (connectCall h a e)) = ev_batch e"
  by (simp add: connectCall_def start_client_def setClientConnecting_def)

section \<open>A step\<close>

lemma message_step:
  assumes "connecting e" "batch_ok e"
  shows "connecting (attempt_step (WindowSays h ans same m) e) = (\<not> attempt_ends (WindowSays h ans same m) e) \<and>
    batch_ok (attempt_step (WindowSays h ans same m) e)"
proof (cases "same")
  case True
  show ?thesis
  proof (cases m)
    case (MConnectCall ch)
    let ?c = "fst (connectCall h \<lparr>ca_channelID = ch, ca_title = None, ca_rootId = None\<rparr> e)"
    have "connecting ?c" "batch_ok ?c"
      using assms by (simp_all add: connectCall_keeps_connecting batch_ok_def connectCall_batch)
    with True MConnectCall show ?thesis
      by (cases "connectCall h \<lparr>ca_channelID = ch, ca_title = None, ca_rootId = None\<rparr> e")
        (simp add: windowEventHandler_def followThread_def Let_def batch_ok_def)
  next
    case (MRunSlashCommand msg args)
    obtain e1 w q where s: "slashCommandsHandler h ans (joinCall h) msg args e = (e1, w, q)"
      by (metis prod_cases3)
    have "same_attempt e e1" using same_slash [OF assms(1), of h ans msg args] s by simp
    with s True MRunSlashCommand assms show ?thesis
      by (simp add: windowEventHandler_def Let_def same_attempt_def batch_ok_def)
  qed (use True assms in \<open>simp_all add: windowEventHandler_def Let_def batch_ok_def showScreenSourceModal_def
        handleDesktopJoinedCall_def showSwitchCallModal_def displayCallErrorModal_def setClientConnecting_def
        unmarked_def\<close>)
qed (use assms in \<open>simp add: windowEventHandler_def Let_def\<close>)

lemma step_marks:
  assumes "connecting e" "batch_ok e"
  shows "connecting (attempt_step x e) = (\<not> attempt_ends x e) \<and> batch_ok (attempt_step x e)"
proof (cases x)
  case (ClientSays v)
  with assms show ?thesis
    by (cases v) (auto simp: on_client_close_def self_event_def batch_ok_def unmarked_def Let_def split: option.splits)
next
  case (ServerSays ev)
  with assms same_event [OF assms(2), of ev] show ?thesis by (simp add: same_attempt_def batch_ok_def)
next
  case (WindowSays h ans same m)
  with message_step [OF assms] show ?thesis by simp
next
  case Unloaded
  have "ev_batch (disconnect_client None e) = ev_batch e" using same_disconnect by (simp add: same_attempt_def)
  with Unloaded assms show ?thesis by (simp add: unload_def batch_ok_def)
next
  case (Dispatched a)
  with assms show ?thesis by (cases a) (simp_all add: batch_ok_def)
qed (use assms in \<open>auto simp: connecting_blocks turn_answered_def start_client_def desktop_answered_def
      handleDesktopJoinedCall_def onCallsError_def init_failed_def ws_reconnected_def batch_ok_def Let_def
      setClientConnecting_def showSwitchCallModal_def displayCallErrorModal_def split: sum.splits\<close>)

lemma attempt_goes_on:
  assumes "connecting e" "batch_ok e" "attempt_lasts xs e"
  shows "connecting (attempt_run xs e)" "batch_ok (attempt_run xs e)"
  using assms by (induction xs e rule: attempt_lasts.induct) (simp_all add: attempt_run_def step_marks)

lemma asked_nothing: "connecting e \<Longrightarrow> is_asked x \<Longrightarrow> attempt_step x e = e"
  by (auto simp: is_asked_def connecting_blocks split: attempt_event.splits)

lemma not_asked:
  assumes "connecting e" "batch_ok e" "attempt_lasts xs e"
  shows "attempt_run xs e = attempt_run (filter (\<lambda>x. \<not> is_asked x) xs) e"
  using assms
proof (induction xs e rule: attempt_lasts.induct)
  case (2 x xs e)
  then show ?case
    using step_marks [of e x] asked_nothing [of e x] by (cases "is_asked x") (simp_all add: attempt_run_def)
qed simp

lemma joined_batch:
  assumes "batch_ok e"
  shows "batch_ok (fst (connectToCall h a t e))"
proof -
  obtain e1 w where c: "connectCall h a (setClientConnecting True e) = (e1, w)" by fastforce
  have "ev_batch e1 = ev_batch e"
    using connectCall_batch [of h a "setClientConnecting True e"] c by (simp add: setClientConnecting_def)
  with c assms show ?thesis
    by (simp add: connectToCall_def Let_def batch_ok_def followThread_def showSwitchCallModal_def)
qed

section \<open>Properties\<close>

text \<open>
  C27. An attempt to join. A user who is in no call and asks to join one is connecting from then on, through
  whatever happens in any order, until something ends the attempt; and exactly these do: the client connects, closes,
  is taken away by an event of the server or by a slash command, or fails to start; the desktop app answers, or
  reports an error; the store is reset, as it is when the host application's websocket comes back while there is no
  client yet; or the plugin is removed. For as long as it lasts, asking again, for this channel or another, changes
  nothing, now or later: all goes as if it had not been asked.\<close>
theorem connecting_once:
  assumes "\<not> rs_clientConnecting (ev_plugin e)" "ev_client e = None"
    and "channelIDForCurrentCall (getState e) = []" "batch_ok e"
    and "attempt_lasts xs (fst (connectToCall h a t e))"
  shows "let e1 = fst (connectToCall h a t e); e2 = attempt_run xs e1
    in rs_clientConnecting (ev_plugin e2) \<and> (\<forall>h' a' t'. connectToCall h' a' t' e2 = (e2, Finished)) \<and>
       e2 = attempt_run (filter (\<lambda>x. \<not> is_asked x) xs) e1 \<and>
       (\<forall>x. rs_clientConnecting (ev_plugin (attempt_step x e2)) = (\<not> attempt_ends x e2))"
proof -
  let ?e1 = "fst (connectToCall h a t e)"
  note start = connectToCall_connects [OF assms(1-3), of h a t] joined_batch [OF assms(4)]
  note lasts = attempt_goes_on [OF start assms(5)] not_asked [OF start assms(5)]
  show ?thesis
    unfolding Let_def using lasts(1,2) step_marks [OF lasts(1,2)]
    by (intro conjI allI connecting_blocks lasts(3)) simp_all
qed

definition other_args :: connect_args where
  "other_args = \<lparr>ca_channelID = ''other'', ca_title = None, ca_rootId = None\<rparr>"

theorem connecting_once_witness:
  "let e2 = attempt_run [ServerSays (UserMuted dm_meta ''u'' ''s''), Asked (sample_window False) other_args None]
       (fst (connectToCall (sample_window False) dm_args None sample_env))
   in connectToCall (sample_window False) other_args None e2 = (e2, Finished) \<and>
      \<not> rs_clientConnecting (ev_plugin (attempt_step (ClientSays CConnect) e2))"
proof -
  let ?xs = "[ServerSays (UserMuted dm_meta ''u'' ''s''), Asked (sample_window False) other_args None]"
  have "attempt_lasts ?xs (fst (connectToCall (sample_window False) dm_args None sample_env))"
    by (simp add: handleUserMuted_def loses_client_def del: not_None_eq)
  note once = connecting_once [OF sample_idle sample_batch this, unfolded Let_def]
  moreover have "attempt_ends (ClientSays CConnect) e2" for e2 by simp
  ultimately show ?thesis unfolding Let_def by blast
qed

end
