(* ===== verification/Spec2Isabelle.thy ===== *)
theory Spec2Isabelle imports
  Plugin IncomingCalls RecordingPrompt JoinLinks Support SlashCommands
  Devices WidgetSteps ExpandedSteps ExpandedRender Participants UserSettings Panels
  Standalone AdminSections IncomingViews Buttons Posts Lifecycle Statistics Segmenter
  Convergence PageConvergence HostCalls Toolbars ClientEnd JoinAttempt
begin

text \<open>
  A verification development of the Mattermost Calls plugin's TypeScript: the web application under
  \<open>webapp/src\<close> (the store that the interface is drawn from, the client that holds the connection and
  the media of a call, the code between them and the server, the interface itself) and the
  pages of the recorder and of the desktop widget under \<open>standalone/src\<close>, which reuse it.

  How the parts interact. The server tells every web application of every call over the host
  application's websocket; a handler (\<open>websocket_handlers.ts\<close>) turns each event into actions for the
  store, timers that take back what is shown for a while, sounds, and commands to the client. The
  store's reducers (\<open>reducers.ts\<close>) keep what is known of each channel; selectors (\<open>selectors.ts\<close>)
  read it. Thunks (\<open>actions.ts\<close>) ask the server for things. A user who joins gets a calls client
  (\<open>client.ts\<close>, created in \<open>index.tsx\<close>), which has a websocket of its own (\<open>websocket.ts\<close>) and a
  media peer; its events come back to the store through listeners. The widget, the window that it
  expands to and the recorder's page read the same store and the same client. The plugin object
  (\<open>index.tsx\<close>) registers all of this with the host application and takes it back. The server
  itself, in Go, and the media peer, of another package, are outside.

  Theories, in the order of the code.
  \<^item> \<open>Prelude\<close>: JavaScript objects as association lists with \<open>obj_get\<close>, \<open>obj_set\<close>, \<open>obj_del\<close>; errors;
    JSON values; lemmas on folds. \<open>CallTypes\<close>: the records and actions (\<open>types.ts\<close>,
    \<open>action_types.ts\<close>, \<open>constants.ts\<close>), with \<open>touches\<close>, the channels that an action is about.
    \<open>JsSort\<close>: the stable sort of the language, under a comparator that comes from a key.
  \<^item> \<open>Slices\<close>: the interfaces of the reducers as locales. \<open>inv_slice\<close> is a step function with an
    invariant, \<open>channel_slice\<close> one whose steps read and write the entry of a channel only (which
    makes interleaving irrelevant), \<open>stable_steps\<close> one that never takes something back,
    \<open>timed_items\<close> a list whose items a timer removes for good.
  \<^item> \<open>SessionsSlice\<close>, \<open>StreamSlices\<close>, \<open>CallSlices\<close>, \<open>UiSlices\<close>: the reducers, one function each, by
    the names of the code; \<open>RootReducer\<close> combines them. A reducer that can throw returns a sum.
    Lemmas: the roster of sessions is refined by the sessions slice, sessions are filed under
    their own ids, field events are isolated, the reaction stream holds the latest 50, captions
    stay until their own timer, the sharer of a screen and the recently joined users follow their
    specifications, and channels are independent in the whole store.
  \<^item> \<open>WebSocketClient\<close>: \<open>websocket.ts\<close>, one definition per method and callback, and \<open>ws_step\<close>, what
    the browser, the clock and the owner can do to a client. Lemmas: at most one connection,
    leaving is the last message, closing is final, an outage ends and creates at most ten sockets.
  \<^item> \<open>CallsClient\<close>: \<open>client.ts\<close> on a store of media tracks. Lemmas: disconnecting closes once and stops
    every track, sharing a screen and stopping, the camera is released. \<open>ClientEnd\<close>: what a disconnected client
    still does. \<open>client_op\<close> has every method, every event and every part of a method that goes on after an
    \<open>await\<close>, \<open>init\<close> included. Lemmas: the end is final for the peer, for the old websocket and for the tracks
    that the client held, in any order of operations, with the exceptions that the code has: an \<open>init\<close> without its devices
    opens a websocket, and what the browser grants late to \<open>unmute\<close> or \<open>startVideo\<close> stays live.
  \<^item> \<open>HostApp\<close>: what the plugin reads of the host application. \<open>Selectors\<close>, \<open>Utils\<close>: \<open>selectors.ts\<close>,
    \<open>utils.ts\<close>; the order of participants is a stable sort by a key, retries are bounded, call
    posts are read back as written.
  \<^item> \<open>Store\<close>: the environment of thunks: the plugin's store, the host application, the client with
    its listeners, the clock, pending timers, pending continuations, effects in order. \<open>Actions\<close>,
    \<open>Handlers\<close>: the thunks and the handlers of websocket events.
  \<^item> \<open>Connect\<close>, \<open>SlashCommands\<close>, \<open>Plugin\<close>: the plugin object of \<open>index.tsx\<close> with \<open>desktop.ts\<close> and
    \<open>slash_commands.tsx\<close>: joining a call, commands, messages to the window, the table of events,
    loading the channels. Lemmas: calls that are off cannot be started, every event changes the channel that it names only, loading over HTTP never changes
    the current call, recordings are started and stopped by the host only.
    \<open>JoinAttempt\<close> follows an attempt to join through whatever happens meanwhile: it lasts until one of the events
    of \<open>attempt_ends\<close>, and asking again until then changes nothing.
  \<^item> \<open>IncomingCalls\<close>, \<open>RecordingPrompt\<close>, \<open>JoinLinks\<close>, \<open>Support\<close>: the hooks of incoming calls
    (\<open>components/incoming_calls/hooks.ts\<close>, \<open>desktop_notifications.ts\<close>), the prompt about recordings
    (\<open>recording_info_prompt.tsx\<close>, \<open>clock_skew.ts\<close>), links that join a call, the log buffer and the
    shortcuts.

  \<^item> \<open>Devices\<close>: the rest of \<open>client.ts\<close>: devices that come and go, switching microphone and camera,
    blur. Lemmas: following a change of devices settles, switching keeps the user muted. \<open>Alerts\<close>:
    the alerts of a call and the lock of the one about quality, with a locale \<open>alert_view\<close> that the
    widget and the expanded view interpret.
  \<^item> \<open>CallWidget\<close>, \<open>WidgetView\<close>, \<open>WidgetSteps\<close>: \<open>call_widget/component.tsx\<close>: state and handlers, what each
    render method shows, and the step function with its invariants: one menu open at most, the
    widget stays on the page when dragged, a dismissed warning stays away.
  \<^item> \<open>ExpandedView\<close>, \<open>ExpandedSteps\<close>, \<open>ExpandedRender\<close>: \<open>expanded_view/component.tsx\<close>, in the same
    split: push to talk with the releases that end it and those that do not, sharing from a window of its own,
    agreement with what the widget shows.
  \<^item> \<open>Participants\<close>, \<open>UserSettings\<close>, \<open>Panels\<close>: rows, tiles and the host's menu; the settings of devices;
    posts, toasts, dialogs and streams. \<open>Buttons\<close>: buttons, prompts, banners, the reaction bar
    (\<open>reaction_button.tsx\<close>), the entries of the channel header. \<open>Dialogs\<close>: \<open>generic_modal.tsx\<close> as a
    step function, the dialogs made from it, \<open>dot_menu.tsx\<close>. \<open>IncomingViews\<close>: the cards of calls. \<open>Posts\<close>: the
    posts about recordings and trials, the subtitles of a recording, rows of pictures of participants.
  \<^item> \<open>Lifecycle\<close>: \<open>initialize\<close>, \<open>onActivate\<close> and \<open>uninitialize\<close> of \<open>index.tsx\<close> over a registry that numbers
    registrations; \<open>plugin_runs\<close> is the life of the plugin, and by induction over it each
    registration can be taken back and the channel header has one entry of a kind.
  \<^item> \<open>StandaloneTheme\<close>, \<open>Standalone\<close>: \<open>theme_utils.ts\<close> and \<open>common.ts\<close>; \<open>init.ts\<close>, the two pages, their
    handlers of events and their store of pictures. Lemmas: the switch of \<open>init.ts\<close>, written
    case by case, handles the events that it takes as the table of \<open>index.tsx\<close> does and ignores the others, so what holds of the plugin's handlers holds of them (locale
    \<open>client_listeners\<close>, interpreted for the plugin and for a page); a page starts or leaves nothing
    running; what a recording shows is what the widget shows.
  \<^item> \<open>AdminSettings\<close>, \<open>AdminSections\<close>: the settings of the system console, which convert a stored value
    to what is shown and a choice to what is stored. The locale \<open>setting_form\<close> states the contract of
    a setting (what the environment sets is fixed and shown, a choice is shown again) and is
    interpreted for every kind of setting that keeps it. The settings of a page of the console are mounted together,
    and the effects of five of them write to the configuration that others read; \<open>console\<close> is what they read
    then, and the exceptions to the rule that the environment wins follow from it. Sections show their settings exactly when
    one of them would be shown.
  \<^item> \<open>Statistics\<close>: the panels of the site's statistics (\<open>stats.tsx\<close>). \<open>Segmenter\<close>: the segmenter of the
    background with its worker, and the preview of the camera that starts and stops it: one segmenter at a time, which works
    unless another took its canvas before.
  \<^item> \<open>Toolbars\<close>: the bars of buttons that the two views of a call hand to \<open>WidgetButton\<close> and
    \<open>ControlsButton\<close>, compared with the keys of \<open>shortcuts.ts\<close> that they show, the bar of reactions and
    the menu for leaving included; the size of the widget's window, its
    observers and listeners, the title of the expanded view's window. \<open>HostCalls\<close>: what \<open>utils.ts\<close>,
    \<open>actions.ts\<close> and \<open>index.tsx\<close> ask of the browser and of the host application: streams of a screen,
    sounds, messages to the desktop app, configuration, threads, the mounting of the widget, the interval of
    \<open>timestamp.tsx\<close>.

  What the windows agree on. \<open>Convergence\<close> has an abstract call (\<open>shared_call\<close>: the call, its host,
    who shares a screen, who attends with which fields) and \<open>follow\<close>, what an event of the server makes
    of it. Theorem \<open>store_follows_server\<close>: the handlers, thunks and reducers together implement
    \<open>follow\<close>, with timers firing in between. Theorem \<open>windows_converge\<close>: after the state of a call, windows that
    are sent the same events show the same call, whatever they had seen before and whichever client they
    have. \<open>PageConvergence\<close> (locale \<open>quiet_listeners\<close>, extending \<open>client_listeners\<close>) adds the recorder's page
    and the widget's. The hypotheses: \<open>window_ok\<close> (batches are applied in order, a client is in a
    channel, the timers are those that the handlers set) holds of every step's result again, and \<open>timely_run\<close>
    is the server's order: what it says of a session is said while the session is in the call. The host's
    commands to one client are not events of the call, since that client shows them at once.

  State and effects. State is explicit: a slice is an association list, \<open>root_state\<close> the store,
  \<open>ws_client\<close> and \<open>calls_client\<close> the two objects, \<open>env\<close> the whole window. Shared objects that the code
  mutates live in a store of their own (media tracks) or in a field with a reference to it (the
  data of the current call). An \<open>await\<close> splits a function: what is left is a continuation in the
  environment or a value that the first part returns, and the answer is an argument of the second.
  Timers and effects are lists, so that properties can speak of their order.

  Parameters. The reducer of batches (\<open>ev_batch\<close>, hypothesis \<open>batch_ok\<close>: it applies the actions in
  order), the ids of \<open>generateId\<close> (\<open>ev_id\<close>, hypothesis \<open>ids_ok\<close>: they differ), the host
  application's selectors and names (\<open>mm_state\<close>), the parser of versions (\<open>hw_parseSemVer\<close>), the
  browser's answers to requests for media. Witnesses instantiate them.

  Bounds. The reaction stream holds 50 reactions and the stored logs \<open>MAX_ACCUMULATED_LOG_SIZE\<close>
  characters; both are the code's. An outage is given up after 30 seconds: with retries after 1, 1.5, 2 and
  so on seconds these are at most ten. \<open>retry_from\<close> recurses on the attempts that are left, which
  is the code's own bound, and a page is started once per answer of the server. A change of devices
  is followed for at most three rounds, which is proved to be enough. No definition needs fuel.
  Numbers are \<open>int\<close>: times and counters stay far below the range where the language's numbers lose
  precision; \<open>NaN\<close> is \<open>None\<close> where it can arise. Sizes of tiles, opacities and averages of minutes are
  in hundredths, rounded as the code rounds them; bytes of a picture are \<open>8 word\<close>.

  Not modelled. Styles, pictures and help texts, and where the browser places an element. What the
  framework does beyond running an effect whose dependencies changed and cleaning up before. The
  compositing of the canvas and the segmentation, both of others. In \<open>utils.ts\<close> the functions that nothing
  calls: \<open>getScreenResolution\<close> with \<open>getPixelRatio\<close>, and \<open>setSDPMaxVideoBW\<close>, which edits a session description
  by regular expressions. Likewise \<open>renderVideoContainer\<close> of the widget. Loading the modules
  (\<open>entry.tsx\<close>, \<open>webapp_globals.ts\<close>, \<open>rest_client.ts\<close>), generated tables, the server, the load test and
  the end to end tests.
\<close>

end
